(* ===== verification/Prelude.thy ===== *)
theory Prelude
  imports Complex_Main "HOL-Library.List_Lexorder" "HOL-Library.Char_ord"
begin

text \<open>
  The vocabulary every component of the development shares: identifiers and
  time, the application's exceptions as values (\<open>exn\<close>, raised as
  \<open>Inl\<close>), JSON values as they sit in JSONB columns, the pieces of
  Python's string and integer library the code uses, and generic lemmas on
  lists and on the result type. The named collections \<open>guard_simps\<close> and
  \<open>row_simps\<close> are filled by the component theories.
\<close>

named_theorems guard_simps \<open>unfolding of the guards that an operation checks first\<close>
named_theorems row_simps \<open>effect of a repository call on the rows of a table\<close>

section \<open>Identifiers, time, money\<close>

text \<open>A UUID is its canonical text (what \<open>str(uuid)\<close> gives).\<close>

type_synonym uuid = string

text \<open>
  An aware datetime is the number of microseconds since the epoch (the
  resolution of Python's datetime and of PostgreSQL's timestamptz).
\<close>

type_synonym time = int

definition seconds :: "int \<Rightarrow> time" where
  "seconds n = n * 1000000"

lemma seconds_mono [simp]: "seconds a \<le> seconds b \<longleftrightarrow> a \<le> b"
  by (simp add: seconds_def)

lemma seconds_less [simp]: "seconds a < seconds b \<longleftrightarrow> a < b"
  by (simp add: seconds_def)

lemma seconds_pos [simp]: "0 < seconds a \<longleftrightarrow> 0 < a"
  by (simp add: seconds_def)

lemma seconds_nonneg [simp]: "0 \<le> seconds a \<longleftrightarrow> 0 \<le> a"
  by (simp add: seconds_def)

section \<open>Exceptions as values\<close>

text \<open>
  The classes of \<open>core/exceptions.py\<close>, \<open>tm1/exceptions.py\<close> and
  \<open>ai/exceptions.py\<close> the modelled code raises, with the \<open>code\<close> attribute where
  the code overrides it, and the built-in exceptions that reach a caller. Message
  texts are not modelled, except the one of a provider error, which the choice to
  retry reads.
\<close>

datatype exn =
    NotFound
  | Conflict string
  | Validation
  | PermissionDenied
  | Authentication
  | RateLimited real
  | TM1Connection
  | TM1OutcomeUnknown
  | TM1Authentication
  | TM1NotFound
  | TM1ConnectionSuspended
  | IntegrityError
  | ValueError
  | KeyError
  | MultipleResults
  | TypeError
  | AIProvider string
  | AIProviderRateLimit
  | AIProviderAuthentication
  | QuotaExceeded
  | OtherError

type_synonym 'a result = "exn + 'a"

abbreviation CONFLICT :: string where "CONFLICT \<equiv> ''CONFLICT''"

definition bind_result :: "'a result \<Rightarrow> ('a \<Rightarrow> 'b result) \<Rightarrow> 'b result" where
  "bind_result r f = (case r of Inl e \<Rightarrow> Inl e | Inr x \<Rightarrow> f x)"

lemma bind_result_simps [simp]:
  "bind_result (Inl e) f = Inl e"
  "bind_result (Inr x) f = f x"
  by (simp_all add: bind_result_def)

lemma bind_result_Inr_iff:
  "bind_result r f = Inr y \<longleftrightarrow> (\<exists>x. r = Inr x \<and> f x = Inr y)"
  by (cases r) auto

lemma bind_result_InrE:
  assumes "bind_result r f = Inr y"
  obtains x where "r = Inr x" "f x = Inr y"
  using assms by (auto simp: bind_result_Inr_iff)

text \<open>A guard: raise unless the condition holds.\<close>

definition ensure :: "bool \<Rightarrow> exn \<Rightarrow> unit result" where
  "ensure b e = (if b then Inr () else Inl e)"

lemma ensure_simps [simp]:
  "ensure True e = Inr ()"
  "ensure False e = Inl e"
  "(ensure b e = Inr u) = b"
  "(ensure b e = Inl e') = (\<not> b \<and> e' = e)"
  by (auto simp: ensure_def)

section \<open>JSON values\<close>

text \<open>Numbers are exact here: JSONB stores a decimal, which is a rational.\<close>

datatype json =
    JNull
  | JBool bool
  | JInt int
  | JNum rat
  | JStr string
  | JArr "json list"
  | JObj "(string \<times> json) list"

fun json_get :: "json \<Rightarrow> string \<Rightarrow> json option" where
  "json_get (JObj kvs) k = map_of kvs k"
| "json_get _ k = None"

section \<open>Python strings and integers\<close>

definition chr_code :: "char \<Rightarrow> nat" where
  "chr_code c = of_char c"

definition is_digit :: "char \<Rightarrow> bool" where
  "is_digit c \<longleftrightarrow> 48 \<le> chr_code c \<and> chr_code c \<le> 57"

definition is_space :: "char \<Rightarrow> bool" where
  "is_space c \<longleftrightarrow> chr_code c = 32 \<or> (9 \<le> chr_code c \<and> chr_code c \<le> 13) \<or> (28 \<le> chr_code c \<and> chr_code c \<le> 31)"

definition lower_char :: "char \<Rightarrow> char" where
  "lower_char c = (if 65 \<le> chr_code c \<and> chr_code c \<le> 90 then char_of (chr_code c + 32) else c)"

definition upper_char :: "char \<Rightarrow> char" where
  "upper_char c = (if 97 \<le> chr_code c \<and> chr_code c \<le> 122 then char_of (chr_code c - 32) else c)"

text \<open>\<open>str.lower\<close>, \<open>str.upper\<close> and \<open>str.strip\<close> on ASCII text.\<close>

definition lower :: "string \<Rightarrow> string" where
  "lower s = map lower_char s"

definition upper :: "string \<Rightarrow> string" where
  "upper s = map upper_char s"

definition strip :: "string \<Rightarrow> string" where
  "strip s = rev (dropWhile is_space (rev (dropWhile is_space s)))"

lemma strip_Nil [simp]: "strip [] = []"
  by (simp add: strip_def)

lemma length_strip: "length (strip s) \<le> length s"
proof -
  have "length (dropWhile is_space (rev (dropWhile is_space s))) \<le> length (dropWhile is_space s)"
    using length_dropWhile_le [of is_space "rev (dropWhile is_space s)"] by simp
  also have "\<dots> \<le> length s" by (rule length_dropWhile_le)
  finally show ?thesis by (simp add: strip_def)
qed

text \<open>\<open>str(n)\<close> for a natural number, most significant digit first.\<close>

fun digits_of :: "nat \<Rightarrow> nat list" where
  "digits_of n = (if n < 10 then [n] else digits_of (n div 10) @ [n mod 10])"

declare digits_of.simps [simp del]

definition digit_char :: "nat \<Rightarrow> char" where
  "digit_char d = char_of (48 + d)"

definition nat_str :: "nat \<Rightarrow> string" where
  "nat_str n = map digit_char (digits_of n)"

fun digits_value :: "nat list \<Rightarrow> nat \<Rightarrow> nat" where
  "digits_value [] acc = acc"
| "digits_value (d # ds) acc = digits_value ds (acc * 10 + d)"

lemma digits_value_append: "digits_value (xs @ ys) acc = digits_value ys (digits_value xs acc)"
  by (induction xs arbitrary: acc) auto

lemma digits_of_small: "\<forall>d \<in> set (digits_of n). d < 10"
proof (induction n rule: digits_of.induct)
  case (1 n)
  then show ?case by (cases "n < 10") (auto simp: digits_of.simps [of n])
qed

lemma digits_value_digits_of: "digits_value (digits_of n) 0 = n"
proof (induction n rule: digits_of.induct)
  case (1 n)
  then show ?case
    by (cases "n < 10") (simp_all add: digits_of.simps [of n] digits_value_append)
qed

lemma digits_of_inj: "digits_of m = digits_of n \<Longrightarrow> m = n"
  by (metis digits_value_digits_of)

lemma digit_char_inj: "d < 10 \<Longrightarrow> e < 10 \<Longrightarrow> digit_char d = digit_char e \<Longrightarrow> d = e"
  by (simp add: digit_char_def char_of_eq_iff take_bit_nat_eq_self)

lemma nat_str_inj: "nat_str m = nat_str n \<longleftrightarrow> m = n"
proof
  assume "nat_str m = nat_str n"
  then have eq: "map digit_char (digits_of m) = map digit_char (digits_of n)"
    by (simp add: nat_str_def)
  have "inj_on digit_char {..<10}"
    by (auto simp: inj_on_def dest: digit_char_inj)
  moreover have "set (digits_of m) \<union> set (digits_of n) \<subseteq> {..<10}"
    using digits_of_small [of m] digits_of_small [of n] by auto
  ultimately have "inj_on digit_char (set (digits_of m) \<union> set (digits_of n))"
    by (rule inj_on_subset)
  then have "digits_of m = digits_of n"
    using eq by (rule map_inj_on [rotated])
  then show "m = n" by (rule digits_of_inj)
qed simp

text \<open>Zero-padded decimal of a fixed width, as \<open>strftime\<close> prints its fields.\<close>

fun pad_digits :: "nat \<Rightarrow> nat \<Rightarrow> nat list" where
  "pad_digits 0 n = []"
| "pad_digits (Suc w) n = pad_digits w (n div 10) @ [n mod 10]"

definition pad :: "nat \<Rightarrow> nat \<Rightarrow> string" where
  "pad w n = map digit_char (pad_digits w n)"

lemma length_pad_digits [simp]: "length (pad_digits w n) = w"
  by (induction w n rule: pad_digits.induct) auto

lemma length_pad [simp]: "length (pad w n) = w"
  by (simp add: pad_def)

lemma pad_digits_small: "\<forall>d \<in> set (pad_digits w n). d < 10"
  by (induction w n rule: pad_digits.induct) auto

lemma pad_digits_value: "digits_value (pad_digits w n) 0 = n mod 10 ^ w"
proof (induction w n rule: pad_digits.induct)
  case (2 w n)
  then show ?case
    by (simp add: digits_value_append mod_mult2_eq [of n 10 "10 ^ w"])
qed simp

lemma pad_inj:
  assumes "pad w m = pad w n" "m < 10 ^ w" "n < 10 ^ w"
  shows "m = n"
proof -
  have "inj_on digit_char {..<10}"
    by (auto simp: inj_on_def dest: digit_char_inj)
  moreover have "set (pad_digits w m) \<union> set (pad_digits w n) \<subseteq> {..<10}"
    using pad_digits_small [of w m] pad_digits_small [of w n] by auto
  ultimately have "inj_on digit_char (set (pad_digits w m) \<union> set (pad_digits w n))"
    by (rule inj_on_subset)
  then have "pad_digits w m = pad_digits w n"
    using assms(1) by (auto simp: pad_def dest: map_inj_on)
  then have "n mod 10 ^ w = m mod 10 ^ w"
    by (metis pad_digits_value)
  with assms(2,3) show ?thesis by simp
qed

text \<open>
  \<open>int(x)\<close> on a JSON value: integers as they are, booleans as 0 and 1, a
  float truncated towards zero, a string parsed as Python does (surrounding
  whitespace, an optional sign, digits with single underscores between them),
  and None where Python raises TypeError or ValueError.
\<close>

fun parse_digits :: "string \<Rightarrow> nat \<Rightarrow> nat option" where
  "parse_digits [] acc = Some acc"
| "parse_digits (c # cs) acc =
     (if is_digit c then parse_digits cs (acc * 10 + (chr_code c - 48))
      else if c = CHR ''_'' then
        (case cs of [] \<Rightarrow> None | d # ds \<Rightarrow>
           if is_digit d then parse_digits ds (acc * 10 + (chr_code d - 48)) else None)
      else None)"

definition parse_nat :: "string \<Rightarrow> nat option" where
  "parse_nat s = (case s of [] \<Rightarrow> None | c # cs \<Rightarrow> if is_digit c then parse_digits s 0 else None)"

definition parse_int :: "string \<Rightarrow> int option" where
  "parse_int s =
     (case strip s of
        [] \<Rightarrow> None
      | c # cs \<Rightarrow>
          if c = CHR ''-'' then map_option (\<lambda>n. - int n) (parse_nat cs)
          else if c = CHR ''+'' then map_option int (parse_nat cs)
          else map_option int (parse_nat (c # cs)))"

definition trunc :: "rat \<Rightarrow> int" where
  "trunc q = (if 0 \<le> q then \<lfloor>q\<rfloor> else \<lceil>q\<rceil>)"

fun py_int :: "json \<Rightarrow> int option" where
  "py_int (JInt i) = Some i"
| "py_int (JBool b) = Some (if b then 1 else 0)"
| "py_int (JNum q) = Some (trunc q)"
| "py_int (JStr s) = parse_int s"
| "py_int _ = None"

text \<open>\<open>' '.join(s.split())\<close>: the words of \<open>str.split\<close>, joined by single spaces.\<close>

fun words_from :: "string \<Rightarrow> string \<Rightarrow> string list" where
  "words_from [] [] = []"
| "words_from w [] = [w]"
| "words_from w (c # s) =
     (if is_space c then (if w = [] then words_from [] s else w # words_from [] s)
      else words_from (w @ [c]) s)"

definition unwords :: "string list \<Rightarrow> string" where
  "unwords ws = concat (map (\<lambda>(i, w). if i = (0::nat) then w else '' '' @ w) (enumerate 0 ws))"

text \<open>\<open>str.split(c)\<close> for a single character.\<close>

fun split_on :: "char \<Rightarrow> string \<Rightarrow> string list" where
  "split_on c [] = [[]]"
| "split_on c (x # xs) =
     (if x = c then [] # split_on c xs
      else case split_on c xs of [] \<Rightarrow> [[x]] | y # ys \<Rightarrow> (x # y) # ys)"

section \<open>Generic lemmas\<close>

text \<open>\<open>scalar_one_or_none\<close> on a column with a unique index: the first match.\<close>

lemma find_None_iff_all: "find P xs = None \<longleftrightarrow> (\<forall>x \<in> set xs. \<not> P x)"
  by (induction xs) auto

lemma find_SomeD: "find P xs = Some x \<Longrightarrow> x \<in> set xs \<and> P x"
  by (induction xs) (auto split: if_splits)

lemma find_append: "find P (xs @ ys) = (case find P xs of None \<Rightarrow> find P ys | Some x \<Rightarrow> Some x)"
  by (induction xs) auto

lemma find_map_keep:
  assumes "\<And>x. P (f x) = P x"
  shows "find P (map f xs) = map_option f (find P xs)"
  using assms by (induction xs) auto

lemma find_distinct_unique:
  assumes "distinct (map k xs)" "x \<in> set xs" "k x = key"
  shows "find (\<lambda>y. k y = key) xs = Some x"
  using assms by (induction xs) auto

text \<open>Write-back of one row by its key.\<close>

definition upd_by :: "('r \<Rightarrow> 'k) \<Rightarrow> 'k \<Rightarrow> 'r \<Rightarrow> 'r list \<Rightarrow> 'r list" where
  "upd_by k key r xs = map (\<lambda>x. if k x = key then r else x) xs"

lemma length_upd_by [simp]: "length (upd_by k key r xs) = length xs"
  by (simp add: upd_by_def)

lemma upd_by_keys [simp]:
  "k r = key \<Longrightarrow> map k (upd_by k key r xs) = map k xs"
  by (simp add: upd_by_def)

lemma upd_by_keys_other:
  assumes "\<And>x. x \<in> set xs \<Longrightarrow> k x = key \<Longrightarrow> h r = h x"
  shows "map h (upd_by k key r xs) = map h xs"
  using assms by (auto simp: upd_by_def)

lemma in_set_upd_by:
  "x \<in> set (upd_by k key r xs) \<longleftrightarrow>
     (x \<in> set xs \<and> k x \<noteq> key) \<or> (x = r \<and> (\<exists>y \<in> set xs. k y = key))"
  by (auto simp: upd_by_def)

lemma find_upd_by_same:
  assumes "k r = key" "find (\<lambda>y. k y = key) xs \<noteq> None"
  shows "find (\<lambda>y. k y = key) (upd_by k key r xs) = Some r"
  using assms by (induction xs) (auto simp: upd_by_def)

lemma find_upd_by_other:
  assumes "k r = key" "key' \<noteq> key"
  shows "find (\<lambda>y. k y = key') (upd_by k key r xs) = find (\<lambda>y. k y = key') xs"
  using assms by (induction xs) (auto simp: upd_by_def)

end
