(* ===== verification/ReportEnums.thy ===== *)
theory ReportEnums
  imports Prelude
begin

text \<open>
  The vocabulary of report automation: the string enums of
  \<open>reports/enums.py\<close>, the failure taxonomy of \<open>reports/errors.py\<close> and the
  execution state machine of \<open>reports/state_machine.py\<close>. Each Python enum is
  a datatype whose members are persisted by their \<open>value\<close>; the locale
  \<open>string_enum\<close> states what makes persisting and re-reading such a member
  lossless, and is interpreted on every enum.
\<close>

section \<open>String enums\<close>

text \<open>\<open>E(value)\<close>: the member with that value, or ValueError (None).\<close>

definition enum_of :: "('e \<Rightarrow> string) \<Rightarrow> 'e list \<Rightarrow> string \<Rightarrow> 'e option" where
  "enum_of val members s = find (\<lambda>e. val e = s) members"

locale string_enum =
  fixes val :: "'e \<Rightarrow> string"
    and members :: "'e list"
  assumes members_complete: "e \<in> set members"
    and values_distinct: "distinct (map val members)"
begin

lemma enum_of_val: "enum_of val members (val e) = Some e"
  unfolding enum_of_def
  by (rule find_distinct_unique [OF values_distinct members_complete refl])

lemma enum_of_SomeD: "enum_of val members s = Some e \<Longrightarrow> val e = s"
  by (auto simp: enum_of_def dest: find_SomeD)

lemma enum_of_iff: "enum_of val members s = Some e \<longleftrightarrow> s = val e"
  using enum_of_val enum_of_SomeD by auto

lemma val_inj: "val d = val e \<longleftrightarrow> d = e"
  using enum_of_val by (metis option.inject)

end

datatype ReportType =
    PAFE_WORKBOOK | TM1_NATIVE | MDX_REPORT | QUICK_REPORT | EXPLORATION
  | DYNAMIC_REPORT | CUSTOM_REPORT

primrec report_type_value :: "ReportType \<Rightarrow> string" where
  "report_type_value PAFE_WORKBOOK = ''pafe_workbook''"
| "report_type_value TM1_NATIVE = ''tm1_native''"
| "report_type_value MDX_REPORT = ''mdx_report''"
| "report_type_value QUICK_REPORT = ''quick_report''"
| "report_type_value EXPLORATION = ''exploration''"
| "report_type_value DYNAMIC_REPORT = ''dynamic_report''"
| "report_type_value CUSTOM_REPORT = ''custom_report''"

definition report_types :: "ReportType list" where
  "report_types =
     [PAFE_WORKBOOK, TM1_NATIVE, MDX_REPORT, QUICK_REPORT, EXPLORATION, DYNAMIC_REPORT,
      CUSTOM_REPORT]"

definition IMPLEMENTED_REPORT_TYPES :: "ReportType list" where
  "IMPLEMENTED_REPORT_TYPES = [PAFE_WORKBOOK]"

datatype ReportStatus = REPORT_DRAFT | REPORT_ACTIVE | REPORT_PAUSED | REPORT_ARCHIVED

primrec report_status_value :: "ReportStatus \<Rightarrow> string" where
  "report_status_value REPORT_DRAFT = ''draft''"
| "report_status_value REPORT_ACTIVE = ''active''"
| "report_status_value REPORT_PAUSED = ''paused''"
| "report_status_value REPORT_ARCHIVED = ''archived''"

definition report_statuses :: "ReportStatus list" where
  "report_statuses = [REPORT_DRAFT, REPORT_ACTIVE, REPORT_PAUSED, REPORT_ARCHIVED]"

datatype ApprovalStatus =
    NOT_REQUIRED | APPROVAL_DRAFT | STET_REVIEW | APPROVED | REJECTED

primrec approval_status_value :: "ApprovalStatus \<Rightarrow> string" where
  "approval_status_value NOT_REQUIRED = ''not_required''"
| "approval_status_value APPROVAL_DRAFT = ''draft''"
| "approval_status_value STET_REVIEW = ''stet_review''"
| "approval_status_value APPROVED = ''approved''"
| "approval_status_value REJECTED = ''rejected''"

definition approval_statuses :: "ApprovalStatus list" where
  "approval_statuses = [NOT_REQUIRED, APPROVAL_DRAFT, STET_REVIEW, APPROVED, REJECTED]"

datatype OutputFormat = XLSX | PDF | CSV

primrec output_format_value :: "OutputFormat \<Rightarrow> string" where
  "output_format_value XLSX = ''xlsx''"
| "output_format_value PDF = ''pdf''"
| "output_format_value CSV = ''csv''"

definition output_formats_all :: "OutputFormat list" where
  "output_formats_all = [XLSX, PDF, CSV]"

datatype ExecutionStatus =
    QUEUED | ASSIGNED | RUNNING | SUCCEEDED | FAILED | TIMED_OUT | CANCELLED | RETRYING

primrec execution_status_value :: "ExecutionStatus \<Rightarrow> string" where
  "execution_status_value QUEUED = ''queued''"
| "execution_status_value ASSIGNED = ''assigned''"
| "execution_status_value RUNNING = ''running''"
| "execution_status_value SUCCEEDED = ''succeeded''"
| "execution_status_value FAILED = ''failed''"
| "execution_status_value TIMED_OUT = ''timed_out''"
| "execution_status_value CANCELLED = ''cancelled''"
| "execution_status_value RETRYING = ''retrying''"

definition execution_statuses :: "ExecutionStatus list" where
  "execution_statuses =
     [QUEUED, ASSIGNED, RUNNING, SUCCEEDED, FAILED, TIMED_OUT, CANCELLED, RETRYING]"

definition TERMINAL_EXECUTION_STATUSES :: "ExecutionStatus list" where
  "TERMINAL_EXECUTION_STATUSES = [SUCCEEDED, FAILED, TIMED_OUT, CANCELLED]"

definition LEASED_EXECUTION_STATUSES :: "ExecutionStatus list" where
  "LEASED_EXECUTION_STATUSES = [ASSIGNED, RUNNING]"

datatype TriggerType = MANUAL | SCHEDULED | TRIGGER_RETRY

primrec trigger_type_value :: "TriggerType \<Rightarrow> string" where
  "trigger_type_value MANUAL = ''manual''"
| "trigger_type_value SCHEDULED = ''scheduled''"
| "trigger_type_value TRIGGER_RETRY = ''retry''"

definition trigger_types :: "TriggerType list" where
  "trigger_types = [MANUAL, SCHEDULED, TRIGGER_RETRY]"

datatype WorkerStatus =
    PENDING_ENROLLMENT | ONLINE | OFFLINE | BUSY | DISABLED | WORKER_ERROR

primrec worker_status_value :: "WorkerStatus \<Rightarrow> string" where
  "worker_status_value PENDING_ENROLLMENT = ''pending_enrollment''"
| "worker_status_value ONLINE = ''online''"
| "worker_status_value OFFLINE = ''offline''"
| "worker_status_value BUSY = ''busy''"
| "worker_status_value DISABLED = ''disabled''"
| "worker_status_value WORKER_ERROR = ''error''"

definition worker_statuses :: "WorkerStatus list" where
  "worker_statuses = [PENDING_ENROLLMENT, ONLINE, OFFLINE, BUSY, DISABLED, WORKER_ERROR]"

definition WORKER_SCHEDULABLE_STATUSES :: "WorkerStatus list" where
  "WORKER_SCHEDULABLE_STATUSES = [ONLINE, BUSY, OFFLINE]"

datatype WorkerCapability =
    EXCEL | PAFE_AUTOMATION | XLSX_EXPORT | PDF_EXPORT | CSV_EXPORT

primrec worker_capability_value :: "WorkerCapability \<Rightarrow> string" where
  "worker_capability_value EXCEL = ''excel''"
| "worker_capability_value PAFE_AUTOMATION = ''pafe_automation''"
| "worker_capability_value XLSX_EXPORT = ''xlsx_export''"
| "worker_capability_value PDF_EXPORT = ''pdf_export''"
| "worker_capability_value CSV_EXPORT = ''csv_export''"

definition worker_capabilities :: "WorkerCapability list" where
  "worker_capabilities = [EXCEL, PAFE_AUTOMATION, XLSX_EXPORT, PDF_EXPORT, CSV_EXPORT]"

text \<open>A dict keyed by every member of the enum, in its insertion order.\<close>

definition FORMAT_CAPABILITY :: "(OutputFormat \<times> WorkerCapability) list" where
  "FORMAT_CAPABILITY = [(XLSX, XLSX_EXPORT), (PDF, PDF_EXPORT), (CSV, CSV_EXPORT)]"

datatype RetryClass = RETRYABLE | NON_RETRYABLE | REQUIRES_HUMAN

primrec retry_class_value :: "RetryClass \<Rightarrow> string" where
  "retry_class_value RETRYABLE = ''retryable''"
| "retry_class_value NON_RETRYABLE = ''non_retryable''"
| "retry_class_value REQUIRES_HUMAN = ''requires_human''"

definition retry_classes :: "RetryClass list" where
  "retry_classes = [RETRYABLE, NON_RETRYABLE, REQUIRES_HUMAN]"

section \<open>The failure taxonomy\<close>

datatype ReportErrorCode =
    WORKER_OFFLINE | WORKER_UNAUTHORIZED | WORKER_CAPABILITY_MISSING | DUPLICATE_JOB
  | EXECUTION_TIMEOUT | WORKER_LEASE_EXPIRED | CODE_CANCELLED
  | WORKBOOK_MISSING | WORKBOOK_CHECKSUM_MISMATCH | WORKBOOK_INVALID | WORKBOOK_TOO_LARGE
  | EXCEL_LAUNCH_FAILED | EXCEL_CRASHED | PAFE_NOT_INSTALLED | PAFE_API_UNAVAILABLE
  | PAFE_VERSION_INCOMPATIBLE | WORKBOOK_OPEN_FAILED
  | TM1_AUTH_FAILED | TM1_CONNECTION_FAILED
  | REFRESH_FAILED | EXPORT_FAILED | EXPORT_FORMAT_UNSUPPORTED | ARTIFACT_UPLOAD_FAILED
  | EMAIL_FAILED | INVALID_RECIPIENT
  | INTERNAL_ERROR

primrec error_code_value :: "ReportErrorCode \<Rightarrow> string" where
  "error_code_value WORKER_OFFLINE = ''worker_offline''"
| "error_code_value WORKER_UNAUTHORIZED = ''worker_unauthorized''"
| "error_code_value WORKER_CAPABILITY_MISSING = ''worker_capability_missing''"
| "error_code_value DUPLICATE_JOB = ''duplicate_job''"
| "error_code_value EXECUTION_TIMEOUT = ''execution_timeout''"
| "error_code_value WORKER_LEASE_EXPIRED = ''worker_lease_expired''"
| "error_code_value CODE_CANCELLED = ''cancelled''"
| "error_code_value WORKBOOK_MISSING = ''workbook_missing''"
| "error_code_value WORKBOOK_CHECKSUM_MISMATCH = ''workbook_checksum_mismatch''"
| "error_code_value WORKBOOK_INVALID = ''workbook_invalid''"
| "error_code_value WORKBOOK_TOO_LARGE = ''workbook_too_large''"
| "error_code_value EXCEL_LAUNCH_FAILED = ''excel_launch_failed''"
| "error_code_value EXCEL_CRASHED = ''excel_crashed''"
| "error_code_value PAFE_NOT_INSTALLED = ''pafe_not_installed''"
| "error_code_value PAFE_API_UNAVAILABLE = ''pafe_api_unavailable''"
| "error_code_value PAFE_VERSION_INCOMPATIBLE = ''pafe_version_incompatible''"
| "error_code_value WORKBOOK_OPEN_FAILED = ''workbook_open_failed''"
| "error_code_value TM1_AUTH_FAILED = ''tm1_auth_failed''"
| "error_code_value TM1_CONNECTION_FAILED = ''tm1_connection_failed''"
| "error_code_value REFRESH_FAILED = ''refresh_failed''"
| "error_code_value EXPORT_FAILED = ''export_failed''"
| "error_code_value EXPORT_FORMAT_UNSUPPORTED = ''export_format_unsupported''"
| "error_code_value ARTIFACT_UPLOAD_FAILED = ''artifact_upload_failed''"
| "error_code_value EMAIL_FAILED = ''email_failed''"
| "error_code_value INVALID_RECIPIENT = ''invalid_recipient''"
| "error_code_value INTERNAL_ERROR = ''internal_error''"

definition error_codes :: "ReportErrorCode list" where
  "error_codes =
     [WORKER_OFFLINE, WORKER_UNAUTHORIZED, WORKER_CAPABILITY_MISSING, DUPLICATE_JOB,
      EXECUTION_TIMEOUT, WORKER_LEASE_EXPIRED, CODE_CANCELLED, WORKBOOK_MISSING,
      WORKBOOK_CHECKSUM_MISMATCH, WORKBOOK_INVALID, WORKBOOK_TOO_LARGE, EXCEL_LAUNCH_FAILED,
      EXCEL_CRASHED, PAFE_NOT_INSTALLED, PAFE_API_UNAVAILABLE, PAFE_VERSION_INCOMPATIBLE,
      WORKBOOK_OPEN_FAILED, TM1_AUTH_FAILED, TM1_CONNECTION_FAILED, REFRESH_FAILED,
      EXPORT_FAILED, EXPORT_FORMAT_UNSUPPORTED, ARTIFACT_UPLOAD_FAILED, EMAIL_FAILED,
      INVALID_RECIPIENT, INTERNAL_ERROR]"

text \<open>The dict \<open>_RETRY_CLASSES\<close>, in its insertion order.\<close>

definition RETRY_CLASSES :: "(ReportErrorCode \<times> RetryClass) list" where
  "RETRY_CLASSES =
     [(WORKER_OFFLINE, RETRYABLE), (WORKER_LEASE_EXPIRED, RETRYABLE),
      (EXECUTION_TIMEOUT, RETRYABLE), (EXCEL_LAUNCH_FAILED, RETRYABLE),
      (EXCEL_CRASHED, RETRYABLE), (TM1_CONNECTION_FAILED, RETRYABLE),
      (ARTIFACT_UPLOAD_FAILED, RETRYABLE), (EMAIL_FAILED, RETRYABLE),
      (REFRESH_FAILED, RETRYABLE), (INTERNAL_ERROR, RETRYABLE),
      (WORKBOOK_MISSING, NON_RETRYABLE), (WORKBOOK_CHECKSUM_MISMATCH, NON_RETRYABLE),
      (WORKBOOK_INVALID, NON_RETRYABLE), (WORKBOOK_TOO_LARGE, NON_RETRYABLE),
      (WORKBOOK_OPEN_FAILED, NON_RETRYABLE), (EXPORT_FORMAT_UNSUPPORTED, NON_RETRYABLE),
      (EXPORT_FAILED, NON_RETRYABLE), (DUPLICATE_JOB, NON_RETRYABLE),
      (CODE_CANCELLED, NON_RETRYABLE),
      (TM1_AUTH_FAILED, REQUIRES_HUMAN), (INVALID_RECIPIENT, REQUIRES_HUMAN),
      (PAFE_NOT_INSTALLED, REQUIRES_HUMAN), (PAFE_API_UNAVAILABLE, REQUIRES_HUMAN),
      (PAFE_VERSION_INCOMPATIBLE, REQUIRES_HUMAN), (WORKER_UNAUTHORIZED, REQUIRES_HUMAN),
      (WORKER_CAPABILITY_MISSING, REQUIRES_HUMAN)]"

text \<open>The dict \<open>_MESSAGES\<close>.\<close>

definition MESSAGES :: "(ReportErrorCode \<times> string) list" where
  "MESSAGES =
     [(WORKER_OFFLINE, ''No online worker was available to run this report.''),
      (WORKER_UNAUTHORIZED, ''The worker is not authorized to run this report.''),
      (WORKER_CAPABILITY_MISSING,
       ''No worker is able to run this report. Check that Planning '' @
       ''Analytics for Microsoft Excel is installed on the worker and that '' @
       ''it supports the requested output formats (run `pa-worker '' @
       ''diagnostics` on the worker host).''),
      (DUPLICATE_JOB, ''An execution for this occurrence already exists.''),
      (EXECUTION_TIMEOUT, ''The report did not finish within the configured time limit.''),
      (WORKER_LEASE_EXPIRED, ''The worker stopped responding while the report was running.''),
      (CODE_CANCELLED, ''The execution was cancelled.''),
      (WORKBOOK_MISSING, ''The workbook for this report could not be found.''),
      (WORKBOOK_CHECKSUM_MISMATCH,
       ''The downloaded workbook did not match its recorded checksum and '' @
       ''was not opened.''),
      (WORKBOOK_INVALID, ''The uploaded file is not a valid Excel workbook.''),
      (WORKBOOK_TOO_LARGE, ''The workbook exceeds the maximum allowed size.''),
      (WORKBOOK_OPEN_FAILED, ''Excel could not open the workbook.''),
      (EXCEL_LAUNCH_FAILED, ''Microsoft Excel could not be started on the worker.''),
      (EXCEL_CRASHED, ''Microsoft Excel stopped responding while the report was running.''),
      (PAFE_NOT_INSTALLED,
       ''Planning Analytics for Microsoft Excel is not installed on the '' @ ''worker.''),
      (PAFE_API_UNAVAILABLE,
       ''The Planning Analytics for Microsoft Excel automation API could '' @
       ''not be reached on the worker.''),
      (PAFE_VERSION_INCOMPATIBLE,
       ''The installed Planning Analytics for Microsoft Excel version is '' @ ''not supported.''),
      (TM1_AUTH_FAILED, ''Sign-in to the Planning Analytics server was rejected.''),
      (TM1_CONNECTION_FAILED, ''The Planning Analytics server could not be reached.''),
      (REFRESH_FAILED, ''The workbook refresh did not complete successfully.''),
      (EXPORT_FAILED, ''The report output could not be generated.''),
      (EXPORT_FORMAT_UNSUPPORTED,
       ''This workbook cannot be exported in one of the requested formats.''),
      (ARTIFACT_UPLOAD_FAILED, ''The generated report could not be uploaded.''),
      (EMAIL_FAILED, ''The report could not be emailed.''),
      (INVALID_RECIPIENT, ''One or more recipients are not valid.''),
      (INTERNAL_ERROR, ''The report failed for an unexpected reason.'')]"

definition retry_class_for :: "ReportErrorCode \<Rightarrow> RetryClass" where
  "retry_class_for c =
     (case map_of RETRY_CLASSES c of Some rc \<Rightarrow> rc | None \<Rightarrow> NON_RETRYABLE)"

text \<open>
  \<open>_MESSAGES.get(code, _MESSAGES[INTERNAL_ERROR])\<close>: the default is looked up
  by key, and the key is there (\<open>message_for_total\<close>).
\<close>

definition message_for :: "ReportErrorCode \<Rightarrow> string" where
  "message_for c =
     (case map_of MESSAGES c of
        Some m \<Rightarrow> m
      | None \<Rightarrow> (case map_of MESSAGES INTERNAL_ERROR of Some m \<Rightarrow> m | None \<Rightarrow> []))"

definition coerce_error_code :: "string option \<Rightarrow> ReportErrorCode" where
  "coerce_error_code v =
     (case v of
        None \<Rightarrow> INTERNAL_ERROR
      | Some s \<Rightarrow>
          (case enum_of error_code_value error_codes s of
             Some c \<Rightarrow> c
           | None \<Rightarrow> INTERNAL_ERROR))"

section \<open>The execution state machine\<close>

primrec ALLOWED :: "ExecutionStatus \<Rightarrow> ExecutionStatus list" where
  "ALLOWED QUEUED = [ASSIGNED, CANCELLED, TIMED_OUT]"
| "ALLOWED ASSIGNED = [RUNNING, FAILED, TIMED_OUT, CANCELLED, QUEUED]"
| "ALLOWED RUNNING = [SUCCEEDED, FAILED, TIMED_OUT, CANCELLED]"
| "ALLOWED FAILED = [RETRYING]"
| "ALLOWED TIMED_OUT = [RETRYING]"
| "ALLOWED SUCCEEDED = []"
| "ALLOWED CANCELLED = []"
| "ALLOWED RETRYING = []"

definition can_transition :: "ExecutionStatus \<Rightarrow> ExecutionStatus \<Rightarrow> bool" where
  "can_transition current target \<longleftrightarrow> target \<in> set (ALLOWED current)"

definition assert_transition :: "ExecutionStatus \<Rightarrow> ExecutionStatus \<Rightarrow> unit result" where
  "assert_transition current target =
     (if \<not> can_transition current target
      then Inl (Conflict ''INVALID_EXECUTION_TRANSITION'') else Inr ())"

section \<open>Every enum round-trips through its column\<close>

interpretation report_type: string_enum report_type_value report_types
  by unfold_locales (case_tac e, auto simp: report_types_def)

interpretation report_status: string_enum report_status_value report_statuses
  by unfold_locales (case_tac e, auto simp: report_statuses_def)

interpretation approval_status: string_enum approval_status_value approval_statuses
  by unfold_locales (case_tac e, auto simp: approval_statuses_def)

interpretation output_format: string_enum output_format_value output_formats_all
  by unfold_locales (case_tac e, auto simp: output_formats_all_def)

interpretation execution_status: string_enum execution_status_value execution_statuses
  by unfold_locales (case_tac e, auto simp: execution_statuses_def)

interpretation trigger_type: string_enum trigger_type_value trigger_types
  by unfold_locales (case_tac e, auto simp: trigger_types_def)

interpretation worker_status: string_enum worker_status_value worker_statuses
  by unfold_locales (case_tac e, auto simp: worker_statuses_def)

interpretation worker_capability: string_enum worker_capability_value worker_capabilities
  by unfold_locales (case_tac e, auto simp: worker_capabilities_def)

interpretation retry_class: string_enum retry_class_value retry_classes
  by unfold_locales (case_tac e, auto simp: retry_classes_def)

interpretation error_code: string_enum error_code_value error_codes
  by unfold_locales (case_tac e, auto simp: error_codes_def)

section \<open>Facts about the taxonomy\<close>

lemma retry_class_total: "\<exists>rc. map_of RETRY_CLASSES c = Some rc"
  by (cases c) (simp_all add: RETRY_CLASSES_def)

lemma MESSAGES_keys: "set error_codes \<subseteq> fst ` set MESSAGES"
  by (simp add: MESSAGES_def error_codes_def del: append_Cons append_Nil)

lemma message_for_total: "\<exists>m. map_of MESSAGES c = Some m \<and> message_for c = m"
proof -
  have "map_of MESSAGES c \<noteq> None"
    using MESSAGES_keys error_code.members_complete [of c] by (auto simp: map_of_eq_None_iff)
  then show ?thesis by (auto simp: message_for_def)
qed

lemma retry_class_simps [simp]:
  "retry_class_for WORKER_LEASE_EXPIRED = RETRYABLE"
  "retry_class_for WORKER_OFFLINE = RETRYABLE"
  "retry_class_for EXECUTION_TIMEOUT = RETRYABLE"
  by (simp_all add: retry_class_for_def RETRY_CLASSES_def)

lemma coerce_error_code_value: "coerce_error_code (Some (error_code_value c)) = c"
  by (simp add: coerce_error_code_def error_code.enum_of_val)

lemma coerce_error_code_unknown:
  "s \<notin> error_code_value ` set error_codes \<Longrightarrow> coerce_error_code (Some s) = INTERNAL_ERROR"
  by (auto simp: coerce_error_code_def split: option.split dest: error_code.enum_of_SomeD
      intro: error_code.members_complete)

section \<open>State machines with final states\<close>

text \<open>
  A status column driven through a table of allowed moves: what a caller may
  conclude from the table alone. Interpreted on the execution table here and
  on the change workflow in its own theory.
\<close>

locale status_machine =
  fixes allowed :: "'s \<Rightarrow> 's \<Rightarrow> bool"
    and final :: "'s \<Rightarrow> bool"
  assumes final_stuck: "final s \<Longrightarrow> \<not> allowed s t"
    and live_moves: "\<not> final s \<Longrightarrow> \<exists>t. allowed s t"
begin

lemma final_forever: "allowed\<^sup>*\<^sup>* s t \<Longrightarrow> final s \<Longrightarrow> t = s"
  by (induction rule: rtranclp_induct) (auto dest: final_stuck)

lemma final_iff_stuck: "final s \<longleftrightarrow> (\<forall>t. \<not> allowed s t)"
  using final_stuck live_moves by blast

end

definition execution_final :: "ExecutionStatus \<Rightarrow> bool" where
  "execution_final s \<longleftrightarrow> s \<in> {SUCCEEDED, CANCELLED, RETRYING}"

lemma can_transition_cases:
  "can_transition s t \<longleftrightarrow>
     (s, t) \<in> {(QUEUED, ASSIGNED), (QUEUED, CANCELLED), (QUEUED, TIMED_OUT),
       (ASSIGNED, RUNNING), (ASSIGNED, FAILED), (ASSIGNED, TIMED_OUT), (ASSIGNED, CANCELLED),
       (ASSIGNED, QUEUED), (RUNNING, SUCCEEDED), (RUNNING, FAILED), (RUNNING, TIMED_OUT),
       (RUNNING, CANCELLED), (FAILED, RETRYING), (TIMED_OUT, RETRYING)}"
  by (cases s; cases t) (simp_all add: can_transition_def)

interpretation execution_machine: status_machine can_transition execution_final
proof
  show "\<not> can_transition s t" if "execution_final s" for s t
    using that by (auto simp: execution_final_def can_transition_cases)
  show "\<exists>t. can_transition s t" if "\<not> execution_final s" for s
    using that by (cases s) (auto simp: execution_final_def can_transition_cases)
qed

lemma assert_transition_Inr [simp]:
  "assert_transition s t = Inr u \<longleftrightarrow> can_transition s t"
  by (auto simp: assert_transition_def)

lemma assert_transition_Inl [simp]:
  "assert_transition s t = Inl e \<longleftrightarrow>
     \<not> can_transition s t \<and> e = Conflict ''INVALID_EXECUTION_TRANSITION''"
  by (auto simp: assert_transition_def)

text \<open>
  Once an execution has left the live states it never comes back to a state a
  worker can hold: the only move out of FAILED and TIMED\_OUT is to RETRYING.
\<close>

lemma closed_never_reopens:
  assumes "can_transition\<^sup>*\<^sup>* s t" "s \<in> set TERMINAL_EXECUTION_STATUSES \<union> {RETRYING}"
  shows "t = s \<or> (s \<in> {FAILED, TIMED_OUT} \<and> t = RETRYING)"
  using assms
  by (induction rule: rtranclp_induct)
     (auto simp: TERMINAL_EXECUTION_STATUSES_def can_transition_cases)

end
