(* ===== verification/ReportTables.thy ===== *)
theory ReportTables
  imports ReportEnums
begin

text \<open>
  The tables of report automation and the repositories over them: the columns
  of \<open>report_execution.py\<close>, \<open>report_worker.py\<close> and \<open>report_definition.py\<close>,
  and the queries of \<open>report_execution_repository.py\<close> and
  \<open>report_worker_repository.py\<close>. A table is the list of its rows in insertion
  order; a flush writes the row back under its primary key; a unique
  constraint is a check in \<open>create\<close>. An enum column holds the datatype (the
  round trip through its text is in the enum theory); a JSONB
  object is an association list.
\<close>

section \<open>Rows\<close>

record execution =
  e_id :: uuid
  e_organization_id :: uuid
  e_report_id :: uuid
  e_workbook_id :: "uuid option"
  e_worker_id :: "uuid option"
  e_triggered_by :: "uuid option"
  e_trigger_type :: TriggerType
  e_status :: ExecutionStatus
  e_idempotency_key :: string
  e_correlation_id :: uuid
  e_scheduled_for :: "time option"
  e_attempt :: int
  e_max_attempts :: int
  e_parent_execution_id :: "uuid option"
  e_queued_at :: time
  e_available_at :: time
  e_assigned_at :: "time option"
  e_started_at :: "time option"
  e_completed_at :: "time option"
  e_duration_ms :: "int option"
  e_lease_expires_at :: "time option"
  e_timeout_seconds :: int
  e_error_code :: "ReportErrorCode option"
  e_error_message :: "string option"
  e_retry_class :: "RetryClass option"
  e_diagnostics :: "(string \<times> json) list option"
  e_trace_log :: "string option"

record report =
  r_id :: uuid
  r_organization_id :: uuid
  r_created_by :: uuid
  r_name :: string
  r_description :: "string option"
  r_report_type :: ReportType
  r_workbook_id :: "uuid option"
  r_connection_id :: "uuid option"
  r_worker_id :: "uuid option"
  r_parameters :: "(string \<times> json) list option"
  r_output_formats :: "string list"
  r_status :: ReportStatus
  r_approval_status :: ApprovalStatus

record worker =
  w_id :: uuid
  w_organization_id :: uuid
  w_created_by :: uuid
  w_name :: string
  w_description :: "string option"
  w_status :: WorkerStatus
  w_enrollment_token_hash :: "string option"
  w_enrollment_expires_at :: "time option"
  w_enrolled_at :: "time option"
  w_secret_hash :: "string option"
  w_secret_version :: int
  w_secret_rotated_at :: "time option"
  w_version :: "string option"
  w_os :: "string option"
  w_excel_version :: "string option"
  w_pafe_version :: "string option"
  w_hostname :: "string option"
  w_capabilities :: "string list option"
  w_last_heartbeat_at :: "time option"
  w_disabled_at :: "time option"
  w_last_error :: "string option"

record db =
  db_executions :: "execution list"
  db_reports :: "report list"
  db_workers :: "worker list"

section \<open>The execution repository\<close>

definition execution_by_id :: "db \<Rightarrow> uuid \<Rightarrow> execution option" where
  "execution_by_id d i = find (\<lambda>e. e_id e = i) (db_executions d)"

definition idempotency_slot :: "execution \<Rightarrow> uuid \<times> string" where
  "idempotency_slot e = (e_organization_id e, e_idempotency_key e)"

definition get_by_idempotency_key :: "db \<Rightarrow> uuid \<Rightarrow> string \<Rightarrow> execution option" where
  "get_by_idempotency_key d org key =
     find (\<lambda>e. e_organization_id e = org \<and> e_idempotency_key e = key) (db_executions d)"

text \<open>
  \<open>INSERT\<close>: IntegrityError when the primary key or the pair
  (organization, idempotency key) of \<open>uq_report_executions_org_idempotency_key\<close>
  is taken.
\<close>

definition create_execution :: "db \<Rightarrow> execution \<Rightarrow> db result" where
  "create_execution d e =
     (if (\<exists>x \<in> set (db_executions d). e_id x = e_id e \<or> idempotency_slot x = idempotency_slot e)
      then Inl IntegrityError
      else Inr (d\<lparr>db_executions := db_executions d @ [e]\<rparr>))"

definition update_execution :: "db \<Rightarrow> execution \<Rightarrow> db" where
  "update_execution d e = d\<lparr>db_executions := upd_by e_id (e_id e) e (db_executions d)\<rparr>"

definition report_by_id :: "db \<Rightarrow> uuid \<Rightarrow> report option" where
  "report_by_id d i = find (\<lambda>r. r_id r = i) (db_reports d)"

text \<open>
  The claim: rows of this organization that are queued, available, whose
  report is unpinned or pinned to this worker and needs no format outside
  \<open>supported\<close> (JSONB containment), not locked by another transaction (\<open>SKIP
  LOCKED\<close>), oldest first. Rows that tie on both sort keys keep table order.
\<close>

definition claimable :: "db \<Rightarrow> uuid \<Rightarrow> uuid \<Rightarrow> string list \<Rightarrow> time \<Rightarrow> execution \<Rightarrow> bool" where
  "claimable d org wid supported now e \<longleftrightarrow>
     e_organization_id e = org \<and> e_status e = QUEUED \<and> e_available_at e \<le> now \<and>
     (case report_by_id d (e_report_id e) of
        None \<Rightarrow> False
      | Some r \<Rightarrow> (r_worker_id r = None \<or> r_worker_id r = Some wid) \<and>
                  set (r_output_formats r) \<subseteq> set supported)"

definition oldest_first :: "execution list \<Rightarrow> execution list" where
  "oldest_first es = sort_key e_available_at (sort_key e_queued_at es)"

definition claim_candidate ::
  "db \<Rightarrow> uuid list \<Rightarrow> uuid \<Rightarrow> uuid \<Rightarrow> string list \<Rightarrow> time \<Rightarrow> execution option" where
  "claim_candidate d locked org wid supported now =
     (case oldest_first (filter (\<lambda>e. claimable d org wid supported now e \<and> e_id e \<notin> set locked)
             (db_executions d)) of
        [] \<Rightarrow> None
      | e # _ \<Rightarrow> Some e)"

definition repo_claim_next ::
  "db \<Rightarrow> uuid list \<Rightarrow> uuid \<Rightarrow> uuid \<Rightarrow> string list \<Rightarrow> time \<Rightarrow> time \<Rightarrow> db \<times> uuid option" where
  "repo_claim_next d locked org wid supported now lease_expires_at =
     (case claim_candidate d locked org wid supported now of
        None \<Rightarrow> (d, None)
      | Some e \<Rightarrow>
          (update_execution d
             (e\<lparr>e_status := ASSIGNED, e_worker_id := Some wid, e_assigned_at := Some now,
                e_lease_expires_at := Some lease_expires_at\<rparr>),
           Some (e_id e)))"

definition in_organization :: "uuid option \<Rightarrow> execution \<Rightarrow> bool" where
  "in_organization org e \<longleftrightarrow> (case org of None \<Rightarrow> True | Some o' \<Rightarrow> e_organization_id e = o')"

definition lease_expired :: "time \<Rightarrow> execution \<Rightarrow> bool" where
  "lease_expired now e \<longleftrightarrow>
     e_status e \<in> set LEASED_EXECUTION_STATUSES \<and>
     (case e_lease_expires_at e of None \<Rightarrow> False | Some l \<Rightarrow> l < now)"

definition find_expired_leases :: "db \<Rightarrow> uuid option \<Rightarrow> time \<Rightarrow> nat \<Rightarrow> execution list" where
  "find_expired_leases d org now limit =
     take limit (filter (\<lambda>e. lease_expired now e \<and> in_organization org e) (db_executions d))"

text \<open>\<open>db_now\<close> is the database's clock, not the caller's.\<close>

definition stale_queued :: "time \<Rightarrow> execution \<Rightarrow> bool" where
  "stale_queued db_now e \<longleftrightarrow>
     e_status e = QUEUED \<and> e_queued_at e + seconds (e_timeout_seconds e) < db_now"

definition find_stale_queued :: "db \<Rightarrow> uuid option \<Rightarrow> time \<Rightarrow> nat \<Rightarrow> execution list" where
  "find_stale_queued d org db_now limit =
     take limit (filter (\<lambda>e. stale_queued db_now e \<and> in_organization org e) (db_executions d))"

definition count_active_for_worker :: "db \<Rightarrow> uuid \<Rightarrow> nat" where
  "count_active_for_worker d wid =
     length (filter (\<lambda>e. e_worker_id e = Some wid \<and> e_status e \<in> set LEASED_EXECUTION_STATUSES)
       (db_executions d))"

definition list_executions_by_organization ::
  "db \<Rightarrow> uuid \<Rightarrow> uuid option \<Rightarrow> ExecutionStatus option \<Rightarrow> nat \<Rightarrow> nat \<Rightarrow> execution list" where
  "list_executions_by_organization d org rid st limit offset =
     take limit (drop offset (sort_key (\<lambda>e. - e_queued_at e)
       (filter (\<lambda>e. e_organization_id e = org \<and>
                    (case rid of None \<Rightarrow> True | Some r \<Rightarrow> e_report_id e = r) \<and>
                    (case st of None \<Rightarrow> True | Some s \<Rightarrow> e_status e = s))
          (db_executions d))))"

section \<open>The worker repository\<close>

definition worker_by_id :: "db \<Rightarrow> uuid \<Rightarrow> worker option" where
  "worker_by_id d i = find (\<lambda>w. w_id w = i) (db_workers d)"

definition get_by_enrollment_token_hash :: "db \<Rightarrow> string \<Rightarrow> worker option" where
  "get_by_enrollment_token_hash d h =
     find (\<lambda>w. w_enrollment_token_hash w = Some h) (db_workers d)"

definition list_workers_by_organization :: "db \<Rightarrow> uuid \<Rightarrow> worker list" where
  "list_workers_by_organization d org =
     sort_key w_name (filter (\<lambda>w. w_organization_id w = org) (db_workers d))"

definition worker_by_name :: "db \<Rightarrow> uuid \<Rightarrow> string \<Rightarrow> worker option" where
  "worker_by_name d org nm =
     find (\<lambda>w. w_organization_id w = org \<and> w_name w = nm) (db_workers d)"

text \<open>The partial unique index on \<open>enrollment_token_hash\<close> ignores NULLs.\<close>

definition create_worker :: "db \<Rightarrow> worker \<Rightarrow> db result" where
  "create_worker d w =
     (if (\<exists>x \<in> set (db_workers d). w_id x = w_id w \<or>
            (w_enrollment_token_hash w \<noteq> None \<and>
             w_enrollment_token_hash x = w_enrollment_token_hash w))
      then Inl IntegrityError
      else Inr (d\<lparr>db_workers := db_workers d @ [w]\<rparr>))"

definition update_worker :: "db \<Rightarrow> worker \<Rightarrow> db" where
  "update_worker d w = d\<lparr>db_workers := upd_by w_id (w_id w) w (db_workers d)\<rparr>"

section \<open>What a table keeps\<close>

text \<open>The constraints the database enforces on the executions table.\<close>

definition executions_ok :: "db \<Rightarrow> bool" where
  "executions_ok d \<longleftrightarrow>
     distinct (map e_id (db_executions d)) \<and> distinct (map idempotency_slot (db_executions d))"

lemma create_execution_ok:
  "executions_ok d \<Longrightarrow> create_execution d e = Inr d' \<Longrightarrow> executions_ok d'"
  by (fastforce simp: create_execution_def executions_ok_def split: if_splits)

lemma update_execution_keys [row_simps]:
  "map e_id (db_executions (update_execution d e)) = map e_id (db_executions d)"
  by (simp add: update_execution_def)

lemma update_execution_ok:
  assumes "executions_ok d" "execution_by_id d (e_id e) = Some e0"
    and "idempotency_slot e = idempotency_slot e0"
  shows "executions_ok (update_execution d e)"
proof -
  have e0: "e0 \<in> set (db_executions d)" "e_id e0 = e_id e"
    using find_SomeD [OF assms(2) [unfolded execution_by_id_def]] by auto
  have "idempotency_slot e = idempotency_slot x"
    if "x \<in> set (db_executions d)" "e_id x = e_id e" for x
  proof -
    have "x = e0"
      using assms(1) that e0 by (auto simp: executions_ok_def distinct_map inj_on_def)
    with assms(3) show ?thesis by simp
  qed
  then have "map idempotency_slot (db_executions (update_execution d e)) =
      map idempotency_slot (db_executions d)"
    unfolding update_execution_def by (simp add: upd_by_keys_other)
  then show ?thesis
    using assms(1) by (simp add: executions_ok_def update_execution_def)
qed

lemma execution_by_id_update [row_simps]:
  "execution_by_id d (e_id e) \<noteq> None \<Longrightarrow>
     execution_by_id (update_execution d e) (e_id e) = Some e"
  by (simp add: execution_by_id_def update_execution_def find_upd_by_same)

lemma execution_by_id_update_other [row_simps]:
  "i \<noteq> e_id e \<Longrightarrow> execution_by_id (update_execution d e) i = execution_by_id d i"
  by (simp add: execution_by_id_def update_execution_def find_upd_by_other)

lemma update_execution_frame [row_simps]:
  "db_reports (update_execution d e) = db_reports d"
  "db_workers (update_execution d e) = db_workers d"
  "report_by_id (update_execution d e) i = report_by_id d i"
  "worker_by_id (update_execution d e) i = worker_by_id d i"
  by (simp_all add: update_execution_def report_by_id_def worker_by_id_def)

lemma get_by_idempotency_key_SomeD:
  "get_by_idempotency_key d org key = Some e \<Longrightarrow>
     e \<in> set (db_executions d) \<and> idempotency_slot e = (org, key)"
  by (auto simp: get_by_idempotency_key_def idempotency_slot_def dest: find_SomeD)

lemma get_by_idempotency_key_slot:
  "get_by_idempotency_key d (fst k) (snd k) = find (\<lambda>e. idempotency_slot e = k) (db_executions d)"
  by (cases k) (auto simp: get_by_idempotency_key_def idempotency_slot_def intro: arg_cong2)

section \<open>Insert or recover\<close>

text \<open>
  The idiom of \<open>enqueue\<close> and \<open>create_retry\<close>: insert a row under a unique key,
  and when another transaction got there first (IntegrityError), roll back and
  return the row that won. \<open>env\<close> is what the other transactions commit while
  this one runs; \<open>base\<close> is the state this transaction started from, which is
  what a rollback returns to. The locale states what a table with a unique
  key promises; it is interpreted on the executions table.
\<close>

definition insert_or_recover ::
  "('d \<Rightarrow> 'k \<Rightarrow> 'r option) \<Rightarrow> ('d \<Rightarrow> 'r \<Rightarrow> 'd result) \<Rightarrow> ('d \<Rightarrow> 'd) \<Rightarrow> 'd \<Rightarrow> 'd \<Rightarrow> 'k \<Rightarrow> 'r \<Rightarrow>
     ('d \<times> 'r \<times> bool) result" where
  "insert_or_recover lookup_row insert_row env base d k r =
     (case insert_row (env d) r of
        Inr d' \<Rightarrow> Inr (d', r, True)
      | Inl e \<Rightarrow>
          if e = IntegrityError
          then (case lookup_row (env base) k of
                  None \<Rightarrow> Inl IntegrityError
                | Some r' \<Rightarrow> Inr (env base, r', False))
          else Inl e)"

locale keyed_table =
  fixes lookup_row :: "'d \<Rightarrow> 'k \<Rightarrow> 'r option"
    and insert_row :: "'d \<Rightarrow> 'r \<Rightarrow> 'd result"
    and key :: "'r \<Rightarrow> 'k"
  assumes lookup_key: "lookup_row d k = Some r \<Longrightarrow> key r = k"
    and lookup_insert: "insert_row d r = Inr d' \<Longrightarrow> lookup_row d' (key r) = Some r"
    and lookup_insert_other: "insert_row d r = Inr d' \<Longrightarrow> k \<noteq> key r \<Longrightarrow> lookup_row d' k = lookup_row d k"
    and insert_taken: "lookup_row d (key r) \<noteq> None \<Longrightarrow> insert_row d r = Inl IntegrityError"
    and insert_error: "insert_row d r = Inl e \<Longrightarrow> e = IntegrityError"
begin

lemma recover_sound:
  assumes "insert_or_recover lookup_row insert_row env base d (key r) r = Inr (d', r', created)"
  shows "lookup_row d' (key r) = Some r'" "key r' = key r"
    and "created \<Longrightarrow> r' = r \<and> lookup_row (env d) (key r) = None"
    and "\<not> created \<Longrightarrow> d' = env base"
proof -
  show found: "lookup_row d' (key r) = Some r'"
    using assms by (auto simp: insert_or_recover_def intro: lookup_insert
        split: sum.splits if_splits option.splits)
  show "key r' = key r"
    using found by (rule lookup_key)
  show "r' = r \<and> lookup_row (env d) (key r) = None" if created
  proof
    have ins: "insert_row (env d) r = Inr d'" and eq: "r' = r"
      using assms that by (auto simp: insert_or_recover_def split: sum.splits if_splits option.splits)
    show "r' = r" by (rule eq)
    show "lookup_row (env d) (key r) = None"
      using ins insert_taken by fastforce
  qed
  show "d' = env base" if "\<not> created"
    using assms that by (auto simp: insert_or_recover_def split: sum.splits if_splits option.splits)
qed

lemma recover_fails_only_if_gone:
  assumes "insert_or_recover lookup_row insert_row env base d (key r) r = Inl e"
  shows "e = IntegrityError" "lookup_row (env base) (key r) = None"
  using assms
  by (auto simp: insert_or_recover_def dest: insert_error
      split: sum.splits if_splits option.splits)

end

interpretation executions: keyed_table
  "\<lambda>d k. get_by_idempotency_key d (fst k) (snd k)" create_execution idempotency_slot
proof
  fix d d' :: db and r :: execution and k e
  show "get_by_idempotency_key d (fst k) (snd k) = Some r \<Longrightarrow> idempotency_slot r = k"
    by (drule get_by_idempotency_key_SomeD) simp
  show "create_execution d r = Inl e \<Longrightarrow> e = IntegrityError"
    by (auto simp: create_execution_def split: if_splits)
  show "get_by_idempotency_key d (fst (idempotency_slot r)) (snd (idempotency_slot r)) \<noteq> None \<Longrightarrow>
      create_execution d r = Inl IntegrityError"
    unfolding get_by_idempotency_key_slot
    by (auto simp: create_execution_def dest: find_SomeD)
  show "get_by_idempotency_key d' (fst (idempotency_slot r)) (snd (idempotency_slot r)) = Some r"
    if "create_execution d r = Inr d'"
  proof -
    have "find (\<lambda>e. idempotency_slot e = idempotency_slot r) (db_executions d) = None"
      using that by (auto simp: create_execution_def find_None_iff_all split: if_splits)
    moreover have "db_executions d' = db_executions d @ [r]"
      using that by (auto simp: create_execution_def split: if_splits)
    ultimately show ?thesis
      unfolding get_by_idempotency_key_slot by (simp add: find_append)
  qed
  show "get_by_idempotency_key d' (fst k) (snd k) = get_by_idempotency_key d (fst k) (snd k)"
    if "create_execution d r = Inr d'" "k \<noteq> idempotency_slot r"
    using that unfolding get_by_idempotency_key_slot
    by (auto simp: create_execution_def find_append split: if_splits option.splits)
qed

section \<open>Claiming\<close>

lemma oldest_first_set [simp]: "set (oldest_first es) = set es"
  by (simp add: oldest_first_def)

lemma oldest_first_Nil [simp]: "oldest_first es = [] \<longleftrightarrow> es = []"
  by (metis oldest_first_set set_empty)

lemma claim_candidate_SomeD:
  assumes "claim_candidate d locked org wid supported now = Some e"
  shows "e \<in> set (db_executions d)" "claimable d org wid supported now e" "e_id e \<notin> set locked"
proof -
  let ?c = "filter (\<lambda>e. claimable d org wid supported now e \<and> e_id e \<notin> set locked) (db_executions d)"
  obtain es where "oldest_first ?c = e # es"
    using assms by (auto simp: claim_candidate_def split: list.splits)
  then have "e \<in> set (oldest_first ?c)" by simp
  then have "e \<in> set ?c" by simp
  then show "e \<in> set (db_executions d)" "claimable d org wid supported now e" "e_id e \<notin> set locked"
    by auto
qed

lemma claim_candidate_NoneD:
  assumes "claim_candidate d locked org wid supported now = None"
    and "e \<in> set (db_executions d)" "e_id e \<notin> set locked"
  shows "\<not> claimable d org wid supported now e"
  using assms by (auto simp: claim_candidate_def filter_empty_conv split: list.splits)

lemma claim_candidate_oldest:
  assumes "claim_candidate d locked org wid supported now = Some e"
    and "x \<in> set (db_executions d)" "claimable d org wid supported now x" "e_id x \<notin> set locked"
  shows "e_available_at e < e_available_at x \<or>
     (e_available_at e = e_available_at x \<and> e_queued_at e \<le> e_queued_at x)"
proof -
  let ?c = "filter (\<lambda>e. claimable d org wid supported now e \<and> e_id e \<notin> set locked) (db_executions d)"
  let ?q = "sort_key e_queued_at ?c"
  obtain es where es: "sort_key e_available_at ?q = e # es"
    using assms(1) by (auto simp: claim_candidate_def oldest_first_def split: list.splits)
  have "x \<in> set (e # es)"
    unfolding es [symmetric] using assms(2-4) by simp
  moreover have "sorted (map e_available_at (e # es))"
    unfolding es [symmetric] by (rule sorted_sort_key)
  ultimately have le: "e_available_at e \<le> e_available_at x" by auto
  show ?thesis
  proof (cases "e_available_at e = e_available_at x")
    case True
    let ?P = "\<lambda>y. e_available_at y = e_available_at x"
    have "filter ?P (e # es) = filter ?P ?q"
      unfolding es [symmetric] using sort_key_stable [of e_available_at "e_available_at x" ?q]
      by (simp add: eq_commute)
    moreover have "sorted (map e_queued_at (filter ?P ?q))"
      by (rule sorted_filter [OF sorted_sort_key])
    ultimately have "sorted (map e_queued_at (filter ?P (e # es)))" by simp
    moreover have "x \<in> set (filter ?P (e # es))"
      using \<open>x \<in> set (e # es)\<close> True by auto
    ultimately have "e_queued_at e \<le> e_queued_at x"
      using True by auto
    with True show ?thesis by simp
  next
    case False
    with le show ?thesis by simp
  qed
qed

end
