(* ===== verification/ReportWorkers.thy ===== *)
theory ReportWorkers
  imports ReportTables
begin

text \<open>
  Worker identity, enrollment, credentials and liveness:
  \<open>reports/worker_service.py\<close>, \<open>reports/worker_credentials.py\<close> and the
  worker half of \<open>api/dependencies/worker_auth.py\<close>. The keyed digest
  (\<open>hash_secret\<close>, HMAC-SHA256 under SECRET\_KEY), the random secrets and the
  clock are arguments of the operations.
\<close>

section \<open>Settings\<close>

record settings =
  REPORT_EXECUTION_TIMEOUT_SECONDS :: int
  REPORT_EXECUTION_MAX_TIMEOUT_SECONDS :: int
  REPORT_EXECUTION_LEASE_SECONDS :: int
  REPORT_WORKER_OFFLINE_AFTER_SECONDS :: int
  REPORT_WORKER_ENROLLMENT_TTL_MINUTES :: int
  REPORT_WORKER_TOKEN_EXPIRE_MINUTES :: int
  REPORT_MAX_ATTEMPTS :: int
  REPORT_RETRY_BACKOFF_SECONDS :: int
  REPORT_RETRY_BACKOFF_MAX_SECONDS :: int
  REPORT_TRACE_LOG_MAX_CHARS :: nat

definition default_settings :: settings where
  "default_settings =
     \<lparr>REPORT_EXECUTION_TIMEOUT_SECONDS = 1200,
      REPORT_EXECUTION_MAX_TIMEOUT_SECONDS = 7200,
      REPORT_EXECUTION_LEASE_SECONDS = 120,
      REPORT_WORKER_OFFLINE_AFTER_SECONDS = 90,
      REPORT_WORKER_ENROLLMENT_TTL_MINUTES = 60,
      REPORT_WORKER_TOKEN_EXPIRE_MINUTES = 15,
      REPORT_MAX_ATTEMPTS = 3,
      REPORT_RETRY_BACKOFF_SECONDS = 60,
      REPORT_RETRY_BACKOFF_MAX_SECONDS = 1800,
      REPORT_TRACE_LOG_MAX_CHARS = 20000\<rparr>"

section \<open>Credentials\<close>

definition generate_enrollment_token :: "string \<Rightarrow> string" where
  "generate_enrollment_token random = ''pacw-enroll-'' @ random"

definition generate_worker_secret :: "string \<Rightarrow> string" where
  "generate_worker_secret random = ''pacw-secret-'' @ random"

definition verify_secret :: "(string \<Rightarrow> string) \<Rightarrow> string \<Rightarrow> string option \<Rightarrow> bool" where
  "verify_secret hash_secret v expected =
     (case expected of
        None \<Rightarrow> False
      | Some h \<Rightarrow> if h = [] then False else hash_secret v = h)"

definition enrollment_expiry :: "settings \<Rightarrow> time \<Rightarrow> time" where
  "enrollment_expiry cfg now = now + seconds (60 * REPORT_WORKER_ENROLLMENT_TTL_MINUTES cfg)"

text \<open>The claims of a worker token; signing and expiry are the JWT library's.\<close>

record worker_claims =
  c_sub :: string
  c_type :: string
  c_org :: string
  c_sv :: int
  c_iat :: time
  c_exp :: time

definition WORKER_TOKEN_TYPE :: string where
  "WORKER_TOKEN_TYPE = ''worker_access''"

definition create_worker_token :: "settings \<Rightarrow> time \<Rightarrow> worker \<Rightarrow> worker_claims \<times> int" where
  "create_worker_token cfg issued_at w =
     (let expires_in = REPORT_WORKER_TOKEN_EXPIRE_MINUTES cfg * 60 in
      (\<lparr>c_sub = w_id w, c_type = WORKER_TOKEN_TYPE, c_org = w_organization_id w,
        c_sv = w_secret_version w, c_iat = issued_at,
        c_exp = issued_at + seconds expires_in\<rparr>,
       expires_in))"

text \<open>
  \<open>jwt.decode\<close> checks the signature and the expiry; \<open>verified\<close> is its result
  (None for JWTError).
\<close>

definition decode_worker_token :: "worker_claims option \<Rightarrow> worker_claims result" where
  "decode_worker_token verified =
     (case verified of
        None \<Rightarrow> Inl Authentication
      | Some payload \<Rightarrow>
          if c_type payload \<noteq> WORKER_TOKEN_TYPE then Inl Authentication else Inr payload)"

section \<open>Host facts\<close>

text \<open>
  The facts a worker reports: \<open>WorkerHostFacts.model_dump()\<close>, whose fields are
  optional strings and a list of capability texts.
\<close>

record host_facts =
  hf_version :: "string option"
  hf_os :: "string option"
  hf_excel_version :: "string option"
  hf_pafe_version :: "string option"
  hf_hostname :: "string option"
  hf_capabilities :: "string list option"

definition KNOWN_CAPABILITIES :: "string list" where
  "KNOWN_CAPABILITIES = map worker_capability_value worker_capabilities"

definition trimmed :: "string option \<Rightarrow> nat \<Rightarrow> string option" where
  "trimmed v limit = map_option (take limit) v"

definition keep_or :: "'a option \<Rightarrow> 'a option \<Rightarrow> 'a option" where
  "keep_or new old = (case new of None \<Rightarrow> old | Some v \<Rightarrow> Some v)"

definition apply_host_facts :: "worker \<Rightarrow> host_facts \<Rightarrow> worker" where
  "apply_host_facts w f =
     w\<lparr>w_version := keep_or (trimmed (hf_version f) 30) (w_version w),
       w_os := keep_or (trimmed (hf_os f) 100) (w_os w),
       w_excel_version := keep_or (trimmed (hf_excel_version f) 50) (w_excel_version w),
       w_pafe_version := keep_or (trimmed (hf_pafe_version f) 50) (w_pafe_version w),
       w_hostname := keep_or (trimmed (hf_hostname f) 100) (w_hostname w),
       w_capabilities :=
         (case hf_capabilities f of
            None \<Rightarrow> w_capabilities w
          | Some cs \<Rightarrow> Some (sort (remdups (filter (\<lambda>v. v \<in> set KNOWN_CAPABILITIES) cs))))\<rparr>"

section \<open>Console side\<close>

definition register_worker ::
  "(string \<Rightarrow> string) \<Rightarrow> settings \<Rightarrow> db \<Rightarrow> uuid \<Rightarrow> string \<Rightarrow> time \<Rightarrow> uuid \<Rightarrow> uuid \<Rightarrow> string option \<Rightarrow>
     string option \<Rightarrow> (db \<times> worker \<times> string) result" where
  "register_worker hash_secret cfg d new_id random now org user name0 description =
     (let nm = strip (case name0 of None \<Rightarrow> [] | Some n \<Rightarrow> n) in
      if nm = [] then Inl Validation
      else if worker_by_name d org nm \<noteq> None then Inl (Conflict CONFLICT)
      else
        let token = generate_enrollment_token random;
            w = \<lparr>w_id = new_id, w_organization_id = org, w_created_by = user, w_name = nm,
                 w_description = description, w_status = PENDING_ENROLLMENT,
                 w_enrollment_token_hash = Some (hash_secret token),
                 w_enrollment_expires_at = Some (enrollment_expiry cfg now),
                 w_enrolled_at = None, w_secret_hash = None, w_secret_version = 1,
                 w_secret_rotated_at = None, w_version = None, w_os = None,
                 w_excel_version = None, w_pafe_version = None, w_hostname = None,
                 w_capabilities = None, w_last_heartbeat_at = None, w_disabled_at = None,
                 w_last_error = None\<rparr>
        in (case create_worker d w of Inl e \<Rightarrow> Inl e | Inr d' \<Rightarrow> Inr (d', w, token)))"

definition get_worker :: "db \<Rightarrow> uuid \<Rightarrow> uuid \<Rightarrow> worker result" where
  "get_worker d wid org =
     (case worker_by_id d wid of
        None \<Rightarrow> Inl NotFound
      | Some w \<Rightarrow> if w_organization_id w \<noteq> org then Inl NotFound else Inr w)"

definition rotate_credential ::
  "(string \<Rightarrow> string) \<Rightarrow> db \<Rightarrow> string \<Rightarrow> time \<Rightarrow> uuid \<Rightarrow> uuid \<Rightarrow> (db \<times> worker \<times> string) result" where
  "rotate_credential hash_secret d random now wid org =
     (case get_worker d wid org of
        Inl e \<Rightarrow> Inl e
      | Inr w \<Rightarrow>
          if w_status w = PENDING_ENROLLMENT then Inl (Conflict CONFLICT)
          else
            let secret = generate_worker_secret random;
                w' = w\<lparr>w_secret_hash := Some (hash_secret secret),
                       w_secret_version := w_secret_version w + 1,
                       w_secret_rotated_at := Some now\<rparr>
            in Inr (update_worker d w', w', secret))"

definition reissue_enrollment ::
  "(string \<Rightarrow> string) \<Rightarrow> settings \<Rightarrow> db \<Rightarrow> string \<Rightarrow> time \<Rightarrow> uuid \<Rightarrow> uuid \<Rightarrow>
     (db \<times> worker \<times> string) result" where
  "reissue_enrollment hash_secret cfg d random now wid org =
     (case get_worker d wid org of
        Inl e \<Rightarrow> Inl e
      | Inr w \<Rightarrow>
          if w_status w = DISABLED then Inl (Conflict CONFLICT)
          else
            let token = generate_enrollment_token random;
                w' = w\<lparr>w_enrollment_token_hash := Some (hash_secret token),
                       w_enrollment_expires_at := Some (enrollment_expiry cfg now),
                       w_secret_hash := None,
                       w_secret_version := w_secret_version w + 1,
                       w_status := PENDING_ENROLLMENT\<rparr>
            in Inr (update_worker d w', w', token))"

definition set_enabled :: "db \<Rightarrow> time \<Rightarrow> uuid \<Rightarrow> uuid \<Rightarrow> bool \<Rightarrow> (db \<times> worker) result" where
  "set_enabled d now wid org enabled =
     (case get_worker d wid org of
        Inl e \<Rightarrow> Inl e
      | Inr w \<Rightarrow>
          if enabled then
            if w_status w \<noteq> DISABLED then Inr (d, w)
            else
              let w' = w\<lparr>w_disabled_at := None,
                         w_status := (case w_secret_hash w of
                                        None \<Rightarrow> PENDING_ENROLLMENT
                                      | Some h \<Rightarrow> if h = [] then PENDING_ENROLLMENT else OFFLINE)\<rparr>
              in Inr (update_worker d w', w')
          else
            let w' = w\<lparr>w_status := DISABLED, w_disabled_at := Some now\<rparr>
            in Inr (update_worker d w', w'))"

section \<open>Worker side\<close>

definition enroll ::
  "(string \<Rightarrow> string) \<Rightarrow> db \<Rightarrow> string \<Rightarrow> time \<Rightarrow> string \<Rightarrow> host_facts \<Rightarrow>
     (db \<times> worker \<times> string) result" where
  "enroll hash_secret d random now token facts =
     (case get_by_enrollment_token_hash d (hash_secret token) of
        None \<Rightarrow> Inl Authentication
      | Some w \<Rightarrow>
          if w_status w = DISABLED then Inl Authentication
          else case w_enrollment_expires_at w of
            None \<Rightarrow> Inl Authentication
          | Some expires_at \<Rightarrow>
              if expires_at < now then Inl Authentication
              else
                let secret = generate_worker_secret random;
                    w' = apply_host_facts
                           (w\<lparr>w_secret_hash := Some (hash_secret secret),
                              w_enrollment_token_hash := None,
                              w_enrollment_expires_at := None,
                              w_enrolled_at := Some now,
                              w_status := ONLINE,
                              w_last_heartbeat_at := Some now\<rparr>) facts
                in Inr (update_worker d w', w', secret))"

definition authenticate_worker ::
  "(string \<Rightarrow> string) \<Rightarrow> db \<Rightarrow> uuid \<Rightarrow> string \<Rightarrow> worker result" where
  "authenticate_worker hash_secret d wid secret =
     (case worker_by_id d wid of
        None \<Rightarrow> Inl Authentication
      | Some w \<Rightarrow>
          if \<not> verify_secret hash_secret secret (w_secret_hash w) then Inl Authentication
          else if w_status w = DISABLED then Inl Authentication
          else Inr w)"

text \<open>\<open>is_uuid\<close> is the check of \<open>uuid.UUID(str(...))\<close>.\<close>

definition resolve_token_subject ::
  "(string \<Rightarrow> bool) \<Rightarrow> db \<Rightarrow> worker_claims \<Rightarrow> worker result" where
  "resolve_token_subject is_uuid d payload =
     (if \<not> is_uuid (c_sub payload) then Inl Authentication
      else case worker_by_id d (c_sub payload) of
        None \<Rightarrow> Inl Authentication
      | Some w \<Rightarrow>
          if c_sv payload \<noteq> w_secret_version w then Inl Authentication
          else if w_organization_id w \<noteq> c_org payload then Inl Authentication
          else if w_status w = DISABLED then Inl Authentication
          else if w_secret_hash w = None then Inl Authentication
          else Inr w)"

definition MAX_LAST_ERROR_CHARS :: nat where
  "MAX_LAST_ERROR_CHARS = 500"

definition heartbeat ::
  "db \<Rightarrow> worker \<Rightarrow> time \<Rightarrow> host_facts option \<Rightarrow> bool \<Rightarrow> string option \<Rightarrow> db \<times> worker" where
  "heartbeat d w now facts busy last_error =
     (let w1 = w\<lparr>w_last_heartbeat_at := Some now,
                 w_status := (if busy then BUSY else ONLINE)\<rparr>;
          w2 = (case last_error of
                  None \<Rightarrow> w1
                | Some e \<Rightarrow> w1\<lparr>w_last_error := Some (take MAX_LAST_ERROR_CHARS e)\<rparr>);
          w3 = (case facts of None \<Rightarrow> w2 | Some f \<Rightarrow> apply_host_facts w2 f)
      in (update_worker d w3, w3))"

section \<open>Derived state\<close>

definition effective_status :: "settings \<Rightarrow> time \<Rightarrow> worker \<Rightarrow> WorkerStatus" where
  "effective_status cfg now w =
     (if w_status w \<in> {DISABLED, PENDING_ENROLLMENT, WORKER_ERROR} then w_status w
      else case w_last_heartbeat_at w of
        None \<Rightarrow> OFFLINE
      | Some beat \<Rightarrow>
          if beat < now - seconds (REPORT_WORKER_OFFLINE_AFTER_SECONDS cfg) then OFFLINE
          else w_status w)"

definition is_schedulable :: "worker \<Rightarrow> bool" where
  "is_schedulable w \<longleftrightarrow>
     w_status w \<in> set WORKER_SCHEDULABLE_STATUSES \<and> w_secret_hash w \<noteq> None"

definition capabilities_of :: "worker \<Rightarrow> WorkerCapability set" where
  "capabilities_of w =
     set (List.map_filter (enum_of worker_capability_value worker_capabilities)
            (case w_capabilities w of None \<Rightarrow> [] | Some cs \<Rightarrow> cs))"

section \<open>Facts about workers\<close>

lemma worker_by_id_SomeD: "worker_by_id d i = Some w \<Longrightarrow> w \<in> set (db_workers d) \<and> w_id w = i"
  by (auto simp: worker_by_id_def dest: find_SomeD)

lemma get_worker_InrD:
  "get_worker d wid org = Inr w \<Longrightarrow>
     worker_by_id d wid = Some w \<and> w_organization_id w = org \<and> w_id w = wid"
  by (auto simp: get_worker_def dest: worker_by_id_SomeD split: option.splits if_splits)

lemma worker_by_id_update [row_simps]:
  "worker_by_id d (w_id w) \<noteq> None \<Longrightarrow> worker_by_id (update_worker d w) (w_id w) = Some w"
  by (simp add: worker_by_id_def update_worker_def find_upd_by_same)

lemma worker_by_id_update_other [row_simps]:
  "i \<noteq> w_id w \<Longrightarrow> worker_by_id (update_worker d w) i = worker_by_id d i"
  by (simp add: worker_by_id_def update_worker_def find_upd_by_other)

lemma apply_host_facts_frame [simp]:
  "w_id (apply_host_facts w f) = w_id w"
  "w_organization_id (apply_host_facts w f) = w_organization_id w"
  "w_status (apply_host_facts w f) = w_status w"
  "w_enrollment_token_hash (apply_host_facts w f) = w_enrollment_token_hash w"
  "w_enrollment_expires_at (apply_host_facts w f) = w_enrollment_expires_at w"
  "w_secret_hash (apply_host_facts w f) = w_secret_hash w"
  "w_secret_version (apply_host_facts w f) = w_secret_version w"
  "w_last_heartbeat_at (apply_host_facts w f) = w_last_heartbeat_at w"
  by (simp_all add: apply_host_facts_def)

text \<open>The constraints the database enforces on the workers table.\<close>

definition workers_ok :: "db \<Rightarrow> bool" where
  "workers_ok d \<longleftrightarrow>
     distinct (map w_id (db_workers d)) \<and>
     (\<forall>x \<in> set (db_workers d). \<forall>y \<in> set (db_workers d).
        w_enrollment_token_hash x \<noteq> None \<longrightarrow>
        w_enrollment_token_hash x = w_enrollment_token_hash y \<longrightarrow> w_id x = w_id y)"

lemma workers_ok_unique:
  "workers_ok d \<Longrightarrow> x \<in> set (db_workers d) \<Longrightarrow> y \<in> set (db_workers d) \<Longrightarrow> w_id x = w_id y \<Longrightarrow> x = y"
  by (auto simp: workers_ok_def distinct_map inj_on_def)

lemma create_worker_ok:
  assumes "workers_ok d" "create_worker d w = Inr d'"
  shows "workers_ok d'"
  using assms by (fastforce simp: create_worker_def workers_ok_def split: if_splits)

text \<open>
  What an operation that spends or clears an enrollment token leaves: the
  token of the row is gone, the other rows keep theirs.
\<close>

lemma in_update_worker:
  "x \<in> set (db_workers (update_worker d w)) \<longleftrightarrow>
     (x \<in> set (db_workers d) \<and> w_id x \<noteq> w_id w) \<or>
     (x = w \<and> (\<exists>y \<in> set (db_workers d). w_id y = w_id w))"
  by (simp add: update_worker_def in_set_upd_by)

lemma update_worker_ok:
  assumes "workers_ok d"
    and "\<And>y. y \<in> set (db_workers d) \<Longrightarrow> w_enrollment_token_hash w \<noteq> None \<Longrightarrow>
           w_enrollment_token_hash y = w_enrollment_token_hash w \<Longrightarrow> w_id y = w_id w"
  shows "workers_ok (update_worker d w)"
proof -
  have "distinct (map w_id (db_workers (update_worker d w)))"
    using assms(1) by (simp add: workers_ok_def update_worker_def)
  moreover have "w_id x = w_id y"
    if "x \<in> set (db_workers (update_worker d w))" "y \<in> set (db_workers (update_worker d w))"
      and "w_enrollment_token_hash x \<noteq> None" "w_enrollment_token_hash x = w_enrollment_token_hash y"
    for x y
    using that assms unfolding in_update_worker workers_ok_def by metis
  ultimately show ?thesis unfolding workers_ok_def by blast
qed

lemma get_by_enrollment_token_hash_SomeD:
  "get_by_enrollment_token_hash d h = Some w \<Longrightarrow>
     w \<in> set (db_workers d) \<and> w_enrollment_token_hash w = Some h"
  by (auto simp: get_by_enrollment_token_hash_def dest: find_SomeD)

lemma enroll_InrE:
  assumes "enroll hash_secret d random now token facts = Inr (d', w', secret)"
  obtains w where "get_by_enrollment_token_hash d (hash_secret token) = Some w"
    and "w_status w \<noteq> DISABLED"
    and "\<exists>t. w_enrollment_expires_at w = Some t \<and> now \<le> t"
    and "d' = update_worker d w'" and "secret = generate_worker_secret random"
    and "w_id w' = w_id w" and "w_organization_id w' = w_organization_id w"
    and "w_enrollment_token_hash w' = None" and "w_secret_hash w' = Some (hash_secret secret)"
    and "w_status w' = ONLINE" and "w_secret_version w' = w_secret_version w"
  using assms
  by (auto simp: enroll_def Let_def not_less split: option.splits if_splits)

lemma enroll_spends_token:
  assumes ok: "workers_ok d"
    and en: "enroll hash_secret d random now token facts = Inr (d', w', secret)"
  shows "get_by_enrollment_token_hash d' (hash_secret token) = None" "workers_ok d'"
proof -
  obtain w where w: "get_by_enrollment_token_hash d (hash_secret token) = Some w"
    and d': "d' = update_worker d w'" and ids: "w_id w' = w_id w" "w_enrollment_token_hash w' = None"
    using en by (rule enroll_InrE)
  have w_in: "w \<in> set (db_workers d)" "w_enrollment_token_hash w = Some (hash_secret token)"
    using get_by_enrollment_token_hash_SomeD [OF w] by auto
  show "workers_ok d'"
    unfolding d' using ok by (rule update_worker_ok) (simp add: ids)
  have "w_enrollment_token_hash x \<noteq> Some (hash_secret token)" if x: "x \<in> set (db_workers d')" for x
  proof
    assume eq: "w_enrollment_token_hash x = Some (hash_secret token)"
    with x ids d' have "x \<in> set (db_workers d)" "w_id x \<noteq> w_id w"
      by (auto simp: in_update_worker)
    with eq w_in ok show False unfolding workers_ok_def by (metis option.distinct(1))
  qed
  then show "get_by_enrollment_token_hash d' (hash_secret token) = None"
    by (auto simp: get_by_enrollment_token_hash_def find_None_iff_all)
qed

text \<open>A token is accepted only for a live row whose credential version it carries.\<close>

lemma resolve_token_subject_InrD:
  assumes "resolve_token_subject is_uuid d payload = Inr w"
  shows "worker_by_id d (c_sub payload) = Some w" "c_sv payload = w_secret_version w"
    "c_org payload = w_organization_id w" "w_status w \<noteq> DISABLED" "w_secret_hash w \<noteq> None"
  using assms by (auto simp: resolve_token_subject_def split: if_splits option.splits)

lemma capabilities_of_iff:
  "c \<in> capabilities_of w \<longleftrightarrow>
     (case w_capabilities w of None \<Rightarrow> False | Some cs \<Rightarrow> worker_capability_value c \<in> set cs)"
  by (auto simp: capabilities_of_def List.map_filter_def worker_capability.enum_of_iff
      worker_capability.enum_of_val image_iff split: option.splits)

lemma apply_host_facts_known:
  "hf_capabilities f = Some cs \<Longrightarrow>
     w_capabilities (apply_host_facts w f) = Some (sort (remdups (filter (\<lambda>v. v \<in> set KNOWN_CAPABILITIES) cs)))"
  by (simp add: apply_host_facts_def)

end
