(* ===== verification/ReportExecutions.thy ===== *)
theory ReportExecutions
  imports ReportWorkers "HOL-Library.AList"
begin

text \<open>
  The execution lifecycle, \<open>reports/execution_service.py\<close>: enqueue, claim,
  start, heartbeat, finish, fail, cancel, retry, reap. Each operation takes the
  database, the clock and the identifiers the code mints, and returns the new
  database with its result. An operation that raises before its first flush is
  a \<open>result\<close>; \<open>extend_lease\<close>, which flushes and then raises, returns the
  flushed database beside its result.
\<close>

section \<open>Idempotency keys\<close>

text \<open>The fields of a UTC datetime that \<open>strftime\<close> and \<open>isoformat\<close> print.\<close>

record moment =
  m_year :: nat
  m_month :: nat
  m_day :: nat
  m_hour :: nat
  m_minute :: nat
  m_second :: nat
  m_microsecond :: nat

text \<open>
  The UTC fields of a point in time: the proleptic Gregorian calendar, counted
  in 400-year eras of 146097 days that start on 1 March.
\<close>

definition moment_of :: "time \<Rightarrow> moment" where
  "moment_of t =
     (let day = t div 86400000000; rest = t mod 86400000000;
          z = day + 719468; era = z div 146097; doe = z mod 146097;
          yoe = (doe - doe div 1460 + doe div 36524 - doe div 146096) div 365;
          doy = doe - (365 * yoe + yoe div 4 - yoe div 100);
          mp = (5 * doy + 2) div 153;
          month = (if mp < 10 then mp + 3 else mp - 9)
      in \<lparr>m_year = nat (yoe + era * 400 + (if month \<le> 2 then 1 else 0)),
          m_month = nat month,
          m_day = nat (doy - (153 * mp + 2) div 5 + 1),
          m_hour = nat (rest div 3600000000),
          m_minute = nat (rest div 60000000 mod 60),
          m_second = nat (rest div 1000000 mod 60),
          m_microsecond = nat (rest mod 1000000)\<rparr>)"

definition minute_bucket :: "moment \<Rightarrow> string" where
  "minute_bucket m =
     pad 4 (m_year m) @ pad 2 (m_month m) @ pad 2 (m_day m) @ ''T'' @
     pad 2 (m_hour m) @ pad 2 (m_minute m)"

definition manual_idempotency_key :: "uuid \<Rightarrow> uuid \<Rightarrow> moment \<Rightarrow> string" where
  "manual_idempotency_key rid user m =
     ''manual:'' @ rid @ '':'' @ user @ '':'' @ minute_bucket m"

definition isoformat_utc :: "moment \<Rightarrow> string" where
  "isoformat_utc m =
     pad 4 (m_year m) @ ''-'' @ pad 2 (m_month m) @ ''-'' @ pad 2 (m_day m) @ ''T'' @
     pad 2 (m_hour m) @ '':'' @ pad 2 (m_minute m) @ '':'' @ pad 2 (m_second m) @
     (if m_microsecond m = 0 then [] else ''.'' @ pad 6 (m_microsecond m)) @ ''+00:00''"

definition scheduled_idempotency_key :: "uuid \<Rightarrow> moment \<Rightarrow> string" where
  "scheduled_idempotency_key rid m = ''scheduled:'' @ rid @ '':'' @ isoformat_utc m"

definition retry_idempotency_key :: "string \<Rightarrow> int \<Rightarrow> string" where
  "retry_idempotency_key key n = key @ ''#a'' @ nat_str (nat n)"

section \<open>Enqueue\<close>

definition timeout_for :: "settings \<Rightarrow> report \<Rightarrow> int" where
  "timeout_for cfg r =
     (case map_of (case r_parameters r of None \<Rightarrow> [] | Some p \<Rightarrow> p) ''timeout_seconds'' of
        None \<Rightarrow> REPORT_EXECUTION_TIMEOUT_SECONDS cfg
      | Some raw \<Rightarrow>
          if raw = JNull then REPORT_EXECUTION_TIMEOUT_SECONDS cfg
          else case py_int raw of
            None \<Rightarrow> REPORT_EXECUTION_TIMEOUT_SECONDS cfg
          | Some requested \<Rightarrow> max 60 (min requested (REPORT_EXECUTION_MAX_TIMEOUT_SECONDS cfg)))"

definition required_capabilities :: "report \<Rightarrow> WorkerCapability set" where
  "required_capabilities r =
     {EXCEL, PAFE_AUTOMATION} \<union>
     set (List.map_filter
            (\<lambda>v. case enum_of output_format_value output_formats_all v of
                    None \<Rightarrow> None
                  | Some f \<Rightarrow> map_of FORMAT_CAPABILITY f)
            (r_output_formats r))"

definition conflict_code :: "ReportErrorCode \<Rightarrow> exn" where
  "conflict_code c = Conflict (upper (error_code_value c))"

definition assert_a_worker_could_run_this :: "db \<Rightarrow> report \<Rightarrow> uuid \<Rightarrow> unit result" where
  "assert_a_worker_could_run_this d r org =
     (let required = required_capabilities r in
      case r_worker_id r of
        Some wid \<Rightarrow>
          (case worker_by_id d wid of
             None \<Rightarrow> Inl (conflict_code WORKER_OFFLINE)
           | Some w \<Rightarrow>
               if w_organization_id w \<noteq> org \<or> \<not> is_schedulable w
               then Inl (conflict_code WORKER_OFFLINE)
               else if \<not> required \<subseteq> capabilities_of w
               then Inl (conflict_code WORKER_CAPABILITY_MISSING)
               else Inr ())
      | None \<Rightarrow>
          let schedulable = filter is_schedulable (list_workers_by_organization d org);
              eligible = filter (\<lambda>w. required \<subseteq> capabilities_of w) schedulable
          in if eligible \<noteq> [] then Inr ()
             else if schedulable \<noteq> [] then Inl (conflict_code WORKER_CAPABILITY_MISSING)
             else Inl (conflict_code WORKER_OFFLINE))"

definition new_execution ::
  "settings \<Rightarrow> time \<Rightarrow> uuid \<Rightarrow> uuid \<Rightarrow> report \<Rightarrow> uuid \<Rightarrow> TriggerType \<Rightarrow> uuid option \<Rightarrow> string \<Rightarrow>
     time option \<Rightarrow> execution" where
  "new_execution cfg now new_id correlation r org trigger user key scheduled_for =
     \<lparr>e_id = new_id, e_organization_id = org, e_report_id = r_id r,
      e_workbook_id = r_workbook_id r, e_worker_id = None, e_triggered_by = user,
      e_trigger_type = trigger, e_status = QUEUED, e_idempotency_key = key,
      e_correlation_id = correlation, e_scheduled_for = scheduled_for, e_attempt = 1,
      e_max_attempts = REPORT_MAX_ATTEMPTS cfg, e_parent_execution_id = None,
      e_queued_at = now, e_available_at = now, e_assigned_at = None, e_started_at = None,
      e_completed_at = None, e_duration_ms = None, e_lease_expires_at = None,
      e_timeout_seconds = timeout_for cfg r, e_error_code = None, e_error_message = None,
      e_retry_class = None, e_diagnostics = None, e_trace_log = None\<rparr>"

definition enqueue ::
  "settings \<Rightarrow> (db \<Rightarrow> db) \<Rightarrow> db \<Rightarrow> db \<Rightarrow> time \<Rightarrow> uuid \<Rightarrow> uuid \<Rightarrow> report \<Rightarrow> uuid \<Rightarrow> TriggerType \<Rightarrow>
     uuid option \<Rightarrow> string \<Rightarrow> time option \<Rightarrow> (db \<times> execution \<times> bool) result" where
  "enqueue cfg env base d now new_id correlation r org trigger user key scheduled_for =
     (if r_status r \<noteq> REPORT_ACTIVE then Inl (Conflict CONFLICT)
      else if r_workbook_id r = None then Inl Validation
      else case get_by_idempotency_key d org key of
        Some existing \<Rightarrow> Inr (d, existing, False)
      | None \<Rightarrow>
          bind_result (assert_a_worker_could_run_this d r org) (\<lambda>_.
            insert_or_recover (\<lambda>d k. get_by_idempotency_key d (fst k) (snd k)) create_execution
              env base d (org, key)
              (new_execution cfg now new_id correlation r org trigger user key scheduled_for)))"

section \<open>Ownership and the end of an execution\<close>

definition assert_owned_by :: "execution \<Rightarrow> worker \<Rightarrow> unit result" where
  "assert_owned_by e w =
     (if e_organization_id e \<noteq> w_organization_id w then Inl NotFound
      else if e_worker_id e \<noteq> Some (w_id w) then Inl NotFound
      else Inr ())"

definition finalize ::
  "settings \<Rightarrow> time \<Rightarrow> execution \<Rightarrow> string option \<Rightarrow> (string \<times> json) list option \<Rightarrow> execution" where
  "finalize cfg now e trace_log diagnostics =
     (let started = (case e_started_at e of Some s \<Rightarrow> s | None \<Rightarrow> e_queued_at e);
          e1 = e\<lparr>e_completed_at := Some now, e_lease_expires_at := None,
                 e_duration_ms := Some (max 0 ((now - started) div 1000))\<rparr>;
          e2 = (case trace_log of
                  None \<Rightarrow> e1
                | Some t \<Rightarrow>
                    if t = [] then e1
                    else e1\<lparr>e_trace_log := Some (take (REPORT_TRACE_LOG_MAX_CHARS cfg) t)\<rparr>)
      in (case diagnostics of
            None \<Rightarrow> e2
          | Some m \<Rightarrow>
              if m = [] then e2
              else e2\<lparr>e_diagnostics :=
                        Some (AList.merge (case e_diagnostics e of None \<Rightarrow> [] | Some old \<Rightarrow> old) m)\<rparr>))"

definition mark_started ::
  "settings \<Rightarrow> time \<Rightarrow> db \<Rightarrow> execution \<Rightarrow> worker \<Rightarrow> (db \<times> execution) result" where
  "mark_started cfg now d e w =
     bind_result (assert_owned_by e w) (\<lambda>_.
     bind_result (assert_transition (e_status e) RUNNING) (\<lambda>_.
       let e' = e\<lparr>e_status := RUNNING, e_started_at := Some now,
                  e_lease_expires_at := Some (now + seconds (REPORT_EXECUTION_LEASE_SECONDS cfg))\<rparr>
       in Inr (update_execution d e', e')))"

definition fail_execution ::
  "settings \<Rightarrow> time \<Rightarrow> db \<Rightarrow> execution \<Rightarrow> worker option \<Rightarrow> ReportErrorCode \<Rightarrow> ExecutionStatus \<Rightarrow>
     string option \<Rightarrow> (string \<times> json) list option \<Rightarrow> (db \<times> execution) result" where
  "fail_execution cfg now d e w error_code target trace_log diagnostics =
     bind_result (case w of None \<Rightarrow> Inr () | Some w' \<Rightarrow> assert_owned_by e w') (\<lambda>_.
     bind_result (assert_transition (e_status e) target) (\<lambda>_.
       let e' = finalize cfg now
                  (e\<lparr>e_status := target, e_error_code := Some error_code,
                     e_error_message := Some (message_for error_code),
                     e_retry_class := Some (retry_class_for error_code)\<rparr>)
                  trace_log diagnostics
       in Inr (update_execution d e', e')))"

definition extend_lease ::
  "settings \<Rightarrow> time \<Rightarrow> db \<Rightarrow> execution \<Rightarrow> worker \<Rightarrow> string option \<Rightarrow> db \<times> execution result" where
  "extend_lease cfg now d e w step =
     (case assert_owned_by e w of
        Inl x \<Rightarrow> (d, Inl x)
      | Inr _ \<Rightarrow>
          if e_status e \<notin> {ASSIGNED, RUNNING}
          then (d, Inl (Conflict ''INVALID_EXECUTION_TRANSITION''))
          else
            let started = (case e_started_at e of Some s \<Rightarrow> Some s | None \<Rightarrow> e_assigned_at e);
                overdue = (case started of
                             None \<Rightarrow> False
                           | Some s \<Rightarrow> s + seconds (e_timeout_seconds e) < now)
            in if overdue
               then (case fail_execution cfg now d e (Some w) EXECUTION_TIMEOUT TIMED_OUT None
                            (Some [(''timeout_seconds'', JInt (e_timeout_seconds e)),
                                   (''step'', case step of None \<Rightarrow> JNull | Some s \<Rightarrow> JStr s)]) of
                       Inl x \<Rightarrow> (d, Inl x)
                     | Inr (d', _) \<Rightarrow> (d', Inl (conflict_code EXECUTION_TIMEOUT)))
               else
                 let e1 = e\<lparr>e_lease_expires_at :=
                              Some (now + seconds (REPORT_EXECUTION_LEASE_SECONDS cfg))\<rparr>;
                     e2 = (case step of
                             None \<Rightarrow> e1
                           | Some s \<Rightarrow>
                               if s = [] then e1
                               else e1\<lparr>e_diagnostics :=
                                 Some (AList.update ''step'' (JStr (take 100 s))
                                   (case e_diagnostics e of None \<Rightarrow> [] | Some m \<Rightarrow> m))\<rparr>)
                 in (update_execution d e2, Inr e2))"

definition succeed ::
  "settings \<Rightarrow> time \<Rightarrow> db \<Rightarrow> execution \<Rightarrow> worker \<Rightarrow> string option \<Rightarrow> (string \<times> json) list option \<Rightarrow>
     (db \<times> execution) result" where
  "succeed cfg now d e w trace_log diagnostics =
     bind_result (assert_owned_by e w) (\<lambda>_.
     bind_result (assert_transition (e_status e) SUCCEEDED) (\<lambda>_.
       let e' = finalize cfg now (e\<lparr>e_status := SUCCEEDED\<rparr>) trace_log diagnostics
       in Inr (update_execution d e', e')))"

definition cancel :: "settings \<Rightarrow> time \<Rightarrow> db \<Rightarrow> execution \<Rightarrow> (db \<times> execution) result" where
  "cancel cfg now d e =
     bind_result (assert_transition (e_status e) CANCELLED) (\<lambda>_.
       let e' = finalize cfg now
                  (e\<lparr>e_status := CANCELLED, e_error_code := Some CODE_CANCELLED,
                     e_error_message := Some (message_for CODE_CANCELLED),
                     e_retry_class := Some NON_RETRYABLE\<rparr>) None None
       in Inr (update_execution d e', e'))"

section \<open>Retry and recovery\<close>

definition can_retry :: "execution \<Rightarrow> bool" where
  "can_retry e \<longleftrightarrow> e_retry_class e = Some RETRYABLE \<and> e_attempt e < e_max_attempts e"

definition backoff_seconds :: "settings \<Rightarrow> int \<Rightarrow> int" where
  "backoff_seconds cfg attempt =
     min (REPORT_RETRY_BACKOFF_SECONDS cfg * 2 ^ nat (max 0 (attempt - 1)))
         (REPORT_RETRY_BACKOFF_MAX_SECONDS cfg)"

definition retry_of :: "settings \<Rightarrow> time \<Rightarrow> uuid \<Rightarrow> execution \<Rightarrow> execution" where
  "retry_of cfg now new_id e =
     \<lparr>e_id = new_id, e_organization_id = e_organization_id e, e_report_id = e_report_id e,
      e_workbook_id = e_workbook_id e, e_worker_id = None, e_triggered_by = e_triggered_by e,
      e_trigger_type = TRIGGER_RETRY, e_status = QUEUED,
      e_idempotency_key = retry_idempotency_key (e_idempotency_key e) (e_attempt e + 1),
      e_correlation_id = e_correlation_id e, e_scheduled_for = e_scheduled_for e,
      e_attempt = e_attempt e + 1, e_max_attempts = e_max_attempts e,
      e_parent_execution_id = Some (e_id e), e_queued_at = now,
      e_available_at = now + seconds (backoff_seconds cfg (e_attempt e)),
      e_assigned_at = None, e_started_at = None, e_completed_at = None, e_duration_ms = None,
      e_lease_expires_at = None, e_timeout_seconds = e_timeout_seconds e, e_error_code = None,
      e_error_message = None, e_retry_class = None, e_diagnostics = None, e_trace_log = None\<rparr>"

definition create_retry ::
  "settings \<Rightarrow> (db \<Rightarrow> db) \<Rightarrow> db \<Rightarrow> db \<Rightarrow> time \<Rightarrow> uuid \<Rightarrow> execution \<Rightarrow>
     (db \<times> execution option) result" where
  "create_retry cfg env base d now new_id e =
     (if \<not> can_retry e then Inr (d, None)
      else
        let retry = retry_of cfg now new_id e in
        case get_by_idempotency_key d (e_organization_id e) (e_idempotency_key retry) of
          Some existing \<Rightarrow> Inr (d, Some existing)
        | None \<Rightarrow>
            (case insert_or_recover (\<lambda>d k. get_by_idempotency_key d (fst k) (snd k))
                    create_execution env base d
                    (e_organization_id e, e_idempotency_key retry) retry of
               Inl x \<Rightarrow> Inl x
             | Inr (d1, row, created) \<Rightarrow>
                 if \<not> created then Inr (d1, Some row)
                 else bind_result (assert_transition (e_status e) RETRYING) (\<lambda>_.
                        Inr (update_execution d1 (e\<lparr>e_status := RETRYING\<rparr>), Some row))))"

text \<open>
  The reaper's loops. \<open>mint\<close> gives the id of the retry of an execution. The
  reaper is taken as one undisturbed transaction: the recovery branch of
  \<open>create_retry\<close> is modelled with its environment in \<open>create_retry\<close> itself.
\<close>

fun reap_expired ::
  "settings \<Rightarrow> (uuid \<Rightarrow> uuid) \<Rightarrow> time \<Rightarrow> execution list \<Rightarrow> db \<Rightarrow> db result" where
  "reap_expired cfg mint now [] d = Inr d"
| "reap_expired cfg mint now (e # es) d =
     bind_result
       (fail_execution cfg now d e None WORKER_LEASE_EXPIRED TIMED_OUT None
          (Some [(''reaped'', JBool True),
                 (''lease_expired_at'',
                  case e_lease_expires_at e of
                    None \<Rightarrow> JNull
                  | Some l \<Rightarrow> JStr (isoformat_utc (moment_of l)))]))
       (\<lambda>(d1, e1).
          bind_result (create_retry cfg id d1 d1 now (mint (e_id e1)) e1)
            (\<lambda>(d2, _). reap_expired cfg mint now es d2))"

fun reap_unclaimed :: "settings \<Rightarrow> time \<Rightarrow> execution list \<Rightarrow> db \<Rightarrow> db result" where
  "reap_unclaimed cfg now [] d = Inr d"
| "reap_unclaimed cfg now (e # es) d =
     bind_result
       (fail_execution cfg now d e None WORKER_OFFLINE TIMED_OUT None
          (Some [(''reaped'', JBool True), (''never_claimed'', JBool True)]))
       (\<lambda>(d1, _). reap_unclaimed cfg now es d1)"

definition reap_stale_executions ::
  "settings \<Rightarrow> (uuid \<Rightarrow> uuid) \<Rightarrow> time \<Rightarrow> time \<Rightarrow> db \<Rightarrow> uuid option \<Rightarrow> (db \<times> nat) result" where
  "reap_stale_executions cfg mint now db_now d org =
     (let expired = find_expired_leases d org now 50 in
      bind_result (reap_expired cfg mint now expired d) (\<lambda>d1.
        let stale = find_stale_queued d1 org db_now 50 in
        bind_result (reap_unclaimed cfg now stale d1) (\<lambda>d2.
          Inr (d2, length expired + length stale))))"

section \<open>Claim\<close>

definition supported_formats :: "WorkerCapability set \<Rightarrow> string list" where
  "supported_formats caps =
     sort (List.map_filter
       (\<lambda>(f, c). if c \<in> caps then Some (output_format_value f) else None) FORMAT_CAPABILITY)"

text \<open>The half of \<open>claim_next\<close> after the reap.\<close>

definition claim_after_reap ::
  "settings \<Rightarrow> time \<Rightarrow> uuid list \<Rightarrow> db \<Rightarrow> worker \<Rightarrow> db \<times> execution option" where
  "claim_after_reap cfg now locked d w =
     (let capabilities = capabilities_of w in
      if \<not> {EXCEL, PAFE_AUTOMATION} \<subseteq> capabilities then (d, None)
      else
        case repo_claim_next d locked (w_organization_id w) (w_id w)
               (supported_formats capabilities) now
               (now + seconds (REPORT_EXECUTION_LEASE_SECONDS cfg)) of
          (d', None) \<Rightarrow> (d', None)
        | (d', Some i) \<Rightarrow> (d', execution_by_id d' i))"

definition claim_next ::
  "settings \<Rightarrow> (uuid \<Rightarrow> uuid) \<Rightarrow> time \<Rightarrow> time \<Rightarrow> uuid list \<Rightarrow> db \<Rightarrow> worker \<Rightarrow>
     (db \<times> execution option) result" where
  "claim_next cfg mint now db_now locked d w =
     bind_result (reap_stale_executions cfg mint now db_now d (Some (w_organization_id w)))
       (\<lambda>(d1, _). Inr (claim_after_reap cfg now locked d1 w))"

section \<open>Reads\<close>

definition list_executions ::
  "db \<Rightarrow> uuid \<Rightarrow> uuid option \<Rightarrow> string option \<Rightarrow> nat \<Rightarrow> nat \<Rightarrow> execution list result" where
  "list_executions d org rid st limit offset =
     (case st of
        None \<Rightarrow> Inr (list_executions_by_organization d org rid None limit offset)
      | Some s \<Rightarrow>
          (case enum_of execution_status_value execution_statuses s of
             None \<Rightarrow> Inl Validation
           | Some status \<Rightarrow>
               Inr (list_executions_by_organization d org rid (Some status) limit offset)))"

definition get_execution :: "db \<Rightarrow> uuid \<Rightarrow> uuid \<Rightarrow> execution result" where
  "get_execution d i org =
     (case execution_by_id d i of
        None \<Rightarrow> Inl NotFound
      | Some e \<Rightarrow> if e_organization_id e \<noteq> org then Inl NotFound else Inr e)"

definition get_report_for_execution :: "db \<Rightarrow> execution \<Rightarrow> report result" where
  "get_report_for_execution d e =
     (case report_by_id d (e_report_id e) of
        None \<Rightarrow> Inl NotFound
      | Some r \<Rightarrow> if r_organization_id r \<noteq> e_organization_id e then Inl NotFound else Inr r)"

end
