(* ===== verification/ReportLifecycle.thy ===== *)
theory ReportLifecycle
  imports ReportExecutions
begin

text \<open>
  What every operation of the execution service keeps: the row invariant
  \<open>row_ok\<close>, the lineage of retries, and that a row only moves forward along the
  state machine while the fields that identify the run never change
  (\<open>same_run\<close>). The operations are shown to advance the table one by one;
  the HTTP handlers compose them in the next theory.
\<close>

section \<open>The row invariant\<close>

definition attempts_ok :: "execution \<Rightarrow> bool" where
  "attempts_ok e \<longleftrightarrow> 1 \<le> e_attempt e \<and> e_attempt e \<le> max 1 (e_max_attempts e)"

definition waiting :: "execution \<Rightarrow> bool" where
  "waiting e \<longleftrightarrow>
     e_worker_id e = None \<and> e_lease_expires_at e = None \<and> e_started_at e = None \<and>
     e_completed_at e = None \<and> e_retry_class e = None"

definition leased :: "execution \<Rightarrow> bool" where
  "leased e \<longleftrightarrow>
     e_worker_id e \<noteq> None \<and> e_lease_expires_at e \<noteq> None \<and> e_assigned_at e \<noteq> None \<and>
     e_completed_at e = None \<and> e_retry_class e = None"

definition released :: "execution \<Rightarrow> bool" where
  "released e \<longleftrightarrow> e_lease_expires_at e = None \<and> e_completed_at e \<noteq> None"

definition diagnosed :: "execution \<Rightarrow> bool" where
  "diagnosed e \<longleftrightarrow>
     (\<exists>c. e_error_code e = Some c \<and> e_retry_class e = Some (retry_class_for c) \<and>
          e_error_message e = Some (message_for c))"

definition row_ok :: "execution \<Rightarrow> bool" where
  "row_ok e \<longleftrightarrow> attempts_ok e \<and>
     (case e_status e of
        QUEUED \<Rightarrow> waiting e
      | ASSIGNED \<Rightarrow> leased e
      | RUNNING \<Rightarrow> leased e \<and> e_started_at e \<noteq> None
      | SUCCEEDED \<Rightarrow> released e
      | FAILED \<Rightarrow> released e \<and> diagnosed e
      | TIMED_OUT \<Rightarrow> released e \<and> diagnosed e
      | CANCELLED \<Rightarrow> released e \<and> e_retry_class e = Some NON_RETRYABLE
      | RETRYING \<Rightarrow> released e \<and> diagnosed e)"

definition same_run :: "execution \<Rightarrow> execution \<Rightarrow> bool" where
  "same_run e e' \<longleftrightarrow>
     e_id e' = e_id e \<and> e_organization_id e' = e_organization_id e \<and>
     e_report_id e' = e_report_id e \<and> e_workbook_id e' = e_workbook_id e \<and>
     e_triggered_by e' = e_triggered_by e \<and> e_trigger_type e' = e_trigger_type e \<and>
     e_idempotency_key e' = e_idempotency_key e \<and> e_correlation_id e' = e_correlation_id e \<and>
     e_scheduled_for e' = e_scheduled_for e \<and> e_attempt e' = e_attempt e \<and>
     e_max_attempts e' = e_max_attempts e \<and>
     e_parent_execution_id e' = e_parent_execution_id e \<and>
     e_queued_at e' = e_queued_at e \<and> e_available_at e' = e_available_at e \<and>
     e_timeout_seconds e' = e_timeout_seconds e"

lemma same_run_refl [simp]: "same_run e e"
  by (simp add: same_run_def)

lemma same_run_trans: "same_run a b \<Longrightarrow> same_run b c \<Longrightarrow> same_run a c"
  by (simp add: same_run_def)

lemma same_run_slot: "same_run e e' \<Longrightarrow> idempotency_slot e' = idempotency_slot e"
  by (simp add: same_run_def idempotency_slot_def)

lemma same_run_id: "same_run e e' \<Longrightarrow> e_id e' = e_id e"
  by (simp add: same_run_def)

lemma same_run_lineage:
  assumes "same_run e e'"
  shows "e_id e' = e_id e" "e_organization_id e' = e_organization_id e"
    "e_correlation_id e' = e_correlation_id e" "e_attempt e' = e_attempt e"
    "e_idempotency_key e' = e_idempotency_key e"
    "e_parent_execution_id e' = e_parent_execution_id e"
  using assms unfolding same_run_def by blast+

text \<open>
  One row after an operation: same run, status further along the table. The
  service uses every move of the table but ASSIGNED to QUEUED.
\<close>

definition service_move :: "ExecutionStatus \<Rightarrow> ExecutionStatus \<Rightarrow> bool" where
  "service_move s t \<longleftrightarrow> can_transition s t \<and> t \<noteq> QUEUED"

lemma service_move_allowed: "service_move\<^sup>*\<^sup>* s t \<Longrightarrow> can_transition\<^sup>*\<^sup>* s t"
  by (erule rtranclp_mono [THEN predicate2D, rotated]) (auto simp: service_move_def)

lemma service_move_queued: "service_move\<^sup>*\<^sup>* s QUEUED \<Longrightarrow> s = QUEUED"
  by (erule rtranclp.cases) (auto simp: service_move_def)

definition row_advances :: "execution \<Rightarrow> execution \<Rightarrow> bool" where
  "row_advances e e' \<longleftrightarrow> same_run e e' \<and> service_move\<^sup>*\<^sup>* (e_status e) (e_status e')"

lemma row_advances_refl [simp]: "row_advances e e"
  by (simp add: row_advances_def)

lemma row_advances_trans: "row_advances a b \<Longrightarrow> row_advances b c \<Longrightarrow> row_advances a c"
  unfolding row_advances_def by (blast intro: same_run_trans rtranclp_trans)

lemma row_advances_step:
  "same_run e e' \<Longrightarrow> can_transition (e_status e) (e_status e') \<Longrightarrow> e_status e' \<noteq> QUEUED \<Longrightarrow>
     row_advances e e'"
  by (simp add: row_advances_def service_move_def r_into_rtranclp)

lemma row_advances_same:
  "same_run e e' \<Longrightarrow> e_status e' = e_status e \<Longrightarrow> row_advances e e'"
  by (simp add: row_advances_def)

section \<open>The table invariant\<close>

text \<open>
  A retry points at the row it replaces, which is closed as RETRYING, and takes
  its key and attempt number from it.
\<close>

definition replaced_by :: "execution \<Rightarrow> execution \<Rightarrow> bool" where
  "replaced_by pe e \<longleftrightarrow>
     e_parent_execution_id e = Some (e_id pe) \<and> e_status pe = RETRYING \<and>
     e_organization_id e = e_organization_id pe \<and>
     e_correlation_id e = e_correlation_id pe \<and>
     e_attempt e = e_attempt pe + 1 \<and>
     e_idempotency_key e = retry_idempotency_key (e_idempotency_key pe) (e_attempt e)"

definition lineage_ok :: "db \<Rightarrow> execution \<Rightarrow> bool" where
  "lineage_ok d e \<longleftrightarrow>
     e_parent_execution_id e = None \<or> (\<exists>pe \<in> set (db_executions d). replaced_by pe e)"

definition table_ok :: "db \<Rightarrow> bool" where
  "table_ok d \<longleftrightarrow>
     executions_ok d \<and> (\<forall>e \<in> set (db_executions d). row_ok e \<and> lineage_ok d e)"

definition advances :: "db \<Rightarrow> db \<Rightarrow> bool" where
  "advances d d' \<longleftrightarrow>
     table_ok d' \<and>
     (\<forall>e \<in> set (db_executions d). \<exists>e' \<in> set (db_executions d'). row_advances e e')"

lemma advances_refl: "table_ok d \<Longrightarrow> advances d d"
  unfolding advances_def using row_advances_refl by blast

lemma advances_trans: "advances a b \<Longrightarrow> advances b c \<Longrightarrow> advances a c"
  unfolding advances_def by (meson row_advances_trans)

lemma advances_table_ok: "advances d d' \<Longrightarrow> table_ok d'"
  by (simp add: advances_def)

lemma table_ok_executions_ok: "table_ok d \<Longrightarrow> executions_ok d"
  by (simp add: table_ok_def)

lemma table_ok_row_ok: "table_ok d \<Longrightarrow> e \<in> set (db_executions d) \<Longrightarrow> row_ok e"
  by (simp add: table_ok_def)

lemma executions_ok_unique:
  "executions_ok d \<Longrightarrow> x \<in> set (db_executions d) \<Longrightarrow> y \<in> set (db_executions d) \<Longrightarrow>
     e_id x = e_id y \<Longrightarrow> x = y"
  by (auto simp: executions_ok_def distinct_map inj_on_def)

lemma executions_ok_slot_unique:
  "executions_ok d \<Longrightarrow> x \<in> set (db_executions d) \<Longrightarrow> y \<in> set (db_executions d) \<Longrightarrow>
     idempotency_slot x = idempotency_slot y \<Longrightarrow> x = y"
  by (auto simp: executions_ok_def distinct_map inj_on_def)

lemma execution_by_id_iff:
  assumes "executions_ok d"
  shows "execution_by_id d i = Some e \<longleftrightarrow> e \<in> set (db_executions d) \<and> e_id e = i"
proof
  show "execution_by_id d i = Some e \<Longrightarrow> e \<in> set (db_executions d) \<and> e_id e = i"
    by (auto simp: execution_by_id_def dest: find_SomeD)
  show "e \<in> set (db_executions d) \<and> e_id e = i \<Longrightarrow> execution_by_id d i = Some e"
    using assms unfolding execution_by_id_def executions_ok_def
    by (auto intro: find_distinct_unique)
qed

lemma in_update_execution:
  "x \<in> set (db_executions (update_execution d e)) \<longleftrightarrow>
     (x \<in> set (db_executions d) \<and> e_id x \<noteq> e_id e) \<or>
     (x = e \<and> (\<exists>y \<in> set (db_executions d). e_id y = e_id e))"
  by (simp add: update_execution_def in_set_upd_by)

lemma replaced_by_retrying: "replaced_by pe e \<Longrightarrow> e_status pe = RETRYING"
  by (simp add: replaced_by_def)

lemma row_advances_retrying: "row_advances e e' \<Longrightarrow> e_status e = RETRYING \<Longrightarrow> e_status e' = RETRYING"
  unfolding row_advances_def
  by (metis execution_final_def execution_machine.final_forever insert_iff service_move_allowed)

lemma replaced_by_same_run:
  assumes "replaced_by pe x" "same_run pe pe'" "same_run x x'" "e_status pe' = RETRYING"
  shows "replaced_by pe' x'"
proof -
  note x = same_run_lineage [OF assms(3)] and p = same_run_lineage [OF assms(2)]
  show ?thesis
    using assms(1) unfolding replaced_by_def x p assms(4) by blast
qed

text \<open>Writing back one row that advanced.\<close>

lemma update_advances:
  assumes ok: "table_ok d" and e: "e \<in> set (db_executions d)"
    and adv: "row_advances e e'" and row: "row_ok e'"
  shows "advances d (update_execution d e')"
proof -
  have ids: "e_id e' = e_id e" and slot: "idempotency_slot e' = idempotency_slot e"
    using adv by (auto simp: row_advances_def dest: same_run_id same_run_slot)
  have exok: "executions_ok d" using ok by (rule table_ok_executions_ok)
  have by_id: "execution_by_id d (e_id e') = Some e"
    using e ids by (simp add: execution_by_id_iff [OF exok])
  have exok': "executions_ok (update_execution d e')"
    using exok by_id slot by (rule update_execution_ok)
  let ?d = "update_execution d e'"
  have e'_in: "e' \<in> set (db_executions ?d)"
    using e ids by (auto simp: in_update_execution)
  have image: "\<exists>x' \<in> set (db_executions ?d). row_advances x x'" if x: "x \<in> set (db_executions d)" for x
  proof (cases "e_id x = e_id e'")
    case True
    then have "x = e" using executions_ok_unique [OF exok x e] ids by simp
    with adv e'_in show ?thesis by blast
  next
    case False
    with x have "x \<in> set (db_executions ?d)" by (simp add: in_update_execution)
    then show ?thesis by (blast intro: row_advances_refl)
  qed
  have lineage: "lineage_ok ?d x'" if lin: "lineage_ok d x" and sr: "same_run x x'" for x x'
  proof (cases "e_parent_execution_id x = None")
    case True
    with sr show ?thesis by (simp add: lineage_ok_def same_run_def)
  next
    case False
    with lin obtain pe where pe: "pe \<in> set (db_executions d)" "replaced_by pe x"
      by (auto simp: lineage_ok_def)
    obtain pe' where pe': "pe' \<in> set (db_executions ?d)" "row_advances pe pe'"
      using image pe(1) by blast
    have "same_run pe pe'" using pe'(2) by (simp only: row_advances_def)
    moreover have "e_status pe' = RETRYING"
      using pe'(2) replaced_by_retrying [OF pe(2)] by (rule row_advances_retrying)
    ultimately have "replaced_by pe' x'"
      using pe(2) sr by (blast intro: replaced_by_same_run)
    with pe'(1) show ?thesis by (auto simp: lineage_ok_def)
  qed
  have "row_ok x \<and> lineage_ok ?d x" if x: "x \<in> set (db_executions ?d)" for x
  proof (cases "x = e'")
    case True
    have "lineage_ok d e" using ok e by (simp add: table_ok_def)
    then have "lineage_ok ?d e'" using adv by (auto simp: row_advances_def intro: lineage)
    with True row show ?thesis by simp
  next
    case False
    with x have "x \<in> set (db_executions d)" by (simp add: in_update_execution)
    then have "row_ok x" "lineage_ok d x" using ok by (auto simp: table_ok_def)
    then show ?thesis by (auto intro: lineage [OF _ same_run_refl])
  qed
  then have "table_ok ?d" using exok' by (simp add: table_ok_def)
  with image show ?thesis by (simp add: advances_def)
qed

lemma create_advances:
  assumes ok: "table_ok d" and c: "create_execution d e = Inr d'"
    and row: "row_ok e" and lin: "lineage_ok d e"
  shows "advances d d'"
proof -
  have d': "db_executions d' = db_executions d @ [e]"
    using c by (auto simp: create_execution_def split: if_splits)
  have mono: "lineage_ok d x \<Longrightarrow> lineage_ok d' x" for x
    unfolding lineage_ok_def d' by auto
  have "executions_ok d'"
    using create_execution_ok [OF table_ok_executions_ok [OF ok] c] .
  moreover have "lineage_ok d' e" using lin by (rule mono)
  ultimately have "table_ok d'"
    using ok row mono by (auto simp: table_ok_def d')
  then show ?thesis unfolding advances_def d' using row_advances_refl by (metis Un_iff set_append)
qed

section \<open>What finalize leaves\<close>

lemma finalize_simps [simp]:
  "e_status (finalize cfg now e t m) = e_status e"
  "e_error_code (finalize cfg now e t m) = e_error_code e"
  "e_error_message (finalize cfg now e t m) = e_error_message e"
  "e_retry_class (finalize cfg now e t m) = e_retry_class e"
  "e_lease_expires_at (finalize cfg now e t m) = None"
  "e_completed_at (finalize cfg now e t m) = Some now"
  "e_attempt (finalize cfg now e t m) = e_attempt e"
  "e_max_attempts (finalize cfg now e t m) = e_max_attempts e"
  "e_id (finalize cfg now e t m) = e_id e"
  by (simp_all add: finalize_def Let_def split: option.split)

lemma finalize_same_run: "same_run e (finalize cfg now e t m)"
  by (simp add: finalize_def Let_def same_run_def split: option.split)

lemma same_run_outcome [simp]:
  "same_run e (e\<lparr>e_status := s\<rparr>)"
  "same_run e (e\<lparr>e_status := s, e_error_code := c, e_error_message := msg, e_retry_class := rc\<rparr>)"
  "same_run e (e\<lparr>e_status := s, e_worker_id := wid, e_assigned_at := a, e_lease_expires_at := l\<rparr>)"
  "same_run e (e\<lparr>e_status := s, e_started_at := st, e_lease_expires_at := l\<rparr>)"
  "same_run e (e\<lparr>e_lease_expires_at := l\<rparr>)"
  "same_run e (e\<lparr>e_lease_expires_at := l, e_diagnostics := m\<rparr>)"
  by (simp_all add: same_run_def)

lemma attempts_ok_cong:
  "e_attempt e' = e_attempt e \<Longrightarrow> e_max_attempts e' = e_max_attempts e \<Longrightarrow>
     attempts_ok e' = attempts_ok e"
  by (simp add: attempts_ok_def)

lemma row_ok_attempts: "row_ok e \<Longrightarrow> attempts_ok e"
  by (simp add: row_ok_def)

lemma released_finalize [simp]: "released (finalize cfg now e t m)"
  by (simp add: released_def)

lemma row_ok_failed:
  assumes "row_ok e" "s \<in> {FAILED, TIMED_OUT}"
  shows "row_ok (finalize cfg now
    (e\<lparr>e_status := s, e_error_code := Some c, e_error_message := Some (message_for c),
       e_retry_class := Some (retry_class_for c)\<rparr>) t m)"
proof -
  let ?e = "finalize cfg now
    (e\<lparr>e_status := s, e_error_code := Some c, e_error_message := Some (message_for c),
       e_retry_class := Some (retry_class_for c)\<rparr>) t m"
  have "attempts_ok ?e"
    using row_ok_attempts [OF assms(1)] by (simp add: attempts_ok_def)
  then show ?thesis
    using assms(2) by (auto simp: row_ok_def diagnosed_def)
qed

lemma row_ok_heartbeat:
  assumes "row_ok e" "e_status e \<in> {ASSIGNED, RUNNING}"
  shows "row_ok (e\<lparr>e_lease_expires_at := Some l\<rparr>)"
    "row_ok (e\<lparr>e_lease_expires_at := Some l, e_diagnostics := m\<rparr>)"
  using assms by (auto simp: row_ok_def attempts_ok_def leased_def)

section \<open>The operations advance the table\<close>

lemma fail_execution_Inr:
  assumes "fail_execution cfg now d e w c target t m = Inr (d', e')"
  shows "d' = update_execution d e'" "can_transition (e_status e) target"
    "e' = finalize cfg now
       (e\<lparr>e_status := target, e_error_code := Some c, e_error_message := Some (message_for c),
          e_retry_class := Some (retry_class_for c)\<rparr>) t m"
  using assms by (auto simp: fail_execution_def Let_def bind_result_Inr_iff)

lemma fail_execution_fields:
  assumes "fail_execution cfg now d e w c target t m = Inr (d', e')"
  shows "e_id e' = e_id e" "e_status e' = target" "e_error_code e' = Some c"
    "e_retry_class e' = Some (retry_class_for c)" "same_run e e'"
    "e_lease_expires_at e' = None"
proof -
  let ?e = "e\<lparr>e_status := target, e_error_code := Some c, e_error_message := Some (message_for c),
          e_retry_class := Some (retry_class_for c)\<rparr>"
  have e': "e' = finalize cfg now ?e t m"
    using assms by (rule fail_execution_Inr)
  show "e_id e' = e_id e" "e_status e' = target" "e_error_code e' = Some c"
    "e_retry_class e' = Some (retry_class_for c)" "e_lease_expires_at e' = None"
    by (simp_all add: e')
  show "same_run e e'"
    unfolding e' by (rule same_run_trans [OF same_run_outcome(2) finalize_same_run])
qed

lemma fail_execution_advances:
  assumes ok: "table_ok d" and e: "e \<in> set (db_executions d)"
    and f: "fail_execution cfg now d e w c target t m = Inr (d', e')"
    and target: "target \<in> {FAILED, TIMED_OUT}"
  shows "advances d d'" "e' \<in> set (db_executions d')"
proof -
  note e' = fail_execution_Inr [OF f] and fl = fail_execution_fields [OF f]
  have "row_advances e e'"
    using target by (intro row_advances_step [OF fl(5)]) (auto simp: fl(2) e'(2))
  moreover have "row_ok e'"
    unfolding e'(3) using table_ok_row_ok [OF ok e] target by (rule row_ok_failed)
  ultimately show "advances d d'"
    unfolding e'(1) by (rule update_advances [OF ok e])
  show "e' \<in> set (db_executions d')"
    unfolding e'(1) in_update_execution using e fl(1) by metis
qed

lemma mark_started_advances:
  assumes ok: "table_ok d" and e: "e \<in> set (db_executions d)"
    and m: "mark_started cfg now d e w = Inr (d', e')"
  shows "advances d d'"
proof -
  let ?e = "e\<lparr>e_status := RUNNING, e_started_at := Some now,
              e_lease_expires_at := Some (now + seconds (REPORT_EXECUTION_LEASE_SECONDS cfg))\<rparr>"
  have d': "d' = update_execution d ?e" and tr: "can_transition (e_status e) RUNNING"
    using m by (auto simp: mark_started_def Let_def bind_result_Inr_iff)
  have assigned: "e_status e = ASSIGNED"
    using tr by (auto simp: can_transition_cases)
  have "row_advances e ?e" by (rule row_advances_step) (simp_all add: tr)
  moreover have "row_ok ?e"
    using table_ok_row_ok [OF ok e] assigned by (auto simp: row_ok_def attempts_ok_def leased_def)
  ultimately show ?thesis unfolding d' by (rule update_advances [OF ok e])
qed

lemma succeed_advances:
  assumes ok: "table_ok d" and e: "e \<in> set (db_executions d)"
    and s: "succeed cfg now d e w t m = Inr (d', e')"
  shows "advances d d'"
proof -
  let ?e = "finalize cfg now (e\<lparr>e_status := SUCCEEDED\<rparr>) t m"
  have d': "d' = update_execution d ?e" and tr: "can_transition (e_status e) SUCCEEDED"
    using s by (auto simp: succeed_def Let_def bind_result_Inr_iff)
  have "row_advances e ?e"
    by (rule row_advances_step [OF same_run_trans [OF same_run_outcome(1) finalize_same_run]])
       (simp_all add: tr)
  moreover have "row_ok ?e"
    using row_ok_attempts [OF table_ok_row_ok [OF ok e]] by (simp add: row_ok_def attempts_ok_def)
  ultimately show ?thesis unfolding d' by (rule update_advances [OF ok e])
qed

lemma cancel_advances:
  assumes ok: "table_ok d" and e: "e \<in> set (db_executions d)"
    and c: "cancel cfg now d e = Inr (d', e')"
  shows "advances d d'"
proof -
  let ?e = "finalize cfg now
     (e\<lparr>e_status := CANCELLED, e_error_code := Some CODE_CANCELLED,
        e_error_message := Some (message_for CODE_CANCELLED),
        e_retry_class := Some NON_RETRYABLE\<rparr>) None None"
  have d': "d' = update_execution d ?e" and tr: "can_transition (e_status e) CANCELLED"
    using c by (auto simp: cancel_def Let_def bind_result_Inr_iff)
  have "row_advances e ?e"
    by (rule row_advances_step [OF same_run_trans [OF same_run_outcome(2) finalize_same_run]])
       (simp_all add: tr)
  moreover have "row_ok ?e"
    using row_ok_attempts [OF table_ok_row_ok [OF ok e]] by (simp add: row_ok_def attempts_ok_def)
  ultimately show ?thesis unfolding d' by (rule update_advances [OF ok e])
qed

text \<open>A heartbeat that is in time keeps the status and renews the lease.\<close>

lemma extend_lease_advances:
  assumes ok: "table_ok d" and e: "e \<in> set (db_executions d)"
    and x: "extend_lease cfg now d e w step = (d', r)"
  shows "advances d d'"
proof (cases "\<exists>e'. r = Inr e'")
  case True
  let ?l = "Some (now + seconds (REPORT_EXECUTION_LEASE_SECONDS cfg))"
  have live: "e_status e \<in> {ASSIGNED, RUNNING}"
    using x True by (auto simp: extend_lease_def split: sum.splits if_splits)
  obtain m where d': "d' = update_execution d (e\<lparr>e_lease_expires_at := ?l\<rparr>) \<or>
      d' = update_execution d (e\<lparr>e_lease_expires_at := ?l, e_diagnostics := m\<rparr>)"
    using x True
    by (auto simp: extend_lease_def Let_def split: sum.splits if_splits option.splits)
  have "row_ok (e\<lparr>e_lease_expires_at := ?l\<rparr>)"
    "row_ok (e\<lparr>e_lease_expires_at := ?l, e_diagnostics := m\<rparr>)"
    using table_ok_row_ok [OF ok e] live by (rule row_ok_heartbeat)+
  then show ?thesis
    using d' by (auto intro!: update_advances [OF ok e] row_advances_same)
next
  case False
  then have "d' = d \<or> (\<exists>e' m. fail_execution cfg now d e (Some w) EXECUTION_TIMEOUT TIMED_OUT None m
      = Inr (d', e'))"
    using x by (auto simp: extend_lease_def Let_def split: sum.splits if_splits prod.splits)
  then show ?thesis
    using advances_refl [OF ok] fail_execution_advances(1) [OF ok e] by auto
qed

section \<open>Enqueue\<close>

lemma new_execution_row_ok: "row_ok (new_execution cfg now i c r org trigger user key sched)"
  by (simp add: row_ok_def attempts_ok_def waiting_def new_execution_def)

lemma new_execution_slot:
  "idempotency_slot (new_execution cfg now i c r org trigger user key sched) = (org, key)"
  by (simp add: idempotency_slot_def new_execution_def)

lemma enqueue_cases:
  assumes "enqueue cfg env base d now i c r org trigger user key sched = Inr (d', e, created)"
  obtains (existing) "get_by_idempotency_key d org key = Some e" "d' = d" "\<not> created"
  | (inserted) "get_by_idempotency_key d org key = None"
      "assert_a_worker_could_run_this d r org = Inr ()"
      "insert_or_recover (\<lambda>d k. get_by_idempotency_key d (fst k) (snd k)) create_execution env base d
         (org, key) (new_execution cfg now i c r org trigger user key sched) = Inr (d', e, created)"
  using assms
  by (auto simp: enqueue_def bind_result_Inr_iff split: if_splits option.splits)

lemma enqueue_guards:
  assumes "enqueue cfg env base d now i c r org trigger user key sched = Inr (d', e, created)"
  shows "r_status r = REPORT_ACTIVE" "r_workbook_id r \<noteq> None"
  using assms by (auto simp: enqueue_def split: if_splits)

lemma insert_or_recover_id_created:
  assumes "lookup_row d k = None"
    and "insert_or_recover lookup_row insert_row id d d k r = Inr (d', r', created)"
  shows "insert_row d r = Inr d'" "r' = r" "created"
  using assms by (auto simp: insert_or_recover_def split: sum.splits if_splits option.splits)

lemma enqueue_advances:
  assumes ok: "table_ok d"
    and q: "enqueue cfg id d d now i c r org trigger user key sched = Inr (d', e, created)"
  shows "advances d d'"
  using q
proof (cases rule: enqueue_cases)
  case existing
  with ok show ?thesis by (simp add: advances_refl)
next
  case inserted
  let ?e = "new_execution cfg now i c r org trigger user key sched"
  have "create_execution d ?e = Inr d'"
    using insert_or_recover_id_created(1) [OF _ inserted(3)] inserted(1) by simp
  moreover have "lineage_ok d ?e" by (simp add: lineage_ok_def new_execution_def)
  ultimately show ?thesis
    using ok new_execution_row_ok by (blast intro: create_advances)
qed

section \<open>Retry\<close>

lemma retry_of_simps [simp]:
  "e_id (retry_of cfg now i e) = i"
  "e_organization_id (retry_of cfg now i e) = e_organization_id e"
  "e_status (retry_of cfg now i e) = QUEUED"
  "e_attempt (retry_of cfg now i e) = e_attempt e + 1"
  "e_max_attempts (retry_of cfg now i e) = e_max_attempts e"
  "e_idempotency_key (retry_of cfg now i e) =
     retry_idempotency_key (e_idempotency_key e) (e_attempt e + 1)"
  "e_correlation_id (retry_of cfg now i e) = e_correlation_id e"
  "e_parent_execution_id (retry_of cfg now i e) = Some (e_id e)"
  "e_queued_at (retry_of cfg now i e) = now"
  "e_available_at (retry_of cfg now i e) = now + seconds (backoff_seconds cfg (e_attempt e))"
  "e_timeout_seconds (retry_of cfg now i e) = e_timeout_seconds e"
  by (simp_all add: retry_of_def)

lemma retry_of_row_ok: "attempts_ok e \<Longrightarrow> can_retry e \<Longrightarrow> row_ok (retry_of cfg now i e)"
  by (auto simp: row_ok_def attempts_ok_def waiting_def retry_of_def can_retry_def)

lemma create_retry_cases:
  assumes "create_retry cfg id d d now i e = Inr (d', res)"
  obtains (refused) "\<not> can_retry e" "res = None" "d' = d"
  | (existing) x where "can_retry e" "res = Some x" "d' = d" "x \<in> set (db_executions d)"
      "idempotency_slot x = idempotency_slot (retry_of cfg now i e)"
  | (created) d1 where "can_retry e" "res = Some (retry_of cfg now i e)"
      "create_execution d (retry_of cfg now i e) = Inr d1"
      "can_transition (e_status e) RETRYING"
      "d' = update_execution d1 (e\<lparr>e_status := RETRYING\<rparr>)"
proof -
  let ?r = "retry_of cfg now i e"
  let ?k = "(e_organization_id e, e_idempotency_key ?r)"
  let ?lookup = "\<lambda>d k. get_by_idempotency_key d (fst k) (snd k)"
  show ?thesis
  proof (cases "can_retry e")
    case False
    with assms refused show ?thesis by (simp add: create_retry_def)
  next
    case True
    show ?thesis
    proof (cases "?lookup d ?k")
      case (Some x)
      then have x: "x \<in> set (db_executions d)" "idempotency_slot x = ?k"
        by (auto dest: get_by_idempotency_key_SomeD)
      then have "idempotency_slot x = idempotency_slot ?r"
        by (simp add: idempotency_slot_def)
      moreover have "res = Some x" "d' = d"
        using assms True Some by (auto simp: create_retry_def Let_def)
      ultimately show ?thesis using existing True x(1) by blast
    next
      case None
      obtain d1 row cr where ins: "insert_or_recover ?lookup create_execution id d d ?k ?r = Inr (d1, row, cr)"
        using assms True None
        by (cases "insert_or_recover ?lookup create_execution id d d ?k ?r")
           (auto simp: create_retry_def Let_def)
      note new = insert_or_recover_id_created [OF None ins]
      have "can_transition (e_status e) RETRYING" "res = Some ?r"
        "d' = update_execution d1 (e\<lparr>e_status := RETRYING\<rparr>)"
        using assms True None ins new(2,3)
        by (auto simp: create_retry_def Let_def bind_result_Inr_iff)
      with True new(1) created show ?thesis by blast
    qed
  qed
qed

lemma create_execution_InrD:
  assumes "create_execution d r = Inr d'"
  shows "db_executions d' = db_executions d @ [r]" "db_reports d' = db_reports d"
    "\<forall>x \<in> set (db_executions d). e_id x \<noteq> e_id r \<and> idempotency_slot x \<noteq> idempotency_slot r"
  using assms by (auto simp: create_execution_def split: if_splits)

lemma row_ok_retrying:
  assumes "row_ok e" "can_transition (e_status e) RETRYING"
  shows "row_ok (e\<lparr>e_status := RETRYING\<rparr>)"
  using assms by (auto simp: can_transition_cases row_ok_def attempts_ok_def released_def diagnosed_def)

text \<open>
  Inserting the retry and then closing the original is the same table as
  closing first and inserting after: the ids differ.
\<close>

lemma create_retry_swap:
  assumes "create_execution d r = Inr d1" "e_id e' \<noteq> e_id r"
    and "\<exists>x \<in> set (db_executions d). e_id x = e_id e'"
    and slot: "\<forall>x \<in> set (db_executions (update_execution d e')). idempotency_slot x \<noteq> idempotency_slot r"
  shows "create_execution (update_execution d e') r = Inr (update_execution d1 e')"
proof -
  note c = create_execution_InrD [OF assms(1)]
  have d1: "d1 = d\<lparr>db_executions := db_executions d @ [r]\<rparr>"
    using assms(1) by (auto simp: create_execution_def split: if_splits)
  have "\<forall>x \<in> set (db_executions (update_execution d e')). e_id x \<noteq> e_id r"
    using c(3) assms(2) by (auto simp: in_update_execution)
  then have "create_execution (update_execution d e') r =
      Inr ((update_execution d e')\<lparr>db_executions := db_executions (update_execution d e') @ [r]\<rparr>)"
    using slot by (auto simp: create_execution_def)
  also have "(update_execution d e')\<lparr>db_executions := db_executions (update_execution d e') @ [r]\<rparr>
      = update_execution d1 e'"
    unfolding d1 using assms(2) by (simp add: update_execution_def upd_by_def)
  finally show ?thesis .
qed

lemma create_retry_created_advances:
  assumes ok: "table_ok d" and e: "e \<in> set (db_executions d)" and can: "can_retry e"
    and c: "create_execution d (retry_of cfg now i e) = Inr d1"
    and tr: "can_transition (e_status e) RETRYING"
  shows "advances d (update_execution d1 (e\<lparr>e_status := RETRYING\<rparr>))"
proof -
  let ?r = "retry_of cfg now i e" and ?e = "e\<lparr>e_status := RETRYING\<rparr>"
  have "row_advances e ?e" by (rule row_advances_step) (simp_all add: tr)
  then have adv: "advances d (update_execution d ?e)"
    using ok e row_ok_retrying [OF table_ok_row_ok [OF ok e] tr] by (blast intro: update_advances)
  then have ok': "table_ok (update_execution d ?e)" by (rule advances_table_ok)
  have e_in: "?e \<in> set (db_executions (update_execution d ?e))"
    using e by (auto simp: in_update_execution)
  have "replaced_by ?e ?r" by (simp add: replaced_by_def)
  with e_in have lin: "lineage_ok (update_execution d ?e) ?r" by (auto simp: lineage_ok_def)
  have row: "row_ok ?r"
    using row_ok_attempts [OF table_ok_row_ok [OF ok e]] can by (rule retry_of_row_ok)
  have "idempotency_slot x \<noteq> idempotency_slot ?r" if "x \<in> set (db_executions (update_execution d ?e))" for x
    using that create_execution_InrD(3) [OF c] e
    by (auto simp: in_update_execution idempotency_slot_def)
  moreover have "e_id ?e \<noteq> e_id ?r" using create_execution_InrD(3) [OF c] e by auto
  ultimately have "create_execution (update_execution d ?e) ?r = Inr (update_execution d1 ?e)"
    using create_retry_swap [OF c, of ?e] e by auto
  then have "advances (update_execution d ?e) (update_execution d1 ?e)"
    using ok' row lin by (blast intro: create_advances)
  with adv show ?thesis by (rule advances_trans)
qed

lemma create_retry_advances:
  assumes ok: "table_ok d" and e: "e \<in> set (db_executions d)"
    and r: "create_retry cfg id d d now i e = Inr (d', res)"
  shows "advances d d'"
  using r
proof (cases rule: create_retry_cases)
  case (created d1)
  then show ?thesis using create_retry_created_advances [OF ok e] by blast
qed (simp_all add: advances_refl [OF ok])

lemma create_retry_keeps_others:
  assumes r: "create_retry cfg id d d now i e = Inr (d', res)"
    and x: "x \<in> set (db_executions d)" "e_id x \<noteq> e_id e"
  shows "x \<in> set (db_executions d')"
  using r
proof (cases rule: create_retry_cases)
  case (created d1)
  with x show ?thesis
    by (auto simp: in_update_execution dest: create_execution_InrD(1))
qed (simp_all add: x)

section \<open>The reaper\<close>

lemma update_execution_keeps_others:
  "x \<in> set (db_executions d) \<Longrightarrow> e_id x \<noteq> e_id e \<Longrightarrow>
     x \<in> set (db_executions (update_execution d e))"
  by (simp add: in_update_execution)

lemma reap_expired_advances:
  assumes "table_ok d" "reap_expired cfg mint now es d = Inr d'"
    and "\<forall>e \<in> set es. e \<in> set (db_executions d)" "distinct (map e_id es)"
  shows "advances d d'"
  using assms
proof (induction es arbitrary: d)
  case Nil
  then show ?case by (simp add: advances_refl)
next
  case (Cons e es)
  obtain d1 e1 d2 res m where f: "fail_execution cfg now d e None WORKER_LEASE_EXPIRED TIMED_OUT None m
        = Inr (d1, e1)"
    and r: "create_retry cfg id d1 d1 now (mint (e_id e1)) e1 = Inr (d2, res)"
    and rest: "reap_expired cfg mint now es d2 = Inr d'"
    using Cons.prems(2) by (auto simp: bind_result_Inr_iff)
  have e: "e \<in> set (db_executions d)" using Cons.prems(3) by simp
  have a1: "advances d d1" "e1 \<in> set (db_executions d1)"
    using fail_execution_advances [OF Cons.prems(1) e f] by auto
  have a2: "advances d1 d2"
    using advances_table_ok [OF a1(1)] a1(2) r by (rule create_retry_advances)
  have "x \<in> set (db_executions d2)" if x: "x \<in> set es" for x
  proof -
    have "e_id x \<noteq> e_id e1" "x \<in> set (db_executions d)"
      using x Cons.prems(3,4) fail_execution_fields(1) [OF f] by (auto simp: image_iff)
    then have "x \<in> set (db_executions d1)"
      unfolding fail_execution_Inr(1) [OF f] by (blast intro: update_execution_keeps_others)
    then show ?thesis
      using r \<open>e_id x \<noteq> e_id e1\<close> by (blast intro: create_retry_keeps_others)
  qed
  then have "advances d2 d'"
    using Cons.IH [OF advances_table_ok [OF a2] rest] Cons.prems(4) by simp
  with a1(1) a2 show ?case by (blast intro: advances_trans)
qed

lemma reap_unclaimed_advances:
  assumes "table_ok d" "reap_unclaimed cfg now es d = Inr d'"
    and "\<forall>e \<in> set es. e \<in> set (db_executions d)" "distinct (map e_id es)"
  shows "advances d d'"
  using assms
proof (induction es arbitrary: d)
  case Nil
  then show ?case by (simp add: advances_refl)
next
  case (Cons e es)
  obtain d1 e1 m where f: "fail_execution cfg now d e None WORKER_OFFLINE TIMED_OUT None m = Inr (d1, e1)"
    and rest: "reap_unclaimed cfg now es d1 = Inr d'"
    using Cons.prems(2) by (auto simp: bind_result_Inr_iff)
  have a1: "advances d d1"
    using fail_execution_advances(1) [OF Cons.prems(1) _ f] Cons.prems(3) by simp
  have "x \<in> set (db_executions d1)" if x: "x \<in> set es" for x
    using x Cons.prems(3,4) fail_execution_fields(1) [OF f] unfolding fail_execution_Inr(1) [OF f]
    by (auto simp: image_iff intro!: update_execution_keeps_others)
  then have "advances d1 d'"
    using Cons.IH [OF advances_table_ok [OF a1] rest] Cons.prems(4) by simp
  with a1 show ?case by (rule advances_trans)
qed

lemma find_rows_ok:
  assumes "executions_ok d" "es = take n (filter P (db_executions d))"
  shows "\<forall>e \<in> set es. e \<in> set (db_executions d) \<and> P e" "distinct (map e_id es)"
  using assms
  by (auto simp: executions_ok_def distinct_map_filter take_map [symmetric] distinct_take
      dest: in_set_takeD)

lemma reap_stale_executions_Inr:
  assumes "reap_stale_executions cfg mint now db_now d org = Inr (d', n)"
  obtains d1 where "reap_expired cfg mint now (find_expired_leases d org now 50) d = Inr d1"
    and "reap_unclaimed cfg now (find_stale_queued d1 org db_now 50) d1 = Inr d'"
    and "n = length (find_expired_leases d org now 50) + length (find_stale_queued d1 org db_now 50)"
  using assms by (auto simp: reap_stale_executions_def Let_def bind_result_Inr_iff)

lemma reap_stale_executions_advances:
  assumes ok: "table_ok d" and r: "reap_stale_executions cfg mint now db_now d org = Inr (d', n)"
  shows "advances d d'"
proof -
  obtain d1 where e: "reap_expired cfg mint now (find_expired_leases d org now 50) d = Inr d1"
    and u: "reap_unclaimed cfg now (find_stale_queued d1 org db_now 50) d1 = Inr d'"
    using r by (rule reap_stale_executions_Inr)
  have a1: "advances d d1"
    using ok e find_rows_ok [OF table_ok_executions_ok [OF ok] find_expired_leases_def]
    by (blast intro: reap_expired_advances)
  have ok1: "table_ok d1" using a1 by (rule advances_table_ok)
  have "advances d1 d'"
    using ok1 u find_rows_ok [OF table_ok_executions_ok [OF ok1] find_stale_queued_def]
    by (blast intro: reap_unclaimed_advances)
  with a1 show ?thesis by (rule advances_trans)
qed

section \<open>Claim\<close>

lemma claim_after_reap_cases:
  assumes "claim_after_reap cfg now locked d w = (d', res)"
  obtains (idle) "res = None" "d' = d"
  | (claimed) e e' where
      "claim_candidate d locked (w_organization_id w) (w_id w)
         (supported_formats (capabilities_of w)) now = Some e"
      "e' = e\<lparr>e_status := ASSIGNED, e_worker_id := Some (w_id w), e_assigned_at := Some now,
         e_lease_expires_at := Some (now + seconds (REPORT_EXECUTION_LEASE_SECONDS cfg))\<rparr>"
      "d' = update_execution d e'" "res = execution_by_id d' (e_id e)"
      "{EXCEL, PAFE_AUTOMATION} \<subseteq> capabilities_of w"
proof (cases "{EXCEL, PAFE_AUTOMATION} \<subseteq> capabilities_of w")
  case False
  with assms idle show ?thesis by (simp add: claim_after_reap_def Let_def)
next
  case True
  let ?c = "claim_candidate d locked (w_organization_id w) (w_id w)
         (supported_formats (capabilities_of w)) now"
  show ?thesis
  proof (cases ?c)
    case None
    with assms True idle show ?thesis by (simp add: claim_after_reap_def repo_claim_next_def)
  next
    case (Some e)
    let ?e = "e\<lparr>e_status := ASSIGNED, e_worker_id := Some (w_id w), e_assigned_at := Some now,
         e_lease_expires_at := Some (now + seconds (REPORT_EXECUTION_LEASE_SECONDS cfg))\<rparr>"
    have "d' = update_execution d ?e" "res = execution_by_id d' (e_id e)"
      using assms True Some by (auto simp: claim_after_reap_def repo_claim_next_def)
    with True show ?thesis by (intro claimed [OF Some refl])
  qed
qed

lemma claim_next_Inr:
  assumes "claim_next cfg mint now db_now locked d w = Inr (d', res)"
  obtains d1 n where
    "reap_stale_executions cfg mint now db_now d (Some (w_organization_id w)) = Inr (d1, n)"
    "claim_after_reap cfg now locked d1 w = (d', res)"
  using assms by (auto simp: claim_next_def bind_result_Inr_iff)

lemma assigned_advances:
  assumes ok: "table_ok d" and e: "e \<in> set (db_executions d)" and q: "e_status e = QUEUED"
  shows "advances d (update_execution d (e\<lparr>e_status := ASSIGNED, e_worker_id := Some wid,
           e_assigned_at := Some now, e_lease_expires_at := Some lease\<rparr>))"
proof -
  let ?e = "e\<lparr>e_status := ASSIGNED, e_worker_id := Some wid,
           e_assigned_at := Some now, e_lease_expires_at := Some lease\<rparr>"
  have "row_advances e ?e" by (rule row_advances_step) (simp_all add: q can_transition_cases)
  moreover have "row_ok ?e"
    using table_ok_row_ok [OF ok e] q
    by (simp add: row_ok_def attempts_ok_def waiting_def leased_def)
  ultimately show ?thesis by (rule update_advances [OF ok e])
qed

lemma claim_after_reap_advances:
  assumes ok: "table_ok d" and c: "claim_after_reap cfg now locked d w = (d', res)"
  shows "advances d d'"
  using c
proof (cases rule: claim_after_reap_cases)
  case idle
  with ok show ?thesis by (simp add: advances_refl)
next
  case (claimed e e')
  have "e \<in> set (db_executions d)" "e_status e = QUEUED"
    using claim_candidate_SomeD [OF claimed(1)] by (auto simp: claimable_def)
  then show ?thesis
    unfolding claimed(3,2) by (rule assigned_advances [OF ok])
qed

lemma claim_next_advances:
  assumes ok: "table_ok d" and c: "claim_next cfg mint now db_now locked d w = Inr (d', res)"
  shows "advances d d'"
proof -
  obtain d1 n where
    r: "reap_stale_executions cfg mint now db_now d (Some (w_organization_id w)) = Inr (d1, n)"
    and c': "claim_after_reap cfg now locked d1 w = (d', res)"
    using c by (rule claim_next_Inr)
  have a1: "advances d d1" using ok r by (rule reap_stale_executions_advances)
  then have "advances d1 d'"
    using c' by (blast intro: claim_after_reap_advances advances_table_ok)
  with a1 show ?thesis by (rule advances_trans)
qed

end
