(* ===== verification/ReportApi.thy ===== *)
theory ReportApi
  imports ReportLifecycle
begin

text \<open>
  The requests that drive report executions, as transactions: the handlers of
  \<open>api/v1/worker.py\<close> and \<open>api/v1/reports.py\<close> with the report operations of
  \<open>report_service.py\<close>, \<open>operations.py\<close> and \<open>validation.py\<close> they call, each run
  inside \<open>get_db\<close> (commit on return, roll back when the handler raises), and
  the reaper task. \<open>report_step\<close> is one such request; the properties of the
  subsystem are proved over its reachable states. Audit rows and response
  bodies are left out.
\<close>

section \<open>The request transaction\<close>

definition flushed :: "db \<Rightarrow> (db \<times> 'a) result \<Rightarrow> db \<times> 'a result" where
  "flushed d r = (case r of Inl x \<Rightarrow> (d, Inl x) | Inr (d', a) \<Rightarrow> (d', Inr a))"

definition get_db :: "db \<Rightarrow> db \<times> 'a result \<Rightarrow> db \<times> 'a result" where
  "get_db committed session =
     (case snd session of
        Inl x \<Rightarrow> (committed, Inl x)
      | Inr a \<Rightarrow> (fst session, Inr a))"

lemma get_db_flushed:
  "fst (get_db d (flushed d r)) = (case r of Inl x \<Rightarrow> d | Inr (d', a) \<Rightarrow> d')"
  by (simp add: get_db_def flushed_def split: sum.split prod.split)

lemma get_db_error: "snd session = Inl x \<Longrightarrow> get_db d session = (d, Inl x)"
  by (simp add: get_db_def)

section \<open>Validation and the operation allowlist\<close>

definition validate_report_type :: "string \<Rightarrow> ReportType result" where
  "validate_report_type v =
     (case enum_of report_type_value report_types v of
        None \<Rightarrow> Inl Validation
      | Some t \<Rightarrow> if t \<notin> set IMPLEMENTED_REPORT_TYPES then Inl Validation else Inr t)"

fun collect_formats :: "string list \<Rightarrow> OutputFormat list \<Rightarrow> OutputFormat list result" where
  "collect_formats [] formats = Inr formats"
| "collect_formats (v # vs) formats =
     (case enum_of output_format_value output_formats_all v of
        None \<Rightarrow> Inl Validation
      | Some f \<Rightarrow> collect_formats vs (if f \<in> set formats then formats else formats @ [f]))"

definition validate_output_formats :: "string list \<Rightarrow> OutputFormat list result" where
  "validate_output_formats vs = (if vs = [] then Inl Validation else collect_formats vs [])"

datatype WorkerOperation = REFRESH_WORKBOOK | REFRESH_SHEET | OP_EXPORT_XLSX | OP_EXPORT_PDF

definition operation_for_report :: "report \<Rightarrow> WorkerOperation result" where
  "operation_for_report r =
     (if r_report_type r = PAFE_WORKBOOK then Inr REFRESH_WORKBOOK else Inl Validation)"

section \<open>Reports\<close>

definition get_report :: "db \<Rightarrow> uuid \<Rightarrow> uuid \<Rightarrow> report result" where
  "get_report d rid org =
     (case report_by_id d rid of
        None \<Rightarrow> Inl NotFound
      | Some r \<Rightarrow> if r_organization_id r \<noteq> org then Inl NotFound else Inr r)"

definition update_report :: "db \<Rightarrow> report \<Rightarrow> db" where
  "update_report d r = d\<lparr>db_reports := upd_by r_id (r_id r) r (db_reports d)\<rparr>"

definition list_reports :: "db \<Rightarrow> uuid \<Rightarrow> report list" where
  "list_reports d org = sort_key r_name (filter (\<lambda>r. r_organization_id r = org) (db_reports d))"

definition set_report_status :: "db \<Rightarrow> uuid \<Rightarrow> uuid \<Rightarrow> ReportStatus \<Rightarrow> (db \<times> report) result" where
  "set_report_status d rid org st =
     bind_result (get_report d rid org) (\<lambda>r.
       let r' = r\<lparr>r_status := st\<rparr> in Inr (update_report d r', r'))"

definition archive_report :: "db \<Rightarrow> uuid \<Rightarrow> uuid \<Rightarrow> (db \<times> report) result" where
  "archive_report d rid org = set_report_status d rid org REPORT_ARCHIVED"

definition run_now ::
  "settings \<Rightarrow> (db \<Rightarrow> db) \<Rightarrow> db \<Rightarrow> db \<Rightarrow> time \<Rightarrow> uuid \<Rightarrow> uuid \<Rightarrow> uuid \<Rightarrow> uuid \<Rightarrow> uuid \<Rightarrow>
     (db \<times> execution \<times> bool) result" where
  "run_now cfg env base d now new_id correlation rid org user =
     bind_result (get_report d rid org) (\<lambda>r.
       enqueue cfg env base d now new_id correlation r org MANUAL (Some user)
         (manual_idempotency_key (r_id r) user (moment_of now)) None)"

section \<open>The handlers\<close>

definition run_now_request ::
  "settings \<Rightarrow> db \<Rightarrow> time \<Rightarrow> uuid \<Rightarrow> uuid \<Rightarrow> uuid \<Rightarrow> uuid \<Rightarrow> uuid \<Rightarrow> db \<times> (execution \<times> bool) result" where
  "run_now_request cfg d now new_id correlation rid org user =
     get_db d (flushed d (run_now cfg id d d now new_id correlation rid org user))"

definition owned_execution :: "db \<Rightarrow> uuid \<Rightarrow> worker \<Rightarrow> execution result" where
  "owned_execution d i w =
     (case execution_by_id d i of
        None \<Rightarrow> Inl NotFound
      | Some e \<Rightarrow>
          if e_organization_id e \<noteq> w_organization_id w then Inl NotFound
          else if e_worker_id e \<noteq> Some (w_id w) then Inl NotFound
          else Inr e)"

text \<open>
  \<open>workbook_found\<close> is \<open>workbook_service.get_workbook\<close>: whether the
  execution's workbook exists in the organization. A response that cannot be
  built raises, and the claim is rolled back with it.
\<close>

definition claim_response ::
  "(uuid option \<Rightarrow> uuid \<Rightarrow> bool) \<Rightarrow> db \<Rightarrow> worker \<Rightarrow> execution \<Rightarrow> (execution \<times> WorkerOperation) result" where
  "claim_response workbook_found d w e =
     bind_result (get_report_for_execution d e) (\<lambda>r.
     bind_result (ensure (workbook_found (e_workbook_id e) (w_organization_id w)) NotFound) (\<lambda>_.
     bind_result (operation_for_report r) (\<lambda>op.
     bind_result
       (ensure (list_all (\<lambda>v. enum_of output_format_value output_formats_all v \<noteq> None)
                 (r_output_formats r)) ValueError) (\<lambda>_.
       Inr (e, op)))))"

definition claim_job ::
  "settings \<Rightarrow> (uuid \<Rightarrow> uuid) \<Rightarrow> (uuid option \<Rightarrow> uuid \<Rightarrow> bool) \<Rightarrow> time \<Rightarrow> time \<Rightarrow> uuid list \<Rightarrow> db \<Rightarrow>
     worker \<Rightarrow> db \<times> (execution \<times> WorkerOperation) option result" where
  "claim_job cfg mint workbook_found now db_now locked d w =
     get_db d (flushed d
       (bind_result (claim_next cfg mint now db_now locked d w) (\<lambda>(d', res).
          case res of
            None \<Rightarrow> Inr (d', None)
          | Some e \<Rightarrow>
              bind_result (claim_response workbook_found d' w e) (\<lambda>job. Inr (d', Some job)))))"

definition start_job ::
  "settings \<Rightarrow> time \<Rightarrow> db \<Rightarrow> uuid \<Rightarrow> worker \<Rightarrow> db \<times> execution result" where
  "start_job cfg now d i w =
     get_db d (flushed d
       (bind_result (owned_execution d i w) (\<lambda>e. mark_started cfg now d e w)))"

definition report_progress ::
  "settings \<Rightarrow> time \<Rightarrow> db \<Rightarrow> uuid \<Rightarrow> worker \<Rightarrow> string option \<Rightarrow> db \<times> execution result" where
  "report_progress cfg now d i w step =
     get_db d
       (case owned_execution d i w of
          Inl x \<Rightarrow> (d, Inl x)
        | Inr e \<Rightarrow> extend_lease cfg now d e w step)"

definition complete_job ::
  "settings \<Rightarrow> time \<Rightarrow> db \<Rightarrow> uuid \<Rightarrow> worker \<Rightarrow> string option \<Rightarrow> (string \<times> json) list option \<Rightarrow>
     db \<times> (execution \<times> bool) result" where
  "complete_job cfg now d i w trace_log diagnostics =
     get_db d (flushed d
       (bind_result (owned_execution d i w) (\<lambda>e.
          if e_status e = SUCCEEDED then Inr (d, e, True)
          else bind_result (succeed cfg now d e w trace_log diagnostics)
                 (\<lambda>(d', e'). Inr (d', e', False)))))"

definition fail_job ::
  "settings \<Rightarrow> (uuid \<Rightarrow> uuid) \<Rightarrow> time \<Rightarrow> db \<Rightarrow> uuid \<Rightarrow> worker \<Rightarrow> string option \<Rightarrow> string option \<Rightarrow>
     (string \<times> json) list option \<Rightarrow> db \<times> (execution \<times> execution option) result" where
  "fail_job cfg mint now d i w code trace_log diagnostics =
     get_db d (flushed d
       (bind_result (owned_execution d i w) (\<lambda>e.
        bind_result
          (fail_execution cfg now d e (Some w) (coerce_error_code code) FAILED trace_log diagnostics)
          (\<lambda>(d1, e1).
             bind_result (create_retry cfg id d1 d1 now (mint (e_id e1)) e1)
               (\<lambda>(d2, retry). Inr (d2, e1, retry))))))"

definition cancel_execution ::
  "settings \<Rightarrow> time \<Rightarrow> db \<Rightarrow> uuid \<Rightarrow> uuid \<Rightarrow> db \<times> execution result" where
  "cancel_execution cfg now d i org =
     get_db d (flushed d
       (bind_result (get_execution d i org) (\<lambda>e. cancel cfg now d e)))"

definition reaper_task ::
  "settings \<Rightarrow> (uuid \<Rightarrow> uuid) \<Rightarrow> time \<Rightarrow> time \<Rightarrow> db \<Rightarrow> db \<times> nat result" where
  "reaper_task cfg mint now db_now d =
     get_db d (flushed d (reap_stale_executions cfg mint now db_now d None))"

section \<open>Steps and reachable states\<close>

inductive report_step :: "settings \<Rightarrow> db \<Rightarrow> db \<Rightarrow> bool" for cfg where
  run: "report_step cfg d (fst (run_now_request cfg d now new_id correlation rid org user))"
| claim: "report_step cfg d (fst (claim_job cfg mint workbook_found now db_now locked d w))"
| start: "report_step cfg d (fst (start_job cfg now d i w))"
| progress: "report_step cfg d (fst (report_progress cfg now d i w step))"
| complete: "report_step cfg d (fst (complete_job cfg now d i w trace_log diagnostics))"
| fail: "report_step cfg d (fst (fail_job cfg mint now d i w code trace_log diagnostics))"
| cancel: "report_step cfg d (fst (cancel_execution cfg now d i org))"
| reap: "report_step cfg d (fst (reaper_task cfg mint now db_now d))"
| console: "db_executions d' = db_executions d \<Longrightarrow> report_step cfg d d'"

inductive_cases report_stepE: "report_step cfg d d'"

lemma advances_console:
  assumes "table_ok d" "db_executions d' = db_executions d"
  shows "advances d d'"
proof -
  have "table_ok d'"
    using assms by (simp add: table_ok_def executions_ok_def lineage_ok_def)
  then show ?thesis
    unfolding advances_def assms(2) using row_advances_refl by blast
qed

lemma advances_flushed:
  assumes "table_ok d" and "\<And>d' a. r = Inr (d', a) \<Longrightarrow> advances d d'"
  shows "advances d (fst (get_db d (flushed d r)))"
  using assms advances_refl by (auto simp: get_db_flushed split: sum.split)

lemma owned_execution_InrD:
  assumes "owned_execution d i w = Inr e"
  shows "e \<in> set (db_executions d)" "e_id e = i" "e_organization_id e = w_organization_id w"
    "e_worker_id e = Some (w_id w)" "execution_by_id d i = Some e"
  using assms
  by (auto simp: owned_execution_def execution_by_id_def dest: find_SomeD
      split: option.splits if_splits)

lemma get_execution_InrD:
  "get_execution d i org = Inr e \<Longrightarrow>
     e \<in> set (db_executions d) \<and> e_id e = i \<and> e_organization_id e = org"
  by (auto simp: get_execution_def execution_by_id_def dest: find_SomeD
      split: option.splits if_splits)

lemma report_progress_advances:
  assumes ok: "table_ok d"
  shows "advances d (fst (report_progress cfg now d i w step))"
proof (cases "owned_execution d i w")
  case (Inl x)
  then show ?thesis by (simp add: report_progress_def get_db_def advances_refl [OF ok])
next
  case (Inr e)
  obtain d' r where x: "extend_lease cfg now d e w step = (d', r)"
    by (cases "extend_lease cfg now d e w step")
  have "advances d d'"
    using ok owned_execution_InrD(1) [OF Inr] x by (rule extend_lease_advances)
  with Inr x show ?thesis
    by (auto simp: report_progress_def get_db_def advances_refl [OF ok] split: sum.split)
qed

lemma fail_then_retry_advances:
  assumes ok: "table_ok d" and e: "e \<in> set (db_executions d)"
    and f: "fail_execution cfg now d e w c FAILED t m = Inr (d1, e1)"
    and r: "create_retry cfg id d1 d1 now i e1 = Inr (d2, res)"
  shows "advances d d2"
proof -
  have a: "advances d d1" "e1 \<in> set (db_executions d1)"
    using fail_execution_advances [OF ok e f] by simp_all
  have "advances d1 d2"
    using advances_table_ok [OF a(1)] a(2) r by (rule create_retry_advances)
  with a(1) show ?thesis by (rule advances_trans)
qed

lemma report_step_advances:
  assumes "report_step cfg d d'" "table_ok d"
  shows "advances d d'"
  using assms
proof (induction rule: report_step.induct)
  case (run d now new_id correlation rid org user)
  then show ?case
    unfolding run_now_request_def
    by (intro advances_flushed)
       (auto simp: run_now_def bind_result_Inr_iff dest: enqueue_advances)
next
  case (claim d mint workbook_found now db_now locked w)
  then show ?case
    unfolding claim_job_def
    by (intro advances_flushed)
       (auto simp: bind_result_Inr_iff split: option.splits dest: claim_next_advances)
next
  case (start d now i w)
  then show ?case
    unfolding start_job_def
    by (intro advances_flushed)
       (auto simp: bind_result_Inr_iff dest: owned_execution_InrD(1) intro: mark_started_advances)
next
  case (progress d now i w step)
  then show ?case by (rule report_progress_advances)
next
  case (complete d now i w trace_log diagnostics)
  then show ?case
    unfolding complete_job_def
    by (intro advances_flushed)
       (auto simp: bind_result_Inr_iff advances_refl split: if_splits
          dest: owned_execution_InrD(1) intro: succeed_advances)
next
  case (fail d mint now i w code trace_log diagnostics)
  then show ?case
    unfolding fail_job_def
    by (intro advances_flushed)
       (auto simp: bind_result_Inr_iff dest!: owned_execution_InrD(1) intro: fail_then_retry_advances)
next
  case (cancel d now i org)
  then show ?case
    unfolding cancel_execution_def
    by (intro advances_flushed)
       (auto simp: bind_result_Inr_iff dest!: get_execution_InrD intro: cancel_advances)
next
  case (reap d mint now db_now)
  then show ?case
    unfolding reaper_task_def
    by (intro advances_flushed) (auto dest: reap_stale_executions_advances)
next
  case (console d' d)
  then show ?case by (blast intro: advances_console)
qed

lemma report_steps_advance:
  assumes "(report_step cfg)\<^sup>*\<^sup>* d d'" "table_ok d"
  shows "advances d d'"
  using assms
proof (induction rule: rtranclp_induct)
  case base
  then show ?case by (rule advances_refl)
next
  case (step y z)
  then have "advances d y" by simp
  with step.hyps(2) show ?case
    by (blast intro: advances_trans report_step_advances advances_table_ok)
qed

definition empty_db :: db where
  "empty_db = \<lparr>db_executions = [], db_reports = [], db_workers = []\<rparr>"

lemma table_ok_empty [simp]: "table_ok empty_db"
  by (simp add: table_ok_def executions_ok_def empty_db_def)

end
