(* ===== verification/ReportDemo.thy ===== *)
theory ReportDemo
  imports ReportApi
begin

text \<open>
  A small organization (one report, one enrolled worker) and its history: a run
  that is queued, claimed, failed, retried and claimed again. The witnesses of
  the report properties are taken from these states.
\<close>

definition demo_report :: report where
  "demo_report =
     \<lparr>r_id = ''r1'', r_organization_id = ''o1'', r_created_by = ''u1'', r_name = ''Sales'',
      r_description = None, r_report_type = PAFE_WORKBOOK, r_workbook_id = Some ''b1'',
      r_connection_id = None, r_worker_id = None, r_parameters = None,
      r_output_formats = [''xlsx''], r_status = REPORT_ACTIVE, r_approval_status = NOT_REQUIRED\<rparr>"

definition demo_worker :: worker where
  "demo_worker =
     \<lparr>w_id = ''w1'', w_organization_id = ''o1'', w_created_by = ''u1'', w_name = ''Desk'',
      w_description = None, w_status = ONLINE, w_enrollment_token_hash = None,
      w_enrollment_expires_at = None, w_enrolled_at = Some 0, w_secret_hash = Some ''h'',
      w_secret_version = 1, w_secret_rotated_at = None, w_version = None, w_os = None,
      w_excel_version = None, w_pafe_version = None, w_hostname = None,
      w_capabilities = Some [''excel'', ''pafe_automation'', ''xlsx_export''],
      w_last_heartbeat_at = Some 0, w_disabled_at = None, w_last_error = None\<rparr>"

definition demo_db :: db where
  "demo_db = \<lparr>db_executions = [], db_reports = [demo_report], db_workers = [demo_worker]\<rparr>"

definition demo_queued :: db where
  "demo_queued = fst (run_now_request default_settings demo_db 0 ''e1'' ''c1'' ''r1'' ''o1'' ''u1'')"

definition demo_claimed :: db where
  "demo_claimed =
     fst (claim_job default_settings id (\<lambda>_ _. True) (seconds 5) (seconds 5) [] demo_queued demo_worker)"

definition demo_failed :: db where
  "demo_failed =
     fst (fail_job default_settings (\<lambda>i. i @ ''r'') (seconds 20) demo_claimed ''e1'' demo_worker
       (Some ''excel_open_failed'') None None)"

text \<open>The three states written out, as code equations: later evaluations start from them.\<close>

lemma demo_queued_eq [code]:
  "demo_queued =
     \<lparr>db_executions = [\<lparr>e_id = ''e1'', e_organization_id = ''o1'', e_report_id =
      ''r1'', e_workbook_id = Some ''b1'', e_worker_id = None, e_triggered_by = Some ''u1'',
      e_trigger_type = MANUAL, e_status = QUEUED, e_idempotency_key =
      ''manual:r1:u1:19700101T0000'', e_correlation_id = ''c1'', e_scheduled_for = None, e_attempt =
      1, e_max_attempts = 3, e_parent_execution_id = None, e_queued_at = 0, e_available_at = 0,
      e_assigned_at = None, e_started_at = None, e_completed_at = None, e_duration_ms = None,
      e_lease_expires_at = None, e_timeout_seconds = 1200, e_error_code = None, e_error_message =
      None, e_retry_class = None, e_diagnostics = None, e_trace_log = None\<rparr>], db_reports =
      [demo_report], db_workers = [demo_worker]\<rparr>"
  by code_simp

lemma demo_claimed_eq [code]:
  "demo_claimed =
     \<lparr>db_executions = [\<lparr>e_id = ''e1'', e_organization_id = ''o1'', e_report_id =
      ''r1'', e_workbook_id = Some ''b1'', e_worker_id = Some ''w1'', e_triggered_by = Some ''u1'',
      e_trigger_type = MANUAL, e_status = ASSIGNED, e_idempotency_key =
      ''manual:r1:u1:19700101T0000'', e_correlation_id = ''c1'', e_scheduled_for = None, e_attempt =
      1, e_max_attempts = 3, e_parent_execution_id = None, e_queued_at = 0, e_available_at = 0,
      e_assigned_at = Some 5000000, e_started_at = None, e_completed_at = None, e_duration_ms =
      None, e_lease_expires_at = Some 125000000, e_timeout_seconds = 1200, e_error_code = None,
      e_error_message = None, e_retry_class = None, e_diagnostics = None, e_trace_log =
      None\<rparr>], db_reports = [demo_report], db_workers = [demo_worker]\<rparr>"
  by code_simp

lemma demo_failed_eq [code]:
  "demo_failed =
     \<lparr>db_executions = [\<lparr>e_id = ''e1'', e_organization_id = ''o1'', e_report_id =
      ''r1'', e_workbook_id = Some ''b1'', e_worker_id = Some ''w1'', e_triggered_by = Some ''u1'',
      e_trigger_type = MANUAL, e_status = RETRYING, e_idempotency_key =
      ''manual:r1:u1:19700101T0000'', e_correlation_id = ''c1'', e_scheduled_for = None, e_attempt =
      1, e_max_attempts = 3, e_parent_execution_id = None, e_queued_at = 0, e_available_at = 0,
      e_assigned_at = Some 5000000, e_started_at = None, e_completed_at = Some 20000000,
      e_duration_ms = Some 20000, e_lease_expires_at = None, e_timeout_seconds = 1200, e_error_code
      = Some INTERNAL_ERROR, e_error_message = Some ''The report failed for an unexpected reason.'',
      e_retry_class = Some RETRYABLE, e_diagnostics = None, e_trace_log = None\<rparr>, \<lparr>e_id
      = ''e1r'', e_organization_id = ''o1'', e_report_id = ''r1'', e_workbook_id = Some ''b1'',
      e_worker_id = None, e_triggered_by = Some ''u1'', e_trigger_type = TRIGGER_RETRY, e_status =
      QUEUED, e_idempotency_key = ''manual:r1:u1:19700101T0000#a2'', e_correlation_id = ''c1'',
      e_scheduled_for = None, e_attempt = 2, e_max_attempts = 3, e_parent_execution_id = Some
      ''e1'', e_queued_at = 20000000, e_available_at = 80000000, e_assigned_at = None, e_started_at
      = None, e_completed_at = None, e_duration_ms = None, e_lease_expires_at = None,
      e_timeout_seconds = 1200, e_error_code = None, e_error_message = None, e_retry_class = None,
      e_diagnostics = None, e_trace_log = None\<rparr>], db_reports = [demo_report], db_workers =
      [demo_worker]\<rparr>"
  by code_simp

definition claimed_one :: "db \<times> (execution \<times> WorkerOperation) option result \<Rightarrow> bool" where
  "claimed_one r = (case snd r of Inl _ \<Rightarrow> False | Inr None \<Rightarrow> False | Inr (Some _) \<Rightarrow> True)"

lemma claimed_oneD: "claimed_one r \<Longrightarrow> \<exists>e op. r = (fst r, Inr (Some (e, op)))"
  by (cases r) (auto simp: claimed_one_def split: sum.splits option.splits)

lemma demo_claimed_rows: "map e_status (db_executions demo_claimed) = [ASSIGNED]"
  by code_simp

lemma demo_failed_rows:
  "map (\<lambda>e. (e_status e, e_parent_execution_id e)) (db_executions demo_failed) =
     [(RETRYING, None), (QUEUED, Some ''e1'')]"
  by code_simp

lemma demo_failed_retry:
  "\<exists>x \<in> set (db_executions demo_failed). e_parent_execution_id x = Some ''e1''"
  using demo_failed_rows by (auto simp: map_eq_Cons_conv)

lemma demo_claim_one:
  "claimed_one (claim_job default_settings id (\<lambda>_ _. True) (seconds 5) (seconds 5) [] demo_queued demo_worker)"
  by code_simp

lemma demo_queued_reachable: "(report_step default_settings)\<^sup>*\<^sup>* empty_db demo_queued"
proof -
  have "report_step default_settings empty_db demo_db"
    by (rule report_step.console) (simp add: empty_db_def demo_db_def)
  moreover have "report_step default_settings demo_db demo_queued"
    unfolding demo_queued_def by (rule report_step.run)
  ultimately show ?thesis by auto
qed

lemma demo_claim_step: "report_step default_settings demo_queued demo_claimed"
  unfolding demo_claimed_def by (rule report_step.claim)

lemma demo_fail_step: "report_step default_settings demo_claimed demo_failed"
  unfolding demo_failed_def by (rule report_step.fail)

lemma demo_failed_reachable: "(report_step default_settings)\<^sup>*\<^sup>* empty_db demo_failed"
  by (rule rtranclp.rtrancl_into_rtrancl [OF rtranclp.rtrancl_into_rtrancl
        [OF demo_queued_reachable demo_claim_step] demo_fail_step])

lemma demo_claimed_reachable: "(report_step default_settings)\<^sup>*\<^sup>* empty_db demo_claimed"
  using demo_queued_reachable demo_claim_step by (rule rtranclp.rtrancl_into_rtrancl)

lemma demo_claimed_ids: "map e_id (db_executions demo_claimed) = [''e1'']"
  by code_simp

lemma reachable_table_ok: "(report_step cfg)\<^sup>*\<^sup>* empty_db d \<Longrightarrow> table_ok d"
  by (blast intro: advances_table_ok report_steps_advance table_ok_empty)

definition demo_reclaimed :: db where
  "demo_reclaimed =
     fst (claim_job default_settings id (\<lambda>_ _. True) (seconds 100) (seconds 100) [] demo_failed demo_worker)"

lemma demo_reclaim_one:
  "claimed_one (claim_job default_settings id (\<lambda>_ _. True) (seconds 100) (seconds 100) [] demo_failed demo_worker)"
  by code_simp

end
