(* ===== verification/ReportProperties.thy ===== *)
theory ReportProperties
  imports ReportDemo
begin

text \<open>
  The properties of report automation over the requests of the API theory, each
  exercised on the history of the demonstration theory.
\<close>



section \<open>Rows over time\<close>

text \<open>
  C9. Every state reachable from an empty database by the report requests satisfies the
  table invariant: ids and (organization, key) pairs are unique, each row has the lease,
  worker, completion and diagnosis fields its status calls for, attempts are within bounds,
  and every retry points at the RETRYING row it replaces.
\<close>

theorem report_states_ok:
  assumes "(report_step cfg)\<^sup>*\<^sup>* empty_db d"
  shows "table_ok d"
  using assms by (rule reachable_table_ok)

lemma report_states_ok_witness:
  "table_ok demo_failed \<and> length (db_executions demo_failed) = 2"
  using report_states_ok [OF demo_failed_reachable] arg_cong [OF demo_failed_rows, of length] by simp

definition closed_status :: "ExecutionStatus \<Rightarrow> bool" where
  "closed_status s \<longleftrightarrow> s \<in> {SUCCEEDED, FAILED, TIMED_OUT, CANCELLED, RETRYING}"

lemma service_moves_closed:
  "service_move\<^sup>*\<^sup>* s t \<Longrightarrow> closed_status s \<Longrightarrow> t = s \<or> t = RETRYING"
proof (induction rule: rtranclp_induct)
  case (step y z)
  then show ?case
    by (auto simp: service_move_def closed_status_def can_transition_cases)
qed simp

text \<open>
  C4. Whatever requests are served, every execution row keeps its identity fields
  (organization, report, key, attempt, parent, queue times) and its status only moves along
  the allowed transitions; a row that left QUEUED never returns to it, and a closed row
  stays as it is or becomes RETRYING.
\<close>

theorem executions_move_forward:
  assumes "(report_step cfg)\<^sup>*\<^sup>* empty_db d" "(report_step cfg)\<^sup>*\<^sup>* d d'"
    and "e \<in> set (db_executions d)"
  shows "\<exists>e' \<in> set (db_executions d'). same_run e e' \<and>
     can_transition\<^sup>*\<^sup>* (e_status e) (e_status e') \<and>
     (e_status e \<noteq> QUEUED \<longrightarrow> e_status e' \<noteq> QUEUED) \<and>
     (closed_status (e_status e) \<longrightarrow> e_status e' = e_status e \<or> e_status e' = RETRYING)"
proof -
  have "advances d d'"
    using assms(2) reachable_table_ok [OF assms(1)] by (rule report_steps_advance)
  then obtain e' where e': "e' \<in> set (db_executions d')" "row_advances e e'"
    using assms(3) by (auto simp: advances_def)
  then have "same_run e e'" "service_move\<^sup>*\<^sup>* (e_status e) (e_status e')"
    by (simp_all add: row_advances_def)
  moreover from this(2) have "can_transition\<^sup>*\<^sup>* (e_status e) (e_status e')"
    by (rule service_move_allowed)
  ultimately show ?thesis
    using e'(1) service_move_queued service_moves_closed by metis
qed

lemma executions_move_forward_witness:
  "\<exists>e \<in> set (db_executions demo_claimed). e_status e = ASSIGNED \<and>
     (\<exists>e' \<in> set (db_executions demo_failed). same_run e e' \<and> e_status e' \<noteq> QUEUED)"
proof -
  obtain e where e: "e \<in> set (db_executions demo_claimed)" "e_status e = ASSIGNED"
    using demo_claimed_rows by auto
  have r: "(report_step default_settings)\<^sup>*\<^sup>* empty_db demo_claimed"
    using demo_queued_reachable demo_claim_step by (rule rtranclp.rtrancl_into_rtrancl)
  show ?thesis
    using executions_move_forward [OF r r_into_rtranclp [of "report_step default_settings", OF demo_fail_step] e(1)] e by auto
qed

lemma replaced_by_unique_slot:
  assumes "table_ok d" "e \<in> set (db_executions d)" "e_parent_execution_id e = Some p"
  obtains pe where "pe \<in> set (db_executions d)" "e_id pe = p" "e_status pe = RETRYING"
    "idempotency_slot e =
       (e_organization_id pe, retry_idempotency_key (e_idempotency_key pe) (e_attempt pe + 1))"
    "e_attempt e = e_attempt pe + 1"
  using assms by (fastforce simp: table_ok_def lineage_ok_def replaced_by_def idempotency_slot_def)

theorem one_retry_per_execution:
  assumes "(report_step cfg)\<^sup>*\<^sup>* empty_db d"
    and "x \<in> set (db_executions d)" "e_parent_execution_id x = Some p"
    and "y \<in> set (db_executions d)" "e_parent_execution_id y = Some p"
  shows "x = y \<and> e_attempt x \<le> e_max_attempts x \<and>
    (\<exists>pe \<in> set (db_executions d). e_id pe = p \<and> e_status pe = RETRYING \<and>
       e_attempt x = e_attempt pe + 1)"
proof -
  have ok: "table_ok d" using assms(1) by (rule reachable_table_ok)
  obtain a where a: "a \<in> set (db_executions d)" "e_id a = p" "e_status a = RETRYING"
    "idempotency_slot x =
       (e_organization_id a, retry_idempotency_key (e_idempotency_key a) (e_attempt a + 1))"
    "e_attempt x = e_attempt a + 1"
    using ok assms(2,3) by (rule replaced_by_unique_slot)
  obtain b where b: "b \<in> set (db_executions d)" "e_id b = p"
    "idempotency_slot y =
       (e_organization_id b, retry_idempotency_key (e_idempotency_key b) (e_attempt b + 1))"
    using ok assms(4,5) by (rule replaced_by_unique_slot)
  note ex = table_ok_executions_ok [OF ok]
  have "a = b" using executions_ok_unique [OF ex a(1) b(1)] a(2) b(2) by simp
  then have "x = y" using executions_ok_slot_unique [OF ex assms(2,4)] a(4) b(3) by simp
  moreover have "e_attempt x \<le> e_max_attempts x"
    using row_ok_attempts [OF table_ok_row_ok [OF ok assms(2)]]
      row_ok_attempts [OF table_ok_row_ok [OF ok a(1)]] a(5)
    unfolding attempts_ok_def by linarith
  ultimately show ?thesis using a by blast
qed

lemma one_retry_per_execution_witness:
  "\<exists>x \<in> set (db_executions demo_failed). e_parent_execution_id x = Some ''e1'' \<and>
     e_attempt x \<le> e_max_attempts x"
  using demo_failed_retry one_retry_per_execution [OF demo_failed_reachable] by blast

section \<open>Enqueue\<close>

lemma enqueue_keyed:
  assumes "enqueue cfg env base d now i c r org trigger user key sched = Inr (d', e, created)"
  shows "get_by_idempotency_key d' org key = Some e \<and> r_status r = REPORT_ACTIVE \<and>
     r_workbook_id r \<noteq> None \<and>
     (created \<longrightarrow> e = new_execution cfg now i c r org trigger user key sched \<and>
        get_by_idempotency_key (env d) org key = None) \<and>
     (\<not> created \<longrightarrow> d' = d \<or> d' = env base)"
proof -
  let ?n = "new_execution cfg now i c r org trigger user key sched"
  let ?lookup = "\<lambda>d k. get_by_idempotency_key d (fst k) (snd k)"
  have slot: "idempotency_slot ?n = (org, key)" by (simp add: new_execution_slot)
  show ?thesis
  proof (cases "get_by_idempotency_key d org key")
    case (Some x)
    with assms show ?thesis
      by (auto simp: enqueue_def split: if_splits)
  next
    case None
    have ins: "insert_or_recover ?lookup create_execution env base d (idempotency_slot ?n) ?n
        = Inr (d', e, created)"
      and g: "r_status r = REPORT_ACTIVE" "r_workbook_id r \<noteq> None"
      using assms None unfolding slot
      by (auto simp: enqueue_def bind_result_Inr_iff split: if_splits)
    show ?thesis
      using executions.recover_sound [OF ins] g unfolding slot by auto
  qed
qed

lemma enqueue_keyed_row:
  assumes "enqueue cfg env base d now i c r org trigger user key sched = Inr (d', e, created)"
  shows "get_by_idempotency_key d' org key = Some e" "r_status r = REPORT_ACTIVE" "r_workbook_id r \<noteq> None"
  using enqueue_keyed [OF assms] by blast+

text \<open>
  C22. Whatever other transactions commit between enqueue's lookup and its insert, a
  successful enqueue leaves exactly the row it returns under the idempotency key: the new
  row when it was created, the row that won otherwise.
\<close>

theorem enqueue_keyed_under_interference:
  assumes "enqueue cfg env base d now i c r org trigger user key sched = Inr (d', e, created)"
  shows "get_by_idempotency_key d' org key = Some e \<and> r_status r = REPORT_ACTIVE \<and>
     r_workbook_id r \<noteq> None \<and>
     (created \<longrightarrow> e = new_execution cfg now i c r org trigger user key sched \<and>
        get_by_idempotency_key (env d) org key = None) \<and>
     (\<not> created \<longrightarrow> d' = d \<or> d' = env base)"
  using assms by (rule enqueue_keyed)

definition demo_rival_row :: execution where
  "demo_rival_row =
     new_execution default_settings 1 ''rival'' ''c9'' demo_report ''o1'' MANUAL (Some ''u1'')
       (manual_idempotency_key ''r1'' ''u1'' (moment_of 1)) None"

definition demo_rival :: "db \<Rightarrow> db" where
  "demo_rival d = d\<lparr>db_executions := db_executions d @ [demo_rival_row]\<rparr>"

lemma demo_minute: "minute_bucket (moment_of 2) = minute_bucket (moment_of 1)"
  by code_simp

lemma demo_worker_could_run: "assert_a_worker_could_run_this demo_db demo_report ''o1'' = Inr ()"
  by code_simp

lemma demo_race:
  "enqueue default_settings demo_rival demo_db demo_db 2 ''e9'' ''c2'' demo_report ''o1'' MANUAL (Some ''u1'')
     (manual_idempotency_key ''r1'' ''u1'' (moment_of 2)) None =
   Inr (demo_rival demo_db, demo_rival_row, False)"
proof -
  have "get_by_idempotency_key demo_db ''o1'' k = None" for k
    by (simp add: get_by_idempotency_key_def demo_db_def)
  moreover have "r_status demo_report = REPORT_ACTIVE" "r_workbook_id demo_report = Some ''b1''"
    by (simp_all add: demo_report_def)
  ultimately show ?thesis
    by (simp add: enqueue_def demo_worker_could_run [unfolded demo_db_def] insert_or_recover_def create_execution_def
        demo_rival_def demo_db_def demo_rival_row_def new_execution_def idempotency_slot_def
        get_by_idempotency_key_def manual_idempotency_key_def demo_minute)
qed

lemma enqueue_keyed_under_interference_witness:
  "get_by_idempotency_key (demo_rival demo_db) ''o1'' (manual_idempotency_key ''r1'' ''u1'' (moment_of 2))
     = Some (demo_rival_row)"
  using enqueue_keyed_under_interference [OF demo_race] by blast

lemma run_now_request_Inr:
  assumes "run_now_request cfg d now i c rid org user = (d1, Inr (e, created))"
  obtains r where "get_report d rid org = Inr r" "r_id r = rid"
    "enqueue cfg id d d now i c r org MANUAL (Some user)
       (manual_idempotency_key rid user (moment_of now)) None = Inr (d1, e, created)"
proof -
  obtain r where r: "get_report d rid org = Inr r"
    and e: "enqueue cfg id d d now i c r org MANUAL (Some user)
       (manual_idempotency_key (r_id r) user (moment_of now)) None = Inr (d1, e, created)"
    using assms
    by (auto simp: run_now_request_def run_now_def get_db_def flushed_def bind_result_Inr_iff
        split: sum.splits)
  moreover have "r_id r = rid"
    using r by (auto simp: get_report_def report_by_id_def dest: find_SomeD split: option.splits if_splits)
  ultimately show ?thesis using that by auto
qed

lemma enqueue_reports:
  assumes "enqueue cfg id d d now i c r org trigger user key sched = Inr (d', e, created)"
  shows "db_reports d' = db_reports d"
  using assms
  by (auto simp: enqueue_def bind_result_Inr_iff insert_or_recover_def
      dest: create_execution_InrD(2) split: if_splits option.splits sum.splits)

theorem run_now_idempotent:
  assumes "run_now_request cfg d now i c rid org user = (d1, Inr (e, created))"
    and "minute_bucket (moment_of now') = minute_bucket (moment_of now)"
  shows "run_now_request cfg d1 now' i' c' rid org user = (d1, Inr (e, False))"
proof -
  obtain r where r: "get_report d rid org = Inr r" "r_id r = rid"
    and en: "enqueue cfg id d d now i c r org MANUAL (Some user)
       (manual_idempotency_key rid user (moment_of now)) None = Inr (d1, e, created)"
    using assms(1) by (rule run_now_request_Inr)
  have key: "manual_idempotency_key rid user (moment_of now') =
      manual_idempotency_key rid user (moment_of now)"
    using assms(2) by (simp add: manual_idempotency_key_def)
  have "get_report d1 rid org = Inr r"
    using r(1) enqueue_reports [OF en] by (simp add: get_report_def report_by_id_def)
  moreover note enqueue_keyed_row [OF en]
  ultimately show ?thesis
    using r(2) by (simp add: run_now_request_def run_now_def enqueue_def key get_db_def flushed_def)
qed

lemma run_now_idempotent_witness:
  "run_now_request default_settings demo_queued (seconds 30) ''e2'' ''c2'' ''r1'' ''o1'' ''u1'' =
     (demo_queued, Inr (hd (db_executions demo_queued), False))"
proof (rule run_now_idempotent)
  show "run_now_request default_settings demo_db 0 ''e1'' ''c1'' ''r1'' ''o1'' ''u1'' =
      (demo_queued, Inr (hd (db_executions demo_queued), True))"
    by code_simp
  show "minute_bucket (moment_of (seconds 30)) = minute_bucket (moment_of 0)"
    by code_simp
qed

section \<open>Claim\<close>

lemma claim_job_Some:
  assumes "claim_job cfg mint found now db_now locked d w = (d', Inr (Some (e, op)))"
  obtains d1 n where
    "reap_stale_executions cfg mint now db_now d (Some (w_organization_id w)) = Inr (d1, n)"
    "claim_after_reap cfg now locked d1 w = (d', Some e)"
    "claim_response found d' w e = Inr (e, op)"
  using assms
  by (fastforce simp: claim_job_def get_db_def flushed_def bind_result_Inr_iff claim_response_def
      elim!: claim_next_Inr split: sum.splits option.splits)

lemma claimable_update_execution [simp]:
  "claimable (update_execution d e') org wid fs now e = claimable d org wid fs now e"
  by (simp add: claimable_def row_simps)

lemma claim_after_reap_Some:
  assumes ok: "table_ok d" and c: "claim_after_reap cfg now locked d w = (d', Some e)"
  obtains e0 where "e0 \<in> set (db_executions d)" "e_status e0 = QUEUED"
    "claim_candidate d locked (w_organization_id w) (w_id w)
       (supported_formats (capabilities_of w)) now = Some e0"
    "e = e0\<lparr>e_status := ASSIGNED, e_worker_id := Some (w_id w), e_assigned_at := Some now,
         e_lease_expires_at := Some (now + seconds (REPORT_EXECUTION_LEASE_SECONDS cfg))\<rparr>"
    "d' = update_execution d e" "{EXCEL, PAFE_AUTOMATION} \<subseteq> capabilities_of w"
  using c
proof (cases rule: claim_after_reap_cases)
  case (claimed e0 e')
  have e0: "e0 \<in> set (db_executions d)" "e_status e0 = QUEUED"
    using claim_candidate_SomeD [OF claimed(1)] by (auto simp: claimable_def)
  have "e_id e' = e_id e0" using claimed(2) by simp
  moreover have "execution_by_id d (e_id e0) \<noteq> None"
    using e0(1) execution_by_id_iff [OF table_ok_executions_ok [OF ok]] by fastforce
  ultimately have "execution_by_id d' (e_id e0) = Some e'"
    using execution_by_id_update [of d e'] claimed(3) by simp
  then have "e = e'" using claimed(4) by simp
  with claimed e0 that show ?thesis by metis
qed simp

lemma claim_candidate_formats:
  "claim_candidate d locked org wid fs now = Some e \<Longrightarrow>
     \<exists>r. report_by_id d (e_report_id e) = Some r \<and> (r_worker_id r = None \<or> r_worker_id r = Some wid) \<and>
         set (r_output_formats r) \<subseteq> set fs \<and>
         e_organization_id e = org \<and> e_available_at e \<le> now \<and> e_id e \<notin> set locked"
  using claim_candidate_SomeD [of d locked org wid fs now e]
  by (auto simp: claimable_def split: option.splits)

lemma claimed_row:
  assumes "table_ok d"
    and "claim_job cfg mint found now db_now locked d w = (d', Inr (Some (e, op)))"
  shows "e \<in> set (db_executions d') \<and> e_status e = ASSIGNED \<and> e_worker_id e = Some (w_id w) \<and>
     e_lease_expires_at e = Some (now + seconds (REPORT_EXECUTION_LEASE_SECONDS cfg)) \<and>
     e_organization_id e = w_organization_id w \<and> e_available_at e \<le> now \<and> e_id e \<notin> set locked \<and>
     {EXCEL, PAFE_AUTOMATION} \<subseteq> capabilities_of w \<and>
     (\<exists>r. report_by_id d' (e_report_id e) = Some r \<and>
        (r_worker_id r = None \<or> r_worker_id r = Some (w_id w)) \<and>
        set (r_output_formats r) \<subseteq> set (supported_formats (capabilities_of w)) \<and>
        operation_for_report r = Inr op) \<and>
     (\<forall>x \<in> set (db_executions d').
        claimable d' (w_organization_id w) (w_id w) (supported_formats (capabilities_of w)) now x \<and>
        e_id x \<notin> set locked \<longrightarrow>
        e_available_at e < e_available_at x \<or>
        (e_available_at e = e_available_at x \<and> e_queued_at e \<le> e_queued_at x))"
proof -
  obtain d1 n where r: "reap_stale_executions cfg mint now db_now d (Some (w_organization_id w)) = Inr (d1, n)"
    and c: "claim_after_reap cfg now locked d1 w = (d', Some e)"
    and resp: "claim_response found d' w e = Inr (e, op)"
    using assms(2) by (rule claim_job_Some)
  have ok1: "table_ok d1"
    using reap_stale_executions_advances [OF assms(1) r] by (rule advances_table_ok)
  obtain e0 where e0: "e0 \<in> set (db_executions d1)" "e_status e0 = QUEUED"
    and cand: "claim_candidate d1 locked (w_organization_id w) (w_id w)
       (supported_formats (capabilities_of w)) now = Some e0"
    and e: "e = e0\<lparr>e_status := ASSIGNED, e_worker_id := Some (w_id w), e_assigned_at := Some now,
         e_lease_expires_at := Some (now + seconds (REPORT_EXECUTION_LEASE_SECONDS cfg))\<rparr>"
    and d': "d' = update_execution d1 e" and caps: "{EXCEL, PAFE_AUTOMATION} \<subseteq> capabilities_of w"
    using ok1 c by (rule claim_after_reap_Some)
  have "e \<in> set (db_executions d')"
    unfolding d' using e0 e by (auto simp: in_update_execution)
  moreover have "e_available_at e < e_available_at x \<or>
        (e_available_at e = e_available_at x \<and> e_queued_at e \<le> e_queued_at x)"
    if x: "x \<in> set (db_executions d')" "e_id x \<notin> set locked"
      "claimable d' (w_organization_id w) (w_id w) (supported_formats (capabilities_of w)) now x" for x
  proof -
    have "x \<noteq> e" using x(3) e by (auto simp: claimable_def)
    then have "x \<in> set (db_executions d1)" using x(1) unfolding d' by (auto simp: in_update_execution)
    then show ?thesis
      using claim_candidate_oldest [OF cand] x(2,3) e unfolding d' by simp
  qed
  moreover obtain rep where "report_by_id d' (e_report_id e) = Some rep" "operation_for_report rep = Inr op"
    using resp by (auto simp: claim_response_def bind_result_Inr_iff get_report_for_execution_def
        split: option.splits if_splits)
  ultimately show ?thesis
    using claim_candidate_formats [OF cand] caps e d' by (auto simp: row_simps)
qed

text \<open>
  C19. A successful claim returns an execution of the worker's own organization that was
  available, unlocked, not pinned to another worker and in formats the worker supports; it
  is assigned to the worker with a fresh lease, and no other claimable execution is older in
  (available_at, queued_at).
\<close>

theorem claim_hands_out_the_oldest_eligible:
  assumes "table_ok d"
    and "claim_job cfg mint found now db_now locked d w = (d', Inr (Some (e, op)))"
  shows "e \<in> set (db_executions d') \<and> e_status e = ASSIGNED \<and> e_worker_id e = Some (w_id w) \<and>
     e_lease_expires_at e = Some (now + seconds (REPORT_EXECUTION_LEASE_SECONDS cfg)) \<and>
     e_organization_id e = w_organization_id w \<and> e_available_at e \<le> now \<and> e_id e \<notin> set locked \<and>
     {EXCEL, PAFE_AUTOMATION} \<subseteq> capabilities_of w \<and>
     (\<exists>r. report_by_id d' (e_report_id e) = Some r \<and>
        (r_worker_id r = None \<or> r_worker_id r = Some (w_id w)) \<and>
        set (r_output_formats r) \<subseteq> set (supported_formats (capabilities_of w)) \<and>
        operation_for_report r = Inr op) \<and>
     (\<forall>x \<in> set (db_executions d').
        claimable d' (w_organization_id w) (w_id w) (supported_formats (capabilities_of w)) now x \<and>
        e_id x \<notin> set locked \<longrightarrow>
        e_available_at e < e_available_at x \<or>
        (e_available_at e = e_available_at x \<and> e_queued_at e \<le> e_queued_at x))"
  using assms by (rule claimed_row)

lemma claim_hands_out_the_oldest_eligible_witness:
  "\<exists>e \<in> set (db_executions demo_claimed). e_status e = ASSIGNED \<and> e_worker_id e = Some ''w1''"
proof -
  obtain e op where "claim_job default_settings id (\<lambda>_ _. True) (seconds 5) (seconds 5) []
      demo_queued demo_worker = (demo_claimed, Inr (Some (e, op)))"
    using claimed_oneD [OF demo_claim_one] by (auto simp: demo_claimed_def)
  from claim_hands_out_the_oldest_eligible [OF reachable_table_ok [OF demo_queued_reachable] this]
  show ?thesis by (auto simp: demo_worker_def)
qed

lemma claim_status_at_start:
  assumes ok: "table_ok d" and c: "claim_job cfg mint found now db_now locked d w = (d', Inr (Some (e, op)))"
    and x: "x \<in> set (db_executions d)" "e_status x \<noteq> QUEUED"
  shows "e_id e \<noteq> e_id x"
proof
  assume eq: "e_id e = e_id x"
  obtain d1 n where r: "reap_stale_executions cfg mint now db_now d (Some (w_organization_id w)) = Inr (d1, n)"
    and c': "claim_after_reap cfg now locked d1 w = (d', Some e)"
    using c by (rule claim_job_Some)
  note adv = reap_stale_executions_advances [OF ok r]
  have ok1: "table_ok d1" using adv by (rule advances_table_ok)
  obtain e0 where e0: "e0 \<in> set (db_executions d1)" "e_status e0 = QUEUED" "e_id e = e_id e0"
    using ok1 c' by (rule claim_after_reap_Some) auto
  obtain x1 where x1: "x1 \<in> set (db_executions d1)" "row_advances x x1"
    using adv x(1) by (auto simp: advances_def)
  then have "e_id x1 = e_id x" "e_status x1 \<noteq> QUEUED"
    using x(2) service_move_queued by (auto simp: row_advances_def dest: same_run_id)
  then show False
    using executions_ok_unique [OF table_ok_executions_ok [OF ok1] e0(1) x1(1)] e0 eq by auto
qed

text \<open>
  C1. An execution is handed to at most one worker, ever: after claim_job has returned an
  execution, no later claim by any worker, in any state the service can reach from there,
  returns the same execution again.
\<close>

theorem execution_claimed_at_most_once:
  assumes "table_ok d"
    and first_claim: "claim_job cfg mint found now db_now locked d w = (d1, Inr (Some (e, op)))"
    and "(report_step cfg)\<^sup>*\<^sup>* d1 d2"
    and second_claim: "claim_job cfg mint' found' now' db_now' locked' d2 w' = (d3, Inr (Some (e', op')))"
  shows "e_id e' \<noteq> e_id e"
proof -
  have "report_step cfg d d1"
    using report_step.claim [of cfg d mint found now db_now locked w] first_claim by simp
  then have ok1: "table_ok d1"
    using assms(1) by (blast intro: advances_table_ok report_step_advances)
  have e: "e \<in> set (db_executions d1)" "e_status e = ASSIGNED"
    using claimed_row [OF assms(1) first_claim] by auto
  have adv: "advances d1 d2" using assms(3) ok1 by (rule report_steps_advance)
  then obtain e2 where e2: "e2 \<in> set (db_executions d2)" "row_advances e e2"
    using e(1) by (auto simp: advances_def)
  then have "e_id e2 = e_id e" "e_status e2 \<noteq> QUEUED"
    using e(2) service_move_queued [of ASSIGNED]
    by (auto simp: row_advances_def dest: same_run_id simp del: rtranclp.intros)
  then show ?thesis
    using claim_status_at_start [OF advances_table_ok [OF adv] second_claim e2(1)] by simp
qed

lemma execution_claimed_at_most_once_witness:
  "\<exists>e op e' op'.
     claim_job default_settings id (\<lambda>_ _. True) (seconds 5) (seconds 5) [] demo_queued demo_worker
       = (demo_claimed, Inr (Some (e, op))) \<and>
     claim_job default_settings id (\<lambda>_ _. True) (seconds 100) (seconds 100) [] demo_failed demo_worker
       = (demo_reclaimed, Inr (Some (e', op'))) \<and> e_id e' \<noteq> e_id e"
proof -
  obtain e op where a: "claim_job default_settings id (\<lambda>_ _. True) (seconds 5) (seconds 5) []
      demo_queued demo_worker = (demo_claimed, Inr (Some (e, op)))"
    using claimed_oneD [OF demo_claim_one] by (auto simp: demo_claimed_def)
  obtain e' op' where b: "claim_job default_settings id (\<lambda>_ _. True) (seconds 100) (seconds 100) []
      demo_failed demo_worker = (demo_reclaimed, Inr (Some (e', op')))"
    using claimed_oneD [OF demo_reclaim_one] by (auto simp: demo_reclaimed_def)
  have "e_id e' \<noteq> e_id e"
    by (rule execution_claimed_at_most_once [OF reachable_table_ok [OF demo_queued_reachable] a
          r_into_rtranclp [of "report_step default_settings", OF demo_fail_step] b])
  with a b show ?thesis by blast
qed

section \<open>The reaper\<close>

definition mint_fresh :: "(uuid \<Rightarrow> uuid) \<Rightarrow> db \<Rightarrow> bool" where
  "mint_fresh mint d \<longleftrightarrow> inj mint \<and> (\<forall>e \<in> set (db_executions d). \<forall>i. mint i \<noteq> e_id e)"

lemma retry_of_id [simp]: "e_id (retry_of cfg now i e) = i"
  by (simp add: retry_of_def)

lemma fail_execution_total:
  assumes "can_transition (e_status e) target"
  shows "\<exists>d' e'. fail_execution cfg now d e None c target t m = Inr (d', e')"
  using assms by (simp add: fail_execution_def bind_result_def assert_transition_def ensure_def Let_def)

lemma create_retry_total:
  assumes "can_transition (e_status e) RETRYING" "\<forall>x \<in> set (db_executions d). e_id x \<noteq> i"
  shows "\<exists>d' res. create_retry cfg id d d now i e = Inr (d', res)"
proof (cases "can_retry e \<and> get_by_idempotency_key d (e_organization_id e)
     (retry_idempotency_key (e_idempotency_key e) (e_attempt e + 1)) = None")
  case True
  then have "\<forall>x \<in> set (db_executions d). idempotency_slot x \<noteq> idempotency_slot (retry_of cfg now i e)"
    by (auto simp: get_by_idempotency_key_def find_None_iff idempotency_slot_def)
  then have "create_execution d (retry_of cfg now i e) =
      Inr (d\<lparr>db_executions := db_executions d @ [retry_of cfg now i e]\<rparr>)"
    using assms(2) by (auto simp: create_execution_def)
  then show ?thesis
    using assms(1) True
    by (simp add: create_retry_def insert_or_recover_def Let_def assert_transition_def ensure_def
        bind_result_def)
next
  case False
  then show ?thesis
    by (auto simp: create_retry_def Let_def split: option.splits)
qed

lemma create_retry_rows:
  assumes r: "create_retry cfg id d d now i e = Inr (d', res)" and e: "e_lease_expires_at e = None"
    and x: "x \<in> set (db_executions d')"
  shows "x \<in> set (db_executions d) \<or>
     (e_lease_expires_at x = None \<and> (e_id x = e_id e \<or> e_id x = i))"
  using r
proof (cases rule: create_retry_cases)
  case (created d1)
  have "e_lease_expires_at (retry_of cfg now i e) = None" by (simp add: retry_of_def)
  with created x e create_execution_InrD(1) [OF created(3)] show ?thesis
    by (auto simp: in_update_execution)
qed (use x in simp_all)

lemma reap_one:
  assumes ok: "table_ok d" and e: "e \<in> set (db_executions d)" "lease_expired now e"
    and fresh: "\<forall>x \<in> set (db_executions d). e_id x \<noteq> i"
  obtains d1 e1 d2 res where
    "fail_execution cfg now d e None WORKER_LEASE_EXPIRED TIMED_OUT None m = Inr (d1, e1)"
    "create_retry cfg id d1 d1 now i e1 = Inr (d2, res)" "e_id e1 = e_id e" "table_ok d2"
    "\<And>x. x \<in> set (db_executions d2) \<Longrightarrow>
       (x \<in> set (db_executions d) \<and> e_id x \<noteq> e_id e) \<or>
       (e_lease_expires_at x = None \<and> (e_id x = e_id e \<or> e_id x = i))"
    "\<And>x. x \<in> set (db_executions d) \<Longrightarrow> e_id x \<noteq> e_id e \<Longrightarrow> x \<in> set (db_executions d2)"
proof -
  have "can_transition (e_status e) TIMED_OUT"
    using e(2) by (auto simp: lease_expired_def LEASED_EXECUTION_STATUSES_def can_transition_cases)
  then obtain d1 e1 where f:
    "fail_execution cfg now d e None WORKER_LEASE_EXPIRED TIMED_OUT None m = Inr (d1, e1)"
    using fail_execution_total by blast
  note fl = fail_execution_fields [OF f] and d1 = fail_execution_Inr(1) [OF f]
  have a: "advances d d1" "e1 \<in> set (db_executions d1)"
    using fail_execution_advances [OF ok e(1) f] by simp_all
  have "\<forall>x \<in> set (db_executions d1). e_id x \<noteq> i"
    using fresh e(1) fl(1) unfolding d1 by (auto simp: in_update_execution)
  moreover have "can_transition (e_status e1) RETRYING"
    by (simp add: fl(2) can_transition_cases)
  ultimately obtain d2 res where r: "create_retry cfg id d1 d1 now i e1 = Inr (d2, res)"
    using create_retry_total by blast
  have ok2: "table_ok d2"
    using create_retry_advances [OF advances_table_ok [OF a(1)] a(2) r] by (rule advances_table_ok)
  have rows: "(x \<in> set (db_executions d) \<and> e_id x \<noteq> e_id e) \<or>
       (e_lease_expires_at x = None \<and> (e_id x = e_id e \<or> e_id x = i))"
    if "x \<in> set (db_executions d2)" for x
    using create_retry_rows [OF r fl(6) that] fl(1,6) unfolding d1 by (auto simp: in_update_execution)
  have keep: "x \<in> set (db_executions d2)" if "x \<in> set (db_executions d)" "e_id x \<noteq> e_id e" for x
    using create_retry_keeps_others [OF r, of x] that fl(1) unfolding d1
    by (auto simp: in_update_execution)
  show ?thesis using that [OF f r fl(1) ok2] rows keep by blast
qed

lemma reap_expired_total:
  assumes "table_ok d" "\<forall>e \<in> set es. e \<in> set (db_executions d) \<and> lease_expired now e"
    and "distinct (map e_id es)" "inj mint"
    and "\<forall>e \<in> set es. \<forall>x \<in> set (db_executions d). e_id x \<noteq> mint (e_id e)"
  shows "\<exists>d'. reap_expired cfg mint now es d = Inr d' \<and> table_ok d' \<and>
     (\<forall>x \<in> set (db_executions d'). e_lease_expires_at x \<noteq> None \<longrightarrow>
        x \<in> set (db_executions d) \<and> e_id x \<notin> e_id ` set es)"
  using assms
proof (induction es arbitrary: d)
  case (Cons e es)
  let ?m = "Some [(''reaped'', JBool True), (''lease_expired_at'',
     case e_lease_expires_at e of None \<Rightarrow> JNull | Some l \<Rightarrow> JStr (isoformat_utc (moment_of l)))]"
  have e: "e \<in> set (db_executions d)" "lease_expired now e"
    and fr: "\<forall>x \<in> set (db_executions d). e_id x \<noteq> mint (e_id e)"
    using Cons.prems by simp_all
  obtain d1 e1 d2 res where
    f: "fail_execution cfg now d e None WORKER_LEASE_EXPIRED TIMED_OUT None ?m = Inr (d1, e1)"
    and r: "create_retry cfg id d1 d1 now (mint (e_id e)) e1 = Inr (d2, res)"
    and id1: "e_id e1 = e_id e" and ok2: "table_ok d2"
    and rows: "\<And>x. x \<in> set (db_executions d2) \<Longrightarrow>
       (x \<in> set (db_executions d) \<and> e_id x \<noteq> e_id e) \<or>
       (e_lease_expires_at x = None \<and> (e_id x = e_id e \<or> e_id x = mint (e_id e)))"
    and keep: "\<And>x. x \<in> set (db_executions d) \<Longrightarrow> e_id x \<noteq> e_id e \<Longrightarrow> x \<in> set (db_executions d2)"
    using reap_one [OF Cons.prems(1) e fr, of cfg ?m] by metis
  have other: "e_id x \<noteq> e_id e" if "x \<in> set es" for x
    using Cons.prems(3) that by (auto simp: image_iff)
  have es: "\<forall>x \<in> set es. x \<in> set (db_executions d2) \<and> lease_expired now x"
    using Cons.prems(2) other keep by simp
  have fr2: "\<forall>y \<in> set es. \<forall>x \<in> set (db_executions d2). e_id x \<noteq> mint (e_id y)"
  proof (intro ballI)
    fix y x assume y: "y \<in> set es" and x: "x \<in> set (db_executions d2)"
    have "mint (e_id e) \<noteq> mint (e_id y)" using other [OF y] Cons.prems(4) by (metis injD)
    moreover have "e_id e \<noteq> mint (e_id y)" using Cons.prems(5) y e(1) by simp
    moreover have "e_id z \<noteq> mint (e_id y)" if "z \<in> set (db_executions d)" for z
      using Cons.prems(5) y that by simp
    ultimately show "e_id x \<noteq> mint (e_id y)" using rows [OF x] by metis
  qed
  obtain d' where d': "reap_expired cfg mint now es d2 = Inr d'" "table_ok d'"
    and post: "\<forall>x \<in> set (db_executions d'). e_lease_expires_at x \<noteq> None \<longrightarrow>
        x \<in> set (db_executions d2) \<and> e_id x \<notin> e_id ` set es"
    using Cons.IH [OF ok2 es _ Cons.prems(4) fr2] Cons.prems(3) by auto
  have "x \<in> set (db_executions d) \<and> e_id x \<notin> e_id ` set (e # es)"
    if "x \<in> set (db_executions d')" "e_lease_expires_at x \<noteq> None" for x
  proof -
    have "x \<in> set (db_executions d2)" "e_id x \<notin> e_id ` set es" using post that by blast+
    then show ?thesis using rows [of x] that(2) by auto
  qed
  moreover have "reap_expired cfg mint now (e # es) d = reap_expired cfg mint now es d2"
    using f r id1 by simp
  ultimately show ?case using d' by auto
qed simp

lemma reap_unclaimed_total:
  assumes "table_ok d" "\<forall>e \<in> set es. e \<in> set (db_executions d) \<and> e_status e = QUEUED"
    and "distinct (map e_id es)"
  shows "\<exists>d'. reap_unclaimed cfg now es d = Inr d' \<and> table_ok d' \<and>
     (\<forall>x \<in> set (db_executions d'). e_lease_expires_at x \<noteq> None \<longrightarrow> x \<in> set (db_executions d))"
  using assms
proof (induction es arbitrary: d)
  case (Cons e es)
  let ?m = "Some [(''reaped'', JBool True), (''never_claimed'', JBool True)]"
  have e: "e \<in> set (db_executions d)" "can_transition (e_status e) TIMED_OUT"
    using Cons.prems(2) by (simp_all add: can_transition_cases)
  obtain d1 e1 where f: "fail_execution cfg now d e None WORKER_OFFLINE TIMED_OUT None ?m = Inr (d1, e1)"
    using fail_execution_total [OF e(2)] by blast
  note d1 = fail_execution_Inr(1) [OF f] and fl = fail_execution_fields [OF f]
  have ok1: "table_ok d1"
    using fail_execution_advances(1) [OF Cons.prems(1) e(1) f] by (simp add: advances_table_ok)
  have "\<forall>x \<in> set es. x \<in> set (db_executions d1) \<and> e_status x = QUEUED"
    using Cons.prems(2,3) fl(1) unfolding d1 by (auto simp: in_update_execution image_iff)
  then obtain d' where "reap_unclaimed cfg now es d1 = Inr d'" "table_ok d'"
    "\<forall>x \<in> set (db_executions d'). e_lease_expires_at x \<noteq> None \<longrightarrow> x \<in> set (db_executions d1)"
    using Cons.IH [OF ok1] Cons.prems(3) by auto
  moreover have "reap_unclaimed cfg now (e # es) d = reap_unclaimed cfg now es d1"
    using f by simp
  ultimately show ?case using fl(6) unfolding d1 by (auto simp: in_update_execution)
qed simp

text \<open>
  C32. With at most 50 lapsed leases and fresh ids for the retries, the reaper task never
  raises and afterwards no execution holds a lapsed lease.
\<close>

theorem reaper_clears_lapsed_leases:
  assumes ok: "table_ok d" and fresh: "mint_fresh mint d"
    and few: "length (filter (lease_expired now) (db_executions d)) \<le> 50"
  shows "\<exists>d' n. reaper_task cfg mint now db_now d = (d', Inr n) \<and> table_ok d' \<and>
     (\<forall>x \<in> set (db_executions d'). \<not> lease_expired now x)"
proof -
  let ?es = "find_expired_leases d None now 50"
  have es: "?es = filter (lease_expired now) (db_executions d)"
    using few by (simp add: find_expired_leases_def in_organization_def)
  have all: "\<forall>e \<in> set ?es. e \<in> set (db_executions d) \<and> lease_expired now e" by (simp add: es)
  have dist: "distinct (map e_id ?es)"
    using find_rows_ok(2) [OF table_ok_executions_ok [OF ok] find_expired_leases_def] .
  obtain d1 where r: "reap_expired cfg mint now ?es d = Inr d1" "table_ok d1"
    "\<forall>x \<in> set (db_executions d1). e_lease_expires_at x \<noteq> None \<longrightarrow>
        x \<in> set (db_executions d) \<and> e_id x \<notin> e_id ` set ?es"
    using reap_expired_total [OF ok all dist] fresh all unfolding mint_fresh_def by metis
  note stale = find_rows_ok [OF table_ok_executions_ok [OF r(2)] find_stale_queued_def, of None db_now 50]
  obtain d2 where u: "reap_unclaimed cfg now (find_stale_queued d1 None db_now 50) d1 = Inr d2" "table_ok d2"
    "\<forall>x \<in> set (db_executions d2). e_lease_expires_at x \<noteq> None \<longrightarrow> x \<in> set (db_executions d1)"
    using reap_unclaimed_total [OF r(2) _ stale(2)] stale(1) unfolding stale_queued_def by blast
  have "\<not> lease_expired now x" if x: "x \<in> set (db_executions d2)" for x
  proof
    assume exp: "lease_expired now x"
    then have "e_lease_expires_at x \<noteq> None" by (auto simp: lease_expired_def split: option.splits)
    then have "x \<in> set (db_executions d)" "e_id x \<notin> e_id ` set ?es" using x u(3) r(3) by auto
    with exp show False unfolding es by auto
  qed
  moreover have "reaper_task cfg mint now db_now d =
      (d2, Inr (length ?es + length (find_stale_queued d1 None db_now 50)))"
    using r u by (simp add: reaper_task_def reap_stale_executions_def get_db_def flushed_def)
  ultimately show ?thesis using u(2) by blast
qed

lemma reaper_clears_lapsed_leases_witness:
  "\<exists>d' n. reaper_task default_settings (\<lambda>i. ''retry-'' @ i) (seconds 500) (seconds 500) demo_claimed
       = (d', Inr n) \<and> (\<forall>x \<in> set (db_executions d'). \<not> lease_expired (seconds 500) x)"
proof -
  have "length (db_executions demo_claimed) = 1"
    using arg_cong [OF demo_claimed_ids, of length] by simp
  then have "length (filter (lease_expired (seconds 500)) (db_executions demo_claimed)) \<le> 50"
    using length_filter_le [of "lease_expired (seconds 500)" "db_executions demo_claimed"] by simp
  moreover have "mint_fresh (\<lambda>i. ''retry-'' @ i) demo_claimed"
    using demo_claimed_ids by (auto simp: mint_fresh_def inj_def map_eq_Cons_conv)
  ultimately show ?thesis
    using reaper_clears_lapsed_leases [OF reachable_table_ok [OF demo_claimed_reachable]] by blast
qed

section \<open>Deadlines that do not bite\<close>

definition run_start :: "execution \<Rightarrow> time option" where
  "run_start e = (case e_started_at e of Some s \<Rightarrow> Some s | None \<Rightarrow> e_assigned_at e)"

theorem overdue_heartbeat_is_rolled_back:
  assumes "owned_execution d i w = Inr e" "e_status e \<in> {ASSIGNED, RUNNING}"
    and "run_start e = Some s" "s + seconds (e_timeout_seconds e) < now"
  shows "report_progress cfg now d i w step = (d, Inl (conflict_code EXECUTION_TIMEOUT)) \<and>
     (\<exists>e' \<in> set (db_executions (fst (extend_lease cfg now d e w step))).
        e_id e' = i \<and> e_status e' = TIMED_OUT \<and> e_lease_expires_at e' = None)"
proof -
  note own = owned_execution_InrD [OF assms(1)]
  let ?m = "Some [(''timeout_seconds'', JInt (e_timeout_seconds e)),
                  (''step'', case step of None \<Rightarrow> JNull | Some s \<Rightarrow> JStr s)]"
  have owned: "assert_owned_by e w = Inr ()"
    using own by (simp add: assert_owned_by_def)
  have tr: "can_transition (e_status e) TIMED_OUT"
    using assms(2) by (auto simp: can_transition_cases)
  obtain d' e' where f: "fail_execution cfg now d e (Some w) EXECUTION_TIMEOUT TIMED_OUT None ?m = Inr (d', e')"
    using owned tr by (simp add: fail_execution_def assert_transition_def Let_def)
  have overdue: "(case run_start e of None \<Rightarrow> False | Some s \<Rightarrow> s + seconds (e_timeout_seconds e) < now)"
    using assms(3,4) by simp
  then have x: "extend_lease cfg now d e w step = (d', Inl (conflict_code EXECUTION_TIMEOUT))"
    using owned assms(2) f by (auto simp: extend_lease_def Let_def run_start_def)
  have "e' \<in> set (db_executions d')"
    unfolding fail_execution_Inr(1) [OF f] using own(1) fail_execution_fields(1) [OF f]
    by (auto simp: in_update_execution)
  then show ?thesis
    using x assms(1) own(2) fail_execution_fields [OF f] by (auto simp: report_progress_def get_db_def)
qed

lemma demo_owned:
  "case owned_execution demo_claimed ''e1'' demo_worker of Inl _ \<Rightarrow> False
   | Inr e \<Rightarrow> e_status e = ASSIGNED \<and> run_start e = Some (seconds 5) \<and> e_timeout_seconds e = 1200"
  by code_simp

lemma overdue_heartbeat_is_rolled_back_witness:
  "report_progress default_settings (seconds 5000) demo_claimed ''e1'' demo_worker (Some ''refresh'') =
     (demo_claimed, Inl (conflict_code EXECUTION_TIMEOUT))"
proof -
  obtain e where e: "owned_execution demo_claimed ''e1'' demo_worker = Inr e" "e_status e = ASSIGNED"
    "run_start e = Some (seconds 5)" "e_timeout_seconds e = 1200"
    using demo_owned by (auto split: sum.splits)
  then show ?thesis
    using overdue_heartbeat_is_rolled_back [OF e(1) _ e(3), of "seconds 5000" default_settings "Some ''refresh''"]
    by (simp add: seconds_def)
qed

section \<open>A retry that waits longer than it may\<close>

lemma reap_expired_length:
  "reap_expired cfg mint now es d = Inr d' \<Longrightarrow>
     length (db_executions d') \<le> length (db_executions d) + length es"
proof (induction es arbitrary: d)
  case (Cons e es)
  obtain d1 e1 d2 res m where f: "fail_execution cfg now d e None WORKER_LEASE_EXPIRED TIMED_OUT None m = Inr (d1, e1)"
    and r: "create_retry cfg id d1 d1 now (mint (e_id e1)) e1 = Inr (d2, res)"
    and rest: "reap_expired cfg mint now es d2 = Inr d'"
    using Cons.prems by (auto simp: bind_result_Inr_iff)
  have "length (db_executions d1) = length (db_executions d)"
    unfolding fail_execution_Inr(1) [OF f] using update_execution_keys by (metis length_map)
  moreover have "length (db_executions d2) \<le> length (db_executions d1) + 1"
    using r
  proof (cases rule: create_retry_cases)
    case (created d3)
    then have "length (db_executions d2) = length (db_executions d3)"
      using update_execution_keys by (metis length_map)
    then show ?thesis using create_execution_InrD(1) [OF created(3)] by simp
  qed simp_all
  ultimately show ?case using Cons.IH [OF rest] by simp
qed simp

lemma reap_unclaimed_closes:
  assumes "table_ok d" "reap_unclaimed cfg now es d = Inr d'"
    and "\<forall>e \<in> set es. e \<in> set (db_executions d)" "distinct (map e_id es)" "x \<in> set es"
  shows "\<exists>y \<in> set (db_executions d'). e_id y = e_id x \<and> e_status y \<noteq> QUEUED"
  using assms
proof (induction es arbitrary: d)
  case (Cons e es)
  obtain d1 e1 m where f: "fail_execution cfg now d e None WORKER_OFFLINE TIMED_OUT None m = Inr (d1, e1)"
    and rest: "reap_unclaimed cfg now es d1 = Inr d'"
    using Cons.prems(2) by (auto simp: bind_result_Inr_iff)
  note fl = fail_execution_fields [OF f] and d1 = fail_execution_Inr(1) [OF f]
  have a: "advances d d1" "e1 \<in> set (db_executions d1)"
    using fail_execution_advances [OF Cons.prems(1) _ f] Cons.prems(3) by simp_all
  have es: "\<forall>e \<in> set es. e \<in> set (db_executions d1)" "distinct (map e_id es)"
    using Cons.prems(3,4) fl(1) unfolding d1 by (auto simp: in_update_execution image_iff)
  show ?case
  proof (cases "x = e")
    case True
    have "advances d1 d'"
      using advances_table_ok [OF a(1)] rest es by (rule reap_unclaimed_advances)
    then obtain y where y: "y \<in> set (db_executions d')" "row_advances e1 y"
      using a(2) by (auto simp: advances_def)
    then have "e_id y = e_id e1" "e_status y \<noteq> QUEUED"
      using fl(2) service_move_queued [of TIMED_OUT] by (auto simp: row_advances_def dest: same_run_id)
    with y True fl(1) show ?thesis by auto
  next
    case False
    then show ?thesis
      using Cons.IH [OF advances_table_ok [OF a(1)] rest es] Cons.prems(5) by simp
  qed
qed simp

theorem slow_retry_is_never_claimed:
  assumes ok: "table_ok d" and e: "e \<in> set (db_executions d)"
    and slow: "e_queued_at e + seconds (e_timeout_seconds e) < e_available_at e"
    and few: "length (db_executions d) \<le> 25" and clock: "now \<le> db_now"
    and claim: "claim_job cfg mint found now db_now locked d w = (d', Inr (Some (c, op)))"
  shows "e_id c \<noteq> e_id e"
proof
  assume eq: "e_id c = e_id e"
  let ?org = "Some (w_organization_id w)"
  obtain d2 n where r: "reap_stale_executions cfg mint now db_now d ?org = Inr (d2, n)"
    and c: "claim_after_reap cfg now locked d2 w = (d', Some c)"
    using claim by (rule claim_job_Some)
  obtain d1 where x: "reap_expired cfg mint now (find_expired_leases d ?org now 50) d = Inr d1"
    and u: "reap_unclaimed cfg now (find_stale_queued d1 ?org db_now 50) d1 = Inr d2"
    using r by (rule reap_stale_executions_Inr)
  have a1: "advances d d1"
    using ok x find_rows_ok [OF table_ok_executions_ok [OF ok] find_expired_leases_def]
    by (blast intro: reap_expired_advances)
  note ok1 = advances_table_ok [OF a1]
  note ok2 = advances_table_ok [OF reap_stale_executions_advances [OF ok r]]
  obtain c0 where c0: "c0 \<in> set (db_executions d2)" "e_status c0 = QUEUED" "e_id c0 = e_id c"
    "e_available_at c0 \<le> now" "e_organization_id c0 = w_organization_id w"
    using ok2 c by (rule claim_after_reap_Some) (auto dest: claim_candidate_formats)
  obtain e1 where e1: "e1 \<in> set (db_executions d1)" "same_run e e1"
    using a1 e by (auto simp: advances_def row_advances_def)
  have a2: "advances d1 d2"
    using ok1 u find_rows_ok [OF table_ok_executions_ok [OF ok1] find_stale_queued_def]
    by (blast intro: reap_unclaimed_advances)
  obtain e2 where e2: "e2 \<in> set (db_executions d2)" "row_advances e1 e2"
    using a2 e1(1) by (auto simp: advances_def)
  have "e_id e2 = e_id c0"
    using e2(2) e1(2) c0(3) eq by (auto simp: row_advances_def dest!: same_run_id)
  then have e2_c0: "e2 = c0"
    using executions_ok_unique [OF table_ok_executions_ok [OF ok2] e2(1) c0(1)] by simp
  then have q1: "e_status e1 = QUEUED"
    using e2(2) c0(2) service_move_queued by (auto simp: row_advances_def)
  have times: "e_available_at e1 = e_available_at c0" "e_queued_at e1 = e_queued_at e"
    "e_timeout_seconds e1 = e_timeout_seconds e" "e_available_at e = e_available_at e1"
    "e_organization_id e1 = w_organization_id w"
    using e2(2) e1(2) c0(5) unfolding row_advances_def same_run_def e2_c0 by simp_all
  have stale: "stale_queued db_now e1"
    using q1 times slow c0(4) clock by (simp add: stale_queued_def)
  have "length (find_expired_leases d ?org now 50) \<le> length (db_executions d)"
    by (simp add: find_expired_leases_def min.coboundedI1)
  then have "length (db_executions d1) \<le> 50"
    using reap_expired_length [OF x] few by linarith
  then have "find_stale_queued d1 ?org db_now 50 =
      filter (\<lambda>e. stale_queued db_now e \<and> in_organization ?org e) (db_executions d1)"
    unfolding find_stale_queued_def by (intro take_all le_trans [OF length_filter_le])
  then have "e1 \<in> set (find_stale_queued d1 ?org db_now 50)"
    using e1(1) stale times(5) by (simp add: in_organization_def)
  then obtain y where y: "y \<in> set (db_executions d2)" "e_id y = e_id e1" "e_status y \<noteq> QUEUED"
    using reap_unclaimed_closes [OF ok1 u] find_rows_ok [OF table_ok_executions_ok [OF ok1] find_stale_queued_def]
    by blast
  have "y = c0"
    using executions_ok_unique [OF table_ok_executions_ok [OF ok2] y(1) c0(1)] y(2) e1(2) c0(3) eq
    by (simp add: same_run_id)
  with y(3) c0(2) show False by simp
qed

definition demo_parent :: execution where
  "demo_parent =
     (new_execution default_settings 0 ''e1'' ''c1'' demo_report ''o1'' MANUAL (Some ''u1'') ''k'' None)
       \<lparr>e_status := RETRYING, e_attempt := 2, e_timeout_seconds := 60, e_completed_at := Some 0,
        e_error_code := Some INTERNAL_ERROR, e_error_message := Some (message_for INTERNAL_ERROR),
        e_retry_class := Some (retry_class_for INTERNAL_ERROR)\<rparr>"

definition demo_slow :: db where
  "demo_slow = demo_db\<lparr>db_executions :=
     [demo_parent, retry_of default_settings 0 ''e2'' demo_parent,
      new_execution default_settings (seconds 200) ''e3'' ''c3'' demo_report ''o1'' MANUAL (Some ''u1'') ''j'' None]\<rparr>"

lemma demo_slow_ok: "table_ok demo_slow"
  by (simp add: table_ok_def executions_ok_def demo_slow_def demo_parent_def new_execution_def retry_of_def
      idempotency_slot_def lineage_ok_def replaced_by_def row_ok_def attempts_ok_def waiting_def
      released_def diagnosed_def retry_idempotency_key_def default_settings_def)

lemma demo_slow_claim:
  "claimed_one (claim_job default_settings id (\<lambda>_ _. True) (seconds 200) (seconds 200) [] demo_slow demo_worker)"
  by code_simp

lemma slow_retry_is_never_claimed_witness:
  "\<exists>d' c op. claim_job default_settings id (\<lambda>_ _. True) (seconds 200) (seconds 200) [] demo_slow demo_worker
      = (d', Inr (Some (c, op))) \<and> e_id c \<noteq> ''e2''"
proof -
  obtain d' c op where c: "claim_job default_settings id (\<lambda>_ _. True) (seconds 200) (seconds 200) []
      demo_slow demo_worker = (d', Inr (Some (c, op)))"
    using claimed_oneD [OF demo_slow_claim] by metis
  let ?e = "retry_of default_settings 0 ''e2'' demo_parent"
  have "e_queued_at ?e + seconds (e_timeout_seconds ?e) < e_available_at ?e"
    by (simp add: demo_parent_def retry_of_def backoff_seconds_def default_settings_def seconds_def)
  from slow_retry_is_never_claimed [OF demo_slow_ok _ this _ _ c]
  show ?thesis using c by (simp add: demo_slow_def)
qed

section \<open>Archiving\<close>

lemma report_by_id_update:
  "report_by_id d (r_id r) \<noteq> None \<Longrightarrow>
     report_by_id (update_report d r) i = (if i = r_id r then Some r else report_by_id d i)"
  by (simp add: report_by_id_def update_report_def find_upd_by_same find_upd_by_other)

theorem archived_report_still_queued_and_listed:
  assumes "archive_report d rid org = Inr (d', r)"
  shows "r_status r = REPORT_ARCHIVED \<and> r \<in> set (list_reports d' org) \<and>
     db_executions d' = db_executions d \<and>
     claimable d' org' wid fs now e = claimable d org' wid fs now e"
proof -
  obtain r0 where r0: "report_by_id d rid = Some r0" "r_organization_id r0 = org"
    and r: "r = r0\<lparr>r_status := REPORT_ARCHIVED\<rparr>" and d': "d' = update_report d r"
    using assms
    by (auto simp: archive_report_def set_report_status_def get_report_def bind_result_Inr_iff Let_def
        split: option.splits if_splits)
  have id: "r_id r = rid" and mem: "r0 \<in> set (db_reports d)"
    using r0(1) r by (auto simp: report_by_id_def dest: find_SomeD)
  have "r \<in> set (db_reports d')"
    using mem r id unfolding d' by (auto simp: update_report_def in_set_upd_by)
  moreover have "report_by_id d' i = (if i = rid then Some r else report_by_id d i)" for i
    unfolding d' using report_by_id_update [of d r i] id r0(1) by simp
  ultimately show ?thesis
    using r r0 d' by (simp add: list_reports_def claimable_def update_report_def)
qed

lemma archived_report_still_queued_and_listed_witness:
  "\<exists>d' r. archive_report demo_queued ''r1'' ''o1'' = Inr (d', r) \<and> r \<in> set (list_reports d' ''o1'') \<and>
     db_executions d' = db_executions demo_queued"
proof -
  have "db_reports demo_queued = [demo_report]"
    by code_simp
  then obtain d' r where a: "archive_report demo_queued ''r1'' ''o1'' = Inr (d', r)"
    by (simp add: archive_report_def set_report_status_def get_report_def report_by_id_def demo_report_def Let_def)
  from archived_report_still_queued_and_listed [OF a] a show ?thesis by blast
qed

end
