(* ===== verification/RateLimit.thy ===== *)
theory RateLimit
  imports Prelude
begin

text \<open>
  Request throttling, \<open>core/rate_limit.py\<close>: the sliding-window log kept in this
  process's memory, the same log kept in Redis by the script
  \<open>_SLIDING_WINDOW\<close>, the fallback between them, the two-window guard
  \<open>enforce\<close> and the address an IP window is keyed on. Timestamps and windows
  are reals (the code's floats, taken as exact). The Redis sorted set is the
  documented one: members ordered by score, then by member. \<open>PEXPIRE\<close>, which
  only lets Redis drop a key all of whose hits have aged out, is left out, and
  so are the log lines.
\<close>

section \<open>State\<close>

record limiter =
  WINDOWS :: "string \<rightharpoonup> real list"
  hits_since_sweep :: nat
  redis :: "string \<Rightarrow> (real \<times> string) list"

definition fresh_limiter :: limiter where
  "fresh_limiter = \<lparr>WINDOWS = Map.empty, hits_since_sweep = 0, redis = (\<lambda>_. [])\<rparr>"

record limit_settings =
  RATE_LIMIT_ENABLED :: bool
  RATE_LIMIT_WINDOW_SECONDS :: real
  AUTH_RATE_LIMIT_WINDOW_SECONDS :: real
  TRUSTED_PROXY_COUNT :: int
  UPSTASH :: bool

text \<open>
  What one call sees of its surroundings: the two clocks, whether Redis
  answers, whether it ran the script although its answer was lost, and the
  random member it would add.
\<close>

record surroundings =
  monotonic :: real
  wall :: real
  redis_up :: bool
  redis_ran :: bool
  nonce :: string

definition SWEEP_EVERY :: nat where
  "SWEEP_EVERY = 1000"

section \<open>The window in memory\<close>

definition hits_of :: "limiter \<Rightarrow> string \<Rightarrow> real list" where
  "hits_of st key = (case WINDOWS st key of None \<Rightarrow> [] | Some hits \<Rightarrow> hits)"

definition idle :: "limit_settings \<Rightarrow> real \<Rightarrow> real list \<Rightarrow> bool" where
  "idle cfg now hits \<longleftrightarrow>
     hits = [] \<or>
     now - last hits > max (RATE_LIMIT_WINDOW_SECONDS cfg) (AUTH_RATE_LIMIT_WINDOW_SECONDS cfg)"

definition sweep :: "limit_settings \<Rightarrow> real \<Rightarrow> limiter \<Rightarrow> limiter" where
  "sweep cfg now st =
     st\<lparr>WINDOWS := (\<lambda>key. case WINDOWS st key of
                       None \<Rightarrow> None
                     | Some hits \<Rightarrow> if idle cfg now hits then None else Some hits)\<rparr>"

text \<open>The full window with no hit in it (a limit of zero) is the IndexError of \<open>hits[0]\<close>.\<close>

definition check_memory ::
  "string \<Rightarrow> int \<Rightarrow> real \<Rightarrow> real \<Rightarrow> limiter \<Rightarrow> limiter \<times> real option result" where
  "check_memory key limit now window st =
     (let hits = dropWhile (\<lambda>h. now - h \<ge> window) (hits_of st key) in
      if int (length hits) \<ge> limit
      then (st\<lparr>WINDOWS := (WINDOWS st)(key \<mapsto> hits)\<rparr>,
            case hits of [] \<Rightarrow> Inl OtherError | h # _ \<Rightarrow> Inr (Some (max 0 (window - (now - h)))))
      else (st\<lparr>WINDOWS := (WINDOWS st)(key \<mapsto> hits @ [now])\<rparr>, Inr None))"

section \<open>The window in Redis\<close>

definition zremrangebyscore :: "real \<Rightarrow> real \<Rightarrow> (real \<times> string) list \<Rightarrow> (real \<times> string) list" where
  "zremrangebyscore lo hi z = filter (\<lambda>(s, m). \<not> (lo \<le> s \<and> s \<le> hi)) z"

fun zinsert :: "real \<Rightarrow> string \<Rightarrow> (real \<times> string) list \<Rightarrow> (real \<times> string) list" where
  "zinsert s m [] = [(s, m)]"
| "zinsert s m ((s', m') # z) =
     (if s < s' \<or> (s = s' \<and> m < m') then (s, m) # (s', m') # z else (s', m') # zinsert s m z)"

definition zadd :: "real \<Rightarrow> string \<Rightarrow> (real \<times> string) list \<Rightarrow> (real \<times> string) list" where
  "zadd s m z = zinsert s m (filter (\<lambda>(_, m'). m' \<noteq> m) z)"

text \<open>The script: \<open>Inl\<close> is a script error, \<open>Inr None\<close> the empty string.\<close>

definition SLIDING_WINDOW ::
  "real \<Rightarrow> real \<Rightarrow> int \<Rightarrow> string \<Rightarrow> (real \<times> string) list \<Rightarrow> (real \<times> string) list \<times> real option result" where
  "SLIDING_WINDOW now window limit member z =
     (let z' = zremrangebyscore 0 (now - window) z in
      if int (length z') \<ge> limit
      then (z', case z' of [] \<Rightarrow> Inl OtherError | (s, _) # _ \<Rightarrow> Inr (Some (window - (now - s))))
      else (zadd now member z', Inr None))"

definition check_shared ::
  "string \<Rightarrow> int \<Rightarrow> real \<Rightarrow> real \<Rightarrow> string \<Rightarrow> limiter \<Rightarrow> limiter \<times> real option result" where
  "check_shared key limit now window member st =
     (let k = ''ratelimit:'' @ key; (z, r) = SLIDING_WINDOW now window limit member (redis st k)
      in (st\<lparr>redis := (redis st)(k := z)\<rparr>,
          case r of
            Inl e \<Rightarrow> Inl e
          | Inr None \<Rightarrow> Inr None
          | Inr (Some x) \<Rightarrow> Inr (Some (max 0 x))))"

section \<open>The guard\<close>

definition check ::
  "limit_settings \<Rightarrow> surroundings \<Rightarrow> string \<Rightarrow> int \<Rightarrow> real option \<Rightarrow> limiter \<Rightarrow>
     limiter \<times> real option result" where
  "check cfg env key limit window0 st =
     (let window = (case window0 of Some w \<Rightarrow> w | None \<Rightarrow> RATE_LIMIT_WINDOW_SECONDS cfg);
          fallback = check_memory key limit (monotonic env) window
      in if \<not> UPSTASH cfg then fallback st
         else if \<not> redis_up env \<and> \<not> redis_ran env then fallback st
         else
           case check_shared key limit (wall env) window (nonce env) st of
             (st', Inl _) \<Rightarrow> fallback st'
           | (st', Inr r) \<Rightarrow> if redis_up env then (st', Inr r) else fallback st')"

definition count_hit :: "limit_settings \<Rightarrow> real \<Rightarrow> limiter \<Rightarrow> limiter" where
  "count_hit cfg now st =
     (let n = hits_since_sweep st + 1 in
      if SWEEP_EVERY \<le> n then sweep cfg now (st\<lparr>hits_since_sweep := 0\<rparr>)
      else st\<lparr>hits_since_sweep := n\<rparr>)"

definition org_key :: "string \<Rightarrow> string \<Rightarrow> string" where
  "org_key scope org = scope @ '':org:'' @ org"

definition user_key :: "string \<Rightarrow> string \<Rightarrow> string" where
  "user_key scope user = scope @ '':user:'' @ user"

text \<open>
  \<open>enforce\<close> makes two checks; \<open>env1\<close> and \<open>env2\<close> are what each of them sees.
\<close>

definition enforce ::
  "limit_settings \<Rightarrow> surroundings \<Rightarrow> surroundings \<Rightarrow> string \<Rightarrow> string \<Rightarrow> string \<Rightarrow> int \<Rightarrow> int \<Rightarrow>
     limiter \<Rightarrow> limiter \<times> unit result" where
  "enforce cfg env1 env2 scope user org user_limit organization_limit st =
     (if \<not> RATE_LIMIT_ENABLED cfg then (st, Inr ())
      else
        case check cfg env1 (org_key scope org) organization_limit None
               (count_hit cfg (monotonic env1) st) of
          (st1, Inl e) \<Rightarrow> (st1, Inl e)
        | (st1, Inr (Some r)) \<Rightarrow> (st1, Inl (RateLimited r))
        | (st1, Inr None) \<Rightarrow>
            (case check cfg env2 (user_key scope user) user_limit None st1 of
               (st2, Inl e) \<Rightarrow> (st2, Inl e)
             | (st2, Inr (Some r)) \<Rightarrow> (st2, Inl (RateLimited r))
             | (st2, Inr None) \<Rightarrow> (st2, Inr ())))"

definition enforce_ip ::
  "limit_settings \<Rightarrow> surroundings \<Rightarrow> string \<Rightarrow> string option \<Rightarrow> int \<Rightarrow> real option \<Rightarrow> limiter \<Rightarrow>
     limiter \<times> unit result" where
  "enforce_ip cfg env scope client_ip limit window st =
     (case client_ip of
        None \<Rightarrow> (st, Inr ())
      | Some ip \<Rightarrow>
          if \<not> RATE_LIMIT_ENABLED cfg \<or> ip = [] then (st, Inr ())
          else
            let w = (case window of Some w \<Rightarrow> w | None \<Rightarrow> AUTH_RATE_LIMIT_WINDOW_SECONDS cfg) in
            case check cfg env (scope @ '':ip:'' @ ip) limit (Some w) st of
              (st1, Inl e) \<Rightarrow> (st1, Inl e)
            | (st1, Inr (Some r)) \<Rightarrow> (st1, Inl (RateLimited r))
            | (st1, Inr None) \<Rightarrow> (st1, Inr ()))"

definition reset :: "limiter \<Rightarrow> limiter" where
  "reset st = st\<lparr>WINDOWS := Map.empty, hits_since_sweep := 0\<rparr>"

section \<open>The client address\<close>

definition hops_of :: "string \<Rightarrow> string list" where
  "hops_of forwarded = filter (\<lambda>p. p \<noteq> []) (map strip (split_on CHR '','' forwarded))"

definition client_ip_of :: "int \<Rightarrow> string option \<Rightarrow> string option \<Rightarrow> string option" where
  "client_ip_of trusted_proxy_count forwarded_for peer =
     (let trusted = max 0 trusted_proxy_count;
          hops = (if trusted = 0 then [] else
                  hops_of (case forwarded_for of None \<Rightarrow> [] | Some f \<Rightarrow> f))
      in if hops \<noteq> [] then Some (hops ! (length hops - min (nat trusted) (length hops)))
         else peer)"

section \<open>What a sliding window promises\<close>

text \<open>
  A sequence of attempts (time, member) against one window: the times of those
  that were let through.
\<close>

type_synonym 's attempt = "int \<Rightarrow> real \<Rightarrow> real \<Rightarrow> string \<Rightarrow> 's \<Rightarrow> 's \<times> real option result"

fun admitted :: "'s attempt \<Rightarrow> int \<Rightarrow> real \<Rightarrow> (real \<times> string) list \<Rightarrow> 's \<Rightarrow> real list" where
  "admitted attempt limit window [] s = []"
| "admitted attempt limit window ((t, m) # es) s =
     (case attempt limit t window m s of
        (s', Inr None) \<Rightarrow> t # admitted attempt limit window es s'
      | (s', _) \<Rightarrow> admitted attempt limit window es s')"

definition in_window :: "real \<Rightarrow> real \<Rightarrow> real \<Rightarrow> bool" where
  "in_window window u h \<longleftrightarrow> u - window < h \<and> h \<le> u"

definition live :: "real \<Rightarrow> real \<Rightarrow> real list \<Rightarrow> real list" where
  "live window now hs = filter (\<lambda>h. now - h < window) hs"

locale window_store =
  fixes attempt :: "'s attempt"
    and hits :: "'s \<Rightarrow> real list"
    and wellformed :: "'s \<Rightarrow> bool"
    and fresh :: "'s \<Rightarrow> string \<Rightarrow> bool"
  assumes attempt_keeps: "wellformed s \<Longrightarrow> \<forall>h \<in> set (hits s). h \<le> now \<Longrightarrow> 0 \<le> now \<Longrightarrow> fresh s m \<Longrightarrow>
      0 < limit \<Longrightarrow> wellformed (fst (attempt limit now window m s))"
    and attempt_fresh: "fresh s m' \<Longrightarrow> m \<noteq> m' \<Longrightarrow> fresh (fst (attempt limit now window m s)) m'"
    and attempt_full: "wellformed s \<Longrightarrow> \<forall>h \<in> set (hits s). h \<le> now \<Longrightarrow> 0 \<le> now \<Longrightarrow> fresh s m \<Longrightarrow>
      0 < limit \<Longrightarrow> limit \<le> int (length (live window now (hits s))) \<Longrightarrow>
      snd (attempt limit now window m s) = Inr (Some (max 0 (window - (now - hd (live window now (hits s)))))) \<and>
      hits (fst (attempt limit now window m s)) = live window now (hits s)"
    and attempt_room: "wellformed s \<Longrightarrow> \<forall>h \<in> set (hits s). h \<le> now \<Longrightarrow> 0 \<le> now \<Longrightarrow> fresh s m \<Longrightarrow>
      int (length (live window now (hits s))) < limit \<Longrightarrow>
      snd (attempt limit now window m s) = Inr None \<and>
      hits (fst (attempt limit now window m s)) = live window now (hits s) @ [now]"
begin

text \<open>
  The log against the whole history \<open>past\<close> of admitted hits: it holds those
  still inside the window at the last attempt.
\<close>

lemma window_bound_from:
  assumes "wellformed s" "0 < limit" "0 < window"
    and "\<forall>(t, m) \<in> set es. 0 \<le> t \<and> last_seen \<le> t \<and> fresh s m"
    and "sorted (map fst es)" "distinct (map snd es)"
    and "hits s = live window last_seen past" "\<forall>h \<in> set past. h \<le> last_seen"
    and "\<forall>u. int (length (filter (in_window window u) past)) \<le> limit"
  shows "int (length (filter (in_window window u) (past @ admitted attempt limit window es s))) \<le> limit"
  using assms
proof (induction es arbitrary: s past last_seen)
  case Nil
  then show ?case by simp
next
  case (Cons e es)
  obtain t m where e: "e = (t, m)" by (cases e)
  have t: "0 \<le> t" "last_seen \<le> t" "fresh s m" using Cons.prems(4) e by simp_all
  have hits_le: "\<forall>h \<in> set (hits s). h \<le> t"
    using Cons.prems(7,8) t(2) by (fastforce simp: live_def)
  have live_t: "live window t (hits s) = live window t past"
    using t(2) unfolding Cons.prems(7) live_def filter_filter by (intro filter_cong) auto
  let ?s = "fst (attempt limit t window m s)"
  have s': "wellformed ?s" using attempt_keeps [OF Cons.prems(1) hits_le t(1,3) Cons.prems(2)] .
  have rest: "\<forall>(t', m') \<in> set es. 0 \<le> t' \<and> t \<le> t' \<and> fresh ?s m'"
  proof (intro ballI, clarify)
    fix t' m' assume x: "(t', m') \<in> set es"
    then have "m' \<in> snd ` set es" "t' \<in> fst ` set es" by force+
    then have "m \<noteq> m'" "t \<le> t'" using Cons.prems(5,6) e by auto
    moreover have "0 \<le> t'" "fresh s m'" using Cons.prems(4) x by auto
    ultimately show "0 \<le> t' \<and> t \<le> t' \<and> fresh ?s m'" by (blast intro: attempt_fresh)
  qed
  have es: "sorted (map fst es)" "distinct (map snd es)" using Cons.prems(5,6) by simp_all
  show ?case
  proof (cases "int (length (live window t (hits s))) < limit")
    case True
    note room = attempt_room [OF Cons.prems(1) hits_le t(1,3) True]
    let ?past = "past @ [t]"
    have hits': "hits ?s = live window t ?past"
      using room Cons.prems(3) unfolding live_t by (simp add: live_def)
    have "int (length (filter (in_window window u) ?past)) \<le> limit" for u
    proof (cases "u < t")
      case False
      have "filter (in_window window u) past = filter (in_window window u) (live window t past)"
        using False unfolding live_def filter_filter by (intro filter_cong) (auto simp: in_window_def)
      then have "length (filter (in_window window u) past) \<le> length (live window t past)"
        by (metis length_filter_le)
      then have "int (length (filter (in_window window u) past)) < limit"
        using True unfolding live_t by linarith
      then show ?thesis by simp
    next
      case True
      then have "filter (in_window window u) ?past = filter (in_window window u) past"
        by (simp add: in_window_def)
      then show ?thesis using Cons.prems(9) by simp
    qed
    moreover have "\<forall>h \<in> set ?past. h \<le> t" using Cons.prems(8) t(2) by auto
    ultimately have "int (length (filter (in_window window u)
        (?past @ admitted attempt limit window es ?s))) \<le> limit"
      using Cons.IH [OF s' Cons.prems(2,3) rest es hits'] by blast
    moreover have "admitted attempt limit window (e # es) s = t # admitted attempt limit window es ?s"
      using room e by (simp add: split_beta)
    ultimately show ?thesis by simp
  next
    case False
    then have full: "limit \<le> int (length (live window t (hits s)))" by simp
    note full' = attempt_full [OF Cons.prems(1) hits_le t(1,3) Cons.prems(2) full]
    have "hits ?s = live window t past" using full' by (simp add: live_t)
    moreover have "\<forall>h \<in> set past. h \<le> t" using Cons.prems(8) t(2) by fastforce
    ultimately have "int (length (filter (in_window window u)
        (past @ admitted attempt limit window es ?s))) \<le> limit"
      using Cons.IH [OF s' Cons.prems(2,3) rest es _ _ Cons.prems(9)] by blast
    moreover have "admitted attempt limit window (e # es) s = admitted attempt limit window es ?s"
      using full' e by (simp add: split_beta)
    ultimately show ?thesis by simp
  qed
qed

lemma window_bound:
  assumes "wellformed s" "hits s = []" "0 < limit" "0 < window"
    and "\<forall>(t, m) \<in> set es. 0 \<le> t \<and> fresh s m"
    and "sorted (map fst es)" "distinct (map snd es)"
  shows "int (length (filter (in_window window u) (admitted attempt limit window es s))) \<le> limit"
  using window_bound_from [of s limit window es 0 "[]" u] assms by (auto simp: live_def)

end

text \<open>The two stores: one key of the process's windows, and one Redis sorted set.\<close>

definition memory_attempt :: "string \<Rightarrow> limiter attempt" where
  "memory_attempt key limit now window member st = check_memory key limit now window st"

lemma dropWhile_live:
  "sorted hs \<Longrightarrow> dropWhile (\<lambda>h. window \<le> now - h) hs = live window now hs"
proof (induction hs)
  case (Cons h hs)
  show ?case
  proof (cases "window \<le> now - h")
    case True
    with Cons show ?thesis by (simp add: live_def)
  next
    case False
    with Cons.prems have "\<forall>x \<in> set hs. now - x < window" by auto
    with False show ?thesis by (simp add: live_def)
  qed
qed (simp add: live_def)

lemma sorted_live: "sorted hs \<Longrightarrow> sorted (live window now hs)"
  by (simp add: live_def sorted_filter [where f = id, simplified])

lemma hits_of_upd [simp]: "hits_of (st\<lparr>WINDOWS := (WINDOWS st)(key \<mapsto> hs)\<rparr>) key = hs"
  by (simp add: hits_of_def)

lemma check_memory_cases:
  assumes "sorted (hits_of st key)"
  shows "check_memory key limit now window st =
     (let l = live window now (hits_of st key) in
      if int (length l) \<ge> limit
      then (st\<lparr>WINDOWS := (WINDOWS st)(key \<mapsto> l)\<rparr>,
            case l of [] \<Rightarrow> Inl OtherError | h # _ \<Rightarrow> Inr (Some (max 0 (window - (now - h)))))
      else (st\<lparr>WINDOWS := (WINDOWS st)(key \<mapsto> l @ [now])\<rparr>, Inr None))"
  by (simp add: check_memory_def dropWhile_live [OF assms] Let_def)

interpretation memory: window_store "memory_attempt key" "\<lambda>st. hits_of st key"
  "\<lambda>st. sorted (hits_of st key)" "\<lambda>_ _. True" for key
proof (unfold_locales, goal_cases)
  case (1 s now m limit window)
  then show ?case
    by (auto simp: memory_attempt_def check_memory_cases Let_def sorted_append live_def
        sorted_filter [where f = id, simplified])
next
  case (3 s now m limit window)
  then show ?case
    by (auto simp: memory_attempt_def check_memory_cases Let_def split: list.split)
next
  case (4 s now m window limit)
  then show ?case
    by (simp add: memory_attempt_def check_memory_cases Let_def)
qed simp

lemma zinsert_scores:
  "sorted (map fst z) \<Longrightarrow> \<forall>h \<in> set (map fst z). h \<le> s \<Longrightarrow> map fst (zinsert s m z) = map fst z @ [s]"
proof (induction z)
  case (Cons p z)
  obtain s' m' where p: "p = (s', m')" by (cases p)
  show ?case
  proof (cases "s < s' \<or> (s = s' \<and> m < m')")
    case True
    then have eq: "s' = s" using Cons.prems(2) p by auto
    have "\<forall>x \<in> set (map fst z). x = s"
      using Cons.prems p eq by fastforce
    then have "map fst z = replicate (length z) s" by (intro replicate_eqI) auto
    with True p eq show ?thesis by (simp add: replicate_append_same)
  next
    case False
    then have "zinsert s m (p # z) = p # zinsert s m z"
      unfolding p zinsert.simps by (simp only: if_False)
    with Cons show ?thesis by simp
  qed
qed simp

lemma set_zinsert [simp]: "set (zinsert s m z) = insert (s, m) (set z)"
  by (induction z) (auto split: if_splits)

definition redis_attempt :: "(real \<times> string) list attempt" where
  "redis_attempt limit now window member z =
     (case SLIDING_WINDOW now window limit member z of
        (z', Inl e) \<Rightarrow> (z', Inl e)
      | (z', Inr None) \<Rightarrow> (z', Inr None)
      | (z', Inr (Some x)) \<Rightarrow> (z', Inr (Some (max 0 x))))"

definition redis_ok :: "(real \<times> string) list \<Rightarrow> bool" where
  "redis_ok z \<longleftrightarrow> sorted (map fst z) \<and> (\<forall>(s, m) \<in> set z. 0 \<le> s)"

lemma zrem_live:
  assumes "redis_ok z"
  shows "map fst (zremrangebyscore 0 (now - window) z) = live window now (map fst z)"
proof -
  have "filter (\<lambda>(s, m). \<not> (0 \<le> s \<and> s \<le> now - window)) z = filter (\<lambda>p. now - fst p < window) z"
    using assms by (intro filter_cong) (auto simp: redis_ok_def)
  then show ?thesis by (simp add: zremrangebyscore_def live_def filter_map o_def)
qed

lemma zrem_set: "set (zremrangebyscore lo hi z) \<subseteq> set z"
  by (auto simp: zremrangebyscore_def)

lemma zadd_fresh: "m \<notin> snd ` set z \<Longrightarrow> zadd s m z = zinsert s m z"
  by (force simp: zadd_def intro: arg_cong [where f = "zinsert s m"] filter_True)

lemma SLIDING_WINDOW_room:
  assumes z: "redis_ok z" "\<forall>h \<in> set (map fst z). h \<le> now" "0 \<le> now" "m \<notin> snd ` set z"
    and room: "int (length (live window now (map fst z))) < limit"
  shows "snd (SLIDING_WINDOW now window limit m z) = Inr None"
    "map fst (fst (SLIDING_WINDOW now window limit m z)) = live window now (map fst z) @ [now]"
    "redis_ok (fst (SLIDING_WINDOW now window limit m z))"
proof -
  let ?z = "zremrangebyscore 0 (now - window) z"
  have len: "length ?z = length (live window now (map fst z))"
    using zrem_live [OF z(1), of now window] by (metis length_map)
  have m: "m \<notin> snd ` set ?z" using z(4) zrem_set by blast
  have sorted: "sorted (map fst ?z)"
    unfolding zrem_live [OF z(1)] using z(1) by (simp add: sorted_live redis_ok_def)
  have le: "\<forall>h \<in> set (map fst ?z). h \<le> now" using z(2) zrem_set by fastforce
  note ins = zinsert_scores [OF sorted le, of m]
  have run: "SLIDING_WINDOW now window limit m z = (zinsert now m ?z, Inr None)"
    using room len by (simp add: SLIDING_WINDOW_def zadd_fresh [OF m])
  show "snd (SLIDING_WINDOW now window limit m z) = Inr None" by (simp add: run)
  show "map fst (fst (SLIDING_WINDOW now window limit m z)) = live window now (map fst z) @ [now]"
    by (simp add: run ins zrem_live [OF z(1)])
  show "redis_ok (fst (SLIDING_WINDOW now window limit m z))"
    using sorted le z(1,3) zrem_set [of 0 "now - window" z] ins
    by (auto simp: run redis_ok_def sorted_append)
qed

lemma SLIDING_WINDOW_full:
  assumes z: "redis_ok z" and full: "limit \<le> int (length (live window now (map fst z)))" "0 < limit"
  shows "snd (SLIDING_WINDOW now window limit m z) =
      Inr (Some (window - (now - hd (live window now (map fst z)))))"
    "map fst (fst (SLIDING_WINDOW now window limit m z)) = live window now (map fst z)"
    "redis_ok (fst (SLIDING_WINDOW now window limit m z))"
proof -
  let ?z = "zremrangebyscore 0 (now - window) z"
  note zl = zrem_live [OF z, of now window]
  have len: "length ?z = length (live window now (map fst z))" using zl by (metis length_map)
  then obtain s m' rest where ne: "?z = (s, m') # rest" using full by (cases ?z) auto
  have run: "fst (SLIDING_WINDOW now window limit m z) = ?z"
    "snd (SLIDING_WINDOW now window limit m z) = Inr (Some (window - (now - s)))"
    using full len ne by (simp_all add: SLIDING_WINDOW_def Let_def)
  have "hd (live window now (map fst z)) = s" using zl ne by (metis list.sel(1) list.simps(9) fst_conv)
  then show "snd (SLIDING_WINDOW now window limit m z) =
      Inr (Some (window - (now - hd (live window now (map fst z)))))" by (simp add: run)
  show "map fst (fst (SLIDING_WINDOW now window limit m z)) = live window now (map fst z)"
    by (simp add: run zl)
  show "redis_ok (fst (SLIDING_WINDOW now window limit m z))"
    using z zl zrem_set [of 0 "now - window" z] by (auto simp: run redis_ok_def sorted_live)
qed

lemma SLIDING_WINDOW_members:
  "set (fst (SLIDING_WINDOW now window limit m z)) \<subseteq> insert (now, m) (set z)"
  using zrem_set [of 0 "now - window" z]
  by (auto simp: SLIDING_WINDOW_def Let_def zadd_def)

lemma redis_attempt_simps:
  "fst (redis_attempt limit now window m z) = fst (SLIDING_WINDOW now window limit m z)"
  "snd (SLIDING_WINDOW now window limit m z) = Inr None \<Longrightarrow> snd (redis_attempt limit now window m z) = Inr None"
  "snd (SLIDING_WINDOW now window limit m z) = Inr (Some x) \<Longrightarrow>
     snd (redis_attempt limit now window m z) = Inr (Some (max 0 x))"
  by (auto simp: redis_attempt_def split: prod.split sum.split option.split)

interpretation shared: window_store redis_attempt "map fst" redis_ok "\<lambda>z m. m \<notin> snd ` set z"
proof (unfold_locales, goal_cases)
  case (1 s now m limit window)
  show ?case
  proof (cases "int (length (live window now (map fst s))) < limit")
    case True
    then show ?thesis
      using 1 SLIDING_WINDOW_room(3) [of s now m window limit] by (simp add: redis_attempt_simps)
  next
    case False
    then show ?thesis
      using 1 SLIDING_WINDOW_full(3) [of s limit window now m] by (simp add: redis_attempt_simps)
  qed
next
  case (2 s m' m limit now window)
  then show ?case
    using SLIDING_WINDOW_members [of now window limit m s] by (fastforce simp: redis_attempt_simps)
next
  case (3 s now m limit window)
  then show ?case
    using SLIDING_WINDOW_full [of s limit window now m] by (simp add: redis_attempt_simps)
next
  case (4 s now m window limit)
  then show ?case
    using SLIDING_WINDOW_room [of s now m window limit] by (simp add: redis_attempt_simps)
qed

section \<open>Properties\<close>

text \<open>
  C21. The in-memory sliding window never admits more than its limit in any interval of the
  window's length, for any sequence of attempts at non-decreasing times.
\<close>

theorem memory_window_limits:
  assumes "0 < limit" "0 < window" "hits_of st key = []"
    and "sorted (map fst es)" "\<forall>t \<in> set (map fst es). 0 \<le> t" "distinct (map snd es)"
  shows "int (length (filter (in_window window u)
           (admitted (memory_attempt key) limit window es st))) \<le> limit"
  using assms by (intro memory.window_bound) auto

lemma memory_window_limits_witness:
  "length (filter (in_window 60 70) (admitted (memory_attempt ''k'') 2 60
     [(0, ''a''), (1, ''b''), (2, ''c''), (61, ''d'')] fresh_limiter)) \<le> 2 \<and>
   admitted (memory_attempt ''k'') 2 60 [(0, ''a''), (1, ''b''), (2, ''c''), (61, ''d'')] fresh_limiter
     = [0, 1, 61]"
proof -
  have "admitted (memory_attempt ''k'') 2 60 [(0, ''a''), (1, ''b''), (2, ''c''), (61, ''d'')] fresh_limiter
      = [0, 1, 61]"
    by (simp add: memory_attempt_def check_memory_def hits_of_def fresh_limiter_def)
  then show ?thesis
    using memory_window_limits [of 2 60 fresh_limiter "''k''"
        "[(0, ''a''), (1, ''b''), (2, ''c''), (61, ''d'')]" 70]
    by (simp add: hits_of_def fresh_limiter_def)
qed

theorem redis_window_limits:
  assumes "0 < limit" "0 < window" "sorted (map fst es)" "\<forall>t \<in> set (map fst es). 0 \<le> t"
    and "distinct (map snd es)"
  shows "int (length (filter (in_window window u) (admitted redis_attempt limit window es []))) \<le> limit"
  using assms by (intro shared.window_bound) (auto simp: redis_ok_def)

lemma redis_window_limits_witness:
  "length (filter (in_window 60 70) (admitted redis_attempt 2 60
     [(0, ''a''), (1, ''b''), (1, ''aa''), (61, ''d'')] [])) \<le> 2"
  using redis_window_limits [of 2 60 "[(0, ''a''), (1, ''b''), (1, ''aa''), (61, ''d'')]" 70] by simp

section \<open>One user and the organization's budget\<close>

lemma keys_differ [simp]: "user_key scope u \<noteq> org_key scope o'" "org_key scope o' \<noteq> user_key scope u"
  by (simp_all add: user_key_def org_key_def)

lemma hits_of_other [simp]:
  "k \<noteq> key \<Longrightarrow> hits_of (fst (check_memory key limit now window st)) k = hits_of st k"
  by (simp add: check_memory_def Let_def hits_of_def)

lemma hits_of_count_hit:
  assumes "0 < RATE_LIMIT_WINDOW_SECONDS cfg" "hits_of st k = replicate n now"
  shows "hits_of (count_hit cfg now st) k = replicate n now"
  using assms
  by (cases n) (auto simp: count_hit_def sweep_def hits_of_def idle_def Let_def split: option.splits)

lemma check_memory_same_instant:
  assumes "0 < window" "hits_of st key = replicate n now"
  shows "int n < limit \<Longrightarrow> snd (check_memory key limit now window st) = Inr None \<and>
      hits_of (fst (check_memory key limit now window st)) key = replicate (Suc n) now"
    and "limit \<le> int n \<Longrightarrow> 0 < limit \<Longrightarrow> snd (check_memory key limit now window st) = Inr (Some window)"
  using assms
  by (cases n; simp add: check_memory_cases live_def Let_def sorted_replicate replicate_append_same)+

lemma check_in_memory:
  "\<not> UPSTASH cfg \<Longrightarrow> check cfg env key limit None st =
     check_memory key limit (monotonic env) (RATE_LIMIT_WINDOW_SECONDS cfg) st"
  by (simp add: check_def)

lemma enforce_records_org_hit:
  assumes "RATE_LIMIT_ENABLED cfg" "\<not> UPSTASH cfg" "0 < RATE_LIMIT_WINDOW_SECONDS cfg"
    and "hits_of st (org_key scope org) = replicate n (monotonic env)" "int n < ol"
  shows "hits_of (fst (enforce cfg env env scope u org ul ol st)) (org_key scope org) =
     replicate (Suc n) (monotonic env)"
proof -
  let ?st = "count_hit cfg (monotonic env) st" and ?w = "RATE_LIMIT_WINDOW_SECONDS cfg"
  note h = check_memory_same_instant(1) [OF assms(3) hits_of_count_hit [OF assms(3,4)] assms(5)]
  obtain st1 where c: "check_memory (org_key scope org) ol (monotonic env) ?w ?st = (st1, Inr None)"
    using h by (metis prod.collapse)
  obtain st2 r where c2: "check_memory (user_key scope u) ul (monotonic env) ?w st1 = (st2, r)"
    by (metis prod.collapse)
  have "fst (enforce cfg env env scope u org ul ol st) = st2"
    using assms(1,2) c c2 by (auto simp: enforce_def check_in_memory split: sum.split option.split)
  moreover have "hits_of st2 (org_key scope org) = hits_of st1 (org_key scope org)"
    using hits_of_other [of "org_key scope org" "user_key scope u" ul "monotonic env" ?w st1] c2 by simp
  ultimately show ?thesis using h c by simp
qed

theorem one_user_exhausts_organization:
  assumes "RATE_LIMIT_ENABLED cfg" "\<not> UPSTASH cfg" "0 < RATE_LIMIT_WINDOW_SECONDS cfg" "0 < ol"
    and "hits_of st (org_key scope org) = []"
    and "st' = ((\<lambda>s. fst (enforce cfg env env scope u org ul ol s)) ^^ nat ol) st"
  shows "snd (enforce cfg env env scope v org ul ol st') =
     Inl (RateLimited (RATE_LIMIT_WINDOW_SECONDS cfg))"
proof -
  let ?f = "\<lambda>s. fst (enforce cfg env env scope u org ul ol s)"
  have "int n \<le> ol \<Longrightarrow> hits_of ((?f ^^ n) st) (org_key scope org) = replicate n (monotonic env)" for n
  proof (induction n)
    case (Suc n)
    then show ?case using enforce_records_org_hit [OF assms(1-3), of "(?f ^^ n) st" scope org n env ol] by simp
  qed (simp add: assms(5))
  then have "hits_of st' (org_key scope org) = replicate (nat ol) (monotonic env)"
    using assms(4,6) by simp
  from check_memory_same_instant(2) [OF assms(3) hits_of_count_hit [OF assms(3) this], of ol] assms(4)
  have "snd (check_memory (org_key scope org) ol (monotonic env) (RATE_LIMIT_WINDOW_SECONDS cfg)
      (count_hit cfg (monotonic env) st')) = Inr (Some (RATE_LIMIT_WINDOW_SECONDS cfg))"
    by simp
  then show ?thesis
    using assms(1,2) by (auto simp: enforce_def check_in_memory split: prod.split)
qed

definition demo_limits :: limit_settings where
  "demo_limits = \<lparr>RATE_LIMIT_ENABLED = True, RATE_LIMIT_WINDOW_SECONDS = 60,
     AUTH_RATE_LIMIT_WINDOW_SECONDS = 300, TRUSTED_PROXY_COUNT = 1, UPSTASH = False\<rparr>"

definition demo_surroundings :: surroundings where
  "demo_surroundings = \<lparr>monotonic = 10, wall = 10, redis_up = False, redis_ran = False, nonce = ''n''\<rparr>"

lemma one_user_exhausts_organization_witness:
  "snd (enforce demo_limits demo_surroundings demo_surroundings ''ai'' ''innocent'' ''o1'' 12 60
     (((\<lambda>s. fst (enforce demo_limits demo_surroundings demo_surroundings ''ai'' ''runaway'' ''o1'' 12 60 s))
         ^^ 60) fresh_limiter)) = Inl (RateLimited 60)"
  using one_user_exhausts_organization [of demo_limits 60 fresh_limiter "''ai''" "''o1''" _
      demo_surroundings "''runaway''" 12 "''innocent''"]
  by (simp add: demo_limits_def hits_of_def fresh_limiter_def)

theorem organization_refusal_spares_user:
  assumes "RATE_LIMIT_ENABLED cfg" "\<not> UPSTASH cfg"
    and "enforce cfg env1 env2 scope u org ul ol st = (st', Inl e)"
    and "snd (check cfg env1 (org_key scope org) ol None (count_hit cfg (monotonic env1) st)) \<noteq> Inr None"
  shows "hits_of st' (user_key scope u) = hits_of (count_hit cfg (monotonic env1) st) (user_key scope u)"
proof -
  let ?c = "check cfg env1 (org_key scope org) ol None (count_hit cfg (monotonic env1) st)"
  have "st' = fst ?c"
    using assms(1,3,4) by (auto simp: enforce_def split: prod.splits sum.splits option.splits)
  then show ?thesis using assms(2) by (simp add: check_in_memory)
qed

definition busy_limiter :: limiter where
  "busy_limiter = fresh_limiter\<lparr>WINDOWS := [org_key ''ai'' ''o1'' \<mapsto> [10]]\<rparr>"

lemma organization_refusal_spares_user_witness:
  "\<exists>st'. enforce demo_limits demo_surroundings demo_surroundings ''ai'' ''u'' ''o1'' 12 1 busy_limiter
       = (st', Inl (RateLimited 60)) \<and> hits_of st' (user_key ''ai'' ''u'') = []"
proof -
  have c: "snd (check demo_limits demo_surroundings (org_key ''ai'' ''o1'') 1 None
      (count_hit demo_limits 10 busy_limiter)) = Inr (Some 60)"
    by (simp add: check_def demo_limits_def check_memory_def demo_surroundings_def hits_of_def
        busy_limiter_def fresh_limiter_def count_hit_def SWEEP_EVERY_def Let_def)
  obtain st' where e: "enforce demo_limits demo_surroundings demo_surroundings ''ai'' ''u'' ''o1'' 12 1
      busy_limiter = (st', Inl (RateLimited 60))"
  proof -
    have "RATE_LIMIT_ENABLED demo_limits" "monotonic demo_surroundings = 10"
      by (simp_all add: demo_limits_def demo_surroundings_def)
    moreover obtain st1 where "check demo_limits demo_surroundings (org_key ''ai'' ''o1'') 1 None
        (count_hit demo_limits 10 busy_limiter) = (st1, Inr (Some 60))"
      using c by (metis prod.collapse)
    ultimately show ?thesis using that by (simp add: enforce_def)
  qed
  have "hits_of (count_hit demo_limits 10 busy_limiter) (user_key ''ai'' ''u'') = []"
    by (simp add: count_hit_def SWEEP_EVERY_def busy_limiter_def fresh_limiter_def hits_of_def)
  then show ?thesis
    using organization_refusal_spares_user [OF _ _ e] c e
    by (simp add: demo_limits_def demo_surroundings_def)
qed

section \<open>Forged addresses\<close>

lemma split_on_not_Nil [simp]: "split_on c s \<noteq> []"
  by (induction s) (auto split: list.split)

lemma split_on_append: "split_on c (a @ c # b) = split_on c a @ split_on c b"
  by (induction a) (auto split: list.split)

lemma hops_of_append: "hops_of (a @ '','' @ b) = hops_of a @ hops_of b"
  using split_on_append [of "CHR '',''" a b] by (simp add: hops_of_def)

theorem forged_hops_do_not_change_client_ip:
  assumes "0 < n" "n \<le> int (length (hops_of appended))"
  shows "client_ip_of n (Some (forged @ '','' @ appended)) peer =
     Some (hops_of appended ! (length (hops_of appended) - nat n))"
proof -
  let ?h = "hops_of appended" and ?f = "hops_of forged"
  have "(?f @ ?h) ! (length (?f @ ?h) - nat n) = ?h ! (length ?h - nat n)"
  proof -
    have "length (?f @ ?h) - nat n = length ?f + (length ?h - nat n)" using assms by simp
    then show ?thesis by (simp only: nth_append_length_plus)
  qed
  moreover have "nat n \<le> length ?h" "?h \<noteq> []" using assms by auto
  ultimately show ?thesis
    using assms hops_of_append [of forged appended]
    by (simp add: client_ip_of_def Let_def min_absorb1 trans_le_add2)
qed

lemma forged_hops_do_not_change_client_ip_witness:
  "client_ip_of 1 (Some (''6.6.6.6'' @ '','' @ '' 203.0.113.9'')) (Some ''10.0.0.1'') = Some ''203.0.113.9''"
proof -
  have h: "hops_of '' 203.0.113.9'' = [''203.0.113.9'']" by code_simp
  show ?thesis
    using forged_hops_do_not_change_client_ip [of 1 "'' 203.0.113.9''" "''6.6.6.6''" "Some ''10.0.0.1''"]
    unfolding h by simp
qed

end
