(* ===== verification/Resilience.thy ===== *)
theory Resilience
  imports Prelude
begin

text \<open>
  Calls to a TM1 server, \<open>tm1/resilience.py\<close>: the circuit breaker of a
  connection, the registry of breakers, and \<open>call_with_resilience\<close>. The called
  function is an argument: given the attempt's number and the server's state
  it returns the state it left and how it ended. A call that timed out may
  have changed the server. Clock readings are arguments; logging and the thread
  pool are left out.
\<close>

section \<open>The circuit breaker\<close>

datatype CircuitState = CLOSED | OPEN | HALF_OPEN

record breaker =
  failure_threshold :: int
  cooldown_seconds :: real
  cb_state :: CircuitState
  failure_count :: int
  opened_at :: "real option"

definition new_breaker :: "int \<Rightarrow> real \<Rightarrow> breaker" where
  "new_breaker threshold cooldown =
     \<lparr>failure_threshold = threshold, cooldown_seconds = cooldown, cb_state = CLOSED,
      failure_count = 0, opened_at = None\<rparr>"

definition before_call :: "real \<Rightarrow> breaker \<Rightarrow> breaker \<times> unit result" where
  "before_call now b =
     (if cb_state b \<noteq> OPEN then (b, Inr ())
      else if (case opened_at b of None \<Rightarrow> False | Some t \<Rightarrow> now - t \<ge> cooldown_seconds b)
      then (b\<lparr>cb_state := HALF_OPEN\<rparr>, Inr ())
      else (b, Inl TM1Connection))"

definition record_success :: "breaker \<Rightarrow> breaker" where
  "record_success b = b\<lparr>cb_state := CLOSED, failure_count := 0, opened_at := None\<rparr>"

definition record_failure :: "real \<Rightarrow> breaker \<Rightarrow> breaker" where
  "record_failure now b =
     (let b1 = b\<lparr>failure_count := failure_count b + 1\<rparr> in
      if cb_state b1 = HALF_OPEN \<or> failure_count b1 \<ge> failure_threshold b1
      then b1\<lparr>cb_state := OPEN, opened_at := Some now\<rparr>
      else b1)"

section \<open>The registry\<close>

type_synonym breakers = "uuid \<rightharpoonup> breaker"

definition get_circuit_breaker :: "int \<Rightarrow> real \<Rightarrow> uuid \<Rightarrow> breakers \<Rightarrow> breakers \<times> breaker" where
  "get_circuit_breaker threshold cooldown c bs =
     (case bs c of
        Some b \<Rightarrow> (bs, b)
      | None \<Rightarrow> let b = new_breaker threshold cooldown in (bs(c \<mapsto> b), b))"

definition remove_circuit_breaker :: "uuid \<Rightarrow> breakers \<Rightarrow> breakers" where
  "remove_circuit_breaker c bs = bs(c := None)"

definition peek_circuit_breaker :: "uuid \<Rightarrow> breakers \<Rightarrow> breaker option" where
  "peek_circuit_breaker c bs = bs c"

section \<open>One guarded call\<close>

text \<open>
  How one attempt ends: the result, a gateway error, a network failure or a
  timeout, an HTTP status of the server, or any other exception.
\<close>

datatype 'a outcome =
  Returned 'a | GatewayFailed | NetworkFailed | RestFailed int | Raised exn

definition TRANSIENT_STATUS_THRESHOLD :: int where
  "TRANSIENT_STATUS_THRESHOLD = 500"

text \<open>How the loop over the attempts is left; \<open>Fatal\<close> carries whether the breaker records it.\<close>

datatype 'a verdict = Done 'a | Fatal bool exn | Exhausted

fun classify :: "'a outcome \<Rightarrow> 'a verdict" where
  "classify (Returned x) = Done x"
| "classify GatewayFailed = Fatal True TM1OutcomeUnknown"
| "classify NetworkFailed = Exhausted"
| "classify (RestFailed code) =
     (if code = 401 \<or> code = 403 then Fatal False TM1Authentication
      else if code = 404 then Fatal False TM1NotFound
      else if code < TRANSIENT_STATUS_THRESHOLD then Fatal False TM1Connection
      else Exhausted)"
| "classify (Raised e) = Fatal False e"

text \<open>
  The loop \<open>for attempt in range(max_retries + 1)\<close>: \<open>n\<close> attempts are left, the
  next one is the \<open>i\<close>-th. It returns the total time slept as well.
\<close>

fun attempts ::
  "(nat \<Rightarrow> 's \<Rightarrow> 's \<times> 'a outcome) \<Rightarrow> nat \<Rightarrow> nat \<Rightarrow> real \<Rightarrow> 's \<Rightarrow> 's \<times> real \<times> 'a verdict" where
  "attempts f 0 i delay s = (s, 0, Exhausted)"
| "attempts f (Suc n) i delay s =
     (let (s', out) = f i s in
      case classify out of
        Exhausted \<Rightarrow>
          if n = 0 then (s', 0, Exhausted)
          else (let (s'', slept, v) = attempts f n (Suc i) (2 * delay) s' in (s'', delay + slept, v))
      | v \<Rightarrow> (s', 0, v))"

record resilience_settings =
  TM1_CIRCUIT_BREAKER_THRESHOLD :: int
  TM1_CIRCUIT_BREAKER_COOLDOWN_SECONDS :: real
  TM1_MAX_RETRIES :: int

definition settle :: "real \<Rightarrow> breaker \<Rightarrow> 'a verdict \<Rightarrow> breaker \<times> 'a result" where
  "settle now b v =
     (case v of
        Done x \<Rightarrow> (record_success b, Inr x)
      | Fatal recorded e \<Rightarrow> (if recorded then record_failure now b else b, Inl e)
      | Exhausted \<Rightarrow> (record_failure now b, Inl TM1OutcomeUnknown))"

definition call_with_resilience ::
  "resilience_settings \<Rightarrow> uuid \<Rightarrow> (nat \<Rightarrow> 's \<Rightarrow> 's \<times> 'a outcome) \<Rightarrow> int option \<Rightarrow> real \<Rightarrow> real \<Rightarrow> real \<Rightarrow>
     breakers \<Rightarrow> 's \<Rightarrow> breakers \<times> 's \<times> 'a result" where
  "call_with_resilience cfg c f max_retries base_delay started ended bs s =
     (let (bs1, b) = get_circuit_breaker (TM1_CIRCUIT_BREAKER_THRESHOLD cfg)
                       (TM1_CIRCUIT_BREAKER_COOLDOWN_SECONDS cfg) c bs in
      case before_call started b of
        (b1, Inl e) \<Rightarrow> (bs1(c \<mapsto> b1), s, Inl e)
      | (b1, Inr _) \<Rightarrow>
          let retries = (case max_retries of Some n \<Rightarrow> n | None \<Rightarrow> TM1_MAX_RETRIES cfg);
              (s', slept, v) = attempts f (nat (retries + 1)) 0 base_delay s;
              (b2, r) = settle ended b1 v
          in (bs1(c \<mapsto> b2), s', r))"

section \<open>The breaker against its history\<close>

text \<open>
  What a breaker promises, stated over the events it has seen: it is closed
  exactly while fewer than \<open>threshold\<close> failures follow the last success, and
  otherwise refuses until \<open>cooldown\<close> after the last failure.
\<close>

datatype event = Admit real | Success | Failure real

fun apply_event :: "event \<Rightarrow> breaker \<Rightarrow> breaker" where
  "apply_event (Admit now) b = fst (before_call now b)"
| "apply_event Success b = record_success b"
| "apply_event (Failure now) b = record_failure now b"

fun trailing :: "event list \<Rightarrow> int" where
  "trailing [] = 0"
| "trailing (Success # es) = 0"
| "trailing (Failure t # es) = trailing es + 1"
| "trailing (Admit t # es) = trailing es"

fun last_failure :: "event list \<Rightarrow> real option" where
  "last_failure [] = None"
| "last_failure (Success # es) = None"
| "last_failure (Failure t # es) = Some t"
| "last_failure (Admit t # es) = last_failure es"

text \<open>The newest event is the head of the history.\<close>

definition after :: "int \<Rightarrow> real \<Rightarrow> event list \<Rightarrow> breaker" where
  "after threshold cooldown es = foldr apply_event es (new_breaker threshold cooldown)"

lemma trailing_nonneg [simp]: "0 \<le> trailing es"
  by (induction es rule: trailing.induct) auto

lemma breaker_parameters [simp]:
  "failure_threshold (after threshold cooldown es) = threshold"
  "cooldown_seconds (after threshold cooldown es) = cooldown"
proof (induction es)
  case (Cons e es)
  { case 1 then show ?case using Cons
      by (cases e) (auto simp: after_def before_call_def record_success_def record_failure_def Let_def) }
  { case 2 then show ?case using Cons
      by (cases e) (auto simp: after_def before_call_def record_success_def record_failure_def Let_def) }
qed (simp_all add: after_def new_breaker_def)

lemma after_Cons: "after threshold cooldown (e # es) = apply_event e (after threshold cooldown es)"
  by (simp add: after_def)

text \<open>A probe has been let through since the last failure.\<close>

fun probed :: "real \<Rightarrow> event list \<Rightarrow> bool" where
  "probed cooldown [] = False"
| "probed cooldown (Success # es) = False"
| "probed cooldown (Failure t # es) = False"
| "probed cooldown (Admit now # es) =
     (probed cooldown es \<or>
      (case last_failure es of None \<Rightarrow> False | Some t \<Rightarrow> now - t \<ge> cooldown))"

definition refuses :: "int \<Rightarrow> real \<Rightarrow> event list \<Rightarrow> real \<Rightarrow> bool" where
  "refuses threshold cooldown es now \<longleftrightarrow>
     threshold \<le> trailing es \<and> \<not> probed cooldown es \<and>
     (case last_failure es of None \<Rightarrow> False | Some t \<Rightarrow> now - t < cooldown)"

lemma last_failure_trailing: "0 < trailing es \<Longrightarrow> \<exists>t. last_failure es = Some t"
  by (induction es rule: trailing.induct) auto

lemma breaker_abstracts:
  assumes "0 < threshold"
  shows "failure_count (after threshold cooldown es) = trailing es \<and>
     (cb_state (after threshold cooldown es) = CLOSED \<longleftrightarrow> trailing es < threshold) \<and>
     (threshold \<le> trailing es \<longrightarrow> opened_at (after threshold cooldown es) = last_failure es \<and>
        (cb_state (after threshold cooldown es) = HALF_OPEN \<longleftrightarrow> probed cooldown es))"
proof (induction es)
  case Nil
  then show ?case using assms by (simp add: after_def new_breaker_def)
next
  case (Cons e es)
  then show ?case
  proof (cases e)
    case (Admit now)
    have "cb_state (after threshold cooldown es) = OPEN \<longleftrightarrow> threshold \<le> trailing es \<and> \<not> probed cooldown es"
      using Cons by (cases "cb_state (after threshold cooldown es)") auto
    with Admit Cons show ?thesis
      by (cases "last_failure es") (auto simp: after_Cons before_call_def)
  next
    case Success
    with assms show ?thesis by (simp add: after_Cons record_success_def)
  next
    case (Failure now)
    have "cb_state (after threshold cooldown es) = HALF_OPEN \<Longrightarrow> threshold \<le> trailing es"
      using Cons by auto
    with Failure Cons show ?thesis
      by (auto simp: after_Cons record_failure_def Let_def)
  qed
qed

lemma before_call_refuses:
  assumes "0 < threshold"
  shows "before_call now (after threshold cooldown es) =
     (if refuses threshold cooldown es now then (after threshold cooldown es, Inl TM1Connection)
      else (after threshold cooldown (Admit now # es), Inr ()))"
proof -
  note abs = breaker_abstracts [OF assms, of cooldown es]
  have op: "cb_state (after threshold cooldown es) = OPEN \<longleftrightarrow> threshold \<le> trailing es \<and> \<not> probed cooldown es"
    using abs by (cases "cb_state (after threshold cooldown es)") auto
  show ?thesis
  proof (cases "threshold \<le> trailing es")
    case True
    then obtain t where "last_failure es = Some t" using assms last_failure_trailing [of es] by auto
    with True abs op show ?thesis
      by (auto simp: after_Cons before_call_def refuses_def)
  next
    case False
    with op show ?thesis by (simp add: after_Cons before_call_def refuses_def)
  qed
qed

text \<open>
  C15. After any history of admissions, successes and failures the breaker refuses a call
  exactly when at least threshold failures follow the last success, no probe was admitted
  since the last failure, and the cooldown has not elapsed.
\<close>

theorem breaker_refuses_exactly_during_cooldown:
  assumes "0 < threshold"
  shows "snd (before_call now (after threshold cooldown es)) = Inl TM1Connection \<longleftrightarrow>
     refuses threshold cooldown es now"
  by (simp add: before_call_refuses [OF assms])

lemma breaker_refuses_exactly_during_cooldown_witness:
  "snd (before_call 30 (after 2 60 [Failure 9, Admit 8, Failure 5])) = Inl TM1Connection \<and>
   snd (before_call 70 (after 2 60 [Failure 9, Admit 8, Failure 5])) = Inr ()"
proof -
  have "refuses 2 60 [Failure 9, Admit 8, Failure 5] 30" by (simp add: refuses_def)
  moreover have "\<not> refuses 2 60 [Failure 9, Admit 8, Failure 5] 70" by (simp add: refuses_def)
  moreover have "snd (before_call 70 b) \<noteq> Inl TM1Connection \<Longrightarrow> snd (before_call 70 b) = Inr ()" for b
    by (auto simp: before_call_def split: option.splits)
  ultimately show ?thesis
    using breaker_refuses_exactly_during_cooldown [of 2 30 60 "[Failure 9, Admit 8, Failure 5]"]
      breaker_refuses_exactly_during_cooldown [of 2 70 60 "[Failure 9, Admit 8, Failure 5]"] by simp
qed

section \<open>One call, end to end\<close>

lemma attempts_bounds:
  assumes "0 \<le> delay" "attempts f n i delay s = (s', slept, v)"
  shows "0 \<le> slept \<and> slept \<le> delay * (2 ^ (n - 1) - 1)"
  using assms
proof (induction n arbitrary: i delay s s' slept v)
  case (Suc n)
  obtain s1 out where f: "f i s = (s1, out)" by (cases "f i s")
  show ?case
  proof (cases "classify out = Exhausted \<and> n \<noteq> 0")
    case True
    obtain s2 sl v2 where r: "attempts f n (Suc i) (2 * delay) s1 = (s2, sl, v2)"
      by (metis prod.collapse)
    have b: "0 \<le> sl" "sl \<le> 2 * delay * (2 ^ (n - 1) - 1)"
      using Suc.IH [OF _ r] Suc.prems(1) by simp_all
    obtain m where "n = Suc m" using True by (cases n) auto
    moreover have "slept = delay + sl" using Suc.prems(2) f r True by simp
    ultimately show ?thesis using b Suc.prems(1) by (simp add: algebra_simps)
  next
    case False
    have "slept = 0"
      using Suc.prems(2) f False by (auto split: verdict.splits if_splits)
    then show ?thesis using Suc.prems(1) by simp
  qed
qed simp

text \<open>
  A function that counts its calls: the loop makes at most \<open>n\<close>, and stops early
  only on a result or an error that is not transient.
\<close>

definition counting :: "(nat \<Rightarrow> 's \<Rightarrow> 's \<times> 'a outcome) \<Rightarrow> nat \<Rightarrow> nat \<times> 's \<Rightarrow> (nat \<times> 's) \<times> 'a outcome" where
  "counting f i ks = (let (s', out) = f i (snd ks) in ((fst ks + 1, s'), out))"

lemma counting_apply: "f i s = (s', out) \<Longrightarrow> counting f i (k, s) = ((k + 1, s'), out)"
  by (simp add: counting_def)

lemma attempts_counting:
  "attempts (counting f) n i delay (k, s) = ((k', s'), slept, v) \<Longrightarrow>
     k' \<le> k + n \<and> (v = Exhausted \<longrightarrow> k' = k + n) \<and> attempts f n i delay s = (s', slept, v)"
proof (induction n arbitrary: i delay k s k' s' slept v)
  case (Suc n)
  obtain s1 out where f: "f i s = (s1, out)" by (cases "f i s")
  show ?case
  proof (cases "classify out = Exhausted \<and> n \<noteq> 0")
    case True
    obtain k2 s2 sl v2 where r: "attempts (counting f) n (Suc i) (2 * delay) (k + 1, s1) = ((k2, s2), sl, v2)"
      by (metis prod.collapse)
    have "k' = k2" "s' = s2" "slept = delay + sl" "v = v2"
      using Suc.prems counting_apply [of f, OF f, of k] r True by simp_all
    then show ?thesis using Suc.IH [OF r] f True by auto
  next
    case False
    then show ?thesis
      using Suc.prems f counting_apply [of f, OF f, of k] by (auto split: verdict.splits if_splits)
  qed
qed simp

theorem guarded_call_is_bounded:
  assumes "bs c = Some b" "before_call t1 b = (b1, adm)"
    and "call_with_resilience cfg c (counting f) max_retries delay t1 t2 bs (0, s) = (bs', (k, s'), r)"
  shows "int k \<le> max 0 (1 + (case max_retries of Some n \<Rightarrow> n | None \<Rightarrow> TM1_MAX_RETRIES cfg)) \<and>
     (adm \<noteq> Inr () \<longrightarrow> k = 0 \<and> s' = s \<and> r = Inl TM1Connection \<and> bs' = bs) \<and>
     (adm = Inr () \<longrightarrow> bs' = bs(c \<mapsto> b1) \<or> bs' = bs(c \<mapsto> record_failure t2 b1) \<or>
        bs' = bs(c \<mapsto> record_success b1)) \<and>
     (\<forall>x. r = Inr x \<longrightarrow> bs' = bs(c \<mapsto> record_success b1))"
proof (cases "adm = Inr ()")
  case True
  let ?n = "nat ((case max_retries of Some n \<Rightarrow> n | None \<Rightarrow> TM1_MAX_RETRIES cfg) + 1)"
  obtain slept v where a: "attempts (counting f) ?n 0 delay (0, s) = ((k, s'), slept, v)"
    and st: "settle t2 b1 v = (the (bs' c), r)" "bs' = bs(c \<mapsto> the (bs' c))"
    using assms True
    by (auto simp: call_with_resilience_def get_circuit_breaker_def Let_def split: prod.splits)
  have "k \<le> ?n" using attempts_counting [OF a] by simp
  moreover have "(the (bs' c) = b1 \<or> the (bs' c) = record_failure t2 b1 \<or> the (bs' c) = record_success b1)
      \<and> (\<forall>x. r = Inr x \<longrightarrow> the (bs' c) = record_success b1)"
    using st(1) by (auto simp: settle_def split: verdict.splits if_splits)
  ultimately show ?thesis using True st(2) by auto
next
  case False
  then have "b1 = b" "adm = Inl TM1Connection"
    using assms(2) by (auto simp: before_call_def split: if_splits)
  with False show ?thesis
    using assms by (auto simp: call_with_resilience_def get_circuit_breaker_def)
qed

lemma guarded_call_is_bounded_witness:
  "fst (snd (call_with_resilience \<lparr>TM1_CIRCUIT_BREAKER_THRESHOLD = 2,
       TM1_CIRCUIT_BREAKER_COOLDOWN_SECONDS = 60, TM1_MAX_RETRIES = 3\<rparr> ''c''
     (counting (\<lambda>i (s::nat). (s + 10, if i < 2 then RestFailed 503 else Returned ''ok''))) None 1 5 6
     [''c'' \<mapsto> new_breaker 2 60] (0, 0))) = (3, 30)"
proof -
  let ?cfg = "\<lparr>TM1_CIRCUIT_BREAKER_THRESHOLD = 2, TM1_CIRCUIT_BREAKER_COOLDOWN_SECONDS = 60,
     TM1_MAX_RETRIES = 3\<rparr>"
  let ?f = "\<lambda>i (s::nat). (s + 10, if i < 2 then RestFailed 503 else Returned ''ok'')"
  obtain bs' k s' r where c: "call_with_resilience ?cfg ''c'' (counting ?f) None 1 5 6
      [''c'' \<mapsto> new_breaker 2 60] (0, 0) = (bs', (k, s'), r)"
    by (metis prod.collapse)
  have "before_call 5 (new_breaker 2 60) = (new_breaker 2 60, Inr ())"
    by (simp add: before_call_def new_breaker_def)
  from guarded_call_is_bounded [OF _ this c] have "k \<le> 4" by simp
  moreover have "k = 3 \<and> s' = 30"
    using c by (simp add: call_with_resilience_def get_circuit_breaker_def before_call_def
        new_breaker_def eval_nat_numeral counting_def TRANSIENT_STATUS_THRESHOLD_def settle_def
        split: prod.splits)
  ultimately show ?thesis using c by simp
qed

end
