(* ===== verification/DependencyGraph.thy ===== *)
theory DependencyGraph
  imports Prelude
begin

text \<open>
  The metadata graph of a TM1 connection and the questions asked of it:
  \<open>repositories/tm1_object_repository.py\<close>,
  \<open>repositories/tm1_relationship_repository.py\<close> and
  \<open>tm1/metadata/dependency_analyzer.py\<close>. A query without ORDER BY returns rows
  in table order here; the properties hold for every table, so for every
  order.
\<close>

section \<open>The graph tables\<close>

record tm1_object =
  o_id :: uuid
  o_organization_id :: uuid
  o_connection_id :: uuid
  o_object_type :: string
  o_name :: string

record relationship =
  rel_connection_id :: uuid
  rel_from :: uuid
  rel_to :: uuid
  rel_type :: string

record graph =
  g_objects :: "tm1_object list"
  g_relationships :: "relationship list"

definition object_by_id :: "graph \<Rightarrow> uuid \<Rightarrow> tm1_object option" where
  "object_by_id g i = find (\<lambda>ob. o_id ob = i) (g_objects g)"

definition object_by_name :: "graph \<Rightarrow> uuid \<Rightarrow> string \<Rightarrow> string \<Rightarrow> tm1_object option" where
  "object_by_name g conn ty nm =
     find (\<lambda>ob. o_connection_id ob = conn \<and> o_object_type ob = ty \<and> o_name ob = nm) (g_objects g)"

definition list_objects :: "graph \<Rightarrow> uuid \<Rightarrow> string option \<Rightarrow> tm1_object list" where
  "list_objects g conn ty =
     filter (\<lambda>ob. o_connection_id ob = conn \<and> (case ty of None \<Rightarrow> True | Some t \<Rightarrow> o_object_type ob = t))
       (g_objects g)"

definition list_by_from_object :: "graph \<Rightarrow> uuid \<Rightarrow> string option \<Rightarrow> relationship list" where
  "list_by_from_object g i ty =
     filter (\<lambda>r. rel_from r = i \<and> (case ty of None \<Rightarrow> True | Some t \<Rightarrow> rel_type r = t)) (g_relationships g)"

definition list_by_to_object :: "graph \<Rightarrow> uuid \<Rightarrow> string option \<Rightarrow> relationship list" where
  "list_by_to_object g i ty =
     filter (\<lambda>r. rel_to r = i \<and> (case ty of None \<Rightarrow> True | Some t \<Rightarrow> rel_type r = t)) (g_relationships g)"

definition list_relationships :: "graph \<Rightarrow> uuid \<Rightarrow> relationship list" where
  "list_relationships g conn = filter (\<lambda>r. rel_connection_id r = conn) (g_relationships g)"

lemma object_by_id_SomeD: "object_by_id g i = Some n \<Longrightarrow> n \<in> set (g_objects g) \<and> o_id n = i"
  by (auto simp: object_by_id_def dest: find_SomeD)

section \<open>Direct questions\<close>

definition resolve_object :: "graph \<Rightarrow> uuid \<Rightarrow> uuid \<Rightarrow> string \<Rightarrow> string \<Rightarrow> tm1_object result" where
  "resolve_object g conn org ty nm =
     (case object_by_name g conn ty nm of
        None \<Rightarrow> Inl NotFound
      | Some ob \<Rightarrow> if o_organization_id ob \<noteq> org then Inl NotFound else Inr ob)"

definition get_cube_dependencies :: "graph \<Rightarrow> uuid \<Rightarrow> uuid \<Rightarrow> string \<Rightarrow> string list result" where
  "get_cube_dependencies g conn org cube =
     bind_result (resolve_object g conn org ''cube'' cube) (\<lambda>ob.
       Inr (List.map_filter (\<lambda>r. map_option o_name (object_by_id g (rel_to r)))
              (list_by_from_object g (o_id ob) (Some ''uses_dimension''))))"

definition get_dimension_dependents :: "graph \<Rightarrow> uuid \<Rightarrow> uuid \<Rightarrow> string \<Rightarrow> string list result" where
  "get_dimension_dependents g conn org dname =
     bind_result (resolve_object g conn org ''dimension'' dname) (\<lambda>ob.
       Inr (List.map_filter (\<lambda>r. map_option o_name (object_by_id g (rel_from r)))
              (list_by_to_object g (o_id ob) (Some ''uses_dimension''))))"

text \<open>An entry of a response: relationship, object type, name.\<close>

definition related_entry :: "graph \<Rightarrow> (relationship \<Rightarrow> uuid) \<Rightarrow> relationship \<Rightarrow> (string \<times> string \<times> string) option" where
  "related_entry g far r =
     map_option (\<lambda>other. (rel_type r, o_object_type other, o_name other)) (object_by_id g (far r))"

definition get_object_relationships ::
  "graph \<Rightarrow> uuid \<Rightarrow> uuid \<Rightarrow> string \<Rightarrow> string \<Rightarrow>
     (tm1_object \<times> (string \<times> string \<times> string) list \<times> (string \<times> string \<times> string) list) result" where
  "get_object_relationships g conn org ty nm =
     bind_result (resolve_object g conn org ty nm) (\<lambda>ob.
       Inr (ob, List.map_filter (related_entry g rel_to) (list_by_from_object g (o_id ob) None),
                List.map_filter (related_entry g rel_from) (list_by_to_object g (o_id ob) None)))"

definition find_unused_objects ::
  "graph \<Rightarrow> uuid \<Rightarrow> uuid \<Rightarrow> string option \<Rightarrow> (string \<times> string) list" where
  "find_unused_objects g conn org ty =
     (let objects = filter (\<lambda>ob. o_organization_id ob = org) (list_objects g conn ty);
          rels = list_relationships g conn;
          referenced = map rel_from rels @ map rel_to rels
      in map (\<lambda>ob. (o_object_type ob, o_name ob)) (filter (\<lambda>ob. o_id ob \<notin> set referenced) objects))"

section \<open>Breadth-first traversal\<close>

definition MAX_TRAVERSAL_NODES :: nat where
  "MAX_TRAVERSAL_NODES = 1000"

text \<open>
  A row of the result. \<open>en_id\<close> is the row id the loop holds when it appends the
  entry; the response carries the other five fields.
\<close>

record entry =
  en_id :: uuid
  en_object_type :: string
  en_name :: string
  en_relationship_type :: string
  en_via :: string
  en_depth :: nat

record search =
  s_visited :: "uuid list"
  s_queue :: "(tm1_object \<times> nat) list"
  s_results :: "entry list"

datatype direction = INCOMING | OUTGOING

definition edges_at :: "graph \<Rightarrow> direction \<Rightarrow> uuid \<Rightarrow> relationship list" where
  "edges_at g dir i =
     (case dir of INCOMING \<Rightarrow> list_by_to_object g i None | OUTGOING \<Rightarrow> list_by_from_object g i None)"

definition neighbor_id :: "direction \<Rightarrow> relationship \<Rightarrow> uuid" where
  "neighbor_id dir r = (case dir of INCOMING \<Rightarrow> rel_from r | OUTGOING \<Rightarrow> rel_to r)"

text \<open>The body of \<open>for relationship in relationships\<close>, and the loop.\<close>

definition visit :: "graph \<Rightarrow> direction \<Rightarrow> tm1_object \<Rightarrow> nat \<Rightarrow> relationship \<Rightarrow> search \<Rightarrow> search" where
  "visit g dir current depth r s =
     (let i = neighbor_id dir r in
      if i \<in> set (s_visited s) then s
      else case object_by_id g i of
        None \<Rightarrow> s
      | Some n \<Rightarrow>
          s\<lparr>s_visited := i # s_visited s,
            s_results := s_results s @
              [\<lparr>en_id = i, en_object_type = o_object_type n, en_name = o_name n,
                en_relationship_type = rel_type r, en_via = o_name current, en_depth = depth + 1\<rparr>],
            s_queue := s_queue s @ [(n, depth + 1)]\<rparr>)"

definition visit_all :: "graph \<Rightarrow> direction \<Rightarrow> tm1_object \<Rightarrow> nat \<Rightarrow> relationship list \<Rightarrow> search \<Rightarrow> search" where
  "visit_all g dir current depth rs s = fold (visit g dir current depth) rs s"

text \<open>The rows not visited yet: what bounds the loop.\<close>

definition unvisited :: "graph \<Rightarrow> search \<Rightarrow> nat" where
  "unvisited g s = card (o_id ` set (g_objects g) - set (s_visited s))"

lemma visit_measure:
  "2 * unvisited g (visit g dir c d r s) + length (s_queue (visit g dir c d r s)) \<le>
     2 * unvisited g s + length (s_queue s)"
proof (cases "neighbor_id dir r \<in> set (s_visited s) \<or> object_by_id g (neighbor_id dir r) = None")
  case False
  let ?i = "neighbor_id dir r" and ?ids = "o_id ` set (g_objects g)"
  obtain n where n: "object_by_id g ?i = Some n" using False by auto
  then have "?i \<in> ?ids" using object_by_id_SomeD [OF n] by (metis image_eqI)
  then have "?i \<in> ?ids - set (s_visited s)" using False n by auto
  then have "card (?ids - set (s_visited s) - {?i}) < card (?ids - set (s_visited s))"
    by (intro card_Diff1_less) auto
  moreover have "?ids - insert ?i (set (s_visited s)) = ?ids - set (s_visited s) - {?i}" by auto
  ultimately show ?thesis
    using False n by (simp add: visit_def Let_def unvisited_def)
qed (auto simp: visit_def Let_def)

lemma visit_all_measure:
  "2 * unvisited g (visit_all g dir c d rs s) + length (s_queue (visit_all g dir c d rs s)) \<le>
     2 * unvisited g s + length (s_queue s)"
proof (induction rs arbitrary: s)
  case (Cons r rs)
  have "visit_all g dir c d (r # rs) s = visit_all g dir c d rs (visit g dir c d r s)"
    by (simp add: visit_all_def)
  then show ?case
    using order_trans [OF Cons.IH visit_measure] by simp
qed (simp add: visit_all_def)

lemma unvisited_queue [simp]: "unvisited g (s\<lparr>s_queue := q\<rparr>) = unvisited g s"
  by (simp add: unvisited_def)

function search_loop :: "graph \<Rightarrow> direction \<Rightarrow> nat \<Rightarrow> search \<Rightarrow> search" where
  "search_loop g dir max_depth s =
     (case s_queue s of
        [] \<Rightarrow> s
      | (current, depth) # rest \<Rightarrow>
          if length (s_visited s) \<ge> MAX_TRAVERSAL_NODES then s
          else
            let s1 = s\<lparr>s_queue := rest\<rparr> in
            search_loop g dir max_depth
              (if depth \<ge> max_depth then s1
               else visit_all g dir current depth (edges_at g dir (o_id current)) s1))"
  by pat_completeness auto

termination search_loop
proof (relation "measure (\<lambda>(g, dir, max_depth, s). 2 * unvisited g s + length (s_queue s))", goal_cases)
  case 1
  then show ?case by simp
next
  case (2 g dir max_depth s p rest current depth s1)
  have "2 * unvisited g (visit_all g dir current depth (edges_at g dir (o_id current)) s1) +
      length (s_queue (visit_all g dir current depth (edges_at g dir (o_id current)) s1)) \<le>
      2 * unvisited g s1 + length (s_queue s1)"
    by (rule visit_all_measure)
  moreover have "2 * unvisited g s1 + length (s_queue s1) < 2 * unvisited g s + length (s_queue s)"
    using 2 by simp
  ultimately show ?case by simp
qed

declare search_loop.simps [simp del]

definition traverse :: "graph \<Rightarrow> tm1_object \<Rightarrow> direction \<Rightarrow> nat \<Rightarrow> entry list" where
  "traverse g start dir max_depth =
     s_results (search_loop g dir max_depth
       \<lparr>s_visited = [o_id start], s_queue = [(start, 0)], s_results = []\<rparr>)"

definition find_dependents ::
  "graph \<Rightarrow> uuid \<Rightarrow> uuid \<Rightarrow> string \<Rightarrow> string \<Rightarrow> nat \<Rightarrow> entry list result" where
  "find_dependents g conn org ty nm max_depth =
     bind_result (resolve_object g conn org ty nm) (\<lambda>start. Inr (traverse g start INCOMING max_depth))"

definition find_dependencies ::
  "graph \<Rightarrow> uuid \<Rightarrow> uuid \<Rightarrow> string \<Rightarrow> string \<Rightarrow> nat \<Rightarrow> entry list result" where
  "find_dependencies g conn org ty nm max_depth =
     bind_result (resolve_object g conn org ty nm) (\<lambda>start. Inr (traverse g start OUTGOING max_depth))"

section \<open>What the traversal computes\<close>

definition adjacent :: "graph \<Rightarrow> direction \<Rightarrow> uuid \<Rightarrow> uuid \<Rightarrow> bool" where
  "adjacent g dir a b \<longleftrightarrow>
     object_by_id g b \<noteq> None \<and> (\<exists>r \<in> set (edges_at g dir a). neighbor_id dir r = b)"

lemma adjacent_converse:
  assumes "object_by_id g a \<noteq> None" "object_by_id g b \<noteq> None"
  shows "adjacent g INCOMING a b \<longleftrightarrow> adjacent g OUTGOING b a"
  using assms
  by (auto simp: adjacent_def edges_at_def neighbor_id_def list_by_to_object_def list_by_from_object_def)

definition pushed :: "graph \<Rightarrow> nat \<Rightarrow> entry list \<Rightarrow> (tm1_object \<times> nat) list" where
  "pushed g k new = map (\<lambda>e. (the (object_by_id g (en_id e)), k)) new"

lemma pushed_simps [simp]: "pushed g k [] = []"
  "pushed g k (a @ b) = pushed g k a @ pushed g k b"
  "map snd (pushed g k new) = replicate (length new) k"
  by (simp_all add: pushed_def o_def map_replicate_const)

lemma visit_all_effect:
  obtains new where
    "s_results (visit_all g dir c d rs s) = s_results s @ new"
    "s_queue (visit_all g dir c d rs s) = s_queue s @ pushed g (d + 1) new"
    "s_visited (visit_all g dir c d rs s) = rev (map en_id new) @ s_visited s"
    "distinct (map en_id new)"
    "\<And>e. e \<in> set new \<Longrightarrow> en_depth e = d + 1 \<and> en_id e \<notin> set (s_visited s) \<and>
       object_by_id g (en_id e) \<noteq> None \<and> (\<exists>r \<in> set rs. neighbor_id dir r = en_id e)"
    "\<And>r. r \<in> set rs \<Longrightarrow> object_by_id g (neighbor_id dir r) \<noteq> None \<Longrightarrow>
       neighbor_id dir r \<in> set (s_visited s) \<union> en_id ` set new"
proof (induction rs arbitrary: s thesis)
  case Nil
  show ?case by (rule Nil [of "[]"]) (simp_all add: visit_all_def)
next
  case (Cons r rs)
  let ?i = "neighbor_id dir r" and ?s = "visit g dir c d r s"
  have step: "visit_all g dir c d (r # rs) s = visit_all g dir c d rs ?s"
    by (simp add: visit_all_def)
  obtain new where new:
    "s_results (visit_all g dir c d rs ?s) = s_results ?s @ new"
    "s_queue (visit_all g dir c d rs ?s) = s_queue ?s @ pushed g (d + 1) new"
    "s_visited (visit_all g dir c d rs ?s) = rev (map en_id new) @ s_visited ?s"
    "distinct (map en_id new)"
    "\<And>e. e \<in> set new \<Longrightarrow> en_depth e = d + 1 \<and> en_id e \<notin> set (s_visited ?s) \<and>
       object_by_id g (en_id e) \<noteq> None \<and> (\<exists>r \<in> set rs. neighbor_id dir r = en_id e)"
    "\<And>r. r \<in> set rs \<Longrightarrow> object_by_id g (neighbor_id dir r) \<noteq> None \<Longrightarrow>
       neighbor_id dir r \<in> set (s_visited ?s) \<union> en_id ` set new"
    using Cons.IH [of ?s] by metis
  show ?case
  proof (cases "?i \<in> set (s_visited s) \<or> object_by_id g ?i = None")
    case True
    then have "?s = s" by (auto simp: visit_def Let_def)
    then show ?thesis
      by (intro Cons.prems [of new]) (use new True step in auto)
  next
    case False
    then obtain n where n: "object_by_id g ?i = Some n" by auto
    define e where "e = \<lparr>en_id = ?i, en_object_type = o_object_type n, en_name = o_name n,
       en_relationship_type = rel_type r, en_via = o_name c, en_depth = d + 1\<rparr>"
    have s: "s_results ?s = s_results s @ [e]" "s_queue ?s = s_queue s @ pushed g (d + 1) [e]"
      "s_visited ?s = ?i # s_visited s"
      using False n by (simp_all add: visit_def Let_def e_def pushed_def)
    have e: "en_id e = ?i" "en_depth e = d + 1" by (simp_all add: e_def)
    have "?i \<notin> en_id ` set new" using new(5) s(3) by fastforce
    then show ?thesis
      by (intro Cons.prems [of "e # new"]) (use new s e False step in \<open>auto simp: pushed_def\<close>)
  qed
qed

definition labelled :: "uuid \<Rightarrow> entry list \<Rightarrow> uuid \<Rightarrow> nat \<Rightarrow> bool" where
  "labelled start rs v k \<longleftrightarrow> (v = start \<and> k = 0) \<or> (\<exists>e \<in> set rs. en_id e = v \<and> en_depth e = k)"

definition search_ok :: "graph \<Rightarrow> direction \<Rightarrow> nat \<Rightarrow> uuid \<Rightarrow> search \<Rightarrow> bool" where
  "search_ok g dir m start s \<longleftrightarrow>
     distinct (s_visited s) \<and>
     s_visited s = rev (map en_id (s_results s)) @ [start] \<and>
     set (s_visited s) \<subseteq> o_id ` set (g_objects g) \<and>
     (\<forall>v k. labelled start (s_results s) v k \<longrightarrow> (adjacent g dir ^^ k) start v \<and> k \<le> m) \<and>
     (\<forall>(n, k) \<in> set (s_queue s). labelled start (s_results s) (o_id n) k) \<and>
     sorted (map snd (s_queue s)) \<and>
     (\<forall>v k. labelled start (s_results s) v k \<longrightarrow> (\<forall>j \<in> set (map snd (s_queue s)). k \<le> j + 1))"

definition expanded :: "graph \<Rightarrow> direction \<Rightarrow> nat \<Rightarrow> uuid \<Rightarrow> entry list \<Rightarrow> uuid \<Rightarrow> bool" where
  "expanded g dir m start rs v \<longleftrightarrow>
     (\<forall>k w. labelled start rs v k \<longrightarrow> k < m \<longrightarrow> adjacent g dir v w \<longrightarrow>
        (\<exists>j. labelled start rs w j \<and> j \<le> k + 1))"

definition frontier_ok :: "graph \<Rightarrow> direction \<Rightarrow> nat \<Rightarrow> uuid \<Rightarrow> search \<Rightarrow> bool" where
  "frontier_ok g dir m start s \<longleftrightarrow>
     (\<forall>v k. labelled start (s_results s) v k \<longrightarrow>
        v \<in> o_id ` fst ` set (s_queue s) \<or> expanded g dir m start (s_results s) v)"

lemma labelled_append:
  "labelled start (rs @ new) v k \<longleftrightarrow> labelled start rs v k \<or> (\<exists>e \<in> set new. en_id e = v \<and> en_depth e = k)"
  by (auto simp: labelled_def)

lemma labelled_visited:
  "s_visited s = rev (map en_id (s_results s)) @ [start] \<Longrightarrow>
     v \<in> set (s_visited s) \<longleftrightarrow> (\<exists>k. labelled start (s_results s) v k)"
  by (auto simp: labelled_def)

lemma labelled_unique:
  assumes "distinct (rev (map en_id rs) @ [start])" "labelled start rs v k" "labelled start rs v j"
  shows "k = j"
  using assms by (auto simp: labelled_def distinct_map inj_on_def)

lemma search_loop_Nil: "s_queue s = [] \<Longrightarrow> search_loop g dir m s = s"
  by (simp add: search_loop.simps [of g dir m s])

lemma search_ok_cap:
  assumes "search_ok g dir m start s" "length (g_objects g) < MAX_TRAVERSAL_NODES"
  shows "length (s_visited s) < MAX_TRAVERSAL_NODES"
proof -
  have "length (s_visited s) = card (set (s_visited s))"
    using assms(1) unfolding search_ok_def by (metis distinct_card)
  also have "\<dots> \<le> card (o_id ` set (g_objects g))"
    using assms(1) by (intro card_mono) (auto simp: search_ok_def)
  also have "\<dots> \<le> length (g_objects g)"
    by (meson card_image_le card_length le_trans List.finite_set)
  finally show ?thesis using assms(2) by simp
qed

text \<open>Popping a node at the depth limit, and popping and expanding one above it.\<close>

lemma search_ok_pop:
  "search_ok g dir m start s \<Longrightarrow> s_queue s = q # rest \<Longrightarrow> search_ok g dir m start (s\<lparr>s_queue := rest\<rparr>)"
  by (auto simp: search_ok_def)

lemma search_ok_expand:
  assumes ok: "search_ok g dir m start s" and q: "s_queue s = (c, d) # rest" and d: "d < m"
    and s': "s' = visit_all g dir c d (edges_at g dir (o_id c)) (s\<lparr>s_queue := rest\<rparr>)"
  shows "search_ok g dir m start s'"
    and "labelled start (s_results s) v k \<Longrightarrow> labelled start (s_results s') v k"
    and "fst ` set rest \<subseteq> fst ` set (s_queue s')"
    and "labelled start (s_results s') v k \<Longrightarrow> \<not> labelled start (s_results s) v k \<Longrightarrow>
           v \<in> o_id ` fst ` set (s_queue s')"
    and "adjacent g dir (o_id c) w \<Longrightarrow> \<exists>j. labelled start (s_results s') w j \<and> j \<le> d + 1"
proof -
  let ?s = "s\<lparr>s_queue := rest\<rparr>" and ?es = "edges_at g dir (o_id c)"
  obtain new where eff: "s_results s' = s_results ?s @ new" "s_queue s' = s_queue ?s @ pushed g (d + 1) new"
    "s_visited s' = rev (map en_id new) @ s_visited ?s" and dist: "distinct (map en_id new)"
    and new0: "\<And>e. e \<in> set new \<Longrightarrow> en_depth e = d + 1 \<and> en_id e \<notin> set (s_visited ?s) \<and>
       object_by_id g (en_id e) \<noteq> None \<and> (\<exists>r \<in> set ?es. neighbor_id dir r = en_id e)"
    and all0: "\<And>r. r \<in> set ?es \<Longrightarrow> object_by_id g (neighbor_id dir r) \<noteq> None \<Longrightarrow>
       neighbor_id dir r \<in> set (s_visited ?s) \<union> en_id ` set new"
    unfolding s' by (rule visit_all_effect [of g dir c d ?es ?s]) blast
  have res: "s_results s' = s_results s @ new" and que: "s_queue s' = rest @ pushed g (d + 1) new"
    and vis: "s_visited s' = rev (map en_id new) @ s_visited s"
    using eff by simp_all
  have new: "en_depth e = d + 1 \<and> en_id e \<notin> set (s_visited s) \<and>
       object_by_id g (en_id e) \<noteq> None \<and> (\<exists>r \<in> set ?es. neighbor_id dir r = en_id e)"
    if "e \<in> set new" for e using new0 [OF that] by simp
  have all: "neighbor_id dir r \<in> set (s_visited s) \<union> en_id ` set new"
    if "r \<in> set ?es" "object_by_id g (neighbor_id dir r) \<noteq> None" for r using all0 [OF that] by simp
  show lab: "labelled start (s_results s) v k \<Longrightarrow> labelled start (s_results s') v k" for v k
    by (simp add: res labelled_append)
  have cur: "labelled start (s_results s) (o_id c) d" using ok q by (auto simp: search_ok_def)
  have vis0: "s_visited s = rev (map en_id (s_results s)) @ [start]" using ok by (simp add: search_ok_def)
  have obj: "o_id (the (object_by_id g (en_id e))) = en_id e" if "e \<in> set new" for e
    using new [OF that] object_by_id_SomeD by fastforce
  have le: "k \<le> d + 1" if "labelled start (s_results s) v k" for v k
    using ok q that by (auto simp: search_ok_def)
  have path: "(adjacent g dir ^^ Suc d) start (en_id e)" if "e \<in> set new" for e
  proof (rule relpowp_Suc_I)
    show "(adjacent g dir ^^ d) start (o_id c)" using ok cur by (simp add: search_ok_def)
    show "adjacent g dir (o_id c) (en_id e)" using new [OF that] by (auto simp: adjacent_def)
  qed
  show "fst ` set rest \<subseteq> fst ` set (s_queue s')" by (auto simp: que)
  show "v \<in> o_id ` fst ` set (s_queue s')"
    if l: "labelled start (s_results s') v k" "\<not> labelled start (s_results s) v k" for v k
  proof -
    obtain e where "e \<in> set new" "en_id e = v" using l by (auto simp: res labelled_append)
    then show ?thesis using obj by (force simp: que pushed_def)
  qed
  show "\<exists>j. labelled start (s_results s') w j \<and> j \<le> d + 1" if "adjacent g dir (o_id c) w" for w
  proof -
    have "w \<in> set (s_visited s) \<union> en_id ` set new" using that all by (auto simp: adjacent_def)
    then show ?thesis
      using labelled_visited [OF vis0] le lab new by (auto simp: res labelled_append)
  qed
  have d1: "distinct (s_visited s')" using ok dist new by (auto simp: vis search_ok_def)
  have d2: "s_visited s' = rev (map en_id (s_results s')) @ [start]" by (simp add: vis vis0 res)
  have d3: "set (s_visited s') \<subseteq> o_id ` set (g_objects g)"
  proof -
    have "en_id e \<in> o_id ` set (g_objects g)" if "e \<in> set new" for e
      using new [OF that] object_by_id_SomeD by (metis image_eqI option.exhaust)
    then show ?thesis using ok by (auto simp: vis search_ok_def)
  qed
  have d4: "(adjacent g dir ^^ k) start v \<and> k \<le> m" if "labelled start (s_results s') v k" for v k
    using that ok path new d by (auto simp: res labelled_append search_ok_def)
  have d5: "labelled start (s_results s') (o_id n) k" if "(n, k) \<in> set (s_queue s')" for n k
    using that ok q lab obj new by (auto simp: que pushed_def search_ok_def res labelled_append)
  have d6: "sorted (map snd (s_queue s'))"
  proof -
    have "j \<le> d + 1" if "j \<in> snd ` set rest" for j
      using that ok q le by (auto simp: search_ok_def)
    then show ?thesis using ok q by (auto simp: que search_ok_def sorted_append)
  qed
  have d7: "k \<le> j + 1" if "labelled start (s_results s') v k" "j \<in> set (map snd (s_queue s'))" for v k j
  proof -
    have "d \<le> j" using that(2) ok q by (auto simp: que search_ok_def)
    moreover have "k \<le> d + 1" using that(1) le new by (auto simp: res labelled_append)
    ultimately show ?thesis by simp
  qed
  show "search_ok g dir m start s'"
    unfolding search_ok_def using d1 d2 d3 d4 d5 d6 d7 by blast
qed

lemma frontier_ok_expand:
  assumes ok: "search_ok g dir m start s" and fr: "frontier_ok g dir m start s"
    and q: "s_queue s = (c, d) # rest" and d: "d < m"
    and s': "s' = visit_all g dir c d (edges_at g dir (o_id c)) (s\<lparr>s_queue := rest\<rparr>)"
  shows "frontier_ok g dir m start s'"
  unfolding frontier_ok_def
proof (intro allI impI)
  note ex = search_ok_expand [OF ok q d s']
  fix v k assume l: "labelled start (s_results s') v k"
  have dist: "distinct (rev (map en_id (s_results s')) @ [start])"
    using ex(1) unfolding search_ok_def by metis
  show "v \<in> o_id ` fst ` set (s_queue s') \<or> expanded g dir m start (s_results s') v"
  proof (cases "labelled start (s_results s) v k")
    case False
    then show ?thesis using ex(4) [OF l] by blast
  next
    case True
    have keep: "expanded g dir m start (s_results s') v" if "expanded g dir m start (s_results s) v"
      using that True ex(2) labelled_unique [OF dist] unfolding expanded_def by metis
    consider "v = o_id c" | "v \<in> o_id ` fst ` set rest" | "expanded g dir m start (s_results s) v"
      using fr True q by (fastforce simp: frontier_ok_def)
    then show ?thesis
    proof cases
      case 1
      have "labelled start (s_results s') (o_id c) d"
        using ok q ex(2) by (auto simp: search_ok_def)
      then have "expanded g dir m start (s_results s') v"
        using 1 ex(5) labelled_unique [OF dist] unfolding expanded_def by metis
      then show ?thesis ..
    next
      case 2
      then have "v \<in> o_id ` fst ` set (s_queue s')" using ex(3) by (meson image_mono subsetD)
      then show ?thesis ..
    qed (use keep in blast)
  qed
qed

lemma frontier_ok_pop:
  assumes ok: "search_ok g dir m start s" and fr: "frontier_ok g dir m start s"
    and q: "s_queue s = (c, d) # rest" and d: "\<not> d < m"
  shows "frontier_ok g dir m start (s\<lparr>s_queue := rest\<rparr>)"
proof -
  have dist: "distinct (rev (map en_id (s_results s)) @ [start])"
    using ok unfolding search_ok_def by metis
  have "labelled start (s_results s) (o_id c) d" using ok q by (auto simp: search_ok_def)
  then have "expanded g dir m start (s_results s) (o_id c)"
    using d labelled_unique [OF dist] unfolding expanded_def by metis
  then show ?thesis using fr q by (fastforce simp: frontier_ok_def)
qed

lemma search_loop_ok:
  assumes "search_ok g dir m start s" "frontier_ok g dir m start s"
    and "length (g_objects g) < MAX_TRAVERSAL_NODES"
  shows "search_ok g dir m start (search_loop g dir m s) \<and>
     frontier_ok g dir m start (search_loop g dir m s) \<and> s_queue (search_loop g dir m s) = []"
  using assms
proof (induction g dir m s rule: search_loop.induct)
  case (1 g dir m s)
  show ?case
  proof (cases "s_queue s")
    case Nil
    then show ?thesis using "1.prems" by (simp add: search_loop_Nil)
  next
    case (Cons q rest)
    obtain c d where q: "q = (c, d)" by (cases q)
    have cap: "\<not> MAX_TRAVERSAL_NODES \<le> length (s_visited s)"
      using search_ok_cap [OF "1.prems"(1,3)] by simp
    let ?next = "if m \<le> d then s\<lparr>s_queue := rest\<rparr>
      else visit_all g dir c d (edges_at g dir (o_id c)) (s\<lparr>s_queue := rest\<rparr>)"
    have step: "search_loop g dir m s = search_loop g dir m ?next"
      using Cons q cap by (subst search_loop.simps) simp
    have ok: "search_ok g dir m start ?next"
      using search_ok_pop [OF "1.prems"(1) Cons]
        search_ok_expand(1) [OF "1.prems"(1) Cons [unfolded q] _ refl] by simp
    have fr: "frontier_ok g dir m start ?next"
      using frontier_ok_pop [OF "1.prems"(1,2) Cons [unfolded q]]
        frontier_ok_expand [OF "1.prems"(1,2) Cons [unfolded q] _ refl] by simp
    show ?thesis
      unfolding step using "1.IH" [OF Cons q [symmetric] cap refl] ok fr "1.prems"(3) by simp
  qed
qed

lemma frontier_complete:
  assumes fr: "frontier_ok g dir m start s" and q: "s_queue s = []"
    and p: "(adjacent g dir ^^ k) start v" and k: "k \<le> m"
  shows "\<exists>j \<le> k. labelled start (s_results s) v j"
  using p k
proof (induction k arbitrary: v)
  case 0
  then show ?case by (auto simp: labelled_def)
next
  case (Suc k)
  obtain u where u: "(adjacent g dir ^^ k) start u" "adjacent g dir u v"
    using Suc.prems(1) by (rule relpowp_Suc_E)
  then obtain j where j: "j \<le> k" "labelled start (s_results s) u j" using Suc by auto
  then have "expanded g dir m start (s_results s) u" using fr q by (auto simp: frontier_ok_def)
  moreover have "j < m" using j(1) Suc.prems(2) by simp
  ultimately obtain i where "labelled start (s_results s) v i" "i \<le> j + 1"
    using j(2) u(2) unfolding expanded_def by blast
  moreover have "i \<le> Suc k" using calculation(2) j(1) by simp
  ultimately show ?case by blast
qed

lemma traverse_correct:
  assumes start: "object_by_id g (o_id start) = Some start"
    and small: "length (g_objects g) < MAX_TRAVERSAL_NODES"
  shows "distinct (o_id start # map en_id (traverse g start dir m))"
    and "e \<in> set (traverse g start dir m) \<Longrightarrow> (adjacent g dir ^^ en_depth e) (o_id start) (en_id e) \<and>
       en_depth e \<le> m \<and> (\<forall>k < en_depth e. \<not> (adjacent g dir ^^ k) (o_id start) (en_id e))"
    and "(adjacent g dir ^^ k) (o_id start) v \<Longrightarrow> k \<le> m \<Longrightarrow> v \<noteq> o_id start \<Longrightarrow>
       \<exists>e \<in> set (traverse g start dir m). en_id e = v"
proof -
  let ?i = "o_id start"
  let ?init = "\<lparr>s_visited = [?i], s_queue = [(start, 0)], s_results = []\<rparr>"
  let ?s = "search_loop g dir m ?init"
  have "?i \<in> o_id ` set (g_objects g)" using object_by_id_SomeD [OF start] by blast
  then have "search_ok g dir m ?i ?init" "frontier_ok g dir m ?i ?init"
    by (auto simp: search_ok_def frontier_ok_def labelled_def)
  from search_loop_ok [OF this small]
  have ok: "search_ok g dir m ?i ?s" and fr: "frontier_ok g dir m ?i ?s" and q: "s_queue ?s = []"
    by auto
  have t: "traverse g start dir m = s_results ?s" by (simp add: traverse_def)
  have dist: "distinct (rev (map en_id (s_results ?s)) @ [?i])"
    using ok unfolding search_ok_def by metis
  then show "distinct (?i # map en_id (traverse g start dir m))" by (simp add: t)
  show "\<exists>e \<in> set (traverse g start dir m). en_id e = v"
    if "(adjacent g dir ^^ k) ?i v" "k \<le> m" "v \<noteq> ?i"
    using frontier_complete [OF fr q that(1,2)] that(3) by (auto simp: labelled_def t)
  show "(adjacent g dir ^^ en_depth e) ?i (en_id e) \<and> en_depth e \<le> m \<and>
      (\<forall>k < en_depth e. \<not> (adjacent g dir ^^ k) ?i (en_id e))"
    if e: "e \<in> set (traverse g start dir m)"
  proof -
    have l: "labelled ?i (s_results ?s) (en_id e) (en_depth e)"
      using e by (auto simp: labelled_def t)
    then have p: "(adjacent g dir ^^ en_depth e) ?i (en_id e)" "en_depth e \<le> m"
      using ok by (auto simp: search_ok_def)
    have "\<not> (adjacent g dir ^^ k) ?i (en_id e)" if k: "k < en_depth e" for k
    proof
      assume "(adjacent g dir ^^ k) ?i (en_id e)"
      then obtain j where "j \<le> k" "labelled ?i (s_results ?s) (en_id e) j"
        using frontier_complete [OF fr q, of k] k p(2) by auto
      moreover from this(2) have "j = en_depth e" using labelled_unique [OF dist _ l] by blast
      ultimately show False using k by simp
    qed
    with p show ?thesis by blast
  qed
qed

section \<open>Properties\<close>

definition objects_ok :: "graph \<Rightarrow> bool" where
  "objects_ok g \<longleftrightarrow> distinct (map o_id (g_objects g))"

lemma object_by_id_member:
  assumes "objects_ok g" "ob \<in> set (g_objects g)"
  shows "object_by_id g (o_id ob) = Some ob"
  using assms find_distinct_unique [of o_id "g_objects g" ob]
  by (auto simp: objects_ok_def object_by_id_def)

lemma resolve_object_InrD:
  assumes "objects_ok g" "resolve_object g conn org ty nm = Inr ob"
  shows "object_by_id g (o_id ob) = Some ob" "o_organization_id ob = org" "o_name ob = nm"
    "o_object_type ob = ty"
proof -
  have "ob \<in> set (g_objects g)" and f: "o_organization_id ob = org" "o_name ob = nm" "o_object_type ob = ty"
    using assms(2)
    by (auto simp: resolve_object_def object_by_name_def dest: find_SomeD split: option.splits if_splits)
  then show "object_by_id g (o_id ob) = Some ob" using assms(1) by (simp add: object_by_id_member)
  show "o_organization_id ob = org" "o_name ob = nm" "o_object_type ob = ty" using f by simp_all
qed

definition at_distance :: "graph \<Rightarrow> direction \<Rightarrow> uuid \<Rightarrow> uuid \<Rightarrow> nat \<Rightarrow> bool" where
  "at_distance g dir a b k \<longleftrightarrow> (adjacent g dir ^^ k) a b \<and> (\<forall>j < k. \<not> (adjacent g dir ^^ j) a b)"

lemma traverse_iff:
  assumes start: "object_by_id g (o_id start) = Some start"
    and small: "length (g_objects g) < MAX_TRAVERSAL_NODES"
  shows "(\<exists>e \<in> set (traverse g start dir m). en_id e = v \<and> en_depth e = k) \<longleftrightarrow>
     v \<noteq> o_id start \<and> k \<le> m \<and> at_distance g dir (o_id start) v k"
proof
  assume "\<exists>e \<in> set (traverse g start dir m). en_id e = v \<and> en_depth e = k"
  then obtain e where e: "e \<in> set (traverse g start dir m)" "en_id e = v" "en_depth e = k" by blast
  moreover have "o_id start \<notin> en_id ` set (traverse g start dir m)"
    using traverse_correct(1) [OF start small, of dir m] by simp
  ultimately have "v \<noteq> o_id start" by (metis image_eqI)
  with e show "v \<noteq> o_id start \<and> k \<le> m \<and> at_distance g dir (o_id start) v k"
    using traverse_correct(2) [OF start small e(1)] e(2,3) by (simp add: at_distance_def)
next
  assume v: "v \<noteq> o_id start \<and> k \<le> m \<and> at_distance g dir (o_id start) v k"
  then obtain e where e: "e \<in> set (traverse g start dir m)" "en_id e = v"
    using traverse_correct(3) [OF start small] unfolding at_distance_def by blast
  moreover have "en_depth e = k"
    using traverse_correct(2) [OF start small e(1)] v e(2) unfolding at_distance_def
    by (metis linorder_neqE_nat)
  ultimately show "\<exists>e \<in> set (traverse g start dir m). en_id e = v \<and> en_depth e = k" by blast
qed

text \<open>
  C10. find_dependents terminates on every graph, cycles included, and returns each object
  at most once: exactly the objects reachable over incoming edges within max_depth steps,
  each with its shortest distance (for graphs under the traversal cap).
\<close>

theorem find_dependents_exact:
  assumes "objects_ok g" "length (g_objects g) < MAX_TRAVERSAL_NODES"
    and "resolve_object g conn org ty nm = Inr start"
  shows "\<exists>es. find_dependents g conn org ty nm m = Inr es \<and> distinct (map en_id es) \<and>
     (\<forall>v k. (\<exists>e \<in> set es. en_id e = v \<and> en_depth e = k) \<longleftrightarrow>
        v \<noteq> o_id start \<and> k \<le> m \<and> at_distance g INCOMING (o_id start) v k)"
proof -
  note start = resolve_object_InrD(1) [OF assms(1,3)]
  show ?thesis
    using traverse_iff [OF start assms(2)] traverse_correct(1) [OF start assms(2), of INCOMING m] assms(3)
    by (auto simp: find_dependents_def)
qed

definition demo_object :: "string \<Rightarrow> string \<Rightarrow> tm1_object" where
  "demo_object i ty =
     \<lparr>o_id = i, o_organization_id = ''o1'', o_connection_id = ''c1'', o_object_type = ty, o_name = i\<rparr>"

definition demo_edge :: "string \<Rightarrow> string \<Rightarrow> string \<Rightarrow> relationship" where
  "demo_edge a ty b = \<lparr>rel_connection_id = ''c1'', rel_from = a, rel_to = b, rel_type = ty\<rparr>"

text \<open>Two cubes whose rules read each other, over one dimension.\<close>

definition demo_graph :: graph where
  "demo_graph =
     \<lparr>g_objects = [demo_object ''D'' ''dimension'', demo_object ''A'' ''cube'', demo_object ''B'' ''cube''],
      g_relationships = [demo_edge ''A'' ''uses_dimension'' ''D'', demo_edge ''A'' ''references_cube'' ''B'',
        demo_edge ''B'' ''references_cube'' ''A'']\<rparr>"

lemma find_dependents_exact_witness:
  "\<exists>es. find_dependents demo_graph ''c1'' ''o1'' ''dimension'' ''D'' 4 = Inr es \<and>
     (\<forall>v k. (\<exists>e \<in> set es. en_id e = v \<and> en_depth e = k) \<longleftrightarrow>
        v \<noteq> ''D'' \<and> k \<le> 4 \<and> at_distance demo_graph INCOMING ''D'' v k)"
proof -
  have "objects_ok demo_graph" "length (g_objects demo_graph) < MAX_TRAVERSAL_NODES"
    by (simp_all add: objects_ok_def demo_graph_def demo_object_def MAX_TRAVERSAL_NODES_def)
  moreover have "resolve_object demo_graph ''c1'' ''o1'' ''dimension'' ''D'' = Inr (demo_object ''D'' ''dimension'')"
    by (simp add: resolve_object_def object_by_name_def demo_graph_def demo_object_def)
  ultimately show ?thesis
    using find_dependents_exact [of demo_graph "''c1''" "''o1''" "''dimension''" "''D''" _ 4]
    by (fastforce simp: demo_object_def)
qed

lemma demo_dependents:
  "map (\<lambda>e. (en_id e, en_depth e)) (traverse demo_graph (demo_object ''D'' ''dimension'') INCOMING 4)
     = [(''A'', 1), (''B'', 2)]"
  by code_simp

end
