(* ===== verification/Impact.thy ===== *)
theory Impact
  imports DependencyGraph "HOL-Library.Product_Lexorder"
begin

text \<open>
  Impact analysis, \<open>tm1/impact/analyzer.py\<close>: every object a change reaches, one
  entry per object with the worst way it is affected, ranked. The freshness
  block of the response is left out.
\<close>

section \<open>Severities\<close>

datatype severity = CRITICAL | HIGH | MEDIUM | LOW

definition SEVERITIES :: "severity list" where
  "SEVERITIES = [CRITICAL, HIGH, MEDIUM, LOW]"

primrec severity_index :: "severity \<Rightarrow> nat" where
  "severity_index CRITICAL = 0"
| "severity_index HIGH = 1"
| "severity_index MEDIUM = 2"
| "severity_index LOW = 3"

text \<open>
  \<open>SEVERITIES.index\<close> orders the severities: the smaller, the worse. The
  instance makes that order the one the library's sort uses.
\<close>

lemma SEVERITIES_index: "SEVERITIES ! severity_index s = s"
  by (cases s) (simp_all add: SEVERITIES_def)

lemma severity_index_inj [simp]: "severity_index s = severity_index t \<longleftrightarrow> s = t"
  by (cases s; cases t) simp_all

instantiation severity :: linorder
begin

definition less_eq_severity :: "severity \<Rightarrow> severity \<Rightarrow> bool" where
  "s \<le> t \<longleftrightarrow> severity_index s \<le> severity_index t"

definition less_severity :: "severity \<Rightarrow> severity \<Rightarrow> bool" where
  "s < t \<longleftrightarrow> severity_index s < severity_index t"

instance
  by standard (auto simp: less_eq_severity_def less_severity_def)

end

definition lower_severity :: "severity \<Rightarrow> nat \<Rightarrow> severity" where
  "lower_severity s steps =
     SEVERITIES ! min (severity_index s + steps) (length SEVERITIES - 1)"

section \<open>The tables\<close>

definition BASE :: "(string \<times> severity \<times> severity) list" where
  "BASE =
     [(''uses_dimension'', HIGH, CRITICAL),
      (''references_cube'', MEDIUM, CRITICAL),
      (''calls_process'', MEDIUM, CRITICAL),
      (''runs_process'', MEDIUM, CRITICAL),
      (''view_of_cube'', LOW, HIGH),
      (''subset_of_dimension'', LOW, HIGH),
      (''reads_cube'', MEDIUM, HIGH),
      (''reads_view'', MEDIUM, HIGH),
      (''uses_view'', MEDIUM, HIGH),
      (''uses_subset'', MEDIUM, HIGH),
      (''references_dimension'', MEDIUM, HIGH),
      (''updates_cube'', MEDIUM, HIGH),
      (''updates_dimension'', MEDIUM, HIGH)]"

definition DEFAULT :: "severity \<times> severity" where
  "DEFAULT = (LOW, MEDIUM)"

definition REASON :: "(string \<times> string) list" where
  "REASON =
     [(''uses_dimension'', ''is built on it''),
      (''references_cube'', ''has rules that read it''),
      (''calls_process'', ''runs it with ExecuteProcess''),
      (''runs_process'', ''runs it on a schedule''),
      (''view_of_cube'', ''is a view of it''),
      (''subset_of_dimension'', ''is a subset of it''),
      (''reads_cube'', ''reads data from it''),
      (''reads_view'', ''loads from this view''),
      (''uses_view'', ''uses this view''),
      (''uses_subset'', ''uses this subset''),
      (''references_dimension'', ''looks elements up in it''),
      (''updates_cube'', ''writes data into it''),
      (''updates_dimension'', ''changes its elements or attributes'')]"

section \<open>Items\<close>

datatype ChangeKind = MODIFY | DELETE

definition change_kind_of :: "string \<Rightarrow> ChangeKind result" where
  "change_kind_of s =
     (if s = ''modify'' then Inr MODIFY else if s = ''delete'' then Inr DELETE else Inl ValueError)"

record item =
  i_object_type :: string
  i_name :: string
  i_severity :: severity
  i_reason :: string
  i_depth :: nat
  i_relationship :: string
  i_via :: "string option"

definition column :: "ChangeKind \<Rightarrow> severity \<times> severity \<Rightarrow> severity" where
  "column kind p = (case kind of MODIFY \<Rightarrow> fst p | DELETE \<Rightarrow> snd p)"

definition rules_items :: "bool \<Rightarrow> string \<Rightarrow> item list" where
  "rules_items rules_change nm =
     (if rules_change
      then [\<lparr>i_object_type = ''cube'', i_name = nm, i_severity = HIGH,
             i_reason = ''its rule-calculated values change with the new rules'', i_depth = 0,
             i_relationship = ''rules'', i_via = None\<rparr>]
      else [])"

definition written_item :: "ChangeKind \<Rightarrow> entry \<Rightarrow> item option" where
  "written_item kind t =
     (if en_relationship_type t \<in> {''updates_cube'', ''updates_dimension''} then
        let what = (if en_relationship_type t = ''updates_cube'' then ''data'' else ''elements or attributes'') in
        Some \<lparr>i_object_type = en_object_type t, i_name = en_name t,
              i_severity = (if kind = DELETE then HIGH else MEDIUM),
              i_reason =
                (if kind = DELETE
                 then ''its '' @ what @ '' would no longer be maintained by this process''
                 else ''its '' @ what @ '' are written by this process and will change with it''),
              i_depth = 1, i_relationship = en_relationship_type t, i_via = None\<rparr>
      else None)"

definition spaced :: "string \<Rightarrow> string" where
  "spaced s = map (\<lambda>c. if c = CHR ''_'' then CHR '' '' else c) s"

definition quoted :: "string \<Rightarrow> string" where
  "quoted s = CHR 0x27 # s @ [CHR 0x27]"

definition dependent_item :: "ChangeKind \<Rightarrow> bool \<Rightarrow> string \<Rightarrow> entry \<Rightarrow> item" where
  "dependent_item kind rules_change nm e =
     (let rel = en_relationship_type e;
          base0 = column kind (case map_of BASE rel of Some p \<Rightarrow> p | None \<Rightarrow> DEFAULT);
          base = (if rules_change \<and> rel = ''references_cube'' then HIGH else base0)
      in \<lparr>i_object_type = en_object_type e, i_name = en_name e,
          i_severity = lower_severity base (en_depth e - 1),
          i_reason =
            (case map_of REASON rel of Some r \<Rightarrow> r | None \<Rightarrow> spaced rel) @ '' '' @
            (if en_depth e = 1 then quoted nm
             else quoted (en_via e) @ '', which depends on '' @ quoted nm),
          i_depth = en_depth e, i_relationship = rel, i_via = Some (en_via e)\<rparr>)"

section \<open>The worst entry of each object, ranked\<close>

definition item_key :: "item \<Rightarrow> string \<times> string" where
  "item_key i = (i_object_type i, lower (i_name i))"

text \<open>The dict \<open>best\<close>: keys in insertion order, a worse item replaces its value in place.\<close>

fun keep_best :: "item \<Rightarrow> item list \<Rightarrow> item list" where
  "keep_best i [] = [i]"
| "keep_best i (b # bs) =
     (if item_key b = item_key i then (if i_severity i < i_severity b then i else b) # bs
      else b # keep_best i bs)"

definition best_items :: "item list \<Rightarrow> item list" where
  "best_items items = fold keep_best items []"

definition rank_key :: "item \<Rightarrow> severity \<times> nat \<times> string \<times> string" where
  "rank_key i = (i_severity i, i_depth i, i_object_type i, lower (i_name i))"

definition ranked_items :: "item list \<Rightarrow> item list" where
  "ranked_items items = sort_key rank_key (best_items items)"

definition summary_of :: "item list \<Rightarrow> severity \<Rightarrow> nat" where
  "summary_of ranked s = length (filter (\<lambda>i. i_severity i = s) ranked)"

definition MAX_DEPTH :: nat where
  "MAX_DEPTH = 4"

record impact =
  im_in_graph :: bool
  im_summary :: "severity \<Rightarrow> nat"
  im_items :: "item list"

definition impact_items :: "ChangeKind \<Rightarrow> bool \<Rightarrow> string \<Rightarrow> entry list \<Rightarrow> entry list \<Rightarrow> item list" where
  "impact_items kind rules_change nm written dependents =
     rules_items rules_change nm @ List.map_filter (written_item kind) written @
     map (dependent_item kind rules_change nm) dependents"

definition analyze_impact ::
  "graph \<Rightarrow> uuid \<Rightarrow> uuid \<Rightarrow> string \<Rightarrow> string \<Rightarrow> string \<Rightarrow> bool \<Rightarrow> impact result" where
  "analyze_impact g conn org ty nm change_kind rules_change =
     bind_result (change_kind_of change_kind) (\<lambda>kind.
       let found =
         bind_result (find_dependents g conn org ty nm MAX_DEPTH) (\<lambda>dependents.
         bind_result (if ty = ''process'' then find_dependencies g conn org ty nm 1 else Inr []) (\<lambda>written.
           Inr (dependents, written)))
       in case found of
            Inl NotFound \<Rightarrow> Inr \<lparr>im_in_graph = False, im_summary = (\<lambda>_. 0), im_items = []\<rparr>
          | Inl e \<Rightarrow> Inl e
          | Inr (dependents, written) \<Rightarrow>
              let ranked = ranked_items (impact_items kind rules_change nm written dependents)
              in Inr \<lparr>im_in_graph = True, im_summary = summary_of ranked, im_items = ranked\<rparr>)"

text \<open>
  \<open>needs_acknowledgement\<close> reads a stored JSON list: entries that are objects
  with a severity of critical or high.
\<close>

definition needs_acknowledgement :: "json list option \<Rightarrow> bool" where
  "needs_acknowledgement stored =
     list_ex (\<lambda>entry. case json_get entry ''severity'' of
                 Some (JStr s) \<Rightarrow> s = ''critical'' \<or> s = ''high''
               | _ \<Rightarrow> False)
       (case stored of None \<Rightarrow> [] | Some es \<Rightarrow> es)"

section \<open>Facts about the ranking\<close>

lemma lower_severity_le: "s \<le> t \<Longrightarrow> k \<le> l \<Longrightarrow> lower_severity s k \<le> lower_severity t l"
proof -
  have idx: "severity_index (lower_severity s k) = min (severity_index s + k) 3" for s k
  proof -
    have "min (severity_index s + k) 3 \<in> {0, 1, 2, 3}" by auto
    then show ?thesis
      unfolding lower_severity_def SEVERITIES_def by (elim insertE) (simp_all del: One_nat_def)
  qed
  assume "s \<le> t" "k \<le> l"
  then show ?thesis by (auto simp: less_eq_severity_def idx)
qed

lemma item_key_keep_best:
  "map item_key (keep_best i bs) =
     (if item_key i \<in> set (map item_key bs) then map item_key bs else map item_key bs @ [item_key i])"
  by (induction bs) auto

lemma keep_best_distinct:
  "distinct (map item_key bs) \<Longrightarrow> distinct (map item_key (keep_best i bs))"
  by (simp add: item_key_keep_best)

lemma keep_best_set: "set (keep_best i bs) \<subseteq> insert i (set bs)"
  by (induction bs) auto

lemma keep_best_worst:
  "x = i \<or> x \<in> set bs \<Longrightarrow>
     \<exists>b \<in> set (keep_best i bs). item_key b = item_key x \<and> i_severity b \<le> i_severity x"
proof (induction bs)
  case (Cons b bs)
  show ?case
  proof (cases "item_key b = item_key i")
    case True
    with Cons.prems show ?thesis
      by (auto simp: not_less intro: less_imp_le)
  next
    case False
    then show ?thesis using Cons by fastforce
  qed
qed auto

lemma best_items_fold:
  "distinct (map item_key bs) \<Longrightarrow>
     distinct (map item_key (fold keep_best items bs)) \<and>
     set (fold keep_best items bs) \<subseteq> set items \<union> set bs \<and>
     (\<forall>x \<in> set items \<union> set bs. \<exists>b \<in> set (fold keep_best items bs).
        item_key b = item_key x \<and> i_severity b \<le> i_severity x)"
proof (induction items arbitrary: bs)
  case Nil
  then show ?case by auto
next
  case (Cons i items)
  let ?bs = "keep_best i bs"
  have IH: "distinct (map item_key (fold keep_best items ?bs))"
    "set (fold keep_best items ?bs) \<subseteq> set items \<union> set ?bs"
    "\<forall>x \<in> set items \<union> set ?bs. \<exists>b \<in> set (fold keep_best items ?bs).
        item_key b = item_key x \<and> i_severity b \<le> i_severity x"
    using Cons.IH [OF keep_best_distinct [OF Cons.prems]] by blast+
  have "\<exists>b \<in> set (fold keep_best items ?bs). item_key b = item_key x \<and> i_severity b \<le> i_severity x"
    if x: "x \<in> set (i # items) \<union> set bs" for x
  proof (cases "x \<in> set items")
    case False
    then obtain c where "c \<in> set ?bs" "item_key c = item_key x" "i_severity c \<le> i_severity x"
      using x keep_best_worst [of x i bs] by auto
    then show ?thesis using IH(3) by (metis UnI2 order_trans)
  qed (use IH(3) in blast)
  then show ?case using IH(1,2) keep_best_set [of i bs] by auto
qed

lemma ranked_items_facts:
  shows "distinct (map item_key (ranked_items items))" "sorted (map rank_key (ranked_items items))"
    "set (ranked_items items) \<subseteq> set items"
    "x \<in> set items \<Longrightarrow> \<exists>b \<in> set (ranked_items items). item_key b = item_key x \<and> i_severity b \<le> i_severity x"
proof -
  note f = best_items_fold [of "[]" items]
  have s: "set (ranked_items items) = set (best_items items)" by (simp add: ranked_items_def)
  have "distinct (map item_key (best_items items))" using f by (simp add: best_items_def)
  then have "distinct (best_items items)" "inj_on item_key (set (best_items items))"
    by (simp_all add: distinct_map)
  then show "distinct (map item_key (ranked_items items))"
    by (simp add: ranked_items_def distinct_map distinct_sort)
  show "sorted (map rank_key (ranked_items items))" by (simp add: ranked_items_def)
  show "set (ranked_items items) \<subseteq> set items" using f by (auto simp: s best_items_def)
  show "x \<in> set items \<Longrightarrow> \<exists>b \<in> set (ranked_items items). item_key b = item_key x \<and> i_severity b \<le> i_severity x"
    using f by (simp add: s best_items_def)
qed

lemma summary_total: "(\<Sum>s \<in> {CRITICAL, HIGH, MEDIUM, LOW}. summary_of items s) = length items"
proof (induction items)
  case (Cons i items)
  then show ?case by (cases "i_severity i") (simp_all add: summary_of_def)
qed (simp add: summary_of_def)

lemma find_dependents_InlD: "find_dependents g conn org ty nm m = Inl e \<Longrightarrow> e = NotFound"
  by (auto simp: find_dependents_def resolve_object_def split: option.splits if_splits)

lemma find_dependencies_InlD: "find_dependencies g conn org ty nm m = Inl e \<Longrightarrow> e = NotFound"
  by (auto simp: find_dependencies_def resolve_object_def split: option.splits if_splits)

lemma analyze_impact_InrE:
  assumes "analyze_impact g conn org ty nm kind rc = Inr im" "im_in_graph im"
  obtains k deps written where "change_kind_of kind = Inr k"
    "find_dependents g conn org ty nm MAX_DEPTH = Inr deps"
    "(if ty = ''process'' then find_dependencies g conn org ty nm 1 else Inr []) = Inr written"
    "im_items im = ranked_items (impact_items k rc nm written deps)"
    "im_summary im = summary_of (im_items im)"
proof -
  obtain k where k: "change_kind_of kind = Inr k"
    using assms(1) by (auto simp: analyze_impact_def bind_result_Inr_iff)
  let ?w = "if ty = ''process'' then find_dependencies g conn org ty nm 1 else Inr []"
  obtain deps where d: "find_dependents g conn org ty nm MAX_DEPTH = Inr deps"
    using assms k by (cases "find_dependents g conn org ty nm MAX_DEPTH")
      (auto simp: analyze_impact_def Let_def dest!: find_dependents_InlD)
  obtain written where w: "?w = Inr written"
    using assms k d by (cases ?w)
      (auto simp: analyze_impact_def Let_def dest!: find_dependencies_InlD split: if_splits)
  have "im = \<lparr>im_in_graph = True, im_summary = summary_of (ranked_items (impact_items k rc nm written deps)),
      im_items = ranked_items (impact_items k rc nm written deps)\<rparr>"
    using assms(1) k d w by (simp add: analyze_impact_def Let_def)
  with k d w show ?thesis using that by simp
qed

section \<open>Properties\<close>

text \<open>
  C35. The impact report is sorted by severity, holds one entry per object, its summary
  counts them all, and every dependent the traversal found appears with a severity at least
  as bad as its relationship and distance give; a rules change always lists the cube itself
  as high or worse.
\<close>

theorem impact_ranks_the_worst_way:
  assumes "analyze_impact g conn org ty nm kind rc = Inr im" "im_in_graph im"
    and "find_dependents g conn org ty nm MAX_DEPTH = Inr deps" "change_kind_of kind = Inr k"
  shows "sorted (map rank_key (im_items im)) \<and> distinct (map item_key (im_items im)) \<and>
     (\<Sum>s \<in> {CRITICAL, HIGH, MEDIUM, LOW}. im_summary im s) = length (im_items im) \<and>
     (\<forall>e \<in> set deps. \<exists>i \<in> set (im_items im).
        item_key i = item_key (dependent_item k rc nm e) \<and>
        i_severity i \<le> i_severity (dependent_item k rc nm e)) \<and>
     (rc \<longrightarrow> (\<exists>i \<in> set (im_items im). item_key i = (''cube'', lower nm) \<and> i_severity i \<le> HIGH))"
proof -
  obtain written where im: "im_items im = ranked_items (impact_items k rc nm written deps)"
    "im_summary im = summary_of (im_items im)"
    using assms by (elim analyze_impact_InrE) auto
  have "\<exists>i \<in> set (im_items im). item_key i = (''cube'', lower nm) \<and> i_severity i \<le> HIGH" if rc
  proof -
    have "hd (rules_items rc nm) \<in> set (impact_items k rc nm written deps)"
      using that by (simp add: impact_items_def rules_items_def)
    from ranked_items_facts(4) [OF this] show ?thesis
      using that unfolding im by (simp add: rules_items_def item_key_def)
  qed
  moreover have "\<exists>i \<in> set (im_items im). item_key i = item_key (dependent_item k rc nm e) \<and>
        i_severity i \<le> i_severity (dependent_item k rc nm e)" if "e \<in> set deps" for e
    using that ranked_items_facts(4) [of "dependent_item k rc nm e" "impact_items k rc nm written deps"]
    unfolding im by (simp add: impact_items_def)
  ultimately show ?thesis
    using ranked_items_facts(1,2) summary_total [of "im_items im"] im by metis
qed

lemma base_delete_at_least_modify:
  "(case map_of BASE rel of Some p \<Rightarrow> p | None \<Rightarrow> DEFAULT) = p \<Longrightarrow> snd p \<le> fst p"
proof -
  have "\<forall>p \<in> snd ` set BASE. snd p \<le> fst p" by (simp add: BASE_def less_eq_severity_def)
  moreover assume "(case map_of BASE rel of Some p \<Rightarrow> p | None \<Rightarrow> DEFAULT) = p"
  then have "p \<in> snd ` set BASE \<or> p = DEFAULT"
    by (force dest: map_of_SomeD split: option.splits)
  ultimately show ?thesis by (auto simp: DEFAULT_def less_eq_severity_def)
qed

lemma dependent_item_delete:
  "item_key (dependent_item DELETE rc nm e) = item_key (dependent_item MODIFY rc nm e)"
  "i_severity (dependent_item DELETE rc nm e) \<le> i_severity (dependent_item MODIFY rc nm e)"
  using base_delete_at_least_modify [OF refl, of "en_relationship_type e"]
  by (auto simp: dependent_item_def item_key_def column_def Let_def intro: lower_severity_le)

lemma written_item_delete:
  assumes "written_item MODIFY t = Some i"
  shows "\<exists>j. written_item DELETE t = Some j \<and> item_key j = item_key i \<and> i_severity j \<le> i_severity i"
  using assms
  by (auto simp: written_item_def item_key_def less_eq_severity_def Let_def split: if_splits)

theorem deletion_is_at_least_as_severe:
  assumes "analyze_impact g conn org ty nm ''modify'' False = Inr im" "im_in_graph im"
    and "analyze_impact g conn org ty nm ''delete'' False = Inr im'"
    and "i \<in> set (im_items im)"
  shows "\<exists>j \<in> set (im_items im'). item_key j = item_key i \<and> i_severity j \<le> i_severity i"
proof -
  obtain deps written where d: "find_dependents g conn org ty nm MAX_DEPTH = Inr deps"
    "(if ty = ''process'' then find_dependencies g conn org ty nm 1 else Inr []) = Inr written"
    and im: "im_items im = ranked_items (impact_items MODIFY False nm written deps)"
    using assms(1,2) by (rule analyze_impact_InrE) (auto simp: change_kind_of_def)
  have im': "im_items im' = ranked_items (impact_items DELETE False nm written deps)"
    using assms(3) d by (auto simp: analyze_impact_def change_kind_of_def Let_def split: if_splits)
  have "i \<in> set (impact_items MODIFY False nm written deps)"
    using assms(4) ranked_items_facts(3) unfolding im by blast
  then obtain j where j: "j \<in> set (impact_items DELETE False nm written deps)"
    "item_key j = item_key i" "i_severity j \<le> i_severity i"
  proof -
    consider t where "t \<in> set written" "written_item MODIFY t = Some i"
      | e where "e \<in> set deps" "i = dependent_item MODIFY False nm e"
      using \<open>i \<in> set (impact_items MODIFY False nm written deps)\<close>
      by (auto simp: impact_items_def rules_items_def List.map_filter_def)
    then show ?thesis
    proof cases
      case 1
      then obtain j where "written_item DELETE t = Some j" "item_key j = item_key i"
        "i_severity j \<le> i_severity i" using written_item_delete by blast
      with 1 show ?thesis
        by (intro that [of j]) (force simp: impact_items_def List.map_filter_def)+
    next
      case 2
      with dependent_item_delete show ?thesis
        by (intro that [of "dependent_item DELETE False nm e"]) (auto simp: impact_items_def)
    qed
  qed
  then show ?thesis using ranked_items_facts(4) [OF j(1)] unfolding im' by (metis order_trans)
qed

lemma demo_impact:
  "map (\<lambda>i. (i_name i, i_severity i)) (case analyze_impact demo_graph ''c1'' ''o1'' ''dimension'' ''D'' ''modify'' False of
      Inr im \<Rightarrow> im_items im | Inl _ \<Rightarrow> []) = [(''A'', HIGH), (''B'', LOW)]"
  by code_simp

lemma demo_impact_found:
  assumes "kind \<in> {''modify'', ''delete''}"
  shows "\<exists>im. analyze_impact demo_graph ''c1'' ''o1'' ''dimension'' ''D'' kind False = Inr im \<and> im_in_graph im"
  using assms
  by (auto simp: analyze_impact_def change_kind_of_def find_dependents_def resolve_object_def
      object_by_name_def demo_graph_def demo_object_def Let_def)

lemma impact_ranks_the_worst_way_witness:
  "\<exists>im. analyze_impact demo_graph ''c1'' ''o1'' ''dimension'' ''D'' ''modify'' False = Inr im \<and>
     distinct (map item_key (im_items im)) \<and> sorted (map rank_key (im_items im))"
proof -
  obtain im where im: "analyze_impact demo_graph ''c1'' ''o1'' ''dimension'' ''D'' ''modify'' False = Inr im"
    "im_in_graph im" using demo_impact_found by blast
  obtain deps where d: "find_dependents demo_graph ''c1'' ''o1'' ''dimension'' ''D'' MAX_DEPTH = Inr deps"
    using im by (rule analyze_impact_InrE)
  have "change_kind_of ''modify'' = Inr MODIFY" by (simp add: change_kind_of_def)
  from impact_ranks_the_worst_way [OF im d this] im(1) show ?thesis by blast
qed

lemma deletion_is_at_least_as_severe_witness:
  "\<exists>im im'. analyze_impact demo_graph ''c1'' ''o1'' ''dimension'' ''D'' ''modify'' False = Inr im \<and>
     analyze_impact demo_graph ''c1'' ''o1'' ''dimension'' ''D'' ''delete'' False = Inr im' \<and>
     im_items im \<noteq> [] \<and>
     (\<exists>j \<in> set (im_items im'). item_key j = item_key (hd (im_items im)) \<and>
        i_severity j \<le> i_severity (hd (im_items im)))"
proof -
  obtain im where im: "analyze_impact demo_graph ''c1'' ''o1'' ''dimension'' ''D'' ''modify'' False = Inr im"
    "im_in_graph im" using demo_impact_found by blast
  obtain im' where im': "analyze_impact demo_graph ''c1'' ''o1'' ''dimension'' ''D'' ''delete'' False = Inr im'"
    using demo_impact_found by blast
  have "im_items im \<noteq> []" using demo_impact im(1) by auto
  then show ?thesis
    using deletion_is_at_least_as_severe [OF im im', of "hd (im_items im)"] im(1) im' by auto
qed

section \<open>What a process both reads and writes\<close>

text \<open>
  A process whose datasource is a view of the cube it writes: the graph holds
  a reads edge and an updates edge between the same two objects.
\<close>

definition load_graph :: "string list \<Rightarrow> graph" where
  "load_graph rels =
     \<lparr>g_objects = [demo_object ''P'' ''process'', demo_object ''Sales'' ''cube''],
      g_relationships = map (\<lambda>ty. demo_edge ''P'' ty ''Sales'') rels\<rparr>"

definition impact_names :: "impact result \<Rightarrow> (string \<times> severity) list" where
  "impact_names r = (case r of Inl _ \<Rightarrow> [] | Inr im \<Rightarrow> map (\<lambda>i. (i_name i, i_severity i)) (im_items im))"

theorem written_cube_lost_behind_read:
  "impact_names (analyze_impact (load_graph [''updates_cube'', ''reads_cube'']) ''c1'' ''o1''
       ''process'' ''P'' ''delete'' False) = [(''Sales'', HIGH)] \<and>
   impact_names (analyze_impact (load_graph [''reads_cube'', ''updates_cube'']) ''c1'' ''o1''
       ''process'' ''P'' ''delete'' False) = []"
  by code_simp


end
