(* ===== verification/ChangeModel.thy ===== *)
theory ChangeModel
  imports Impact ReportEnums
begin

text \<open>
  The data of \<open>tm1/deployment/change_service.py\<close>: the row of
  \<open>database/models/tm1_change.py\<close>, the calls the service makes on a TM1 server,
  the process object it builds from a draft, and the comparisons by which it
  tells whether an object was edited. The server is an argument, a record of
  calls, each a function on the server's state that may raise; the digest, the
  number parser and TM1py's two process constructors are arguments too. Message
  texts are reduced to their fixed part.
\<close>

section \<open>Changes\<close>

datatype ChangeType =
    UPDATE_RULES | CREATE_PROCESS | UPDATE_PROCESS | DELETE_PROCESS
  | RUN_PROCESS | WRITE_CELLS | CREATE_VIEW

primrec change_type_value :: "ChangeType \<Rightarrow> string" where
  "change_type_value UPDATE_RULES = ''update_rules''"
| "change_type_value CREATE_PROCESS = ''create_process''"
| "change_type_value UPDATE_PROCESS = ''update_process''"
| "change_type_value DELETE_PROCESS = ''delete_process''"
| "change_type_value RUN_PROCESS = ''run_process''"
| "change_type_value WRITE_CELLS = ''write_cells''"
| "change_type_value CREATE_VIEW = ''create_view''"

definition VALID_CHANGE_TYPES :: "ChangeType list" where
  "VALID_CHANGE_TYPES =
     [UPDATE_RULES, CREATE_PROCESS, UPDATE_PROCESS, DELETE_PROCESS, RUN_PROCESS, WRITE_CELLS,
      CREATE_VIEW]"

datatype ChangeStatus =
  DRAFT | EXECUTED | CHANGE_FAILED | UNKNOWN | CHANGE_REJECTED | SUPERSEDED | ROLLED_BACK

record change =
  ch_id :: uuid
  ch_connection_id :: uuid
  ch_organization_id :: uuid
  ch_created_by :: uuid
  ch_type :: ChangeType
  ch_target_name :: string
  ch_new_content :: "json option"
  ch_previous_content :: "json option"
  ch_validation_errors :: "json list"
  ch_impact :: "json list option"
  ch_status :: ChangeStatus
  ch_error_message :: "string option"
  ch_superseded_by :: "uuid option"
  ch_executed_by :: "uuid option"
  ch_executed_at :: "time option"
  ch_rolled_back_at :: "time option"
  ch_execution_result :: "json option"
  ch_base_fingerprint :: "string option"
  ch_environment :: "string option"
  ch_checks :: "json list"

definition content_get :: "json option \<Rightarrow> string \<Rightarrow> json option" where
  "content_get content k = (case content of None \<Rightarrow> None | Some c \<Rightarrow> json_get c k)"

section \<open>The server's calls\<close>

text \<open>The result TM1 reports for a run.\<close>

record run_result =
  rr_success :: bool
  rr_status :: string
  rr_error_log_file :: "string option"

type_synonym ('s, 'a) call = "'s \<Rightarrow> 's \<times> 'a result"

record cell =
  c_value :: json
  c_consolidated :: bool
  c_rule_derived :: bool

text \<open>
  \<open>connect\<close> stands for loading the connection and obtaining its client.
  \<open>check_cube_rules\<close> is None on a server that has no rule check;
  \<open>read_cells\<close> is None when the elements do not exist. \<open>'p\<close> is a process as
  it is sent to the server.
\<close>

record ('s, 'p) client =
  connect :: "('s, unit) call"
  get_cube_rules :: "string \<Rightarrow> ('s, string option) call"
  update_cube_rules :: "string \<Rightarrow> string \<Rightarrow> ('s, unit) call"
  check_cube_rules :: "string \<Rightarrow> ('s, json list option) call"
  process_exists :: "string \<Rightarrow> ('s, bool) call"
  get_process_body :: "string \<Rightarrow> ('s, json) call"
  update_or_create_process :: "'p \<Rightarrow> ('s, unit) call"
  delete_process :: "string \<Rightarrow> ('s, unit) call"
  compile_process_on_server :: "string \<Rightarrow> ('s, json list) call"
  execute_process :: "string \<Rightarrow> json \<Rightarrow> ('s, run_result) call"
  get_process_error_log :: "string \<Rightarrow> ('s, string) call"
  cube_dimensions :: "string \<Rightarrow> ('s, string list) call"
  read_cells :: "string \<Rightarrow> string list list \<Rightarrow> ('s, cell list option) call"
  write_cells :: "string \<Rightarrow> string list \<Rightarrow> (string list \<times> json) list \<Rightarrow> ('s, unit) call"
  view_exists :: "string \<Rightarrow> string \<Rightarrow> ('s, bool) call"
  create_mdx_view :: "string \<Rightarrow> string \<Rightarrow> string \<Rightarrow> ('s, unit) call"
  delete_view :: "string \<Rightarrow> string \<Rightarrow> ('s, unit) call"
  get_view :: "string \<Rightarrow> string \<Rightarrow> ('s, json) call"

text \<open>
  What the service relies on without containing it: the digest of a JSON value,
  \<open>float\<close> on a string (None where it is not a finite number), \<open>str\<close> of a
  number or a container, and TM1py's \<open>Process(name)\<close> and
  \<open>Process.from_dict\<close>.
\<close>

record 'p tools =
  hash :: "json \<Rightarrow> string"
  parse_float :: "string \<Rightarrow> rat option"
  repr_of :: "json \<Rightarrow> string"
  blank_process :: "string \<Rightarrow> 'p"
  from_dict :: "json \<Rightarrow> 'p result"

section \<open>Steps that may raise\<close>

text \<open>A step of the service: the server and the change in memory, and a result.\<close>

type_synonym ('s, 'a) act = "'s \<times> change \<Rightarrow> ('s \<times> change) \<times> 'a result"

definition ret :: "'a \<Rightarrow> ('s, 'a) act" where
  "ret a = (\<lambda>st. (st, Inr a))"

definition raise :: "exn \<Rightarrow> ('s, 'a) act" where
  "raise e = (\<lambda>st. (st, Inl e))"

definition seq :: "('s, 'a) act \<Rightarrow> ('a \<Rightarrow> ('s, 'b) act) \<Rightarrow> ('s, 'b) act" where
  "seq m f = (\<lambda>st. case m st of (st', Inl e) \<Rightarrow> (st', Inl e) | (st', Inr a) \<Rightarrow> f a st')"

definition call :: "('s, 'a) call \<Rightarrow> ('s, 'a) act" where
  "call c = (\<lambda>(s, ch). case c s of (s', r) \<Rightarrow> ((s', ch), r))"

definition lift :: "'a result \<Rightarrow> ('s, 'a) act" where
  "lift r = (\<lambda>st. (st, r))"

definition row :: "('s, change) act" where
  "row = (\<lambda>st. (st, Inr (snd st)))"

definition modify :: "(change \<Rightarrow> change) \<Rightarrow> ('s, unit) act" where
  "modify f = (\<lambda>(s, ch). ((s, f ch), Inr ()))"

definition try_except :: "('s, 'a) act \<Rightarrow> (exn \<Rightarrow> ('s, 'a) act) \<Rightarrow> ('s, 'a) act" where
  "try_except m h = (\<lambda>st. case m st of (st', Inl e) \<Rightarrow> h e st' | (st', Inr a) \<Rightarrow> (st', Inr a))"

definition require :: "bool \<Rightarrow> exn \<Rightarrow> ('s, unit) act" where
  "require b e = (if b then ret () else raise e)"

text \<open>\<open>_restore_then_raise\<close>: the restore's own failure is logged, not raised.\<close>

definition restore_then_raise :: "('s, unit) act \<Rightarrow> exn \<Rightarrow> ('s, 'a) act" where
  "restore_then_raise restore original =
     seq (try_except restore (\<lambda>_. ret ())) (\<lambda>_. raise original)"

section \<open>Comparing content\<close>

fun replace_crlf :: "string \<Rightarrow> string" where
  "replace_crlf (c # d # s) =
     (if chr_code c = 13 \<and> chr_code d = 10 then d # replace_crlf s else c # replace_crlf (d # s))"
| "replace_crlf s = s"

definition rules_text :: "string option \<Rightarrow> string" where
  "rules_text text = strip (replace_crlf (case text of None \<Rightarrow> [] | Some t \<Rightarrow> t))"

definition CODE_KEYS :: "string list" where
  "CODE_KEYS = [''PrologProcedure'', ''MetadataProcedure'', ''DataProcedure'', ''EpilogProcedure'']"

text \<open>\<open>body.get(key) or ""\<close> for the sections of a process, which are strings or null.\<close>

definition code_of :: "json \<Rightarrow> json" where
  "code_of body =
     JObj (map (\<lambda>k. (k, JStr (rules_text (case json_get body k of Some (JStr s) \<Rightarrow> Some s | _ \<Rightarrow> None))))
            CODE_KEYS)"

definition round_half_even :: "rat \<Rightarrow> int" where
  "round_half_even x =
     (let f = floor x; d = x - of_int f in
      if d < 1 / 2 then f else if 1 / 2 < d then f + 1 else if even f then f else f + 1)"

definition round9 :: "rat \<Rightarrow> rat" where
  "round9 x = of_int (round_half_even (x * 10 ^ 9)) / 10 ^ 9"

fun normal :: "json \<Rightarrow> json" where
  "normal JNull = JNum 0"
| "normal (JInt i) = JNum (of_int i)"
| "normal (JNum q) = JNum (round9 q)"
| "normal (JBool b) = JNum (if b then 1 else 0)"
| "normal v = v"

text \<open>\<open>float(a or 0)\<close>; lists and objects never reach it.\<close>

definition float_or_zero :: "('p, 'z) tools_scheme \<Rightarrow> json \<Rightarrow> rat option" where
  "float_or_zero tk v =
     (case v of
        JNull \<Rightarrow> Some 0
      | JBool b \<Rightarrow> Some (if b then 1 else 0)
      | JInt i \<Rightarrow> Some (of_int i)
      | JNum q \<Rightarrow> Some q
      | JStr s \<Rightarrow> if s = [] then Some 0 else parse_float tk s
      | _ \<Rightarrow> None)"

fun is_number :: "json \<Rightarrow> bool" where
  "is_number (JInt _) = True"
| "is_number (JNum _) = True"
| "is_number (JBool _) = True"
| "is_number _ = False"

definition or_empty :: "json \<Rightarrow> json" where
  "or_empty v = (if v = JNull then JStr [] else v)"

definition same_value :: "('p, 'z) tools_scheme \<Rightarrow> json \<Rightarrow> json \<Rightarrow> bool" where
  "same_value tk a b =
     (if is_number a \<or> is_number b then
        (case (float_or_zero tk a, float_or_zero tk b) of
           (Some x, Some y) \<Rightarrow> \<bar>x - y\<bar> \<le> max 1 (max \<bar>x\<bar> \<bar>y\<bar>) / 10 ^ 9
         | _ \<Rightarrow> False)
      else or_empty a = or_empty b)"

definition mdx_text :: "string option \<Rightarrow> string" where
  "mdx_text mdx = unwords (words_from [] (case mdx of None \<Rightarrow> [] | Some m \<Rightarrow> m))"

section \<open>Cells and views of a draft\<close>

definition MAX_CELL_WRITES :: nat where
  "MAX_CELL_WRITES = 200"

fun element_names :: "json list \<Rightarrow> string list option" where
  "element_names [] = Some []"
| "element_names (JStr e # es) =
     (if e = [] then None else map_option (\<lambda>xs. e # xs) (element_names es))"
| "element_names (_ # es) = None"

definition cell_write :: "json \<Rightarrow> (string list \<times> json) result" where
  "cell_write cell =
     (case json_get cell ''coordinates'' of
        Some (JArr (e # es)) \<Rightarrow>
          (case element_names (e # es) of
             None \<Rightarrow> Inl Validation
           | Some names \<Rightarrow>
               (case json_get cell ''value'' of
                  Some (JInt i) \<Rightarrow> Inr (names, JInt i)
                | Some (JNum q) \<Rightarrow> Inr (names, JNum q)
                | Some (JStr s) \<Rightarrow> Inr (names, JStr s)
                | _ \<Rightarrow> Inl Validation))
      | _ \<Rightarrow> Inl Validation)"

fun cell_write_list :: "json list \<Rightarrow> (string list \<times> json) list result" where
  "cell_write_list [] = Inr []"
| "cell_write_list (c # cs) =
     bind_result (cell_write c) (\<lambda>w. bind_result (cell_write_list cs) (\<lambda>ws. Inr (w # ws)))"

definition cell_writes :: "json option \<Rightarrow> (string list \<times> json) list result" where
  "cell_writes new_content =
     (case content_get new_content ''cells'' of
        Some (JArr (c # cs)) \<Rightarrow>
          if length (c # cs) > MAX_CELL_WRITES then Inl Validation else cell_write_list (c # cs)
      | _ \<Rightarrow> Inl Validation)"

definition view_content :: "json option \<Rightarrow> (string \<times> string) result" where
  "view_content new_content =
     (case (content_get new_content ''view_name'', content_get new_content ''mdx'') of
        (Some (JStr v), Some (JStr m)) \<Rightarrow> Inr (v, m)
      | _ \<Rightarrow> Inl Validation)"

section \<open>The process a draft describes\<close>

text \<open>\<open>bool(v)\<close> and \<open>a or b\<close>.\<close>

fun truthy :: "json \<Rightarrow> bool" where
  "truthy JNull = False"
| "truthy (JBool b) = b"
| "truthy (JInt i) = (i \<noteq> 0)"
| "truthy (JNum q) = (q \<noteq> 0)"
| "truthy (JStr s) = (s \<noteq> [])"
| "truthy (JArr xs) = (xs \<noteq> [])"
| "truthy (JObj kvs) = (kvs \<noteq> [])"

definition py_or :: "json option \<Rightarrow> json \<Rightarrow> json" where
  "py_or a b = (case a of None \<Rightarrow> b | Some v \<Rightarrow> if truthy v then v else b)"

fun int_str :: "int \<Rightarrow> string" where
  "int_str i = (if i < 0 then CHR ''-'' # nat_str (nat (- i)) else nat_str (nat i))"

definition py_str :: "('p, 'z) tools_scheme \<Rightarrow> json \<Rightarrow> string" where
  "py_str tk v =
     (case v of
        JStr s \<Rightarrow> s
      | JNull \<Rightarrow> ''None''
      | JBool b \<Rightarrow> if b then ''True'' else ''False''
      | JInt i \<Rightarrow> int_str i
      | _ \<Rightarrow> repr_of tk v)"

text \<open>
  The attributes of TM1py's process object the code sets; \<open>rest\<close> is whatever
  else the object carries.
\<close>

record 'r process =
  p_name :: string
  p_prolog :: json
  p_metadata :: json
  p_data :: json
  p_epilog :: json
  p_has_security_access :: bool
  p_datasource_type :: json
  p_name_for_server :: json
  p_name_for_client :: json
  p_delimiter_type :: string
  p_delimiter_char :: json
  p_header_records :: int
  p_variables :: "(string \<times> string) list"
  p_parameters :: "(string \<times> string \<times> json \<times> string) list"
  rest :: 'r

definition apply_datasource :: "'r process \<Rightarrow> json \<Rightarrow> 'r process result" where
  "apply_datasource p content =
     (case json_get content ''datasource_type'' of
        None \<Rightarrow> Inr p
      | Some ty \<Rightarrow>
          if \<not> truthy ty then Inr p
          else
            let p1 = p\<lparr>p_datasource_type := ty\<rparr> in
            if ty \<noteq> JStr ''ASCII'' then Inr p1
            else
              let nm = py_or (json_get content ''datasource_name'') (JStr []);
                  p2 = p1\<lparr>p_name_for_server := nm, p_name_for_client := nm,
                          p_delimiter_type := ''Character'',
                          p_delimiter_char := py_or (json_get content ''ascii_delimiter'') (JStr '','')\<rparr> in
              (case json_get content ''ascii_header_records'' of
                 None \<Rightarrow> Inr (p2\<lparr>p_header_records := 0\<rparr>)
               | Some JNull \<Rightarrow> Inr (p2\<lparr>p_header_records := 0\<rparr>)
               | Some h \<Rightarrow>
                   (case py_int h of
                      Some n \<Rightarrow> Inr (p2\<lparr>p_header_records := n\<rparr>)
                    | None \<Rightarrow> Inl (case h of JStr _ \<Rightarrow> ValueError | _ \<Rightarrow> TypeError))))"

definition kind_of :: "json \<Rightarrow> string" where
  "kind_of v = (if json_get v ''type'' = Some (JStr ''Numeric'') then ''Numeric'' else ''String'')"

fun variable_list :: "('p, 'z) tools_scheme \<Rightarrow> json list \<Rightarrow> (string \<times> string) list result" where
  "variable_list tk [] = Inr []"
| "variable_list tk (v # vs) =
     (case json_get v ''name'' of
        None \<Rightarrow> Inl KeyError
      | Some n \<Rightarrow> bind_result (variable_list tk vs) (\<lambda>r. Inr ((py_str tk n, kind_of v) # r)))"

definition apply_variables :: "('p, 'z) tools_scheme \<Rightarrow> 'r process \<Rightarrow> json \<Rightarrow> 'r process result" where
  "apply_variables tk p content =
     (case json_get content ''variables'' of
        None \<Rightarrow> Inr p
      | Some (JArr vs) \<Rightarrow> bind_result (variable_list tk vs) (\<lambda>r. Inr (p\<lparr>p_variables := r\<rparr>))
      | Some _ \<Rightarrow> Inl TypeError)"

text \<open>The value of a parameter: \<open>float(raw)\<close>, or 0, for a numeric one.\<close>

definition numeric_value :: "('p, 'z) tools_scheme \<Rightarrow> json option \<Rightarrow> json" where
  "numeric_value tk raw =
     (case raw of
        None \<Rightarrow> JInt 0
      | Some (JBool b) \<Rightarrow> JNum (if b then 1 else 0)
      | Some (JInt i) \<Rightarrow> JNum (of_int i)
      | Some (JNum q) \<Rightarrow> JNum q
      | Some (JStr s) \<Rightarrow>
          if s = [] then JInt 0 else (case parse_float tk s of Some q \<Rightarrow> JNum q | None \<Rightarrow> JInt 0)
      | Some _ \<Rightarrow> JInt 0)"

definition parameter_of ::
  "('p, 'z) tools_scheme \<Rightarrow> json \<Rightarrow> (string \<times> string \<times> json \<times> string) result" where
  "parameter_of tk v =
     (case json_get v ''name'' of
        None \<Rightarrow> Inl KeyError
      | Some n \<Rightarrow>
          let raw = json_get v ''value'';
              value =
                (if kind_of v = ''Numeric'' then numeric_value tk raw
                 else case raw of
                        None \<Rightarrow> JStr []
                      | Some r \<Rightarrow> JStr (if r = JNull then [] else py_str tk r)) in
          Inr (py_str tk n, py_str tk (py_or (json_get v ''prompt'') n), value, kind_of v))"

fun parameter_list ::
  "('p, 'z) tools_scheme \<Rightarrow> json list \<Rightarrow> (string \<times> string \<times> json \<times> string) list result" where
  "parameter_list tk [] = Inr []"
| "parameter_list tk (v # vs) =
     bind_result (parameter_of tk v) (\<lambda>x. bind_result (parameter_list tk vs) (\<lambda>r. Inr (x # r)))"

definition apply_parameters :: "('p, 'z) tools_scheme \<Rightarrow> 'r process \<Rightarrow> json \<Rightarrow> 'r process result" where
  "apply_parameters tk p content =
     (case json_get content ''parameters'' of
        None \<Rightarrow> Inr p
      | Some (JArr vs) \<Rightarrow> bind_result (parameter_list tk vs) (\<lambda>r. Inr (p\<lparr>p_parameters := r\<rparr>))
      | Some _ \<Rightarrow> Inl TypeError)"

text \<open>The loop over \<open>_PROCESS_CODE_FIELDS\<close>: a section the draft names replaces the process's.\<close>

definition code_field :: "json \<Rightarrow> string \<Rightarrow> json \<Rightarrow> json" where
  "code_field content k old =
     (case json_get content k of None \<Rightarrow> old | Some v \<Rightarrow> py_or (Some v) (JStr []))"

definition apply_code :: "'r process \<Rightarrow> json \<Rightarrow> 'r process" where
  "apply_code p content =
     p\<lparr>p_prolog := code_field content ''prolog'' (p_prolog p),
       p_metadata := code_field content ''metadata'' (p_metadata p),
       p_data := code_field content ''data'' (p_data p),
       p_epilog := code_field content ''epilog'' (p_epilog p),
       p_has_security_access :=
         (case json_get content ''has_security_access'' of
            None \<Rightarrow> p_has_security_access p | Some v \<Rightarrow> truthy v)\<rparr>"

definition build_process ::
  "'r process tools \<Rightarrow> string \<Rightarrow> json option \<Rightarrow> json option \<Rightarrow> 'r process result" where
  "build_process tk nm new_content base =
     (case new_content of
        None \<Rightarrow> Inl OtherError
      | Some content \<Rightarrow>
          let body = (case base of Some b \<Rightarrow> if truthy b then Some b else None | None \<Rightarrow> None);
              source = (case json_get content ''source_body'' of
                          Some b \<Rightarrow> if truthy b then Some b else None | None \<Rightarrow> None) in
          bind_result
            (case body of
               Some b \<Rightarrow> map_sum id (\<lambda>p. p\<lparr>p_name := nm\<rparr>) (from_dict tk b)
             | None \<Rightarrow>
                 (case source of
                    Some b \<Rightarrow> map_sum id (\<lambda>p. p\<lparr>p_name := nm\<rparr>) (from_dict tk b)
                  | None \<Rightarrow> Inr (blank_process tk nm)))
            (\<lambda>p0. let p = apply_code p0 content in
              if source \<noteq> None \<and> body = None then Inr p
              else
                bind_result (apply_datasource p content) (\<lambda>p1.
                bind_result (apply_variables tk p1 content) (\<lambda>p2.
                apply_parameters tk p2 content))))"

end
