(* ===== verification/ChangeService.thy ===== *)
theory ChangeService
  imports ChangeModel
begin

text \<open>
  \<open>ChangeService\<close> of \<open>tm1/deployment/change_service.py\<close>: applying a draft
  (guards, drift check, snapshot, write, verification, restore), the run of a
  process, rejecting, rolling back, and the life cycle shown to the user. Each
  operation is an \<open>act\<close>: it changes the server and the row in memory, and an
  exception leaves both as they were when it was raised. The refresh of the
  dependency map, which swallows its errors, and the log excerpt a failed run
  attaches are left out.
\<close>

section \<open>Reading what the server holds\<close>

definition read_values :: "('s, 'p) client \<Rightarrow> string \<Rightarrow> string list list \<Rightarrow> ('s, json list) act" where
  "read_values c cube coordinates =
     seq (call (read_cells c cube coordinates)) (\<lambda>r.
       case r of None \<Rightarrow> raise Validation | Some cells \<Rightarrow> ret (map c_value cells))"

definition server_fingerprint ::
  "('s, 'p) client \<Rightarrow> ('p, 'z) tools_scheme \<Rightarrow> ChangeType \<Rightarrow> string \<Rightarrow> json option \<Rightarrow>
   ('s, string option) act" where
  "server_fingerprint c tk ty target content =
     (case ty of
        UPDATE_RULES \<Rightarrow>
          seq (call (get_cube_rules c target)) (\<lambda>r. ret (Some (hash tk (JStr (rules_text r)))))
      | UPDATE_PROCESS \<Rightarrow>
          seq (call (get_process_body c target)) (\<lambda>b. ret (Some (hash tk (code_of b))))
      | DELETE_PROCESS \<Rightarrow>
          seq (call (get_process_body c target)) (\<lambda>b. ret (Some (hash tk (code_of b))))
      | WRITE_CELLS \<Rightarrow>
          seq (lift (cell_writes content)) (\<lambda>writes.
          seq (read_values c target (map fst writes)) (\<lambda>vs.
            ret (Some (hash tk (JArr (map normal vs))))))
      | _ \<Rightarrow> ret None)"

text \<open>The drift check of \<open>execute_change\<close>; an empty fingerprint counts as none.\<close>

definition check_drift :: "('s, 'p) client \<Rightarrow> ('p, 'z) tools_scheme \<Rightarrow> change \<Rightarrow> ('s, unit) act" where
  "check_drift c tk ch =
     (case ch_base_fingerprint ch of
        None \<Rightarrow> ret ()
      | Some base \<Rightarrow>
          if base = [] then ret ()
          else seq (server_fingerprint c tk (ch_type ch) (ch_target_name ch) (ch_new_content ch))
                 (\<lambda>current. require (current = Some base) (Conflict CONFLICT)))"

section \<open>Applying a change\<close>

definition set_previous :: "(string \<times> json) list \<Rightarrow> change \<Rightarrow> change" where
  "set_previous kvs ch = ch\<lparr>ch_previous_content := Some (JObj kvs)\<rparr>"

definition mark_failed :: "json list \<Rightarrow> string \<Rightarrow> change \<Rightarrow> change" where
  "mark_failed errors msg ch =
     ch\<lparr>ch_status := CHANGE_FAILED, ch_validation_errors := errors, ch_error_message := Some msg\<rparr>"

definition mark_executed :: "('s, unit) act" where
  "mark_executed = modify (\<lambda>ch. ch\<lparr>ch_status := EXECUTED\<rparr>)"

definition text_json :: "string option \<Rightarrow> json" where
  "text_json t = (case t of None \<Rightarrow> JNull | Some s \<Rightarrow> JStr s)"

definition or_blank :: "string option \<Rightarrow> string" where
  "or_blank t = (case t of None \<Rightarrow> [] | Some s \<Rightarrow> s)"

text \<open>\<open>change.new_content["rules"]\<close>; a draft's rules are text.\<close>

definition new_rules :: "change \<Rightarrow> string result" where
  "new_rules ch =
     (case ch_new_content ch of
        None \<Rightarrow> Inl TypeError
      | Some content \<Rightarrow>
          (case json_get content ''rules'' of
             None \<Rightarrow> Inl KeyError | Some (JStr r) \<Rightarrow> Inr r | Some _ \<Rightarrow> Inl TypeError))"

text \<open>The entry \<open>_apply\<close> adds on a server without a rule check.\<close>

definition no_rule_check :: json where
  "no_rule_check = JObj [(''name'', JStr ''Server rule check''), (''status'', JStr ''info'')]"

text \<open>The part of the branch after the check: keep the new rules or put the old ones back.\<close>

definition settle_rules ::
  "('s, 'p) client \<Rightarrow> string \<Rightarrow> string option \<Rightarrow> json list option \<Rightarrow> ('s, unit) act" where
  "settle_rules c target previous checked =
     seq (case checked of
            None \<Rightarrow> modify (\<lambda>ch. ch\<lparr>ch_checks := ch_checks ch @ [no_rule_check]\<rparr>)
          | Some _ \<Rightarrow> ret ()) (\<lambda>_.
     let errors = (case checked of None \<Rightarrow> [] | Some es \<Rightarrow> es) in
     if errors \<noteq> [] then
       seq (call (update_cube_rules c target (or_blank previous))) (\<lambda>_.
         modify (mark_failed errors ''Rule check failed after apply; previous rules restored.''))
     else
       seq (call (get_cube_rules c target)) (\<lambda>now.
       seq (modify (set_previous
              [(''rules'', text_json previous), (''applied'', JStr (rules_text now))])) (\<lambda>_.
       mark_executed)))"

definition apply_update_rules :: "('s, 'p) client \<Rightarrow> change \<Rightarrow> ('s, unit) act" where
  "apply_update_rules c ch =
     (let target = ch_target_name ch in
      seq (call (get_cube_rules c target)) (\<lambda>previous.
      seq (modify (set_previous [(''rules'', text_json previous)])) (\<lambda>_.
      seq (lift (new_rules ch)) (\<lambda>rules.
      seq (call (update_cube_rules c target rules)) (\<lambda>_.
      seq (try_except (call (check_cube_rules c target))
             (restore_then_raise (call (update_cube_rules c target (or_blank previous)))))
        (settle_rules c target previous))))))"

definition apply_create_process ::
  "('s, 'r process) client \<Rightarrow> 'r process tools \<Rightarrow> change \<Rightarrow> ('s, unit) act" where
  "apply_create_process c tk ch =
     (let target = ch_target_name ch in
      seq (call (process_exists c target)) (\<lambda>exists.
      seq (require (\<not> exists) (Conflict CONFLICT)) (\<lambda>_.
      seq (modify (set_previous [(''existed'', JBool False)])) (\<lambda>_.
      seq (lift (build_process tk target (ch_new_content ch) None)) (\<lambda>candidate.
      seq (call (update_or_create_process c candidate)) (\<lambda>_.
      let remove_created = call (delete_process c target) in
      seq (try_except (call (compile_process_on_server c target))
             (restore_then_raise remove_created)) (\<lambda>errors.
      if errors \<noteq> [] then
        seq remove_created (\<lambda>_.
          modify (mark_failed errors ''Compile failed after create; process removed.''))
      else
        seq (call (get_process_body c target)) (\<lambda>body.
        seq (modify (set_previous [(''existed'', JBool False), (''applied'', code_of body)])) (\<lambda>_.
        mark_executed)))))))))"

definition put_back :: "('s, 'p) client \<Rightarrow> ('p, 'z) tools_scheme \<Rightarrow> json \<Rightarrow> ('s, unit) act" where
  "put_back c tk body = seq (lift (from_dict tk body)) (\<lambda>p. call (update_or_create_process c p))"

definition apply_update_process ::
  "('s, 'r process) client \<Rightarrow> 'r process tools \<Rightarrow> change \<Rightarrow> ('s, unit) act" where
  "apply_update_process c tk ch =
     (let target = ch_target_name ch in
      seq (call (get_process_body c target)) (\<lambda>base.
      seq (modify (set_previous [(''process'', base)])) (\<lambda>_.
      seq (lift (build_process tk target (ch_new_content ch) (Some base))) (\<lambda>candidate.
      seq (call (update_or_create_process c candidate)) (\<lambda>_.
      let restore_base = put_back c tk base in
      seq (try_except (call (compile_process_on_server c target))
             (restore_then_raise restore_base)) (\<lambda>errors.
      if errors \<noteq> [] then
        seq restore_base (\<lambda>_.
          modify (mark_failed errors ''Compile failed after update; previous version restored.''))
      else
        seq (call (get_process_body c target)) (\<lambda>body.
        seq (modify (set_previous [(''process'', base), (''applied'', code_of body)])) (\<lambda>_.
        mark_executed))))))))"

definition apply_delete_process :: "('s, 'p) client \<Rightarrow> change \<Rightarrow> ('s, unit) act" where
  "apply_delete_process c ch =
     (let target = ch_target_name ch in
      seq (call (get_process_body c target)) (\<lambda>base.
      seq (modify (set_previous [(''process'', base)])) (\<lambda>_.
      seq (call (delete_process c target)) (\<lambda>_. mark_executed))))"

definition cell_json :: "string list \<times> json \<Rightarrow> json" where
  "cell_json cv =
     JObj [(''coordinates'', JArr (map JStr (fst cv))), (''value'', snd cv)]"

definition or_zero :: "json \<Rightarrow> json" where
  "or_zero v = (if v = JNull then JInt 0 else v)"

definition wrong_cells ::
  "('p, 'z) tools_scheme \<Rightarrow> (string list \<times> json) list \<Rightarrow> json list \<Rightarrow> json list" where
  "wrong_cells tk writes after =
     map (\<lambda>((co, v), a). JArr (map JStr co))
       (filter (\<lambda>((co, v), a). \<not> same_value tk a v) (zip writes after))"

definition apply_write_cells ::
  "('s, 'p) client \<Rightarrow> ('p, 'z) tools_scheme \<Rightarrow> change \<Rightarrow> ('s, unit) act" where
  "apply_write_cells c tk ch =
     (let target = ch_target_name ch in
      seq (lift (cell_writes (ch_new_content ch))) (\<lambda>writes.
      let coordinates = map fst writes in
      seq (call (cube_dimensions c target)) (\<lambda>dimensions.
      seq (read_values c target coordinates) (\<lambda>before.
      let saved = (''cells'', JArr (map cell_json (zip coordinates before)));
          restore_cells =
            call (write_cells c target dimensions
              (map (\<lambda>(co, v). (co, or_zero v)) (zip coordinates before))) in
      seq (modify (set_previous [saved])) (\<lambda>_.
      seq (call (write_cells c target dimensions writes)) (\<lambda>_.
      seq (try_except (read_values c target coordinates) (restore_then_raise restore_cells)) (\<lambda>after.
      let wrong = wrong_cells tk writes after in
      if wrong \<noteq> [] then
        seq restore_cells (\<lambda>_.
          modify (mark_failed wrong ''The server did not hold the written values; the previous values were written back.''))
      else
        seq (modify (set_previous [saved, (''applied'', JArr (map normal after))])) (\<lambda>_.
        mark_executed))))))))"

definition saved_mdx :: "json \<Rightarrow> string option" where
  "saved_mdx v =
     (if json_get v ''type'' = Some (JStr ''mdx'')
      then Some (mdx_text (case json_get v ''mdx'' of Some (JStr m) \<Rightarrow> Some m | _ \<Rightarrow> None)) else None)"

definition apply_create_view :: "('s, 'p) client \<Rightarrow> change \<Rightarrow> ('s, unit) act" where
  "apply_create_view c ch =
     (let cube = ch_target_name ch in
      seq (lift (view_content (ch_new_content ch))) (\<lambda>(view_name, mdx).
      seq (call (view_exists c cube view_name)) (\<lambda>exists.
      seq (require (\<not> exists) (Conflict CONFLICT)) (\<lambda>_.
      seq (modify (\<lambda>ch. (set_previous [(''existed'', JBool False)] ch)
             \<lparr>ch_execution_result := Some (JObj [(''view'', JStr view_name), (''cube'', JStr cube),
                (''private'', JBool False)])\<rparr>)) (\<lambda>_.
      seq (call (create_mdx_view c cube view_name mdx)) (\<lambda>_.
      let remove_view = call (delete_view c cube view_name) in
      seq (try_except (call (get_view c cube view_name)) (restore_then_raise remove_view)) (\<lambda>saved.
      if saved_mdx saved \<noteq> Some (mdx_text (Some mdx)) then
        seq remove_view (\<lambda>_.
          modify (mark_failed [JStr ''The view TM1 saved does not hold the MDX that was approved.'']
            ''The view read back did not match the approved MDX; the view was deleted.''))
      else
        seq (modify (set_previous [(''existed'', JBool False), (''applied'', JStr (or_blank (saved_mdx saved)))])) (\<lambda>_.
        mark_executed))))))))"

section \<open>Running a process\<close>

definition run_json :: "run_result \<Rightarrow> json" where
  "run_json r =
     JObj [(''success'', JBool (rr_success r)), (''status'', JStr (rr_status r)),
           (''error_log_file'', text_json (rr_error_log_file r))]"

definition run_parameters :: "json option \<Rightarrow> json" where
  "run_parameters content = py_or (content_get content ''parameters'') (JObj [])"

definition not_run :: "json \<Rightarrow> string \<Rightarrow> ChangeStatus \<Rightarrow> string \<Rightarrow> change \<Rightarrow> change" where
  "not_run success status st msg ch =
     ch\<lparr>ch_status := st, ch_error_message := Some msg,
        ch_execution_result := Some (JObj [(''success'', success), (''status'', JStr status)])\<rparr>"

text \<open>
  The excerpt of the error log is read for its text only: whatever the read
  does, the run's result stands.
\<close>

definition error_log_excerpt :: "('s, 'p) client \<Rightarrow> run_result \<Rightarrow> ('s, unit) act" where
  "error_log_excerpt c r =
     (case (rr_success r, rr_error_log_file r) of
        (False, Some f) \<Rightarrow>
          if f = [] then ret ()
          else try_except (seq (call (get_process_error_log c f)) (\<lambda>_. ret ())) (\<lambda>_. ret ())
      | _ \<Rightarrow> ret ())"

definition run_change :: "('s, 'p) client \<Rightarrow> change \<Rightarrow> ('s, unit) act" where
  "run_change c ch = (\<lambda>st.
     case call (execute_process c (ch_target_name ch) (run_parameters (ch_new_content ch))) st of
       (st', Inl TM1OutcomeUnknown) \<Rightarrow>
         modify (not_run JNull ''NoResponse'' UNKNOWN ''TM1 was asked to cancel the run.'') st'
     | (st', Inl e) \<Rightarrow>
         modify (not_run (JBool False) ''NotStarted'' CHANGE_FAILED ''The run could not be started: '') st'
     | (st', Inr r) \<Rightarrow>
         seq (error_log_excerpt c r) (\<lambda>_. modify (\<lambda>ch.
           if rr_success r then ch\<lparr>ch_execution_result := Some (run_json r), ch_status := EXECUTED\<rparr>
           else ch\<lparr>ch_execution_result := Some (run_json r), ch_status := CHANGE_FAILED,
                   ch_error_message := Some (''TM1 reported '' @ rr_status r @ ''.'')\<rparr>)) st')"

section \<open>Executing a draft\<close>

definition apply_change ::
  "('s, 'r process) client \<Rightarrow> 'r process tools \<Rightarrow> change \<Rightarrow> ('s, unit) act" where
  "apply_change c tk ch =
     (case ch_type ch of
        UPDATE_RULES \<Rightarrow> apply_update_rules c ch
      | CREATE_PROCESS \<Rightarrow> apply_create_process c tk ch
      | UPDATE_PROCESS \<Rightarrow> apply_update_process c tk ch
      | RUN_PROCESS \<Rightarrow> run_change c ch
      | WRITE_CELLS \<Rightarrow> apply_write_cells c tk ch
      | CREATE_VIEW \<Rightarrow> apply_create_view c ch
      | DELETE_PROCESS \<Rightarrow> apply_delete_process c ch)"

text \<open>The handler around \<open>_apply\<close>: sent but not confirmed is its own status.\<close>

definition outcome_unknown :: "exn \<Rightarrow> ('s, unit) act" where
  "outcome_unknown e =
     (if e = TM1OutcomeUnknown then
        seq row (\<lambda>ch.
          if ch_previous_content ch = None then raise e
          else modify (\<lambda>ch. ch\<lparr>ch_status := UNKNOWN,
                 ch_error_message := Some ''TM1 did not confirm the change, so it may or may not have been applied.''\<rparr>))
      else raise e)"

text \<open>The guards before TM1 is contacted, in the order of the code.\<close>

definition execute_guards :: "bool \<Rightarrow> change \<Rightarrow> unit result" where
  "execute_guards acknowledge ch =
     bind_result (ensure (ch_status ch = DRAFT) (Conflict CONFLICT)) (\<lambda>_.
     bind_result (ensure (ch_validation_errors ch = []) Validation) (\<lambda>_.
     ensure (\<not> needs_acknowledgement (ch_impact ch) \<or> acknowledge) Validation))"

definition execute_change ::
  "('s, 'r process) client \<Rightarrow> 'r process tools \<Rightarrow> uuid \<Rightarrow> bool \<Rightarrow> time \<Rightarrow> ('s, unit) act" where
  "execute_change c tk by acknowledge now =
     seq row (\<lambda>ch.
     seq (lift (execute_guards acknowledge ch)) (\<lambda>_.
     seq (call (connect c)) (\<lambda>_.
     seq (check_drift c tk ch) (\<lambda>_.
     seq (modify (\<lambda>ch. ch\<lparr>ch_executed_by := Some by, ch_executed_at := Some now\<rparr>)) (\<lambda>_.
     try_except (apply_change c tk ch) outcome_unknown)))))"

definition reject_change :: "('s, unit) act" where
  "reject_change =
     seq row (\<lambda>ch.
     seq (require (ch_status ch = DRAFT) (Conflict CONFLICT)) (\<lambda>_.
     modify (\<lambda>ch. ch\<lparr>ch_status := CHANGE_REJECTED\<rparr>)))"

section \<open>Rolling back\<close>

definition previous_get :: "change \<Rightarrow> string \<Rightarrow> json option" where
  "previous_get ch = content_get (ch_previous_content ch)"

text \<open>The cells of a snapshot, \<open>c["coordinates"]\<close> and \<open>c["value"]\<close>.\<close>

fun json_text :: "json \<Rightarrow> string option" where
  "json_text (JStr s) = Some s"
| "json_text _ = None"

definition saved_cell :: "json \<Rightarrow> (string list \<times> json) result" where
  "saved_cell v =
     (case (json_get v ''coordinates'', json_get v ''value'') of
        (Some (JArr es), Some x) \<Rightarrow>
          if list_all (\<lambda>e. json_text e \<noteq> None) es then Inr (map (\<lambda>e. or_blank (json_text e)) es, x)
          else Inl TypeError
      | _ \<Rightarrow> Inl KeyError)"

fun saved_cell_list :: "json list \<Rightarrow> (string list \<times> json) list result" where
  "saved_cell_list [] = Inr []"
| "saved_cell_list (v # vs) =
     bind_result (saved_cell v) (\<lambda>x. bind_result (saved_cell_list vs) (\<lambda>r. Inr (x # r)))"

definition saved_cells :: "change \<Rightarrow> (string list \<times> json) list result" where
  "saved_cells ch =
     (case previous_get ch ''cells'' of Some (JArr vs) \<Rightarrow> saved_cell_list vs | _ \<Rightarrow> Inr [])"

text \<open>
  The first half of \<open>rollback_change\<close>: restore only over what this change
  left there. Changes applied before \<open>applied\<close> was recorded pass.
\<close>

definition check_unedited :: "('s, 'p) client \<Rightarrow> change \<Rightarrow> ('s, unit) act" where
  "check_unedited c ch =
     (let target = ch_target_name ch; changed = Conflict CONFLICT;
          applied = previous_get ch ''applied'' in
      case ch_type ch of
        UPDATE_RULES \<Rightarrow>
          (case applied of
             None \<Rightarrow> ret ()
           | Some a \<Rightarrow>
               seq (call (get_cube_rules c target)) (\<lambda>r. require (JStr (rules_text r) = a) changed))
      | WRITE_CELLS \<Rightarrow>
          seq (lift (saved_cells ch)) (\<lambda>saved.
          seq (read_values c target (map fst saved)) (\<lambda>now.
            require (Some (JArr (map normal now)) = applied) changed))
      | CREATE_VIEW \<Rightarrow>
          seq (lift (view_content (ch_new_content ch))) (\<lambda>(view_name, _).
          seq (call (view_exists c target view_name)) (\<lambda>exists.
          seq (require exists changed) (\<lambda>_.
          seq (call (get_view c target view_name)) (\<lambda>saved.
            require (applied \<noteq> None \<and> map_option JStr (saved_mdx saved) = applied) changed))))
      | DELETE_PROCESS \<Rightarrow>
          seq (call (process_exists c target)) (\<lambda>exists. require (\<not> exists) changed)
      | _ \<Rightarrow>
          (case applied of
             None \<Rightarrow> ret ()
           | Some a \<Rightarrow>
               seq (call (process_exists c target)) (\<lambda>exists.
                 if exists then
                   seq (call (get_process_body c target)) (\<lambda>b. require (code_of b = a) changed)
                 else require (ch_type ch \<noteq> UPDATE_PROCESS) changed)))"

definition restore_snapshot :: "('s, 'p) client \<Rightarrow> ('p, 'z) tools_scheme \<Rightarrow> change \<Rightarrow> ('s, unit) act" where
  "restore_snapshot c tk ch =
     (let target = ch_target_name ch in
      case ch_type ch of
        UPDATE_RULES \<Rightarrow>
          if ch_previous_content ch = None then raise OtherError
          else call (update_cube_rules c target
                 (case previous_get ch ''rules'' of Some (JStr r) \<Rightarrow> r | _ \<Rightarrow> []))
      | WRITE_CELLS \<Rightarrow>
          seq (lift (saved_cells ch)) (\<lambda>saved.
          seq (call (cube_dimensions c target)) (\<lambda>dimensions.
            call (write_cells c target dimensions (map (\<lambda>(co, v). (co, or_zero v)) saved))))
      | CREATE_VIEW \<Rightarrow>
          seq (lift (view_content (ch_new_content ch))) (\<lambda>(view_name, _).
            call (delete_view c target view_name))
      | CREATE_PROCESS \<Rightarrow>
          seq (call (process_exists c target)) (\<lambda>exists.
            if exists then call (delete_process c target) else ret ())
      | _ \<Rightarrow>
          (case previous_get ch ''process'' of
             None \<Rightarrow> raise (if ch_previous_content ch = None then TypeError else KeyError)
           | Some body \<Rightarrow> put_back c tk body))"

definition rollback_change ::
  "('s, 'p) client \<Rightarrow> ('p, 'z) tools_scheme \<Rightarrow> time \<Rightarrow> ('s, unit) act" where
  "rollback_change c tk now =
     seq row (\<lambda>ch.
     seq (require (ch_type ch \<noteq> RUN_PROCESS) (Conflict CONFLICT)) (\<lambda>_.
     seq (require (ch_status ch = EXECUTED) (Conflict CONFLICT)) (\<lambda>_.
     seq (call (connect c)) (\<lambda>_.
     seq (check_unedited c ch) (\<lambda>_.
     seq (restore_snapshot c tk ch) (\<lambda>_.
     modify (\<lambda>ch. ch\<lparr>ch_status := ROLLED_BACK, ch_rolled_back_at := Some now\<rparr>)))))))"

section \<open>The request transaction\<close>

text \<open>
  The row a request leaves behind: committed when the service returns, as it
  was when it raises. What was sent to the server stays sent.
\<close>

definition request :: "('s, 'a) act \<Rightarrow> 's \<times> change \<Rightarrow> ('s \<times> change) \<times> 'a result" where
  "request m st =
     (case m st of (st', Inl e) \<Rightarrow> ((fst st', snd st), Inl e) | (st', Inr a) \<Rightarrow> (st', Inr a))"

section \<open>The life cycle shown to the user\<close>

datatype StepState = STEP_DONE | STEP_CURRENT | STEP_FAILED | STEP_SKIPPED | STEP_PENDING | STEP_UNKNOWN

definition lifecycle :: "change \<Rightarrow> (string \<times> StepState) list" where
  "lifecycle ch =
     (let is_run = (ch_type ch = RUN_PROCESS);
          valid = (ch_validation_errors ch = []);
          decided = (ch_executed_at ch \<noteq> None);
          outcome = (if ch_status ch = CHANGE_FAILED then STEP_FAILED else STEP_DONE);
          steps = [(''requested'', STEP_DONE), (''analyzed'', STEP_DONE),
                   (''validated'', if valid then STEP_DONE else STEP_FAILED), (''diff'', STEP_DONE)]
      in
      if ch_status ch \<in> {CHANGE_REJECTED, SUPERSEDED} then steps @ [(''approval'', STEP_SKIPPED)]
      else if \<not> decided then
        steps @ [(''approval'', if valid then STEP_CURRENT else STEP_PENDING),
                 (''snapshot'', STEP_PENDING), (''deployed'', STEP_PENDING), (''verified'', STEP_PENDING)]
      else
        let approved = steps @ [(''approval'', STEP_DONE)] in
        if ch_status ch = UNKNOWN then
          approved @ [(''deployed'', STEP_UNKNOWN), (''verified'', STEP_PENDING)]
        else
          approved @
          (if is_run then []
           else [(''snapshot'', case ch_previous_content ch of
                    Some v \<Rightarrow> if truthy v then STEP_DONE else STEP_SKIPPED | None \<Rightarrow> STEP_SKIPPED)]) @
          [(''deployed'', outcome), (''verified'', outcome)] @
          (if ch_rolled_back_at ch \<noteq> None then [(''rolled_back'', STEP_DONE)] else []))"

end
