(* ===== verification/ChangeProperties.thy ===== *)
theory ChangeProperties
  imports ChangeService
begin

text \<open>
  What applying and rolling back a change guarantees: how the steps compose,
  which moves the status makes, what a stored row holds in each status, what a
  refused change leaves alone, and what is on the server after a failure and
  after a rollback.
\<close>

section \<open>How steps compose\<close>

named_theorems act_simps \<open>what it means for a step to return or to raise\<close>

lemma seq_Inr [act_simps]:
  "seq m f st = (st', Inr b) \<longleftrightarrow> (\<exists>st1 a. m st = (st1, Inr a) \<and> f a st1 = (st', Inr b))"
  by (auto simp: seq_def split: prod.splits sum.splits)

lemma seq_Inl [act_simps]:
  "seq m f st = (st', Inl e) \<longleftrightarrow>
     m st = (st', Inl e) \<or> (\<exists>st1 a. m st = (st1, Inr a) \<and> f a st1 = (st', Inl e))"
  by (auto simp: seq_def split: prod.splits sum.splits)

lemma ret_iff [act_simps]: "ret a st = (st', r) \<longleftrightarrow> st' = st \<and> r = Inr a"
  by (auto simp: ret_def)

lemma raise_iff [act_simps]: "raise e st = (st', r) \<longleftrightarrow> st' = st \<and> r = Inl e"
  by (auto simp: raise_def)

lemma row_iff [act_simps]: "row st = (st', r) \<longleftrightarrow> st' = st \<and> r = Inr (snd st)"
  by (auto simp: row_def)

lemma lift_iff [act_simps]: "lift x st = (st', r) \<longleftrightarrow> st' = st \<and> r = x"
  by (auto simp: lift_def)

lemma modify_iff [act_simps]:
  "modify f st = (st', r) \<longleftrightarrow> st' = (fst st, f (snd st)) \<and> r = Inr ()"
  by (cases st) (auto simp: modify_def)

lemma require_iff [act_simps]:
  "require b e st = (st', r) \<longleftrightarrow> st' = st \<and> r = (if b then Inr () else Inl e)"
  by (auto simp: require_def act_simps)

lemma call_iff [act_simps]:
  "call c st = (st', r) \<longleftrightarrow> c (fst st) = (fst st', r) \<and> snd st' = snd st"
  by (cases st; cases st') (auto simp: call_def split: prod.splits)

lemma restore_then_raise_eq: "restore_then_raise re e st = (fst (re st), Inl e)"
  by (cases "re st"; cases "snd (re st)")
     (auto simp: restore_then_raise_def try_except_def seq_def ret_def raise_def)

lemma try_except_restore [act_simps]:
  "try_except m (restore_then_raise re) st = (st', Inr a) \<longleftrightarrow> m st = (st', Inr a)"
  by (auto simp: try_except_def restore_then_raise_eq split: prod.splits sum.splits)

lemma try_except_restore_Inl [act_simps]:
  "try_except m (restore_then_raise re) st = (st', Inl e) \<longleftrightarrow>
     (\<exists>st1. m st = (st1, Inl e) \<and> st' = fst (re st1))"
  by (auto simp: try_except_def restore_then_raise_eq split: prod.splits sum.splits)

text \<open>A property of the row alone is kept by a call.\<close>

lemma call_row: "call c st = (st', r) \<Longrightarrow> snd st' = snd st"
  by (simp add: call_iff)

lemma read_values_row: "read_values c cube cs st = (st', r) \<Longrightarrow> snd st' = snd st"
  by (cases r) (auto simp: read_values_def act_simps split: option.splits)

section \<open>What a stored row holds\<close>

text \<open>The moves of the status column.\<close>

definition change_moves :: "ChangeStatus \<Rightarrow> ChangeStatus \<Rightarrow> bool" where
  "change_moves s t \<longleftrightarrow>
     s = DRAFT \<and> t \<in> {EXECUTED, CHANGE_FAILED, UNKNOWN, CHANGE_REJECTED, SUPERSEDED} \<or>
     s = EXECUTED \<and> t = ROLLED_BACK"

definition change_final :: "ChangeStatus \<Rightarrow> bool" where
  "change_final s \<longleftrightarrow> s \<noteq> DRAFT \<and> s \<noteq> EXECUTED"

interpretation change_machine: status_machine change_moves change_final
proof
  show "\<not> change_moves s t" if "change_final s" for s t
    using that by (auto simp: change_moves_def change_final_def)
  show "\<exists>t. change_moves s t" if "\<not> change_final s" for s
    using that by (cases s) (auto simp: change_moves_def change_final_def)
qed

text \<open>The snapshot an executed change of each type carries.\<close>

definition has_snapshot :: "change \<Rightarrow> bool" where
  "has_snapshot ch =
     (case ch_type ch of
        UPDATE_RULES \<Rightarrow> previous_get ch ''rules'' \<noteq> None \<and> previous_get ch ''applied'' \<noteq> None
      | CREATE_PROCESS \<Rightarrow> previous_get ch ''existed'' = Some (JBool False) \<and> previous_get ch ''applied'' \<noteq> None
      | UPDATE_PROCESS \<Rightarrow> previous_get ch ''process'' \<noteq> None \<and> previous_get ch ''applied'' \<noteq> None
      | DELETE_PROCESS \<Rightarrow> previous_get ch ''process'' \<noteq> None
      | WRITE_CELLS \<Rightarrow> previous_get ch ''cells'' \<noteq> None \<and> previous_get ch ''applied'' \<noteq> None
      | CREATE_VIEW \<Rightarrow> previous_get ch ''existed'' = Some (JBool False) \<and> previous_get ch ''applied'' \<noteq> None
      | RUN_PROCESS \<Rightarrow> ch_execution_result ch \<noteq> None)"

definition decided :: "change \<Rightarrow> bool" where
  "decided ch \<longleftrightarrow> ch_executed_by ch \<noteq> None \<and> ch_executed_at ch \<noteq> None"

definition change_ok :: "change \<Rightarrow> bool" where
  "change_ok ch =
     (case ch_status ch of
        DRAFT \<Rightarrow> \<not> decided ch \<and> ch_previous_content ch = None \<and> ch_rolled_back_at ch = None
      | CHANGE_REJECTED \<Rightarrow> \<not> decided ch \<and> ch_previous_content ch = None \<and> ch_rolled_back_at ch = None
      | SUPERSEDED \<Rightarrow> \<not> decided ch \<and> ch_previous_content ch = None \<and> ch_rolled_back_at ch = None
      | EXECUTED \<Rightarrow> decided ch \<and> ch_validation_errors ch = [] \<and> has_snapshot ch \<and> ch_rolled_back_at ch = None
      | CHANGE_FAILED \<Rightarrow> decided ch \<and> ch_error_message ch \<noteq> None \<and> ch_rolled_back_at ch = None
      | UNKNOWN \<Rightarrow> decided ch \<and> ch_error_message ch \<noteq> None \<and> ch_rolled_back_at ch = None \<and>
          (ch_previous_content ch \<noteq> None \<or> ch_type ch = RUN_PROCESS)
      | ROLLED_BACK \<Rightarrow> decided ch \<and> has_snapshot ch \<and> ch_rolled_back_at ch \<noteq> None \<and> ch_type ch \<noteq> RUN_PROCESS)"

text \<open>What a change is about never changes.\<close>

definition same_proposal :: "change \<Rightarrow> change \<Rightarrow> bool" where
  "same_proposal ch ch' \<longleftrightarrow>
     ch_id ch' = ch_id ch \<and> ch_connection_id ch' = ch_connection_id ch \<and>
     ch_organization_id ch' = ch_organization_id ch \<and> ch_created_by ch' = ch_created_by ch \<and>
     ch_type ch' = ch_type ch \<and> ch_target_name ch' = ch_target_name ch \<and>
     ch_new_content ch' = ch_new_content ch \<and> ch_environment ch' = ch_environment ch \<and>
     ch_base_fingerprint ch' = ch_base_fingerprint ch"

lemma same_proposal_refl [simp]: "same_proposal ch ch"
  by (simp add: same_proposal_def)

lemma same_proposal_trans: "same_proposal a b \<Longrightarrow> same_proposal b d \<Longrightarrow> same_proposal a d"
  by (simp add: same_proposal_def)

text \<open>The row after \<open>_apply\<close> has returned.\<close>

definition applied_row :: "change \<Rightarrow> change \<Rightarrow> bool" where
  "applied_row ch ch' \<longleftrightarrow>
     same_proposal ch ch' \<and> ch_executed_by ch' = ch_executed_by ch \<and>
     ch_executed_at ch' = ch_executed_at ch \<and> ch_rolled_back_at ch' = ch_rolled_back_at ch \<and>
     (ch_status ch' = EXECUTED \<and> ch_validation_errors ch' = ch_validation_errors ch \<and> has_snapshot ch' \<or>
      ch_status ch' = CHANGE_FAILED \<and> ch_error_message ch' \<noteq> None \<or>
      ch_status ch' = UNKNOWN \<and> ch_error_message ch' \<noteq> None \<and> ch_type ch = RUN_PROCESS)"

lemmas row_defs =
  applied_row_def same_proposal_def has_snapshot_def previous_get_def content_get_def
  set_previous_def mark_failed_def mark_executed_def not_run_def

lemma apply_update_rules_row:
  assumes "ch_type ch = UPDATE_RULES" "same_proposal ch (snd st)"
    "apply_update_rules c ch st = (st', Inr ())"
  shows "applied_row (snd st) (snd st')"
  using assms
  by (auto simp: apply_update_rules_def settle_rules_def Let_def act_simps row_defs split: option.splits if_splits)

lemma apply_create_process_row:
  assumes "ch_type ch = CREATE_PROCESS" "same_proposal ch (snd st)"
    "apply_create_process c tk ch st = (st', Inr ())"
  shows "applied_row (snd st) (snd st')"
  using assms
  by (auto simp: apply_create_process_def Let_def act_simps row_defs split: option.splits if_splits)

lemma apply_update_process_row:
  assumes "ch_type ch = UPDATE_PROCESS" "same_proposal ch (snd st)"
    "apply_update_process c tk ch st = (st', Inr ())"
  shows "applied_row (snd st) (snd st')"
  using assms
  by (auto simp: apply_update_process_def put_back_def Let_def act_simps row_defs split: option.splits if_splits)

lemma apply_delete_process_row:
  assumes "ch_type ch = DELETE_PROCESS" "same_proposal ch (snd st)"
    "apply_delete_process c ch st = (st', Inr ())"
  shows "applied_row (snd st) (snd st')"
  using assms
  by (auto simp: apply_delete_process_def Let_def act_simps row_defs split: option.splits if_splits)

lemma act_if: "(if b then f else g) st = (if b then f st else g st)" by simp

lemma apply_write_cells_row:
  assumes ty: "ch_type ch = WRITE_CELLS" and same: "same_proposal ch (snd st)"
    and run: "apply_write_cells c tk ch st = (st', Inr ())"
  shows "applied_row (snd st) (snd st')"
  using run unfolding apply_write_cells_def Let_def act_if
  apply (simp only: act_simps mark_executed_def)
  apply (elim exE conjE)
  apply (drule read_values_row)+
  apply (simp only: act_if)
  apply (split if_split_asm)
  apply (simp only: act_simps)
  apply (elim exE conjE)
  using ty same
  apply (simp add: row_defs)
  apply (simp only: act_simps)
  apply (elim exE conjE)
  using ty same
  apply (simp add: row_defs)
  done

lemma apply_create_view_row:
  assumes "ch_type ch = CREATE_VIEW" "same_proposal ch (snd st)"
    "apply_create_view c ch st = (st', Inr ())"
  shows "applied_row (snd st) (snd st')"
  using assms(3) unfolding apply_create_view_def Let_def act_if
  apply (simp only: act_simps mark_executed_def prod.case_eq_if)
  apply (elim exE conjE)
  apply (simp_all only: act_simps split: if_split_asm)
  apply (elim exE conjE; (use assms(1,2) in \<open>simp add: row_defs\<close>))+
  done

lemma error_log_excerpt_row: "error_log_excerpt c r st = (st', x) \<Longrightarrow> snd st' = snd st \<and> x = Inr ()"
proof (cases "rr_success r \<or> rr_error_log_file r \<in> {None, Some []}")
  case True
  moreover assume "error_log_excerpt c r st = (st', x)"
  ultimately show ?thesis
    by (cases "rr_success r"; cases "rr_error_log_file r") (auto simp: error_log_excerpt_def act_simps)
next
  case False
  then obtain f where f: "\<not> rr_success r" "rr_error_log_file r = Some f" "f \<noteq> []"
    by (cases "rr_error_log_file r") auto
  moreover assume "error_log_excerpt c r st = (st', x)"
  moreover obtain st1 y where "call (get_process_error_log c f) st = (st1, y)"
    by (cases "call (get_process_error_log c f) st") auto
  ultimately show ?thesis
    by (cases y) (auto simp: error_log_excerpt_def try_except_def seq_def ret_def dest: call_row)
qed

lemma run_change_row:
  assumes "ch_type ch = RUN_PROCESS" "same_proposal ch (snd st)" "run_change c ch st = (st', Inr ())"
  shows "applied_row (snd st) (snd st')"
proof -
  obtain st1 y where y: "call (execute_process c (ch_target_name ch) (run_parameters (ch_new_content ch))) st
      = (st1, y)"
    by (cases "call (execute_process c (ch_target_name ch) (run_parameters (ch_new_content ch))) st") auto
  have st1: "snd st1 = snd st" using y by (rule call_row)
  have ty: "ch_type (snd st) = RUN_PROCESS" using assms(1,2) by (simp add: same_proposal_def)
  show ?thesis
  proof (cases y)
    case (Inl e)
    then show ?thesis
      using assms(3) y st1 ty
      by (cases "e = TM1OutcomeUnknown") (auto simp: run_change_def modify_iff row_defs split: exn.splits)
  next
    case (Inr r)
    then obtain st2 where "error_log_excerpt c r st1 = (st2, Inr ())"
      "st' = (fst st2, (\<lambda>ch. if rr_success r
           then ch\<lparr>ch_execution_result := Some (run_json r), ch_status := EXECUTED\<rparr>
           else ch\<lparr>ch_execution_result := Some (run_json r), ch_status := CHANGE_FAILED,
                   ch_error_message := Some (''TM1 reported '' @ rr_status r @ ''.'')\<rparr>) (snd st2))"
      using assms(3) y by (auto simp: run_change_def seq_Inr modify_iff)
    then show ?thesis
      using st1 ty by (auto simp: row_defs dest!: error_log_excerpt_row)
  qed
qed

lemmas apply_rows =
  apply_update_rules_row apply_create_process_row apply_update_process_row
  apply_delete_process_row apply_write_cells_row apply_create_view_row run_change_row

lemma apply_change_row:
  assumes "same_proposal ch (snd st)" "apply_change c tk ch st = (st', Inr ())"
  shows "applied_row (snd st) (snd st')"
  using assms by (cases "ch_type ch") (simp_all add: apply_change_def apply_rows)

text \<open>Whatever is raised, the row in memory is still about the same proposal.\<close>

definition keeps_row :: "(change \<Rightarrow> change \<Rightarrow> bool) \<Rightarrow> ('s, 'a) act \<Rightarrow> bool" where
  "keeps_row R m \<longleftrightarrow> (\<forall>st. R (snd st) (snd (fst (m st))))"

definition same_decision :: "change \<Rightarrow> change \<Rightarrow> bool" where
  "same_decision ch ch' \<longleftrightarrow>
     same_proposal ch ch' \<and> ch_executed_by ch' = ch_executed_by ch \<and>
     ch_executed_at ch' = ch_executed_at ch \<and> ch_rolled_back_at ch' = ch_rolled_back_at ch"

lemma same_decision_refl [simp]: "same_decision ch ch"
  by (simp add: same_decision_def)

lemma same_decision_trans: "same_decision a b \<Longrightarrow> same_decision b d \<Longrightarrow> same_decision a d"
  by (simp add: same_decision_def same_proposal_def)

named_theorems keep_intros \<open>steps that leave the proposal and the decision alone\<close>

lemma keep_seq [keep_intros]:
  assumes "keeps_row same_decision m" "\<And>a. keeps_row same_decision (f a)"
  shows "keeps_row same_decision (seq m f)"
  unfolding keeps_row_def
proof
  fix st
  have 1: "same_decision (snd st) (snd (fst (m st)))"
    using assms(1) unfolding keeps_row_def by blast
  have 2: "same_decision (snd st1) (snd (fst (f a st1)))" for a st1
    using assms(2) unfolding keeps_row_def by blast
  show "same_decision (snd st) (snd (fst (seq m f st)))"
    using 1 2
    by (cases "m st"; cases "snd (m st)") (auto simp: seq_def intro: same_decision_trans)
qed

lemma keep_try [keep_intros]:
  assumes "keeps_row same_decision m" "\<And>e. keeps_row same_decision (h e)"
  shows "keeps_row same_decision (try_except m h)"
  unfolding keeps_row_def
proof
  fix st
  have 1: "same_decision (snd st) (snd (fst (m st)))"
    using assms(1) unfolding keeps_row_def by blast
  have 2: "same_decision (snd st1) (snd (fst (h e st1)))" for e st1
    using assms(2) unfolding keeps_row_def by blast
  show "same_decision (snd st) (snd (fst (try_except m h st)))"
    using 1 2
    by (cases "m st"; cases "snd (m st)") (auto simp: try_except_def intro: same_decision_trans)
qed

lemma keep_basic [keep_intros]:
  "keeps_row same_decision (ret a)"
  "keeps_row same_decision (raise e)"
  "keeps_row same_decision row"
  "keeps_row same_decision (lift x)"
  "keeps_row same_decision (require b e)"
  "keeps_row same_decision (call c)"
  by (auto simp: keeps_row_def ret_def raise_def row_def lift_def require_def call_def split: prod.splits)

lemma keep_modify [keep_intros]: "(\<And>ch. same_decision ch (f ch)) \<Longrightarrow> keeps_row same_decision (modify f)"
  by (auto simp: keeps_row_def modify_def split: prod.splits)

lemma keep_restore [keep_intros]:
  "keeps_row same_decision re \<Longrightarrow> keeps_row same_decision (restore_then_raise re e)"
  by (simp add: keeps_row_def restore_then_raise_eq)

lemma keep_row_changes [simp]:
  "same_decision ch (set_previous kvs ch)"
  "same_decision ch (mark_failed es msg ch)"
  "same_decision ch (not_run a b s msg ch)"
  by (simp_all add: same_decision_def row_defs)

lemma keeps_rowD: "keeps_row R m \<Longrightarrow> R (snd st) (snd (fst (m st)))"
  unfolding keeps_row_def by blast

lemma keep_read_values [keep_intros]: "keeps_row same_decision (read_values c cube cs)"
  unfolding read_values_def by (intro keep_intros) (simp add: keep_intros split: option.split)

lemma keep_if [keep_intros]:
  "(b \<Longrightarrow> keeps_row same_decision m) \<Longrightarrow> (\<not> b \<Longrightarrow> keeps_row same_decision n) \<Longrightarrow>
   keeps_row same_decision (if b then m else n)"
  by simp

lemma keep_option [keep_intros]:
  "keeps_row same_decision m \<Longrightarrow> (\<And>x. keeps_row same_decision (f x)) \<Longrightarrow>
   keeps_row same_decision (case z of None \<Rightarrow> m | Some x \<Rightarrow> f x)"
  by (simp split: option.split)

lemma keep_pair [keep_intros]:
  "(\<And>x y. keeps_row same_decision (f x y)) \<Longrightarrow> keeps_row same_decision (case p of (x, y) \<Rightarrow> f x y)"
  by (simp split: prod.split)

lemma same_decision_updates [simp]:
  "same_decision ch (ch\<lparr>ch_status := s\<rparr>)"
  "same_decision ch (ch\<lparr>ch_checks := cs\<rparr>)"
  "same_decision ch (ch\<lparr>ch_status := s, ch_error_message := m\<rparr>)"
  "same_decision ch (ch\<lparr>ch_execution_result := r, ch_status := s\<rparr>)"
  "same_decision ch (ch\<lparr>ch_execution_result := r, ch_status := s, ch_error_message := m\<rparr>)"
  "same_decision ch ((set_previous kvs ch)\<lparr>ch_execution_result := r\<rparr>)"
  by (simp_all add: same_decision_def row_defs)

lemma keep_run [keep_intros]: "keeps_row same_decision (run_change c ch)"
proof -
  have 1: "keeps_row same_decision (error_log_excerpt c r)" for r
    unfolding error_log_excerpt_def by (auto intro!: keep_intros split: bool.split option.split)
  have 2: "keeps_row same_decision (seq (error_log_excerpt c r) (\<lambda>_. modify (\<lambda>ch.
       if rr_success r then ch\<lparr>ch_execution_result := Some (run_json r), ch_status := EXECUTED\<rparr>
       else ch\<lparr>ch_execution_result := Some (run_json r), ch_status := CHANGE_FAILED,
               ch_error_message := Some (''TM1 reported '' @ rr_status r @ ''.'')\<rparr>)))" for r
    by (intro keep_intros 1) simp
  show ?thesis
    unfolding keeps_row_def
  proof
    fix st
    obtain st1 y where y: "call (execute_process c (ch_target_name ch) (run_parameters (ch_new_content ch))) st
        = (st1, y)"
      by (cases "call (execute_process c (ch_target_name ch) (run_parameters (ch_new_content ch))) st") auto
    have st1: "snd st1 = snd st" using y by (rule call_row)
    show "same_decision (snd st) (snd (fst (run_change c ch st)))"
    proof (cases y)
      case (Inl e)
      then show ?thesis using y st1
        by (cases "e = TM1OutcomeUnknown") (auto simp: run_change_def modify_def split: exn.splits prod.splits)
    next
      case (Inr r)
      then show ?thesis using y st1 keeps_rowD [OF 2 [of r], of st1] by (simp add: run_change_def)
    qed
  qed
qed

lemma keep_apply [keep_intros]: "keeps_row same_decision (apply_change c tk ch)"
  unfolding apply_change_def apply_update_rules_def settle_rules_def apply_create_process_def
    apply_update_process_def apply_delete_process_def apply_write_cells_def apply_create_view_def
    mark_executed_def put_back_def Let_def
  by (cases "ch_type ch"; simp; intro keep_intros; simp)

lemma outcome_unknown_cases:
  "outcome_unknown e st = (st', r) \<longleftrightarrow>
     (if e = TM1OutcomeUnknown \<and> ch_previous_content (snd st) \<noteq> None then
        st' = (fst st, (snd st)\<lparr>ch_status := UNKNOWN, ch_error_message :=
          Some ''TM1 did not confirm the change, so it may or may not have been applied.''\<rparr>) \<and> r = Inr ()
      else st' = st \<and> r = Inl e)"
  by (auto simp: outcome_unknown_def seq_def row_def modify_def raise_def split: prod.splits)

lemma check_drift_row: "check_drift c tk ch st = (st', r) \<Longrightarrow> snd st' = snd st"
  by (cases r)
     (auto simp: check_drift_def server_fingerprint_def act_simps
       split: option.splits ChangeType.splits if_splits dest!: read_values_row)

text \<open>What a successful execution has passed, and the row it leaves.\<close>

lemma execute_Inr:
  assumes "execute_change c tk by ack now (s, ch) = (st', Inr ())"
  shows "ch_status ch = DRAFT" "ch_validation_errors ch = []"
    "needs_acknowledgement (ch_impact ch) \<longrightarrow> ack"
    "same_proposal ch (snd st')"
    "ch_executed_by (snd st') = Some by" "ch_executed_at (snd st') = Some now"
    "ch_rolled_back_at (snd st') = ch_rolled_back_at ch"
    "ch_status (snd st') = EXECUTED \<and> ch_validation_errors (snd st') = [] \<and> has_snapshot (snd st') \<or>
     ch_status (snd st') = CHANGE_FAILED \<and> ch_error_message (snd st') \<noteq> None \<or>
     ch_status (snd st') = UNKNOWN \<and> ch_error_message (snd st') \<noteq> None \<and>
       (ch_previous_content (snd st') \<noteq> None \<or> ch_type ch = RUN_PROCESS)"
proof -
  obtain s1 s2 where g: "execute_guards ack ch = Inr ()"
    and c: "call (connect c) (s, ch) = (s1, Inr ())"
    and d: "check_drift c tk ch s1 = (s2, Inr ())"
    and a: "try_except (apply_change c tk ch) outcome_unknown
        (fst s2, (snd s2)\<lparr>ch_executed_by := Some by, ch_executed_at := Some now\<rparr>) = (st', Inr ())"
    using assms by (auto simp: execute_change_def seq_Inr row_iff lift_iff modify_iff)
  have row: "snd s2 = ch" using c d by (auto dest!: check_drift_row call_row)
  show guards: "ch_status ch = DRAFT" "ch_validation_errors ch = []"
    "needs_acknowledgement (ch_impact ch) \<longrightarrow> ack"
    using g by (auto simp: execute_guards_def bind_result_Inr_iff)
  let ?ch = "ch\<lparr>ch_executed_by := Some by, ch_executed_at := Some now\<rparr>"
  let ?st = "(fst s2, ?ch)"
  have same: "same_proposal ch ?ch" by (simp add: same_proposal_def)
  have *: "same_proposal ch (snd st') \<and> ch_executed_by (snd st') = Some by \<and>
    ch_executed_at (snd st') = Some now \<and> ch_rolled_back_at (snd st') = ch_rolled_back_at ch \<and>
    (ch_status (snd st') = EXECUTED \<and> ch_validation_errors (snd st') = [] \<and> has_snapshot (snd st') \<or>
     ch_status (snd st') = CHANGE_FAILED \<and> ch_error_message (snd st') \<noteq> None \<or>
     ch_status (snd st') = UNKNOWN \<and> ch_error_message (snd st') \<noteq> None \<and>
       (ch_previous_content (snd st') \<noteq> None \<or> ch_type ch = RUN_PROCESS))"
  proof (cases "apply_change c tk ch ?st")
    case (Pair st1 y)
    show ?thesis
    proof (cases y)
      case (Inr u)
      then have "apply_change c tk ch ?st = (st', Inr ())"
        using Pair a row by (simp add: try_except_def)
      then have "applied_row ?ch (snd st')"
        using apply_change_row [of ch ?st c tk st'] same by simp
      then show ?thesis
        using guards(2) by (auto simp: applied_row_def same_proposal_def)
    next
      case (Inl e)
      have "same_decision ?ch (snd st1)"
        using keeps_rowD [OF keep_apply [of c tk ch], of ?st] Pair by simp
      moreover have "outcome_unknown e st1 = (st', Inr ())"
        using Inl Pair a row by (simp add: try_except_def)
      ultimately show ?thesis
        by (auto simp: outcome_unknown_cases same_decision_def same_proposal_def split: if_splits)
    qed
  qed
  show "same_proposal ch (snd st')" "ch_executed_by (snd st') = Some by"
    "ch_executed_at (snd st') = Some now" "ch_rolled_back_at (snd st') = ch_rolled_back_at ch"
    "ch_status (snd st') = EXECUTED \<and> ch_validation_errors (snd st') = [] \<and> has_snapshot (snd st') \<or>
     ch_status (snd st') = CHANGE_FAILED \<and> ch_error_message (snd st') \<noteq> None \<or>
     ch_status (snd st') = UNKNOWN \<and> ch_error_message (snd st') \<noteq> None \<and>
       (ch_previous_content (snd st') \<noteq> None \<or> ch_type ch = RUN_PROCESS)"
    using * by blast+
qed

lemma rollback_Inr:
  assumes "rollback_change c tk now (s, ch) = (st', Inr ())"
  shows "ch_status ch = EXECUTED" "ch_type ch \<noteq> RUN_PROCESS"
    "snd st' = ch\<lparr>ch_status := ROLLED_BACK, ch_rolled_back_at := Some now\<rparr>"
proof -
  obtain s1 s2 s3 where *: "ch_type ch \<noteq> RUN_PROCESS" "ch_status ch = EXECUTED"
    "call (connect c) (s, ch) = (s1, Inr ())" "check_unedited c ch s1 = (s2, Inr ())"
    "restore_snapshot c tk ch s2 = (s3, Inr ())"
    "st' = (fst s3, (snd s3)\<lparr>ch_status := ROLLED_BACK, ch_rolled_back_at := Some now\<rparr>)"
    using assms by (auto simp: rollback_change_def act_simps split: if_splits)
  have "snd s2 = snd s1"
    using *(4)
    by (cases "ch_type ch")
       (auto simp: check_unedited_def Let_def act_simps split: option.splits prod.splits if_splits
         dest!: read_values_row)
  moreover have "snd s3 = snd s2"
    using *(5)
    by (cases "ch_type ch")
       (auto simp: restore_snapshot_def put_back_def Let_def act_simps split: option.splits prod.splits if_splits)
  ultimately show "ch_status ch = EXECUTED" "ch_type ch \<noteq> RUN_PROCESS"
    "snd st' = ch\<lparr>ch_status := ROLLED_BACK, ch_rolled_back_at := Some now\<rparr>"
    using * call_row [OF *(3)] by auto
qed

lemma reject_Inr:
  assumes "reject_change (s, ch) = (st', Inr ())"
  shows "ch_status ch = DRAFT" "st' = (s, ch\<lparr>ch_status := CHANGE_REJECTED\<rparr>)"
  using assms by (auto simp: reject_change_def act_simps split: if_splits)

lemma request_Inr: "request m st = (st', Inr a) \<longleftrightarrow> m st = (st', Inr a)"
  by (auto simp: request_def split: prod.splits sum.splits)

lemma request_Inl_row: "request m st = (st', Inl e) \<Longrightarrow> snd st' = snd st"
  by (auto simp: request_def split: prod.splits sum.splits)

section \<open>The history of a change\<close>

text \<open>
  What may happen to a change and to the server it is about: a request on the
  change, by any user with whatever the server answers, a newer draft that
  supersedes it, or anything else done to the server.
\<close>

inductive change_step :: "'r process tools \<Rightarrow> 's \<times> change \<Rightarrow> 's \<times> change \<Rightarrow> bool" for tk where
  execute: "request (execute_change c tk by ack now) st = (st', r) \<Longrightarrow> change_step tk st st'"
| reject: "request reject_change st = (st', r) \<Longrightarrow> change_step tk st st'"
| rollback: "request (rollback_change (c :: ('s, 'r process) client) tk now) st = (st', r) \<Longrightarrow>
    change_step tk st st'"
| supersede: "ch_status ch = DRAFT \<Longrightarrow>
    change_step tk (s, ch) (s, ch\<lparr>ch_status := SUPERSEDED, ch_superseded_by := by'\<rparr>)"
| outside: "change_step tk (s, ch) (s', ch)"

lemma change_step_row:
  assumes "change_step tk st st'" "change_ok (snd st)"
  shows "change_ok (snd st') \<and> same_proposal (snd st) (snd st') \<and>
    (snd st' = snd st \<or> change_moves (ch_status (snd st)) (ch_status (snd st')))"
  using assms
proof (cases rule: change_step.cases)
  case (execute c who ack now r)
  show ?thesis
  proof (cases r)
    case (Inl e)
    then show ?thesis using execute request_Inl_row assms(2) by fastforce
  next
    case (Inr u)
    obtain s ch where st: "st = (s, ch)" by (cases st)
    have "execute_change c tk who ack now (s, ch) = (st', Inr ())"
      using execute Inr st by (simp add: request_Inr)
    note e = execute_Inr [OF this]
    show ?thesis
      using e assms(2) st
      by (auto simp: change_ok_def decided_def change_moves_def same_proposal_def)
  qed
next
  case (reject r)
  show ?thesis
  proof (cases r)
    case (Inl e)
    then show ?thesis using reject request_Inl_row assms(2) by fastforce
  next
    case (Inr u)
    obtain s ch where st: "st = (s, ch)" by (cases st)
    have "reject_change (s, ch) = (st', Inr ())"
      using reject Inr st by (simp add: request_Inr)
    from reject_Inr [OF this] show ?thesis
      using assms(2) st by (auto simp: change_ok_def decided_def change_moves_def same_proposal_def)
  qed
next
  case (rollback c now r)
  show ?thesis
  proof (cases r)
    case (Inl e)
    then show ?thesis using rollback request_Inl_row assms(2) by fastforce
  next
    case (Inr u)
    obtain s ch where st: "st = (s, ch)" by (cases st)
    have "rollback_change c tk now (s, ch) = (st', Inr ())"
      using rollback Inr st by (simp add: request_Inr)
    from rollback_Inr [OF this] show ?thesis
      using assms(2) st
      by (auto simp: change_ok_def decided_def change_moves_def same_proposal_def has_snapshot_def
          previous_get_def split: ChangeType.splits)
  qed
next
  case (supersede ch s x)
  then show ?thesis
    using assms(2) by (auto simp: change_ok_def decided_def change_moves_def same_proposal_def)
next
  case (outside s ch s')
  then show ?thesis using assms(2) by simp
qed

lemma change_steps_row:
  assumes "(change_step tk)\<^sup>*\<^sup>* st st'" "change_ok (snd st)"
  shows "change_ok (snd st') \<and> same_proposal (snd st) (snd st') \<and>
    change_moves\<^sup>*\<^sup>* (ch_status (snd st)) (ch_status (snd st'))"
  using assms(1)
proof (induction rule: rtranclp_induct)
  case base
  then show ?case using assms(2) by simp
next
  case (step st1 st2)
  with change_step_row [OF step.hyps(2)] show ?case
    by (metis same_proposal_trans rtranclp.rtrancl_into_rtrancl)
qed

section \<open>Properties of a change's history\<close>

text \<open>
  C23. Every row a change can become, through any requests, any answers of the server and
  any edits made outside, is well formed for its status: a draft carries no decision, an
  executed change carries who and when, no errors and the snapshot its type needs, a failed
  or unknown one a message, a rolled-back one its time; what the change proposes never
  changes and its status only moves along the allowed transitions.
\<close>

lemma change_rows_ok:
  assumes "change_ok ch" "(change_step tk)\<^sup>*\<^sup>* (s, ch) (s', ch')"
  shows "change_ok ch' \<and> same_proposal ch ch' \<and> change_moves\<^sup>*\<^sup>* (ch_status ch) (ch_status ch')"
  using change_steps_row [OF assms(2)] assms(1) by simp

lemma not_draft_forever:
  "change_moves\<^sup>*\<^sup>* s t \<Longrightarrow> s \<noteq> DRAFT \<Longrightarrow> t \<noteq> DRAFT"
  by (induction rule: rtranclp_induct) (auto simp: change_moves_def)

lemma not_draft_refused:
  assumes "ch_status ch \<noteq> DRAFT"
  shows "request (execute_change c tk by ack now) (s, ch) = ((s, ch), Inl (Conflict CONFLICT))"
proof -
  have "execute_guards ack ch = Inl (Conflict CONFLICT)"
    using assms by (simp add: execute_guards_def)
  then show ?thesis
    by (simp add: request_def execute_change_def seq_def row_def lift_def)
qed

text \<open>
  C2. Once an execution of a draft has been recorded, whatever its outcome, every later
  attempt to execute it, by anyone and after any history, answers 409 and reaches neither
  the server nor the row.
\<close>

lemma change_applied_at_most_once:
  assumes "change_ok ch"
    and "request (execute_change c tk by ack now) (s, ch) = ((s1, ch1), Inr ())"
    and "(change_step tk)\<^sup>*\<^sup>* (s1, ch1) (s2, ch2)"
  shows "request (execute_change c' tk by' ack' now') (s2, ch2) = ((s2, ch2), Inl (Conflict CONFLICT))"
proof (rule not_draft_refused)
  have "ch_status ch1 \<noteq> DRAFT"
    using execute_Inr(8) [of c tk _ ack now s ch "(s1, ch1)"] assms(2) by (auto simp: request_Inr)
  moreover have "change_ok ch1"
    using change_step_row [OF change_step.execute [OF assms(2)]] assms(1) by simp
  ultimately show "ch_status ch2 \<noteq> DRAFT"
    using change_steps_row [OF assms(3)] not_draft_forever by auto
qed
section \<open>What a refused change leaves alone\<close>

text \<open>
  The reads the guards make do not change the server.
\<close>

definition reads_only :: "('s, 'p) client \<Rightarrow> bool" where
  "reads_only c \<longleftrightarrow>
     (\<forall>s. fst (connect c s) = s) \<and>
     (\<forall>s t. fst (get_cube_rules c t s) = s) \<and>
     (\<forall>s t. fst (get_process_body c t s) = s) \<and>
     (\<forall>s t cs. fst (read_cells c t cs s) = s)"

text \<open>
  The server does not hold what the draft was made against (or cannot be asked).
\<close>

definition drifted :: "('s, 'p) client \<Rightarrow> ('p, 'z) tools_scheme \<Rightarrow> 's \<Rightarrow> change \<Rightarrow> bool" where
  "drifted c tk s ch \<longleftrightarrow>
     ch_base_fingerprint ch \<notin> {None, Some []} \<and>
     snd (server_fingerprint c tk (ch_type ch) (ch_target_name ch) (ch_new_content ch) (s, ch)) \<noteq>
       Inr (ch_base_fingerprint ch)"

lemma call_reads: "fst (c s) = s \<Longrightarrow> fst (call c (s, ch)) = (s, ch)"
  by (cases "c s") (simp add: call_def)

lemma seq_reads:
  assumes "fst (m st) = st" "\<And>a. fst (f a st) = st"
  shows "fst (seq m f st) = st"
  using assms by (cases "m st"; cases "snd (m st)") (auto simp: seq_def)

lemma ret_reads: "fst (ret a st) = st" "fst (raise e st) = st" "fst (lift r st) = st" "fst (require b e st) = st"
  by (simp_all add: ret_def raise_def lift_def require_def)

lemma fingerprint_reads:
  assumes "reads_only c"
  shows "fst (server_fingerprint c tk ty target content (s, ch)) = (s, ch)"
proof -
  have "fst (read_values c target cs (s, ch)) = (s, ch)" for cs
    unfolding read_values_def using assms
    by (intro seq_reads call_reads) (auto simp: reads_only_def ret_reads split: option.split)
  then show ?thesis
    using assms
    by (cases ty) (auto simp: server_fingerprint_def reads_only_def ret_reads intro!: seq_reads call_reads)
qed

lemma check_drift_reads:
  assumes "reads_only c"
  shows "fst (check_drift c tk ch (s, ch)) = (s, ch)"
  using fingerprint_reads [OF assms]
  by (auto simp: check_drift_def ret_reads intro!: seq_reads split: option.split)

lemma drifted_refused:
  assumes "reads_only c" "drifted c tk s ch"
  shows "\<exists>e. check_drift c tk ch (s, ch) = ((s, ch), Inl e)"
proof -
  obtain base where b: "ch_base_fingerprint ch = Some base" "base \<noteq> []"
    using assms(2) by (auto simp: drifted_def)
  let ?f = "server_fingerprint c tk (ch_type ch) (ch_target_name ch) (ch_new_content ch)"
  have "fst (?f (s, ch)) = (s, ch)" by (rule fingerprint_reads [OF assms(1)])
  moreover have "snd (?f (s, ch)) \<noteq> Inr (Some base)"
    using assms(2) b by (simp add: drifted_def)
  ultimately show ?thesis
    using b by (cases "?f (s, ch)"; cases "snd (?f (s, ch))")
      (auto simp: check_drift_def seq_def require_def raise_def)
qed

text \<open>
  C7. A change that is not a draft, has validation errors, whose serious impact was not
  acknowledged, or whose target drifted from what the draft was made against (or cannot be
  read) is refused with the server and the row exactly as they were.
\<close>

lemma refused_change_touches_nothing:
  assumes "reads_only c"
    and "ch_status ch \<noteq> DRAFT \<or> ch_validation_errors ch \<noteq> [] \<or>
      needs_acknowledgement (ch_impact ch) \<and> \<not> ack \<or> drifted c tk s ch"
  shows "\<exists>e. request (execute_change c tk by ack now) (s, ch) = ((s, ch), Inl e)"
proof (cases "execute_guards ack ch")
  case (Inl e)
  then show ?thesis by (simp add: request_def execute_change_def seq_def row_def lift_def)
next
  case (Inr u)
  then have "drifted c tk s ch"
    using assms(2) by (auto simp: execute_guards_def bind_result_Inr_iff)
  then obtain e where e: "check_drift c tk ch (s, ch) = ((s, ch), Inl e)"
    using drifted_refused [OF assms(1)] by blast
  have "fst (call (connect c) (s, ch)) = (s, ch)"
    using assms(1) by (auto simp: reads_only_def intro: call_reads)
  then show ?thesis
    using Inr e by (cases "call (connect c) (s, ch)"; cases "snd (call (connect c) (s, ch))")
      (auto simp: request_def execute_change_def seq_def row_def lift_def)
qed

section \<open>Rules on the server\<close>

text \<open>
  What the service relies on of a TM1 server for rules, with \<open>R s\<close> the rules
  of every cube in state \<open>s\<close>: a read returns them, a write the server confirms
  replaces those of its cube only, and connecting, reading and checking change
  nothing. A write the server does not confirm may have any effect.
\<close>

definition lawful_rules :: "('s, 'p) client \<Rightarrow> ('s \<Rightarrow> string \<Rightarrow> string option) \<Rightarrow> bool" where
  "lawful_rules c R \<longleftrightarrow>
     (\<forall>s. R (fst (connect c s)) = R s) \<and>
     (\<forall>s t. R (fst (get_cube_rules c t s)) = R s) \<and>
     (\<forall>s t x. snd (get_cube_rules c t s) = Inr x \<longrightarrow> x = R s t) \<and>
     (\<forall>s t. R (fst (check_cube_rules c t s)) = R s) \<and>
     (\<forall>s t x. snd (update_cube_rules c t x s) = Inr () \<longrightarrow>
        R (fst (update_cube_rules c t x s)) = (R s)(t := Some x))"

definition same_rules :: "(string \<Rightarrow> string option) \<Rightarrow> (string \<Rightarrow> string option) \<Rightarrow> bool" where
  "same_rules a b \<longleftrightarrow> (\<forall>t. or_blank (a t) = or_blank (b t))"

lemma lawful_connect: "lawful_rules c R \<Longrightarrow> connect c s = (s', r) \<Longrightarrow> R s' = R s"
  by (metis lawful_rules_def fst_conv)

lemma lawful_get:
  "lawful_rules c R \<Longrightarrow> get_cube_rules c t s = (s', r) \<Longrightarrow> R s' = R s \<and> (\<forall>x. r = Inr x \<longrightarrow> x = R s t)"
  by (metis lawful_rules_def fst_conv snd_conv)

lemma lawful_check: "lawful_rules c R \<Longrightarrow> check_cube_rules c t s = (s', r) \<Longrightarrow> R s' = R s"
  by (metis lawful_rules_def fst_conv)

lemma lawful_update:
  "lawful_rules c R \<Longrightarrow> update_cube_rules c t x s = (s', Inr ()) \<Longrightarrow> R s' = (R s)(t := Some x)"
  by (metis lawful_rules_def fst_conv snd_conv)

lemmas lawful_dests = lawful_connect lawful_get lawful_check lawful_update
text \<open>Whenever the server is asked, it answers.\<close>

definition answers_rules :: "('s, 'p) client \<Rightarrow> bool" where
  "answers_rules c \<longleftrightarrow>
     (\<forall>s. snd (connect c s) = Inr ()) \<and>
     (\<forall>s t. \<exists>x. snd (get_cube_rules c t s) = Inr x) \<and>
     (\<forall>s t x. snd (update_cube_rules c t x s) = Inr ())"

lemma drift_rules:
  assumes "lawful_rules c R" "ch_type ch = UPDATE_RULES" "check_drift c tk ch st = (st', r)"
  shows "R (fst st') = R (fst st)"
  using assms(2,3) lawful_get [OF assms(1)]
  by (cases r) (auto simp: check_drift_def server_fingerprint_def act_simps split: option.splits if_splits)

lemma settle_rules_server:
  assumes law: "lawful_rules c R" and run: "settle_rules c t previous checked st = (st', Inr ())"
  shows "ch_status (snd st') = CHANGE_FAILED \<and> R (fst st') = (R (fst st))(t := Some (or_blank previous)) \<or>
     ch_status (snd st') = EXECUTED \<and> R (fst st') = R (fst st) \<and>
       previous_get (snd st') ''rules'' = Some (text_json previous) \<and>
       previous_get (snd st') ''applied'' = Some (JStr (rules_text (R (fst st) t)))"
proof (cases "(case checked of None \<Rightarrow> [] | Some es \<Rightarrow> es) = []")
  case True
  then obtain s7 now where g: "get_cube_rules c t (fst st) = (fst s7, Inr now)" and
    st': "fst st' = fst s7"
    "snd st' = (set_previous [(''rules'', text_json previous), (''applied'', JStr (rules_text now))] (snd s7))
       \<lparr>ch_status := EXECUTED\<rparr>"
    using run by (auto simp: settle_rules_def act_simps mark_executed_def split: option.splits)
  show ?thesis
    using lawful_get [OF law g] st' by (simp add: row_defs)
next
  case False
  then obtain s7 where u: "update_cube_rules c t (or_blank previous) (fst st) = (fst s7, Inr ())"
    and st': "fst st' = fst s7" "ch_status (snd st') = CHANGE_FAILED"
    using run by (auto simp: settle_rules_def act_simps mark_failed_def split: option.splits)
  show ?thesis
    using lawful_update [OF law u] st' by simp
qed

lemma apply_rules_server:
  assumes law: "lawful_rules c R"
    and run: "apply_update_rules c ch st = (st', Inr ())"
  shows "\<exists>x. new_rules ch = Inr x \<and>
    (ch_status (snd st') = CHANGE_FAILED \<and>
       R (fst st') = (R (fst st))(ch_target_name ch := Some (or_blank (R (fst st) (ch_target_name ch)))) \<or>
     ch_status (snd st') = EXECUTED \<and> R (fst st') = (R (fst st))(ch_target_name ch := Some x) \<and>
       previous_get (snd st') ''rules'' = Some (text_json (R (fst st) (ch_target_name ch))) \<and>
       previous_get (snd st') ''applied'' = Some (JStr (rules_text (Some x))))"
proof -
  let ?t = "ch_target_name ch"
  obtain s1 s3 s4 previous x checked where steps:
    "get_cube_rules c ?t (fst st) = (fst s1, Inr previous)" "Inr x = new_rules ch"
    "update_cube_rules c ?t x (fst s1) = (fst s3, Inr ())"
    "check_cube_rules c ?t (fst s3) = (fst s4, Inr checked)"
    and rest: "settle_rules c ?t previous checked s4 = (st', Inr ())"
    using run unfolding apply_update_rules_def Let_def by (force simp: act_simps)
  have R: "R (fst s4) = (R (fst st))(?t := Some x)" "previous = R (fst st) ?t"
    using steps lawful_get [OF law steps(1)] lawful_update [OF law steps(3)] lawful_check [OF law steps(4)]
    by simp_all
  show ?thesis
    using settle_rules_server [OF law rest] R steps(2) [symmetric] by auto
qed

lemma execute_rules_server:
  assumes law: "lawful_rules c R" and ty: "ch_type ch = UPDATE_RULES"
    and run: "request (execute_change c tk by ack now) (s, ch) = ((s', ch'), Inr ())"
  shows "ch_status ch' = UNKNOWN \<or> (\<exists>x. new_rules ch = Inr x \<and>
    (ch_status ch' = CHANGE_FAILED \<and>
       R s' = (R s)(ch_target_name ch := Some (or_blank (R s (ch_target_name ch)))) \<or>
     ch_status ch' = EXECUTED \<and> R s' = (R s)(ch_target_name ch := Some x) \<and>
       previous_get ch' ''rules'' = Some (text_json (R s (ch_target_name ch))) \<and>
       previous_get ch' ''applied'' = Some (JStr (rules_text (Some x)))))"
proof -
  obtain s1 s2 where "call (connect c) (s, ch) = (s1, Inr ())"
    and d: "check_drift c tk ch s1 = (s2, Inr ())"
    and a: "try_except (apply_change c tk ch) outcome_unknown
        (fst s2, (snd s2)\<lparr>ch_executed_by := Some by, ch_executed_at := Some now\<rparr>) = ((s', ch'), Inr ())"
    using run by (auto simp: request_Inr execute_change_def seq_Inr row_iff lift_iff modify_iff)
  then have R: "R (fst s2) = R s"
    using drift_rules [OF law ty d] lawful_connect [OF law] by (auto simp: call_iff)
  let ?st = "(fst s2, (snd s2)\<lparr>ch_executed_by := Some by, ch_executed_at := Some now\<rparr>)"
  show ?thesis
  proof (cases "snd (apply_change c tk ch ?st)")
    case (Inr u)
    then have "apply_update_rules c ch ?st = ((s', ch'), Inr ())"
      using a ty by (cases "apply_update_rules c ch ?st") (auto simp: try_except_def apply_change_def)
    then show ?thesis using apply_rules_server [OF law] R by fastforce
  next
    case (Inl e)
    then show ?thesis
      using a by (cases "apply_change c tk ch ?st") (auto simp: try_except_def outcome_unknown_cases split: if_splits)
  qed
qed

lemma failed_rules_are_restored:
  assumes "lawful_rules c R" "ch_type ch = UPDATE_RULES"
    and "request (execute_change c tk by ack now) (s, ch) = ((s', ch'), Inr ())"
    and "ch_status ch' = CHANGE_FAILED"
  shows "same_rules (R s') (R s)"
  using execute_rules_server [OF assms(1-3)] assms(4) by (auto simp: same_rules_def or_blank_def split: option.splits)

lemma check_unedited_rules:
  assumes law: "lawful_rules c R" and ans: "answers_rules c" and ty: "ch_type ch = UPDATE_RULES"
    and ap: "previous_get ch ''applied'' = Some (JStr a)"
  shows "\<exists>s'. R s' = R s \<and> check_unedited c ch (s, ch) =
    ((s', ch), if rules_text (R s (ch_target_name ch)) = a then Inr () else Inl (Conflict CONFLICT))"
proof -
  obtain s' x where g: "get_cube_rules c (ch_target_name ch) s = (s', Inr x)"
    using ans by (metis answers_rules_def prod.collapse)
  then have "R s' = R s" "x = R s (ch_target_name ch)"
    using lawful_get [OF law] by auto
  then show ?thesis
    using g ty ap by (auto simp: check_unedited_def seq_def call_def require_def ret_def raise_def)
qed

text \<open>
  C17. Rolling back an applied change of rules puts back the rules the cube had before it,
  for that cube only, when nobody edited them in between; when somebody did, it answers 409
  and the server and the row stay as they are.
\<close>

lemma rules_rollback_roundtrip:
  assumes "lawful_rules c R" "answers_rules c" "ch_type ch = UPDATE_RULES"
    and "request (execute_change c tk by ack now) (s, ch) = ((s1, ch1), Inr ())" "ch_status ch1 = EXECUTED"
    and "request (rollback_change c tk now') (s2, ch1) = ((s3, ch3), r)"
  shows "if rules_text (R s2 (ch_target_name ch)) = rules_text (R s1 (ch_target_name ch))
    then r = Inr () \<and> ch_status ch3 = ROLLED_BACK \<and>
      R s3 = (R s2)(ch_target_name ch := Some (or_blank (R s (ch_target_name ch))))
    else r = Inl (Conflict CONFLICT) \<and> ch3 = ch1 \<and> R s3 = R s2"
proof -
  note law = assms(1) and ans = assms(2)
  let ?t = "ch_target_name ch"
  obtain x where x: "R s1 = (R s)(?t := Some x)"
    "previous_get ch1 ''rules'' = Some (text_json (R s ?t))"
    "previous_get ch1 ''applied'' = Some (JStr (rules_text (Some x)))"
    using execute_rules_server [OF law assms(3,4)] assms(5) by auto
  have same: "same_proposal ch ch1"
    using execute_Inr(4) [of c tk _ ack now s ch "(s1, ch1)"] assms(4) by (auto simp: request_Inr)
  then have t: "ch_target_name ch1 = ?t" "ch_type ch1 = UPDATE_RULES"
    using assms(3) by (auto simp: same_proposal_def)
  have prev: "ch_previous_content ch1 \<noteq> None"
    using x(2) by (cases "ch_previous_content ch1") (auto simp: previous_get_def content_get_def)
  obtain s4 where s4: "connect c s2 = (s4, Inr ())"
    using ans by (metis answers_rules_def prod.collapse)
  then have R4: "R s4 = R s2" using lawful_connect [OF law] by blast
  obtain s5 where s5: "R s5 = R s4" "check_unedited c ch1 (s4, ch1) =
      ((s5, ch1), if rules_text (R s4 ?t) = rules_text (Some x) then Inr () else Inl (Conflict CONFLICT))"
    using check_unedited_rules [OF law ans t(2) x(3), of s4] t(1) by auto
  obtain s6 where s6: "update_cube_rules c ?t (or_blank (R s ?t)) s5 = (s6, Inr ())"
    using ans by (metis answers_rules_def prod.collapse)
  then have R6: "R s6 = (R s5)(?t := Some (or_blank (R s ?t)))" using lawful_update [OF law] by blast
  have "(case text_json (R s ?t) of JStr r \<Rightarrow> r | _ \<Rightarrow> []) = or_blank (R s ?t)"
    by (simp add: text_json_def or_blank_def split: option.split)
  then have restore: "restore_snapshot c tk ch1 (s5, ch1) = ((s6, ch1), Inr ())"
    using prev t s6 x(2) by (auto simp: restore_snapshot_def call_def)
  show ?thesis
    using assms(5,6) t s4 s5 R4 R6 restore x(1)
    by (auto simp: rollback_change_def request_def seq_def row_def require_def ret_def call_def modify_def
        raise_def)
qed

section \<open>A change that is applied but stays a draft\<close>

text \<open>
  After the rules passed the server's check, \<open>_apply\<close> reads them back to record
  what it left, outside any handler. When that read raises anything but an
  unconfirmed outcome, the request's transaction takes the row back.
\<close>

lemma applied_rules_left_as_a_draft:
  assumes "ch_type ch = UPDATE_RULES" "execute_guards ack ch = Inr ()" "ch_base_fingerprint ch = None"
    and "connect c s = (s, Inr ())" "new_rules ch = Inr x"
    and "get_cube_rules c (ch_target_name ch) s = (s, Inr old)"
    and "update_cube_rules c (ch_target_name ch) x s = (s1, Inr ())"
    and "check_cube_rules c (ch_target_name ch) s1 = (s1, Inr (Some []))"
    and "get_cube_rules c (ch_target_name ch) s1 = (s1, Inl e)" "e \<noteq> TM1OutcomeUnknown"
  shows "request (execute_change c tk by ack now) (s, ch) = ((s1, ch), Inl e) \<and> ch_status ch = DRAFT"
  using assms
  by (auto simp: request_def execute_change_def apply_change_def apply_update_rules_def settle_rules_def check_drift_def
      seq_def row_def lift_def call_def ret_def modify_def try_except_def outcome_unknown_def raise_def
      Let_def execute_guards_def bind_result_Inr_iff)
section \<open>A change on a small server\<close>

text \<open>
  A server that holds rules and nothing else; it rejects the rules \<open>bad\<close>.
\<close>

definition demo_client :: "(string \<Rightarrow> string option, unit process) client" where
  "demo_client =
     \<lparr>connect = (\<lambda>s. (s, Inr ())),
      get_cube_rules = (\<lambda>t s. (s, Inr (s t))),
      update_cube_rules = (\<lambda>t x s. (s(t := Some x), Inr ())),
      check_cube_rules = (\<lambda>t s. (s, Inr (Some (if s t = Some ''bad'' then [JStr ''line 1''] else [])))),
      process_exists = (\<lambda>_ s. (s, Inr False)),
      get_process_body = (\<lambda>_ s. (s, Inl TM1NotFound)),
      update_or_create_process = (\<lambda>_ s. (s, Inl OtherError)),
      delete_process = (\<lambda>_ s. (s, Inl TM1NotFound)),
      compile_process_on_server = (\<lambda>_ s. (s, Inl TM1NotFound)),
      execute_process = (\<lambda>_ _ s. (s, Inl TM1NotFound)),
      get_process_error_log = (\<lambda>_ s. (s, Inl TM1NotFound)),
      cube_dimensions = (\<lambda>_ s. (s, Inr [])),
      read_cells = (\<lambda>_ _ s. (s, Inr None)),
      write_cells = (\<lambda>_ _ _ s. (s, Inl OtherError)),
      view_exists = (\<lambda>_ _ s. (s, Inr False)),
      create_mdx_view = (\<lambda>_ _ _ s. (s, Inl OtherError)),
      delete_view = (\<lambda>_ _ s. (s, Inl TM1NotFound)),
      get_view = (\<lambda>_ _ s. (s, Inl TM1NotFound))\<rparr>"

text \<open>The same server, which loses the session once new rules are in.\<close>

definition lossy_client :: "(string \<Rightarrow> string option, unit process) client" where
  "lossy_client = demo_client\<lparr>get_cube_rules :=
     (\<lambda>t s. (s, if s t = Some ''new'' then Inl TM1Authentication else Inr (s t)))\<rparr>"

definition demo_process :: "string \<Rightarrow> unit process" where
  "demo_process nm =
     \<lparr>p_name = nm, p_prolog = JStr [], p_metadata = JStr [], p_data = JStr [], p_epilog = JStr [],
      p_has_security_access = False, p_datasource_type = JStr ''None'', p_name_for_server = JStr [],
      p_name_for_client = JStr [], p_delimiter_type = ''Character'', p_delimiter_char = JStr '','',
      p_header_records = 0, p_variables = [], p_parameters = [], rest = ()\<rparr>"

definition demo_tools :: "unit process tools" where
  "demo_tools =
     \<lparr>hash = (\<lambda>v. case v of JStr s \<Rightarrow> s | _ \<Rightarrow> ''x''), parse_float = (\<lambda>_. None), repr_of = (\<lambda>_. []),
      blank_process = demo_process, from_dict = (\<lambda>_. Inl OtherError)\<rparr>"

definition demo_change :: "string \<Rightarrow> string option \<Rightarrow> change" where
  "demo_change rules base =
     \<lparr>ch_id = ''c1'', ch_connection_id = ''k1'', ch_organization_id = ''o1'', ch_created_by = ''ann'',
      ch_type = UPDATE_RULES, ch_target_name = ''Sales'',
      ch_new_content = Some (JObj [(''rules'', JStr rules)]), ch_previous_content = None,
      ch_validation_errors = [], ch_impact = None, ch_status = DRAFT, ch_error_message = None,
      ch_superseded_by = None, ch_executed_by = None, ch_executed_at = None, ch_rolled_back_at = None,
      ch_execution_result = None, ch_base_fingerprint = base, ch_environment = Some ''dev'', ch_checks = []\<rparr>"

definition demo_server :: "string \<Rightarrow> string option" where
  "demo_server = (\<lambda>t. if t = ''Sales'' then Some ''old'' else None)"

lemmas demo_defs = demo_client_def lossy_client_def demo_tools_def demo_change_def demo_server_def

lemma demo_lawful: "lawful_rules demo_client (\<lambda>s. s)"
  by (simp add: lawful_rules_def demo_client_def)

lemma demo_answers: "answers_rules demo_client"
  by (simp add: answers_rules_def demo_client_def)

lemmas run_simps =
  request_def execute_change_def execute_guards_def needs_acknowledgement_def apply_change_def
  apply_update_rules_def settle_rules_def check_drift_def server_fingerprint_def seq_def row_def
  lift_def call_def ret_def modify_def try_except_def require_def raise_def outcome_unknown_def
  mark_executed_def set_previous_def mark_failed_def new_rules_def text_json_def or_blank_def
  rollback_change_def check_unedited_def restore_snapshot_def previous_get_def content_get_def Let_def

definition demo_applied :: "(string \<Rightarrow> string option) \<times> change" where
  "demo_applied = fst (request (execute_change demo_client demo_tools ''bob'' True 7)
     (demo_server, demo_change ''new'' None))"

lemma demo_applied_run:
  "request (execute_change demo_client demo_tools ''bob'' True 7) (demo_server, demo_change ''new'' None) =
     (demo_applied, Inr ())"
  "ch_status (snd demo_applied) = EXECUTED" "ch_type (snd demo_applied) = UPDATE_RULES"
  "fst demo_applied = demo_server(''Sales'' := Some ''new'')"
  by (simp_all add: demo_applied_def run_simps demo_defs)

lemma demo_change_ok: "change_ok (demo_change rules base)"
  by (simp add: change_ok_def decided_def demo_change_def)
section \<open>The properties at work\<close>

lemma demo_history:
  "(change_step demo_tools)\<^sup>*\<^sup>* (demo_server, demo_change ''new'' None) demo_applied"
  using change_step.execute [OF demo_applied_run(1)] by (rule r_into_rtranclp)

lemma change_rows_ok_witness:
  "change_ok (snd demo_applied) \<and> same_proposal (demo_change ''new'' None) (snd demo_applied) \<and>
   change_moves\<^sup>*\<^sup>* DRAFT EXECUTED"
proof -
  have "ch_status (demo_change ''new'' None) = DRAFT" by (simp add: demo_change_def)
  with change_rows_ok [OF demo_change_ok, of demo_tools demo_server "''new''" None "fst demo_applied" "snd demo_applied"]
  show ?thesis using demo_history demo_applied_run(2) by simp
qed

lemma change_applied_at_most_once_witness:
  "request (execute_change lossy_client demo_tools ''eve'' True 9) demo_applied =
     (demo_applied, Inl (Conflict CONFLICT))"
  using change_applied_at_most_once [OF demo_change_ok,
      of demo_client demo_tools "''bob''" True 7 demo_server "''new''" None
         "fst demo_applied" "snd demo_applied" "fst demo_applied" "snd demo_applied" lossy_client "''eve''" True 9]
    demo_applied_run(1) by simp

lemma refused_change_touches_nothing_witness:
  "\<exists>e. request (execute_change demo_client demo_tools ''bob'' True 7) (demo_server, demo_change ''new'' (Some ''older''))
     = ((demo_server, demo_change ''new'' (Some ''older'')), Inl e)"
proof (rule refused_change_touches_nothing)
  show "reads_only demo_client" by (simp add: reads_only_def demo_client_def)
  show "ch_status (demo_change ''new'' (Some ''older'')) \<noteq> DRAFT \<or>
    ch_validation_errors (demo_change ''new'' (Some ''older'')) \<noteq> [] \<or>
    needs_acknowledgement (ch_impact (demo_change ''new'' (Some ''older''))) \<and> \<not> True \<or>
    drifted demo_client demo_tools demo_server (demo_change ''new'' (Some ''older''))"
    by (simp add: drifted_def server_fingerprint_def seq_def call_def ret_def demo_defs rules_text_def strip_def
        is_space_def chr_code_def)
qed

lemma failed_rules_are_restored_witness:
  "same_rules (fst (fst (request (execute_change demo_client demo_tools ''bob'' True 7)
      (demo_server, demo_change ''bad'' None)))) demo_server"
proof -
  have "request (execute_change demo_client demo_tools ''bob'' True 7) (demo_server, demo_change ''bad'' None)
      = ((demo_server(''Sales'' := Some ''old''),
          snd (fst (request (execute_change demo_client demo_tools ''bob'' True 7)
            (demo_server, demo_change ''bad'' None)))), Inr ())"
    "ch_status (snd (fst (request (execute_change demo_client demo_tools ''bob'' True 7)
            (demo_server, demo_change ''bad'' None)))) = CHANGE_FAILED"
    by (simp_all add: run_simps demo_defs)
  moreover have "ch_type (demo_change ''bad'' None) = UPDATE_RULES" by (simp add: demo_change_def)
  ultimately show ?thesis
    using failed_rules_are_restored [OF demo_lawful] by (metis fst_conv)
qed

lemma rules_rollback_roundtrip_witness:
  "fst (fst (request (rollback_change demo_client demo_tools 9) demo_applied)) ''Sales'' = Some ''old'' \<and>
   snd (request (rollback_change demo_client demo_tools 9) (demo_server, snd demo_applied)) = Inl (Conflict CONFLICT)"
proof -
  let ?ch = "demo_change ''new'' None"
  have ty: "ch_type ?ch = UPDATE_RULES" and t: "ch_target_name ?ch = ''Sales''" by (simp_all add: demo_change_def)
  have run: "request (execute_change demo_client demo_tools ''bob'' True 7) (demo_server, ?ch)
      = ((fst demo_applied, snd demo_applied), Inr ())"
    using demo_applied_run(1) by simp
  note rt = rules_rollback_roundtrip [OF demo_lawful demo_answers ty run demo_applied_run(2)]
  obtain s3 ch3 r where 1: "request (rollback_change demo_client demo_tools 9) (fst demo_applied, snd demo_applied)
      = ((s3, ch3), r)"
    by (metis prod.collapse)
  obtain s4 ch4 q where 2: "request (rollback_change demo_client demo_tools 9) (demo_server, snd demo_applied)
      = ((s4, ch4), q)"
    by (metis prod.collapse)
  have "rules_text (demo_server ''Sales'') \<noteq> rules_text (fst demo_applied ''Sales'')"
    by (simp add: demo_applied_run(4) demo_server_def rules_text_def strip_def is_space_def chr_code_def)
  with rt [OF 1] rt [OF 2] t 1 2 show ?thesis
    by (simp add: or_blank_def demo_server_def)
qed

lemma applied_rules_left_as_a_draft_witness:
  "request (execute_change lossy_client demo_tools ''bob'' True 7) (demo_server, demo_change ''new'' None) =
     ((demo_server(''Sales'' := Some ''new''), demo_change ''new'' None), Inl TM1Authentication) \<and>
   ch_status (demo_change ''new'' None) = DRAFT"
  by (rule applied_rules_left_as_a_draft)
     (simp_all add: demo_defs execute_guards_def needs_acknowledgement_def new_rules_def)
end
