(* ===== verification/Accounts.thy ===== *)
theory Accounts
  imports Prelude
begin

text \<open>
  Users, roles and permissions: the tables of \<open>database/models\<close> (user, role,
  permission, user_role, role_permission, organization, revoked_token,
  password_reset_token) and the queries of their repositories. A table is the
  list of its rows; a unique constraint or a foreign key is a check in
  \<open>create\<close>. Link rows are pairs, since their own id is never used. Time
  stamps kept for display and the person's names are left out.
\<close>

section \<open>Tables\<close>

datatype RegistrationStatus = REG_PENDING | REG_APPROVED | REG_REJECTED

record user =
  u_id :: uuid
  u_organization_id :: uuid
  u_username :: string
  u_email :: string
  u_password_hash :: string
  u_is_active :: bool
  u_registration_status :: RegistrationStatus
  u_tokens_valid_from :: time
  u_email_verified_at :: "time option"
  u_must_change_password :: bool
  u_temporary_password_expires_at :: "time option"

record role =
  r_id :: uuid
  r_organization_id :: "uuid option"
  r_name :: string
  r_description :: "string option"
  r_is_system :: bool

record permission =
  pm_id :: uuid
  pm_code :: string

record organization =
  o_id :: uuid
  o_code :: string

record revoked_token =
  rt_jti :: string
  rt_user_id :: uuid
  rt_expires_at :: time
  rt_reason :: string

record reset_token =
  pt_user_id :: uuid
  pt_token_hash :: string
  pt_expires_at :: time
  pt_used_at :: "time option"

record accounts =
  users :: "user list"
  roles :: "role list"
  permissions :: "permission list"
  user_roles :: "(uuid \<times> uuid) list"
  role_permissions :: "(uuid \<times> uuid) list"
  organizations :: "organization list"
  revoked_tokens :: "revoked_token list"
  reset_tokens :: "reset_token list"

section \<open>Queries\<close>

text \<open>
  \<open>scalar_one_or_none\<close> on the rows of a result: the value of the only row,
  None without a row, an exception when there are several.
\<close>

fun scalar_one_or_none :: "'a list \<Rightarrow> 'a option result" where
  "scalar_one_or_none [] = Inr None"
| "scalar_one_or_none [x] = Inr (Some x)"
| "scalar_one_or_none _ = Inl MultipleResults"

lemma scalar_one_or_none_length:
  "scalar_one_or_none xs =
     (if length xs = 0 then Inr None else if length xs = 1 then Inr (Some (hd xs)) else Inl MultipleResults)"
  by (cases xs rule: scalar_one_or_none.cases) auto

text \<open>Columns with a unique index have at most one matching row.\<close>

definition user_by_id :: "accounts \<Rightarrow> uuid \<Rightarrow> user option" where
  "user_by_id a i = find (\<lambda>u. u_id u = i) (users a)"

definition user_by_username :: "accounts \<Rightarrow> string \<Rightarrow> user option" where
  "user_by_username a n = find (\<lambda>u. u_username u = n) (users a)"

definition user_by_email :: "accounts \<Rightarrow> string \<Rightarrow> user option" where
  "user_by_email a e = find (\<lambda>u. u_email u = e) (users a)"

definition role_by_id :: "accounts \<Rightarrow> uuid \<Rightarrow> role option" where
  "role_by_id a i = find (\<lambda>r. r_id r = i) (roles a)"

definition role_by_name :: "accounts \<Rightarrow> uuid option \<Rightarrow> string \<Rightarrow> role option result" where
  "role_by_name a org n =
     scalar_one_or_none (filter (\<lambda>r. r_organization_id r = org \<and> r_name r = n) (roles a))"

definition get_system_role :: "accounts \<Rightarrow> string \<Rightarrow> role option result" where
  "get_system_role a n =
     scalar_one_or_none
       (filter (\<lambda>r. r_organization_id r = None \<and> r_name r = n \<and> r_is_system r) (roles a))"

definition list_visible_to_organization :: "accounts \<Rightarrow> uuid \<Rightarrow> role list" where
  "list_visible_to_organization a org =
     sort_key r_name (filter (\<lambda>r. r_organization_id r = Some org \<or> r_organization_id r = None) (roles a))"

definition permission_by_id :: "accounts \<Rightarrow> uuid \<Rightarrow> permission option" where
  "permission_by_id a i = find (\<lambda>p. pm_id p = i) (permissions a)"

definition permission_by_code :: "accounts \<Rightarrow> string \<Rightarrow> permission option" where
  "permission_by_code a c = find (\<lambda>p. pm_code p = c) (permissions a)"

definition organization_by_code :: "accounts \<Rightarrow> string \<Rightarrow> organization option" where
  "organization_by_code a c = find (\<lambda>o'. o_code o' = c) (organizations a)"

definition has_user_role :: "accounts \<Rightarrow> uuid \<Rightarrow> uuid \<Rightarrow> bool" where
  "has_user_role a u r \<longleftrightarrow> (u, r) \<in> set (user_roles a)"

definition has_role_permission :: "accounts \<Rightarrow> uuid \<Rightarrow> uuid \<Rightarrow> bool" where
  "has_role_permission a r p \<longleftrightarrow> (r, p) \<in> set (role_permissions a)"

text \<open>The joins of \<open>AuthRepository\<close>, row by row.\<close>

definition get_roles_for_user :: "accounts \<Rightarrow> uuid \<Rightarrow> role list" where
  "get_roles_for_user a uid =
     concat (map (\<lambda>r. map (\<lambda>_. r) (filter (\<lambda>(u, r'). u = uid \<and> r' = r_id r) (user_roles a))) (roles a))"

definition user_has_role :: "accounts \<Rightarrow> uuid \<Rightarrow> string \<Rightarrow> bool result" where
  "user_has_role a uid n =
     bind_result (scalar_one_or_none (map r_id (filter (\<lambda>r. r_name r = n) (get_roles_for_user a uid))))
       (\<lambda>x. Inr (x \<noteq> None))"

definition get_permissions_for_role :: "accounts \<Rightarrow> uuid \<Rightarrow> permission list" where
  "get_permissions_for_role a rid =
     concat (map (\<lambda>p. map (\<lambda>_. p) (filter (\<lambda>(r, q). r = rid \<and> q = pm_id p) (role_permissions a)))
       (permissions a))"

definition permission_rows :: "accounts \<Rightarrow> uuid \<Rightarrow> string \<Rightarrow> uuid list" where
  "permission_rows a uid code =
     concat (map (\<lambda>p.
       concat (map (\<lambda>(r, q).
         map (\<lambda>_. pm_id p)
           (if q = pm_id p then filter (\<lambda>(u, r'). u = uid \<and> r' = r) (user_roles a) else []))
         (role_permissions a)))
       (filter (\<lambda>p. pm_code p = code) (permissions a)))"

definition user_has_permission :: "accounts \<Rightarrow> uuid \<Rightarrow> string \<Rightarrow> bool result" where
  "user_has_permission a uid code =
     bind_result (scalar_one_or_none (permission_rows a uid code)) (\<lambda>x. Inr (x \<noteq> None))"

section \<open>Writes\<close>

definition create_user :: "user \<Rightarrow> accounts \<Rightarrow> accounts result" where
  "create_user u a =
     (if list_ex (\<lambda>v. u_id v = u_id u \<or> u_username v = u_username u \<or> u_email v = u_email u) (users a)
      then Inl IntegrityError else Inr (a\<lparr>users := users a @ [u]\<rparr>))"

definition update_user :: "user \<Rightarrow> accounts \<Rightarrow> accounts" where
  "update_user u a = a\<lparr>users := upd_by u_id (u_id u) u (users a)\<rparr>"

definition name_taken :: "role \<Rightarrow> accounts \<Rightarrow> bool" where
  "name_taken r a \<longleftrightarrow>
     list_ex (\<lambda>s. r_id s \<noteq> r_id r \<and> r_organization_id r \<noteq> None \<and>
       r_organization_id s = r_organization_id r \<and> r_name s = r_name r) (roles a)"

definition create_role_row :: "role \<Rightarrow> accounts \<Rightarrow> accounts result" where
  "create_role_row r a =
     (if name_taken r a \<or> list_ex (\<lambda>s. r_id s = r_id r) (roles a) then Inl IntegrityError
      else Inr (a\<lparr>roles := roles a @ [r]\<rparr>))"

definition update_role_row :: "role \<Rightarrow> accounts \<Rightarrow> accounts result" where
  "update_role_row r a =
     (if name_taken r a then Inl IntegrityError
      else Inr (a\<lparr>roles := upd_by r_id (r_id r) r (roles a)\<rparr>))"

text \<open>Deleting a role deletes its link rows.\<close>

definition delete_role_row :: "uuid \<Rightarrow> accounts \<Rightarrow> accounts" where
  "delete_role_row i a =
     a\<lparr>roles := filter (\<lambda>r. r_id r \<noteq> i) (roles a),
       user_roles := filter (\<lambda>(u, r). r \<noteq> i) (user_roles a),
       role_permissions := filter (\<lambda>(r, p). r \<noteq> i) (role_permissions a)\<rparr>"

definition create_user_role :: "uuid \<Rightarrow> uuid \<Rightarrow> accounts \<Rightarrow> accounts result" where
  "create_user_role u r a =
     (if has_user_role a u r then Inl IntegrityError
      else Inr (a\<lparr>user_roles := user_roles a @ [(u, r)]\<rparr>))"

definition delete_user_role :: "uuid \<Rightarrow> uuid \<Rightarrow> accounts \<Rightarrow> accounts" where
  "delete_user_role u r a = a\<lparr>user_roles := filter (\<lambda>x. x \<noteq> (u, r)) (user_roles a)\<rparr>"

definition create_role_permission :: "uuid \<Rightarrow> uuid \<Rightarrow> accounts \<Rightarrow> accounts result" where
  "create_role_permission r p a =
     (if has_role_permission a r p then Inl IntegrityError
      else Inr (a\<lparr>role_permissions := role_permissions a @ [(r, p)]\<rparr>))"

definition delete_role_permission :: "uuid \<Rightarrow> uuid \<Rightarrow> accounts \<Rightarrow> accounts" where
  "delete_role_permission r p a = a\<lparr>role_permissions := filter (\<lambda>x. x \<noteq> (r, p)) (role_permissions a)\<rparr>"

definition token_revoked :: "accounts \<Rightarrow> string \<Rightarrow> bool" where
  "token_revoked a jti \<longleftrightarrow> list_ex (\<lambda>t. rt_jti t = jti) (revoked_tokens a)"

definition create_revoked_token :: "revoked_token \<Rightarrow> accounts \<Rightarrow> accounts result" where
  "create_revoked_token t a =
     (if token_revoked a (rt_jti t) then Inl IntegrityError
      else Inr (a\<lparr>revoked_tokens := revoked_tokens a @ [t]\<rparr>))"

definition delete_expired_tokens :: "time \<Rightarrow> accounts \<Rightarrow> accounts" where
  "delete_expired_tokens now a =
     a\<lparr>revoked_tokens := filter (\<lambda>t. \<not> rt_expires_at t < now) (revoked_tokens a)\<rparr>"

definition reset_by_hash :: "accounts \<Rightarrow> string \<Rightarrow> reset_token option" where
  "reset_by_hash a h = find (\<lambda>t. pt_token_hash t = h) (reset_tokens a)"

definition create_reset_token :: "reset_token \<Rightarrow> accounts \<Rightarrow> accounts result" where
  "create_reset_token t a =
     (if list_ex (\<lambda>s. pt_token_hash s = pt_token_hash t) (reset_tokens a) then Inl IntegrityError
      else Inr (a\<lparr>reset_tokens := reset_tokens a @ [t]\<rparr>))"

definition mark_reset_used :: "reset_token \<Rightarrow> time \<Rightarrow> accounts \<Rightarrow> accounts" where
  "mark_reset_used t now a =
     a\<lparr>reset_tokens := upd_by pt_token_hash (pt_token_hash t) (t\<lparr>pt_used_at := Some now\<rparr>) (reset_tokens a)\<rparr>"

section \<open>The invariant of the tables\<close>

text \<open>The unique constraints and the foreign keys of the link tables.\<close>

definition accounts_ok :: "accounts \<Rightarrow> bool" where
  "accounts_ok a \<longleftrightarrow>
     distinct (map u_id (users a)) \<and> distinct (map r_id (roles a)) \<and>
     distinct (map pm_id (permissions a)) \<and> distinct (map pm_code (permissions a)) \<and>
     distinct (user_roles a) \<and> distinct (role_permissions a) \<and>
     (\<forall>(u, r) \<in> set (user_roles a). r \<in> r_id ` set (roles a)) \<and>
     (\<forall>(r, p) \<in> set (role_permissions a). r \<in> r_id ` set (roles a) \<and> p \<in> pm_id ` set (permissions a))"

section \<open>What the permission query returns\<close>

text \<open>The roles of a user that grant a code.\<close>

definition grants :: "accounts \<Rightarrow> uuid \<Rightarrow> string \<Rightarrow> bool" where
  "grants a r code \<longleftrightarrow> (\<exists>p \<in> set (permissions a). pm_code p = code \<and> (r, pm_id p) \<in> set (role_permissions a))"

definition granting_roles :: "accounts \<Rightarrow> uuid \<Rightarrow> string \<Rightarrow> uuid set" where
  "granting_roles a uid code = {r. (uid, r) \<in> set (user_roles a) \<and> grants a r code}"

lemma finite_granting_roles [simp]: "finite (granting_roles a uid code)"
proof (rule finite_subset)
  show "granting_roles a uid code \<subseteq> snd ` set (user_roles a)"
    by (force simp: granting_roles_def)
qed simp

lemma filter_one_key:
  assumes "distinct (map k xs)" "x \<in> set xs"
  shows "filter (\<lambda>y. k y = k x) xs = [x]"
  using assms by (induction xs) (auto simp: filter_empty_conv image_iff)

lemma length_filter_distinct: "distinct xs \<Longrightarrow> length (filter P xs) = card {x \<in> set xs. P x}"
  by (metis distinct_card distinct_filter set_filter)

lemma length_permission_rows:
  assumes ok: "accounts_ok a"
  shows "length (permission_rows a uid code) = card (granting_roles a uid code)"
proof (cases "filter (\<lambda>p. pm_code p = code) (permissions a)")
  case Nil
  then have "\<And>p. p \<in> set (permissions a) \<Longrightarrow> pm_code p \<noteq> code"
    by (auto simp: filter_empty_conv)
  then have "granting_roles a uid code = {}"
    by (auto simp: granting_roles_def grants_def)
  then show ?thesis using Nil by (simp add: permission_rows_def)
next
  case (Cons p ps)
  then have p: "p \<in> set (permissions a)" "pm_code p = code"
    by (metis (mono_tags, lifting) filter_eq_ConsD in_set_conv_decomp)+
  have one: "filter (\<lambda>p. pm_code p = code) (permissions a) = [p]"
    using filter_one_key [of pm_code "permissions a" p] ok p by (simp add: accounts_ok_def)
  have uniq: "q = p" if "q \<in> set (permissions a)" "pm_code q = code" for q
  proof -
    have "q \<in> set (filter (\<lambda>p. pm_code p = code) (permissions a))" using that by simp
    with one show ?thesis by simp
  qed
  let ?link = "\<lambda>r. filter (\<lambda>(u, r'). u = uid \<and> r' = r) (user_roles a)"
  have len: "length (?link r) = (if (uid, r) \<in> set (user_roles a) then 1 else 0)" for r
  proof -
    have "{x \<in> set (user_roles a). (case x of (u, r') \<Rightarrow> u = uid \<and> r' = r)} =
        (if (uid, r) \<in> set (user_roles a) then {(uid, r)} else {})"
      by auto
    then show ?thesis
      using ok by (simp add: length_filter_distinct accounts_ok_def)
  qed
  let ?rp = "filter (\<lambda>(r, q). q = pm_id p \<and> (uid, r) \<in> set (user_roles a)) (role_permissions a)"
  have "length (permission_rows a uid code) =
      sum_list (map (\<lambda>(r, q). if q = pm_id p then length (?link r) else 0) (role_permissions a))"
    unfolding permission_rows_def one by (simp add: length_concat comp_def split_def if_distrib cong: if_cong)
  also have "\<dots> = length ?rp"
  proof -
    have "sum_list (map (\<lambda>(r, q). if q = pm_id p then length (?link r) else 0) xs) =
        length (filter (\<lambda>(r, q). q = pm_id p \<and> (uid, r) \<in> set (user_roles a)) xs)" for xs
      by (induction xs) (auto simp: len split: if_splits)
    then show ?thesis .
  qed
  also have "\<dots> = card (fst ` {x \<in> set (role_permissions a). snd x = pm_id p \<and> (uid, fst x) \<in> set (user_roles a)})"
  proof -
    have "length ?rp = card {x \<in> set (role_permissions a). snd x = pm_id p \<and> (uid, fst x) \<in> set (user_roles a)}"
      using ok by (simp add: length_filter_distinct accounts_ok_def split_def)
    also have "inj_on fst {x \<in> set (role_permissions a). snd x = pm_id p \<and> (uid, fst x) \<in> set (user_roles a)}"
      by (auto simp: inj_on_def)
    then have "card {x \<in> set (role_permissions a). snd x = pm_id p \<and> (uid, fst x) \<in> set (user_roles a)} =
      card (fst ` {x \<in> set (role_permissions a). snd x = pm_id p \<and> (uid, fst x) \<in> set (user_roles a)})"
      by (simp add: card_image)
    finally show ?thesis .
  qed
  also have "fst ` {x \<in> set (role_permissions a). snd x = pm_id p \<and> (uid, fst x) \<in> set (user_roles a)} =
      granting_roles a uid code"
    using p uniq by (force simp: granting_roles_def grants_def)
  finally show ?thesis .
qed

lemma user_has_permission_card:
  assumes "accounts_ok a"
  shows "user_has_permission a uid code =
    (if card (granting_roles a uid code) = 0 then Inr False
     else if card (granting_roles a uid code) = 1 then Inr True else Inl MultipleResults)"
  using length_permission_rows [OF assms, of uid code]
  by (simp add: user_has_permission_def scalar_one_or_none_length)

end
