(* ===== verification/AccessControl.thy ===== *)
theory AccessControl
  imports Accounts
begin

text \<open>
  Who may do what: \<open>services/role_service.py\<close>, \<open>permission_service.py\<close> and
  \<open>user_service.py\<close>, the checks of \<open>api/dependencies/permissions.py\<close>, and the
  requests of \<open>api/v1/roles.py\<close> and \<open>api/v1/users.py\<close> that change roles, grants
  and accounts. A service returns the new tables and its value, or raises; a
  request that raises changes nothing. Audit rows are left out.
\<close>

section \<open>Roles\<close>

definition SUPER_ADMIN_ROLE :: string where
  "SUPER_ADMIN_ROLE = ''Super Admin''"

definition is_super_admin_role :: "role \<Rightarrow> bool" where
  "is_super_admin_role r \<longleftrightarrow>
     r_name r = SUPER_ADMIN_ROLE \<and> r_is_system r \<and> r_organization_id r = None"

definition is_super_admin :: "accounts \<Rightarrow> uuid \<Rightarrow> bool" where
  "is_super_admin a uid \<longleftrightarrow> list_ex is_super_admin_role (get_roles_for_user a uid)"

definition get_role :: "accounts \<Rightarrow> uuid \<Rightarrow> uuid \<Rightarrow> role result" where
  "get_role a rid org =
     (case role_by_id a rid of
        None \<Rightarrow> Inl NotFound
      | Some r \<Rightarrow> if r_organization_id r \<in> {Some org, None} then Inr r else Inl NotFound)"

definition new_value :: "'a option \<Rightarrow> 'a \<Rightarrow> 'a" where
  "new_value x old = (case x of None \<Rightarrow> old | Some v \<Rightarrow> v)"

definition update_role ::
  "uuid \<Rightarrow> uuid \<Rightarrow> string option \<Rightarrow> string option \<Rightarrow> accounts \<Rightarrow> (accounts \<times> role) result" where
  "update_role rid org nm descr a =
     bind_result (get_role a rid org) (\<lambda>r.
     bind_result (ensure (\<not> r_is_system r) PermissionDenied) (\<lambda>_.
     let r' = r\<lparr>r_name := new_value nm (r_name r),
                r_description := (case descr of None \<Rightarrow> r_description r | Some d \<Rightarrow> Some d)\<rparr> in
     bind_result (update_role_row r' a) (\<lambda>a'. Inr (a', r'))))"

definition delete_role :: "uuid \<Rightarrow> uuid \<Rightarrow> accounts \<Rightarrow> (accounts \<times> unit) result" where
  "delete_role rid org a =
     bind_result (get_role a rid org) (\<lambda>r.
     bind_result (ensure (\<not> r_is_system r) PermissionDenied) (\<lambda>_.
     Inr (delete_role_row rid a, ())))"

definition create_role ::
  "uuid \<Rightarrow> uuid option \<Rightarrow> string \<Rightarrow> string option \<Rightarrow> bool \<Rightarrow> accounts \<Rightarrow> (accounts \<times> role) result" where
  "create_role i org nm descr system a =
     bind_result (role_by_name a org nm) (\<lambda>existing.
     bind_result (ensure (existing = None) (Conflict CONFLICT)) (\<lambda>_.
     let r = \<lparr>r_id = i, r_organization_id = org, r_name = nm, r_description = descr, r_is_system = system\<rparr> in
     bind_result (create_role_row r a) (\<lambda>a'. Inr (a', r))))"

definition list_roles_for_user :: "uuid \<Rightarrow> uuid \<Rightarrow> accounts \<Rightarrow> role list result" where
  "list_roles_for_user uid org a =
     (case user_by_id a uid of
        None \<Rightarrow> Inl PermissionDenied
      | Some u \<Rightarrow> if u_organization_id u = org then Inr (get_roles_for_user a uid) else Inl PermissionDenied)"

text \<open>The guard of the Super Admin role, in both directions.\<close>

definition may_touch :: "accounts \<Rightarrow> uuid option \<Rightarrow> role \<Rightarrow> bool" where
  "may_touch a caller r \<longleftrightarrow>
     \<not> (r_is_system r \<and> r_name r = SUPER_ADMIN_ROLE) \<or>
     (case caller of None \<Rightarrow> False | Some c \<Rightarrow> is_super_admin a c)"

definition assign_role ::
  "uuid \<Rightarrow> uuid \<Rightarrow> uuid \<Rightarrow> uuid option \<Rightarrow> accounts \<Rightarrow> (accounts \<times> unit) result" where
  "assign_role uid rid org caller a =
     (case user_by_id a uid of
        None \<Rightarrow> Inl PermissionDenied
      | Some u \<Rightarrow>
          if u_organization_id u \<noteq> org then Inl PermissionDenied
          else
            (case role_by_id a rid of
               None \<Rightarrow> Inl PermissionDenied
             | Some r \<Rightarrow>
                 if r_organization_id r \<notin> {Some org, None} \<or> \<not> may_touch a caller r then Inl PermissionDenied
                 else if has_user_role a uid rid then Inr (a, ())
                 else bind_result (create_user_role uid rid a) (\<lambda>a'. Inr (a', ()))))"

definition remove_role ::
  "uuid \<Rightarrow> uuid \<Rightarrow> uuid \<Rightarrow> uuid option \<Rightarrow> accounts \<Rightarrow> (accounts \<times> unit) result" where
  "remove_role uid rid org caller a =
     (case user_by_id a uid of
        None \<Rightarrow> Inl PermissionDenied
      | Some u \<Rightarrow>
          if u_organization_id u \<noteq> org then Inl PermissionDenied
          else if (case role_by_id a rid of None \<Rightarrow> False | Some r \<Rightarrow> \<not> may_touch a caller r)
            then Inl PermissionDenied
          else if has_user_role a uid rid then Inr (delete_user_role uid rid a, ())
          else Inl NotFound)"

section \<open>Permissions\<close>

definition assign_permission :: "uuid \<Rightarrow> uuid \<Rightarrow> accounts \<Rightarrow> (accounts \<times> unit) result" where
  "assign_permission rid pid a =
     bind_result (ensure (role_by_id a rid \<noteq> None) NotFound) (\<lambda>_.
     bind_result (ensure (permission_by_id a pid \<noteq> None) NotFound) (\<lambda>_.
     if has_role_permission a rid pid then Inr (a, ())
     else bind_result (create_role_permission rid pid a) (\<lambda>a'. Inr (a', ()))))"

definition remove_permission :: "uuid \<Rightarrow> uuid \<Rightarrow> accounts \<Rightarrow> (accounts \<times> unit) result" where
  "remove_permission rid pid a =
     (if has_role_permission a rid pid then Inr (delete_role_permission rid pid a, ()) else Inl NotFound)"

section \<open>Accounts awaiting a decision\<close>

definition get_pending_user :: "uuid \<Rightarrow> uuid \<Rightarrow> accounts \<Rightarrow> user result" where
  "get_pending_user uid org a =
     (case user_by_id a uid of
        None \<Rightarrow> Inl NotFound
      | Some u \<Rightarrow>
          if u_organization_id u \<noteq> org then Inl NotFound
          else if u_registration_status u \<noteq> REG_PENDING then Inl (Conflict CONFLICT) else Inr u)"

definition approve_user ::
  "uuid \<Rightarrow> uuid \<Rightarrow> uuid option \<Rightarrow> uuid option \<Rightarrow> accounts \<Rightarrow> (accounts \<times> unit) result" where
  "approve_user uid org rid caller a =
     bind_result (get_pending_user uid org a) (\<lambda>u.
     let a' = update_user (u\<lparr>u_registration_status := REG_APPROVED\<rparr>) a in
     (case rid of None \<Rightarrow> Inr (a', ()) | Some r \<Rightarrow> assign_role uid r org caller a'))"

definition reject_user :: "uuid \<Rightarrow> uuid \<Rightarrow> accounts \<Rightarrow> (accounts \<times> unit) result" where
  "reject_user uid org a =
     bind_result (get_pending_user uid org a) (\<lambda>u.
     Inr (update_user (u\<lparr>u_registration_status := REG_REJECTED\<rparr>) a, ()))"

text \<open>
  \<open>set_active\<close>; whether the platform owner's latest decision was to deactivate
  the person is read from the audit log, an argument here.
\<close>

definition set_active ::
  "(uuid \<Rightarrow> bool) \<Rightarrow> time \<Rightarrow> uuid \<Rightarrow> uuid \<Rightarrow> uuid \<Rightarrow> bool \<Rightarrow> accounts \<Rightarrow> (accounts \<times> unit) result" where
  "set_active deactivated_by_platform now uid org caller active a =
     (if uid = caller then Inl Validation
      else case user_by_id a uid of
        None \<Rightarrow> Inl NotFound
      | Some u \<Rightarrow>
          if u_organization_id u \<noteq> org then Inl NotFound
          else if active \<and> deactivated_by_platform uid then Inl PermissionDenied
          else Inr (update_user
                 (if active then u\<lparr>u_is_active := True\<rparr>
                  else u\<lparr>u_is_active := False, u_tokens_valid_from := now\<rparr>) a, ()))"

section \<open>Requests\<close>

definition require_permission :: "accounts \<Rightarrow> user \<Rightarrow> string \<Rightarrow> unit result" where
  "require_permission a u code =
     bind_result (ensure (u_is_active u) PermissionDenied) (\<lambda>_.
     bind_result (user_has_permission a (u_id u) code) (\<lambda>b. ensure b PermissionDenied))"

fun any_permission :: "accounts \<Rightarrow> user \<Rightarrow> string list \<Rightarrow> unit result" where
  "any_permission a u [] = Inl PermissionDenied"
| "any_permission a u (c # cs) =
     bind_result (user_has_permission a (u_id u) c) (\<lambda>b. if b then Inr () else any_permission a u cs)"

definition require_any_permission :: "accounts \<Rightarrow> user \<Rightarrow> string list \<Rightarrow> unit result" where
  "require_any_permission a u codes =
     bind_result (ensure (u_is_active u) PermissionDenied) (\<lambda>_. any_permission a u codes)"

definition create_role_request :: "user \<Rightarrow> uuid \<Rightarrow> string \<Rightarrow> string option \<Rightarrow> accounts \<Rightarrow> (accounts \<times> role) result" where
  "create_role_request u i nm descr a =
     bind_result (require_permission a u ''roles.write'') (\<lambda>_.
     create_role i (Some (u_organization_id u)) nm descr False a)"

definition update_role_request ::
  "user \<Rightarrow> uuid \<Rightarrow> string option \<Rightarrow> string option \<Rightarrow> accounts \<Rightarrow> (accounts \<times> role) result" where
  "update_role_request u rid nm descr a =
     bind_result (require_permission a u ''roles.write'') (\<lambda>_.
     bind_result (get_role a rid (u_organization_id u)) (\<lambda>_.
     update_role rid (u_organization_id u) nm descr a))"

definition delete_role_request :: "user \<Rightarrow> uuid \<Rightarrow> accounts \<Rightarrow> (accounts \<times> unit) result" where
  "delete_role_request u rid a =
     bind_result (require_permission a u ''roles.write'') (\<lambda>_.
     bind_result (get_role a rid (u_organization_id u)) (\<lambda>_.
     delete_role rid (u_organization_id u) a))"

definition assign_permission_request :: "user \<Rightarrow> uuid \<Rightarrow> uuid \<Rightarrow> accounts \<Rightarrow> (accounts \<times> unit) result" where
  "assign_permission_request u rid pid a =
     bind_result (require_permission a u ''roles.write'') (\<lambda>_.
     bind_result (get_role a rid (u_organization_id u)) (\<lambda>r.
     bind_result (ensure (\<not> r_is_system r) PermissionDenied) (\<lambda>_.
     assign_permission rid pid a)))"

definition remove_permission_request :: "user \<Rightarrow> uuid \<Rightarrow> uuid \<Rightarrow> accounts \<Rightarrow> (accounts \<times> unit) result" where
  "remove_permission_request u rid pid a =
     bind_result (require_permission a u ''roles.write'') (\<lambda>_.
     bind_result (get_role a rid (u_organization_id u)) (\<lambda>r.
     bind_result (ensure (\<not> r_is_system r) PermissionDenied) (\<lambda>_.
     remove_permission rid pid a)))"

definition assign_role_request :: "user \<Rightarrow> uuid \<Rightarrow> uuid \<Rightarrow> accounts \<Rightarrow> (accounts \<times> role) result" where
  "assign_role_request u uid rid a =
     bind_result (require_permission a u ''users.write'') (\<lambda>_.
     bind_result (assign_role uid rid (u_organization_id u) (Some (u_id u)) a) (\<lambda>(a', _).
     bind_result (get_role a' rid (u_organization_id u)) (\<lambda>r. Inr (a', r))))"

definition remove_role_request :: "user \<Rightarrow> uuid \<Rightarrow> uuid \<Rightarrow> accounts \<Rightarrow> (accounts \<times> unit) result" where
  "remove_role_request u uid rid a =
     bind_result (require_permission a u ''users.write'') (\<lambda>_.
     remove_role uid rid (u_organization_id u) (Some (u_id u)) a)"

definition approve_user_request :: "user \<Rightarrow> uuid \<Rightarrow> uuid option \<Rightarrow> accounts \<Rightarrow> (accounts \<times> unit) result" where
  "approve_user_request u uid rid a =
     bind_result (require_permission a u ''users.write'') (\<lambda>_.
     approve_user uid (u_organization_id u) rid (Some (u_id u)) a)"

definition reject_user_request :: "user \<Rightarrow> uuid \<Rightarrow> accounts \<Rightarrow> (accounts \<times> unit) result" where
  "reject_user_request u uid a =
     bind_result (require_permission a u ''users.write'') (\<lambda>_.
     reject_user uid (u_organization_id u) a)"

definition set_active_request ::
  "(uuid \<Rightarrow> bool) \<Rightarrow> time \<Rightarrow> user \<Rightarrow> uuid \<Rightarrow> bool \<Rightarrow> accounts \<Rightarrow> (accounts \<times> unit) result" where
  "set_active_request platform now u uid active a =
     bind_result (require_permission a u ''users.write'') (\<lambda>_.
     set_active platform now uid (u_organization_id u) (u_id u) active a)"

text \<open>One request of a signed-in person that changes roles, grants or accounts.\<close>

inductive access_step :: "user \<Rightarrow> accounts \<Rightarrow> accounts \<Rightarrow> bool" for u where
  create: "create_role_request u i nm descr a = Inr (a', r) \<Longrightarrow> access_step u a a'"
| update: "update_role_request u rid nm' descr a = Inr (a', r) \<Longrightarrow> access_step u a a'"
| delete: "delete_role_request u rid a = Inr (a', x) \<Longrightarrow> access_step u a a'"
| assign_permission: "assign_permission_request u rid pid a = Inr (a', x) \<Longrightarrow> access_step u a a'"
| remove_permission: "remove_permission_request u rid pid a = Inr (a', x) \<Longrightarrow> access_step u a a'"
| assign_role: "assign_role_request u uid rid a = Inr (a', r) \<Longrightarrow> access_step u a a'"
| remove_role: "remove_role_request u uid rid a = Inr (a', x) \<Longrightarrow> access_step u a a'"
| approve: "approve_user_request u uid rid' a = Inr (a', x) \<Longrightarrow> access_step u a a'"
| reject: "reject_user_request u uid a = Inr (a', x) \<Longrightarrow> access_step u a a'"
| active: "set_active_request platform now u uid on a = Inr (a', x) \<Longrightarrow> access_step u a a'"

end
