(* ===== verification/Sessions.thy ===== *)
theory Sessions
  imports AccessControl
begin

text \<open>
  Signing in and staying signed in: \<open>services/auth_service.py\<close>,
  \<open>token_revocation_service.py\<close>, \<open>jwt_service.py\<close> and
  \<open>api/dependencies/auth.py\<close>. The signature check, the password hash, the
  digest of a reset link, the verified claims of a Google token, the random
  source and \<open>uuid.UUID\<close> are fields of \<open>auth_env\<close> or arguments. A token is its
  claims; \<open>decode_token\<close> is what the library makes of a raw one. Emails, sign-in
  and audit records and the pause in \<open>change_password\<close> are left out. An operation
  returns what the request's transaction commits and its answer.
\<close>

section \<open>Tokens\<close>

text \<open>Times in a token are whole seconds.\<close>

record claims =
  tc_sub :: string
  tc_type :: string
  tc_exp :: int
  tc_iat :: "int option"
  tc_jti :: "string option"

record auth_env =
  signed :: "string \<Rightarrow> claims option"
  parse_uuid :: "string \<Rightarrow> uuid option"
  verify_password :: "string \<Rightarrow> string \<Rightarrow> bool"
  hash_password :: "string \<Rightarrow> string"
  digest :: "string \<Rightarrow> string"
  ACCESS_TOKEN_EXPIRE_MINUTES :: int
  REFRESH_TOKEN_EXPIRE_DAYS :: int
  PASSWORD_RESET_TOKEN_EXPIRE_MINUTES :: int
  REGISTRATION_AUTO_APPROVE :: bool
  DEFAULT_SIGNUP_ROLE :: string

definition whole_seconds :: "time \<Rightarrow> int" where
  "whole_seconds t = t div 1000000"

definition create_access_token :: "auth_env \<Rightarrow> time \<Rightarrow> string \<Rightarrow> uuid \<Rightarrow> claims" where
  "create_access_token env now jti sub =
     \<lparr>tc_sub = sub, tc_type = ''access'',
      tc_exp = whole_seconds (now + seconds (60 * ACCESS_TOKEN_EXPIRE_MINUTES env)),
      tc_iat = Some (whole_seconds now), tc_jti = Some jti\<rparr>"

definition create_refresh_token :: "auth_env \<Rightarrow> time \<Rightarrow> string \<Rightarrow> uuid \<Rightarrow> claims" where
  "create_refresh_token env now jti sub =
     \<lparr>tc_sub = sub, tc_type = ''refresh'',
      tc_exp = whole_seconds (now + seconds (86400 * REFRESH_TOKEN_EXPIRE_DAYS env)),
      tc_iat = Some (whole_seconds now), tc_jti = Some jti\<rparr>"

text \<open>
  None is a \<open>JWTError\<close>. The library refuses a token when its expiry lies before
  the current second.
\<close>

definition decode_token :: "auth_env \<Rightarrow> time \<Rightarrow> string \<Rightarrow> claims option" where
  "decode_token env now raw =
     (case signed env raw of
        None \<Rightarrow> None
      | Some c \<Rightarrow> if tc_exp c < whole_seconds now then None else Some c)"

definition expiry_of :: "claims \<Rightarrow> time" where
  "expiry_of c = seconds (tc_exp c)"

section \<open>Revocation\<close>

definition revoke :: "string \<Rightarrow> uuid \<Rightarrow> time \<Rightarrow> string \<Rightarrow> accounts \<Rightarrow> accounts result" where
  "revoke jti uid expires reason a =
     (if jti = [] \<or> token_revoked a jti then Inr a
      else create_revoked_token
             \<lparr>rt_jti = jti, rt_user_id = uid, rt_expires_at = expires, rt_reason = reason\<rparr> a)"

definition revoke_all_for_user :: "time \<Rightarrow> uuid \<Rightarrow> accounts \<Rightarrow> accounts" where
  "revoke_all_for_user now uid a =
     (case user_by_id a uid of None \<Rightarrow> a | Some u \<Rightarrow> update_user (u\<lparr>u_tokens_valid_from := now\<rparr>) a)"

definition is_revoked :: "accounts \<Rightarrow> claims \<Rightarrow> bool" where
  "is_revoked a c = (case tc_jti c of None \<Rightarrow> False | Some j \<Rightarrow> j \<noteq> [] \<and> token_revoked a j)"

definition issued_before_cutoff :: "claims \<Rightarrow> time \<Rightarrow> bool" where
  "issued_before_cutoff c cutoff =
     (case tc_iat c of None \<Rightarrow> False | Some i \<Rightarrow> i \<le> whole_seconds cutoff)"

definition prune_expired :: "time \<Rightarrow> accounts \<Rightarrow> accounts" where
  "prune_expired now a = delete_expired_tokens now a"

section \<open>The gates\<close>

definition check_can_authenticate :: "user \<Rightarrow> unit result" where
  "check_can_authenticate u =
     (if u_registration_status u = REG_PENDING then Inl PermissionDenied
      else if u_registration_status u = REG_REJECTED then Inl PermissionDenied
      else ensure (u_is_active u) PermissionDenied)"

definition check_temporary_password :: "time \<Rightarrow> user \<Rightarrow> unit result" where
  "check_temporary_password now u =
     ensure (\<not> (u_must_change_password u \<and>
        (case u_temporary_password_expires_at u of None \<Rightarrow> False | Some t \<Rightarrow> t < now))) Authentication"

text \<open>
  \<open>get_current_user\<close> and \<open>get_current_active_user\<close>; \<open>allowed\<close> says whether the
  path may run with a temporary password.
\<close>

definition get_current_user :: "auth_env \<Rightarrow> time \<Rightarrow> bool \<Rightarrow> string \<Rightarrow> accounts \<Rightarrow> user result" where
  "get_current_user env now allowed raw a =
     (case decode_token env now raw of
        None \<Rightarrow> Inl Authentication
      | Some c \<Rightarrow>
          if tc_type c \<noteq> ''access'' then Inl Authentication
          else
            (case parse_uuid env (tc_sub c) of
               None \<Rightarrow> Inl Authentication
             | Some uid \<Rightarrow>
                 if is_revoked a c then Inl Authentication
                 else
                   (case user_by_id a uid of
                      None \<Rightarrow> Inl NotFound
                    | Some u \<Rightarrow>
                        if issued_before_cutoff c (u_tokens_valid_from u) then Inl Authentication
                        else if u_registration_status u \<noteq> REG_APPROVED then Inl PermissionDenied
                        else if u_must_change_password u \<and> \<not> allowed then Inl PermissionDenied
                        else Inr u)))"

definition get_current_active_user :: "auth_env \<Rightarrow> time \<Rightarrow> bool \<Rightarrow> string \<Rightarrow> accounts \<Rightarrow> user result" where
  "get_current_active_user env now allowed raw a =
     bind_result (get_current_user env now allowed raw a) (\<lambda>u.
     bind_result (ensure (u_is_active u) PermissionDenied) (\<lambda>_. Inr u))"

section \<open>Signing up\<close>

definition WORKSPACE_OWNER_ROLE :: string where
  "WORKSPACE_OWNER_ROLE = ''Organization Admin''"

definition initial_registration_status :: "auth_env \<Rightarrow> RegistrationStatus" where
  "initial_registration_status env = (if REGISTRATION_AUTO_APPROVE env then REG_APPROVED else REG_PENDING)"

definition grant_default_role :: "auth_env \<Rightarrow> uuid \<Rightarrow> string option \<Rightarrow> accounts \<Rightarrow> accounts result" where
  "grant_default_role env uid role_name a =
     (let nm = strip (case role_name of None \<Rightarrow> DEFAULT_SIGNUP_ROLE env
                      | Some n \<Rightarrow> if n = [] then DEFAULT_SIGNUP_ROLE env else n) in
      if nm = [] then Inr a
      else bind_result (get_system_role a nm) (\<lambda>r.
        case r of
          None \<Rightarrow> Inr a
        | Some r \<Rightarrow> if has_user_role a uid (r_id r) then Inr a else create_user_role uid (r_id r) a))"

definition create_organization :: "organization \<Rightarrow> accounts \<Rightarrow> accounts result" where
  "create_organization g a =
     (if list_ex (\<lambda>h. o_id h = o_id g \<or> o_code h = o_code g) (organizations a) then Inl IntegrityError
      else Inr (a\<lparr>organizations := organizations a @ [g]\<rparr>))"

text \<open>The new workspace has a random code, part of the argument \<open>fresh\<close>.\<close>

definition resolve_registration_organization ::
  "string option \<Rightarrow> organization \<Rightarrow> accounts \<Rightarrow> (accounts \<times> uuid \<times> string option) result" where
  "resolve_registration_organization code fresh a =
     (case code of
        Some c \<Rightarrow>
          (case organization_by_code a c of
             None \<Rightarrow> Inl NotFound
           | Some g \<Rightarrow> Inr (a, o_id g, None))
      | None \<Rightarrow>
          bind_result (create_organization fresh a) (\<lambda>a'. Inr (a', o_id fresh, Some WORKSPACE_OWNER_ROLE)))"

definition new_user ::
  "auth_env \<Rightarrow> uuid \<Rightarrow> uuid \<Rightarrow> string \<Rightarrow> string \<Rightarrow> string \<Rightarrow> time option \<Rightarrow> user" where
  "new_user env i org username email password verified =
     \<lparr>u_id = i, u_organization_id = org, u_username = username, u_email = email,
      u_password_hash = hash_password env password, u_is_active = True,
      u_registration_status = initial_registration_status env, u_tokens_valid_from = 0,
      u_email_verified_at = verified, u_must_change_password = False,
      u_temporary_password_expires_at = None\<rparr>"

definition register ::
  "auth_env \<Rightarrow> uuid \<Rightarrow> organization \<Rightarrow> string \<Rightarrow> string \<Rightarrow> string \<Rightarrow> string option \<Rightarrow> accounts \<Rightarrow>
   (accounts \<times> uuid) result" where
  "register env i fresh username email password code a =
     bind_result (resolve_registration_organization code fresh a) (\<lambda>(a1, org, role_name).
     bind_result (ensure (user_by_username a1 username = None) (Conflict CONFLICT)) (\<lambda>_.
     bind_result (ensure (user_by_email a1 email = None) (Conflict CONFLICT)) (\<lambda>_.
     bind_result (create_user (new_user env i org username email password None) a1) (\<lambda>a2.
     bind_result (grant_default_role env i role_name a2) (\<lambda>a3. Inr (a3, i))))))"

text \<open>
  \<open>_unique_username_from_email\<close>: the loop tries the part before the at sign,
  then that part with 1, 2, ...
\<close>

definition base_username :: "string \<Rightarrow> string" where
  "base_username email = takeWhile (\<lambda>c. c \<noteq> CHR ''@'') email"

partial_function (option) unique_from :: "accounts \<Rightarrow> string \<Rightarrow> string \<Rightarrow> nat \<Rightarrow> string option" where
  "unique_from a base username suffix =
     (if user_by_username a username = None then Some username
      else unique_from a base (base @ nat_str suffix) (suffix + 1))"

definition unique_username_from_email :: "accounts \<Rightarrow> string \<Rightarrow> string option" where
  "unique_username_from_email a email = unique_from a (base_username email) (base_username email) 1"

section \<open>Signing in and out\<close>

definition token_pair :: "auth_env \<Rightarrow> time \<Rightarrow> string \<times> string \<Rightarrow> uuid \<Rightarrow> claims \<times> claims" where
  "token_pair env now jtis uid =
     (create_access_token env now (fst jtis) uid, create_refresh_token env now (snd jtis) uid)"

definition login ::
  "auth_env \<Rightarrow> time \<Rightarrow> string \<times> string \<Rightarrow> string \<Rightarrow> string \<Rightarrow> accounts \<Rightarrow> (claims \<times> claims) result" where
  "login env now jtis username password a =
     (case user_by_username a username of
        None \<Rightarrow> Inl Authentication
      | Some u \<Rightarrow>
          bind_result (ensure (verify_password env password (u_password_hash u)) Authentication) (\<lambda>_.
          bind_result (check_can_authenticate u) (\<lambda>_.
          bind_result (check_temporary_password now u) (\<lambda>_.
          Inr (token_pair env now jtis (u_id u))))))"

text \<open>
  The reuse branch commits before it raises, so its revocation survives the
  request's rollback.
\<close>

definition refresh ::
  "auth_env \<Rightarrow> time \<Rightarrow> string \<times> string \<Rightarrow> string \<Rightarrow> accounts \<Rightarrow> accounts \<times> (claims \<times> claims) result" where
  "refresh env now jtis raw a =
     (case decode_token env now raw of
        None \<Rightarrow> (a, Inl Authentication)
      | Some c \<Rightarrow>
          if tc_type c \<noteq> ''refresh'' then (a, Inl Authentication)
          else
            (case parse_uuid env (tc_sub c) of
               None \<Rightarrow> (a, Inl Authentication)
             | Some uid \<Rightarrow>
                 (case user_by_id a uid of
                    None \<Rightarrow> (a, Inl Authentication)
                  | Some u \<Rightarrow>
                      (case bind_result (check_can_authenticate u) (\<lambda>_. check_temporary_password now u) of
                         Inl e \<Rightarrow> (a, Inl e)
                       | Inr _ \<Rightarrow>
                           if is_revoked a c then (revoke_all_for_user now uid a, Inl Authentication)
                           else if issued_before_cutoff c (u_tokens_valid_from u) then (a, Inl Authentication)
                           else
                             (case revoke (new_value (tc_jti c) []) uid (expiry_of c) ''rotated'' a of
                                Inl e \<Rightarrow> (a, Inl e)
                              | Inr a' \<Rightarrow> (a', Inr (token_pair env now jtis uid)))))))"

definition logout :: "auth_env \<Rightarrow> time \<Rightarrow> uuid \<Rightarrow> string \<Rightarrow> accounts \<Rightarrow> accounts result" where
  "logout env now uid raw a =
     (if raw = [] then Inr a
      else case decode_token env now raw of
        None \<Rightarrow> Inr a
      | Some c \<Rightarrow>
          if tc_type c \<noteq> ''refresh'' \<or> tc_sub c \<noteq> uid then Inr a
          else revoke (new_value (tc_jti c) []) uid (expiry_of c) ''logout'' a)"

definition logout_all :: "time \<Rightarrow> uuid \<Rightarrow> accounts \<Rightarrow> accounts" where
  "logout_all now uid a = revoke_all_for_user now uid a"

section \<open>Passwords\<close>

definition request_password_reset ::
  "auth_env \<Rightarrow> time \<Rightarrow> string \<Rightarrow> string \<Rightarrow> accounts \<Rightarrow> accounts result" where
  "request_password_reset env now raw email a =
     (case user_by_email a email of
        None \<Rightarrow> Inr a
      | Some u \<Rightarrow>
          if \<not> u_is_active u then Inr a
          else create_reset_token
                 \<lparr>pt_user_id = u_id u, pt_token_hash = digest env raw,
                  pt_expires_at = now + seconds (60 * PASSWORD_RESET_TOKEN_EXPIRE_MINUTES env),
                  pt_used_at = None\<rparr> a)"

definition reset_password ::
  "auth_env \<Rightarrow> time \<Rightarrow> string \<Rightarrow> string \<Rightarrow> accounts \<Rightarrow> accounts result" where
  "reset_password env now raw new_password a =
     (case reset_by_hash a (digest env raw) of
        None \<Rightarrow> Inl Authentication
      | Some t \<Rightarrow>
          if pt_used_at t \<noteq> None \<or> pt_expires_at t < now then Inl Authentication
          else
            (case user_by_id a (pt_user_id t) of
               None \<Rightarrow> Inl Authentication
             | Some u \<Rightarrow>
                 if \<not> u_is_active u then Inl Authentication
                 else
                   let u' = u\<lparr>u_password_hash := hash_password env new_password,
                              u_email_verified_at :=
                                (case u_email_verified_at u of None \<Rightarrow> Some now | Some v \<Rightarrow> Some v)\<rparr> in
                   Inr (revoke_all_for_user now (u_id u) (mark_reset_used t now (update_user u' a)))))"

definition change_password ::
  "auth_env \<Rightarrow> time \<Rightarrow> uuid \<Rightarrow> string \<Rightarrow> string \<Rightarrow> accounts \<Rightarrow> accounts result" where
  "change_password env now uid current new_password a =
     (case user_by_id a uid of
        None \<Rightarrow> Inl NotFound
      | Some u \<Rightarrow>
          bind_result (ensure (verify_password env current (u_password_hash u)) Validation) (\<lambda>_.
          bind_result (ensure (\<not> verify_password env new_password (u_password_hash u)) Validation) (\<lambda>_.
          let u' = u\<lparr>u_password_hash := hash_password env new_password, u_must_change_password := False,
                     u_temporary_password_expires_at := None\<rparr> in
          Inr (revoke_all_for_user now uid (update_user u' a)))))"

section \<open>Google\<close>

text \<open>
  A first sign-in makes an account; when it must be approved first, the account
  is committed before the refusal. \<open>username\<close> is what the search found.
\<close>

definition google_login ::
  "auth_env \<Rightarrow> time \<Rightarrow> string \<times> string \<Rightarrow> uuid \<Rightarrow> organization \<Rightarrow> string \<Rightarrow> string \<Rightarrow> accounts \<Rightarrow>
   accounts \<times> (claims \<times> claims) result" where
  "google_login env now jtis i fresh random email a =
     (case user_by_email a email of
        Some u \<Rightarrow>
          if u_email_verified_at u = None then (a, Inl PermissionDenied)
          else
            (a, bind_result (check_can_authenticate u) (\<lambda>_. Inr (token_pair env now jtis (u_id u))))
      | None \<Rightarrow>
          (case bind_result (resolve_registration_organization None fresh a) (\<lambda>(a1, org, role_name).
                  case unique_username_from_email a1 email of
                    None \<Rightarrow> Inl OtherError
                  | Some username \<Rightarrow>
                      let u = new_user env i org username email random (Some now) in
                      bind_result (create_user u a1) (\<lambda>a2.
                      bind_result (grant_default_role env i role_name a2) (\<lambda>a3. Inr (a3, u)))) of
             Inl e \<Rightarrow> (a, Inl e)
           | Inr (a3, u) \<Rightarrow>
               (a3, bind_result (check_can_authenticate u) (\<lambda>_. Inr (token_pair env now jtis (u_id u))))))"

section \<open>Histories\<close>

text \<open>One request, or one run of the pruning job, at a given time.\<close>

inductive session_step :: "auth_env \<Rightarrow> time \<Rightarrow> accounts \<Rightarrow> accounts \<Rightarrow> bool" for env now where
  refresh: "refresh env now jtis raw a = (a', r) \<Longrightarrow> session_step env now a a'"
| logout: "logout env now uid raw a = Inr a' \<Longrightarrow> session_step env now a a'"
| logout_all: "session_step env now a (logout_all now uid a)"
| register: "register env i fresh username email password code a = Inr (a', x) \<Longrightarrow> session_step env now a a'"
| google: "google_login env now jtis i fresh random email a = (a', r) \<Longrightarrow> session_step env now a a'"
| request_reset: "request_password_reset env now raw email a = Inr a' \<Longrightarrow> session_step env now a a'"
| reset: "reset_password env now raw pw a = Inr a' \<Longrightarrow> session_step env now a a'"
| change: "change_password env now uid old_pw pw a = Inr a' \<Longrightarrow> session_step env now a a'"
| prune: "session_step env now a (prune_expired now a)"

definition sessions_between :: "auth_env \<Rightarrow> time \<Rightarrow> time \<Rightarrow> accounts \<Rightarrow> accounts \<Rightarrow> bool" where
  "sessions_between env t0 t1 = (\<lambda>a a'. \<exists>t. t0 \<le> t \<and> t \<le> t1 \<and> session_step env t a a')\<^sup>*\<^sup>*"

end
