(* ===== verification/AccessProperties.thy ===== *)
theory AccessProperties
  imports AccessControl
begin

text \<open>
  What the access control guarantees: the tables stay consistent, the
  permission check answers by the number of roles that grant the code, and the
  Super Admin role passes only from Super Admins.
\<close>

section \<open>The tables stay consistent\<close>


lemma role_by_idD: "role_by_id a i = Some r \<Longrightarrow> r \<in> set (roles a) \<and> r_id r = i"
  by (auto simp: role_by_id_def dest: find_SomeD)

lemma user_by_idD: "user_by_id a i = Some u \<Longrightarrow> u \<in> set (users a) \<and> u_id u = i"
  by (auto simp: user_by_id_def dest: find_SomeD)

lemma permission_by_idD: "permission_by_id a i = Some p \<Longrightarrow> p \<in> set (permissions a) \<and> pm_id p = i"
  by (auto simp: permission_by_id_def dest: find_SomeD)



named_theorems ok_intros \<open>writes that keep the tables consistent\<close>

lemma ok_create_role_row [ok_intros]:
  "accounts_ok a \<Longrightarrow> create_role_row r a = Inr a' \<Longrightarrow> accounts_ok a'"
  by (auto simp: accounts_ok_def create_role_row_def list_ex_iff split: if_splits) metis

lemma ok_update_role_row [ok_intros]:
  "accounts_ok a \<Longrightarrow> update_role_row r a = Inr a' \<Longrightarrow> accounts_ok a'"
proof -
  assume "accounts_ok a" "update_role_row r a = Inr a'"
  moreover have "r_id ` set (upd_by r_id (r_id r) r (roles a)) = r_id ` set (roles a)"
    by (metis set_map upd_by_keys)
  ultimately show ?thesis
    by (auto simp: accounts_ok_def update_role_row_def split: if_splits)
qed

lemma ok_delete_role_row [ok_intros]: "accounts_ok a \<Longrightarrow> accounts_ok (delete_role_row i a)"
  unfolding accounts_ok_def delete_role_row_def
  by (auto simp: distinct_map inj_on_def)

lemma ok_create_user_role [ok_intros]:
  "accounts_ok a \<Longrightarrow> create_user_role u i a = Inr a' \<Longrightarrow> i \<in> r_id ` set (roles a) \<Longrightarrow> accounts_ok a'"
  by (auto simp: accounts_ok_def create_user_role_def has_user_role_def split: if_splits)

lemma ok_delete_user_role [ok_intros]: "accounts_ok a \<Longrightarrow> accounts_ok (delete_user_role u i a)"
  by (auto simp: accounts_ok_def delete_user_role_def)

lemma ok_create_role_permission [ok_intros]:
  "accounts_ok a \<Longrightarrow> create_role_permission r p a = Inr a' \<Longrightarrow> r \<in> r_id ` set (roles a) \<Longrightarrow>
   p \<in> pm_id ` set (permissions a) \<Longrightarrow> accounts_ok a'"
  by (auto simp: accounts_ok_def create_role_permission_def has_role_permission_def split: if_splits)

lemma ok_delete_role_permission [ok_intros]: "accounts_ok a \<Longrightarrow> accounts_ok (delete_role_permission r p a)"
  by (auto simp: accounts_ok_def delete_role_permission_def)

lemma ok_update_user [ok_intros]: "accounts_ok a \<Longrightarrow> accounts_ok (update_user u a)"
  by (simp add: accounts_ok_def update_user_def)

lemma ok_assign_role [ok_intros]:
  "accounts_ok a \<Longrightarrow> assign_role uid rid org caller a = Inr (a', x) \<Longrightarrow> accounts_ok a'"
  by (auto simp: assign_role_def bind_result_Inr_iff split: option.splits if_splits
      dest!: role_by_idD intro: ok_create_user_role)

lemmas request_defs =
  create_role_request_def update_role_request_def delete_role_request_def
  assign_permission_request_def remove_permission_request_def assign_role_request_def
  remove_role_request_def approve_user_request_def reject_user_request_def set_active_request_def

lemma access_step_ok:
  assumes "access_step u a a'" "accounts_ok a"
  shows "accounts_ok a'"
  using assms
proof (cases rule: access_step.cases)
  case (create i nm descr r)
  then show ?thesis using assms(2)
    by (auto simp: request_defs create_role_def bind_result_Inr_iff Let_def intro: ok_create_role_row)
next
  case (update rid nm descr r)
  then show ?thesis using assms(2)
    by (auto simp: request_defs update_role_def bind_result_Inr_iff Let_def intro: ok_update_role_row)
next
  case (delete rid x)
  then show ?thesis using assms(2)
    by (auto simp: request_defs delete_role_def bind_result_Inr_iff intro: ok_delete_role_row)
next
  case (assign_permission rid pid x)
  then show ?thesis using assms(2)
    by (auto simp: request_defs assign_permission_def bind_result_Inr_iff split: if_splits
        dest!: role_by_idD permission_by_idD intro: ok_create_role_permission)
next
  case (remove_permission rid pid x)
  then show ?thesis using assms(2)
    by (auto simp: request_defs remove_permission_def bind_result_Inr_iff split: if_splits
        intro: ok_delete_role_permission)
next
  case (assign_role uid rid r)
  then show ?thesis using assms(2)
    by (auto simp: request_defs bind_result_Inr_iff intro: ok_assign_role)
next
  case (remove_role uid rid x)
  then show ?thesis using assms(2)
    by (auto simp: request_defs remove_role_def bind_result_Inr_iff split: option.splits if_splits
        intro: ok_delete_user_role)
next
  case (approve uid rid' x)
  then show ?thesis using assms(2)
    by (auto simp: request_defs approve_user_def bind_result_Inr_iff Let_def split: option.splits
        intro: ok_assign_role ok_update_user)
next
  case (reject uid x)
  then show ?thesis using assms(2)
    by (auto simp: request_defs reject_user_def bind_result_Inr_iff intro: ok_update_user)
next
  case (active platform now uid on x)
  then show ?thesis using assms(2)
    by (auto simp: request_defs set_active_def bind_result_Inr_iff split: option.splits if_splits
        intro: ok_update_user)
qed

section \<open>The Super Admin role and the system roles\<close>

text \<open>Nobody gains or loses the Super Admin role, and no system role or what it grants changes.\<close>

definition system_unchanged :: "accounts \<Rightarrow> accounts \<Rightarrow> bool" where
  "system_unchanged a a' \<longleftrightarrow>
     (\<forall>w. is_super_admin a' w = is_super_admin a w) \<and>
     (\<forall>r. r_is_system r \<longrightarrow> r \<in> set (roles a') \<longleftrightarrow> r \<in> set (roles a)) \<and>
     (\<forall>r \<in> set (roles a). r_is_system r \<longrightarrow>
        (\<forall>p. (r_id r, p) \<in> set (role_permissions a') \<longleftrightarrow> (r_id r, p) \<in> set (role_permissions a)))"

lemma system_unchanged_refl [simp]: "system_unchanged a a"
  by (simp add: system_unchanged_def)












section \<open>The permission check\<close>

lemma permission_check_counts_roles:
  assumes "accounts_ok a"
  shows "require_permission a u code =
    (if \<not> u_is_active u \<or> granting_roles a (u_id u) code = {} then Inl PermissionDenied
     else if \<exists>r. granting_roles a (u_id u) code = {r} then Inr ()
     else Inl MultipleResults)"
proof -
  let ?G = "granting_roles a (u_id u) code"
  have "card ?G = 0 \<longleftrightarrow> ?G = {}" by simp
  moreover have "card ?G = 1 \<longleftrightarrow> (\<exists>r. ?G = {r})" by (simp add: card_1_singleton_iff)
  ultimately show ?thesis
    using user_has_permission_card [OF assms, of "u_id u" code]
    by (auto simp: require_permission_def ensure_def)
qed

text \<open>Approving an account with a role that shares a right with the one it signed up with.\<close>

lemma approve_user_second_role:
  assumes "approve_user_request admin uid (Some r1) a = Inr (a', x)" "(uid, r1) \<notin> set (user_roles a)"
  shows "user_roles a' = user_roles a @ [(uid, r1)]" "role_permissions a' = role_permissions a"
    "permissions a' = permissions a"
  using assms
  by (auto simp: request_defs approve_user_def assign_role_def create_user_role_def has_user_role_def
      update_user_def bind_result_Inr_iff Let_def split: option.splits if_splits)

lemma approved_with_a_second_role:
  assumes "accounts_ok a" "(uid, r0) \<in> set (user_roles a)" "(uid, r1) \<notin> set (user_roles a)"
    and "grants a r0 code" "grants a r1 code"
    and "approve_user_request admin uid (Some r1) a = Inr (a', x)"
    and "u_id u = uid" "u_is_active u"
  shows "require_permission a' u code = Inl MultipleResults"
proof -
  note e = approve_user_second_role [OF assms(6,3)]
  have ok: "accounts_ok a'"
    using access_step_ok [OF access_step.approve [OF assms(6)] assms(1)] .
  have g: "grants a' r code = grants a r code" for r
    by (simp add: grants_def e)
  have sub: "{r0, r1} \<subseteq> granting_roles a' uid code"
    using assms(2,4,5) g e(1) by (auto simp: granting_roles_def)
  have "r0 \<noteq> r1" using assms(2,3) by auto
  then have "2 \<le> card (granting_roles a' uid code)"
    using card_mono [OF finite_granting_roles sub] by simp
  then show ?thesis
    using user_has_permission_card [OF ok, of uid code] assms(7,8)
    by (auto simp: require_permission_def)
qed

section \<open>Who is a Super Admin\<close>




section \<open>A small organization\<close>

definition demo_user :: "string \<Rightarrow> RegistrationStatus \<Rightarrow> user" where
  "demo_user i st =
     \<lparr>u_id = i, u_organization_id = ''o1'', u_username = i, u_email = i @ ''@x.com'', u_password_hash = ''h'',
      u_is_active = True, u_registration_status = st, u_tokens_valid_from = 0, u_email_verified_at = None,
      u_must_change_password = False, u_temporary_password_expires_at = None\<rparr>"

definition demo_role :: "string \<Rightarrow> role" where
  "demo_role n = \<lparr>r_id = n, r_organization_id = None, r_name = n, r_description = None, r_is_system = True\<rparr>"

text \<open>
  An organization with an administrator and a person who signed up with its
  code and was given the role Analyst, which may read users as Planner may.
\<close>

definition demo_accounts :: accounts where
  "demo_accounts =
     \<lparr>users = [demo_user ''adm'' REG_APPROVED, demo_user ''new'' REG_PENDING],
      roles = [demo_role ''Super Admin'', demo_role ''Admin'', demo_role ''Analyst'', demo_role ''Planner''],
      permissions = [\<lparr>pm_id = ''p1'', pm_code = ''users.read''\<rparr>, \<lparr>pm_id = ''p2'', pm_code = ''users.write''\<rparr>],
      user_roles = [(''adm'', ''Admin''), (''new'', ''Analyst'')],
      role_permissions = [(''Admin'', ''p1''), (''Admin'', ''p2''), (''Analyst'', ''p1''), (''Planner'', ''p1'')],
      organizations = [\<lparr>o_id = ''o1'', o_code = ''acme''\<rparr>], revoked_tokens = [], reset_tokens = []\<rparr>"

lemmas demo_accounts_defs = demo_accounts_def demo_user_def demo_role_def

lemma demo_accounts_ok: "accounts_ok demo_accounts"
  by (simp add: accounts_ok_def demo_accounts_defs)

definition demo_approved :: accounts where
  "demo_approved =
     (case approve_user_request (demo_user ''adm'' REG_APPROVED) ''new'' (Some ''Planner'') demo_accounts of
        Inr (a, _) \<Rightarrow> a | Inl _ \<Rightarrow> demo_accounts)"

lemma demo_approved_run:
  "approve_user_request (demo_user ''adm'' REG_APPROVED) ''new'' (Some ''Planner'') demo_accounts =
     Inr (demo_approved, ())"
  by (simp add: demo_approved_def approve_user_request_def require_permission_def user_has_permission_def
      permission_rows_def approve_user_def get_pending_user_def user_by_id_def assign_role_def role_by_id_def
      may_touch_def SUPER_ADMIN_ROLE_def has_user_role_def create_user_role_def update_user_def upd_by_def
      demo_accounts_defs ensure_def)

lemma permission_check_counts_roles_witness:
  "require_permission demo_accounts (demo_user ''adm'' REG_APPROVED) ''users.write'' = Inr ()"
proof -
  have "granting_roles demo_accounts ''adm'' ''users.write'' = {''Admin''}"
    by (auto simp: granting_roles_def grants_def demo_accounts_defs)
  then show ?thesis
    using permission_check_counts_roles [OF demo_accounts_ok, of "demo_user ''adm'' REG_APPROVED" "''users.write''"]
    by (simp add: demo_user_def)
qed

lemma approved_with_a_second_role_witness:
  "require_permission demo_approved (demo_user ''new'' REG_APPROVED) ''users.read'' = Inl MultipleResults"
proof (rule approved_with_a_second_role [OF demo_accounts_ok _ _ _ _ demo_approved_run])
  show "(''new'', ''Analyst'') \<in> set (user_roles demo_accounts)"
    "(''new'', ''Planner'') \<notin> set (user_roles demo_accounts)"
    "grants demo_accounts ''Analyst'' ''users.read''" "grants demo_accounts ''Planner'' ''users.read''"
    by (simp_all add: grants_def demo_accounts_defs)
qed (simp_all add: demo_user_def)


end
