(* ===== verification/SessionProperties.thy ===== *)
theory SessionProperties
  imports Sessions AccessProperties
begin

text \<open>
  What signing in and out guarantees: a spent refresh token and a session cut
  off in bulk stay refused through any later requests, a password reset leaves
  a temporary password's expiry in force, and the search for a free user name
  ends with the first free one.
\<close>

section \<open>What a request leaves in the tables\<close>

named_theorems table_simps \<open>which table a write touches\<close>

lemma user_by_id_update:
  "user_by_id (update_user u a) i =
     (if i = u_id u \<and> user_by_id a i \<noteq> None then Some u else user_by_id a i)"
proof (cases "i = u_id u")
  case True
  show ?thesis
  proof (cases "find (\<lambda>v. u_id v = u_id u) (users a)")
    case None
    then have "upd_by u_id (u_id u) u (users a) = users a"
      by (simp add: upd_by_def find_None_iff_all map_idI)
    with True None show ?thesis by (simp add: user_by_id_def update_user_def)
  next
    case (Some v)
    with True show ?thesis by (simp add: user_by_id_def update_user_def find_upd_by_same)
  qed
next
  case False
  then show ?thesis by (simp add: user_by_id_def update_user_def find_upd_by_other)
qed


lemma users_untouched [table_simps]:
  "create_user_role i r a = Inr a' \<Longrightarrow> users a' = users a"
  "create_organization g a = Inr a' \<Longrightarrow> users a' = users a"
  "create_revoked_token t a = Inr a' \<Longrightarrow> users a' = users a"
  "create_reset_token s a = Inr a' \<Longrightarrow> users a' = users a"
  by (auto simp: create_user_role_def create_organization_def create_revoked_token_def create_reset_token_def
      split: if_splits)

lemma revoked_untouched [table_simps]:
  "create_user_role i r a = Inr a' \<Longrightarrow> revoked_tokens a' = revoked_tokens a"
  "create_organization g a = Inr a' \<Longrightarrow> revoked_tokens a' = revoked_tokens a"
  "create_user u a = Inr a' \<Longrightarrow> revoked_tokens a' = revoked_tokens a"
  "create_reset_token s a = Inr a' \<Longrightarrow> revoked_tokens a' = revoked_tokens a"
  by (auto simp: create_user_role_def create_organization_def create_user_def create_reset_token_def
      split: if_splits)

lemma revoked_updates [table_simps]:
  "revoked_tokens (update_user u a) = revoked_tokens a"
  "revoked_tokens (mark_reset_used s now a) = revoked_tokens a"
  by (simp_all add: update_user_def mark_reset_used_def)

lemma revoked_revoke_all [table_simps]: "revoked_tokens (revoke_all_for_user now uid a) = revoked_tokens a"
  by (simp add: revoke_all_for_user_def table_simps split: option.split)

lemma default_role_untouched:
  assumes "grant_default_role env uid nm a = Inr a'"
  shows "users a' = users a" "revoked_tokens a' = revoked_tokens a"
  using assms
  by (auto simp: grant_default_role_def Let_def bind_result_Inr_iff split: if_splits option.splits
      dest: users_untouched revoked_untouched)

lemma resolve_untouched:
  assumes "resolve_registration_organization code fresh a = Inr (a', org, nm)"
  shows "users a' = users a" "revoked_tokens a' = revoked_tokens a"
  using assms
  by (auto simp: resolve_registration_organization_def bind_result_Inr_iff split: option.splits
      dest: users_untouched revoked_untouched)

lemma revoke_grows: "revoke jti uid e reason a = Inr a' \<Longrightarrow> set (revoked_tokens a) \<subseteq> set (revoked_tokens a')"
  by (auto simp: revoke_def create_revoked_token_def split: if_splits)


lemma revoke_revokes:
  "revoke jti uid e reason a = Inr a' \<Longrightarrow> jti \<noteq> [] \<Longrightarrow> token_revoked a' jti"
  by (auto simp: revoke_def create_revoked_token_def token_revoked_def split: if_splits)

lemma refresh_cases:
  assumes "refresh env now jtis raw a = (a', r)"
  obtains (none) e where "a' = a" "r = Inl e"
    | (reuse) c uid where "a' = revoke_all_for_user now uid a" "r = Inl Authentication"
        "decode_token env now raw = Some c" "parse_uuid env (tc_sub c) = Some uid" "is_revoked a c"
    | (rotated) c uid u where "decode_token env now raw = Some c" "tc_type c = ''refresh''"
        "parse_uuid env (tc_sub c) = Some uid" "user_by_id a uid = Some u"
        "check_can_authenticate u = Inr ()" "check_temporary_password now u = Inr ()"
        "\<not> is_revoked a c" "\<not> issued_before_cutoff c (u_tokens_valid_from u)"
        "revoke (new_value (tc_jti c) []) uid (expiry_of c) ''rotated'' a = Inr a'"
        "r = Inr (token_pair env now jtis uid)"
  using assms
  by (auto simp: refresh_def bind_result_def split: option.splits sum.splits if_splits)

section \<open>A spent token stays on the list\<close>

lemma revoked_row_kept:
  assumes "session_step env t a a'" "x \<in> set (revoked_tokens a)" "t \<le> rt_expires_at x"
  shows "x \<in> set (revoked_tokens a')"
  using assms(1)
proof (cases rule: session_step.cases)
  case (refresh jtis raw r)
  then show ?thesis
    using assms(2) by (cases rule: refresh_cases) (auto simp: table_simps dest: revoke_grows)
next
  case (logout uid raw)
  then show ?thesis
    using assms(2) by (auto simp: logout_def split: if_splits option.splits dest: revoke_grows)
next
  case (logout_all uid)
  then show ?thesis using assms(2) by (simp add: logout_all_def table_simps)
next
  case (register i fresh username email password code x)
  then show ?thesis
    using assms(2)
    by (auto simp: register_def bind_result_Inr_iff
        dest!: default_role_untouched(2) resolve_untouched(2) revoked_untouched(3))
next
  case (google jtis i fresh random email r)
  then show ?thesis
    using assms(2)
    by (auto simp: google_login_def bind_result_def Let_def split: option.splits if_splits sum.splits prod.splits
        dest!: default_role_untouched(2) resolve_untouched(2) revoked_untouched(3))
next
  case (request_reset raw email)
  then show ?thesis
    using assms(2)
    by (auto simp: request_password_reset_def split: option.splits if_splits dest!: revoked_untouched(4))
next
  case (reset raw pw)
  then show ?thesis
    using assms(2)
    by (auto simp: reset_password_def Let_def table_simps split: option.splits if_splits)
next
  case (change uid old_pw pw)
  then show ?thesis
    using assms(2)
    by (auto simp: change_password_def bind_result_Inr_iff Let_def table_simps split: option.splits)
next
  case prune
  then show ?thesis
    using assms(2,3) by (simp add: prune_expired_def delete_expired_tokens_def)
qed

lemma revoked_row_kept_between:
  assumes "sessions_between env t0 t1 a a'" "x \<in> set (revoked_tokens a)" "t1 \<le> rt_expires_at x"
  shows "x \<in> set (revoked_tokens a')"
  using assms(1) unfolding sessions_between_def
proof (induction rule: rtranclp_induct)
  case base
  then show ?case using assms(2) .
next
  case (step b c)
  then show ?case using revoked_row_kept assms(3) by (metis order_trans)
qed

section \<open>A bulk revocation lasts\<close>








lemma user_by_id_mark: "user_by_id (mark_reset_used t now a) i = user_by_id a i"
  by (simp add: user_by_id_def mark_reset_used_def)

lemma reset_InrE:
  assumes "reset_password env now raw pw a = Inr a'"
  obtains t u u' where "reset_by_hash a (digest env raw) = Some t" "user_by_id a (pt_user_id t) = Some u"
    "a' = revoke_all_for_user now (u_id u) (mark_reset_used t now (update_user u' a))"
    "u_id u' = u_id u" "u_username u' = u_username u" "u_password_hash u' = hash_password env pw"
    "u_tokens_valid_from u' = u_tokens_valid_from u"
    "u_must_change_password u' = u_must_change_password u"
    "u_temporary_password_expires_at u' = u_temporary_password_expires_at u"
    "u_registration_status u' = u_registration_status u" "u_is_active u'" "u_id u = pt_user_id t"
proof -
  from assms obtain t u where t: "reset_by_hash a (digest env raw) = Some t"
    "user_by_id a (pt_user_id t) = Some u" "u_is_active u"
    by (auto simp: reset_password_def split: option.splits if_splits)
  let ?u = "u\<lparr>u_password_hash := hash_password env pw, u_email_verified_at :=
     (case u_email_verified_at u of None \<Rightarrow> Some now | Some v \<Rightarrow> Some v)\<rparr>"
  have "a' = revoke_all_for_user now (u_id u) (mark_reset_used t now (update_user ?u a))"
    using assms t by (simp add: reset_password_def Let_def split: if_splits)
  from that [OF t(1,2) this] show ?thesis
    using t user_by_idD [OF t(2)] by simp
qed




section \<open>Refresh tokens\<close>

text \<open>
  C8. A refresh token that has been exchanged is refused until it expires, through any sign-
  ins, sign-outs, resets and pruning in between.
\<close>

lemma refresh_token_spent_once:
  assumes "refresh env t0 jtis raw a = (a1, Inr pair)" "sessions_between env t0 t1 a1 a2"
    and "decode_token env t0 raw = Some c" "tc_jti c = Some j" "j \<noteq> []" "t1 \<le> expiry_of c"
  shows "\<exists>e. refresh env t1 jtis' raw a2 = (a2, Inl e) \<or>
    (\<exists>uid. refresh env t1 jtis' raw a2 = (revoke_all_for_user t1 uid a2, Inl e))"
proof -
  obtain uid where "revoke j uid (expiry_of c) ''rotated'' a = Inr a1" "\<not> is_revoked a c"
    using assms(1,3,4) by (cases rule: refresh_cases) (auto simp: new_value_def)
  then have "\<lparr>rt_jti = j, rt_user_id = uid, rt_expires_at = expiry_of c, rt_reason = ''rotated''\<rparr>
      \<in> set (revoked_tokens a1)"
    using assms(4,5) by (auto simp: revoke_def is_revoked_def create_revoked_token_def split: if_splits)
  from revoked_row_kept_between [OF assms(2) this] assms(6)
  have "token_revoked a2 j" by (force simp: token_revoked_def list_ex_iff)
  then have rev: "is_revoked a2 c" using assms(4,5) by (simp add: is_revoked_def)
  have same: "decode_token env t1 raw \<in> {None, Some c}"
    using assms(3) by (auto simp: decode_token_def split: option.splits if_splits)
  obtain a3 r where run: "refresh env t1 jtis' raw a2 = (a3, r)" by fastforce
  then show ?thesis
    by (cases rule: refresh_cases) (use run rev same in auto)
qed




section \<open>A reset link and a temporary password\<close>

lemma reset_keeps_temporary_password:
  assumes "distinct (map u_id (users a))" "distinct (map u_username (users a))"
    and "\<And>p. verify_password env p (hash_password env p)"
    and "reset_by_hash a (digest env link) = Some t" "user_by_id a (pt_user_id t) = Some u"
    and "reset_password env now link pw a = Inr a'"
    and "u_must_change_password u" "u_temporary_password_expires_at u = Some e" "e < later"
    and "u_registration_status u = REG_APPROVED"
  shows "login env later jtis (u_username u) pw a' = Inl Authentication \<and>
    (\<exists>u'. user_by_username a' (u_username u) = Some u' \<and> verify_password env pw (u_password_hash u'))"
proof -
  obtain u' where u': "a' = revoke_all_for_user now (u_id u) (mark_reset_used t now (update_user u' a))"
    "u_id u' = u_id u" "u_username u' = u_username u" "u_password_hash u' = hash_password env pw"
    "u_must_change_password u' = u_must_change_password u"
    "u_temporary_password_expires_at u' = u_temporary_password_expires_at u"
    "u_registration_status u' = u_registration_status u" "u_is_active u'"
    using assms(6) by (rule reset_InrE) (use assms(4,5) in auto)
  let ?v = "u'\<lparr>u_tokens_valid_from := now\<rparr>"
  have u: "u \<in> set (users a)" using user_by_idD [OF assms(5)] by simp
  have a': "users a' = upd_by u_id (u_id u) ?v (upd_by u_id (u_id u) u' (users a))"
  proof -
    have "user_by_id (mark_reset_used t now (update_user u' a)) (u_id u) = Some u'"
      using u'(2) user_by_idD [OF assms(5)] assms(5) by (simp add: user_by_id_mark user_by_id_update)
    then have "a' = update_user ?v (mark_reset_used t now (update_user u' a))"
      using u'(1) by (simp add: revoke_all_for_user_def)
    then show ?thesis using u'(2) by (simp add: update_user_def mark_reset_used_def)
  qed
  have keep: "u_username x = u_username u" if "x \<in> set (users a)" "u_id x = u_id u" for x
    using that u assms(1) by (auto simp: distinct_map inj_on_def)
  have names: "map u_username (users a') = map u_username (users a)"
    unfolding a' using keep u'(2,3)
    by (intro trans [OF upd_by_keys_other upd_by_keys_other]) (auto simp: in_set_upd_by)
  have "?v \<in> set (users a')" unfolding a' using u u'(2) by (force simp: in_set_upd_by)
  with names assms(2) have f: "user_by_username a' (u_username u) = Some ?v"
    unfolding user_by_username_def by (intro find_distinct_unique) (simp_all add: u'(3))
  then show ?thesis
    using u'(4-8) assms(3,7-10)
    by (simp add: login_def check_can_authenticate_def check_temporary_password_def ensure_def)
qed

section \<open>The search for a free name ends\<close>

lemma unique_from_finds:
  assumes "finite {n. suffix \<le> n \<and> user_by_username a (base @ nat_str n) \<noteq> None}"
  shows "\<exists>n \<ge> suffix. user_by_username a (base @ nat_str n) = None \<and>
    (\<forall>m. suffix \<le> m \<and> m < n \<longrightarrow> user_by_username a (base @ nat_str m) \<noteq> None) \<and>
    unique_from a base (base @ nat_str suffix) (suffix + 1) = Some (base @ nat_str n)"
  using assms
proof (induction "card {n. suffix \<le> n \<and> user_by_username a (base @ nat_str n) \<noteq> None}" arbitrary: suffix
    rule: less_induct)
  case less
  show ?case
  proof (cases "user_by_username a (base @ nat_str suffix) = None")
    case True
    then show ?thesis by (auto simp: unique_from.simps intro!: exI [of _ suffix])
  next
    case False
    let ?S = "\<lambda>k. {n. k \<le> n \<and> user_by_username a (base @ nat_str n) \<noteq> None}"
    have "suffix \<in> ?S suffix" "suffix \<notin> ?S (suffix + 1)" "?S (suffix + 1) \<subseteq> ?S suffix"
      using False by auto
    then have sub: "?S (suffix + 1) \<subset> ?S suffix" by blast
    then have "card (?S (suffix + 1)) < card (?S suffix)"
      using less.prems by (rule psubset_card_mono [rotated])
    moreover have "finite (?S (suffix + 1))" using sub less.prems finite_subset by blast
    ultimately obtain n where n: "suffix + 1 \<le> n" "user_by_username a (base @ nat_str n) = None"
      "\<forall>m. suffix + 1 \<le> m \<and> m < n \<longrightarrow> user_by_username a (base @ nat_str m) \<noteq> None"
      "unique_from a base (base @ nat_str (suffix + 1)) (suffix + 1 + 1) = Some (base @ nat_str n)"
      using less.hyps [of "suffix + 1"] by blast
    moreover have "unique_from a base (base @ nat_str suffix) (suffix + 1) = Some (base @ nat_str n)"
      using n(4) False by (auto simp: unique_from.simps [of a base "base @ nat_str suffix"])
    ultimately show ?thesis
      using False by (intro exI [of _ n]) (metis add_leD1 le_antisym not_less_eq_eq Suc_eq_plus1)
  qed
qed

lemma finite_taken_names: "finite {n. k \<le> n \<and> user_by_username a (base @ nat_str n) \<noteq> None}"
proof -
  have "inj_on (\<lambda>n. base @ nat_str n) UNIV" by (auto simp: inj_on_def nat_str_inj)
  moreover have "(\<lambda>n. base @ nat_str n) ` {n. k \<le> n \<and> user_by_username a (base @ nat_str n) \<noteq> None}
      \<subseteq> u_username ` set (users a)"
  proof clarify
    fix n u
    assume "user_by_username a (base @ nat_str n) = Some u"
    then have "u \<in> set (users a)" "u_username u = base @ nat_str n"
      by (auto simp: user_by_username_def dest: find_SomeD)
    then show "base @ nat_str n \<in> u_username ` set (users a)" by force
  qed
  ultimately show ?thesis
    by (meson finite_imageD finite_set finite_imageI finite_subset inj_on_subset subset_UNIV)
qed

text \<open>
  C36. The search for a free user name of a first Google sign-in ends, with the part of the
  email before the at sign or with the first number after it that is free.
\<close>

lemma username_search_terminates:
  "\<exists>name. unique_username_from_email a email = Some name \<and> user_by_username a name = None \<and>
    (name = base_username email \<or>
     (\<exists>n \<ge> 1. name = base_username email @ nat_str n \<and>
        user_by_username a (base_username email) \<noteq> None \<and>
        (\<forall>m. 1 \<le> m \<and> m < n \<longrightarrow> user_by_username a (base_username email @ nat_str m) \<noteq> None)))"
proof (cases "user_by_username a (base_username email) = None")
  case True
  then show ?thesis by (simp add: unique_username_from_email_def unique_from.simps)
next
  case False
  have "unique_username_from_email a email =
      unique_from a (base_username email) (base_username email @ nat_str 1) (1 + 1)"
    using False
    by (auto simp: unique_username_from_email_def unique_from.simps [of a _ "base_username email"])
  with unique_from_finds [OF finite_taken_names, of 1 a "base_username email"] False show ?thesis
    by auto
qed

section \<open>A small deployment\<close>

text \<open>
  Passwords are stored as they are; the refresh token \<open>r1\<close> of \<open>adm\<close> was issued
  at second 10, the reset link \<open>link\<close> is its own digest.
\<close>

definition demo_env :: auth_env where
  "demo_env =
     \<lparr>signed = (\<lambda>raw. if raw = ''r1'' then
         Some \<lparr>tc_sub = ''adm'', tc_type = ''refresh'', tc_exp = 1000, tc_iat = Some 10, tc_jti = Some ''j1''\<rparr>
       else None),
      parse_uuid = Some, verify_password = (\<lambda>p h. p = h), hash_password = (\<lambda>p. p), digest = (\<lambda>s. s),
      ACCESS_TOKEN_EXPIRE_MINUTES = 30, REFRESH_TOKEN_EXPIRE_DAYS = 7,
      PASSWORD_RESET_TOKEN_EXPIRE_MINUTES = 30, REGISTRATION_AUTO_APPROVE = False,
      DEFAULT_SIGNUP_ROLE = ''Analyst''\<rparr>"

definition demo_rotated :: accounts where
  "demo_rotated = fst (refresh demo_env (seconds 20) (''a2'', ''r2'') ''r1'' demo_accounts)"

lemmas session_defs =
  refresh_def decode_token_def whole_seconds_def seconds_def user_by_id_def check_can_authenticate_def
  check_temporary_password_def is_revoked_def token_revoked_def issued_before_cutoff_def revoke_def
  new_value_def create_revoked_token_def expiry_of_def ensure_def

lemma demo_rotated_run:
  "refresh demo_env (seconds 20) (''a2'', ''r2'') ''r1'' demo_accounts =
     (demo_rotated, Inr (token_pair demo_env (seconds 20) (''a2'', ''r2'') ''adm''))"
  by (simp add: demo_rotated_def session_defs demo_env_def demo_accounts_defs)

lemma refresh_token_spent_once_witness:
  "\<exists>e. refresh demo_env (seconds 30) (''a3'', ''r3'') ''r1'' (prune_expired (seconds 25) demo_rotated) =
      (prune_expired (seconds 25) demo_rotated, Inl e) \<or>
    (\<exists>uid. refresh demo_env (seconds 30) (''a3'', ''r3'') ''r1'' (prune_expired (seconds 25) demo_rotated) =
      (revoke_all_for_user (seconds 30) uid (prune_expired (seconds 25) demo_rotated), Inl e))"
proof (rule refresh_token_spent_once [OF demo_rotated_run])
  have "session_step demo_env (seconds 25) demo_rotated (prune_expired (seconds 25) demo_rotated)"
    by (rule session_step.prune)
  then show "sessions_between demo_env (seconds 20) (seconds 30) demo_rotated
      (prune_expired (seconds 25) demo_rotated)"
    unfolding sessions_between_def by (intro r_into_rtranclp exI [of _ "seconds 25"]) simp
  show "decode_token demo_env (seconds 20) ''r1'' = Some \<lparr>tc_sub = ''adm'', tc_type = ''refresh'',
      tc_exp = 1000, tc_iat = Some 10, tc_jti = Some ''j1''\<rparr>"
    by (simp add: decode_token_def demo_env_def whole_seconds_def seconds_def)
qed (auto simp: expiry_of_def)


text \<open>A person with an expired temporary password who asked for a reset link.\<close>

definition demo_temporary :: accounts where
  "demo_temporary = demo_accounts\<lparr>
     users := [(demo_user ''ann'' REG_APPROVED)\<lparr>u_must_change_password := True,
        u_temporary_password_expires_at := Some (seconds 50)\<rparr>],
     reset_tokens := [\<lparr>pt_user_id = ''ann'', pt_token_hash = ''link'', pt_expires_at = seconds 100,
        pt_used_at = None\<rparr>]\<rparr>"

lemma reset_keeps_temporary_password_witness:
  "\<exists>a'. reset_password demo_env (seconds 40) ''link'' ''fresh'' demo_temporary = Inr a' \<and>
     login demo_env (seconds 60) (''a'', ''r'') ''ann'' ''fresh'' a' = Inl Authentication"
proof -
  let ?u = "(demo_user ''ann'' REG_APPROVED)\<lparr>u_must_change_password := True,
        u_temporary_password_expires_at := Some (seconds 50)\<rparr>"
  let ?t = "\<lparr>pt_user_id = ''ann'', pt_token_hash = ''link'', pt_expires_at = seconds 100, pt_used_at = None\<rparr>"
  have t: "reset_by_hash demo_temporary (digest demo_env ''link'') = Some ?t"
    by (simp add: reset_by_hash_def demo_temporary_def demo_env_def)
  have u: "user_by_id demo_temporary (pt_user_id ?t) = Some ?u"
    by (simp add: user_by_id_def demo_temporary_def demo_user_def)
  obtain a' where a': "reset_password demo_env (seconds 40) ''link'' ''fresh'' demo_temporary = Inr a'"
    using t u by (simp add: reset_password_def Let_def seconds_def demo_user_def)
  have "login demo_env (seconds 60) (''a'', ''r'') (u_username ?u) ''fresh'' a' = Inl Authentication \<and>
    (\<exists>u'. user_by_username a' (u_username ?u) = Some u' \<and> verify_password demo_env ''fresh'' (u_password_hash u'))"
    by (rule reset_keeps_temporary_password [OF _ _ _ t u a', of "seconds 50" "seconds 60"])
       (simp_all add: demo_temporary_def demo_env_def demo_user_def)
  with a' show ?thesis by (auto simp: demo_user_def)
qed

text \<open>The address of a new person whose part before the at sign is taken.\<close>

lemma username_search_terminates_witness:
  "unique_username_from_email demo_accounts ''adm@x'' = Some ''adm1''"
proof -
  have base: "base_username ''adm@x'' = ''adm''" and one: "''adm'' @ nat_str 1 = ''adm1''"
    by (simp_all add: base_username_def nat_str_def digits_of.simps digit_char_def char_of_def bit_0)
  have taken: "user_by_username demo_accounts ''adm'' \<noteq> None"
    and free: "user_by_username demo_accounts ''adm1'' = None"
    by (simp_all add: user_by_username_def demo_accounts_defs)
  from username_search_terminates [of demo_accounts "''adm@x''"] base taken
  obtain n where n: "1 \<le> n" "unique_username_from_email demo_accounts ''adm@x'' = Some (''adm'' @ nat_str n)"
    "\<forall>m. 1 \<le> m \<and> m < n \<longrightarrow> user_by_username demo_accounts (''adm'' @ nat_str m) \<noteq> None"
    by auto
  from n(3) [rule_format, of 1] free one have "\<not> 1 < n" by auto
  with n(1) have "n = 1" by simp
  with n(2) one show ?thesis by simp
qed

end
