(* ===== verification/Governance.thy ===== *)
theory Governance
  imports AccessControl ChangeService
begin

text \<open>
  Who may change which TM1 environment: \<open>tm1/governance.py\<close>, the access to
  connections of \<open>tm1/service.py\<close>, and the requests on a change, the handlers of
  \<open>api/v1/tm1.py\<close> and the assistant's \<open>apply_change\<close> tool
  (\<open>ai/tools/tm1/changes.py\<close>). Audit rows are left out.
\<close>

section \<open>Connections\<close>

record connection =
  cn_id :: uuid
  cn_organization_id :: uuid
  cn_environment :: "string option"
  cn_visibility :: string
  cn_created_by :: "uuid option"

datatype purpose = Use | Manage

definition may_access :: "accounts \<Rightarrow> 'c connection_scheme \<Rightarrow> purpose \<Rightarrow> uuid option \<Rightarrow> bool result" where
  "may_access a conn purpose who =
     (case who of
        None \<Rightarrow> Inr True
      | Some uid \<Rightarrow>
          if cn_visibility conn = ''organization'' \<or> cn_created_by conn = Some uid then Inr True
          else if purpose = Manage then user_has_permission a uid ''tm1.connections.manage_all''
          else Inr False)"

definition get_connection ::
  "accounts \<Rightarrow> 'c connection_scheme list \<Rightarrow> uuid \<Rightarrow> uuid \<Rightarrow> purpose \<Rightarrow> uuid option \<Rightarrow>
   'c connection_scheme result" where
  "get_connection a conns i org purpose who =
     (case find (\<lambda>c. cn_id c = i) conns of
        None \<Rightarrow> Inl NotFound
      | Some conn \<Rightarrow>
          if cn_organization_id conn \<noteq> org then Inl NotFound
          else bind_result (may_access a conn purpose who) (\<lambda>b. if b then Inr conn else Inl NotFound))"

section \<open>Environments\<close>

definition ENVIRONMENTS :: "string list" where
  "ENVIRONMENTS = [''dev'', ''qa'', ''prod'']"

definition DEPLOY_PERMISSION :: "(string \<times> string) list" where
  "DEPLOY_PERMISSION =
     [(''dev'', ''tm1.deploy''), (''qa'', ''tm1.deploy.qa''), (''prod'', ''tm1.deploy.prod'')]"

definition deploy_permission :: "string \<Rightarrow> string result" where
  "deploy_permission env = (case map_of DEPLOY_PERMISSION env of None \<Rightarrow> Inl KeyError | Some p \<Rightarrow> Inr p)"

datatype Tm1Mode = READONLY | GOVERNED | READWRITE

definition check_writes_enabled :: "Tm1Mode \<Rightarrow> unit result" where
  "check_writes_enabled mode = ensure (mode \<noteq> READONLY) PermissionDenied"

definition or_dev :: "string option \<Rightarrow> string" where
  "or_dev e = (case e of None \<Rightarrow> ''dev'' | Some s \<Rightarrow> if s = [] then ''dev'' else s)"

definition environment_of :: "'c connection_scheme \<Rightarrow> string" where
  "environment_of conn = or_dev (cn_environment conn)"

definition assistant_may_apply :: "Tm1Mode \<Rightarrow> connection \<Rightarrow> bool" where
  "assistant_may_apply mode conn \<longleftrightarrow> mode = READWRITE \<and> environment_of conn = ''dev''"

definition STRICTNESS :: "string \<Rightarrow> nat" where
  "STRICTNESS env =
     (case map_of [(''dev'', 0), (''qa'', 1), (''prod'', 2)] env of None \<Rightarrow> 0 | Some n \<Rightarrow> n)"

text \<open>\<open>max\<close> keeps the first of two equally strict ones.\<close>

definition effective_environment :: "change \<Rightarrow> connection \<Rightarrow> string" where
  "effective_environment ch conn =
     (let current = environment_of conn;
          drafted = (case ch_environment ch of None \<Rightarrow> current | Some e \<Rightarrow> if e = [] then current else e) in
      if STRICTNESS drafted > STRICTNESS current then drafted else current)"

datatype ChangeAction = Execute | Rollback

definition check_can_apply :: "accounts \<Rightarrow> uuid \<Rightarrow> change \<Rightarrow> connection \<Rightarrow> ChangeAction \<Rightarrow> unit result" where
  "check_can_apply a uid ch conn action =
     (let environment = effective_environment ch conn in
      bind_result (deploy_permission environment) (\<lambda>permission.
      bind_result (user_has_permission a uid permission) (\<lambda>b.
      bind_result (ensure b PermissionDenied) (\<lambda>_.
      ensure (\<not> (environment = ''prod'' \<and> action = Execute \<and> ch_created_by ch = uid)) PermissionDenied))))"

definition check_ai_may_draft :: "connection \<Rightarrow> unit result" where
  "check_ai_may_draft conn = ensure (environment_of conn \<noteq> ''prod'') PermissionDenied"

fun check_environments :: "accounts \<Rightarrow> uuid \<Rightarrow> string list \<Rightarrow> unit result" where
  "check_environments a uid [] = Inr ()"
| "check_environments a uid (e # es) =
     bind_result (deploy_permission e) (\<lambda>permission.
     bind_result (user_has_permission a uid permission) (\<lambda>b.
     bind_result (ensure b PermissionDenied) (\<lambda>_. check_environments a uid es)))"

text \<open>The loop runs over a set of at most two environments, here in the order left, entered.\<close>

definition check_environment_change :: "accounts \<Rightarrow> uuid \<Rightarrow> string \<Rightarrow> string \<Rightarrow> unit result" where
  "check_environment_change a uid current requested =
     (if current = requested then Inr ()
      else check_environments a uid (filter (\<lambda>e. e \<noteq> ''dev'') [current, requested]))"

section \<open>Requests on a change\<close>

text \<open>\<open>_get_change_checked\<close>; the row is the change the request names.\<close>

definition change_checked :: "uuid \<Rightarrow> uuid \<Rightarrow> change \<Rightarrow> unit result" where
  "change_checked conn_id org ch =
     ensure (ch_connection_id ch = conn_id \<and> ch_organization_id ch = org) NotFound"

definition answer :: "unit result \<Rightarrow> 's \<times> change \<Rightarrow> ('s \<times> change) \<times> unit result \<Rightarrow> ('s \<times> change) \<times> unit result" where
  "answer guards st served = (case guards of Inl e \<Rightarrow> (st, Inl e) | Inr _ \<Rightarrow> served)"

definition execute_change_guards ::
  "Tm1Mode \<Rightarrow> accounts \<Rightarrow> connection list \<Rightarrow> user \<Rightarrow> uuid \<Rightarrow> change \<Rightarrow> unit result" where
  "execute_change_guards mode a conns u conn_id ch =
     bind_result (require_permission a u ''tm1.deploy'') (\<lambda>_.
     bind_result (check_writes_enabled mode) (\<lambda>_.
     bind_result (get_connection a conns conn_id (u_organization_id u) Use (Some (u_id u))) (\<lambda>conn.
     bind_result (change_checked conn_id (u_organization_id u) ch) (\<lambda>_.
     bind_result
       (if ch_type ch = RUN_PROCESS then
          bind_result (user_has_permission a (u_id u) ''tm1.execute'') (\<lambda>b. ensure b PermissionDenied)
        else Inr ()) (\<lambda>_.
     check_can_apply a (u_id u) ch conn Execute)))))"

definition execute_change_request ::
  "Tm1Mode \<Rightarrow> accounts \<Rightarrow> connection list \<Rightarrow> user \<Rightarrow> uuid \<Rightarrow> ('s, 'r process) client \<Rightarrow> 'r process tools \<Rightarrow>
   bool \<Rightarrow> time \<Rightarrow> 's \<times> change \<Rightarrow> ('s \<times> change) \<times> unit result" where
  "execute_change_request mode a conns u conn_id c tk acknowledge now st =
     answer (execute_change_guards mode a conns u conn_id (snd st)) st
       (request (execute_change c tk (u_id u) acknowledge now) st)"

definition reject_change_request ::
  "accounts \<Rightarrow> connection list \<Rightarrow> user \<Rightarrow> uuid \<Rightarrow> 's \<times> change \<Rightarrow> ('s \<times> change) \<times> unit result" where
  "reject_change_request a conns u conn_id st =
     answer
       (bind_result (require_permission a u ''tm1.write'') (\<lambda>_.
        bind_result (get_connection a conns conn_id (u_organization_id u) Use (Some (u_id u))) (\<lambda>_.
        bind_result (change_checked conn_id (u_organization_id u) (snd st)) (\<lambda>_.
        if ch_created_by (snd st) = u_id u then Inr ()
        else bind_result (user_has_permission a (u_id u) ''tm1.deploy'') (\<lambda>b. ensure b PermissionDenied)))))
       st (request reject_change st)"

definition rollback_change_request ::
  "Tm1Mode \<Rightarrow> accounts \<Rightarrow> connection list \<Rightarrow> user \<Rightarrow> uuid \<Rightarrow> ('s, 'p) client \<Rightarrow> ('p, 'z) tools_scheme \<Rightarrow>
   time \<Rightarrow> 's \<times> change \<Rightarrow> ('s \<times> change) \<times> unit result" where
  "rollback_change_request mode a conns u conn_id c tk now st =
     answer
       (bind_result (require_permission a u ''tm1.deploy'') (\<lambda>_.
        bind_result (check_writes_enabled mode) (\<lambda>_.
        bind_result (get_connection a conns conn_id (u_organization_id u) Use (Some (u_id u))) (\<lambda>conn.
        bind_result (change_checked conn_id (u_organization_id u) (snd st)) (\<lambda>_.
        check_can_apply a (u_id u) (snd st) conn Rollback)))))
       st (request (rollback_change c tk now) st)"

text \<open>
  The assistant's tool. Its refusals are answers, not exceptions: \<open>applied\<close> and
  whether the answer says that nothing was changed on the server.
  \<open>drafted_here\<close> is the lookup of the conversation's own drafts.
\<close>

record tool_answer =
  ta_applied :: bool
  ta_nothing_changed :: bool

definition refusal :: tool_answer where
  "refusal = \<lparr>ta_applied = False, ta_nothing_changed = True\<rparr>"

definition ai_generated :: "change \<Rightarrow> bool" where
  "ai_generated ch \<longleftrightarrow> content_get (ch_new_content ch) ''ai_generated'' = Some (JBool True)"

definition apply_change_tool ::
  "Tm1Mode \<Rightarrow> accounts \<Rightarrow> connection list \<Rightarrow> uuid \<Rightarrow> uuid \<Rightarrow> uuid \<Rightarrow> bool \<Rightarrow> ('s, 'r process) client \<Rightarrow>
   'r process tools \<Rightarrow> bool \<Rightarrow> time \<Rightarrow> 's \<times> change \<Rightarrow> ('s \<times> change) \<times> tool_answer result" where
  "apply_change_tool mode a conns org uid conn_id drafted_here c tk acknowledge now st =
     (let ch = snd st in
      if mode \<noteq> READWRITE then (st, Inr refusal)
      else case bind_result (user_has_permission a uid ''tm1.deploy'') (\<lambda>b.
                bind_result (ensure b PermissionDenied) (\<lambda>_.
                get_connection a conns conn_id org Use (Some uid))) of
        Inl e \<Rightarrow> (st, Inl e)
      | Inr conn \<Rightarrow>
          if \<not> assistant_may_apply mode conn then (st, Inr refusal)
          else if ch_connection_id ch \<noteq> cn_id conn \<or> ch_organization_id ch \<noteq> org \<or> ch_created_by ch \<noteq> uid
            then (st, Inr refusal)
          else if \<not> (ai_generated ch \<and> drafted_here) then (st, Inr refusal)
          else if ch_status ch \<noteq> DRAFT then (st, Inr refusal)
          else if ch_validation_errors ch \<noteq> [] then (st, Inr refusal)
          else case bind_result
              (if ch_type ch = RUN_PROCESS then
                 bind_result (user_has_permission a uid ''tm1.execute'') (\<lambda>b. ensure b PermissionDenied)
               else Inr ()) (\<lambda>_. check_can_apply a uid ch conn Execute) of
            Inl e \<Rightarrow> (st, Inl e)
          | Inr _ \<Rightarrow>
              (case request (execute_change c tk uid acknowledge now) st of
                 (st', Inl e) \<Rightarrow> (st', Inl e)
               | (st', Inr _) \<Rightarrow>
                   (st', Inr \<lparr>ta_applied = (ch_status (snd st') = EXECUTED),
                              ta_nothing_changed = (ch_status (snd st') \<noteq> EXECUTED)\<rparr>)))"

end
