(* ===== verification/GovernanceProperties.thy ===== *)
theory GovernanceProperties
  imports Governance ChangeProperties AccessProperties
begin

text \<open>
  The rules of the environments over the change service: a production change is
  applied by a second person who holds the right for it, and what the
  assistant's tool answers when the server does not confirm a write.
\<close>

section \<open>Production changes need two people\<close>

lemma strictness_le: "STRICTNESS e \<le> 2" "STRICTNESS e = 2 \<longleftrightarrow> e = ''prod''"
  by (auto simp: STRICTNESS_def)

lemma effective_prod:
  assumes "or_dev (ch_environment ch) = ''prod'' \<or> environment_of conn = ''prod''"
  shows "effective_environment ch conn = ''prod''"
proof (cases "environment_of conn = ''prod''")
  case True
  then show ?thesis
    using strictness_le(1) [of "or_dev (ch_environment ch)"] strictness_le(2)
    by (auto simp: effective_environment_def Let_def STRICTNESS_def split: option.splits)
next
  case False
  then have "ch_environment ch = Some ''prod''" "STRICTNESS (environment_of conn) < 2"
    using assms strictness_le [of "environment_of conn"]
    by (auto simp: or_dev_def order.strict_iff_order split: option.splits if_splits)
  then show ?thesis using False by (auto simp: effective_environment_def Let_def STRICTNESS_def)
qed

lemma can_apply_prod:
  assumes "check_can_apply a uid ch conn action = Inr ()" "effective_environment ch conn = ''prod''"
  shows "user_has_permission a uid ''tm1.deploy.prod'' = Inr True" "action = Execute \<longrightarrow> ch_created_by ch \<noteq> uid"
  using assms
  by (auto simp: check_can_apply_def Let_def bind_result_Inr_iff deploy_permission_def DEPLOY_PERMISSION_def)

lemma answer_Inr: "answer g st served = (st', Inr ()) \<longleftrightarrow> g = Inr () \<and> served = (st', Inr ())"
  by (auto simp: answer_def split: sum.splits)

text \<open>What the guards of the endpoint have checked when it gets past them.\<close>

lemma execute_guards_prod:
  assumes "find (\<lambda>k. cn_id k = conn_id) conns = Some conn"
    and "or_dev (ch_environment ch) = ''prod'' \<or> environment_of conn = ''prod''"
    and "execute_change_guards mode a conns u conn_id ch = Inr ()"
  shows "u_id u \<noteq> ch_created_by ch" "user_has_permission a (u_id u) ''tm1.deploy.prod'' = Inr True"
    "ch_type ch = RUN_PROCESS \<longrightarrow> user_has_permission a (u_id u) ''tm1.execute'' = Inr True"
    "mode \<noteq> READONLY"
proof -
  from assms(3) obtain conn' where
      conn': "get_connection a conns conn_id (u_organization_id u) Use (Some (u_id u)) = Inr conn'"
    and may: "check_can_apply a (u_id u) ch conn' Execute = Inr ()"
    and rest: "mode \<noteq> READONLY"
      "ch_type ch = RUN_PROCESS \<longrightarrow> user_has_permission a (u_id u) ''tm1.execute'' = Inr True"
    by (auto simp: execute_change_guards_def bind_result_Inr_iff check_writes_enabled_def split: if_splits)
  have "conn' = conn"
    using conn' assms(1) by (auto simp: get_connection_def bind_result_Inr_iff split: if_splits)
  then have "check_can_apply a (u_id u) ch conn Execute = Inr ()" using may by simp
  note p = can_apply_prod [OF this effective_prod [OF assms(2)]]
  show "u_id u \<noteq> ch_created_by ch" "user_has_permission a (u_id u) ''tm1.deploy.prod'' = Inr True"
    "ch_type ch = RUN_PROCESS \<longrightarrow> user_has_permission a (u_id u) ''tm1.execute'' = Inr True"
    "mode \<noteq> READONLY"
    using p rest by auto
qed

text \<open>The assistant's tool only takes the caller's own drafts, so it never gets to a production one.\<close>

lemma tool_refuses_prod:
  assumes "find (\<lambda>k. cn_id k = conn_id) conns = Some conn"
    and "or_dev (ch_environment ch) = ''prod'' \<or> environment_of conn = ''prod''"
    and "apply_change_tool mode a conns org uid conn_id drafted_here c tk ack now (s, ch) = (st', answered)"
  shows "st' = (s, ch) \<and> (\<forall>t. answered = Inr t \<longrightarrow> \<not> ta_applied t)"
proof -
  have "get_connection a conns conn_id org Use (Some uid) = Inr conn' \<Longrightarrow> conn' = conn" for conn'
    using assms(1) by (auto simp: get_connection_def bind_result_Inr_iff split: if_splits)
  moreover have "check_can_apply a uid ch conn Execute \<noteq> Inr ()" if "ch_created_by ch = uid"
    using can_apply_prod [OF _ effective_prod [OF assms(2)]] that by blast
  ultimately show ?thesis
    using assms(3)
    by (auto simp: apply_change_tool_def refusal_def Let_def bind_result_Inr_iff
        split: if_splits sum.splits)
qed

text \<open>
  C3. Neither of the two doors lets the author of a change apply it to production, where a
  change counts as production when it was drafted on a production connection or its
  connection is production now, whatever it was relabelled to. The execute endpoint changes
  the server or the row, or answers success, only for somebody other than the author who
  holds the production right (and the run right for a run), never in read-only mode, and
  records that person; the assistant's tool, whoever calls it with whatever arguments,
  leaves the server and the row as they are and never answers that it applied the change.
\<close>

lemma two_person_rule:
  assumes conn: "find (\<lambda>k. cn_id k = conn_id) conns = Some conn"
    and prod: "or_dev (ch_environment ch) = ''prod'' \<or> environment_of conn = ''prod''"
    and run: "execute_change_request mode a conns u conn_id c tk ack now (s, ch) = ((s', ch'), r)"
    and tool: "apply_change_tool mode a conns org uid conn_id drafted_here c tk ack now (s, ch) = (st', answered)"
  shows "((s', ch') \<noteq> (s, ch) \<or> r = Inr () \<longrightarrow>
      u_id u \<noteq> ch_created_by ch \<and>
      user_has_permission a (u_id u) ''tm1.deploy.prod'' = Inr True \<and>
      (ch_type ch = RUN_PROCESS \<longrightarrow> user_has_permission a (u_id u) ''tm1.execute'' = Inr True) \<and>
      mode \<noteq> READONLY) \<and>
    (r = Inr () \<longrightarrow> ch_executed_by ch' = Some (u_id u) \<and> same_proposal ch ch') \<and>
    st' = (s, ch) \<and> (\<forall>t. answered = Inr t \<longrightarrow> \<not> ta_applied t)"
proof -
  have "(s', ch') \<noteq> (s, ch) \<or> r = Inr () \<longrightarrow> execute_change_guards mode a conns u conn_id ch = Inr ()"
    using run by (auto simp: execute_change_request_def answer_def split: sum.splits)
  moreover have "r = Inr () \<longrightarrow> ch_executed_by ch' = Some (u_id u) \<and> same_proposal ch ch'"
    using run execute_Inr(4,5) [of c tk "u_id u" ack now s ch "(s', ch')"]
    by (auto simp: execute_change_request_def answer_Inr request_Inr)
  ultimately show ?thesis
    using execute_guards_prod [OF conn prod, of mode a u] tool_refuses_prod [OF conn prod tool] by auto
qed

section \<open>What the assistant says it did\<close>

text \<open>
  A write the server does not confirm leaves the change UNKNOWN, and the tool's
  answer still says that nothing was changed.
\<close>

lemma lost_answer_reported_as_unchanged:
  assumes "user_has_permission a uid ''tm1.deploy'' = Inr True"
    and "get_connection a conns conn_id org Use (Some uid) = Inr conn" "environment_of conn = ''dev''"
    and "check_can_apply a uid ch conn Execute = Inr ()"
    and "ch_connection_id ch = cn_id conn" "ch_organization_id ch = org" "ch_created_by ch = uid"
    and "ai_generated ch" "ch_type ch = UPDATE_RULES" "execute_guards ack ch = Inr ()"
    and "ch_base_fingerprint ch = None" "new_rules ch = Inr x"
    and "connect c s = (s, Inr ())" "get_cube_rules c (ch_target_name ch) s = (s, Inr old)"
    and "update_cube_rules c (ch_target_name ch) x s = (s1, Inl TM1OutcomeUnknown)"
  shows "\<exists>ch'. apply_change_tool READWRITE a conns org uid conn_id True c tk ack now (s, ch) =
      ((s1, ch'), Inr \<lparr>ta_applied = False, ta_nothing_changed = True\<rparr>) \<and> ch_status ch' = UNKNOWN"
proof -
  have "\<exists>ch'. request (execute_change c tk uid ack now) (s, ch) = ((s1, ch'), Inr ()) \<and> ch_status ch' = UNKNOWN"
    using assms(9-15) by (simp add: run_simps execute_guards_def)
  moreover have "ch_status ch = DRAFT" "ch_validation_errors ch = []"
    using assms(10) by (auto simp: execute_guards_def bind_result_Inr_iff)
  ultimately show ?thesis
    using assms(1-9) by (auto simp: apply_change_tool_def Let_def assistant_may_apply_def)
qed

section \<open>A production change at work\<close>

text \<open>
  \<open>bob\<close> holds every deploy right through one role; \<open>ann\<close> drafted a change of
  rules on a connection everyone may use.
\<close>

definition staff :: "string \<Rightarrow> user" where
  "staff i = (demo_user i REG_APPROVED)"

definition deploy_accounts :: accounts where
  "deploy_accounts = demo_accounts\<lparr>
     users := [staff ''ann'', staff ''bob''],
     permissions := [\<lparr>pm_id = ''d1'', pm_code = ''tm1.deploy''\<rparr>, \<lparr>pm_id = ''d3'', pm_code = ''tm1.deploy.prod''\<rparr>],
     user_roles := [(''ann'', ''Admin''), (''bob'', ''Admin'')],
     role_permissions := [(''Admin'', ''d1''), (''Admin'', ''d3'')]\<rparr>"

definition demo_connection :: "string \<Rightarrow> connection" where
  "demo_connection env =
     \<lparr>cn_id = ''k1'', cn_organization_id = ''o1'', cn_environment = Some env, cn_visibility = ''organization'',
      cn_created_by = None\<rparr>"

definition prod_change :: change where
  "prod_change = (demo_change ''new'' None)\<lparr>ch_environment := Some ''prod''\<rparr>"

definition prod_applied :: "((string \<Rightarrow> string option) \<times> change) \<times> unit result" where
  "prod_applied = execute_change_request GOVERNED deploy_accounts [demo_connection ''dev''] (staff ''bob'') ''k1''
     demo_client demo_tools True 7 (demo_server, prod_change)"

lemmas governance_simps =
  execute_change_request_def execute_change_guards_def answer_def require_permission_def
  user_has_permission_def permission_rows_def check_writes_enabled_def get_connection_def may_access_def
  change_checked_def check_can_apply_def deploy_permission_def DEPLOY_PERMISSION_def
  effective_environment_def environment_of_def or_dev_def STRICTNESS_def ensure_def Let_def

lemmas governance_demo =
  deploy_accounts_def demo_connection_def prod_change_def staff_def demo_user_def demo_accounts_def

lemma prod_applied_run: "snd prod_applied = Inr ()"
  by (simp add: prod_applied_def governance_simps governance_demo run_simps demo_defs)

definition ai_prod_change :: change where
  "ai_prod_change = (demo_change ''new'' None)\<lparr>ch_environment := Some ''prod'',
     ch_new_content := Some (JObj [(''rules'', JStr ''new''), (''ai_generated'', JBool True)])\<rparr>"

text \<open>
  The connection of both changes was relabelled to \<open>dev\<close>. Bob applies Ann's
  change; Ann, who holds the same rights, gets nothing applied by either door.
\<close>

definition own_applied :: "((string \<Rightarrow> string option) \<times> change) \<times> unit result" where
  "own_applied = execute_change_request READWRITE deploy_accounts [demo_connection ''dev''] (staff ''ann'') ''k1''
     demo_client demo_tools True 7 (demo_server, ai_prod_change)"

lemma two_person_rule_witness:
  "snd prod_applied = Inr () \<and> ch_executed_by (snd (fst prod_applied)) = Some ''bob'' \<and>
   ch_created_by prod_change \<noteq> ''bob'' \<and>
   user_has_permission deploy_accounts ''bob'' ''tm1.deploy.prod'' = Inr True \<and>
   fst own_applied = (demo_server, ai_prod_change) \<and> snd own_applied \<noteq> Inr () \<and>
   fst (apply_change_tool READWRITE deploy_accounts [demo_connection ''dev''] ''o1'' ''ann'' ''k1'' True
      demo_client demo_tools True 7 (demo_server, ai_prod_change)) = (demo_server, ai_prod_change)"
proof -
  obtain tool_st tool_answered where tool:
    "apply_change_tool GOVERNED deploy_accounts [demo_connection ''dev''] ''o1'' ''ann'' ''k1'' True
      demo_client demo_tools True 7 (demo_server, prod_change) = (tool_st, tool_answered)"
    by fastforce
  obtain s' ch' r where own: "own_applied = ((s', ch'), r)" by (metis prod.collapse)
  obtain tool_st' tool_answered' where tool':
    "apply_change_tool READWRITE deploy_accounts [demo_connection ''dev''] ''o1'' ''ann'' ''k1'' True
      demo_client demo_tools True 7 (demo_server, ai_prod_change) = (tool_st', tool_answered')"
    by fastforce
  have bob: "execute_change_request GOVERNED deploy_accounts [demo_connection ''dev''] (staff ''bob'') ''k1''
      demo_client demo_tools True 7 (demo_server, prod_change) =
      ((fst (fst prod_applied), snd (fst prod_applied)), snd prod_applied)"
    by (simp add: prod_applied_def)
  have dev: "find (\<lambda>k. cn_id k = ''k1'') [demo_connection ''dev''] = Some (demo_connection ''dev'')"
    by (simp add: demo_connection_def)
  note one = two_person_rule [OF dev _ bob tool]
  note two = two_person_rule [OF dev _ own [unfolded own_applied_def] tool']
  have "or_dev (ch_environment prod_change) = ''prod''" "or_dev (ch_environment ai_prod_change) = ''prod''"
    by (simp_all add: prod_change_def ai_prod_change_def or_dev_def)
  note one = one [OF disjI1, OF this(1)] and two = two [OF disjI1, OF this(2)]
  have "ch_created_by ai_prod_change = ''ann''" "u_id (staff ''ann'') = ''ann''" "u_id (staff ''bob'') = ''bob''"
    by (simp_all add: ai_prod_change_def demo_defs staff_def demo_user_def)
  then show ?thesis
    using one two prod_applied_run by (auto simp: own tool')
qed

text \<open>A server that takes the new rules and never answers.\<close>

definition silent_client :: "(string \<Rightarrow> string option, unit process) client" where
  "silent_client = demo_client\<lparr>update_cube_rules := (\<lambda>t x s. (s(t := Some x), Inl TM1OutcomeUnknown))\<rparr>"

definition ai_change :: change where
  "ai_change = (demo_change ''new'' None)\<lparr>ch_new_content :=
     Some (JObj [(''rules'', JStr ''new''), (''ai_generated'', JBool True)])\<rparr>"

lemma lost_answer_reported_as_unchanged_witness:
  "\<exists>ch'. apply_change_tool READWRITE deploy_accounts [demo_connection ''dev''] ''o1'' ''ann'' ''k1'' True
      silent_client demo_tools True 7 (demo_server, ai_change) =
     ((demo_server(''Sales'' := Some ''new''), ch'), Inr \<lparr>ta_applied = False, ta_nothing_changed = True\<rparr>) \<and>
     ch_status ch' = UNKNOWN"
  by (rule lost_answer_reported_as_unchanged [where conn = "demo_connection ''dev''" and x = "''new''"])
     (simp_all add: governance_simps governance_demo demo_defs silent_client_def ai_change_def ai_generated_def
       content_get_def execute_guards_def needs_acknowledgement_def new_rules_def)


end
