(* ===== verification/AiRouting.thy ===== *)
theory AiRouting
  imports Prelude
begin

text \<open>
  The AI side's shared vocabulary and the choices made before a turn:
  \<open>ai/schemas.py\<close> (requests, responses, stream events, usage), \<open>ai/routing.py\<close>
  (which model answers, and the provider that falls back once), \<open>ai/pricing.py\<close>
  (what a turn costs) and \<open>billing/plans.py\<close> (the token ceiling of a plan).
  A provider is a parameter: a function from a request and its own state.
\<close>

section \<open>Requests and answers\<close>

type_synonym arguments = "(string \<times> json) list"

record tool_call =
  tcl_id :: string
  tcl_name :: string
  tcl_input :: arguments

text \<open>
  What is handed back to the model for a call: the tool's own text, or one of the
  orchestrator's error texts.
\<close>

datatype tool_content =
    ToolText string
  | NotAvailable string
  | UnknownTool string
  | AppMessage exn
  | InvalidArgument string

record tool_result =
  tr_tool_call_id :: string
  tr_content :: tool_content
  tr_is_error :: bool

datatype message_role = RoleUser | RoleAssistant

record attachment =
  at_filename :: string
  at_media_type :: string
  at_data :: string

record chat_message =
  cm_role :: message_role
  cm_content :: string
  cm_attachments :: "attachment list"
  cm_tool_calls :: "tool_call list"
  cm_tool_results :: "tool_result list"

record usage =
  us_input_tokens :: int
  us_output_tokens :: int
  us_cache_creation :: int
  us_cache_read :: int

definition no_usage :: usage where
  "no_usage = \<lparr>us_input_tokens = 0, us_output_tokens = 0, us_cache_creation = 0, us_cache_read = 0\<rparr>"

definition add_usage :: "usage \<Rightarrow> usage \<Rightarrow> usage" where
  "add_usage u v =
     \<lparr>us_input_tokens = us_input_tokens u + us_input_tokens v,
      us_output_tokens = us_output_tokens u + us_output_tokens v,
      us_cache_creation = us_cache_creation u + us_cache_creation v,
      us_cache_read = us_cache_read u + us_cache_read v\<rparr>"

definition total_tokens :: "usage \<Rightarrow> int" where
  "total_tokens u = us_input_tokens u + us_cache_creation u + us_cache_read u + us_output_tokens u"

text \<open>The two halves of the system prompt are lists of parts, see \<open>Orchestrator\<close>.\<close>

record 's chat_request =
  q_messages :: "chat_message list"
  q_model :: string
  q_system :: 's
  q_tools :: "string list"

record chat_response =
  r_content :: string
  r_stop_reason :: "string option"
  r_usage :: usage
  r_tool_calls :: "tool_call list"

datatype stream_event =
    TextDelta string
  | MessageStop "usage option" "tool_call list" "string option"

text \<open>
  A provider: \<open>chat\<close> answers or raises; \<open>stream_chat\<close> yields events and then ends,
  or raises after some of them.
\<close>

record ('s, 'p) provider =
  p_chat :: "'s chat_request \<Rightarrow> 'p \<Rightarrow> 'p \<times> chat_response result"
  p_stream :: "'s chat_request \<Rightarrow> 'p \<Rightarrow> 'p \<times> stream_event list \<times> exn option"

section \<open>Prices\<close>

definition PRICING :: "(string \<times> (rat \<times> rat)) list" where
  "PRICING =
     [(''claude-opus-5'', (5, 25)), (''claude-opus-4-8'', (5, 25)), (''claude-opus-4-7'', (5, 25)),
      (''claude-sonnet-5'', (3, 15)), (''claude-sonnet-4-6'', (3, 15)), (''claude-haiku-4-5'', (1, 5)),
      (''claude-fable-5'', (10, 50))]"

definition DEFAULT_PRICING :: "rat \<times> rat" where
  "DEFAULT_PRICING = (5, 25)"

definition CACHE_WRITE_MULTIPLIER :: rat where "CACHE_WRITE_MULTIPLIER = 5 / 4"
definition CACHE_READ_MULTIPLIER :: rat where "CACHE_READ_MULTIPLIER = 1 / 10"

definition prices :: "string \<Rightarrow> rat \<times> rat" where
  "prices model = (case map_of PRICING model of Some p \<Rightarrow> p | None \<Rightarrow> DEFAULT_PRICING)"

definition estimate_cost :: "string \<Rightarrow> usage \<Rightarrow> rat" where
  "estimate_cost model u =
     (let (input_price, output_price) = prices model;
          uncached = of_int (us_input_tokens u) / 1000000 * input_price;
          cache_write = of_int (us_cache_creation u) / 1000000 * input_price * CACHE_WRITE_MULTIPLIER;
          cache_read = of_int (us_cache_read u) / 1000000 * input_price * CACHE_READ_MULTIPLIER;
          output = of_int (us_output_tokens u) / 1000000 * output_price
      in uncached + cache_write + cache_read + output)"

definition cost_without_cache :: "string \<Rightarrow> usage \<Rightarrow> rat" where
  "cost_without_cache model u =
     (let (input_price, output_price) = prices model;
          prompt_tokens = us_input_tokens u + us_cache_creation u + us_cache_read u
      in of_int prompt_tokens / 1000000 * input_price + of_int (us_output_tokens u) / 1000000 * output_price)"

section \<open>Plans\<close>

record plan =
  pl_key :: string
  pl_monthly_token_limit :: "int option"
  pl_max_users :: "int option"
  pl_max_connections :: "int option"
  pl_is_public :: bool

definition TRIAL :: plan where
  "TRIAL = \<lparr>pl_key = ''trial'', pl_monthly_token_limit = Some 2000000, pl_max_users = Some 5,
     pl_max_connections = Some 1, pl_is_public = True\<rparr>"

definition PROFESSIONAL :: plan where
  "PROFESSIONAL = \<lparr>pl_key = ''professional'', pl_monthly_token_limit = Some 20000000,
     pl_max_users = Some 25, pl_max_connections = Some 5, pl_is_public = True\<rparr>"

definition ENTERPRISE :: plan where
  "ENTERPRISE = \<lparr>pl_key = ''enterprise'', pl_monthly_token_limit = None, pl_max_users = None,
     pl_max_connections = None, pl_is_public = True\<rparr>"

definition INTERNAL :: plan where
  "INTERNAL = \<lparr>pl_key = ''internal'', pl_monthly_token_limit = None, pl_max_users = None,
     pl_max_connections = None, pl_is_public = False\<rparr>"

definition PLANS :: "plan list" where
  "PLANS = [TRIAL, PROFESSIONAL, ENTERPRISE, INTERNAL]"

definition get_plan :: "string option \<Rightarrow> plan" where
  "get_plan key =
     (case key of
        None \<Rightarrow> TRIAL
      | Some k \<Rightarrow>
          if k = [] then TRIAL
          else (case find (\<lambda>p. pl_key p = lower (strip k)) PLANS of Some p \<Rightarrow> p | None \<Rightarrow> TRIAL))"

definition list_plans :: "bool \<Rightarrow> plan list" where
  "list_plans include_private = filter (\<lambda>p. include_private \<or> pl_is_public p) PLANS"

text \<open>The stricter of the two limits; \<open>None\<close> is unlimited.\<close>

definition monthly_token_limit_for :: "string option \<Rightarrow> int option \<Rightarrow> int option" where
  "monthly_token_limit_for plan_key deployment_limit =
     (case (pl_monthly_token_limit (get_plan plan_key), deployment_limit) of
        (None, None) \<Rightarrow> None
      | (Some a, None) \<Rightarrow> Some a
      | (None, Some b) \<Rightarrow> Some b
      | (Some a, Some b) \<Rightarrow> Some (min a b))"

section \<open>Routing\<close>

datatype tier = Fast | Balanced | Best

definition TIER_MODELS :: "tier \<Rightarrow> string" where
  "TIER_MODELS t = (case t of
     Fast \<Rightarrow> ''claude-haiku-4-5'' | Balanced \<Rightarrow> ''claude-sonnet-5'' | Best \<Rightarrow> ''claude-opus-5'')"

definition FALLBACK :: "tier \<Rightarrow> tier" where
  "FALLBACK t = (case t of Best \<Rightarrow> Balanced | Balanced \<Rightarrow> Best | Fast \<Rightarrow> Balanced)"

definition tier_of_name :: "string \<Rightarrow> tier option" where
  "tier_of_name s =
     (if s = ''fast'' then Some Fast else if s = ''balanced'' then Some Balanced
      else if s = ''best'' then Some Best else None)"

definition TOOL_AGENTS :: "string list" where
  "TOOL_AGENTS =
     [''developer'', ''ti'', ''troubleshooter'', ''administrator'', ''analyst'', ''performance'']"

definition BEST_AGENTS :: "string list" where "BEST_AGENTS = [''architect'', ''reviewer'']"
definition FAST_AGENTS :: "string list" where "FAST_AGENTS = [''documentation'']"
definition LARGE_ATTACHMENT_CHARS :: nat where "LARGE_ATTACHMENT_CHARS = 40000"

text \<open>The AI settings of \<open>core/config.py\<close>.\<close>

record ai_settings =
  AI_ALLOWED_MODELS :: "string list"
  AI_DEFAULT_MODEL :: string
  AI_MONTHLY_TOKEN_LIMIT :: "int option"
  AI_QUOTA_RESERVATION_TOKENS :: int
  TM1_MODE :: string

definition auto_tier :: "string option \<Rightarrow> string option \<Rightarrow> nat \<Rightarrow> tier" where
  "auto_tier agent environment attachment_chars =
     (if environment = Some ''prod'' then Best
      else if agent \<in> Some ` set BEST_AGENTS then Best
      else if attachment_chars > LARGE_ATTACHMENT_CHARS then Balanced
      else if agent \<in> Some ` set TOOL_AGENTS then Balanced
      else if agent \<in> Some ` set FAST_AGENTS then Fast
      else if agent = None then Fast
      else Balanced)"

definition tiers_from :: "tier \<Rightarrow> tier list" where
  "tiers_from t = (case t of Fast \<Rightarrow> [Fast, Balanced, Best] | Balanced \<Rightarrow> [Balanced, Best] | Best \<Rightarrow> [Best])"

definition allowed_tier :: "ai_settings \<Rightarrow> tier \<Rightarrow> tier option" where
  "allowed_tier cfg t = find (\<lambda>c. TIER_MODELS c \<in> set (AI_ALLOWED_MODELS cfg)) (tiers_from t)"

record route_decision =
  rd_model :: string
  rd_tier :: "tier option"
  rd_requested :: string
  rd_fallback_model :: "string option"

definition decide :: "ai_settings \<Rightarrow> string option \<Rightarrow> string option \<Rightarrow> string option \<Rightarrow> nat \<Rightarrow> route_decision result"
where
  "decide cfg requested agent environment attachment_chars =
     (let choice = strip (case requested of None \<Rightarrow> ''auto'' | Some r \<Rightarrow> if r = [] then ''auto'' else r) in
      if choice \<noteq> ''auto'' \<and> tier_of_name choice = None then
        (if choice \<notin> set (AI_ALLOWED_MODELS cfg) then Inl Validation
         else Inr \<lparr>rd_model = choice, rd_tier = None, rd_requested = choice, rd_fallback_model = None\<rparr>)
      else
        let wanted = (case tier_of_name choice of
              Some t \<Rightarrow> t | None \<Rightarrow> auto_tier agent environment attachment_chars)
        in (case allowed_tier cfg wanted of
              None \<Rightarrow> Inr \<lparr>rd_model = AI_DEFAULT_MODEL cfg, rd_tier = None, rd_requested = choice,
                           rd_fallback_model = None\<rparr>
            | Some t \<Rightarrow>
                let fallback = (case allowed_tier cfg (FALLBACK t) of
                      None \<Rightarrow> None | Some f \<Rightarrow> if f \<noteq> t then Some (TIER_MODELS f) else None)
                in Inr \<lparr>rd_model = TIER_MODELS t, rd_tier = Some t, rd_requested = choice,
                        rd_fallback_model = fallback\<rparr>))"

section \<open>Falling back once\<close>

text \<open>
  \<open>re.search\<close> of \<open>_RETRYABLE\<close>, without regard to case: one of four phrases, or
  \<open>error code:\<close>, white space, and a number 5xx, anywhere in the message.
\<close>

fun matches_error_code :: "string \<Rightarrow> bool" where
  "matches_error_code s =
     (case dropWhile is_space s of
        a # b # c # _ \<Rightarrow> a = CHR ''5'' \<and> is_digit b \<and> is_digit c
      | _ \<Rightarrow> False)"

definition starts_with :: "string \<Rightarrow> string \<Rightarrow> bool" where
  "starts_with p s \<longleftrightarrow> take (length p) s = p"

definition retryable_here :: "string \<Rightarrow> bool" where
  "retryable_here s \<longleftrightarrow>
     (starts_with ''error code:'' s \<and> matches_error_code (drop 11 s)) \<or>
     starts_with ''overloaded'' s \<or> starts_with ''connection error'' s \<or>
     starts_with ''timed out'' s \<or> starts_with ''timeout'' s"

fun search_retryable :: "string \<Rightarrow> bool" where
  "search_retryable [] = False"
| "search_retryable (c # cs) = (retryable_here (c # cs) \<or> search_retryable cs)"

definition is_retryable :: "exn \<Rightarrow> bool" where
  "is_retryable e =
     (case e of
        AIProviderRateLimit \<Rightarrow> True
      | AIProvider message \<Rightarrow> search_retryable (lower message)
      | _ \<Rightarrow> False)"

text \<open>
  \<open>FallbackProvider\<close>: its state is the inner provider's and \<open>fell_back\<close>. The
  fallback model is used from the failure on.
\<close>

definition switch :: "string option \<Rightarrow> bool \<Rightarrow> 's chat_request \<Rightarrow> 's chat_request" where
  "switch fallback fell_back q =
     (case fallback of Some m \<Rightarrow> if fell_back then q\<lparr>q_model := m\<rparr> else q | None \<Rightarrow> q)"

definition may_fall_back :: "string option \<Rightarrow> bool \<Rightarrow> exn \<Rightarrow> bool" where
  "may_fall_back fallback fell_back e \<longleftrightarrow>
     \<not> fell_back \<and> fallback \<noteq> None \<and> fallback \<noteq> Some [] \<and> is_retryable e"

definition fallback_chat ::
  "('s, 'p) provider \<Rightarrow> string option \<Rightarrow> 's chat_request \<Rightarrow> 'p \<times> bool \<Rightarrow>
     ('p \<times> bool) \<times> chat_response result" where
  "fallback_chat inner fallback q st =
     (case p_chat inner (switch fallback (snd st) q) (fst st) of
        (p, Inr r) \<Rightarrow> ((p, snd st), Inr r)
      | (p, Inl e) \<Rightarrow>
          if \<not> may_fall_back fallback (snd st) e then ((p, snd st), Inl e)
          else (case p_chat inner (switch fallback True q) p of (p', x) \<Rightarrow> ((p', True), x)))"

definition fallback_stream ::
  "('s, 'p) provider \<Rightarrow> string option \<Rightarrow> 's chat_request \<Rightarrow> 'p \<times> bool \<Rightarrow>
     ('p \<times> bool) \<times> stream_event list \<times> exn option" where
  "fallback_stream inner fallback q st =
     (case p_stream inner (switch fallback (snd st) q) (fst st) of
        (p, events, None) \<Rightarrow> ((p, snd st), events, None)
      | (p, events, Some e) \<Rightarrow>
          if events \<noteq> [] \<or> \<not> may_fall_back fallback (snd st) e then ((p, snd st), events, Some e)
          else (case p_stream inner (switch fallback True q) p of (p', x) \<Rightarrow> ((p', True), x)))"

definition model_used :: "string \<Rightarrow> string option \<Rightarrow> bool \<Rightarrow> string" where
  "model_used primary fallback fell_back =
     (case fallback of Some m \<Rightarrow> if fell_back then m else primary | None \<Rightarrow> primary)"

end
