(* ===== verification/Orchestrator.thy ===== *)
theory Orchestrator
  imports AiRouting "HOL-Library.AList"
begin

text \<open>
  \<open>ai/orchestrator.py\<close>: the quota check, the conversation's history, the tool
  call, the tool loop of a plain request (\<open>_run_tool_loop\<close>), the tool loop of a
  streamed turn (\<open>_stream_turn\<close>) with its accounting of a turn that was cut, and
  the two requests of \<open>api/v1/ai.py\<close> around them.

  The database is the tables the orchestrator writes and a \<open>world\<close>: whatever the
  tools read and write (drafts, task memory, the TM1 servers). A session holds the
  tables as the request sees them and as they are committed. Durations, latencies
  and log lines are not modelled.
\<close>

section \<open>Tables\<close>

record ai_conversation =
  cv_id :: uuid
  cv_organization_id :: uuid
  cv_user_id :: uuid
  cv_title :: "string option"

record ai_message =
  am_id :: uuid
  am_conversation_id :: uuid
  am_role :: message_role
  am_content :: string

datatype execution_status = XSuccess | XError | XNotFound

record tool_execution =
  tx_conversation_id :: uuid
  tx_tool_name :: string
  tx_arguments :: arguments
  tx_status :: execution_status
  tx_result_summary :: "string option"
  tx_agent :: "string option"

record ai_usage =
  au_conversation_id :: uuid
  au_message_id :: "uuid option"
  au_organization_id :: uuid
  au_user_id :: uuid
  au_model :: string
  au_prompt_tokens :: int
  au_completion_tokens :: int
  au_total_tokens :: int
  au_cache_creation_tokens :: int
  au_cache_read_tokens :: int
  au_estimated_cost_usd :: rat
  au_agent :: "string option"
  au_tier :: "tier option"
  au_fell_back :: bool
  au_created_at :: time

record 'w ai_db =
  ai_conversations :: "ai_conversation list"
  ai_messages :: "ai_message list"
  tool_executions :: "tool_execution list"
  ai_usages :: "ai_usage list"
  ai_audit :: "(uuid \<times> string) list"
  organization_plans :: "(uuid \<times> string) list"
  world :: 'w

record 'w ai_session =
  working :: "'w ai_db"
  committed :: "'w ai_db"

text \<open>\<open>_release_db\<close> commits.\<close>

definition release_db :: "'w ai_session \<Rightarrow> 'w ai_session" where
  "release_db s = s\<lparr>committed := working s\<rparr>"

definition on_working :: "('w ai_db \<Rightarrow> 'w ai_db) \<Rightarrow> 'w ai_session \<Rightarrow> 'w ai_session" where
  "on_working f s = s\<lparr>working := f (working s)\<rparr>"

text \<open>A write through a session of its own, committed at once.\<close>

definition in_own_session :: "('w ai_db \<Rightarrow> 'w ai_db) \<Rightarrow> 'w ai_session \<Rightarrow> 'w ai_session" where
  "in_own_session f s = s\<lparr>working := f (working s), committed := f (committed s)\<rparr>"

definition create_message :: "ai_message \<Rightarrow> 'w ai_db \<Rightarrow> 'w ai_db" where
  "create_message m d = d\<lparr>ai_messages := ai_messages d @ [m]\<rparr>"

definition create_usage :: "ai_usage \<Rightarrow> 'w ai_db \<Rightarrow> 'w ai_db" where
  "create_usage u d = d\<lparr>ai_usages := ai_usages d @ [u]\<rparr>"

definition audit_log :: "uuid \<Rightarrow> string \<Rightarrow> 'w ai_db \<Rightarrow> 'w ai_db" where
  "audit_log uid action d = d\<lparr>ai_audit := ai_audit d @ [(uid, action)]\<rparr>"

definition get_total_tokens_since :: "uuid \<Rightarrow> time \<Rightarrow> 'w ai_db \<Rightarrow> int" where
  "get_total_tokens_since org since d =
     sum_list (map au_total_tokens
       (filter (\<lambda>u. au_organization_id u = org \<and> au_created_at u \<ge> since) (ai_usages d)))"

section \<open>The quota\<close>

text \<open>\<open>_INFLIGHT_TURNS\<close>: no entry is a count of zero.\<close>

type_synonym inflight = "uuid \<rightharpoonup> int"

definition inflight_turns :: "inflight \<Rightarrow> uuid \<Rightarrow> int" where
  "inflight_turns t org = (case t org of Some n \<Rightarrow> n | None \<Rightarrow> 0)"

definition begin_turn :: "uuid \<Rightarrow> inflight \<Rightarrow> inflight" where
  "begin_turn org t = t(org \<mapsto> inflight_turns t org + 1)"

definition end_turn :: "uuid \<Rightarrow> inflight \<Rightarrow> inflight" where
  "end_turn org t =
     (let remaining = inflight_turns t org - 1 in
      if remaining \<le> 0 then t(org := None) else t(org \<mapsto> remaining))"

definition quota_limit :: "ai_settings \<Rightarrow> 'w ai_db \<Rightarrow> uuid \<Rightarrow> int option" where
  "quota_limit cfg d org =
     monthly_token_limit_for (map_of (organization_plans d) org) (AI_MONTHLY_TOKEN_LIMIT cfg)"

definition check_usage_quota ::
  "ai_settings \<Rightarrow> (time \<Rightarrow> time) \<Rightarrow> inflight \<Rightarrow> time \<Rightarrow> uuid \<Rightarrow> 'w ai_db \<Rightarrow> unit result" where
  "check_usage_quota cfg start_of_month t now org d =
     (case quota_limit cfg d org of
        None \<Rightarrow> Inr ()
      | Some limit \<Rightarrow>
          ensure (get_total_tokens_since org (start_of_month now) d +
                  inflight_turns t org * AI_QUOTA_RESERVATION_TOKENS cfg < limit) QuotaExceeded)"

definition estimate_tokens :: "string \<Rightarrow> int" where
  "estimate_tokens text = (if text = [] then 0 else int (length text) div 4 + 1)"

section \<open>Tools\<close>

text \<open>
  A tool of the registry. \<open>t_execute\<close> is given the organization, the user and the
  keyword arguments; a \<open>TypeError\<close> for a missing or unknown argument is the tool's.
\<close>

record 'w tool =
  t_name :: string
  t_needs_conversation :: bool
  t_execute :: "uuid \<Rightarrow> uuid \<Rightarrow> arguments \<Rightarrow> 'w \<Rightarrow> 'w \<times> string result"

text \<open>
  What a turn is given: the registry, the connection check of \<open>tm1/service.py\<close> (see
  \<open>Governance\<close>), the parsing of a UUID and of a JSON text (\<open>json.loads\<close> and
  \<open>json.dumps\<close> without escapes), and the task memory's update after a tool call.
\<close>

record 'w ai_env =
  list_tools :: "'w tool list"
  get_connection :: "uuid \<Rightarrow> uuid \<Rightarrow> uuid \<Rightarrow> 'w \<Rightarrow> unit result"
  as_uuid :: "string \<Rightarrow> uuid option"
  str_of :: "json \<Rightarrow> string"
  unescaped :: "string \<Rightarrow> string option"
  record_tool :: "uuid \<Rightarrow> uuid \<Rightarrow> tool_call \<Rightarrow> string \<Rightarrow> 'w \<Rightarrow> 'w result"

definition get_tool :: "'w ai_env \<Rightarrow> string \<Rightarrow> 'w tool option" where
  "get_tool env name = find (\<lambda>t. t_name t = name) (list_tools env)"

definition is_app_exception :: "exn \<Rightarrow> bool" where
  "is_app_exception e \<longleftrightarrow>
     e \<notin> {IntegrityError, ValueError, KeyError, MultipleResults, TypeError, OtherError}"

definition outcome_status :: "exn \<Rightarrow> execution_status" where
  "outcome_status e = (if e = NotFound \<or> e = TM1NotFound then XNotFound else XError)"

definition summarise_result :: "'w ai_env \<Rightarrow> string \<Rightarrow> string" where
  "summarise_result env result =
     take 500 (case unescaped env result of Some readable \<Rightarrow> readable | None \<Rightarrow> result)"

text \<open>The identifiers of a turn, and the tools it may use (\<open>None\<close>: every one).\<close>

record turn_context =
  cx_organization_id :: uuid
  cx_user_id :: uuid
  cx_conversation_id :: uuid
  cx_allowed_tools :: "string list option"
  cx_agent :: "string option"

definition record_tool_execution ::
  "turn_context \<Rightarrow> tool_call \<Rightarrow> execution_status \<Rightarrow> string option \<Rightarrow> 'w ai_db \<Rightarrow> 'w ai_db" where
  "record_tool_execution cx cl st summary d =
     d\<lparr>tool_executions := tool_executions d @
        [\<lparr>tx_conversation_id = cx_conversation_id cx, tx_tool_name = tcl_name cl,
          tx_arguments = tcl_input cl, tx_status = st, tx_result_summary = summary,
          tx_agent = cx_agent cx\<rparr>]\<rparr>"

text \<open>
  The connection a call names must be one the user may use; a value that is no UUID
  is left to the tool.
\<close>

definition falsy :: "json \<Rightarrow> bool" where
  "falsy v \<longleftrightarrow> v \<in> {JNull, JBool False, JInt 0, JNum 0, JStr [], JArr [], JObj []}"

definition check_connection :: "'w ai_env \<Rightarrow> turn_context \<Rightarrow> tool_call \<Rightarrow> 'w \<Rightarrow> unit result" where
  "check_connection env cx cl w =
     (case map_of (tcl_input cl) ''connection_id'' of
        None \<Rightarrow> Inr ()
      | Some v \<Rightarrow>
          if falsy v then Inr ()
          else (case as_uuid env (str_of env v) of
                  None \<Rightarrow> Inr ()
                | Some c \<Rightarrow> get_connection env c (cx_organization_id cx) (cx_user_id cx) w))"

text \<open>
  A call whose input repeats one of the keywords the orchestrator passes itself is
  refused by Python (\<open>TypeError\<close>), so the model cannot name another user.
\<close>

definition run_tool :: "'w ai_env \<Rightarrow> turn_context \<Rightarrow> 'w tool \<Rightarrow> tool_call \<Rightarrow> 'w \<Rightarrow> 'w \<times> string result" where
  "run_tool env cx t cl w =
     (case check_connection env cx cl w of
        Inl e \<Rightarrow> (w, Inl e)
      | Inr _ \<Rightarrow>
          if \<exists>k \<in> {''db'', ''organization_id'', ''user_id''}. map_of (tcl_input cl) k \<noteq> None then (w, Inl TypeError)
          else t_execute t (cx_organization_id cx) (cx_user_id cx)
            (if t_needs_conversation t
             then AList.update ''conversation_id'' (JStr (cx_conversation_id cx)) (tcl_input cl)
             else tcl_input cl) w)"

text \<open>\<open>_fold_into_task\<close> runs in a savepoint and never fails the turn.\<close>

definition fold_into_task :: "'w ai_env \<Rightarrow> turn_context \<Rightarrow> tool_call \<Rightarrow> string \<Rightarrow> 'w ai_db \<Rightarrow> 'w ai_db" where
  "fold_into_task env cx cl result d =
     (case record_tool env (cx_conversation_id cx) (cx_user_id cx) cl result (world d) of
        Inr w \<Rightarrow> d\<lparr>world := w\<rparr>
      | Inl _ \<Rightarrow> d)"

definition refused :: "turn_context \<Rightarrow> tool_call \<Rightarrow> tool_content \<Rightarrow> execution_status \<Rightarrow> 'w ai_db \<Rightarrow>
  'w ai_db \<times> tool_result" where
  "refused cx cl text st d =
     (record_tool_execution cx cl st None d,
      \<lparr>tr_tool_call_id = tcl_id cl, tr_content = text, tr_is_error = True\<rparr>)"

definition execute_tool_call ::
  "'w ai_env \<Rightarrow> turn_context \<Rightarrow> tool_call \<Rightarrow> 'w ai_db \<Rightarrow> 'w ai_db \<times> tool_result" where
  "execute_tool_call env cx cl d =
     (if \<not> (case cx_allowed_tools cx of None \<Rightarrow> True | Some names \<Rightarrow> tcl_name cl \<in> set names)
      then refused cx cl (NotAvailable (tcl_name cl)) XError d
      else case get_tool env (tcl_name cl) of
        None \<Rightarrow> refused cx cl (UnknownTool (tcl_name cl)) XError d
      | Some t \<Rightarrow>
          (case run_tool env cx t cl (world d) of
             (w, Inl e) \<Rightarrow>
               if is_app_exception e
               then refused cx cl (AppMessage e) (outcome_status e) (d\<lparr>world := w\<rparr>)
               else refused cx cl (InvalidArgument (tcl_name cl)) XError (d\<lparr>world := w\<rparr>)
           | (w, Inr text) \<Rightarrow>
               (fold_into_task env cx cl text
                  (record_tool_execution cx cl XSuccess (Some (summarise_result env text))
                    (d\<lparr>world := w\<rparr>)),
                \<lparr>tr_tool_call_id = tcl_id cl, tr_content = ToolText text, tr_is_error = False\<rparr>)))"

fun execute_tool_calls ::
  "'w ai_env \<Rightarrow> turn_context \<Rightarrow> tool_call list \<Rightarrow> 'w ai_db \<Rightarrow> 'w ai_db \<times> tool_result list" where
  "execute_tool_calls env cx [] d = (d, [])"
| "execute_tool_calls env cx (c # cs) d =
     (case execute_tool_call env cx c d of
        (d1, r) \<Rightarrow> (case execute_tool_calls env cx cs d1 of (d2, rs) \<Rightarrow> (d2, r # rs)))"

definition PLAIN_CHAT_TOOL_NAMES :: "string list" where
  "PLAIN_CHAT_TOOL_NAMES = [''lookup_tm1_function'', ''check_tm1_code'', ''search_knowledge_base'']"

definition tools_for_mode :: "ai_settings \<Rightarrow> 'w tool list \<Rightarrow> 'w tool list" where
  "tools_for_mode cfg ts = filter (\<lambda>t. t_name t \<noteq> ''apply_change'' \<or> TM1_MODE cfg = ''readwrite'') ts"

definition tool_names :: "ai_settings \<Rightarrow> 'w ai_env \<Rightarrow> string list option \<Rightarrow> string list" where
  "tool_names cfg env allowed =
     map t_name (filter (\<lambda>t. case allowed of None \<Rightarrow> True | Some names \<Rightarrow> t_name t \<in> set names)
       (tools_for_mode cfg (list_tools env)))"

end
