(* ===== verification/ChatTurn.thy ===== *)
theory ChatTurn
  imports Orchestrator
begin

text \<open>
  The turns of \<open>ai/orchestrator.py\<close>: what is prepared before the model is asked
  (conversation, history, attachments, system prompt), the tool loop of \<open>chat\<close>, the
  tool loop of \<open>stream_chat\<close> event by event with the client closing the stream at
  any event, and the requests around both. The rounds recurse on the tool budget.
\<close>

section \<open>Before the model is asked\<close>

record agent_persona =
  ps_name :: string
  ps_system_prompt :: string
  ps_tool_names :: "string list option"
  ps_max_tool_rounds :: "int option"
  ps_safety_notes :: "string list"

definition MAX_TOOL_ROUNDS :: int where "MAX_TOOL_ROUNDS = 5"
definition MAX_TOOL_ROUNDS_CEILING :: int where "MAX_TOOL_ROUNDS_CEILING = 15"
definition HISTORY_LIMIT :: nat where "HISTORY_LIMIT = 40"

definition resolve_allowed_tools :: "agent_persona option \<Rightarrow> bool \<Rightarrow> string list option" where
  "resolve_allowed_tools persona all_requested =
     (case persona of
        Some p \<Rightarrow> ps_tool_names p
      | None \<Rightarrow> if all_requested then None else Some PLAIN_CHAT_TOOL_NAMES)"

definition resolve_max_tool_rounds :: "agent_persona option \<Rightarrow> int" where
  "resolve_max_tool_rounds persona =
     (case persona of
        Some p \<Rightarrow> (case ps_max_tool_rounds p of
            Some n \<Rightarrow> if n \<noteq> 0 then min n MAX_TOOL_ROUNDS_CEILING else MAX_TOOL_ROUNDS
          | None \<Rightarrow> MAX_TOOL_ROUNDS)
      | None \<Rightarrow> MAX_TOOL_ROUNDS)"

text \<open>
  The system prompt as its parts, in order; their texts are the constants of
  \<open>orchestrator.py\<close> and \<open>product_knowledge.py\<close>. \<open>ConnectionContext\<close> says whether the
  user chose the server, and which connections are listed.
\<close>

datatype prompt_part =
    ProductOverview
  | PersonaPrompt string
  | EvidenceRules
  | SafetyNotes "string list"
  | ConnectionContext bool "uuid list"
  | NoConnections
  | MemoryBlock string
  | TaskContext string
  | ModeContext string
  | CallerSystem string
  | PlainChatSystem

type_synonym prompt = "prompt_part list \<times> prompt_part list"

definition base_system :: "string option \<Rightarrow> agent_persona option \<Rightarrow> bool \<Rightarrow> prompt_part list" where
  "base_system system persona tools_requested =
     (case system of
        Some t \<Rightarrow> if t = [] then [] else [CallerSystem t]
      | None \<Rightarrow> if persona \<noteq> None \<or> tools_requested then [] else [PlainChatSystem])"

definition reachable :: "(uuid \<Rightarrow> bool) \<Rightarrow> uuid list \<Rightarrow> uuid option \<Rightarrow> bool \<times> uuid list" where
  "reachable circuit_open connections connection_id =
     (let chosen = (case connection_id of None \<Rightarrow> [] | Some i \<Rightarrow> filter (\<lambda>c. c = i) connections) in
      if chosen \<noteq> [] then (True, chosen) else (False, filter (\<lambda>c. \<not> circuit_open c) connections))"

definition build_tool_system_prompt ::
  "string \<Rightarrow> bool \<times> uuid list \<Rightarrow> string option \<Rightarrow> string option \<Rightarrow> prompt_part list \<Rightarrow>
     agent_persona option \<Rightarrow> prompt" where
  "build_tool_system_prompt mode conns memory task_context system persona =
     ((ProductOverview #
       (case persona of
          None \<Rightarrow> []
        | Some p \<Rightarrow> (if ps_system_prompt p = [] then [] else [PersonaPrompt (ps_system_prompt p)]) @ [EvidenceRules] @
                    (if ps_safety_notes p = [] then [] else [SafetyNotes (ps_safety_notes p)]))),
      (if snd conns = [] then [NoConnections] else [ConnectionContext (fst conns) (snd conns)]) @
      (case memory of None \<Rightarrow> [] | Some m \<Rightarrow> if m = [] then [] else [MemoryBlock m]) @
      (case task_context of None \<Rightarrow> [] | Some t \<Rightarrow> if t = [] then [] else [TaskContext t]) @
      (if mode = ''readwrite'' \<or> mode = ''readonly'' then [ModeContext mode] else []) @
      system)"

text \<open>\<open>str.splitlines\<close>'s line boundaries in ASCII; the title is the first line's first 60.\<close>

definition line_break :: "char \<Rightarrow> bool" where
  "line_break c \<longleftrightarrow> chr_code c \<in> {10, 11, 12, 13, 28, 29, 30}"

definition conversation_title :: "string \<Rightarrow> string option" where
  "conversation_title message =
     (if strip message = [] then None
      else Some (take 60 (takeWhile (\<lambda>c. \<not> line_break c) (strip message))))"

definition get_or_create_conversation ::
  "uuid \<Rightarrow> uuid \<Rightarrow> uuid \<Rightarrow> uuid option \<Rightarrow> string \<Rightarrow> 'w ai_db \<Rightarrow> ('w ai_db \<times> ai_conversation) result" where
  "get_or_create_conversation new_id org uid conversation_id message d =
     (case conversation_id of
        Some i \<Rightarrow>
          (case find (\<lambda>c. cv_id c = i) (ai_conversations d) of
             None \<Rightarrow> Inl NotFound
           | Some c \<Rightarrow> if cv_user_id c \<noteq> uid then Inl NotFound else Inr (d, c))
      | None \<Rightarrow>
          let c = \<lparr>cv_id = new_id, cv_organization_id = org, cv_user_id = uid,
                   cv_title = conversation_title message\<rparr>
          in Inr (d\<lparr>ai_conversations := ai_conversations d @ [c]\<rparr>, c))"

definition plain_message :: "message_role \<Rightarrow> string \<Rightarrow> chat_message" where
  "plain_message r text = \<lparr>cm_role = r, cm_content = text, cm_attachments = [], cm_tool_calls = [],
     cm_tool_results = []\<rparr>"

text \<open>The newest \<open>HISTORY_LIMIT\<close> messages, without leading replies of the assistant.\<close>

definition build_history :: "uuid \<Rightarrow> 'w ai_db \<Rightarrow> chat_message list" where
  "build_history conversation_id d =
     (let ms = filter (\<lambda>m. am_conversation_id m = conversation_id) (ai_messages d);
          newest = drop (length ms - HISTORY_LIMIT) ms
      in map (\<lambda>m. plain_message (am_role m) (am_content m)) (dropWhile (\<lambda>m. am_role m \<noteq> RoleUser) newest))"

definition blank_line :: string where "blank_line = [CHR 0x0A, CHR 0x0A]"

fun join_with :: "string \<Rightarrow> string list \<Rightarrow> string" where
  "join_with sep [] = []"
| "join_with sep [x] = x"
| "join_with sep (x # xs) = x @ sep @ join_with sep xs"

text \<open>\<open>process_attachments\<close> gives the native attachments and the extracted text.\<close>

definition prepare_user_message ::
  "(attachment list \<Rightarrow> attachment list \<times> string) \<Rightarrow> string \<Rightarrow> attachment list \<Rightarrow>
     string \<times> string \<times> attachment list" where
  "prepare_user_message process_attachments message attachments =
     (if attachments = [] then (message, message, [])
      else
        let (native, extracted) = process_attachments attachments;
            for_ai = (if message \<noteq> [] \<and> extracted \<noteq> [] then message @ blank_line @ extracted
                      else if extracted \<noteq> [] then extracted else message);
            persisted = (if native = [] then for_ai
                         else for_ai @ blank_line @ ''[Attached: '' @
                              join_with '', '' (map at_filename native) @ '']'')
        in (for_ai, persisted, native))"

section \<open>Asking the model\<close>

text \<open>
  What is fixed for a turn: the provider and its fallback model, the chosen model,
  the prompt and its text, the tools offered, and who asks.
\<close>

record ('w, 'p) turn_setup =
  su_env :: "'w ai_env"
  su_context :: turn_context
  su_provider :: "(prompt, 'p) provider"
  su_fallback :: "string option"
  su_model :: string
  su_prompt :: prompt
  su_prompt_text :: string
  su_tools :: "string list"
  su_enable_tools :: bool

record ('w, 'p) turn =
  tn_session :: "'w ai_session"
  tn_provider :: "'p \<times> bool"
  tn_history :: "chat_message list"
  tn_usage :: usage
  tn_text :: "string list"

definition request_of :: "('w, 'p) turn_setup \<Rightarrow> string list \<Rightarrow> chat_message list \<Rightarrow> prompt chat_request" where
  "request_of su tools history =
     \<lparr>q_messages = history, q_model = su_model su, q_system = su_prompt su, q_tools = tools\<rparr>"

definition ask :: "('w, 'p) turn_setup \<Rightarrow> string list \<Rightarrow> ('w, 'p) turn \<Rightarrow> ('w, 'p) turn \<times> chat_response result" where
  "ask su tools tn =
     (case fallback_chat (su_provider su) (su_fallback su) (request_of su tools (tn_history tn)) (tn_provider tn) of
        (p, x) \<Rightarrow>
          (tn\<lparr>tn_session := release_db (tn_session tn), tn_provider := p,
              tn_usage := (case x of Inl _ \<Rightarrow> tn_usage tn | Inr r \<Rightarrow> add_usage (tn_usage tn) (r_usage r))\<rparr>, x))"

definition rstrip :: "string \<Rightarrow> string" where
  "rstrip s = rev (dropWhile is_space (rev s))"

definition STOP_REASON_NOTICES :: "string option \<Rightarrow> string option" where
  "STOP_REASON_NOTICES stop =
     (if stop = Some ''max_tokens'' then Some (blank_line @
        ''_This reply was cut off because it reached the response size limit. '' @
        ''Ask for the remainder, or narrow the question._'')
      else if stop = Some ''refusal'' then Some (
        ''_This request was declined by the model's safety system. '' @
        ''Rephrasing it, or splitting it into smaller steps, usually helps._'')
      else None)"

definition annotate_incomplete :: "string \<Rightarrow> string option \<Rightarrow> string" where
  "annotate_incomplete content stop =
     (case STOP_REASON_NOTICES stop of None \<Rightarrow> content | Some notice \<Rightarrow> rstrip content @ notice)"

definition TOOL_BUDGET_EXHAUSTED :: string where
  "TOOL_BUDGET_EXHAUSTED =
     ''You have used all the tool calls available for this turn. Do not '' @
     ''request any more. Give your complete answer now, using only what you '' @
     ''have already gathered. If you were part-way through verifying '' @
     ''something, say plainly which parts you confirmed and which you did '' @
     ''not, so the reader knows what still needs checking. Never present '' @
     ''unverified work as verified.''"

definition assistant_calls :: "string \<Rightarrow> tool_call list \<Rightarrow> chat_message" where
  "assistant_calls content calls =
     \<lparr>cm_role = RoleAssistant, cm_content = content, cm_attachments = [], cm_tool_calls = calls,
      cm_tool_results = []\<rparr>"

definition user_results :: "tool_result list \<Rightarrow> chat_message" where
  "user_results results =
     \<lparr>cm_role = RoleUser, cm_content = [], cm_attachments = [], cm_tool_calls = [],
      cm_tool_results = results\<rparr>"

definition push_history :: "chat_message \<Rightarrow> ('w, 'p, 'z) turn_scheme \<Rightarrow> ('w, 'p, 'z) turn_scheme" where
  "push_history m tn = tn\<lparr>tn_history := tn_history tn @ [m]\<rparr>"

section \<open>The loop of a plain request\<close>

definition wants_tools :: "string option \<Rightarrow> tool_call list \<Rightarrow> bool" where
  "wants_tools stop calls \<longleftrightarrow> stop = Some ''tool_use'' \<and> calls \<noteq> []"

definition run_tool_round :: "('w, 'p) turn_setup \<Rightarrow> chat_response \<Rightarrow> ('w, 'p) turn \<Rightarrow> ('w, 'p) turn" where
  "run_tool_round su r tn =
     (case execute_tool_calls (su_env su) (su_context su) (r_tool_calls r) (working (tn_session tn)) of
        (d, results) \<Rightarrow>
          push_history (user_results results)
            (push_history (assistant_calls (r_content r) (r_tool_calls r))
              (tn\<lparr>tn_session := (tn_session tn)\<lparr>working := d\<rparr>,
                  tn_text := tn_text tn @
                    (if strip (r_content r) = [] then [] else [strip (r_content r)])\<rparr>)))"

fun tool_rounds :: "('w, 'p) turn_setup \<Rightarrow> nat \<Rightarrow> ('w, 'p) turn \<Rightarrow> ('w, 'p) turn \<times> chat_response result" where
  "tool_rounds su 0 tn = ask su [] (push_history (plain_message RoleUser TOOL_BUDGET_EXHAUSTED) tn)"
| "tool_rounds su (Suc n) tn =
     (case ask su (su_tools su) tn of
        (tn1, Inl e) \<Rightarrow> (tn1, Inl e)
      | (tn1, Inr r) \<Rightarrow>
          if \<not> wants_tools (r_stop_reason r) (r_tool_calls r)
          then (tn1, Inr (r\<lparr>r_content := annotate_incomplete (r_content r) (r_stop_reason r)\<rparr>))
          else tool_rounds su n (run_tool_round su r tn1))"

definition run_tool_loop :: "('w, 'p) turn_setup \<Rightarrow> int \<Rightarrow> ('w, 'p) turn \<Rightarrow> ('w, 'p) turn \<times> chat_response result" where
  "run_tool_loop su max_rounds tn =
     (case tool_rounds su (nat max_rounds) tn of
        (tn1, Inl e) \<Rightarrow> (tn1, Inl e)
      | (tn1, Inr r) \<Rightarrow>
          (tn1, Inr (if tn_text tn1 = [] then r
                     else r\<lparr>r_content := strip (join_with blank_line (tn_text tn1 @ [r_content r]))\<rparr>)))"

section \<open>The requests\<close>

text \<open>
  The rest of what a turn is given: the connections of the organization and their
  circuit breakers (\<open>Resilience\<close>), approved memories, attachment processing, the
  personas of \<open>ai/prompts\<close>, task memory (\<open>task_memory_service\<close>) and the calendar.
\<close>

record 'w turn_env =
  te_tools :: "'w ai_env"
  te_connections :: "uuid \<Rightarrow> 'w \<Rightarrow> uuid list"
  te_environment :: "uuid \<Rightarrow> uuid \<Rightarrow> 'w \<Rightarrow> string option result"
  te_circuit_open :: "uuid \<Rightarrow> bool"
  te_memory :: "uuid \<Rightarrow> uuid list \<Rightarrow> 'w \<Rightarrow> string option"
  te_attachments :: "attachment list \<Rightarrow> attachment list \<times> string"
  te_get_agent :: "string \<Rightarrow> agent_persona option"
  te_begin_task :: "uuid \<Rightarrow> uuid \<Rightarrow> string \<Rightarrow> 'w \<Rightarrow> ('w \<times> string option) result"
  te_end_task :: "uuid \<Rightarrow> uuid \<Rightarrow> string \<Rightarrow> 'w \<Rightarrow> 'w result"
  te_prompt_text :: "prompt \<Rightarrow> string"
  te_start_of_month :: "time \<Rightarrow> time"

text \<open>The body of a chat request, with the signed-in user, the time and fresh row ids.\<close>

record chat_body =
  cb_organization_id :: uuid
  cb_user_id :: uuid
  cb_message :: string
  cb_conversation_id :: "uuid option"
  cb_model :: "string option"
  cb_system :: "string option"
  cb_enable_tools :: bool
  cb_agent :: "string option"
  cb_attachments :: "attachment list"
  cb_connection_id :: "uuid option"
  cb_now :: time
  cb_new_conversation :: uuid
  cb_new_user_message :: uuid
  cb_new_answer :: uuid

definition route :: "ai_settings \<Rightarrow> 'w turn_env \<Rightarrow> chat_body \<Rightarrow> 'w \<Rightarrow> route_decision result" where
  "route cfg env b w =
     bind_result
       (case cb_connection_id b of
          None \<Rightarrow> Inr None
        | Some c \<Rightarrow>
            (case te_environment env c (cb_organization_id b) w of
               Inl NotFound \<Rightarrow> Inr None
             | x \<Rightarrow> x))
       (\<lambda>environment. decide cfg (cb_model b) (cb_agent b) environment
          (sum_list (map (length \<circ> at_data) (cb_attachments b))))"

definition find_persona :: "'w turn_env \<Rightarrow> string option \<Rightarrow> agent_persona option result" where
  "find_persona env agent =
     (case agent of
        None \<Rightarrow> Inr None
      | Some a \<Rightarrow> (case te_get_agent env a of None \<Rightarrow> Inl Validation | Some p \<Rightarrow> Inr (Some p)))"

text \<open>
  From the persona to the system prompt: the common part of \<open>_chat_turn\<close> and
  \<open>_stream_turn\<close>. The user's message is stored, the task memory begins its turn.
\<close>

definition prepare_turn ::
  "ai_settings \<Rightarrow> 'w turn_env \<Rightarrow> (prompt, 'p) provider \<Rightarrow> 'p \<Rightarrow> chat_body \<Rightarrow> route_decision \<Rightarrow>
     'w ai_session \<Rightarrow> 'w ai_session \<times> (('w, 'p) turn_setup \<times> agent_persona option \<times> ('w, 'p) turn) result" where
  "prepare_turn cfg env prov p b rd s =
     (case bind_result (find_persona env (cb_agent b)) (\<lambda>persona.
             bind_result
               (get_or_create_conversation (cb_new_conversation b) (cb_organization_id b) (cb_user_id b)
                  (cb_conversation_id b) (cb_message b) (working s))
               (\<lambda>(d, c). Inr (persona, d, c))) of
        Inl e \<Rightarrow> (s, Inl e)
      | Inr (persona, d, c) \<Rightarrow>
          let (for_ai, persisted, native) =
                prepare_user_message (te_attachments env) (cb_message b) (cb_attachments b);
              history = build_history (cv_id c) d @
                [(plain_message RoleUser for_ai)\<lparr>cm_attachments := native\<rparr>];
              d1 = create_message \<lparr>am_id = cb_new_user_message b, am_conversation_id = cv_id c,
                     am_role = RoleUser, am_content = persisted\<rparr> d;
              s1 = s\<lparr>working := d1\<rparr>
          in (case te_begin_task env (cv_id c) (cb_user_id b) (cb_message b) (world d1) of
                Inl e \<Rightarrow> (s1, Inl e)
              | Inr (w, task_context) \<Rightarrow>
                  let conns = reachable (te_circuit_open env) (te_connections env (cb_organization_id b) w)
                        (cb_connection_id b);
                      prompt = build_tool_system_prompt (TM1_MODE cfg) conns
                        (te_memory env (cb_organization_id b) (snd conns) w) task_context
                        (base_system (cb_system b) persona (cb_enable_tools b)) persona;
                      allowed = resolve_allowed_tools persona (cb_enable_tools b);
                      s2 = s1\<lparr>working := d1\<lparr>world := w\<rparr>\<rparr>
                  in (s2, Inr (
                       \<lparr>su_env = te_tools env,
                        su_context = \<lparr>cx_organization_id = cb_organization_id b, cx_user_id = cb_user_id b,
                          cx_conversation_id = cv_id c, cx_allowed_tools = allowed,
                          cx_agent = map_option ps_name persona\<rparr>,
                        su_provider = prov, su_fallback = rd_fallback_model rd, su_model = rd_model rd,
                        su_prompt = prompt, su_prompt_text = te_prompt_text env prompt,
                        su_tools = tool_names cfg (te_tools env) allowed,
                        su_enable_tools = (cb_enable_tools b \<or> cb_agent b \<noteq> None)\<rparr>,
                       persona,
                       \<lparr>tn_session = s2, tn_provider = (p, False), tn_history = history,
                        tn_usage = no_usage, tn_text = []\<rparr>))))"

definition usage_row ::
  "('w, 'p) turn_setup \<Rightarrow> route_decision \<Rightarrow> chat_body \<Rightarrow> bool \<Rightarrow> usage \<Rightarrow> ai_usage" where
  "usage_row su rd b fell_back u =
     (let model = model_used (su_model su) (su_fallback su) fell_back in
      \<lparr>au_conversation_id = cx_conversation_id (su_context su), au_message_id = Some (cb_new_answer b),
       au_organization_id = cb_organization_id b, au_user_id = cb_user_id b, au_model = model,
       au_prompt_tokens = us_input_tokens u, au_completion_tokens = us_output_tokens u,
       au_total_tokens = total_tokens u, au_cache_creation_tokens = us_cache_creation u,
       au_cache_read_tokens = us_cache_read u, au_estimated_cost_usd = estimate_cost model u,
       au_agent = cx_agent (su_context su), au_tier = rd_tier rd, au_fell_back = fell_back,
       au_created_at = cb_now b\<rparr>)"

text \<open>The answer, its usage and its audit row; then the task memory ends its turn.\<close>

definition finish_turn ::
  "'w turn_env \<Rightarrow> ('w, 'p) turn_setup \<Rightarrow> route_decision \<Rightarrow> chat_body \<Rightarrow> string \<Rightarrow> bool \<Rightarrow> usage \<Rightarrow> string \<Rightarrow>
     'w ai_session \<Rightarrow> 'w ai_session \<times> unit result" where
  "finish_turn env su rd b action fell_back u answer s =
     (let i = cx_conversation_id (su_context su);
          s1 = on_working (create_message \<lparr>am_id = cb_new_answer b, am_conversation_id = i,
                 am_role = RoleAssistant, am_content = answer\<rparr>) s;
          s2 = on_working (create_usage (usage_row su rd b fell_back u)) s1;
          s3 = on_working (audit_log (cb_user_id b) action) s2
      in (case te_end_task env i (cb_user_id b) answer (world (working s3)) of
            Inl e \<Rightarrow> (s3, Inl e)
          | Inr w \<Rightarrow> (on_working (\<lambda>d. d\<lparr>world := w\<rparr>) s3, Inr ())))"

definition chat_turn ::
  "ai_settings \<Rightarrow> 'w turn_env \<Rightarrow> (prompt, 'p) provider \<Rightarrow> 'p \<Rightarrow> chat_body \<Rightarrow> route_decision \<Rightarrow>
     'w ai_session \<Rightarrow> 'w ai_session \<times> (string \<times> usage) result" where
  "chat_turn cfg env prov p b rd s =
     (case prepare_turn cfg env prov p b rd s of
        (s1, Inl e) \<Rightarrow> (s1, Inl e)
      | (s1, Inr (su, persona, tn)) \<Rightarrow>
          (case run_tool_loop su (resolve_max_tool_rounds persona) tn of
             (tn1, Inl e) \<Rightarrow> (tn_session tn1, Inl e)
           | (tn1, Inr r) \<Rightarrow>
               (case finish_turn env su rd b ''chat'' (snd (tn_provider tn1)) (tn_usage tn1)
                       (r_content r) (tn_session tn1) of
                  (s2, Inl e) \<Rightarrow> (s2, Inl e)
                | (s2, Inr _) \<Rightarrow> (s2, Inr (r_content r, tn_usage tn1)))))"

text \<open>\<open>get_db\<close> around the request: commit, or roll back and re-raise.\<close>

definition end_request :: "'w ai_session \<times> 'a result \<Rightarrow> 'w ai_db \<times> 'a result" where
  "end_request sr =
     (case snd sr of Inl e \<Rightarrow> (committed (fst sr), Inl e) | Inr a \<Rightarrow> (working (fst sr), Inr a))"

definition chat ::
  "ai_settings \<Rightarrow> 'w turn_env \<Rightarrow> (prompt, 'p) provider \<Rightarrow> 'p \<Rightarrow> chat_body \<Rightarrow> inflight \<times> 'w ai_session \<Rightarrow>
     (inflight \<times> 'w ai_session) \<times> (string \<times> usage) result" where
  "chat cfg env prov p b ts =
     (case ts of (t, s) \<Rightarrow>
        (case bind_result (route cfg env b (world (working s))) (\<lambda>rd.
                bind_result (check_usage_quota cfg (te_start_of_month env) t (cb_now b)
                  (cb_organization_id b) (working s)) (\<lambda>_. Inr rd)) of
           Inl e \<Rightarrow> ((t, s), Inl e)
         | Inr rd \<Rightarrow>
             (case chat_turn cfg env prov p b rd s of
                (s1, x) \<Rightarrow> ((end_turn (cb_organization_id b) (begin_turn (cb_organization_id b) t), s1), x))))"

definition chat_endpoint ::
  "ai_settings \<Rightarrow> 'w turn_env \<Rightarrow> (prompt, 'p) provider \<Rightarrow> 'p \<Rightarrow> chat_body \<Rightarrow> inflight \<times> 'w ai_db \<Rightarrow>
     (inflight \<times> 'w ai_db) \<times> (string \<times> usage) result" where
  "chat_endpoint cfg env prov p b td =
     (case chat cfg env prov p b (fst td, \<lparr>working = snd td, committed = snd td\<rparr>) of
        ((t, s), x) \<Rightarrow> (case end_request (s, x) of (d, y) \<Rightarrow> ((t, d), y)))"

end
