(* ===== verification/StreamTurn.thy ===== *)
theory StreamTurn
  imports ChatTurn
begin

text \<open>
  \<open>stream_chat\<close> and \<open>_stream_turn\<close> of \<open>ai/orchestrator.py\<close>: the tool loop as the
  events the client receives. The client may close the stream at any event
  (\<open>client = Some n\<close>: at the \<open>n\<close>-th), and the provider may raise after any of its
  events; both cut the turn, and the cut turn is accounted for in a session of its
  own. A cancellation while a tool runs is not modelled.
\<close>

section \<open>Events and cuts\<close>

datatype out_event =
    StartEvent uuid
  | RouteEvent string
  | TextEvent string
  | ToolCallEvent string bool
  | DoneEvent uuid usage

datatype cut = Closed | Raised exn

record ('w, 'p) stream_turn = "('w, 'p) turn" +
  sn_events :: "out_event list"
  sn_streamed :: string
  sn_in_flight :: string
  sn_round_in_flight :: bool
  sn_last_usage :: "usage option"

text \<open>A \<open>yield\<close>: the client has the event, and may be gone.\<close>

definition emit :: "nat option \<Rightarrow> out_event \<Rightarrow> ('w, 'p) stream_turn \<Rightarrow> ('w, 'p) stream_turn \<times> (cut + unit)" where
  "emit client ev st =
     (st\<lparr>sn_events := sn_events st @ [ev]\<rparr>,
      if client = Some (Suc (length (sn_events st))) then Inl Closed else Inr ())"

section \<open>One round\<close>

record round_state =
  rn_text :: string
  rn_usage :: "usage option"
  rn_tool_calls :: "tool_call list"
  rn_stop_reason :: "string option"

definition new_round :: round_state where
  "new_round = \<lparr>rn_text = [], rn_usage = None, rn_tool_calls = [], rn_stop_reason = None\<rparr>"

definition charge :: "usage option \<Rightarrow> ('w, 'p) stream_turn \<Rightarrow> ('w, 'p) stream_turn" where
  "charge u st =
     (case u of None \<Rightarrow> st
      | Some v \<Rightarrow> st\<lparr>tn_usage := add_usage (tn_usage st) v, sn_last_usage := Some v\<rparr>)"

text \<open>
  The \<open>async for\<close> over the provider's events. The round forced after the budget
  (\<open>last\<close>) charges the usage as it is reported, the others when the round is over.
\<close>

fun take_events ::
  "nat option \<Rightarrow> bool \<Rightarrow> stream_event list \<Rightarrow> round_state \<Rightarrow> ('w, 'p) stream_turn \<Rightarrow>
     ('w, 'p) stream_turn \<times> (cut + round_state)" where
  "take_events client forced [] rd st = (st, Inr rd)"
| "take_events client forced (TextDelta t # es) rd st =
     (case emit client (TextEvent t)
             (st\<lparr>sn_streamed := sn_streamed st @ t, sn_in_flight := sn_in_flight st @ t\<rparr>) of
        (st1, Inl c) \<Rightarrow> (st1, Inl c)
      | (st1, Inr _) \<Rightarrow> take_events client forced es (rd\<lparr>rn_text := rn_text rd @ t\<rparr>) st1)"
| "take_events client forced (MessageStop u calls stop # es) rd st =
     take_events client forced es
       (rd\<lparr>rn_usage := u, rn_tool_calls := calls, rn_stop_reason := stop\<rparr>)
       (if forced then charge u st else st)"

definition stream_round ::
  "nat option \<Rightarrow> ('w, 'p) turn_setup \<Rightarrow> bool \<Rightarrow> string list \<Rightarrow> ('w, 'p) stream_turn \<Rightarrow>
     ('w, 'p) stream_turn \<times> (cut + round_state)" where
  "stream_round client su forced tools st =
     (case fallback_stream (su_provider su) (su_fallback su) (request_of su tools (tn_history st)) (tn_provider st) of
        (p, events, failure) \<Rightarrow>
          (case take_events client forced events new_round
                  (st\<lparr>tn_session := release_db (tn_session st), tn_provider := p, sn_in_flight := [],
                      sn_round_in_flight := True\<rparr>) of
             (st1, Inl c) \<Rightarrow> (st1, Inl c)
           | (st1, Inr rd) \<Rightarrow>
               (case failure of
                  Some e \<Rightarrow> (st1, Inl (Raised e))
                | None \<Rightarrow>
                    (let st2 = st1\<lparr>sn_round_in_flight := False, tn_text := tn_text st1 @ [rn_text rd]\<rparr>
                     in (if forced then st2 else charge (rn_usage rd) st2, Inr rd)))))"

fun stream_tool_calls ::
  "nat option \<Rightarrow> ('w, 'p) turn_setup \<Rightarrow> tool_call list \<Rightarrow> ('w, 'p) stream_turn \<Rightarrow>
     ('w, 'p) stream_turn \<times> (cut + tool_result list)" where
  "stream_tool_calls client su [] st = (st, Inr [])"
| "stream_tool_calls client su (c # cs) st =
     (case execute_tool_call (su_env su) (su_context su) c (working (tn_session st)) of
        (d, r) \<Rightarrow>
          (case emit client (ToolCallEvent (tcl_name c) (tr_is_error r))
                  (st\<lparr>tn_session := (tn_session st)\<lparr>working := d\<rparr>\<rparr>) of
             (st1, Inl k) \<Rightarrow> (st1, Inl k)
           | (st1, Inr _) \<Rightarrow>
               (case stream_tool_calls client su cs st1 of
                  (st2, Inl k) \<Rightarrow> (st2, Inl k)
                | (st2, Inr rs) \<Rightarrow> (st2, Inr (r # rs)))))"

section \<open>The loop\<close>

fun stream_rounds ::
  "nat option \<Rightarrow> ('w, 'p) turn_setup \<Rightarrow> nat \<Rightarrow> ('w, 'p) stream_turn \<Rightarrow> ('w, 'p) stream_turn \<times> (cut + unit)" where
  "stream_rounds client su 0 st =
     (case stream_round client su True [] (push_history (plain_message RoleUser TOOL_BUDGET_EXHAUSTED) st) of
        (st1, Inl c) \<Rightarrow> (st1, Inl c)
      | (st1, Inr _) \<Rightarrow> (st1, Inr ()))"
| "stream_rounds client su (Suc n) st =
     (case stream_round client su False (su_tools su) st of
        (st1, Inl c) \<Rightarrow> (st1, Inl c)
      | (st1, Inr rd) \<Rightarrow>
          if \<not> su_enable_tools su \<or> \<not> wants_tools (rn_stop_reason rd) (rn_tool_calls rd)
          then (st1, Inr ())
          else
            (case stream_tool_calls client su (rn_tool_calls rd)
                    (push_history (assistant_calls (rn_text rd) (rn_tool_calls rd)) st1) of
               (st2, Inl c) \<Rightarrow> (st2, Inl c)
             | (st2, Inr results) \<Rightarrow> stream_rounds client su n (push_history (user_results results) st2)))"

section \<open>A turn that was cut\<close>

text \<open>The round in flight is charged an estimate: the last prompt's size and what streamed.\<close>

definition interrupted_usage :: "('w, 'p) turn_setup \<Rightarrow> ('w, 'p) stream_turn \<Rightarrow> usage" where
  "interrupted_usage su st =
     (if sn_round_in_flight st
      then let estimated_input =
             (case sn_last_usage st of
                Some u \<Rightarrow> us_input_tokens u + us_cache_creation u + us_cache_read u
              | None \<Rightarrow> estimate_tokens (su_prompt_text su @ concat (map cm_content (tn_history st))))
           in add_usage (tn_usage st)
                \<lparr>us_input_tokens = estimated_input, us_output_tokens = estimate_tokens (sn_in_flight st),
                 us_cache_creation = 0, us_cache_read = 0\<rparr>
      else tn_usage st)"

definition record_interrupted_turn ::
  "('w, 'p) turn_setup \<Rightarrow> chat_body \<Rightarrow> ('w, 'p) stream_turn \<Rightarrow> 'w ai_session" where
  "record_interrupted_turn su b st =
     (let content = sn_streamed st;
          i = cx_conversation_id (su_context su);
          u = interrupted_usage su st;
          model = model_used (su_model su) (su_fallback su) (snd (tn_provider st));
          row = \<lparr>au_conversation_id = i, au_message_id = (if content = [] then None else Some (cb_new_answer b)),
                 au_organization_id = cb_organization_id b, au_user_id = cb_user_id b, au_model = model,
                 au_prompt_tokens = us_input_tokens u, au_completion_tokens = us_output_tokens u,
                 au_total_tokens = total_tokens u, au_cache_creation_tokens = us_cache_creation u,
                 au_cache_read_tokens = us_cache_read u, au_estimated_cost_usd = estimate_cost model u,
                 au_agent = None, au_tier = None, au_fell_back = False, au_created_at = cb_now b\<rparr>
      in in_own_session
           (audit_log (cb_user_id b) ''chat_stream_interrupted'' \<circ> create_usage row \<circ>
            (if content = [] then id
             else create_message \<lparr>am_id = cb_new_answer b, am_conversation_id = i,
                    am_role = RoleAssistant, am_content = content\<rparr>))
           (tn_session st))"

section \<open>The streamed request\<close>

definition start_stream :: "('w, 'p) turn \<Rightarrow> ('w, 'p) stream_turn" where
  "start_stream tn =
     \<lparr>tn_session = tn_session tn, tn_provider = tn_provider tn, tn_history = tn_history tn,
      tn_usage = tn_usage tn, tn_text = tn_text tn, sn_events = [], sn_streamed = [],
      sn_in_flight = [], sn_round_in_flight = False, sn_last_usage = None\<rparr>"

text \<open>
  \<open>_stream_turn\<close>: the events the client received, and how the turn ended. The
  \<open>start\<close> and \<open>route\<close> events come before anything is asked; a stream closed there
  has cost nothing and records nothing.
\<close>

definition stream_turn_of ::
  "ai_settings \<Rightarrow> 'w turn_env \<Rightarrow> (prompt, 'p) provider \<Rightarrow> 'p \<Rightarrow> nat option \<Rightarrow> chat_body \<Rightarrow> route_decision \<Rightarrow>
     'w ai_session \<Rightarrow> 'w ai_session \<times> out_event list \<times> (cut + unit)" where
  "stream_turn_of cfg env prov p client b rd s =
     (case prepare_turn cfg env prov p b rd s of
        (s1, Inl e) \<Rightarrow> (s1, [], Inl (Raised e))
      | (s1, Inr (su, persona, tn)) \<Rightarrow>
          (case emit client (StartEvent (cx_conversation_id (su_context su))) (start_stream tn) of
             (st, Inl c) \<Rightarrow> (s1, sn_events st, Inl c)
           | (st, Inr _) \<Rightarrow>
          (case emit client (RouteEvent (rd_model rd)) st of
             (st1, Inl c) \<Rightarrow> (s1, sn_events st1, Inl c)
           | (st1, Inr _) \<Rightarrow>
          (case stream_rounds client su (nat (resolve_max_tool_rounds persona)) st1 of
             (st2, Inl c) \<Rightarrow> (record_interrupted_turn su b st2, sn_events st2, Inl c)
           | (st2, Inr _) \<Rightarrow>
          (case finish_turn env su rd b ''chat_stream'' (snd (tn_provider st2)) (tn_usage st2)
                  (concat (tn_text st2)) (tn_session st2) of
             (s3, Inl e) \<Rightarrow> (s3, sn_events st2, Inl (Raised e))
           | (s3, Inr _) \<Rightarrow>
          (case emit client (DoneEvent (cb_new_answer b) (tn_usage st2)) st2 of
             (st4, x) \<Rightarrow> (s3, sn_events st4, x)))))))"

definition stream_chat ::
  "ai_settings \<Rightarrow> 'w turn_env \<Rightarrow> (prompt, 'p) provider \<Rightarrow> 'p \<Rightarrow> nat option \<Rightarrow> chat_body \<Rightarrow>
     inflight \<times> 'w ai_session \<Rightarrow> (inflight \<times> 'w ai_session) \<times> out_event list \<times> (cut + unit)" where
  "stream_chat cfg env prov p client b ts =
     (case ts of (t, s) \<Rightarrow>
        (case bind_result (route cfg env b (world (working s))) (\<lambda>rd.
                bind_result (check_usage_quota cfg (te_start_of_month env) t (cb_now b)
                  (cb_organization_id b) (working s)) (\<lambda>_. Inr rd)) of
           Inl e \<Rightarrow> ((t, s), [], Inl (Raised e))
         | Inr rd \<Rightarrow>
             (case stream_turn_of cfg env prov p client b rd s of
                (s1, x) \<Rightarrow> ((end_turn (cb_organization_id b) (begin_turn (cb_organization_id b) t), s1), x))))"

text \<open>
  \<open>chat_stream\<close> turns a provider error, a refused validation and a spent quota into
  an error event, after which \<open>get_db\<close> commits; any other exception rolls back. What
  the framework does with the session of a closed stream is \<open>commit_on_close\<close>.
\<close>

definition reported_in_stream :: "exn \<Rightarrow> bool" where
  "reported_in_stream e \<longleftrightarrow>
     (case e of AIProvider _ \<Rightarrow> True | AIProviderRateLimit \<Rightarrow> True | AIProviderAuthentication \<Rightarrow> True
      | Validation \<Rightarrow> True | QuotaExceeded \<Rightarrow> True | _ \<Rightarrow> False)"

definition chat_stream_request ::
  "ai_settings \<Rightarrow> 'w turn_env \<Rightarrow> (prompt, 'p) provider \<Rightarrow> 'p \<Rightarrow> bool \<Rightarrow> nat option \<Rightarrow> chat_body \<Rightarrow>
     inflight \<times> 'w ai_db \<Rightarrow> (inflight \<times> 'w ai_db) \<times> out_event list \<times> (cut + unit)" where
  "chat_stream_request cfg env prov p commit_on_close client b td =
     (case stream_chat cfg env prov p client b (fst td, \<lparr>working = snd td, committed = snd td\<rparr>) of
        ((t, s), events, x) \<Rightarrow>
          ((t, (case x of
                  Inr _ \<Rightarrow> working s
                | Inl Closed \<Rightarrow> if commit_on_close then working s else committed s
                | Inl (Raised e) \<Rightarrow> if reported_in_stream e then working s else committed s)),
           events, x))"

end
