(* ===== verification/ChatProperties.thy ===== *)
theory ChatProperties
  imports StreamTurn
begin

text \<open>
  What a turn of the assistant promises: a streamed turn does what the plain request
  does, tools run only where the persona allows and on the user's behalf, the model
  is asked a bounded number of times, and a turn that is cut is still paid for.
\<close>

section \<open>A streamed turn and a plain one\<close>

text \<open>What a stream says: its text, and its last word.\<close>

fun stream_text :: "stream_event list \<Rightarrow> string" where
  "stream_text [] = []"
| "stream_text (TextDelta t # es) = t @ stream_text es"
| "stream_text (MessageStop u calls stop # es) = stream_text es"

fun stream_stops :: "stream_event list \<Rightarrow> (usage option \<times> tool_call list \<times> string option) list" where
  "stream_stops [] = []"
| "stream_stops (TextDelta t # es) = stream_stops es"
| "stream_stops (MessageStop u calls stop # es) = (u, calls, stop) # stream_stops es"

text \<open>The events say what the response says, in pieces, and stop once.\<close>

definition plays :: "stream_event list \<Rightarrow> chat_response \<Rightarrow> bool" where
  "plays events r \<longleftrightarrow>
     stream_text events = r_content r \<and>
     stream_stops events = [(Some (r_usage r), r_tool_calls r, r_stop_reason r)]"

text \<open>
  A provider whose two methods agree: the stream plays the response of \<open>chat\<close>, and
  fails before its first event where \<open>chat\<close> fails.
\<close>

definition streams_as_it_chats :: "('s, 'p) provider \<Rightarrow> bool" where
  "streams_as_it_chats prov \<longleftrightarrow>
     (\<forall>q p. case p_chat prov q p of
        (p', Inr r) \<Rightarrow> \<exists>events. p_stream prov q p = (p', events, None) \<and> plays events r
      | (p', Inl e) \<Rightarrow> p_stream prov q p = (p', [], Some e))"

lemma streams_cases:
  assumes "streams_as_it_chats prov"
  shows "p_chat prov q p = (p', Inr r) \<Longrightarrow> \<exists>events. p_stream prov q p = (p', events, None) \<and> plays events r"
    and "p_chat prov q p = (p', Inl e) \<Longrightarrow> p_stream prov q p = (p', [], Some e)"
proof -
  have "case p_chat prov q p of
      (p', Inr r) \<Rightarrow> \<exists>events. p_stream prov q p = (p', events, None) \<and> plays events r
    | (p', Inl e) \<Rightarrow> p_stream prov q p = (p', [], Some e)"
    using assms by (simp add: streams_as_it_chats_def)
  then show "p_chat prov q p = (p', Inr r) \<Longrightarrow> \<exists>events. p_stream prov q p = (p', events, None) \<and> plays events r"
    and "p_chat prov q p = (p', Inl e) \<Longrightarrow> p_stream prov q p = (p', [], Some e)"
    by simp_all
qed

lemma plays_not_Nil: "plays events r \<Longrightarrow> events \<noteq> []"
  by (auto simp: plays_def)

lemma fallback_streams:
  assumes s: "streams_as_it_chats prov"
  shows "fallback_chat prov fb q st = (st', Inr r) \<Longrightarrow>
      \<exists>events. fallback_stream prov fb q st = (st', events, None) \<and> plays events r"
    and "fallback_chat prov fb q st = (st', Inl e) \<Longrightarrow> fallback_stream prov fb q st = (st', [], Some e)"
proof -
  obtain p b where st: "st = (p, b)" by (cases st)
  obtain p1 x1 where c1: "p_chat prov (switch fb b q) p = (p1, x1)" by (cases "p_chat prov (switch fb b q) p")
  obtain p2 x2 where c2: "p_chat prov (switch fb True q) p1 = (p2, x2)" by (cases "p_chat prov (switch fb True q) p1")
  note cs = streams_cases [OF s]
  show "fallback_chat prov fb q st = (st', Inr r) \<Longrightarrow>
      \<exists>events. fallback_stream prov fb q st = (st', events, None) \<and> plays events r"
    using cs(1) [of "switch fb b q" p] cs(2) [of "switch fb b q" p] cs(1) [OF c2 [THEN trans]] c1 c2
      cs(1) [of "switch fb True q" p1]
    by (cases x1; cases x2) (auto simp: st fallback_chat_def fallback_stream_def split: if_splits)
  show "fallback_chat prov fb q st = (st', Inl e) \<Longrightarrow> fallback_stream prov fb q st = (st', [], Some e)"
    using cs(2) [of "switch fb b q" p] c1 c2 cs(2) [of "switch fb True q" p1]
    by (cases x1; cases x2) (auto simp: st fallback_chat_def fallback_stream_def split: if_splits)
qed

text \<open>The two turns agree on everything but how the text of the rounds is kept.\<close>

definition same_turn :: "('w, 'p) turn \<Rightarrow> ('w, 'p) stream_turn \<Rightarrow> bool" where
  "same_turn tn st \<longleftrightarrow>
     tn_session st = tn_session tn \<and> tn_provider st = tn_provider tn \<and>
     tn_history st = tn_history tn \<and> tn_usage st = tn_usage tn"

lemma emit_stays [simp]: "emit None ev st = (st\<lparr>sn_events := sn_events st @ [ev]\<rparr>, Inr ())"
  by (simp add: emit_def)

fun round_of :: "round_state \<Rightarrow> stream_event list \<Rightarrow> round_state" where
  "round_of rd [] = rd"
| "round_of rd (TextDelta t # es) = round_of (rd\<lparr>rn_text := rn_text rd @ t\<rparr>) es"
| "round_of rd (MessageStop u calls stop # es) =
     round_of (rd\<lparr>rn_usage := u, rn_tool_calls := calls, rn_stop_reason := stop\<rparr>) es"

lemma round_of_unstopped: "stream_stops es = [] \<Longrightarrow> round_of rd es = rd\<lparr>rn_text := rn_text rd @ stream_text es\<rparr>"
  by (induction es arbitrary: rd rule: stream_text.induct) auto

lemma round_of_stopped:
  "stream_stops es = [(u, calls, stop)] \<Longrightarrow>
     round_of rd es = rd\<lparr>rn_text := rn_text rd @ stream_text es, rn_usage := u, rn_tool_calls := calls,
       rn_stop_reason := stop\<rparr>"
  by (induction es arbitrary: rd rule: stream_text.induct) (auto simp: round_of_unstopped)

definition with_usage :: "bool \<Rightarrow> (usage option \<times> tool_call list \<times> string option) list \<Rightarrow> usage \<Rightarrow> usage" where
  "with_usage forced stops u =
     (if forced then fold (\<lambda>(v, _) w. case v of None \<Rightarrow> w | Some v \<Rightarrow> add_usage w v) stops u else u)"

lemma take_events_stays:
  "\<exists>st'. take_events None forced es rd st = (st', Inr (round_of rd es)) \<and>
     tn_session st' = tn_session st \<and> tn_provider st' = tn_provider st \<and> tn_history st' = tn_history st \<and>
     tn_usage st' = with_usage forced (stream_stops es) (tn_usage st) \<and> tn_text st' = tn_text st"
proof (induction es arbitrary: rd st rule: stream_text.induct)
  case 1
  then show ?case by (simp add: with_usage_def)
next
  case (2 t es)
  from 2 [of "rd\<lparr>rn_text := rn_text rd @ t\<rparr>"
      "st\<lparr>sn_streamed := sn_streamed st @ t, sn_in_flight := sn_in_flight st @ t,
         sn_events := sn_events st @ [TextEvent t]\<rparr>"]
  show ?case by auto
next
  case (3 u calls stop es)
  from 3 [of "rd\<lparr>rn_usage := u, rn_tool_calls := calls, rn_stop_reason := stop\<rparr>" "if forced then charge u st else st"]
  show ?case
    by (cases u) (auto simp: charge_def with_usage_def)
qed

definition stream_outcome :: "chat_response result \<Rightarrow> cut + unit" where
  "stream_outcome x = (case x of Inl e \<Rightarrow> Inl (Raised e) | Inr _ \<Rightarrow> Inr ())"

lemma stream_outcome_simps [simp]:
  "stream_outcome (Inl e) = Inl (Raised e)" "stream_outcome (Inr r) = Inr ()"
  by (simp_all add: stream_outcome_def)

lemma same_turn_push [simp]:
  "same_turn tn st \<Longrightarrow> same_turn (push_history m tn) (push_history m st)"
  by (simp add: same_turn_def push_history_def)

text \<open>One question, asked both ways.\<close>

lemma ask_streams:
  assumes s: "streams_as_it_chats (su_provider su)" and same: "same_turn tn st"
    and ask: "ask su tools tn = (tn1, x)"
  obtains st1 where "same_turn tn1 st1"
    "stream_round None su forced tools st = (st1, case x of Inl e \<Rightarrow> Inl (Raised e)
       | Inr r \<Rightarrow> Inr \<lparr>rn_text = r_content r, rn_usage = Some (r_usage r),
           rn_tool_calls = r_tool_calls r, rn_stop_reason = r_stop_reason r\<rparr>)"
proof -
  obtain p y where fc: "fallback_chat (su_provider su) (su_fallback su)
      (request_of su tools (tn_history tn)) (tn_provider tn) = (p, y)"
    by (cases "fallback_chat (su_provider su) (su_fallback su) (request_of su tools (tn_history tn)) (tn_provider tn)")
  with ask have y: "y = x" and tn1: "tn1 = tn\<lparr>tn_session := release_db (tn_session tn), tn_provider := p,
      tn_usage := (case x of Inl _ \<Rightarrow> tn_usage tn | Inr r \<Rightarrow> add_usage (tn_usage tn) (r_usage r))\<rparr>"
    by (auto simp: ask_def)
  let ?st = "st\<lparr>tn_session := release_db (tn_session st), tn_provider := p, sn_in_flight := [],
      sn_round_in_flight := True\<rparr>"
  note same' = same [unfolded same_turn_def]
  show thesis
  proof (cases x)
    case (Inl e)
    with fallback_streams(2) [OF s] fc y
    have "fallback_stream (su_provider su) (su_fallback su) (request_of su tools (tn_history tn))
        (tn_provider tn) = (p, [], Some e)" by blast
    then show thesis
      using Inl same' tn1 by (intro that [of ?st]) (simp_all add: stream_round_def same_turn_def)
  next
    case (Inr r)
    with fallback_streams(1) [OF s] fc y obtain events
      where fs: "fallback_stream (su_provider su) (su_fallback su) (request_of su tools (tn_history tn))
          (tn_provider tn) = (p, events, None)" and plays: "plays events r" by blast
    from plays have rd: "round_of new_round events = \<lparr>rn_text = r_content r, rn_usage = Some (r_usage r),
        rn_tool_calls = r_tool_calls r, rn_stop_reason = r_stop_reason r\<rparr>"
      by (simp add: plays_def round_of_stopped new_round_def)
    from take_events_stays [of forced events new_round ?st] obtain st2
      where te: "take_events None forced events new_round ?st = (st2, Inr (round_of new_round events))"
        and frame: "tn_session st2 = release_db (tn_session st)" "tn_provider st2 = p"
          "tn_history st2 = tn_history st"
          "tn_usage st2 = with_usage forced (stream_stops events) (tn_usage st)" by auto
    let ?st3 = "st2\<lparr>sn_round_in_flight := False, tn_text := tn_text st2 @ [r_content r]\<rparr>"
    show thesis
      using plays fs te rd frame same' Inr tn1
      by (intro that [of "if forced then ?st3 else charge (Some (r_usage r)) ?st3"])
         (simp_all add: stream_round_def same_turn_def charge_def with_usage_def plays_def Let_def)
  qed
qed

text \<open>The calls of a round, run both ways.\<close>

lemma stream_tool_calls_stays:
  "\<exists>st'. stream_tool_calls None su calls st =
      (st', Inr (snd (execute_tool_calls (su_env su) (su_context su) calls (working (tn_session st))))) \<and>
     tn_session st' = (tn_session st)\<lparr>working :=
        fst (execute_tool_calls (su_env su) (su_context su) calls (working (tn_session st)))\<rparr> \<and>
     tn_provider st' = tn_provider st \<and> tn_history st' = tn_history st \<and> tn_usage st' = tn_usage st"
proof (induction calls arbitrary: st)
  case Nil
  then show ?case by simp
next
  case (Cons c cs)
  obtain d r where c: "execute_tool_call (su_env su) (su_context su) c (working (tn_session st)) = (d, r)"
    by fastforce
  from Cons [of "st\<lparr>tn_session := (tn_session st)\<lparr>working := d\<rparr>,
      sn_events := sn_events st @ [ToolCallEvent (tcl_name c) (tr_is_error r)]\<rparr>"] c
  show ?case by (auto split: prod.splits)
qed

text \<open>
  C6. Streamed to its end, a tool turn is the plain one: against a provider whose stream
  plays the response of its chat method, the streaming loop makes the same calls with the
  same history, runs the same tools, charges the same tokens and leaves the same session,
  and fails exactly where the plain loop does.
\<close>

theorem stream_matches_chat:
  assumes s: "streams_as_it_chats (su_provider su)" and tools: "su_enable_tools su" and same: "same_turn tn st"
  shows "\<exists>st'. stream_rounds None su n st = (st', stream_outcome (snd (tool_rounds su n tn))) \<and>
    same_turn (fst (tool_rounds su n tn)) st'"
  using same
proof (induction n arbitrary: tn st)
  case 0
  let ?m = "plain_message RoleUser TOOL_BUDGET_EXHAUSTED"
  obtain tn1 x where a: "ask su [] (push_history ?m tn) = (tn1, x)" by fastforce
  from ask_streams [OF s same_turn_push [OF 0] a, of True] obtain st1 where "same_turn tn1 st1"
    "stream_round None su True [] (push_history ?m st) = (st1, case x of Inl e \<Rightarrow> Inl (Raised e)
       | Inr r \<Rightarrow> Inr \<lparr>rn_text = r_content r, rn_usage = Some (r_usage r),
           rn_tool_calls = r_tool_calls r, rn_stop_reason = r_stop_reason r\<rparr>)" .
  with a show ?case by (auto split: sum.split)
next
  case (Suc n)
  obtain tn1 x where a: "ask su (su_tools su) tn = (tn1, x)" by fastforce
  from ask_streams [OF s Suc.prems a, of False] obtain st1 where st1: "same_turn tn1 st1"
    and sr: "stream_round None su False (su_tools su) st = (st1, case x of Inl e \<Rightarrow> Inl (Raised e)
       | Inr r \<Rightarrow> Inr \<lparr>rn_text = r_content r, rn_usage = Some (r_usage r),
           rn_tool_calls = r_tool_calls r, rn_stop_reason = r_stop_reason r\<rparr>)" .
  show ?case
  proof (cases x)
    case (Inl e)
    with a sr st1 show ?thesis by auto
  next
    case (Inr r)
    show ?thesis
    proof (cases "wants_tools (r_stop_reason r) (r_tool_calls r)")
      case False
      with a sr st1 Inr show ?thesis by auto
    next
      case True
      let ?st2 = "push_history (assistant_calls (r_content r) (r_tool_calls r)) st1"
      from stream_tool_calls_stays [of su "r_tool_calls r" ?st2] obtain st3
        where st3: "stream_tool_calls None su (r_tool_calls r) ?st2 =
            (st3, Inr (snd (execute_tool_calls (su_env su) (su_context su) (r_tool_calls r) (working (tn_session ?st2)))))"
          "tn_session st3 = (tn_session ?st2)\<lparr>working :=
            fst (execute_tool_calls (su_env su) (su_context su) (r_tool_calls r) (working (tn_session ?st2)))\<rparr>"
          "tn_provider st3 = tn_provider ?st2" "tn_history st3 = tn_history ?st2" "tn_usage st3 = tn_usage ?st2"
        by blast
      obtain d rs where ex: "execute_tool_calls (su_env su) (su_context su) (r_tool_calls r)
          (working (tn_session tn1)) = (d, rs)" by fastforce
      have "same_turn (run_tool_round su r tn1) (push_history (user_results rs) st3)"
        using st1 st3 ex by (simp add: same_turn_def run_tool_round_def push_history_def)
      from Suc.IH [OF this] a sr Inr True tools st3 st1 ex show ?thesis
        by (simp add: same_turn_def push_history_def)
    qed
  qed
qed

section \<open>What a stream leaves behind\<close>

definition tool_event :: "out_event \<Rightarrow> bool" where
  "tool_event ev \<longleftrightarrow> (case ev of ToolCallEvent _ _ \<Rightarrow> True | _ \<Rightarrow> False)"

text \<open>The text a client has received.\<close>

fun received :: "out_event list \<Rightarrow> string" where
  "received [] = []"
| "received (TextEvent t # es) = t @ received es"
| "received (_ # es) = received es"

lemma received_append [simp]: "received (xs @ ys) = received xs @ received ys"
  by (induction xs rule: received.induct) auto

lemma take_events_frame:
  assumes "take_events client forced es rd st = (st', x)"
  shows "tn_session st' = tn_session st \<and>
    (\<exists>new. sn_events st' = sn_events st @ new \<and> (\<forall>ev \<in> set new. \<not> tool_event ev) \<and>
       sn_streamed st' = sn_streamed st @ received new)"
  using assms
proof (induction es arbitrary: rd st rule: stream_text.induct)
  case 1
  then show ?case by simp
next
  case (2 t es)
  let ?st = "st\<lparr>sn_streamed := sn_streamed st @ t, sn_in_flight := sn_in_flight st @ t\<rparr>"
  show ?case
  proof (cases "client = Some (Suc (length (sn_events st)))")
    case True
    with "2.prems" show ?thesis by (auto simp: emit_def tool_event_def)
  next
    case False
    with "2.prems" have "take_events client forced es (rd\<lparr>rn_text := rn_text rd @ t\<rparr>)
        (?st\<lparr>sn_events := sn_events st @ [TextEvent t]\<rparr>) = (st', x)"
      by (simp add: emit_def)
    from "2.IH" [OF this] obtain new where "tn_session st' = tn_session st"
      "sn_events st' = sn_events st @ TextEvent t # new" "\<forall>ev \<in> set new. \<not> tool_event ev"
      "sn_streamed st' = sn_streamed st @ t @ received new" by (auto simp: emit_def)
    then show ?thesis by (intro conjI exI [of _ "TextEvent t # new"]) (auto simp: tool_event_def)
  qed
next
  case (3 u calls stop es)
  then have "take_events client forced es
      (rd\<lparr>rn_usage := u, rn_tool_calls := calls, rn_stop_reason := stop\<rparr>)
      (if forced then charge u st else st) = (st', x)" by simp
  from "3.IH" [OF this] show ?case
    by (cases u) (auto simp: charge_def split: if_splits)
qed

lemma stream_round_frame:
  assumes "stream_round client su forced tools st = (st', x)"
  shows "tn_session st' = release_db (tn_session st) \<and>
    (\<exists>new. sn_events st' = sn_events st @ new \<and> (\<forall>ev \<in> set new. \<not> tool_event ev) \<and>
       sn_streamed st' = sn_streamed st @ received new)"
proof -
  obtain p events failure where fs: "fallback_stream (su_provider su) (su_fallback su)
      (request_of su tools (tn_history st)) (tn_provider st) = (p, events, failure)"
    using prod_cases3 by blast
  let ?st = "st\<lparr>tn_session := release_db (tn_session st), tn_provider := p, sn_in_flight := [],
      sn_round_in_flight := True\<rparr>"
  obtain st1 y where te: "take_events client forced events new_round ?st = (st1, y)" by fastforce
  from take_events_frame [OF te] assms fs te show ?thesis
    by (auto simp: stream_round_def charge_def Let_def split: sum.splits option.splits if_splits)
qed

text \<open>Tools act on the world; the orchestrator's own tables are its own.\<close>

definition same_tables :: "'w ai_db \<Rightarrow> 'w ai_db \<Rightarrow> bool" where
  "same_tables d d' \<longleftrightarrow>
     ai_usages d' = ai_usages d \<and> ai_messages d' = ai_messages d \<and> organization_plans d' = organization_plans d"

lemma same_tables_refl [simp]: "same_tables d d"
  by (simp add: same_tables_def)

lemma same_tables_trans: "same_tables d d1 \<Longrightarrow> same_tables d1 d2 \<Longrightarrow> same_tables d d2"
  by (simp add: same_tables_def)

lemma same_tables_world [simp]: "same_tables d (d'\<lparr>world := w\<rparr>) = same_tables d d'"
  by (simp add: same_tables_def)

lemma same_tables_record [simp]:
  "same_tables d (record_tool_execution cx cl s t d') = same_tables d d'"
  by (simp add: same_tables_def record_tool_execution_def)

lemma same_tables_refused [simp]: "same_tables d (fst (refused cx cl t s d')) = same_tables d d'"
  by (simp add: refused_def)

lemma same_tables_fold [simp]: "same_tables d (fold_into_task env cx cl t d') = same_tables d d'"
  by (simp add: fold_into_task_def split: sum.split)

lemma execute_tool_call_tables: "same_tables d (fst (execute_tool_call env cx cl d))"
proof (cases "get_tool env (tcl_name cl)")
  case None
  then show ?thesis by (simp add: execute_tool_call_def)
next
  case (Some t)
  obtain w x where "run_tool env cx t cl (world d) = (w, x)" by fastforce
  with Some show ?thesis by (cases x) (simp_all add: execute_tool_call_def)
qed

lemma execute_tool_call_frame:
  "execute_tool_call env cx cl d = (d', r) \<Longrightarrow> same_tables d d'"
  using execute_tool_call_tables [of d env cx cl] by simp

lemma execute_tool_calls_frame:
  "execute_tool_calls env cx cls d = (d', rs) \<Longrightarrow> same_tables d d'"
  by (induction env cx cls d arbitrary: d' rs rule: execute_tool_calls.induct)
     (auto dest!: execute_tool_call_frame intro: same_tables_trans split: prod.splits)



section \<open>Properties of a whole turn\<close>

lemma create_message_usages [simp]: "ai_usages (create_message m d) = ai_usages d"
  by (simp add: create_message_def)

lemma conversation_tables:
  "get_or_create_conversation i org uid c m d = Inr (d', cv) \<Longrightarrow>
     ai_usages d' = ai_usages d \<and> tool_executions d' = tool_executions d"
  by (auto simp: get_or_create_conversation_def Let_def split: option.splits if_splits)

lemma prepare_turn_frame:
  assumes "prepare_turn cfg env prov p b rd s = (s1, x)"
  shows "ai_usages (working s1) = ai_usages (working s)"
    and "tool_executions (working s1) = tool_executions (working s)"
    and "committed s1 = committed s"
    and "x = Inr (su, persona, tn) \<Longrightarrow> tn_session tn = s1 \<and> su_provider su = prov \<and>
       su_enable_tools su = (cb_enable_tools b \<or> cb_agent b \<noteq> None) \<and> tn_provider tn = (p, False) \<and>
       find_persona env (cb_agent b) = Inr persona"
proof -
  let ?prep = "bind_result (find_persona env (cb_agent b)) (\<lambda>persona.
             bind_result
               (get_or_create_conversation (cb_new_conversation b) (cb_organization_id b) (cb_user_id b)
                  (cb_conversation_id b) (cb_message b) (working s))
               (\<lambda>(d, c). Inr (persona, d, c)))"
  have "ai_usages (working s1) = ai_usages (working s) \<and> tool_executions (working s1) = tool_executions (working s) \<and>
    committed s1 = committed s \<and>
    (x = Inr (su, persona, tn) \<longrightarrow> tn_session tn = s1 \<and> su_provider su = prov \<and>
       su_enable_tools su = (cb_enable_tools b \<or> cb_agent b \<noteq> None) \<and> tn_provider tn = (p, False) \<and>
       find_persona env (cb_agent b) = Inr persona)"
  proof (cases ?prep)
    case (Inl e)
    with assms show ?thesis by (auto simp: prepare_turn_def)
  next
    case (Inr y)
    obtain q d c where y: "y = (q, d, c)" using prod_cases3 by blast
    from Inr y have q: "find_persona env (cb_agent b) = Inr q"
      and gc: "get_or_create_conversation (cb_new_conversation b) (cb_organization_id b) (cb_user_id b)
          (cb_conversation_id b) (cb_message b) (working s) = Inr (d, c)"
      by (auto simp: bind_result_Inr_iff)
    obtain m1 m2 m3 where m: "prepare_user_message (te_attachments env) (cb_message b) (cb_attachments b) = (m1, m2, m3)"
      using prod_cases3 by blast
    let ?d1 = "create_message \<lparr>am_id = cb_new_user_message b, am_conversation_id = cv_id c,
                     am_role = RoleUser, am_content = m2\<rparr> d"
    show ?thesis
    proof (cases "te_begin_task env (cv_id c) (cb_user_id b) (cb_message b) (world ?d1)")
      case (Inl e)
      with assms \<open>?prep = Inr y\<close> y m conversation_tables [OF gc] show ?thesis
        by (auto simp: prepare_turn_def Let_def create_message_def)
    next
      case (Inr wt)
      obtain w t where wt: "wt = (w, t)" by fastforce
      from Inr wt assms \<open>?prep = Inr y\<close> y m q conversation_tables [OF gc] show ?thesis
        by (auto simp: prepare_turn_def Let_def create_message_def)
    qed
  qed
  then show "ai_usages (working s1) = ai_usages (working s)" "tool_executions (working s1) = tool_executions (working s)"
    "committed s1 = committed s"
    "x = Inr (su, persona, tn) \<Longrightarrow> tn_session tn = s1 \<and> su_provider su = prov \<and>
       su_enable_tools su = (cb_enable_tools b \<or> cb_agent b \<noteq> None) \<and> tn_provider tn = (p, False) \<and>
       find_persona env (cb_agent b) = Inr persona"
    by blast+
qed

text \<open>How a streamed turn can end once the model may have been asked.\<close>

lemma stream_turn_cases:
  assumes run: "stream_turn_of cfg env prov p client b rd s = (s', events, x)"
  obtains
    (unprepared) e s1 where "prepare_turn cfg env prov p b rd s = (s1, Inl e)" "s' = s1" "events = []" "x = Inl (Raised e)"
  | (early) s1 su persona tn where "prepare_turn cfg env prov p b rd s = (s1, Inr (su, persona, tn))" "s' = s1"
      "x = Inl Closed" "events = [StartEvent (cx_conversation_id (su_context su))] \<or>
        events = [StartEvent (cx_conversation_id (su_context su)), RouteEvent (rd_model rd)]"
  | (asked) s1 su persona tn st1 st2 y where
      "prepare_turn cfg env prov p b rd s = (s1, Inr (su, persona, tn))"
      "st1 = (start_stream tn)\<lparr>sn_events :=
        [StartEvent (cx_conversation_id (su_context su)), RouteEvent (rd_model rd)]\<rparr>"
      "stream_rounds client su (nat (resolve_max_tool_rounds persona)) st1 = (st2, y)"
      "case y of Inl c \<Rightarrow> s' = record_interrupted_turn su b st2 \<and> events = sn_events st2 \<and> x = Inl c
       | Inr _ \<Rightarrow> s' = fst (finish_turn env su rd b ''chat_stream'' (snd (tn_provider st2)) (tn_usage st2)
             (concat (tn_text st2)) (tn_session st2)) \<and>
           (case snd (finish_turn env su rd b ''chat_stream'' (snd (tn_provider st2)) (tn_usage st2)
             (concat (tn_text st2)) (tn_session st2)) of
              Inl e \<Rightarrow> events = sn_events st2 \<and> x = Inl (Raised e)
            | Inr _ \<Rightarrow> events = sn_events st2 @ [DoneEvent (cb_new_answer b) (tn_usage st2)])"
proof -
  obtain s1 z where prep: "prepare_turn cfg env prov p b rd s = (s1, z)" by fastforce
  show thesis
  proof (cases z)
    case (Inl e)
    with run prep show thesis by (intro unprepared) (auto simp: stream_turn_of_def)
  next
    case (Inr t)
    obtain su persona tn where t: "t = (su, persona, tn)" using prod_cases3 by blast
    note prep' = prep [unfolded Inr t]
    let ?e1 = "StartEvent (cx_conversation_id (su_context su))" and ?e2 = "RouteEvent (rd_model rd)"
    let ?st1 = "(start_stream tn)\<lparr>sn_events := [?e1, ?e2]\<rparr>"
    show thesis
    proof (cases "client = Some 1 \<or> client = Some 2")
      case True
      with run prep' show thesis
        by (intro early [OF prep']) (auto simp: stream_turn_of_def emit_def start_stream_def)
    next
      case False
      obtain st2 y where sr: "stream_rounds client su (nat (resolve_max_tool_rounds persona)) ?st1 = (st2, y)"
        by fastforce
      let ?f = "finish_turn env su rd b ''chat_stream'' (snd (tn_provider st2)) (tn_usage st2)
             (concat (tn_text st2)) (tn_session st2)"
      obtain s3 f where fin: "?f = (s3, f)" by fastforce
      have body: "stream_turn_of cfg env prov p client b rd s =
        (case (st2, y) of
             (st2, Inl c) \<Rightarrow> (record_interrupted_turn su b st2, sn_events st2, Inl c)
           | (st2, Inr _) \<Rightarrow>
          (case ?f of
             (s3, Inl e) \<Rightarrow> (s3, sn_events st2, Inl (Raised e))
           | (s3, Inr _) \<Rightarrow>
          (case emit client (DoneEvent (cb_new_answer b) (tn_usage st2)) st2 of
             (st4, x) \<Rightarrow> (s3, sn_events st4, x))))"
        using False prep' sr
        by (cases y) (simp_all add: stream_turn_of_def emit_def start_stream_def numeral_2_eq_2)
      show thesis
        using run body fin
        by (intro asked [OF prep' refl sr]) (cases y; cases f; auto simp: emit_def)
    qed
  qed
qed


text \<open>Without tools enabled the loop is over after one question.\<close>

lemma stream_rounds_once:
  assumes "\<not> su_enable_tools su" "stream_rounds client su (Suc n) st = (st', x)"
  shows "tn_session st' = release_db (tn_session st) \<and>
    (\<exists>new. sn_events st' = sn_events st @ new \<and> (\<forall>ev \<in> set new. \<not> tool_event ev))"
proof -
  obtain st1 y where r: "stream_round client su False (su_tools su) st = (st1, y)" by fastforce
  with assms have "st' = st1" by (auto split: sum.splits)
  with stream_round_frame [OF r] show ?thesis by auto
qed

lemma finish_turn_executions [simp]:
  "tool_executions (working (fst (finish_turn env su rd b a f u t s))) = tool_executions (working s)"
  by (simp add: finish_turn_def Let_def on_working_def create_message_def create_usage_def audit_log_def
      split: sum.split)

theorem plain_stream_never_runs_a_tool:
  assumes plain: "\<not> cb_enable_tools b" "cb_agent b = None"
    and run: "stream_turn_of cfg env prov p client b rd s = (s', events, x)"
  shows "tool_executions (working s') = tool_executions (working s) \<and> (\<forall>ev \<in> set events. \<not> tool_event ev)"
  using run
proof (cases rule: stream_turn_cases)
  case (unprepared e s1)
  with prepare_turn_frame [OF unprepared(1)] show ?thesis by simp
next
  case (early s1 su persona tn)
  with prepare_turn_frame(2) [OF early(1)] show ?thesis by (auto simp: tool_event_def)
next
  case (asked s1 su persona tn st1 st2 y)
  note prep = prepare_turn_frame [OF asked(1)]
  from prep(4) [OF refl] plain have off: "\<not> su_enable_tools su" and none: "persona = None"
    and sess: "tn_session st1 = s1" using asked(2) by (simp_all add: start_stream_def find_persona_def)
  from none have "nat (resolve_max_tool_rounds persona) = Suc 4"
    by (simp add: resolve_max_tool_rounds_def MAX_TOOL_ROUNDS_def)
  with asked(3) have "stream_rounds client su (Suc 4) st1 = (st2, y)" by metis
  from stream_rounds_once [OF off this] sess have st2: "tn_session st2 = release_db s1"
    "\<exists>new. sn_events st2 = sn_events st1 @ new \<and> (\<forall>ev \<in> set new. \<not> tool_event ev)" by blast+
  then have "\<forall>ev \<in> set (sn_events st2). \<not> tool_event ev"
    using asked(2) by (auto simp: tool_event_def)
  with st2(1) asked(4) prep(2) show ?thesis
    by (cases y) (auto simp: release_db_def record_interrupted_turn_def in_own_session_def Let_def
        create_usage_def audit_log_def create_message_def tool_event_def split: sum.splits)
qed

section \<open>What tools can reach\<close>

text \<open>
  A property of the world that every tool the persona allows keeps when it acts for
  this user, and that task memory keeps, is kept by the turn: whatever the model
  asks for, no other tool runs and none runs for another user. It is kept in the
  session as the turn sees it and as it is committed, where a cut turn is recorded.
\<close>

definition kept_by_tools :: "('w, 'p) turn_setup \<Rightarrow> ('w \<Rightarrow> bool) \<Rightarrow> bool" where
  "kept_by_tools su good \<longleftrightarrow>
     (\<forall>t \<in> set (list_tools (su_env su)).
        (case cx_allowed_tools (su_context su) of None \<Rightarrow> True | Some names \<Rightarrow> t_name t \<in> set names) \<longrightarrow>
        (\<forall>args w. good w \<longrightarrow>
           good (fst (t_execute t (cx_organization_id (su_context su)) (cx_user_id (su_context su)) args w)))) \<and>
     (\<forall>cl text w w'. good w \<longrightarrow>
        record_tool (su_env su) (cx_conversation_id (su_context su)) (cx_user_id (su_context su)) cl text w = Inr w' \<longrightarrow>
        good w')"

lemma run_tool_kept:
  assumes "kept_by_tools su good" "good w" "t \<in> set (list_tools (su_env su))"
    "case cx_allowed_tools (su_context su) of None \<Rightarrow> True | Some names \<Rightarrow> t_name t \<in> set names"
  shows "good (fst (run_tool (su_env su) (su_context su) t cl w))"
  using assms by (auto simp: run_tool_def kept_by_tools_def split: sum.split)

lemma prepare_turn_world:
  assumes "prepare_turn cfg env prov p b rd s = (s1, x)"
  shows "world (working s1) = world (working s) \<or>
      (\<exists>i w t. te_begin_task env i (cb_user_id b) (cb_message b) (world (working s)) = Inr (w, t) \<and>
         world (working s1) = w)"
    and "x = Inr (su, persona, tn) \<Longrightarrow> su_env su = te_tools env \<and>
      cx_organization_id (su_context su) = cb_organization_id b \<and> cx_user_id (su_context su) = cb_user_id b \<and>
      cx_allowed_tools (su_context su) = resolve_allowed_tools persona (cb_enable_tools b)"
proof -
  let ?prep = "bind_result (find_persona env (cb_agent b)) (\<lambda>persona.
             bind_result
               (get_or_create_conversation (cb_new_conversation b) (cb_organization_id b) (cb_user_id b)
                  (cb_conversation_id b) (cb_message b) (working s))
               (\<lambda>(d, c). Inr (persona, d, c)))"
  have "(world (working s1) = world (working s) \<or>
      (\<exists>i w t. te_begin_task env i (cb_user_id b) (cb_message b) (world (working s)) = Inr (w, t) \<and>
         world (working s1) = w)) \<and>
    (x = Inr (su, persona, tn) \<longrightarrow> su_env su = te_tools env \<and>
      cx_organization_id (su_context su) = cb_organization_id b \<and> cx_user_id (su_context su) = cb_user_id b \<and>
      cx_allowed_tools (su_context su) = resolve_allowed_tools persona (cb_enable_tools b))"
  proof (cases ?prep)
    case (Inl e)
    with assms show ?thesis by (auto simp: prepare_turn_def)
  next
    case (Inr y)
    obtain q d c where y: "y = (q, d, c)" using prod_cases3 by blast
    from Inr y have gc: "get_or_create_conversation (cb_new_conversation b) (cb_organization_id b) (cb_user_id b)
          (cb_conversation_id b) (cb_message b) (working s) = Inr (d, c)"
      by (auto simp: bind_result_Inr_iff)
    then have d: "world d = world (working s)"
      by (auto simp: get_or_create_conversation_def Let_def split: option.splits if_splits)
    obtain m1 m2 m3 where m: "prepare_user_message (te_attachments env) (cb_message b) (cb_attachments b) = (m1, m2, m3)"
      using prod_cases3 by blast
    show ?thesis
    proof (cases "te_begin_task env (cv_id c) (cb_user_id b) (cb_message b) (world (working s))")
      case (Inl e)
      with assms \<open>?prep = Inr y\<close> y m d show ?thesis
        by (auto simp: prepare_turn_def Let_def create_message_def)
    next
      case (Inr wt)
      obtain w t where wt: "wt = (w, t)" by fastforce
      from Inr wt assms \<open>?prep = Inr y\<close> y m d show ?thesis
        by (auto simp: prepare_turn_def Let_def create_message_def)
    qed
  qed
  then show "world (working s1) = world (working s) \<or>
      (\<exists>i w t. te_begin_task env i (cb_user_id b) (cb_message b) (world (working s)) = Inr (w, t) \<and>
         world (working s1) = w)"
    and "x = Inr (su, persona, tn) \<Longrightarrow> su_env su = te_tools env \<and>
      cx_organization_id (su_context su) = cb_organization_id b \<and> cx_user_id (su_context su) = cb_user_id b \<and>
      cx_allowed_tools (su_context su) = resolve_allowed_tools persona (cb_enable_tools b)"
    by blast+
qed

lemma get_tool_SomeD: "get_tool env name = Some t \<Longrightarrow> t \<in> set (list_tools env) \<and> t_name t = name"
  by (auto simp: get_tool_def find_Some_iff)

lemma execute_tool_call_kept:
  assumes k: "kept_by_tools su good" and g: "good (world d)"
  shows "good (world (fst (execute_tool_call (su_env su) (su_context su) cl d)))"
proof (cases "(case cx_allowed_tools (su_context su) of None \<Rightarrow> True | Some names \<Rightarrow> tcl_name cl \<in> set names) \<and>
    get_tool (su_env su) (tcl_name cl) \<noteq> None")
  case False
  with g show ?thesis
    by (auto simp: execute_tool_call_def refused_def record_tool_execution_def)
next
  case True
  then obtain t where t: "get_tool (su_env su) (tcl_name cl) = Some t" by blast
  from get_tool_SomeD [OF t] have mem: "t \<in> set (list_tools (su_env su))" and name: "t_name t = tcl_name cl"
    by auto
  from True name have al: "case cx_allowed_tools (su_context su) of None \<Rightarrow> True | Some names \<Rightarrow> t_name t \<in> set names"
    by (cases "cx_allowed_tools (su_context su)") auto
  obtain w x where run: "run_tool (su_env su) (su_context su) t cl (world d) = (w, x)" by fastforce
  from run_tool_kept [OF k g mem al, of cl] run have w: "good w" by simp
  show ?thesis
  proof (cases x)
    case (Inl e)
    with True t run w show ?thesis by (simp add: execute_tool_call_def refused_def record_tool_execution_def)
  next
    case (Inr y)
    with True t run w k show ?thesis
      by (auto simp: execute_tool_call_def fold_into_task_def record_tool_execution_def kept_by_tools_def
          split: sum.split)
  qed
qed

lemma execute_tool_calls_kept:
  assumes k: "kept_by_tools su good"
  shows "good (world d) \<Longrightarrow> good (world (fst (execute_tool_calls (su_env su) (su_context su) cls d)))"
proof (induction cls arbitrary: d)
  case (Cons c cs)
  obtain d1 r where c: "execute_tool_call (su_env su) (su_context su) c d = (d1, r)" by fastforce
  with execute_tool_call_kept [OF k Cons.prems, of c] have "good (world d1)" by simp
  from Cons.IH [OF this] c show ?case by (auto split: prod.split)
qed simp

lemma ask_session:
  "tn_session (fst (ask su tools tn)) = release_db (tn_session tn)"
  by (simp add: ask_def split: prod.split)

definition sound :: "('w \<Rightarrow> bool) \<Rightarrow> 'w ai_session \<Rightarrow> bool" where
  "sound good s \<longleftrightarrow> good (world (working s)) \<and> good (world (committed s))"

lemma sound_release [simp]: "sound good s \<Longrightarrow> sound good (release_db s)"
  by (simp add: sound_def release_db_def)

lemma sound_history [simp]: "sound good (tn_session (push_history m tn)) = sound good (tn_session tn)"
  by (simp add: push_history_def)

lemma run_tool_round_kept:
  assumes "kept_by_tools su good" "sound good (tn_session tn)"
  shows "sound good (tn_session (run_tool_round su r tn))"
  using execute_tool_calls_kept [OF assms(1), of "working (tn_session tn)" "r_tool_calls r"] assms(2)
  by (cases "execute_tool_calls (su_env su) (su_context su) (r_tool_calls r) (working (tn_session tn))")
     (simp add: run_tool_round_def push_history_def sound_def)

lemma tool_rounds_kept:
  assumes k: "kept_by_tools su good"
  shows "sound good (tn_session tn) \<Longrightarrow> sound good (tn_session (fst (tool_rounds su n tn)))"
proof (induction n arbitrary: tn)
  case 0
  with ask_session [of su "[]" "push_history (plain_message RoleUser TOOL_BUDGET_EXHAUSTED) tn"] show ?case
    by simp
next
  case (Suc n)
  obtain tn1 x where a: "ask su (su_tools su) tn = (tn1, x)" by fastforce
  with ask_session [of su "su_tools su" tn] Suc.prems have g: "sound good (tn_session tn1)" by simp
  from a g Suc.IH [OF run_tool_round_kept [OF k g]] show ?case
    by (cases x) auto
qed

lemma stream_tool_calls_kept:
  assumes k: "kept_by_tools su good"
  shows "sound good (tn_session st) \<Longrightarrow> sound good (tn_session (fst (stream_tool_calls client su cls st)))"
proof (induction cls arbitrary: st)
  case Nil
  then show ?case by simp
next
  case (Cons c cs)
  obtain d r where c: "execute_tool_call (su_env su) (su_context su) c (working (tn_session st)) = (d, r)"
    by fastforce
  let ?st = "st\<lparr>tn_session := (tn_session st)\<lparr>working := d\<rparr>,
      sn_events := sn_events st @ [ToolCallEvent (tcl_name c) (tr_is_error r)]\<rparr>"
  from Cons.prems execute_tool_call_kept [OF k, of "working (tn_session st)" c] c
  have "sound good (tn_session ?st)" by (simp add: sound_def)
  from this Cons.IH [OF this] c show ?case
    by (auto simp: emit_def split: prod.split sum.split)
qed

lemma stream_rounds_kept:
  assumes k: "kept_by_tools su good"
  shows "sound good (tn_session st) \<Longrightarrow> sound good (tn_session (fst (stream_rounds client su n st)))"
proof (induction n arbitrary: st)
  case 0
  let ?st = "push_history (plain_message RoleUser TOOL_BUDGET_EXHAUSTED) st"
  obtain st1 y where r: "stream_round client su True [] ?st = (st1, y)" by fastforce
  with stream_round_frame [OF r] 0 show ?case by (auto split: sum.split)
next
  case (Suc n)
  obtain st1 y where r: "stream_round client su False (su_tools su) st = (st1, y)" by fastforce
  with stream_round_frame [OF r] Suc.prems have g: "sound good (tn_session st1)" by simp
  show ?case
  proof (cases y)
    case (Inl c)
    with r g show ?thesis by simp
  next
    case (Inr rd)
    let ?st2 = "push_history (assistant_calls (rn_text rd) (rn_tool_calls rd)) st1"
    from g have "sound good (tn_session ?st2)" by simp
    from stream_tool_calls_kept [OF k this, of client "rn_tool_calls rd"]
    obtain st3 z where t: "stream_tool_calls client su (rn_tool_calls rd) ?st2 = (st3, z)"
      and g3: "sound good (tn_session st3)"
      by (cases "stream_tool_calls client su (rn_tool_calls rd) ?st2") auto
    have "sound good (tn_session (push_history (user_results rs) st3))" for rs using g3 by simp
    from r Inr t g g3 Suc.IH [OF this] show ?thesis by (auto split: sum.split)
  qed
qed

text \<open>The tools a request's persona, or the switch of a plain chat, lets the turn use.\<close>

definition may_use :: "'w turn_env \<Rightarrow> chat_body \<Rightarrow> 'w tool \<Rightarrow> bool" where
  "may_use env b t \<longleftrightarrow>
     (case find_persona env (cb_agent b) of
        Inl _ \<Rightarrow> False
      | Inr persona \<Rightarrow>
          (case resolve_allowed_tools persona (cb_enable_tools b) of
             None \<Rightarrow> True | Some names \<Rightarrow> t_name t \<in> set names))"

text \<open>What the world goes through in a turn besides the allowed tools: task memory.\<close>

definition kept_by_turn :: "'w turn_env \<Rightarrow> chat_body \<Rightarrow> ('w \<Rightarrow> bool) \<Rightarrow> bool" where
  "kept_by_turn env b good \<longleftrightarrow>
     (\<forall>t \<in> set (list_tools (te_tools env)). may_use env b t \<longrightarrow>
        (\<forall>args w. good w \<longrightarrow> good (fst (t_execute t (cb_organization_id b) (cb_user_id b) args w)))) \<and>
     (\<forall>i cl text w w'. good w \<longrightarrow> record_tool (te_tools env) i (cb_user_id b) cl text w = Inr w' \<longrightarrow> good w') \<and>
     (\<forall>i w w' x. good w \<longrightarrow> te_begin_task env i (cb_user_id b) (cb_message b) w = Inr (w', x) \<longrightarrow> good w') \<and>
     (\<forall>i text w w'. good w \<longrightarrow> te_end_task env i (cb_user_id b) text w = Inr w' \<longrightarrow> good w')"

lemma prepare_turn_kept:
  assumes k: "kept_by_turn env b good" and s: "sound good s"
    and p: "prepare_turn cfg env prov p b rd s = (s1, x)"
  shows "sound good s1"
    and "x = Inr (su, persona, tn) \<Longrightarrow> kept_by_tools su good \<and> tn_session tn = s1"
proof -
  have begun: "good w'" if "good w" "te_begin_task env i (cb_user_id b) (cb_message b) w = Inr (w', y)" for i w w' y
    using k that unfolding kept_by_turn_def by blast
  from prepare_turn_world(1) [OF p] begun [of "world (working s)"] s have "good (world (working s1))"
    unfolding sound_def by metis
  with prepare_turn_frame(3) [OF p] s show "sound good s1" by (simp add: sound_def)
  show "kept_by_tools su good \<and> tn_session tn = s1" if x: "x = Inr (su, persona, tn)"
  proof
    have w: "su_env su = te_tools env" "cx_organization_id (su_context su) = cb_organization_id b"
      "cx_user_id (su_context su) = cb_user_id b"
      and may: "may_use env b t \<longleftrightarrow>
        (case cx_allowed_tools (su_context su) of None \<Rightarrow> True | Some names \<Rightarrow> t_name t \<in> set names)" for t
      using prepare_turn_world(2) [OF p x] prepare_turn_frame(4) [OF p x] by (simp_all add: may_use_def)
    show "kept_by_tools su good"
      unfolding kept_by_tools_def w may [symmetric] using k unfolding kept_by_turn_def by blast
    show "tn_session tn = s1" using prepare_turn_frame(4) [OF p x] by blast
  qed
qed

lemma finish_turn_kept:
  assumes "kept_by_turn env b good" "sound good s"
  shows "sound good (fst (finish_turn env su rd b action fb u answer s))"
proof (cases "te_end_task env (cx_conversation_id (su_context su)) (cb_user_id b) answer (world (working s))")
  case (Inl e)
  with assms(2) show ?thesis
    by (simp add: finish_turn_def sound_def on_working_def create_message_def create_usage_def audit_log_def Let_def)
next
  case (Inr w)
  with assms have "good w" unfolding kept_by_turn_def sound_def by blast
  with Inr assms(2) show ?thesis
    by (simp add: finish_turn_def sound_def on_working_def create_message_def create_usage_def audit_log_def Let_def)
qed

lemma interrupted_kept: "sound good (tn_session st) \<Longrightarrow> sound good (record_interrupted_turn su b st)"
  by (auto simp: record_interrupted_turn_def in_own_session_def sound_def create_message_def create_usage_def
      audit_log_def Let_def)

lemma chat_turn_kept:
  assumes k: "kept_by_turn env b good" and s: "sound good s"
  shows "sound good (fst (chat_turn cfg env prov p b rd s))"
proof -
  obtain s1 x where prep: "prepare_turn cfg env prov p b rd s = (s1, x)" by fastforce
  note prep_kept = prepare_turn_kept [OF k s prep]
  show ?thesis
  proof (cases x)
    case (Inl e)
    with prep prep_kept(1) show ?thesis by (simp add: chat_turn_def)
  next
    case (Inr y)
    obtain su persona tn where y: "x = Inr (su, persona, tn)" using Inr by (cases y) auto
    obtain tn1 z where run: "tool_rounds su (nat (resolve_max_tool_rounds persona)) tn = (tn1, z)" by fastforce
    with tool_rounds_kept [of su good tn "nat (resolve_max_tool_rounds persona)"] prep_kept(1) prep_kept(2) [OF y]
    have g: "sound good (tn_session tn1)" by simp
    show ?thesis
    proof (cases z)
      case (Inl e)
      with prep y run g show ?thesis by (simp add: chat_turn_def run_tool_loop_def)
    next
      case (Inr r)
      then obtain r' where loop: "run_tool_loop su (resolve_max_tool_rounds persona) tn = (tn1, Inr r')"
        using run by (simp add: run_tool_loop_def)
      obtain s2 w where f: "finish_turn env su rd b ''chat'' (snd (tn_provider tn1)) (tn_usage tn1) (r_content r')
          (tn_session tn1) = (s2, w)" by fastforce
      with finish_turn_kept [OF k g] have "sound good s2" by (metis fst_conv)
      with prep y loop f show ?thesis by (cases w) (simp_all add: chat_turn_def)
    qed
  qed
qed

lemma stream_turn_kept:
  assumes k: "kept_by_turn env b good" and s: "sound good s"
    and run: "stream_turn_of cfg env prov p client b rd s = (s', events, x)"
  shows "sound good s'"
  using run
proof (cases rule: stream_turn_cases)
  case (unprepared e s1)
  with prepare_turn_kept(1) [OF k s unprepared(1)] show ?thesis by simp
next
  case (early s1 su persona tn)
  with prepare_turn_kept(1) [OF k s early(1)] show ?thesis by simp
next
  case (asked s1 su persona tn st1 st2 y)
  note prep = prepare_turn_kept(1) [OF k s asked(1)] prepare_turn_kept(2) [OF k s asked(1) refl]
  then have "sound good (tn_session st1)" by (simp add: asked(2) start_stream_def)
  from stream_rounds_kept [OF _ this, of su client "nat (resolve_max_tool_rounds persona)"] prep(2) asked(3)
  have g: "sound good (tn_session st2)" by simp
  show ?thesis
    using asked(4) finish_turn_kept [OF k g] interrupted_kept [OF g]
    by (cases y) simp_all
qed

text \<open>
  C18. Take any property of the outside world that each tool the request's persona (or plain
  chat) allows keeps when it runs for the request's organization and user with any
  arguments, and that task memory keeps when it begins the turn, records a tool run and ends
  the turn. The whole request keeps it, plain or streamed, finished, failed or cut at any
  event, whatever tools and arguments the model asks for: no other tool runs, and none for
  anybody else.
\<close>

theorem turns_stay_within_the_allowed_tools:
  assumes tools: "\<And>tool args w. tool \<in> set (list_tools (te_tools env)) \<Longrightarrow> may_use env b tool \<Longrightarrow> good w \<Longrightarrow>
      good (fst (t_execute tool (cb_organization_id b) (cb_user_id b) args w))"
    and recorded: "\<And>i cl text w w'. good w \<Longrightarrow>
      record_tool (te_tools env) i (cb_user_id b) cl text w = Inr w' \<Longrightarrow> good w'"
    and begun: "\<And>i w w' x. good w \<Longrightarrow>
      te_begin_task env i (cb_user_id b) (cb_message b) w = Inr (w', x) \<Longrightarrow> good w'"
    and ended: "\<And>i text w w'. good w \<Longrightarrow> te_end_task env i (cb_user_id b) text w = Inr w' \<Longrightarrow> good w'"
    and "good (world d)"
  shows "good (world (snd (fst (chat_endpoint cfg env prov p b (t, d))))) \<and>
    good (world (snd (fst (chat_stream_request cfg env prov p commit_on_close client b (t, d)))))"
proof -
  have k: "kept_by_turn env b good"
    using tools recorded begun ended unfolding kept_by_turn_def by blast
  have s: "sound good \<lparr>working = d, committed = d\<rparr>" using assms(5) by (simp add: sound_def)
  show ?thesis
  proof
    let ?s = "\<lparr>working = d, committed = d\<rparr>"
    let ?gate = "bind_result (route cfg env b (world (working ?s))) (\<lambda>rd.
        bind_result (check_usage_quota cfg (te_start_of_month env) t (cb_now b) (cb_organization_id b) (working ?s))
          (\<lambda>_. Inr rd))"
    show "good (world (snd (fst (chat_endpoint cfg env prov p b (t, d)))))"
    proof (cases ?gate)
      case (Inl e)
      with assms(5) show ?thesis by (simp add: chat_endpoint_def chat_def end_request_def)
    next
      case (Inr rd)
      obtain s1 x where run: "chat_turn cfg env prov p b rd ?s = (s1, x)" by fastforce
      with chat_turn_kept [OF k s, of cfg prov p rd] have "sound good s1" by simp
      with Inr run show ?thesis by (cases x) (simp_all add: chat_endpoint_def chat_def end_request_def sound_def)
    qed
    show "good (world (snd (fst (chat_stream_request cfg env prov p commit_on_close client b (t, d)))))"
    proof (cases ?gate)
      case (Inl e)
      with assms(5) show ?thesis by (simp add: chat_stream_request_def stream_chat_def)
    next
      case (Inr rd)
      obtain s1 events x where run: "stream_turn_of cfg env prov p client b rd ?s = (s1, events, x)"
        using prod_cases3 by blast
      from stream_turn_kept [OF k s run] have "sound good s1" .
      with Inr run show ?thesis
        by (simp add: chat_stream_request_def stream_chat_def sound_def split: sum.split cut.split)
    qed
  qed
qed

section \<open>How often the model is asked\<close>

text \<open>A provider that counts the calls of its two methods in its state.\<close>

definition counted :: "('s, 'p) provider \<Rightarrow> ('s, nat \<times> 'p) provider" where
  "counted prov =
     \<lparr>p_chat = (\<lambda>q (k, p). case p_chat prov q p of (p', x) \<Rightarrow> ((Suc k, p'), x)),
      p_stream = (\<lambda>q (k, p). case p_stream prov q p of (p', x) \<Rightarrow> ((Suc k, p'), x))\<rparr>"

text \<open>The calls so far, not counting the one the fallback repeated.\<close>

definition asked_times :: "(nat \<times> 'p) \<times> bool \<Rightarrow> int" where
  "asked_times st = int (fst (fst st)) - (if snd st then 1 else 0)"

lemma fallback_asks_once:
  "asked_times (fst (fallback_chat (counted prov) fb q st)) \<le> asked_times st + 1"
  "asked_times (fst (fallback_stream (counted prov) fb q st)) \<le> asked_times st + 1"
proof -
  obtain k p b where st: "st = ((k, p), b)" by (metis surj_pair)
  obtain p1 x1 where c1: "p_chat prov (switch fb b q) p = (p1, x1)" by fastforce
  obtain p2 x2 where c2: "p_chat prov (switch fb True q) p1 = (p2, x2)" by fastforce
  obtain r1 ev1 f1 where s1: "p_stream prov (switch fb b q) p = (r1, ev1, f1)" using prod_cases3 by blast
  obtain r2 y2 where s2: "p_stream prov (switch fb True q) r1 = (r2, y2)" by (metis surj_pair)
  show "asked_times (fst (fallback_chat (counted prov) fb q st)) \<le> asked_times st + 1"
    by (cases x1) (simp_all add: st fallback_chat_def counted_def c1 c2 asked_times_def may_fall_back_def)
  show "asked_times (fst (fallback_stream (counted prov) fb q st)) \<le> asked_times st + 1"
    by (cases f1) (simp_all add: st fallback_stream_def counted_def s1 s2 asked_times_def may_fall_back_def)
qed

lemma ask_asks_once:
  assumes "su_provider su = counted prov"
  shows "asked_times (tn_provider (fst (ask su tools tn))) \<le> asked_times (tn_provider tn) + 1"
  using fallback_asks_once(1) [of prov "su_fallback su" "request_of su tools (tn_history tn)" "tn_provider tn"] assms
  by (cases "fallback_chat (counted prov) (su_fallback su) (request_of su tools (tn_history tn)) (tn_provider tn)")
     (simp add: ask_def)

lemma tool_rounds_asks:
  assumes "su_provider su = counted prov"
  shows "asked_times (tn_provider (fst (tool_rounds su n tn))) \<le> asked_times (tn_provider tn) + int n + 1"
proof (induction n arbitrary: tn)
  case 0
  from ask_asks_once [OF assms, of "[]" "push_history (plain_message RoleUser TOOL_BUDGET_EXHAUSTED) tn"]
  show ?case by (simp add: push_history_def)
next
  case (Suc n)
  obtain tn1 x where a: "ask su (su_tools su) tn = (tn1, x)" by fastforce
  with ask_asks_once [OF assms, of "su_tools su" tn]
  have once: "asked_times (tn_provider tn1) \<le> asked_times (tn_provider tn) + 1" by simp
  have "tn_provider (run_tool_round su r tn1) = tn_provider tn1" for r
    by (simp add: run_tool_round_def push_history_def split: prod.split)
  with Suc.IH once a show ?case
    by (cases x) (auto intro: order.trans [OF Suc.IH])
qed

lemma take_events_provider:
  "tn_provider (fst (take_events client forced es rd st)) = tn_provider st"
proof (induction es arbitrary: rd st rule: stream_text.induct)
  case (3 u calls stop es)
  then show ?case by (cases u) (auto simp: charge_def)
qed (auto simp: emit_def)

lemma stream_round_asks_once:
  assumes "su_provider su = counted prov"
  shows "asked_times (tn_provider (fst (stream_round client su forced tools st))) \<le> asked_times (tn_provider st) + 1"
proof -
  obtain p events failure where fs: "fallback_stream (counted prov) (su_fallback su)
      (request_of su tools (tn_history st)) (tn_provider st) = (p, events, failure)"
    using prod_cases3 by blast
  let ?st = "st\<lparr>tn_session := release_db (tn_session st), tn_provider := p, sn_in_flight := [],
      sn_round_in_flight := True\<rparr>"
  obtain st1 y where te: "take_events client forced events new_round ?st = (st1, y)" by fastforce
  with take_events_provider [of client forced events new_round ?st] have "tn_provider st1 = p" by simp
  moreover have "asked_times p \<le> asked_times (tn_provider st) + 1"
    using fallback_asks_once(2) [of prov "su_fallback su" "request_of su tools (tn_history st)" "tn_provider st"] fs
    by simp
  ultimately show ?thesis
    using fs te assms
    by (auto simp: stream_round_def charge_def Let_def split: sum.split option.split)
qed

lemma stream_tool_calls_provider:
  "tn_provider (fst (stream_tool_calls client su cls st)) = tn_provider st"
proof (induction cls arbitrary: st)
  case (Cons c cs)
  obtain d r where "execute_tool_call (su_env su) (su_context su) c (working (tn_session st)) = (d, r)"
    by fastforce
  with Cons.IH [of "st\<lparr>tn_session := (tn_session st)\<lparr>working := d\<rparr>,
      sn_events := sn_events st @ [ToolCallEvent (tcl_name c) (tr_is_error r)]\<rparr>"]
  show ?case by (auto simp: emit_def split: prod.split sum.split)
qed simp

lemma stream_rounds_asks:
  assumes "su_provider su = counted prov"
  shows "asked_times (tn_provider (fst (stream_rounds client su n st))) \<le> asked_times (tn_provider st) + int n + 1"
proof (induction n arbitrary: st)
  case 0
  from stream_round_asks_once [OF assms, of client True "[]"
      "push_history (plain_message RoleUser TOOL_BUDGET_EXHAUSTED) st"]
  show ?case by (auto simp: push_history_def split: prod.split sum.split)
next
  case (Suc n)
  obtain st1 y where r: "stream_round client su False (su_tools su) st = (st1, y)" by fastforce
  with stream_round_asks_once [OF assms, of client False "su_tools su" st]
  have once: "asked_times (tn_provider st1) \<le> asked_times (tn_provider st) + 1" by simp
  show ?case
  proof (cases y)
    case (Inl c)
    with r once show ?thesis by simp
  next
    case (Inr rd)
    let ?st2 = "push_history (assistant_calls (rn_text rd) (rn_tool_calls rd)) st1"
    obtain st3 z where t: "stream_tool_calls client su (rn_tool_calls rd) ?st2 = (st3, z)" by fastforce
    with stream_tool_calls_provider [of client su "rn_tool_calls rd" ?st2]
    have "tn_provider (push_history m st3) = tn_provider st1" "tn_provider st3 = tn_provider st1" for m
      by (simp_all add: push_history_def)
    with r Inr t once Suc.IH [of "push_history (user_results rs) st3" for rs] show ?thesis
      by (auto split: sum.split intro: order.trans [OF Suc.IH])
  qed
qed

theorem turn_asks_at_most_seventeen_times:
  assumes "su_provider su = counted prov" "tn_provider tn = ((0, p), False)"
  shows "fst (fst (tn_provider (fst (run_tool_loop su (resolve_max_tool_rounds persona) tn)))) \<le> 17 \<and>
    fst (fst (tn_provider (fst (stream_rounds client su (nat (resolve_max_tool_rounds persona)) (start_stream tn))))) \<le> 17"
proof -
  let ?n = "nat (resolve_max_tool_rounds persona)"
  have n: "?n \<le> 15"
    by (auto simp: resolve_max_tool_rounds_def MAX_TOOL_ROUNDS_def MAX_TOOL_ROUNDS_CEILING_def split: option.split)
  have loop: "fst (run_tool_loop su (resolve_max_tool_rounds persona) tn) = fst (tool_rounds su ?n tn)"
    by (simp add: run_tool_loop_def split: prod.split sum.split)
  from tool_rounds_asks [OF assms(1), of ?n tn] stream_rounds_asks [OF assms(1), of client ?n "start_stream tn"] n assms(2)
  show ?thesis
    by (auto simp: loop asked_times_def start_stream_def split: if_splits)
qed

section \<open>Turns in flight\<close>

text \<open>
  On one instance, the turns of an organization begin and end in any order; a turn
  begins when the quota check passed, on whatever the usage table held when it was
  read. The organization's limit is \<open>limit\<close>.
\<close>

inductive turns_step :: "ai_settings \<Rightarrow> uuid \<Rightarrow> int \<Rightarrow> inflight \<Rightarrow> inflight \<Rightarrow> bool"
  for cfg org limit where
  admitted: "check_usage_quota cfg start t now org (d :: unit ai_db) = Inr () \<Longrightarrow>
      quota_limit cfg d org = Some limit \<Longrightarrow> (\<forall>u \<in> set (ai_usages d). 0 \<le> au_total_tokens u) \<Longrightarrow>
      turns_step cfg org limit t (begin_turn org t)"
| ended: "turns_step cfg org limit t (end_turn org t)"
| another: "other \<noteq> org \<Longrightarrow> turns_step cfg org limit t (begin_turn other t)"
| another_ended: "other \<noteq> org \<Longrightarrow> turns_step cfg org limit t (end_turn other t)"

lemma inflight_turns_simps:
  "inflight_turns (begin_turn org t) org = inflight_turns t org + 1"
  "inflight_turns (end_turn org t) org = max 0 (inflight_turns t org - 1)"
  "other \<noteq> org \<Longrightarrow> inflight_turns (begin_turn other t) org = inflight_turns t org"
  "other \<noteq> org \<Longrightarrow> inflight_turns (end_turn other t) org = inflight_turns t org"
  by (auto simp: inflight_turns_def begin_turn_def end_turn_def Let_def)

theorem turns_in_flight_are_bounded:
  assumes "(turns_step cfg org limit)\<^sup>*\<^sup>* Map.empty t" "0 \<le> AI_QUOTA_RESERVATION_TOKENS cfg"
  shows "inflight_turns t org = 0 \<or>
    (inflight_turns t org - 1) * AI_QUOTA_RESERVATION_TOKENS cfg < limit"
  using assms(1)
proof (induction rule: rtranclp_induct)
  case base
  then show ?case by (simp add: inflight_turns_def)
next
  case (step t t')
  let ?R = "AI_QUOTA_RESERVATION_TOKENS cfg"
  from step(2) show ?case
  proof cases
    case (admitted start now d)
    have "0 \<le> get_total_tokens_since org (start now) d"
      using admitted(4) by (auto simp: get_total_tokens_since_def intro!: sum_list_nonneg)
    with admitted(2,3) have "inflight_turns t org * ?R < limit"
      by (simp add: check_usage_quota_def)
    with admitted(1) show ?thesis by (simp add: inflight_turns_simps)
  next
    case ended
    have "(inflight_turns t org - 2) * ?R \<le> (inflight_turns t org - 1) * ?R"
      using assms(2) by (intro mult_right_mono) auto
    with step(3) ended show ?thesis by (auto simp: inflight_turns_simps max_def)
  next
    case (another other)
    with step(3) show ?thesis by (simp add: inflight_turns_simps)
  next
    case (another_ended other)
    with step(3) show ?thesis by (simp add: inflight_turns_simps)
  qed
qed

section \<open>A plain request that fails\<close>

lemma tool_rounds_tables:
  assumes "tool_rounds su n tn = (tn', x)"
  shows "same_tables (working (tn_session tn)) (working (tn_session tn')) \<and>
    same_tables (working (tn_session tn)) (committed (tn_session tn'))"
  using assms
proof (induction n arbitrary: tn)
  case 0
  with ask_session [of su "[]" "push_history (plain_message RoleUser TOOL_BUDGET_EXHAUSTED) tn"] show ?case
    by (simp add: push_history_def release_db_def)
next
  case (Suc n)
  obtain tn1 y where a: "ask su (su_tools su) tn = (tn1, y)" by fastforce
  with ask_session [of su "su_tools su" tn] have s1: "tn_session tn1 = release_db (tn_session tn)" by simp
  show ?case
  proof (cases "tn' = tn1")
    case True
    with s1 show ?thesis by (simp add: release_db_def)
  next
    case False
    with Suc.prems a obtain r where "tool_rounds su n (run_tool_round su r tn1) = (tn', x)"
      by (auto split: sum.splits if_splits)
    obtain d rs where ex: "execute_tool_calls (su_env su) (su_context su) (r_tool_calls r)
        (working (tn_session tn1)) = (d, rs)" by fastforce
    from Suc.IH [OF \<open>tool_rounds su n (run_tool_round su r tn1) = (tn', x)\<close>]
      execute_tool_calls_frame [OF ex] ex s1 show ?thesis
      by (auto simp: run_tool_round_def push_history_def release_db_def intro: same_tables_trans)
  qed
qed

lemma finish_turn_committed [simp]:
  "committed (fst (finish_turn env su rd b a f u t s)) = committed s"
  by (simp add: finish_turn_def Let_def on_working_def split: sum.split)

lemma chat_turn_unpaid:
  assumes "chat_turn cfg env prov p b rd s = (s', Inl e)" "ai_usages (committed s) = ai_usages (working s)"
  shows "ai_usages (committed s') = ai_usages (working s)"
proof -
  obtain s1 x where prep: "prepare_turn cfg env prov p b rd s = (s1, x)" by fastforce
  note f = prepare_turn_frame(1,3,4) [OF prep]
  show ?thesis
  proof (cases x)
    case (Inl e)
    with assms(1) prep have "s' = s1" by (simp add: chat_turn_def)
    with f(2) assms(2) show ?thesis by simp
  next
    case (Inr t)
    obtain su persona tn where t: "t = (su, persona, tn)" using prod_cases3 by blast
    obtain tn1 y where loop: "tool_rounds su (nat (resolve_max_tool_rounds persona)) tn = (tn1, y)" by fastforce
    from f(3) [of su persona tn] Inr t have "tn_session tn = s1" by simp
    with tool_rounds_tables [OF loop] f(1)
    have c: "ai_usages (committed (tn_session tn1)) = ai_usages (working s)"
      by (simp add: same_tables_def)
    have "committed s' = committed (tn_session tn1)"
    proof (cases y)
      case (Inl k)
      with assms(1) prep \<open>x = Inr t\<close> t loop show ?thesis
        by (simp add: chat_turn_def run_tool_loop_def)
    next
      case (Inr r)
      define answer where "answer = (if tn_text tn1 = [] then r
          else r\<lparr>r_content := strip (join_with blank_line (tn_text tn1 @ [r_content r]))\<rparr>)"
      obtain s2 z where fin: "finish_turn env su rd b ''chat'' (snd (tn_provider tn1)) (tn_usage tn1)
          (r_content answer) (tn_session tn1) = (s2, z)" by fastforce
      have "s' = s2"
        using assms(1) prep \<open>x = Inr t\<close> t loop Inr fin
        by (auto simp: chat_turn_def run_tool_loop_def answer_def [symmetric] split: sum.splits)
      with finish_turn_committed [of env su rd b "''chat''" "snd (tn_provider tn1)" "tn_usage tn1"
          "r_content answer" "tn_session tn1"] fin show ?thesis by simp
    qed
    with c show ?thesis by simp
  qed
qed

theorem failed_chat_is_not_charged:
  assumes "chat_endpoint cfg env prov p b (t, d) = ((t', d'), Inl e)"
  shows "ai_usages d' = ai_usages d"
proof -
  let ?s = "\<lparr>working = d, committed = d\<rparr>"
  show ?thesis
  proof (cases "bind_result (route cfg env b (world (working ?s))) (\<lambda>rd.
                bind_result (check_usage_quota cfg (te_start_of_month env) t (cb_now b)
                  (cb_organization_id b) (working ?s)) (\<lambda>_. Inr rd))")
    case (Inl x)
    with assms show ?thesis by (auto simp: chat_endpoint_def chat_def end_request_def)
  next
    case (Inr rd)
    obtain s1 x where ct: "chat_turn cfg env prov p b rd ?s = (s1, x)" by fastforce
    with Inr assms have "x = Inl e" "d' = committed s1"
      by (auto simp: chat_endpoint_def chat_def end_request_def split: sum.splits)
    with chat_turn_unpaid [of cfg env prov p b rd ?s s1 e] ct show ?thesis by simp
  qed
qed

section \<open>A small conversation\<close>

text \<open>
  The world is the list of what tools did. The model first asks for a function, then
  answers; \<open>demo_failing\<close> fails instead of answering. A second tool of the registry
  is allowed to nobody here.
\<close>

definition demo_lookup :: "string list tool" where
  "demo_lookup = \<lparr>t_name = ''lookup_tm1_function'', t_needs_conversation = False,
     t_execute = (\<lambda>org uid args w. (w @ [uid], Inr ''CellGetN''))\<rparr>"

definition demo_danger :: "string list tool" where
  "demo_danger = \<lparr>t_name = ''apply_change'', t_needs_conversation = True,
     t_execute = (\<lambda>org uid args w. (w @ [''applied''], Inr ''done''))\<rparr>"

definition demo_tools :: "string list ai_env" where
  "demo_tools = \<lparr>list_tools = [demo_lookup, demo_danger],
     get_connection = (\<lambda>c org uid w. Inr ()), as_uuid = (\<lambda>s. None), str_of = (\<lambda>v. []),
     unescaped = (\<lambda>s. None), record_tool = (\<lambda>c uid cl r w. Inr w)\<rparr>"

definition demo_turn_env :: "string list turn_env" where
  "demo_turn_env = \<lparr>te_tools = demo_tools, te_connections = (\<lambda>org w. []),
     te_environment = (\<lambda>c org w. Inl NotFound), te_circuit_open = (\<lambda>c. False),
     te_memory = (\<lambda>org cs w. None), te_attachments = (\<lambda>xs. (xs, [])),
     te_get_agent = (\<lambda>a. None), te_begin_task = (\<lambda>c uid m w. Inr (w, None)),
     te_end_task = (\<lambda>c uid m w. Inr w), te_prompt_text = (\<lambda>p. ''system''),
     te_start_of_month = (\<lambda>t. 0)\<rparr>"

definition demo_cfg :: ai_settings where
  "demo_cfg = \<lparr>AI_ALLOWED_MODELS = [''claude-haiku-4-5''], AI_DEFAULT_MODEL = ''claude-opus-5'',
     AI_MONTHLY_TOKEN_LIMIT = Some 100000, AI_QUOTA_RESERVATION_TOKENS = 50000, TM1_MODE = ''governed''\<rparr>"

definition demo_call :: tool_call where
  "demo_call = \<lparr>tcl_id = ''c1'', tcl_name = ''lookup_tm1_function'', tcl_input = []\<rparr>"

definition demo_usage :: usage where
  "demo_usage = \<lparr>us_input_tokens = 90, us_output_tokens = 10, us_cache_creation = 0, us_cache_read = 0\<rparr>"

definition demo_first :: chat_response where
  "demo_first = \<lparr>r_content = ''Let me check.'', r_stop_reason = Some ''tool_use'', r_usage = demo_usage,
     r_tool_calls = [demo_call]\<rparr>"

definition demo_answer :: chat_response where
  "demo_answer = \<lparr>r_content = ''Use CellGetN.'', r_stop_reason = Some ''end_turn'', r_usage = demo_usage,
     r_tool_calls = []\<rparr>"

definition demo_reply :: "bool \<Rightarrow> nat \<Rightarrow> chat_response result" where
  "demo_reply failing k =
     (if k = 0 then Inr demo_first else if failing then Inl (AIProvider ''bad request'') else Inr demo_answer)"

definition demo_model :: "bool \<Rightarrow> (prompt, nat) provider" where
  "demo_model failing =
     \<lparr>p_chat = (\<lambda>q k. (Suc k, demo_reply failing k)),
      p_stream = (\<lambda>q k. case demo_reply failing k of
         Inl e \<Rightarrow> (Suc k, [], Some e)
       | Inr r \<Rightarrow> (Suc k, [TextDelta (r_content r),
             MessageStop (Some (r_usage r)) (r_tool_calls r) (r_stop_reason r)], None))\<rparr>"

definition demo_body :: "bool \<Rightarrow> chat_body" where
  "demo_body tools = \<lparr>cb_organization_id = ''org'', cb_user_id = ''ann'', cb_message = ''How?'',
     cb_conversation_id = None, cb_model = None, cb_system = None, cb_enable_tools = tools, cb_agent = None,
     cb_attachments = [], cb_connection_id = None, cb_now = 5, cb_new_conversation = ''conv'',
     cb_new_user_message = ''m1'', cb_new_answer = ''m2''\<rparr>"

definition demo_db :: "string list ai_db" where
  "demo_db = \<lparr>ai_conversations = [], ai_messages = [], tool_executions = [], ai_usages = [], ai_audit = [],
     organization_plans = [], world = []\<rparr>"

definition demo_session :: "string list ai_session" where
  "demo_session = \<lparr>working = demo_db, committed = demo_db\<rparr>"

definition demo_route :: route_decision where
  "demo_route = \<lparr>rd_model = ''claude-haiku-4-5'', rd_tier = Some Fast, rd_requested = ''auto'',
     rd_fallback_model = None\<rparr>"

definition demo_setup :: "'p \<Rightarrow> (prompt, 'p) provider \<Rightarrow> (string list, 'p) turn_setup" where
  "demo_setup p prov =
     \<lparr>su_env = demo_tools, su_context = \<lparr>cx_organization_id = ''org'', cx_user_id = ''ann'',
        cx_conversation_id = ''conv'', cx_allowed_tools = Some PLAIN_CHAT_TOOL_NAMES, cx_agent = None\<rparr>,
      su_provider = prov, su_fallback = None, su_model = ''claude-haiku-4-5'', su_prompt = ([], []),
      su_prompt_text = ''system'', su_tools = [''lookup_tm1_function''], su_enable_tools = True\<rparr>"

definition demo_turn :: "'p \<Rightarrow> (string list, 'p) turn" where
  "demo_turn p = \<lparr>tn_session = demo_session, tn_provider = (p, False),
     tn_history = [plain_message RoleUser ''How?''], tn_usage = no_usage, tn_text = []\<rparr>"

lemmas demo_ai_defs =
  demo_lookup_def demo_danger_def demo_tools_def demo_turn_env_def demo_cfg_def demo_call_def demo_usage_def
  demo_first_def demo_answer_def demo_reply_def demo_model_def demo_body_def demo_db_def demo_session_def
  demo_route_def demo_setup_def demo_turn_def

lemmas turn_eval =
  prepare_turn_def find_persona_def get_or_create_conversation_def conversation_title_def
  prepare_user_message_def build_history_def HISTORY_LIMIT_def create_message_def plain_message_def
  resolve_allowed_tools_def PLAIN_CHAT_TOOL_NAMES_def tool_names_def tools_for_mode_def
  resolve_max_tool_rounds_def MAX_TOOL_ROUNDS_def eval_nat_numeral
  ask_def fallback_chat_def fallback_stream_def switch_def may_fall_back_def is_retryable_def
  request_of_def release_db_def wants_tools_def run_tool_round_def execute_tool_call_def get_tool_def
  run_tool_def check_connection_def record_tool_execution_def fold_into_task_def refused_def
  push_history_def assistant_calls_def user_results_def annotate_incomplete_def STOP_REASON_NOTICES_def
  stream_round_def new_round_def charge_def emit_def start_stream_def add_usage_def no_usage_def

lemma demo_model_streams: "streams_as_it_chats (demo_model failing)"
  by (auto simp: streams_as_it_chats_def demo_model_def plays_def split: sum.split)

lemma stream_matches_chat_witness:
  "\<exists>st'. stream_rounds None (demo_setup 0 (demo_model True)) 5 (start_stream (demo_turn 0)) =
      (st', stream_outcome (snd (tool_rounds (demo_setup 0 (demo_model True)) 5 (demo_turn 0)))) \<and>
     same_turn (fst (tool_rounds (demo_setup 0 (demo_model True)) 5 (demo_turn 0))) st'"
proof (rule stream_matches_chat)
  show "streams_as_it_chats (su_provider (demo_setup 0 (demo_model True)))"
    by (simp add: demo_setup_def demo_model_streams)
  show "su_enable_tools (demo_setup 0 (demo_model True))" by (simp add: demo_setup_def)
  show "same_turn (demo_turn 0) (start_stream (demo_turn 0))" by (simp add: same_turn_def start_stream_def)
qed





text \<open>The plain request runs the tool its stream leaves alone.\<close>

definition demo_plain_stream where
  "demo_plain_stream =
     stream_turn_of demo_cfg demo_turn_env (demo_model False) 0 None (demo_body False) demo_route demo_session"

lemma demo_plain_chat:
  "length (tool_executions (working (fst
     (chat_turn demo_cfg demo_turn_env (demo_model False) 0 (demo_body False) demo_route demo_session)))) = 1"
  by (simp add: chat_turn_def run_tool_loop_def finish_turn_def on_working_def create_usage_def audit_log_def
      turn_eval demo_ai_defs Let_def)

lemma plain_stream_never_runs_a_tool_witness:
  "tool_executions (working (fst demo_plain_stream)) = [] \<and>
   length (tool_executions (working (fst
     (chat_turn demo_cfg demo_turn_env (demo_model False) 0 (demo_body False) demo_route demo_session)))) = 1"
proof -
  obtain s' events x where run: "demo_plain_stream = (s', events, x)" using prod_cases3 by blast
  have "tool_executions (working s') = tool_executions (working demo_session)"
    using plain_stream_never_runs_a_tool [OF _ _ run [unfolded demo_plain_stream_def]]
    by (simp add: demo_body_def)
  with demo_plain_chat show ?thesis by (simp add: run demo_session_def demo_db_def)
qed

lemma turn_asks_at_most_seventeen_times_witness:
  "fst (fst (tn_provider (fst (run_tool_loop (demo_setup (0, 0) (counted (demo_model True)))
      (resolve_max_tool_rounds None) (demo_turn (0, 0)))))) \<le> 17 \<and>
    fst (fst (tn_provider (fst (stream_rounds (Some 4) (demo_setup (0, 0) (counted (demo_model True)))
      (nat (resolve_max_tool_rounds None)) (start_stream (demo_turn (0, 0))))))) \<le> 17"
  by (rule turn_asks_at_most_seventeen_times) (simp_all add: demo_setup_def demo_turn_def)

text \<open>Two turns fit under the limit of 100000 with 50000 reserved for each.\<close>

lemma turns_in_flight_are_bounded_witness:
  "inflight_turns (begin_turn ''org'' (begin_turn ''org'' Map.empty)) ''org'' = 2 \<and>
   (2 - 1) * AI_QUOTA_RESERVATION_TOKENS demo_cfg < 100000"
proof -
  let ?d = "\<lparr>ai_conversations = [], ai_messages = [], tool_executions = [], ai_usages = [], ai_audit = [],
     organization_plans = [], world = ()\<rparr>"
  have limit: "quota_limit demo_cfg ?d ''org'' = Some 100000"
    by (simp add: quota_limit_def monthly_token_limit_for_def get_plan_def TRIAL_def demo_cfg_def)
  have check: "check_usage_quota demo_cfg (\<lambda>t. t) t 0 ''org'' ?d = Inr ()"
    if "inflight_turns t ''org'' \<le> 1" for t
    using that limit by (simp add: check_usage_quota_def get_total_tokens_since_def demo_cfg_def)
  have step: "turns_step demo_cfg ''org'' 100000 t (begin_turn ''org'' t)"
    if "inflight_turns t ''org'' \<le> 1" for t
    using check [OF that] limit by (rule turns_step.admitted) simp
  have "turns_step demo_cfg ''org'' 100000 Map.empty (begin_turn ''org'' Map.empty)"
    by (rule step) (simp add: inflight_turns_def)
  moreover have "turns_step demo_cfg ''org'' 100000 (begin_turn ''org'' Map.empty)
      (begin_turn ''org'' (begin_turn ''org'' Map.empty))"
    by (rule step) (simp add: inflight_turns_def begin_turn_def)
  ultimately have "(turns_step demo_cfg ''org'' 100000)\<^sup>*\<^sup>* Map.empty
      (begin_turn ''org'' (begin_turn ''org'' Map.empty))"
    by (meson r_into_rtranclp rtranclp_trans)
  from turns_in_flight_are_bounded [OF this] show ?thesis
    by (simp add: inflight_turns_simps demo_cfg_def) (simp add: inflight_turns_def)
qed

text \<open>The first round's tool run is committed, its tokens are in no usage row.\<close>

lemma demo_routed: "route demo_cfg demo_turn_env (demo_body tools) w = Inr demo_route"
proof -
  have "strip ''auto'' = ''auto''"
    by (simp add: strip_def is_space_def chr_code_def)
  then show ?thesis
    by (simp add: route_def decide_def tier_of_name_def auto_tier_def allowed_tier_def tiers_from_def
        TIER_MODELS_def FALLBACK_def BEST_AGENTS_def TOOL_AGENTS_def FAST_AGENTS_def LARGE_ATTACHMENT_CHARS_def
        demo_ai_defs Let_def)
qed

lemma demo_quota_ok: "check_usage_quota demo_cfg start Map.empty now org (working demo_session) = Inr ()"
  by (simp add: demo_session_def check_usage_quota_def quota_limit_def monthly_token_limit_for_def get_plan_def TRIAL_def
      get_total_tokens_since_def inflight_turns_def demo_cfg_def demo_db_def)

lemma demo_failed_turn:
  "\<exists>s'. chat_turn demo_cfg demo_turn_env (demo_model True) 0 (demo_body False) demo_route demo_session =
      (s', Inl (AIProvider ''bad request'')) \<and> length (tool_executions (committed s')) = 1"
  by (simp add: chat_turn_def run_tool_loop_def search_retryable.simps retryable_here_def starts_with_def lower_def
      turn_eval demo_ai_defs Let_def)

lemma failed_chat_is_not_charged_witness:
  "\<exists>t' d'. chat_endpoint demo_cfg demo_turn_env (demo_model True) 0 (demo_body False) (Map.empty, demo_db) =
      ((t', d'), Inl (AIProvider ''bad request'')) \<and>
    length (tool_executions d') = 1 \<and> ai_usages d' = []"
proof -
  from demo_failed_turn obtain s' where s': "chat_turn demo_cfg demo_turn_env (demo_model True) 0 (demo_body False)
      demo_route demo_session = (s', Inl (AIProvider ''bad request''))" "length (tool_executions (committed s')) = 1"
    by blast
  have "\<exists>t'. chat_endpoint demo_cfg demo_turn_env (demo_model True) 0 (demo_body False)
      (Map.empty, demo_db) = ((t', committed s'), Inl (AIProvider ''bad request''))"
    using s'(1) by (simp add: chat_endpoint_def chat_def demo_routed demo_quota_ok end_request_def
        demo_session_def [symmetric])
  then obtain t' where run: "chat_endpoint demo_cfg demo_turn_env (demo_model True) 0 (demo_body False)
      (Map.empty, demo_db) = ((t', committed s'), Inl (AIProvider ''bad request''))" ..
  from failed_chat_is_not_charged [OF run] run s'(2) show ?thesis by (auto simp: demo_db_def)
qed

text \<open>A model that asks for a tool the plain chat may use and for one it may not.\<close>

definition greedy_model :: "(prompt, nat) provider" where
  "greedy_model =
     (let greedy = demo_first\<lparr>r_tool_calls := [demo_call, demo_call\<lparr>tcl_name := ''apply_change''\<rparr>]\<rparr> in
      \<lparr>p_chat = (\<lambda>q k. (Suc k, Inr (if k = 0 then greedy else demo_answer))),
       p_stream = (\<lambda>q k. let r = (if k = 0 then greedy else demo_answer) in
         (Suc k, [TextDelta (r_content r),
            MessageStop (Some (r_usage r)) (r_tool_calls r) (r_stop_reason r)], None))\<rparr>)"

abbreviation persona_body :: chat_body where
  "persona_body \<equiv> (demo_body True)\<lparr>cb_agent := Some ''helper''\<rparr>"

definition helper_env :: "string list turn_env" where
  "helper_env = demo_turn_env\<lparr>te_get_agent := (\<lambda>a. Some \<lparr>ps_name = a, ps_system_prompt = [],
     ps_tool_names = Some PLAIN_CHAT_TOOL_NAMES, ps_max_tool_rounds = None, ps_safety_notes = []\<rparr>)\<rparr>"

definition greedy_chat :: "string list ai_db" where
  "greedy_chat = snd (fst (chat_endpoint demo_cfg helper_env greedy_model 0 persona_body (Map.empty, demo_db)))"

definition greedy_stream :: "string list ai_db" where
  "greedy_stream = snd (fst (chat_stream_request demo_cfg helper_env greedy_model 0 True None persona_body
     (Map.empty, demo_db)))"

lemma helper_routed: "\<exists>rd. route demo_cfg helper_env persona_body w = Inr rd"
  by (simp add: route_def decide_def tier_of_name_def auto_tier_def allowed_tier_def tiers_from_def
      TIER_MODELS_def FALLBACK_def BEST_AGENTS_def TOOL_AGENTS_def FAST_AGENTS_def LARGE_ATTACHMENT_CHARS_def
      strip_def is_space_def chr_code_def helper_env_def demo_ai_defs Let_def)

abbreviation demo_log :: "(string \<times> execution_status) list" where
  "demo_log \<equiv> [(''lookup_tm1_function'', XSuccess), (''apply_change'', XError)]"

abbreviation log_of :: "string list ai_db \<Rightarrow> (string \<times> execution_status) list" where
  "log_of d \<equiv> map (\<lambda>x. (tx_tool_name x, tx_status x)) (tool_executions d)"

lemma greedy_chat_turn:
  "\<exists>s' x. chat_turn demo_cfg helper_env greedy_model 0 persona_body rd demo_session = (s', Inr x) \<and>
     log_of (working s') = demo_log"
  by (simp add: chat_turn_def run_tool_loop_def finish_turn_def on_working_def create_usage_def audit_log_def
      greedy_model_def helper_env_def turn_eval demo_ai_defs Let_def)

lemma greedy_stream_turn:
  "\<exists>s' events. stream_turn_of demo_cfg helper_env greedy_model 0 None persona_body rd demo_session =
       (s', events, Inr ()) \<and> log_of (working s') = demo_log"
  by (simp add: stream_turn_of_def finish_turn_def on_working_def create_usage_def audit_log_def
      greedy_model_def helper_env_def turn_eval demo_ai_defs Let_def)

lemma greedy_runs: "log_of greedy_chat = demo_log" "log_of greedy_stream = demo_log"
proof -
  obtain rd where rd: "route demo_cfg helper_env persona_body (world (working demo_session)) = Inr rd"
    using helper_routed by blast
  obtain s' x where chat: "chat_turn demo_cfg helper_env greedy_model 0 persona_body rd demo_session = (s', Inr x)"
    "log_of (working s') = demo_log" using greedy_chat_turn [of rd] by (elim exE conjE)
  obtain s'' events where stream: "stream_turn_of demo_cfg helper_env greedy_model 0 None persona_body rd demo_session =
      (s'', events, Inr ())" "log_of (working s'') = demo_log" using greedy_stream_turn [of rd] by (elim exE conjE)
  show "log_of greedy_chat = demo_log" "log_of greedy_stream = demo_log"
    using chat stream
    by (simp_all add: greedy_chat_def greedy_stream_def chat_endpoint_def chat_def chat_stream_request_def
        stream_chat_def rd demo_quota_ok end_request_def demo_session_def [symmetric])
qed

lemma turns_stay_within_the_allowed_tools_witness:
  "map tx_tool_name (tool_executions greedy_chat) = [''lookup_tm1_function'', ''apply_change''] \<and>
   map tx_tool_name (tool_executions greedy_stream) = [''lookup_tm1_function'', ''apply_change''] \<and>
   ''applied'' \<notin> set (world greedy_chat) \<and> ''applied'' \<notin> set (world greedy_stream)"
proof -
  have "''applied'' \<notin> set (world greedy_chat) \<and> ''applied'' \<notin> set (world greedy_stream)"
    unfolding greedy_chat_def greedy_stream_def
    by (rule turns_stay_within_the_allowed_tools [where good = "\<lambda>w. ''applied'' \<notin> set w"])
       (auto simp: may_use_def find_persona_def resolve_allowed_tools_def PLAIN_CHAT_TOOL_NAMES_def
          helper_env_def demo_ai_defs)
  with greedy_runs show ?thesis by (auto simp: map_eq_Cons_conv)
qed

end
