(* ===== verification/History.thy ===== *)
theory History
  imports DependencyGraph "HOL-Library.Product_Lexorder"
begin

text \<open>
  \<open>tm1/metadata/history.py\<close>: the graph by name, what changed between two
  extractions, the rows that record an extraction or its failure, how fresh the map
  is, and the daily refresh. Rebuilding the graph (\<open>extract_metadata\<close>) is an
  argument: a function from the graph tables to the rebuilt ones or an exception.
\<close>

section \<open>The graph by name\<close>

type_synonym object_key = "string \<times> string"
type_synonym edge_key = "string \<times> string \<times> string \<times> string \<times> string"

definition MAX_LISTED_CHANGES :: nat where "MAX_LISTED_CHANGES = 200"

text \<open>\<open>names\<close>: the connection's objects by row id; of two rows with one id the last counts.\<close>

definition names_by_id :: "graph \<Rightarrow> uuid \<Rightarrow> uuid \<Rightarrow> object_key option" where
  "names_by_id g conn i =
     map_option (\<lambda>ob. (o_object_type ob, o_name ob))
       (find (\<lambda>ob. o_id ob = i) (rev (list_objects g conn None)))"

definition edge_key :: "graph \<Rightarrow> uuid \<Rightarrow> relationship \<Rightarrow> edge_key option" where
  "edge_key g conn r =
     (case (names_by_id g conn (rel_from r), names_by_id g conn (rel_to r)) of
        (Some (ft, fn), Some (tt, tn)) \<Rightarrow> Some (ft, fn, rel_type r, tt, tn)
      | _ \<Rightarrow> None)"

definition graph_keys :: "graph \<Rightarrow> uuid \<Rightarrow> object_key set \<times> edge_key set" where
  "graph_keys g conn =
     (set (map (\<lambda>ob. (o_object_type ob, o_name ob)) (list_objects g conn None)),
      set (List.map_filter (edge_key g conn) (list_relationships g conn)))"

record graph_changes =
  gc_first :: bool
  gc_objects_added_count :: nat
  gc_objects_removed_count :: nat
  gc_relationships_added_count :: nat
  gc_relationships_removed_count :: nat
  gc_objects_added :: "object_key list"
  gc_objects_removed :: "object_key list"
  gc_relationships_added :: "edge_key list"
  gc_relationships_removed :: "edge_key list"

definition entries :: "'a :: linorder set \<Rightarrow> 'a list" where
  "entries keys = take MAX_LISTED_CHANGES (sorted_list_of_set keys)"

definition diff_graphs ::
  "object_key set \<times> edge_key set \<Rightarrow> object_key set \<times> edge_key set \<Rightarrow> graph_changes" where
  "diff_graphs before after =
     (let added_objects = fst after - fst before; removed_objects = fst before - fst after;
          added_edges = snd after - snd before; removed_edges = snd before - snd after;
          first = (fst before = {})
      in \<lparr>gc_first = first,
          gc_objects_added_count = card added_objects, gc_objects_removed_count = card removed_objects,
          gc_relationships_added_count = card added_edges, gc_relationships_removed_count = card removed_edges,
          gc_objects_added = (if first then [] else entries added_objects),
          gc_objects_removed = entries removed_objects,
          gc_relationships_added = (if first then [] else entries added_edges),
          gc_relationships_removed = entries removed_edges\<rparr>)"

section \<open>The rows\<close>

record extraction =
  ex_id :: uuid
  ex_connection_id :: uuid
  ex_organization_id :: uuid
  ex_trigger :: string
  ex_triggered_by :: "uuid option"
  ex_status :: string
  ex_started_at :: time
  ex_finished_at :: time
  ex_object_count :: nat
  ex_relationship_count :: nat
  ex_unresolved_references :: nat
  ex_changes :: "graph_changes option"
  ex_failed :: bool

record map_db =
  md_graph :: graph
  md_extractions :: "extraction list"

text \<open>\<open>extract_metadata\<close> gives the rebuilt tables and the count of unresolved references.\<close>

type_synonym extractor = "uuid \<Rightarrow> uuid \<Rightarrow> graph \<Rightarrow> (graph \<times> nat) result"

definition run_extraction ::
  "extractor \<Rightarrow> uuid \<Rightarrow> uuid \<Rightarrow> uuid \<Rightarrow> string \<Rightarrow> uuid option \<Rightarrow> time \<Rightarrow> time \<Rightarrow> map_db \<Rightarrow> (map_db \<times> extraction) result" where
  "run_extraction extract_metadata i conn org trigger triggered_by started_at finished_at d =
     (let before = graph_keys (md_graph d) conn in
      bind_result (extract_metadata conn org (md_graph d)) (\<lambda>(g, unresolved).
        let after = graph_keys g conn;
            row = \<lparr>ex_id = i, ex_connection_id = conn, ex_organization_id = org, ex_trigger = trigger,
              ex_triggered_by = triggered_by, ex_status = ''succeeded'', ex_started_at = started_at,
              ex_finished_at = finished_at, ex_object_count = card (fst after),
              ex_relationship_count = card (snd after), ex_unresolved_references = unresolved,
              ex_changes = Some (diff_graphs before after), ex_failed = False\<rparr>
        in Inr (\<lparr>md_graph = g, md_extractions = md_extractions d @ [row]\<rparr>, row)))"

definition record_failure_row ::
  "uuid \<Rightarrow> uuid \<Rightarrow> uuid \<Rightarrow> string \<Rightarrow> time \<Rightarrow> time \<Rightarrow> map_db \<Rightarrow> map_db" where
  "record_failure_row i conn org trigger started_at finished_at d =
     d\<lparr>md_extractions := md_extractions d @
        [\<lparr>ex_id = i, ex_connection_id = conn, ex_organization_id = org, ex_trigger = trigger,
          ex_triggered_by = None, ex_status = ''failed'', ex_started_at = started_at,
          ex_finished_at = finished_at, ex_object_count = 0, ex_relationship_count = 0,
          ex_unresolved_references = 0, ex_changes = None, ex_failed = True\<rparr>]\<rparr>"

definition list_extractions :: "uuid \<Rightarrow> uuid \<Rightarrow> nat \<Rightarrow> map_db \<Rightarrow> extraction list" where
  "list_extractions conn org limit d =
     take limit (rev (sort_key ex_started_at
       (filter (\<lambda>x. ex_connection_id x = conn \<and> ex_organization_id x = org) (md_extractions d))))"

definition last_successful :: "uuid \<Rightarrow> uuid \<Rightarrow> map_db \<Rightarrow> extraction option" where
  "last_successful conn org d =
     (case rev (sort_key ex_started_at
        (filter (\<lambda>x. ex_connection_id x = conn \<and> ex_organization_id x = org \<and> ex_status x = ''succeeded'')
          (md_extractions d))) of
        [] \<Rightarrow> None | x # _ \<Rightarrow> Some x)"

section \<open>The daily refresh\<close>

definition REFRESH_MIN_AGE_HOURS :: int where "REFRESH_MIN_AGE_HOURS = 20"

text \<open>A connection that has been mapped: its id, organization, and when last.\<close>

type_synonym due = "uuid \<times> uuid \<times> time"

datatype refreshed = Refreshed | RefreshFailed

record refresh_run =
  rf_db :: map_db
  rf_outcomes :: "(uuid \<times> refreshed) list"
  rf_skipped :: nat

text \<open>
  One pass over the due connections, stalest first. \<open>late\<close> says, for each position,
  whether the start budget is spent there; \<open>now i\<close> is the time of the \<open>i\<close>-th attempt.
  Each attempt is its own transaction, so a failed one leaves the tables as they were.
\<close>

definition refresh_one ::
  "extractor \<Rightarrow> time \<Rightarrow> (nat \<Rightarrow> bool) \<Rightarrow> (nat \<Rightarrow> uuid) \<Rightarrow> (nat \<Rightarrow> time) \<Rightarrow> nat \<times> due \<Rightarrow> refresh_run \<Rightarrow> refresh_run" where
  "refresh_one extract_metadata cutoff late ids now x rr =
     (case x of (i, conn, org, extracted_at) \<Rightarrow>
        if extracted_at > cutoff then rr
        else if late i then rr\<lparr>rf_skipped := rf_skipped rr + 1\<rparr>
        else (case run_extraction extract_metadata (ids i) conn org ''schedule'' None (now i) (now i) (rf_db rr) of
                Inr (d, _) \<Rightarrow> rr\<lparr>rf_db := d, rf_outcomes := rf_outcomes rr @ [(conn, Refreshed)]\<rparr>
              | Inl _ \<Rightarrow> rr\<lparr>rf_db := record_failure_row (ids i) conn org ''schedule'' (now i) (now i) (rf_db rr),
                           rf_outcomes := rf_outcomes rr @ [(conn, RefreshFailed)]\<rparr>))"

definition refresh_due_connections ::
  "extractor \<Rightarrow> time \<Rightarrow> (nat \<Rightarrow> bool) \<Rightarrow> (nat \<Rightarrow> uuid) \<Rightarrow> (nat \<Rightarrow> time) \<Rightarrow> due list \<Rightarrow> map_db \<Rightarrow> refresh_run" where
  "refresh_due_connections extract_metadata started late ids now dues d =
     fold (refresh_one extract_metadata (started - seconds (REFRESH_MIN_AGE_HOURS * 3600)) late ids now)
       (enumerate 0 (sort_key (\<lambda>(_, _, last). last) dues))
       \<lparr>rf_db = d, rf_outcomes = [], rf_skipped = 0\<rparr>"

section \<open>What the rows say\<close>

lemma finite_graph_keys [simp]: "finite (fst (graph_keys g conn))" "finite (snd (graph_keys g conn))"
  by (simp_all add: graph_keys_def)

lemma set_entries:
  "finite keys \<Longrightarrow> card keys \<le> MAX_LISTED_CHANGES \<Longrightarrow> set (entries keys) = keys"
  by (simp add: entries_def)

text \<open>Every row an extraction leaves says \<open>succeeded\<close> or \<open>failed\<close>.\<close>

definition extractions_ok :: "extraction list \<Rightarrow> bool" where
  "extractions_ok xs \<longleftrightarrow> (\<forall>x \<in> set xs. ex_status x = (if ex_failed x then ''failed'' else ''succeeded''))"

lemma run_extraction_ok:
  "run_extraction ex i conn org tr who st fin d = Inr (d', row) \<Longrightarrow> extractions_ok (md_extractions d) \<Longrightarrow>
     extractions_ok (md_extractions d')"
  by (auto simp: run_extraction_def bind_result_Inr_iff extractions_ok_def Let_def)

lemma record_failure_row_ok:
  "extractions_ok (md_extractions d) \<Longrightarrow> extractions_ok (md_extractions (record_failure_row i conn org tr st fin d))"
  by (auto simp: record_failure_row_def extractions_ok_def)

lemma refresh_due_ok:
  assumes "extractions_ok (md_extractions d)"
  shows "extractions_ok (md_extractions (rf_db (refresh_due_connections ex started late ids now dues d)))"
proof -
  have "extractions_ok (md_extractions (rf_db rr)) \<Longrightarrow>
      extractions_ok (md_extractions (rf_db (fold (refresh_one ex cutoff late ids now) xs rr)))" for xs rr cutoff
    by (induction xs arbitrary: rr)
       (auto simp: refresh_one_def record_failure_row_ok run_extraction_ok split: prod.splits sum.splits if_splits)
  with assms show ?thesis by (simp add: refresh_due_connections_def)
qed

end
