(* ===== verification/Monitoring.thy ===== *)
theory Monitoring
  imports Governance History
begin

text \<open>
  Monitoring rules and alerts: \<open>services/monitoring_rules_service.py\<close> with the tables
  of \<open>database/models/monitor.py\<close> and the run history of \<open>tm1/health/performance.py\<close>.
  The TM1 server is what its calls return (\<open>server\<close>): the runs parsed from its
  message log, element counts, users with their groups. Titles, details and evidence
  are texts for people and not modelled; dedup keys are.
\<close>

section \<open>Rules and alerts\<close>

datatype monitor_kind =
    ProcessFailure | PerformanceRegression | DimensionGrowth | SecurityChange | ModelChange | Deployment

definition KINDS :: "(string \<times> monitor_kind) list" where
  "KINDS =
     [(''process_failure'', ProcessFailure), (''performance_regression'', PerformanceRegression),
      (''dimension_growth'', DimensionGrowth), (''security_change'', SecurityChange),
      (''model_change'', ModelChange), (''deployment'', Deployment)]"

definition MIN_INTERVAL_MINUTES :: int where "MIN_INTERVAL_MINUTES = 15"
definition ERRORS_BEFORE_ALERT :: nat where "ERRORS_BEFORE_ALERT = 3"
definition MAX_ALERTS_PER_CHECK :: nat where "MAX_ALERTS_PER_CHECK = 20"
definition MAX_GROUPS :: nat where "MAX_GROUPS = 500"
definition MIN_PREVIOUS_RUNS :: nat where "MIN_PREVIOUS_RUNS = 3"

text \<open>The checked parameters of a rule.\<close>

datatype rule_params =
    ProcessParams "string option"
  | PerformanceParams string rat int
  | GrowthParams string rat
  | NoParams

datatype rule_status = RuleActive | RulePaused | RuleProposed
datatype rule_source = Human | Assistant

type_synonym membership = "(string \<times> string list) list"

text \<open>What the last check saw; both kinds of rule write their own.\<close>

datatype rule_state = Elements int | Groups membership

record monitor_rule =
  mr_id :: uuid
  mr_organization_id :: uuid
  mr_connection_id :: uuid
  mr_kind :: monitor_kind
  mr_params :: rule_params
  mr_status :: rule_status
  mr_source :: rule_source
  mr_interval_minutes :: int
  mr_notify :: "string list"
  mr_state :: "rule_state option"
  mr_last_checked_at :: "time option"
  mr_last_error :: "exn option"
  mr_consecutive_errors :: nat
  mr_created_by :: uuid
  mr_created_at :: time

datatype severity_level = Info | Warning | Critical
datatype alert_status = AlertOpen | AlertAcknowledged | AlertResolved

record monitor_alert =
  ma_id :: uuid
  ma_organization_id :: uuid
  ma_rule_id :: uuid
  ma_connection_id :: uuid
  ma_severity :: severity_level
  ma_dedup_key :: string
  ma_fired_at :: time
  ma_status :: alert_status
  ma_acknowledged_by :: "uuid option"
  ma_acknowledged_at :: "time option"
  ma_emailed :: bool

record process_run =
  pr_connection_id :: uuid
  pr_process_name :: string
  pr_finished_at :: time
  pr_elapsed_seconds :: "rat option"
  pr_outcome :: string
  pr_source :: string

record monitor_db =
  mo_rules :: "monitor_rule list"
  mo_alerts :: "monitor_alert list"
  mo_runs :: "process_run list"
  mo_changes :: "change list"
  mo_extractions :: "extraction list"

definition rule_by_id :: "monitor_db \<Rightarrow> uuid \<Rightarrow> monitor_rule option" where
  "rule_by_id d i = find (\<lambda>r. mr_id r = i) (mo_rules d)"

definition save_rule :: "monitor_rule \<Rightarrow> monitor_db \<Rightarrow> monitor_db" where
  "save_rule r d = d\<lparr>mo_rules := map (\<lambda>x. if mr_id x = mr_id r then r else x) (mo_rules d)\<rparr>"

section \<open>Parameters\<close>

text \<open>
  \<open>float\<close> of a JSON value (\<open>parse\<close> reads a text; no finite number is \<open>None\<close>), and the
  argument \<open>str\<close> for \<open>str(value or '')\<close>.
\<close>

definition float_of :: "(string \<Rightarrow> rat option) \<Rightarrow> json \<Rightarrow> rat option" where
  "float_of parse v =
     (case v of
        JInt n \<Rightarrow> Some (of_int n)
      | JNum x \<Rightarrow> Some x
      | JBool b \<Rightarrow> Some (if b then 1 else 0)
      | JStr s \<Rightarrow> parse s
      | _ \<Rightarrow> None)"

definition number_param ::
  "(string \<Rightarrow> rat option) \<Rightarrow> (string \<times> json) list \<Rightarrow> string \<Rightarrow> rat \<Rightarrow> rat \<Rightarrow> rat \<Rightarrow> rat result" where
  "number_param parse params key dflt low high =
     (case (case map_of params key of None \<Rightarrow> Some dflt | Some v \<Rightarrow> float_of parse v) of
        None \<Rightarrow> Inl Validation
      | Some x \<Rightarrow> if low \<le> x \<and> x \<le> high then Inr x else Inl Validation)"

definition text_param ::
  "(json \<Rightarrow> string) \<Rightarrow> (string \<times> json) list \<Rightarrow> string \<Rightarrow> bool \<Rightarrow> string option result" where
  "text_param str params key required =
     (let value = strip (case map_of params key of None \<Rightarrow> [] | Some v \<Rightarrow> str v) in
      if required \<and> value = [] then Inl Validation
      else if length value > 255 then Inl Validation
      else Inr (if value = [] then None else Some value))"

definition validate_params ::
  "(string \<Rightarrow> rat option) \<Rightarrow> (json \<Rightarrow> string) \<Rightarrow> string \<Rightarrow> (string \<times> json) list \<Rightarrow>
     (monitor_kind \<times> rule_params) result" where
  "validate_params parse str kind params =
     (case map_of KINDS kind of
        None \<Rightarrow> Inl Validation
      | Some ProcessFailure \<Rightarrow>
          bind_result (text_param str params ''process_name'' False) (\<lambda>n. Inr (ProcessFailure, ProcessParams n))
      | Some PerformanceRegression \<Rightarrow>
          bind_result (text_param str params ''process_name'' True) (\<lambda>n.
          bind_result (number_param parse params ''factor'' 2 (11 / 10) 100) (\<lambda>f.
          bind_result (number_param parse params ''window_days'' 30 1 90) (\<lambda>w.
            Inr (PerformanceRegression, PerformanceParams (new_value n []) f \<lfloor>w\<rfloor>))))
      | Some DimensionGrowth \<Rightarrow>
          bind_result (text_param str params ''dimension_name'' True) (\<lambda>n.
          bind_result (number_param parse params ''max_growth_percent'' 10 0 10000) (\<lambda>g.
            Inr (DimensionGrowth, GrowthParams (new_value n []) g)))
      | Some k \<Rightarrow> Inr (k, NoParams))"

section \<open>The run history\<close>

text \<open>\<open>_store\<close>: the unique constraint makes a run that is already there a no-op.\<close>

definition same_run_row :: "process_run \<Rightarrow> process_run \<Rightarrow> bool" where
  "same_run_row r x \<longleftrightarrow>
     pr_connection_id r = pr_connection_id x \<and> pr_process_name r = pr_process_name x \<and>
     pr_finished_at r = pr_finished_at x \<and> pr_source r = pr_source x"

definition store_run :: "process_run \<Rightarrow> process_run list \<Rightarrow> process_run list" where
  "store_run r rows = (if \<exists>x \<in> set rows. same_run_row r x then rows else rows @ [r])"

text \<open>The runs PA-Copilot started itself, from the changes it executed.\<close>

definition pa_run :: "uuid \<Rightarrow> change \<Rightarrow> process_run list" where
  "pa_run conn ch =
     (case (ch_executed_at ch, ch_execution_result ch) of
        (Some executed_at, Some result) \<Rightarrow>
          if ch_connection_id ch \<noteq> conn \<or> ch_type ch \<noteq> RUN_PROCESS \<or> json_get result ''status'' = Some (JStr ''NotStarted'')
          then []
          else [\<lparr>pr_connection_id = conn, pr_process_name = ch_target_name ch, pr_finished_at = executed_at,
                 pr_elapsed_seconds =
                   (case json_get result ''duration_ms'' of
                      Some (JInt n) \<Rightarrow> Some (of_int n / 1000)
                    | Some (JNum x) \<Rightarrow> Some (x / 1000)
                    | _ \<Rightarrow> None),
                 pr_outcome = (if json_get result ''success'' = Some (JBool True) then ''succeeded'' else ''aborted''),
                 pr_source = ''pa_copilot''\<rparr>]
      | _ \<Rightarrow> [])"

text \<open>What a server answers now; \<open>sv_log_runs\<close> are the finished runs of its message log.\<close>

record server =
  sv_log_runs :: "process_run list result"
  sv_elements :: "string \<Rightarrow> int result"
  sv_users :: "(string \<times> string list) list result"

definition collect_runs :: "server \<Rightarrow> uuid \<Rightarrow> monitor_db \<Rightarrow> monitor_db result" where
  "collect_runs sv conn d =
     bind_result (sv_log_runs sv) (\<lambda>runs.
       Inr (d\<lparr>mo_runs := fold store_run
              (concat (map (pa_run conn) (mo_changes d))) (fold store_run runs (mo_runs d))\<rparr>))"

section \<open>What a check finds\<close>

record found =
  fd_severity :: severity_level
  fd_dedup_key :: string

text \<open>
  What an evaluation runs in: the server, the time, how times and snapshots are
  written in keys, and whether \<open>collect_runs\<close> has run for this server already.
\<close>

record check_env =
  ce_server :: server
  ce_iso :: "time \<Rightarrow> string"
  ce_minute :: "time \<Rightarrow> string"
  ce_digest :: "membership \<Rightarrow> string"

type_synonym evaluation = "(monitor_db \<times> bool) \<times> (found list \<times> rule_state option) result"

definition collected ::
  "check_env \<Rightarrow> monitor_rule \<Rightarrow> (monitor_db \<Rightarrow> (found list \<times> rule_state option) result) \<Rightarrow> monitor_db \<times> bool \<Rightarrow> evaluation" where
  "collected env r f db =
     (case db of (d, done) \<Rightarrow>
        if done then ((d, True), f d)
        else (case collect_runs (ce_server env) (mr_connection_id r) d of
                Inl e \<Rightarrow> ((d, False), Inl e)
              | Inr d' \<Rightarrow> ((d', True), f d')))"

definition failed_runs :: "monitor_rule \<Rightarrow> string option \<Rightarrow> time \<Rightarrow> monitor_db \<Rightarrow> process_run list" where
  "failed_runs r name since d =
     sort_key pr_finished_at
       (filter (\<lambda>x. pr_connection_id x = mr_connection_id r \<and> pr_finished_at x > since \<and>
                   pr_outcome x \<noteq> ''succeeded'' \<and> (case name of None \<Rightarrow> True | Some n \<Rightarrow> pr_process_name x = n))
         (mo_runs d))"

definition failure_key :: "check_env \<Rightarrow> process_run \<Rightarrow> string" where
  "failure_key env x = ''run:'' @ pr_process_name x @ '':'' @ ce_iso env (pr_finished_at x)"

definition check_process_failure ::
  "check_env \<Rightarrow> monitor_rule \<Rightarrow> string option \<Rightarrow> time \<Rightarrow> monitor_db \<times> bool \<Rightarrow> evaluation" where
  "check_process_failure env r name since =
     collected env r (\<lambda>d.
       Inr (map (\<lambda>x. \<lparr>fd_severity = (if pr_outcome x = ''aborted'' then Critical else Warning),
                      fd_dedup_key = failure_key env x\<rparr>) (failed_runs r name since d), None))"

definition earlier_times :: "monitor_rule \<Rightarrow> string \<Rightarrow> int \<Rightarrow> process_run \<Rightarrow> monitor_db \<Rightarrow> rat list" where
  "earlier_times r name days run d =
     List.map_filter pr_elapsed_seconds
       (filter (\<lambda>x. pr_connection_id x = mr_connection_id r \<and> pr_process_name x = name \<and>
                   pr_finished_at x < pr_finished_at run \<and>
                   pr_finished_at x \<ge> pr_finished_at run - seconds (days * 86400) \<and> pr_outcome x = ''succeeded'')
         (mo_runs d))"

definition slow_run :: "monitor_rule \<Rightarrow> string \<Rightarrow> rat \<Rightarrow> int \<Rightarrow> monitor_db \<Rightarrow> process_run \<Rightarrow> bool" where
  "slow_run r name factor days d run =
     (case pr_elapsed_seconds run of
        None \<Rightarrow> False
      | Some elapsed \<Rightarrow>
          let earlier = earlier_times r name days run d;
              average = sum_list earlier / of_nat (length earlier)
          in length earlier \<ge> MIN_PREVIOUS_RUNS \<and> 0 < average \<and> elapsed > factor * average)"

definition check_performance ::
  "check_env \<Rightarrow> monitor_rule \<Rightarrow> string \<Rightarrow> rat \<Rightarrow> int \<Rightarrow> time \<Rightarrow> monitor_db \<times> bool \<Rightarrow> evaluation" where
  "check_performance env r name factor days since =
     collected env r (\<lambda>d.
       Inr (map (\<lambda>x. \<lparr>fd_severity = Warning,
                      fd_dedup_key = ''slow:'' @ name @ '':'' @ ce_iso env (pr_finished_at x)\<rparr>)
              (filter (slow_run r name factor days d)
                (sort_key pr_finished_at
                  (filter (\<lambda>x. pr_connection_id x = mr_connection_id r \<and> pr_process_name x = name \<and>
                              pr_finished_at x > since \<and> pr_elapsed_seconds x \<noteq> None) (mo_runs d)))), None))"

definition check_dimension_growth ::
  "check_env \<Rightarrow> monitor_rule \<Rightarrow> string \<Rightarrow> rat \<Rightarrow> monitor_db \<times> bool \<Rightarrow> evaluation" where
  "check_dimension_growth env r name limit db =
     (db, bind_result (sv_elements (ce_server env) name) (\<lambda>count.
        case mr_state r of
          Some (Elements baseline) \<Rightarrow>
            if baseline > 0 \<and> of_int count > of_int baseline * (1 + limit / 100)
            then Inr ([\<lparr>fd_severity = Warning,
                        fd_dedup_key = ''growth:'' @ name @ '':'' @ int_str baseline @ '':'' @ int_str count\<rparr>],
                      Some (Elements count))
            else Inr ([], mr_state r)
        | _ \<Rightarrow> Inr ([], Some (Elements count))))"

text \<open>Groups with their members, both sorted; at most \<open>MAX_GROUPS\<close> groups of a user count.\<close>

definition membership_of :: "(string \<times> string list) list \<Rightarrow> membership" where
  "membership_of people =
     (let pairs = concat (map (\<lambda>(u, gs). map (\<lambda>gr. (gr, u)) (take MAX_GROUPS (sort gs))) people);
          groups = sorted_list_of_set (set (map fst pairs))
      in map (\<lambda>gr. (gr, sort (map snd (filter (\<lambda>p. fst p = gr) pairs)))) groups)"

definition members :: "membership \<Rightarrow> string \<Rightarrow> string set" where
  "members m gr = (case map_of m gr of None \<Rightarrow> {} | Some us \<Rightarrow> set us)"

fun comma_separated :: "string list \<Rightarrow> string" where
  "comma_separated [] = []"
| "comma_separated [x] = x"
| "comma_separated (x # xs) = x @ '', '' @ comma_separated xs"

definition change_lines :: "membership \<Rightarrow> membership \<Rightarrow> string list" where
  "change_lines baseline snapshot =
     concat (map (\<lambda>gr.
       let before = members baseline gr; after = members snapshot gr;
           added = sorted_list_of_set (after - before); removed = sorted_list_of_set (before - after)
       in (if added = [] then [] else [gr @ '': added '' @ comma_separated added]) @
          (if removed = [] then [] else [gr @ '': removed '' @ comma_separated removed]))
       (sorted_list_of_set (set (map fst baseline) \<union> set (map fst snapshot))))"

definition contains :: "string \<Rightarrow> string \<Rightarrow> bool" where
  "contains part s \<longleftrightarrow> (\<exists>i \<in> set [0..<Suc (length s)]. take (length part) (drop i s) = part)"

definition security_key :: "check_env \<Rightarrow> membership \<Rightarrow> string" where
  "security_key env snapshot = ''security:'' @ ce_digest env snapshot"

definition check_security :: "check_env \<Rightarrow> monitor_rule \<Rightarrow> monitor_db \<times> bool \<Rightarrow> evaluation" where
  "check_security env r db =
     (db, bind_result (sv_users (ce_server env)) (\<lambda>people.
        let snapshot = membership_of people; st = Some (Groups snapshot) in
        case mr_state r of
          Some (Groups baseline) \<Rightarrow>
            if baseline = snapshot then Inr ([], st)
            else
              let critical = (\<exists>line \<in> set (change_lines baseline snapshot).
                    take 6 line = ''ADMIN:'' \<and> contains ''added'' line)
              in Inr ([\<lparr>fd_severity = (if critical then Critical else Warning),
                        fd_dedup_key = security_key env snapshot\<rparr>], st)
        | _ \<Rightarrow> Inr ([], st)))"

definition check_model_change :: "check_env \<Rightarrow> monitor_rule \<Rightarrow> time \<Rightarrow> monitor_db \<times> bool \<Rightarrow> evaluation" where
  "check_model_change env r since db =
     (db, Inr (concat (map (\<lambda>x.
          case ex_changes x of
            None \<Rightarrow> []
          | Some c \<Rightarrow>
              if gc_first c \<or>
                gc_objects_added_count c + gc_objects_removed_count c +
                gc_relationships_added_count c + gc_relationships_removed_count c = 0 then []
              else [\<lparr>fd_severity = Info, fd_dedup_key = ''extraction:'' @ ex_id x\<rparr>])
        (sort_key ex_finished_at
          (filter (\<lambda>x. ex_connection_id x = mr_connection_id r \<and> ex_status x = ''success'' \<and>
                      ex_finished_at x > since) (mo_extractions (fst db))))), None))"

definition after_time :: "time option \<Rightarrow> time \<Rightarrow> bool" where
  "after_time t since \<longleftrightarrow> (case t of None \<Rightarrow> False | Some x \<Rightarrow> x > since)"

definition deployment_found :: "time \<Rightarrow> change \<Rightarrow> found list" where
  "deployment_found since ch =
     (if after_time (ch_rolled_back_at ch) since
      then [\<lparr>fd_severity = Warning, fd_dedup_key = ''change:'' @ ch_id ch @ '':rolled_back''\<rparr>] else []) @
     (if after_time (ch_executed_at ch) since
      then if ch_status ch = UNKNOWN
           then [\<lparr>fd_severity = Critical, fd_dedup_key = ''change:'' @ ch_id ch @ '':unknown''\<rparr>]
           else if ch_status ch = CHANGE_FAILED
           then [\<lparr>fd_severity = Critical, fd_dedup_key = ''change:'' @ ch_id ch @ '':failed''\<rparr>]
           else [\<lparr>fd_severity = Info, fd_dedup_key = ''change:'' @ ch_id ch @ '':applied''\<rparr>]
      else [])"

definition check_deployment :: "monitor_rule \<Rightarrow> time \<Rightarrow> monitor_db \<times> bool \<Rightarrow> evaluation" where
  "check_deployment r since db =
     (db, Inr (concat (map (deployment_found since)
        (filter (\<lambda>ch. ch_connection_id ch = mr_connection_id r \<and>
                     (after_time (ch_executed_at ch) since \<or> after_time (ch_rolled_back_at ch) since))
          (mo_changes (fst db)))), None))"

text \<open>\<open>EVALUATORS[rule.kind]\<close>; a rule whose parameters are of another kind has no entry.\<close>

definition evaluate :: "check_env \<Rightarrow> monitor_rule \<Rightarrow> time \<Rightarrow> monitor_db \<times> bool \<Rightarrow> evaluation" where
  "evaluate env r since db =
     (case (mr_kind r, mr_params r) of
        (ProcessFailure, ProcessParams name) \<Rightarrow> check_process_failure env r name since db
      | (PerformanceRegression, PerformanceParams name factor days) \<Rightarrow>
          check_performance env r name factor days since db
      | (DimensionGrowth, GrowthParams name limit) \<Rightarrow> check_dimension_growth env r name limit db
      | (SecurityChange, _) \<Rightarrow> check_security env r db
      | (ModelChange, _) \<Rightarrow> check_model_change env r since db
      | (Deployment, _) \<Rightarrow> check_deployment r since db
      | _ \<Rightarrow> (db, Inl KeyError))"

section \<open>Making and changing rules\<close>

text \<open>Who asks, over which accounts and connections.\<close>

record caller =
  cl_accounts :: accounts
  cl_connections :: "connection list"
  cl_organization_id :: uuid
  cl_user_id :: uuid

definition caller_connection :: "caller \<Rightarrow> uuid \<Rightarrow> connection result" where
  "caller_connection who conn =
     get_connection (cl_accounts who) (cl_connections who) conn (cl_organization_id who) Use
       (Some (cl_user_id who))"

definition may_edit :: "caller \<Rightarrow> monitor_rule \<Rightarrow> unit result" where
  "may_edit who r =
     (if mr_created_by r = cl_user_id who then Inr ()
      else bind_result (user_has_permission (cl_accounts who) (cl_user_id who) ''tm1.connections.manage_all'')
             (\<lambda>b. ensure b PermissionDenied))"

definition check_kind_permission :: "caller \<Rightarrow> monitor_kind \<Rightarrow> unit result" where
  "check_kind_permission who kind =
     (if kind = SecurityChange
      then bind_result (user_has_permission (cl_accounts who) (cl_user_id who) ''tm1.security.read'')
             (\<lambda>b. ensure b PermissionDenied)
      else Inr ())"

definition get_rule :: "caller \<Rightarrow> uuid \<Rightarrow> monitor_db \<Rightarrow> monitor_rule result" where
  "get_rule who i d =
     (case rule_by_id d i of
        None \<Rightarrow> Inl NotFound
      | Some r \<Rightarrow>
          if mr_organization_id r \<noteq> cl_organization_id who then Inl NotFound
          else bind_result (caller_connection who (mr_connection_id r)) (\<lambda>_. Inr r))"

definition create_rule ::
  "(string \<Rightarrow> rat option) \<Rightarrow> (json \<Rightarrow> string) \<Rightarrow> uuid \<Rightarrow> time \<Rightarrow> caller \<Rightarrow> uuid \<Rightarrow> string \<Rightarrow>
     (string \<times> json) list \<Rightarrow> int \<Rightarrow> rule_source \<Rightarrow> monitor_db \<Rightarrow> (monitor_db \<times> monitor_rule) result" where
  "create_rule parse str i now who conn kind params interval source d =
     bind_result (caller_connection who conn) (\<lambda>_.
     bind_result (validate_params parse str kind params) (\<lambda>(k, ps).
     bind_result (check_kind_permission who k) (\<lambda>_.
       let r = \<lparr>mr_id = i, mr_organization_id = cl_organization_id who, mr_connection_id = conn, mr_kind = k,
             mr_params = ps, mr_status = (if source = Assistant then RuleProposed else RuleActive),
             mr_source = source,
             mr_interval_minutes = max MIN_INTERVAL_MINUTES (if interval = 0 then MIN_INTERVAL_MINUTES else interval),
             mr_notify = [cl_user_id who], mr_state = None, mr_last_checked_at = None, mr_last_error = None,
             mr_consecutive_errors = 0, mr_created_by = cl_user_id who, mr_created_at = now\<rparr>
       in Inr (d\<lparr>mo_rules := mo_rules d @ [r]\<rparr>, r))))"

text \<open>The body of a change: fields that are not sent are \<open>None\<close>.\<close>

record rule_changes =
  rc_params :: "(string \<times> json) list option"
  rc_interval_minutes :: "int option"
  rc_status :: "rule_status option"
  rc_notify :: "string list option"

definition kind_value :: "monitor_kind \<Rightarrow> string" where
  "kind_value k = (case find (\<lambda>p. snd p = k) KINDS of Some p \<Rightarrow> fst p | None \<Rightarrow> [])"

definition change_params ::
  "(string \<Rightarrow> rat option) \<Rightarrow> (json \<Rightarrow> string) \<Rightarrow> rule_changes \<Rightarrow> monitor_rule \<Rightarrow> monitor_rule result" where
  "change_params parse str ch r =
     (case rc_params ch of
        None \<Rightarrow> Inr r
      | Some ps \<Rightarrow>
          bind_result (validate_params parse str (kind_value (mr_kind r)) ps)
            (\<lambda>(_, p). Inr (r\<lparr>mr_params := p, mr_state := None\<rparr>)))"

definition change_interval :: "rule_changes \<Rightarrow> monitor_rule \<Rightarrow> monitor_rule" where
  "change_interval ch r =
     (case rc_interval_minutes ch of
        None \<Rightarrow> r
      | Some n \<Rightarrow> if n = 0 then r else r\<lparr>mr_interval_minutes := max MIN_INTERVAL_MINUTES n\<rparr>)"

definition change_status :: "caller \<Rightarrow> rule_changes \<Rightarrow> monitor_rule \<Rightarrow> monitor_rule result" where
  "change_status who ch r =
     (case rc_status ch of
        None \<Rightarrow> Inr r
      | Some RuleProposed \<Rightarrow> Inl Validation
      | Some RulePaused \<Rightarrow> Inr (r\<lparr>mr_status := RulePaused\<rparr>)
      | Some RuleActive \<Rightarrow>
          bind_result (check_kind_permission who (mr_kind r)) (\<lambda>_.
            Inr (if mr_status r = RuleProposed
                 then r\<lparr>mr_last_checked_at := None, mr_status := RuleActive\<rparr>
                 else r\<lparr>mr_status := RuleActive\<rparr>)))"

definition change_notify :: "rule_changes \<Rightarrow> monitor_rule \<Rightarrow> monitor_rule" where
  "change_notify ch r = (case rc_notify ch of None \<Rightarrow> r | Some us \<Rightarrow> r\<lparr>mr_notify := take 50 us\<rparr>)"

definition update_rule ::
  "(string \<Rightarrow> rat option) \<Rightarrow> (json \<Rightarrow> string) \<Rightarrow> caller \<Rightarrow> monitor_rule \<Rightarrow> rule_changes \<Rightarrow> monitor_db \<Rightarrow>
     (monitor_db \<times> monitor_rule) result" where
  "update_rule parse str who r ch d =
     bind_result (may_edit who r) (\<lambda>_.
     bind_result (change_params parse str ch r) (\<lambda>r1.
     bind_result (change_status who ch (change_interval ch r1)) (\<lambda>r2.
       let r3 = change_notify ch r2 in Inr (save_rule r3 d, r3))))"

definition delete_rule :: "caller \<Rightarrow> monitor_rule \<Rightarrow> monitor_db \<Rightarrow> monitor_db result" where
  "delete_rule who r d =
     bind_result (may_edit who r) (\<lambda>_.
       Inr (d\<lparr>mo_rules := filter (\<lambda>x. mr_id x \<noteq> mr_id r) (mo_rules d),
              mo_alerts := filter (\<lambda>x. ma_rule_id x \<noteq> mr_id r) (mo_alerts d)\<rparr>))"

section \<open>Alerts\<close>

text \<open>
  \<open>_raise\<close>: on a conflict with (rule, key) nothing is inserted and nothing returned.
\<close>

definition has_alert :: "monitor_db \<Rightarrow> uuid \<Rightarrow> string \<Rightarrow> bool" where
  "has_alert d rule key \<longleftrightarrow> (\<exists>x \<in> set (mo_alerts d). ma_rule_id x = rule \<and> ma_dedup_key x = key)"

definition raise_alert ::
  "(nat \<Rightarrow> uuid) \<Rightarrow> time \<Rightarrow> monitor_rule \<Rightarrow> found \<Rightarrow> monitor_db \<Rightarrow> monitor_db \<times> monitor_alert list" where
  "raise_alert ids now r f d =
     (let key = take 255 (fd_dedup_key f) in
      if has_alert d (mr_id r) key then (d, [])
      else
        let x = \<lparr>ma_id = ids (length (mo_alerts d)), ma_organization_id = mr_organization_id r,
              ma_rule_id = mr_id r, ma_connection_id = mr_connection_id r, ma_severity = fd_severity f,
              ma_dedup_key = key, ma_fired_at = now, ma_status = AlertOpen, ma_acknowledged_by = None,
              ma_acknowledged_at = None, ma_emailed = False\<rparr>
        in (d\<lparr>mo_alerts := mo_alerts d @ [x]\<rparr>, [x]))"

fun raise_alerts ::
  "(nat \<Rightarrow> uuid) \<Rightarrow> time \<Rightarrow> monitor_rule \<Rightarrow> found list \<Rightarrow> monitor_db \<Rightarrow> monitor_db \<times> monitor_alert list" where
  "raise_alerts ids now r [] d = (d, [])"
| "raise_alerts ids now r (f # fs) d =
     (case raise_alert ids now r f d of
        (d1, xs) \<Rightarrow> (case raise_alerts ids now r fs d1 of (d2, ys) \<Rightarrow> (d2, xs @ ys)))"

definition acknowledge :: "caller \<Rightarrow> time \<Rightarrow> alert_status \<Rightarrow> monitor_alert \<Rightarrow> monitor_alert" where
  "acknowledge who now status x =
     (if ma_acknowledged_by x = None
      then x\<lparr>ma_status := status, ma_acknowledged_by := Some (cl_user_id who), ma_acknowledged_at := Some now\<rparr>
      else x\<lparr>ma_status := status\<rparr>)"

definition set_alert_status ::
  "caller \<Rightarrow> time \<Rightarrow> uuid \<Rightarrow> alert_status \<Rightarrow> monitor_db \<Rightarrow> (monitor_db \<times> monitor_alert) result" where
  "set_alert_status who now i status d =
     (case find (\<lambda>x. ma_id x = i) (mo_alerts d) of
        None \<Rightarrow> Inl NotFound
      | Some x \<Rightarrow>
          if ma_organization_id x \<noteq> cl_organization_id who then Inl NotFound
          else bind_result (caller_connection who (ma_connection_id x)) (\<lambda>_.
            if status = AlertOpen then Inl Validation
            else Inr (d\<lparr>mo_alerts :=
                map (\<lambda>z. if ma_id z = i then acknowledge who now status z else z) (mo_alerts d)\<rparr>,
              acknowledge who now status x)))"

section \<open>Checking\<close>

definition check_rule ::
  "check_env \<Rightarrow> (nat \<Rightarrow> uuid) \<Rightarrow> time \<Rightarrow> monitor_rule \<Rightarrow> monitor_db \<times> bool \<Rightarrow>
     (monitor_db \<times> bool) \<times> monitor_alert list" where
  "check_rule env ids started r db =
     (let since = (case mr_last_checked_at r of Some t \<Rightarrow> t | None \<Rightarrow> mr_created_at r) in
      case evaluate env r since db of
        ((d, done), Inl e) \<Rightarrow>
          let r1 = r\<lparr>mr_consecutive_errors := mr_consecutive_errors r + 1, mr_last_error := Some e\<rparr>;
              d1 = save_rule r1 d;
              (d2, xs) =
                (if mr_consecutive_errors r1 = ERRORS_BEFORE_ALERT
                 then raise_alert ids started r1
                        \<lparr>fd_severity = Warning, fd_dedup_key = ''unreachable:'' @ ce_minute env started\<rparr> d1
                 else (d1, []))
          in ((d2, done), xs)
      | ((d, done), Inr (items, st)) \<Rightarrow>
          let (d1, xs) = raise_alerts ids started r (take MAX_ALERTS_PER_CHECK items) d;
              r1 = r\<lparr>mr_state := (case st of None \<Rightarrow> mr_state r | Some x \<Rightarrow> Some x),
                     mr_last_checked_at := Some started, mr_last_error := None, mr_consecutive_errors := 0\<rparr>
          in ((save_rule r1 d1, done), xs))"

text \<open>
  The email side: accounts and connections, how a subscriber's id is read, whether
  SMTP is configured, and whether the provider took an email.
\<close>

record mail =
  ml_accounts :: accounts
  ml_connections :: "connection list"
  ml_parse_uuid :: "string \<Rightarrow> uuid option"
  ml_smtp :: bool
  ml_send :: "monitor_alert \<Rightarrow> uuid \<Rightarrow> bool"

definition recipients :: "mail \<Rightarrow> monitor_db \<Rightarrow> monitor_alert \<Rightarrow> uuid list option" where
  "recipients ml d x =
     (case (rule_by_id d (ma_rule_id x), find (\<lambda>c. cn_id c = ma_connection_id x) (ml_connections ml)) of
        (Some r, Some conn) \<Rightarrow>
          Some (map u_id (filter
            (\<lambda>u. u_id u \<in> set (List.map_filter (ml_parse_uuid ml) (mr_notify r)) \<and> u_is_active u \<and>
                 u_organization_id u = ma_organization_id x \<and>
                 may_access (ml_accounts ml) conn Use (Some (u_id u)) = Inr True)
            (users (ml_accounts ml))))
      | _ \<Rightarrow> None)"

text \<open>The loop of \<open>notify\<close>; the count of sent emails is the one of the whole call.\<close>

fun notify_each :: "mail \<Rightarrow> monitor_alert list \<Rightarrow> nat \<Rightarrow> monitor_db \<Rightarrow> monitor_db \<times> nat" where
  "notify_each ml [] sent d = (d, sent)"
| "notify_each ml (x # xs) sent d =
     (case recipients ml d x of
        None \<Rightarrow> notify_each ml xs sent d
      | Some us \<Rightarrow>
          let sent' = sent + length (filter (ml_send ml x) us);
              d' = d\<lparr>mo_alerts := map (\<lambda>z. if ma_id z = ma_id x then z\<lparr>ma_emailed := (0 < sent')\<rparr> else z)
                       (mo_alerts d)\<rparr>
          in notify_each ml xs sent' d')"

definition notify :: "mail \<Rightarrow> monitor_alert list \<Rightarrow> monitor_db \<Rightarrow> monitor_db \<times> nat" where
  "notify ml xs d = (if xs = [] \<or> \<not> ml_smtp ml then (d, 0) else notify_each ml xs 0 d)"

definition check_now ::
  "check_env \<Rightarrow> mail \<Rightarrow> (nat \<Rightarrow> uuid) \<Rightarrow> time \<Rightarrow> caller \<Rightarrow> monitor_rule \<Rightarrow> monitor_db \<Rightarrow>
     (monitor_db \<times> monitor_alert list) result" where
  "check_now env ml ids started who r d =
     (if mr_status r = RuleProposed then Inl Validation
      else bind_result (caller_connection who (mr_connection_id r)) (\<lambda>_.
        case check_rule env ids started r (d, False) of ((d1, _), xs) \<Rightarrow> Inr (fst (notify ml xs d1), xs)))"

section \<open>The scheduled pass\<close>

definition is_due :: "time \<Rightarrow> monitor_rule \<Rightarrow> bool" where
  "is_due now r \<longleftrightarrow>
     (case mr_last_checked_at r of
        None \<Rightarrow> True
      | Some checked \<Rightarrow> checked \<le> now - seconds (mr_interval_minutes r * 60) + seconds 60)"

text \<open>Rules by last check, never-checked ones first.\<close>

definition stalest_first :: "monitor_rule list \<Rightarrow> monitor_rule list" where
  "stalest_first rs =
     filter (\<lambda>r. mr_last_checked_at r = None) rs @
     sort_key (\<lambda>r. case mr_last_checked_at r of Some t \<Rightarrow> t | None \<Rightarrow> 0)
       (filter (\<lambda>r. mr_last_checked_at r \<noteq> None) rs)"

definition due_rules :: "time \<Rightarrow> monitor_db \<Rightarrow> monitor_rule list" where
  "due_rules now d = filter (is_due now) (stalest_first (filter (\<lambda>r. mr_status r = RuleActive) (mo_rules d)))"

fun check_rules ::
  "check_env \<Rightarrow> (nat \<Rightarrow> uuid) \<Rightarrow> time \<Rightarrow> uuid list \<Rightarrow> monitor_db \<times> bool \<Rightarrow>
     ((monitor_db \<times> bool) \<times> monitor_alert list) option" where
  "check_rules env ids now [] db = Some (db, [])"
| "check_rules env ids now (i # is) db =
     (case rule_by_id (fst db) i of
        None \<Rightarrow> None
      | Some r \<Rightarrow>
          (case check_rule env ids now r db of
             (db1, xs) \<Rightarrow>
               (case check_rules env ids now is db1 of
                  None \<Rightarrow> None
                | Some (db2, ys) \<Rightarrow> Some (db2, xs @ ys))))"

record pass_result =
  ps_db :: monitor_db
  ps_raised :: "monitor_alert list"
  ps_checked :: nat
  ps_emailed :: nat
  ps_deferred :: nat
  ps_failed :: nat

text \<open>
  One server's rules in one transaction (a rule that vanished raises and rolls it
  back); \<open>late n\<close>: the budget is spent when the \<open>n\<close>-th server's turn comes; \<open>active\<close>:
  the connection still exists and is active.
\<close>

definition check_server ::
  "(uuid \<Rightarrow> check_env) \<Rightarrow> mail \<Rightarrow> (nat \<Rightarrow> uuid) \<Rightarrow> time \<Rightarrow> (nat \<Rightarrow> bool) \<Rightarrow> (uuid \<Rightarrow> bool) \<Rightarrow>
     nat \<times> uuid \<times> uuid list \<Rightarrow> pass_result \<Rightarrow> pass_result" where
  "check_server envs ml ids now late active x ps =
     (case x of (n, conn, rule_ids) \<Rightarrow>
        if late n then ps\<lparr>ps_deferred := ps_deferred ps + length rule_ids\<rparr>
        else if \<not> active conn then ps
        else (case check_rules (envs conn) ids now rule_ids (ps_db ps, False) of
                None \<Rightarrow> ps\<lparr>ps_failed := ps_failed ps + 1\<rparr>
              | Some ((d, _), xs) \<Rightarrow>
                  (case notify ml xs d of
                     (d', sent) \<Rightarrow>
                       ps\<lparr>ps_db := d', ps_raised := ps_raised ps @ xs,
                          ps_checked := ps_checked ps + length rule_ids, ps_emailed := ps_emailed ps + sent\<rparr>)))"

definition by_connection :: "monitor_rule list \<Rightarrow> (uuid \<times> uuid list) list" where
  "by_connection rs =
     map (\<lambda>conn. (conn, map mr_id (filter (\<lambda>r. mr_connection_id r = conn) rs)))
       (rev (remdups (rev (map mr_connection_id rs))))"

definition run_due_monitors ::
  "(uuid \<Rightarrow> check_env) \<Rightarrow> mail \<Rightarrow> (nat \<Rightarrow> uuid) \<Rightarrow> time \<Rightarrow> (nat \<Rightarrow> bool) \<Rightarrow> (uuid \<Rightarrow> bool) \<Rightarrow> monitor_db \<Rightarrow> pass_result" where
  "run_due_monitors envs ml ids now late active d =
     fold (check_server envs ml ids now late active) (enumerate 0 (by_connection (due_rules now d)))
       \<lparr>ps_db = d, ps_raised = [], ps_checked = 0, ps_emailed = 0, ps_deferred = 0, ps_failed = 0\<rparr>"

end
