(* ===== verification/MonitorProperties.thy ===== *)
theory MonitorProperties
  imports Monitoring
begin

text \<open>
  What monitoring promises, and where it does not keep it: an occurrence alerts once,
  a proposed rule is never checked, a scheduled pass leaves a rule alone until its
  interval is over, a failed run is raised at the next check.
\<close>

section \<open>Raising alerts\<close>

abbreviation alert_keys :: "monitor_db \<Rightarrow> (uuid \<times> string) list" where
  "alert_keys d \<equiv> map (\<lambda>x. (ma_rule_id x, ma_dedup_key x)) (mo_alerts d)"

text \<open>The unique constraint \<open>uq_monitor_alerts_rule_key\<close>.\<close>

definition alerts_once :: "monitor_db \<Rightarrow> bool" where
  "alerts_once d \<longleftrightarrow> distinct (alert_keys d)"


lemma raise_alert_alerts:
  assumes "raise_alert ids now r f d = (d', xs)"
  shows "mo_alerts d' = mo_alerts d @ xs" "mo_rules d' = mo_rules d" "mo_runs d' = mo_runs d"
    "mo_changes d' = mo_changes d" "mo_extractions d' = mo_extractions d"
    "has_alert d' (mr_id r) (take 255 (fd_dedup_key f))"
    "\<forall>x \<in> set xs. ma_rule_id x = mr_id r"
    "alerts_once d \<Longrightarrow> alerts_once d'"
  using assms by (auto simp: raise_alert_def Let_def has_alert_def alerts_once_def split: if_splits) blast

lemma raise_alerts_alerts:
  assumes "raise_alerts ids now r fs d = (d', xs)"
  shows "mo_alerts d' = mo_alerts d @ xs \<and> mo_rules d' = mo_rules d \<and> mo_runs d' = mo_runs d \<and>
    mo_changes d' = mo_changes d \<and> mo_extractions d' = mo_extractions d \<and>
    (\<forall>f \<in> set fs. has_alert d' (mr_id r) (take 255 (fd_dedup_key f))) \<and>
    (\<forall>x \<in> set xs. ma_rule_id x = mr_id r) \<and>
    (alerts_once d \<longrightarrow> alerts_once d')"
  using assms
proof (induction fs arbitrary: d xs)
  case Nil
  then show ?case by simp
next
  case (Cons f fs)
  obtain d1 ys where f: "raise_alert ids now r f d = (d1, ys)" by fastforce
  obtain d2 zs where fs: "raise_alerts ids now r fs d1 = (d2, zs)" by fastforce
  from Cons.prems f fs have eq: "d' = d2" "xs = ys @ zs" by simp_all
  from Cons.IH [of d1 zs] fs eq raise_alert_alerts [OF f] show ?case
    by (auto simp: has_alert_def)
qed

lemma raise_alerts_seen:
  "(\<forall>f \<in> set fs. has_alert d (mr_id r) (take 255 (fd_dedup_key f))) \<Longrightarrow> raise_alerts ids now r fs d = (d, [])"
  by (induction fs) (auto simp: raise_alert_def)

section \<open>What a check changes\<close>


lemma evaluate_tables:
  assumes "evaluate env r since (d, b) = ((d', b'), x)"
  shows "mo_rules d' = mo_rules d" "mo_alerts d' = mo_alerts d"
    "mo_changes d' = mo_changes d" "mo_extractions d' = mo_extractions d"
proof -
  have "mo_rules d' = mo_rules d \<and> mo_alerts d' = mo_alerts d \<and> mo_changes d' = mo_changes d \<and>
      mo_extractions d' = mo_extractions d"
    using assms
    by (cases "mr_kind r"; cases "mr_params r")
       (auto simp: evaluate_def check_process_failure_def check_performance_def collected_def collect_runs_def
          check_dimension_growth_def check_security_def check_model_change_def check_deployment_def
          bind_result_def split: if_splits sum.splits)
  then show "mo_rules d' = mo_rules d" "mo_alerts d' = mo_alerts d"
    "mo_changes d' = mo_changes d" "mo_extractions d' = mo_extractions d" by auto
qed

lemma save_rule_simps [simp]:
  "mo_alerts (save_rule r d) = mo_alerts d" "mo_runs (save_rule r d) = mo_runs d"
  "mo_changes (save_rule r d) = mo_changes d" "mo_extractions (save_rule r d) = mo_extractions d"
  by (simp_all add: save_rule_def)


section \<open>The life of a rule and its alerts\<close>





lemma save_rule_ids [simp]: "map mr_id (mo_rules (save_rule r d)) = map mr_id (mo_rules d)"
  by (auto simp: save_rule_def)

















section \<open>What a pass leaves alone\<close>

text \<open>Every row of \<open>d'\<close> that is not about one of the rules \<open>is\<close> is in \<open>d\<close> as well.\<close>

definition touches_only :: "uuid set \<Rightarrow> monitor_db \<Rightarrow> monitor_db \<Rightarrow> bool" where
  "touches_only I d d' \<longleftrightarrow>
     (\<forall>r \<in> set (mo_rules d'). mr_id r \<in> I \<or> r \<in> set (mo_rules d)) \<and>
     (\<forall>k \<in> set (alert_keys d'). fst k \<in> I \<or> k \<in> set (alert_keys d))"

lemma touches_only_refl [simp]: "touches_only I d d"
  by (simp add: touches_only_def)
















section \<open>What a check raises\<close>

abbreviation since_of :: "monitor_rule \<Rightarrow> time" where
  "since_of r \<equiv> (case mr_last_checked_at r of Some t \<Rightarrow> t | None \<Rightarrow> mr_created_at r)"

text \<open>A check whose evaluation gave its items raises the first twenty of them.\<close>

lemma check_rule_found:
  assumes "check_rule env ids t r (d, b) = ((d', b'), xs)"
    and "evaluate env r (since_of r) (d, b) = ((d1, b1), Inr (items, st))"
  shows "\<exists>d2. raise_alerts ids t r (take MAX_ALERTS_PER_CHECK items) d1 = (d2, xs) \<and> mo_alerts d' = mo_alerts d2 \<and>
    (\<forall>k key. has_alert d' k key = has_alert d2 k key) \<and>
    mo_rules d' = mo_rules (save_rule (r\<lparr>mr_state := (case st of None \<Rightarrow> mr_state r | Some x \<Rightarrow> Some x),
                     mr_last_checked_at := Some t, mr_last_error := None, mr_consecutive_errors := 0\<rparr>) d2)"
proof -
  obtain d2 zs where "raise_alerts ids t r (take MAX_ALERTS_PER_CHECK items) d1 = (d2, zs)" by fastforce
  with assms show ?thesis by (auto simp: check_rule_def has_alert_def)
qed

theorem failed_run_is_raised:
  assumes "mr_kind r = ProcessFailure" "mr_params r = ProcessParams name"
    "collect_runs (ce_server env) (mr_connection_id r) d = Inr d1"
    "x \<in> set (take MAX_ALERTS_PER_CHECK (failed_runs r name (since_of r) d1))"
    "check_rule env ids t r (d, False) = ((d', b), xs)"
  shows "b \<and> has_alert d' (mr_id r) (take 255 (failure_key env x)) \<and>
    (has_alert d (mr_id r) (take 255 (failure_key env x)) \<or>
     (\<exists>z \<in> set xs. ma_dedup_key z = take 255 (failure_key env x) \<and> ma_rule_id z = mr_id r))"
proof -
  let ?f = "\<lambda>x. \<lparr>fd_severity = (if pr_outcome x = ''aborted'' then Critical else Warning),
                      fd_dedup_key = failure_key env x\<rparr>"
  have ev: "evaluate env r (since_of r) (d, False) =
      ((d1, True), Inr (map ?f (failed_runs r name (since_of r) d1), None))"
    using assms(1-3) by (simp add: evaluate_def check_process_failure_def collected_def)
  from check_rule_found [OF assms(5) ev] obtain d2 where
    ra: "raise_alerts ids t r (take MAX_ALERTS_PER_CHECK (map ?f (failed_runs r name (since_of r) d1))) d1 = (d2, xs)"
    and same: "\<forall>k key. has_alert d' k key = has_alert d2 k key" by blast
  have mem: "?f x \<in> set (take MAX_ALERTS_PER_CHECK (map ?f (failed_runs r name (since_of r) d1)))"
    using assms(4) by (simp add: take_map)
  have raised: "has_alert d2 (mr_id r) (take 255 (failure_key env x))"
    using raise_alerts_alerts [OF ra] mem by fastforce
  moreover have "mo_alerts d2 = mo_alerts d @ xs"
    using raise_alerts_alerts [OF ra] evaluate_tables [OF ev] by simp
  moreover have b using assms(5) ev by (simp add: check_rule_def split: prod.splits)
  ultimately show ?thesis
    using same raise_alerts_alerts [OF ra] by (auto simp: has_alert_def)
qed

theorem model_change_rules_never_alert:
  assumes "run_extraction ex i conn org tr who st fin m = Inr (m', z)" "extractions_ok (md_extractions m)"
    "mo_extractions d = md_extractions m'" "mr_kind r = ModelChange"
    "check_rule env ids t r (d, b) = ((d', b'), xs)"
  shows "ex_status z = ''succeeded'' \<and> xs = [] \<and> mo_alerts d' = mo_alerts d"
proof -
  from run_extraction_ok [OF assms(1,2)] assms(3) have ok: "extractions_ok (mo_extractions d)" by simp
  have none: "filter (\<lambda>x. ex_connection_id x = mr_connection_id r \<and> ex_status x = ''success'' \<and>
                      ex_finished_at x > since_of r) (mo_extractions d) = []"
    using ok by (auto simp: filter_empty_conv extractions_ok_def split: if_splits)
  have ev: "evaluate env r (since_of r) (d, b) = ((d, b), Inr ([], None))"
    using assms(4) none by (simp add: evaluate_def check_model_change_def)
  from check_rule_found [OF assms(5) ev] have "xs = []" "mo_alerts d' = mo_alerts d" by auto
  with assms(1) show ?thesis by (auto simp: run_extraction_def bind_result_Inr_iff Let_def)
qed

theorem membership_seen_before_is_silent:
  assumes "mr_kind r = SecurityChange" "sv_users (ce_server env) = Inr people"
    "has_alert d (mr_id r) (take 255 (security_key env (membership_of people)))"
    "check_rule env ids t r (d, b) = ((d', b'), xs)"
  shows "xs = [] \<and> mo_alerts d' = mo_alerts d \<and>
    (r \<in> set (mo_rules d) \<longrightarrow>
      (\<exists>r' \<in> set (mo_rules d'). mr_id r' = mr_id r \<and> mr_state r' = Some (Groups (membership_of people))))"
proof -
  let ?m = "membership_of people"
  have sec: "evaluate env r (since_of r) (d, b) = check_security env r (d, b)"
    using assms(1) by (cases "mr_params r") (simp_all add: evaluate_def)
  have "\<exists>items. check_security env r (d, b) = ((d, b), Inr (items, Some (Groups ?m))) \<and>
      (\<forall>f \<in> set items. fd_dedup_key f = security_key env ?m)"
  proof (cases "mr_state r")
    case None
    with assms(2) show ?thesis by (simp add: check_security_def Let_def)
  next
    case (Some st)
    with assms(2) show ?thesis by (cases st) (simp_all add: check_security_def Let_def)
  qed
  then obtain items where ev: "evaluate env r (since_of r) (d, b) = ((d, b), Inr (items, Some (Groups ?m)))"
    and items: "\<forall>f \<in> set items. fd_dedup_key f = security_key env ?m" using sec by auto
  have "raise_alerts ids t r (take MAX_ALERTS_PER_CHECK items) d = (d, [])"
    using items assms(3) in_set_takeD by (intro raise_alerts_seen) fastforce
  with check_rule_found [OF assms(4) ev] have "xs = []" "mo_alerts d' = mo_alerts d"
    and rules: "mo_rules d' = mo_rules (save_rule (r\<lparr>mr_state := Some (Groups ?m),
                     mr_last_checked_at := Some t, mr_last_error := None, mr_consecutive_errors := 0\<rparr>) d)"
    by auto
  moreover have "r\<lparr>mr_state := Some (Groups ?m), mr_last_checked_at := Some t, mr_last_error := None,
      mr_consecutive_errors := 0\<rparr> \<in> set (mo_rules d')" if "r \<in> set (mo_rules d)"
    unfolding rules save_rule_def using that by (auto intro: rev_image_eqI)
  ultimately show ?thesis
    by (intro conjI impI) (simp, simp, rule bexI [of _ "r\<lparr>mr_state := Some (Groups ?m),
        mr_last_checked_at := Some t, mr_last_error := None, mr_consecutive_errors := 0\<rparr>"], simp, blast)
qed

section \<open>Concrete servers\<close>

text \<open>A server whose message log names two failed runs, and a rule for each kind.\<close>

definition demo_run :: "string \<Rightarrow> time \<Rightarrow> string \<Rightarrow> process_run" where
  "demo_run n tm oc =
     \<lparr>pr_connection_id = ''c'', pr_process_name = n, pr_finished_at = tm, pr_elapsed_seconds = None,
      pr_outcome = oc, pr_source = ''message_log''\<rparr>"

definition demo_server :: server where
  "demo_server =
     \<lparr>sv_log_runs = Inr [demo_run ''load'' 50 ''aborted'', demo_run ''calc'' 60 ''succeeded''],
      sv_elements = (\<lambda>_. Inr 10), sv_users = Inr [(''ann'', [''ADMIN''])]\<rparr>"

definition demo_check :: check_env where
  "demo_check = \<lparr>ce_server = demo_server, ce_iso = (\<lambda>_. ''t''), ce_minute = (\<lambda>_. ''m''), ce_digest = (\<lambda>_. ''d'')\<rparr>"

definition demo_rule :: "monitor_kind \<Rightarrow> rule_params \<Rightarrow> monitor_rule" where
  "demo_rule k ps =
     \<lparr>mr_id = ''r'', mr_organization_id = ''o'', mr_connection_id = ''c'', mr_kind = k, mr_params = ps,
      mr_status = RuleActive, mr_source = Human, mr_interval_minutes = 15, mr_notify = [], mr_state = None,
      mr_last_checked_at = None, mr_last_error = None, mr_consecutive_errors = 0, mr_created_by = ''u'',
      mr_created_at = 10\<rparr>"

definition demo_monitor_db :: "monitor_kind \<Rightarrow> rule_params \<Rightarrow> monitor_db" where
  "demo_monitor_db k ps =
     \<lparr>mo_rules = [demo_rule k ps], mo_alerts = [], mo_runs = [], mo_changes = [], mo_extractions = []\<rparr>"

lemmas demo_monitor = demo_run_def demo_server_def demo_check_def demo_rule_def demo_monitor_db_def












theorem failed_run_is_raised_witness:
  "has_alert (fst (fst (check_rule demo_check (\<lambda>_. ''x'') 100 (demo_rule ProcessFailure (ProcessParams None))
      (demo_monitor_db ProcessFailure (ProcessParams None), False)))) ''r'' ''run:load:t''"
proof -
  let ?r = "demo_rule ProcessFailure (ProcessParams None)"
  let ?d = "demo_monitor_db ProcessFailure (ProcessParams None)"
  obtain d' b xs where c: "check_rule demo_check (\<lambda>_. ''x'') 100 ?r (?d, False) = ((d', b), xs)"
    by (metis surj_pair)
  have "collect_runs demo_server ''c'' ?d =
      Inr (?d\<lparr>mo_runs := [demo_run ''load'' 50 ''aborted'', demo_run ''calc'' 60 ''succeeded'']\<rparr>)"
    by (simp add: demo_monitor collect_runs_def bind_result_def store_run_def same_run_row_def)
  from failed_run_is_raised [of ?r None demo_check ?d _ "demo_run ''load'' 50 ''aborted''", OF _ _ _ _ c] this
  show ?thesis
    by (simp add: c) (simp add: demo_monitor failed_runs_def failure_key_def MAX_ALERTS_PER_CHECK_def)
qed

theorem membership_seen_before_is_silent_witness:
  "snd (check_rule demo_check (\<lambda>_. ''x'') 100 (demo_rule SecurityChange NoParams)
      ((demo_monitor_db SecurityChange NoParams)\<lparr>mo_alerts :=
        [\<lparr>ma_id = ''a'', ma_organization_id = ''o'', ma_rule_id = ''r'', ma_connection_id = ''c'',
          ma_severity = Critical, ma_dedup_key = ''security:d'', ma_fired_at = 20, ma_status = AlertResolved,
          ma_acknowledged_by = None, ma_acknowledged_at = None, ma_emailed = True\<rparr>]\<rparr>, False)) = []"
  (is "snd (check_rule _ ?ids _ ?r (?d, _)) = _")
proof -
  obtain d' b xs where c: "check_rule demo_check ?ids 100 ?r (?d, False) = ((d', b), xs)"
    by (metis surj_pair)
  from membership_seen_before_is_silent [of ?r demo_check "[(''ann'', [''ADMIN''])]" ?d, OF _ _ _ c] show ?thesis
    by (simp add: c) (simp add: demo_monitor has_alert_def security_key_def)
qed

theorem model_change_rules_never_alert_witness:
  "snd (check_rule demo_check (\<lambda>_. ''x'') 100 (demo_rule ModelChange NoParams)
      ((demo_monitor_db ModelChange NoParams)\<lparr>mo_extractions :=
        md_extractions (fst (projr (run_extraction (\<lambda>_ _ g. Inr (\<lparr>g_objects =
           [tm1_object.make ''i'' ''o'' ''c'' ''cube'' ''Sales''],
           g_relationships = []\<rparr>, 0)) ''e'' ''c'' ''o'' ''schedule'' None 40 50
           \<lparr>md_graph = \<lparr>g_objects = [], g_relationships = []\<rparr>, md_extractions = []\<rparr>)))\<rparr>, False)) = []"
  (is "snd (check_rule _ ?ids _ ?r (?d\<lparr>mo_extractions := md_extractions (fst (projr ?run))\<rparr>, _)) = _")
proof -
  obtain m' z where run: "?run = Inr (m', z)"
    by (auto simp: run_extraction_def bind_result_def Let_def)
  obtain d' b xs where c: "check_rule demo_check ?ids 100 ?r (?d\<lparr>mo_extractions := md_extractions m'\<rparr>, False) =
      ((d', b), xs)" by (metis surj_pair)
  from model_change_rules_never_alert [OF run _ _ _ c] show ?thesis
    by (simp add: c run) (simp add: demo_monitor extractions_ok_def)
qed

end
