(* ===== verification/TiParser.thy ===== *)
theory TiParser
  imports Prelude
begin

text \<open>
  The parser of TurboIntegrator code, \<open>tm1/ti/parser.py\<close>: \<open>parse_process_code\<close> with the
  scan for calls outside literals and comments, the argument lists, the tables of
  functions that name TM1 objects, and the derived fields. The regular expressions are
  written as scans that match what Python's engine matches (leftmost, greedy, with its
  backtracking out of an unclosed literal). Whether the catalogue of TI functions knows a
  name is an argument. Text is ASCII, as for \<open>str.upper\<close> and \<open>str.strip\<close> in \<open>Prelude\<close>.
\<close>

section \<open>Scanning text\<close>

definition is_alpha :: "char \<Rightarrow> bool" where
  "is_alpha c \<longleftrightarrow> 97 \<le> chr_code (lower_char c) \<and> chr_code (lower_char c) \<le> 122"

text \<open>A character of \<open>[A-Za-z0-9_]\<close>.\<close>

definition is_word :: "char \<Rightarrow> bool" where
  "is_word c \<longleftrightarrow> is_digit c \<or> is_alpha c \<or> c = CHR ''_''"

text \<open>
  \<open>(?:[^q]|qq)*q\<close>, the rest of a delimited token after its opening: a doubled \<open>q\<close> belongs
  to the token where a closing \<open>q\<close> still follows. The token as written, and what follows it.
\<close>

fun delimited :: "char \<Rightarrow> string \<Rightarrow> (string \<times> string) option" where
  "delimited q [] = None"
| "delimited q (c # s) =
     (if c \<noteq> q then map_option (\<lambda>(n, r). (c # n, r)) (delimited q s)
      else case s of
        [] \<Rightarrow> Some ([], [])
      | d # s' \<Rightarrow>
          if d \<noteq> q then Some ([], s)
          else (case delimited q s' of
                  Some (n, r) \<Rightarrow> Some (q # q # n, r)
                | None \<Rightarrow> Some ([], s)))"

text \<open>\<open>str.replace\<close> of a doubled character by a single one.\<close>

fun undouble :: "char \<Rightarrow> string \<Rightarrow> string" where
  "undouble q (c # d # s) = (if c = q \<and> d = q then q # undouble q s else c # undouble q (d # s))"
| "undouble q s = s"

lemma delimited_text: "delimited q s = Some (n, r) \<Longrightarrow> s = n @ q # r"
proof (induction q s arbitrary: n r rule: delimited.induct)
  case (2 q c s)
  then show ?case by (fastforce split: if_splits list.splits option.splits)
qed simp

lemma delimited_length: "delimited q s = Some (n, r) \<Longrightarrow> length r < length s"
  by (auto dest: delimited_text)

text \<open>A name as it is written between delimiters.\<close>

fun double :: "char \<Rightarrow> string \<Rightarrow> string" where
  "double q [] = []"
| "double q (c # s) = (if c = q then q # q # double q s else c # double q s)"

lemma undouble_double [simp]: "undouble q (double q s) = s"
proof (induction s)
  case (Cons c s)
  show ?case
  proof (cases "c = q")
    case False
    with Cons show ?thesis by (cases "double q s") auto
  qed (simp add: Cons)
qed simp

lemma delimited_double:
  assumes "\<And>t. z \<noteq> q # t"
  shows "delimited q (double q s @ q # z) = Some (double q s, z)"
proof (induction s)
  case Nil
  from assms show ?case by (cases z) auto
next
  case (Cons c s)
  then show ?case by simp
qed

abbreviation quote :: char where "quote \<equiv> CHR 0x27"
abbreviation newline :: char where "newline \<equiv> CHR 0x0A"

text \<open>\<open>_mask\<close>: literals and comments become blanks, every offset stays.\<close>

definition blank :: "string \<Rightarrow> string" where
  "blank s = map (\<lambda>c. if c = newline then newline else CHR '' '') s"

function mask :: "string \<Rightarrow> string" where
  "mask [] = []"
| "mask (c # s) =
     (if c = quote then
        (case delimited quote s of
           Some (n, r) \<Rightarrow> blank (c # n @ [quote]) @ mask r
         | None \<Rightarrow> c # mask s)
      else if c = CHR ''#'' then
        blank (c # takeWhile (\<lambda>x. x \<noteq> newline) s) @ mask (dropWhile (\<lambda>x. x \<noteq> newline) s)
      else c # mask s)"
  by pat_completeness auto
termination
  by (relation "measure length") (auto dest: delimited_text simp: length_dropWhile_le le_imp_less_Suc)

text \<open>
  \<open>_CALL.finditer\<close> and \<open>_STATEMENT_CALL.finditer\<close>: names followed by \<open>stop\<close> (an opening
  parenthesis, a semicolon), upper case, with the offset after it. \<open>word\<close>: the character
  before the position is part of a name.
\<close>

function sites :: "char \<Rightarrow> nat \<Rightarrow> bool \<Rightarrow> string \<Rightarrow> (string \<times> nat) list" where
  "sites stop pos word [] = []"
| "sites stop pos word (c # s) =
     (if \<not> word \<and> is_alpha c then
        (let name = takeWhile is_word (c # s); rest = dropWhile is_word (c # s);
             gap = takeWhile is_space rest; after = pos + length name + length gap + 1
         in case dropWhile is_space rest of
              d # z \<Rightarrow>
                if d = stop then (upper name, after) # sites stop after False z
                else sites stop (pos + 1) True s
            | [] \<Rightarrow> sites stop (pos + 1) True s)
      else sites stop (pos + 1) (is_word c) s)"
  by pat_completeness auto
termination
proof (relation "measure (\<lambda>(_, _, _, s). length s)")
  fix stop :: char and pos :: nat and word :: bool and c :: char and s name rest gap :: string and after d z
  assume "rest = dropWhile is_word (c # s)" "dropWhile is_space rest = d # z"
  then have "length (d # z) \<le> length (c # s)"
    using length_dropWhile_le [of is_space rest] length_dropWhile_le [of is_word "c # s"] by auto
  then show "((stop, after, False, z), (stop, pos, word, c # s)) \<in> measure (\<lambda>(_, _, _, s). length s)" by simp
qed auto

definition iter_calls :: "string \<Rightarrow> (string \<times> nat) list" where
  "iter_calls code = sites (CHR ''('') 0 False (mask code)"

definition STATEMENT_FUNCTIONS :: "string list" where
  "STATEMENT_FUNCTIONS =
     [''PROCESSQUIT'', ''PROCESSBREAK'', ''PROCESSERROR'', ''ITEMSKIP'', ''ITEMREJECT'', ''SAVEDATAALL'',
      ''CUBESAVEDATA'', ''SECURITYREFRESH'', ''SYNCHRONIZED'', ''DISABLEBULKLOADMODE'',
      ''ENABLEBULKLOADMODE'', ''BATCHUPDATESTART'', ''BATCHUPDATEFINISH'', ''SERVERSHUTDOWN'']"

definition iter_statements :: "string \<Rightarrow> string list" where
  "iter_statements code =
     filter (\<lambda>f. f \<in> set STATEMENT_FUNCTIONS) (map fst (sites (CHR '';'') 0 False (mask code)))"

section \<open>Argument lists\<close>

definition MAX_ARGUMENT_SPAN :: nat where "MAX_ARGUMENT_SPAN = 8192"

text \<open>The loop of \<open>_split_args\<close> on the window; what is left of \<open>current\<close> is the last argument.\<close>

fun split_from :: "nat \<Rightarrow> string \<Rightarrow> bool \<Rightarrow> string \<Rightarrow> string list" where
  "split_from depth current in_string [] = (if current = [] then [] else [strip current])"
| "split_from depth current True (c # s) =
     (if c = quote then
        (case s of
           d # s' \<Rightarrow>
             if d = quote then split_from depth (current @ [quote, quote]) True s'
             else split_from depth (current @ [c]) False s
         | [] \<Rightarrow> split_from depth (current @ [c]) False s)
      else split_from depth (current @ [c]) True s)"
| "split_from depth current False (c # s) =
     (if c = quote then split_from depth (current @ [c]) True s
      else if c = CHR ''('' \<or> c = CHR ''['' then split_from (depth + 1) (current @ [c]) False s
      else if c = CHR '')'' \<or> c = CHR '']'' then
        (if depth = 0 then (if current = [] then [] else [strip current])
         else split_from (depth - 1) (current @ [c]) False s)
      else if c = CHR '','' \<and> depth = 0 then strip current # split_from depth [] False s
      else split_from depth (current @ [c]) False s)"

definition split_args :: "string \<Rightarrow> nat \<Rightarrow> string list" where
  "split_args code start = split_from 0 [] False (take MAX_ARGUMENT_SPAN (drop start code))"

text \<open>The name an argument holds, and whether it is a literal.\<close>

definition literal :: "string \<Rightarrow> string \<times> bool" where
  "literal value =
     (let v = strip value in
      if length v \<ge> 2 \<and> hd v = quote \<and> last v = quote
      then (undouble quote (butlast (tl v)), True) else (v, False))"

section \<open>Functions that name objects\<close>

definition CUBE_WRITE_FUNCTIONS :: "(string \<times> nat) list" where
  "CUBE_WRITE_FUNCTIONS = [(''CELLPUTN'', 1), (''CELLPUTS'', 1), (''CELLINCREMENTN'', 1)]"

definition CUBE_READ_FUNCTIONS :: "(string \<times> nat) list" where
  "CUBE_READ_FUNCTIONS = [(''CELLGETN'', 0), (''CELLGETS'', 0), (''CELLISUPDATEABLE'', 0), (''DB'', 0)]"

definition CUBE_ADMIN_FUNCTIONS :: "(string \<times> nat) list" where
  "CUBE_ADMIN_FUNCTIONS =
     [(''CUBECREATE'', 0), (''CUBEDESTROY'', 0), (''CUBECLEARDATA'', 0), (''CUBEEXISTS'', 0)]"

definition DIMENSION_FUNCTIONS :: "(string \<times> nat) list" where
  "DIMENSION_FUNCTIONS =
     [(''DIMENSIONCREATE'', 0), (''DIMENSIONDESTROY'', 0), (''DIMENSIONEXISTS'', 0),
      (''DIMENSIONDELETEALLELEMENTS'', 0), (''DIMENSIONELEMENTINSERT'', 0), (''DIMENSIONELEMENTDELETE'', 0),
      (''DIMENSIONELEMENTCOMPONENTADD'', 0), (''DIMENSIONELEMENTCOMPONENTDELETE'', 0), (''DIMIX'', 0),
      (''DIMNM'', 0), (''DIMSIZ'', 0), (''ELLEV'', 0), (''ELISANC'', 0), (''ELPAR'', 0), (''ELCOMP'', 0)]"

definition PROCESS_FUNCTIONS :: "(string \<times> nat) list" where
  "PROCESS_FUNCTIONS =
     [(''EXECUTEPROCESS'', 0), (''RUNPROCESS'', 0), (''EXECUTEJAVAN'', 0), (''EXECUTEJAVAS'', 0)]"

definition ATTRIBUTE_FUNCTIONS :: "(string \<times> (nat \<times> string) list) list" where
  "ATTRIBUTE_FUNCTIONS =
     [(''ATTRPUTS'', [(1, ''dimension''), (3, ''attribute'')]),
      (''ATTRPUTN'', [(1, ''dimension''), (3, ''attribute'')]),
      (''ATTRS'', [(0, ''dimension''), (2, ''attribute'')]),
      (''ATTRN'', [(0, ''dimension''), (2, ''attribute'')]),
      (''ATTRINSERT'', [(0, ''dimension''), (2, ''attribute'')]),
      (''ATTRDELETE'', [(0, ''dimension''), (1, ''attribute'')])]"

definition VIEW_FUNCTIONS :: "(string \<times> (nat \<times> string) list) list" where
  "VIEW_FUNCTIONS =
     [(''VIEWCREATE'', [(0, ''cube''), (1, ''view'')]),
      (''VIEWDESTROY'', [(0, ''cube''), (1, ''view'')]),
      (''VIEWEXISTS'', [(0, ''cube''), (1, ''view'')]),
      (''VIEWZEROOUT'', [(0, ''cube''), (1, ''view'')]),
      (''VIEWSUBSETASSIGN'', [(0, ''cube''), (1, ''view''), (2, ''dimension''), (3, ''subset'')]),
      (''VIEWCREATEBYMDX'', [(0, ''cube''), (1, ''view'')])]"

definition SUBSET_FUNCTIONS :: "(string \<times> (nat \<times> string) list) list" where
  "SUBSET_FUNCTIONS =
     [(''SUBSETCREATE'', [(0, ''dimension''), (1, ''subset'')]),
      (''SUBSETDESTROY'', [(0, ''dimension''), (1, ''subset'')]),
      (''SUBSETEXISTS'', [(0, ''dimension''), (1, ''subset'')]),
      (''SUBSETELEMENTINSERT'', [(0, ''dimension''), (1, ''subset'')]),
      (''SUBSETDELETEALLELEMENTS'', [(0, ''dimension''), (1, ''subset'')]),
      (''SUBSETMDXSET'', [(0, ''dimension''), (1, ''subset'')]),
      (''SUBSETCREATEBYMDX'', [(0, ''subset'')])]"

definition SECURITY_FUNCTIONS :: "string list" where
  "SECURITY_FUNCTIONS =
     [''SECURITYREFRESH'', ''ADDCLIENT'', ''ADDGROUP'', ''ASSIGNCLIENTTOGROUP'', ''REMOVECLIENTFROMGROUP'',
      ''ELEMENTSECURITYPUT'', ''CELLSECURITYCUBECREATE'', ''DELETECLIENT'', ''DELETEGROUP'']"

definition ERROR_FUNCTIONS :: "string list" where
  "ERROR_FUNCTIONS = [''PROCESSERROR'', ''PROCESSQUIT'', ''ITEMREJECT'']"

definition FLOW_FUNCTIONS :: "string list" where
  "FLOW_FUNCTIONS = [''PROCESSBREAK'', ''ITEMSKIP'']"

definition LOGGING_FUNCTIONS :: "string list" where
  "LOGGING_FUNCTIONS = [''ASCIIOUTPUT'', ''TEXTOUTPUT'', ''LOGOUTPUT'']"

definition PERFORMANCE_FUNCTIONS :: "string list" where
  "PERFORMANCE_FUNCTIONS =
     [''ENABLEBULKLOADMODE'', ''DISABLEBULKLOADMODE'', ''CUBESETLOGCHANGES'', ''VIEWEXTRACTSKIPCALCSSET'',
      ''VIEWEXTRACTSKIPRULEVALUESSET'', ''VIEWEXTRACTSKIPZEROESSET'', ''BATCHUPDATESTART'',
      ''BATCHUPDATEFINISH'']"

definition MDX_ARGUMENT :: "(string \<times> nat) list" where
  "MDX_ARGUMENT = [(''SUBSETCREATEBYMDX'', 1), (''SUBSETMDXSET'', 2), (''VIEWCREATEBYMDX'', 2)]"

section \<open>The record of a process\<close>

record object_ref =
  or_name :: string
  or_kind :: string
  or_access :: string
  or_section :: string
  or_literal :: bool
  or_function :: string

record process_record =
  pc_name :: string
  pc_datasource_type :: string
  pc_datasource_name :: string
  pc_sections :: "(string \<times> string) list"
  pc_line_counts :: "(string \<times> nat) list"
  pc_objects :: "object_ref list"
  pc_functions_used :: "(string \<times> nat) list"
  pc_unknown_functions :: "string list"
  pc_mdx_expressions :: "string list"
  pc_comments :: "string list"
  pc_header_comment :: string
  pc_uses_logging :: bool
  pc_uses_error_handling :: bool
  pc_uses_record_skipping :: bool
  pc_uses_security_functions :: bool
  pc_performance_functions :: "string list"
  pc_temporary_objects :: "string list"
  pc_has_cleanup :: bool
  pc_uses_temporary_objects :: bool
  pc_parse_warnings :: "string list"

text \<open>A process as the server returns it (\<open>ProcessInfo\<close> of \<open>process_service.py\<close>).\<close>

record process_info =
  pi_name :: string
  pi_datasource_type :: string
  pi_datasource_name :: string
  pi_datasource_view :: string
  pi_prolog :: string
  pi_metadata :: string
  pi_data :: string
  pi_epilog :: string
  pi_parameters :: "json list"
  pi_variables :: "json list"

definition SECTIONS :: "string list" where
  "SECTIONS = [''prolog'', ''metadata'', ''data'', ''epilog'']"

definition ends_with :: "string \<Rightarrow> string \<Rightarrow> bool" where
  "ends_with s part \<longleftrightarrow> length part \<le> length s \<and> drop (length s - length part) s = part"

definition access_for :: "string \<Rightarrow> string \<Rightarrow> string" where
  "access_for function dflt =
     (if ends_with function ''CREATE'' \<or> ends_with function ''CREATEBYMDX'' then ''create''
      else if ends_with function ''DESTROY'' then ''destroy'' else dflt)"

text \<open>\<open>dict.get(k, 0) + 1\<close> on a dict in insertion order.\<close>

fun count_up :: "string \<Rightarrow> (string \<times> nat) list \<Rightarrow> (string \<times> nat) list" where
  "count_up k [] = [(k, 1)]"
| "count_up k ((k', n) # r) = (if k' = k then (k, n + 1) # r else (k', n) # count_up k r)"

definition note_function :: "string \<Rightarrow> process_record \<Rightarrow> process_record" where
  "note_function f pr =
     pr\<lparr>pc_functions_used := count_up f (pc_functions_used pr),
        pc_uses_logging := pc_uses_logging pr \<or> f \<in> set LOGGING_FUNCTIONS,
        pc_uses_error_handling := pc_uses_error_handling pr \<or> f \<in> set ERROR_FUNCTIONS,
        pc_uses_record_skipping := pc_uses_record_skipping pr \<or> f \<in> set FLOW_FUNCTIONS,
        pc_uses_security_functions := pc_uses_security_functions pr \<or> f \<in> set SECURITY_FUNCTIONS,
        pc_performance_functions :=
          (if f \<in> set PERFORMANCE_FUNCTIONS \<and> f \<notin> set (pc_performance_functions pr)
           then pc_performance_functions pr @ [f] else pc_performance_functions pr)\<rparr>"

text \<open>\<open>add\<close>: nothing is recorded for an empty name.\<close>

definition ref_of :: "string \<Rightarrow> string \<Rightarrow> string \<Rightarrow> string \<Rightarrow> string \<Rightarrow> object_ref list" where
  "ref_of sec function kind access value =
     (case literal value of (n, lit) \<Rightarrow>
        if n = [] then []
        else [\<lparr>or_name = n, or_kind = kind, or_access = access, or_section = sec, or_literal = lit,
               or_function = function\<rparr>])"

definition argument :: "string list \<Rightarrow> nat \<Rightarrow> string option" where
  "argument args i = (if i < length args then Some (args ! i) else None)"

definition single_refs ::
  "string \<Rightarrow> string \<Rightarrow> string list \<Rightarrow> (string \<times> nat) list \<times> string \<times> string \<Rightarrow> object_ref list" where
  "single_refs sec f args table =
     (case table of (positions, kind, access) \<Rightarrow>
        (case map_of positions f of
           None \<Rightarrow> []
         | Some i \<Rightarrow>
             (case argument args i of
                None \<Rightarrow> [] | Some v \<Rightarrow> ref_of sec f kind (access_for f access) v)))"

definition container_refs ::
  "string \<Rightarrow> string \<Rightarrow> string list \<Rightarrow> (string \<times> (nat \<times> string) list) list \<Rightarrow> object_ref list" where
  "container_refs sec f args table =
     (case map_of table f of
        None \<Rightarrow> []
      | Some positions \<Rightarrow>
          concat (map (\<lambda>(i, kind).
            case argument args i of
              None \<Rightarrow> []
            | Some v \<Rightarrow>
                ref_of sec f kind
                  (if i = fst (last positions) then access_for f ''reference'' else ''reference'') v)
            positions))"

definition object_refs :: "string \<Rightarrow> string \<Rightarrow> string list \<Rightarrow> object_ref list" where
  "object_refs sec f args =
     concat (map (single_refs sec f args)
       [(CUBE_WRITE_FUNCTIONS, ''cube'', ''write''), (CUBE_READ_FUNCTIONS, ''cube'', ''read''),
        (DIMENSION_FUNCTIONS, ''dimension'', ''reference''), (CUBE_ADMIN_FUNCTIONS, ''cube'', ''reference''),
        (PROCESS_FUNCTIONS, ''process'', ''calls'')]) @
     concat (map (container_refs sec f args) [VIEW_FUNCTIONS, SUBSET_FUNCTIONS, ATTRIBUTE_FUNCTIONS])"

text \<open>\<open>str.strip("'")\<close>.\<close>

definition strip_quotes :: "string \<Rightarrow> string" where
  "strip_quotes s = rev (dropWhile (\<lambda>c. c = quote) (rev (dropWhile (\<lambda>c. c = quote) s)))"

definition temporary_flag :: "string \<Rightarrow> string list \<Rightarrow> bool" where
  "temporary_flag f args \<longleftrightarrow>
     f \<in> {''VIEWCREATE'', ''SUBSETCREATE''} \<and> length args > 2 \<and>
     (let flag = strip_quotes (strip (args ! 2)) in flag \<noteq> [] \<and> flag \<noteq> ''0'')"

definition mdx_of :: "string \<Rightarrow> string list \<Rightarrow> string list" where
  "mdx_of f args =
     (case map_of MDX_ARGUMENT f of
        None \<Rightarrow> []
      | Some i \<Rightarrow>
          (case argument args i of
             None \<Rightarrow> []
           | Some e \<Rightarrow>
               (case literal e of (t, lit) \<Rightarrow> if e \<noteq> [] \<and> lit \<and> strip t \<noteq> [] then [strip t] else [])))"

section \<open>Collecting\<close>

definition scan_budget :: "string \<Rightarrow> int" where
  "scan_budget code = max 200000 (int (length code) * 4)"

text \<open>The loop over the call sites of a section.\<close>

fun collect_calls :: "string \<Rightarrow> string \<Rightarrow> int \<Rightarrow> (string \<times> nat) list \<Rightarrow> process_record \<Rightarrow> process_record" where
  "collect_calls sec code budget [] pr = pr"
| "collect_calls sec code budget ((f, start) # cs) pr =
     (let pr1 = note_function f pr in
      if budget \<le> 0 then collect_calls sec code budget cs pr1
      else
        let args = split_args code start in
        collect_calls sec code (budget - (int (sum_list (map length args)) + 1)) cs
          (pr1\<lparr>pc_mdx_expressions := pc_mdx_expressions pr1 @ mdx_of f args,
               pc_objects := pc_objects pr1 @ object_refs sec f args,
               pc_uses_temporary_objects := pc_uses_temporary_objects pr1 \<or> temporary_flag f args\<rparr>))"

definition collect :: "string \<Rightarrow> string \<Rightarrow> process_record \<Rightarrow> process_record" where
  "collect sec code pr =
     (if strip code = [] then pr
      else collect_calls sec code (scan_budget code) (iter_calls code) (fold note_function (iter_statements code) pr))"

section \<open>Parsing a process\<close>

definition MAX_NAME_LENGTH :: nat where "MAX_NAME_LENGTH = 200"

definition is_printable :: "char \<Rightarrow> bool" where
  "is_printable c \<longleftrightarrow>
     32 \<le> chr_code c \<and> chr_code c \<le> 126 \<or> 161 \<le> chr_code c \<and> chr_code c \<noteq> 173"

definition clean_name :: "string \<Rightarrow> string" where
  "clean_name nm = take MAX_NAME_LENGTH (strip (filter is_printable nm))"

text \<open>\<open>len(code.splitlines())\<close>.\<close>

definition line_end :: "char \<Rightarrow> bool" where
  "line_end c \<longleftrightarrow> chr_code c \<in> {10, 11, 12, 13, 28, 29, 30, 133}"

fun count_lines :: "string \<Rightarrow> nat" where
  "count_lines [] = 0"
| "count_lines [c] = 1"
| "count_lines (c # d # s) =
     (if chr_code c = 13 \<and> chr_code d = 10 then count_lines (d # s)
      else if line_end c then Suc (count_lines (d # s))
      else count_lines (d # s))"

text \<open>\<open>str.splitlines\<close>; the first argument is the line read so far.\<close>

fun lines_from :: "string \<Rightarrow> string \<Rightarrow> string list" where
  "lines_from cur [] = (if cur = [] then [] else [cur])"
| "lines_from cur (c # s) =
     (if chr_code c = 13 \<and> s \<noteq> [] \<and> chr_code (hd s) = 10 then cur # lines_from [] (tl s)
      else if line_end c then cur # lines_from [] s
      else lines_from (cur @ [c]) s)"

text \<open>\<open>_COMMENT.findall\<close>: from each \<open>#\<close> to the end of its line.\<close>

function comments_in :: "string \<Rightarrow> string list" where
  "comments_in [] = []"
| "comments_in (c # s) =
     (if c = CHR ''#''
      then (c # takeWhile (\<lambda>x. x \<noteq> newline) s) # comments_in (dropWhile (\<lambda>x. x \<noteq> newline) s)
      else comments_in s)"
  by pat_completeness auto
termination
  by (relation "measure length") (auto simp: length_dropWhile_le le_imp_less_Suc)

definition strip_hash :: "string \<Rightarrow> string" where
  "strip_hash s = rev (dropWhile (\<lambda>c. c = CHR ''#'') (rev (dropWhile (\<lambda>c. c = CHR ''#'') s)))"

fun join_lines :: "string list \<Rightarrow> string" where
  "join_lines [] = []"
| "join_lines [x] = x"
| "join_lines (x # y # xs) = x @ newline # join_lines (y # xs)"

definition temporary_name :: "string \<Rightarrow> bool" where
  "temporary_name nm \<longleftrightarrow>
     (let l = lower nm in take 1 l = ''z'' \<or> take 3 l = ''tmp'' \<or> take 4 l = ''temp'')"

definition CONTROL_WORDS :: "string list" where
  "CONTROL_WORDS = [''IF'', ''ELSEIF'', ''ELSE'', ''WHILE'', ''END'', ''ENDIF'', ''BREAK'', ''CONTINUE'']"

definition finalise :: "(string \<Rightarrow> bool) \<Rightarrow> process_record \<Rightarrow> process_record" where
  "finalise known pr =
     (let all_code = join_lines (map snd (pc_sections pr));
          comments = filter (\<lambda>l. strip (strip_hash l) \<noteq> []) (map strip (comments_in all_code))
      in pr\<lparr>pc_comments := comments,
            pc_header_comment := join_lines (take 12 comments),
            pc_temporary_objects := sorted_list_of_set (set (map or_name
              (filter (\<lambda>r. or_literal r \<and> temporary_name (or_name r)) (pc_objects pr)))),
            pc_has_cleanup := list_ex (\<lambda>r. or_access r = ''destroy'' \<and> or_section r = ''epilog'') (pc_objects pr),
            pc_unknown_functions := sorted_list_of_set (set (filter (\<lambda>f. \<not> known f \<and> f \<notin> set CONTROL_WORDS)
              (map fst (pc_functions_used pr)))),
            pc_parse_warnings := pc_parse_warnings pr @
              (if pc_name pr = [] then [''No process name (tag 602) found.''] else []) @
              (if list_all (\<lambda>(_, n). n = 0) (pc_line_counts pr) then [''No TI code sections found.''] else [])\<rparr>)"

definition empty_record :: "string \<Rightarrow> string \<Rightarrow> string \<Rightarrow> (string \<times> string) list \<Rightarrow> process_record" where
  "empty_record nm ty ds secs =
     \<lparr>pc_name = nm, pc_datasource_type = ty, pc_datasource_name = ds, pc_sections = secs,
      pc_line_counts = map (\<lambda>(s, code). (s, count_lines code)) secs, pc_objects = [],
      pc_functions_used = [], pc_unknown_functions = [], pc_mdx_expressions = [], pc_comments = [],
      pc_header_comment = [], pc_uses_logging = False, pc_uses_error_handling = False,
      pc_uses_record_skipping = False, pc_uses_security_functions = False, pc_performance_functions = [],
      pc_temporary_objects = [], pc_has_cleanup = False, pc_uses_temporary_objects = False,
      pc_parse_warnings = []\<rparr>"

definition sections_of :: "process_info \<Rightarrow> (string \<times> string) list" where
  "sections_of info =
     [(''prolog'', pi_prolog info), (''metadata'', pi_metadata info), (''data'', pi_data info),
      (''epilog'', pi_epilog info)]"

definition parse_process_code :: "(string \<Rightarrow> bool) \<Rightarrow> process_info \<Rightarrow> process_record" where
  "parse_process_code known info =
     (let secs = sections_of info;
          ty = (if pi_datasource_type info = [] then ''none'' else lower (pi_datasource_type info))
      in finalise known
           (fold (\<lambda>(s, code). collect s code) secs
              (empty_record (clean_name (pi_name info)) ty (pi_datasource_name info) secs)))"

definition cubes_written :: "process_record \<Rightarrow> string set" where
  "cubes_written pr = set (map or_name (filter (\<lambda>r. or_kind r = ''cube'' \<and> or_access r = ''write'') (pc_objects pr)))"

definition cubes_read :: "process_record \<Rightarrow> string set" where
  "cubes_read pr = set (map or_name (filter (\<lambda>r. or_kind r = ''cube'' \<and> or_access r = ''read'') (pc_objects pr)))"

definition processes_called :: "process_record \<Rightarrow> string set" where
  "processes_called pr = set (map or_name (filter (\<lambda>r. or_kind r = ''process'' \<and> or_literal r) (pc_objects pr)))"

definition dimensions_used :: "process_record \<Rightarrow> string set" where
  "dimensions_used pr = set (map or_name (filter (\<lambda>r. or_kind r = ''dimension'') (pc_objects pr)))"

end
