(* ===== verification/ChangeDraft.thy ===== *)
theory ChangeDraft
  imports Governance TiParser
begin

text \<open>
  Drafting a change: \<open>create_change\<close> and \<open>get_change_preview\<close> of
  \<open>tm1/deployment/change_service.py\<close>, the queries of
  \<open>repositories/tm1_change_repository.py\<close> with the open-draft index of
  \<open>database/models/tm1_change.py\<close>, the route of \<open>api/v1/tm1.py\<close> and the assistant's
  \<open>_create_draft\<close> (\<open>ai/tools/tm1/changes.py\<close>). The static analysis, the code review
  are arguments (\<open>draft_tools\<close>), as is the note on how fresh the dependency map is; the
  parser of TurboIntegrator code is \<open>TiParser\<close>. Checks keep their name and status; texts with figures in
  them keep their fixed part.
\<close>

section \<open>Calls in sequence\<close>

text \<open>What a draft needs of the server beyond applying it.\<close>

record ('s, 'p) draft_client = "('s, 'p) client" +
  get_cube :: "string \<Rightarrow> ('s, unit) call"
  compile_process_dryrun :: "'p \<Rightarrow> ('s, json list) call"
  get_process :: "string \<Rightarrow> ('s, process_info) call"
  execute_mdx_cellcount :: "string \<Rightarrow> ('s, int) call"
  execute_mdx_table :: "string \<Rightarrow> ('s, unit) call"

record 'p draft_tools =
  accepts_float :: "string \<Rightarrow> bool"
  ti_analyze :: "json \<Rightarrow> json option \<Rightarrow> json list"
  review_concerns :: "string \<Rightarrow> 'p \<Rightarrow> json option \<Rightarrow> nat"
  known_function :: "string \<Rightarrow> bool"
  graph_note :: "string option"

definition give :: "'a result \<Rightarrow> ('s, 'a) call" where
  "give r = (\<lambda>s. (s, r))"

definition andThen :: "('s, 'a) call \<Rightarrow> ('a \<Rightarrow> ('s, 'b) call) \<Rightarrow> ('s, 'b) call" where
  "andThen m f = (\<lambda>s. case m s of (s', Inl e) \<Rightarrow> (s', Inl e) | (s', Inr a) \<Rightarrow> f a s')"

definition needs :: "bool \<Rightarrow> exn \<Rightarrow> ('s, unit) call" where
  "needs b e = give (ensure b e)"

text \<open>A step of \<open>ChangeService\<close> that leaves the row alone, as a call.\<close>

definition server_part :: "('s, 'a) act \<Rightarrow> change \<Rightarrow> ('s, 'a) call" where
  "server_part m ch = (\<lambda>s. case m (s, ch) of ((s', _), r) \<Rightarrow> (s', r))"

section \<open>Checks\<close>

definition check_entry :: "string \<Rightarrow> string \<Rightarrow> json" where
  "check_entry nm status = JObj [(''name'', JStr nm), (''status'', JStr status)]"

definition fail_if :: "bool \<Rightarrow> string" where
  "fail_if b = (if b then ''fail'' else ''pass'')"

definition impact_check :: "json list \<Rightarrow> json" where
  "impact_check entries =
     check_entry ''Impact'' (if needs_acknowledgement (Some entries) then ''warn'' else ''pass'')"

text \<open>\<open>_fingerprint\<close>: two proposals with the same one are the same draft.\<close>

definition fingerprint :: "('p, 'z) tools_scheme \<Rightarrow> ChangeType \<Rightarrow> string \<Rightarrow> json option \<Rightarrow> string" where
  "fingerprint tk ty target content =
     hash tk (JObj [(''change_type'', JStr (change_type_value ty)), (''target_name'', JStr target),
       (''new_content'', case content of None \<Rightarrow> JNull | Some c \<Rightarrow> c)])"

section \<open>A run\<close>

definition RESERVED_RUN_KEYWORDS :: "string list" where
  "RESERVED_RUN_KEYWORDS =
     [''process_name'', ''timeout'', ''cancel_at_timeout'', ''return_async_id'', ''retry_on_disconnect'']"

definition text_of :: "json option \<Rightarrow> string" where
  "text_of v = (case v of Some (JStr s) \<Rightarrow> s | _ \<Rightarrow> [])"

text \<open>The last definition of a name wins, as in the dict \<open>by_name\<close>.\<close>

definition definition_of :: "json list \<Rightarrow> string \<Rightarrow> json option" where
  "definition_of defs nm = find (\<lambda>d. lower (text_of (json_get d ''name'')) = lower nm) (rev defs)"

definition float_fails :: "'p draft_tools \<Rightarrow> json \<Rightarrow> bool" where
  "float_fails dt v =
     (case v of
        JInt _ \<Rightarrow> False | JNum _ \<Rightarrow> False | JBool _ \<Rightarrow> False
      | JStr s \<Rightarrow> \<not> accepts_float dt s
      | _ \<Rightarrow> True)"

definition parameter_problem :: "'p draft_tools \<Rightarrow> json list \<Rightarrow> string \<times> json \<Rightarrow> json list" where
  "parameter_problem dt defs nv =
     (case nv of (nm, value) \<Rightarrow>
        if lower nm \<in> set RESERVED_RUN_KEYWORDS then [JStr ''A parameter of this name cannot be passed.'']
        else case definition_of defs nm of
          None \<Rightarrow> [JStr ''The process has no parameter of this name.'']
        | Some d \<Rightarrow>
            if lower (text_of (json_get d ''type'')) = ''numeric'' \<and> float_fails dt value
            then [JStr ''The parameter is numeric; the value is not a number.''] else [])"

definition validate_run_parameters :: "'p draft_tools \<Rightarrow> json list \<Rightarrow> (string \<times> json) list \<Rightarrow> json list" where
  "validate_run_parameters dt defs given = concat (map (parameter_problem dt defs) given)"

text \<open>\<open>lowered.get(name.lower())\<close>: the last given value of the name, null counting as none.\<close>

definition given_value :: "(string \<times> json) list \<Rightarrow> string \<Rightarrow> json option" where
  "given_value given nm =
     (case find (\<lambda>(k, _). lower k = lower nm) (rev given) of
        None \<Rightarrow> None | Some (_, v) \<Rightarrow> if v = JNull then None else Some v)"

definition planned_parameter :: "(string \<times> json) list \<Rightarrow> json \<Rightarrow> json" where
  "planned_parameter given d =
     (let nm = text_of (json_get d ''name'') in
      JObj [(''kind'', JStr ''parameter''), (''name'', JStr nm),
            (''value'', case given_value given nm of
               Some v \<Rightarrow> v
             | None \<Rightarrow> (case json_get d ''default'' of Some v \<Rightarrow> v | None \<Rightarrow> JNull)),
            (''source'', JStr (if given_value given nm \<noteq> None then ''given'' else ''default''))])"

definition planned_target :: "string \<Rightarrow> string \<Rightarrow> json" where
  "planned_target kind nm =
     JObj [(''kind'', JStr kind), (''name'', JStr nm), (''source'', JStr ''TI parser'')]"

definition plan_note :: "string \<Rightarrow> json" where
  "plan_note note = JObj [(''kind'', JStr ''note''), (''note'', JStr note)]"

definition unresolved_targets :: "process_record \<Rightarrow> object_ref list" where
  "unresolved_targets pr =
     filter (\<lambda>r. \<not> or_literal r \<and> or_access r \<in> {''write'', ''calls''}) (pc_objects pr)"

definition run_plan :: "json list \<Rightarrow> (string \<times> json) list \<Rightarrow> process_record \<Rightarrow> json list" where
  "run_plan defs given pr =
     map (planned_parameter given) defs @
     map (planned_target ''writes_cube'') (sorted_list_of_set (cubes_written pr)) @
     map (planned_target ''calls_process'') (sorted_list_of_set (processes_called pr)) @
     (if unresolved_targets pr = [] then []
      else [plan_note ''write or call targets are built from variables'']) @
     [plan_note ''A process run cannot be rolled back.'']"

section \<open>Cells\<close>

text \<open>One turn of the loop over the cells, with the coordinates seen before it.\<close>

definition is_text :: "json \<Rightarrow> bool" where
  "is_text v = (case v of JStr _ \<Rightarrow> True | _ \<Rightarrow> False)"

definition cell_problems :: "string list list \<Rightarrow> string list \<times> json \<Rightarrow> cell \<Rightarrow> json list" where
  "cell_problems seen w cl =
     (if fst w \<in> set seen then [JStr ''listed more than once''] else []) @
     (if c_consolidated cl then [JStr ''a consolidated cell'']
      else if c_rule_derived cl then [JStr ''calculated by a rule''] else []) @
     (if is_text (c_value cl) \<noteq> is_text (snd w) \<and> c_value cl \<noteq> JNull
      then [JStr ''the value does not fit the cell''] else [])"

fun all_cell_problems :: "string list list \<Rightarrow> (string list \<times> json) list \<Rightarrow> cell list \<Rightarrow> json list" where
  "all_cell_problems seen (w # ws) (c # cs) = cell_problems seen w c @ all_cell_problems (fst w # seen) ws cs"
| "all_cell_problems seen _ _ = []"

section \<open>A view\<close>

definition MAX_VIEW_NAME :: nat where "MAX_VIEW_NAME = 100"
definition VIEW_CHECK_CELLS :: int where "VIEW_CHECK_CELLS = 500"

definition VIEW_NAME_FORBIDDEN :: string where
  "VIEW_NAME_FORBIDDEN = map char_of [92, 47, 58, 42, 63, 34, 60, 62, 124 :: nat]"

definition view_name_problems :: "string \<Rightarrow> json list" where
  "view_name_problems nm =
     (if strip nm = [] then [JStr ''The view needs a name.'']
      else
        (if length nm > MAX_VIEW_NAME then [JStr ''A view name can be at most 100 characters.''] else []) @
        (if \<exists>c \<in> set nm. c \<in> set VIEW_NAME_FORBIDDEN \<or> chr_code c < 32
         then [JStr ''TM1 does not allow these characters in a view name.''] else []) @
        (if take 1 nm = ''}'' then [JStr ''Names starting with a closing brace are reserved.''] else []) @
        (if nm \<noteq> strip nm then [JStr ''The view name starts or ends with a space.''] else []))"

abbreviation closing :: char where "closing \<equiv> CHR '']''"

definition bare :: "char \<Rightarrow> bool" where
  "bare c \<longleftrightarrow> \<not> is_space c \<and> c \<notin> set ''[]()''"

text \<open>\<open>_MDX_FROM_TARGET\<close> on what follows \<open>FROM\<close>: a bracketed name is not empty.\<close>

definition from_target :: "string \<Rightarrow> string option" where
  "from_target s =
     (case dropWhile is_space s of
        [] \<Rightarrow> None
      | c # s' \<Rightarrow>
          if c = CHR ''['' then
            (case delimited closing s' of
               Some (n, _) \<Rightarrow> if n = [] then None else Some (undouble closing n)
             | None \<Rightarrow> None)
          else if bare c then Some (takeWhile bare (c # s')) else None)"

definition at_from :: "string \<Rightarrow> bool" where
  "at_from s \<longleftrightarrow> lower (take 4 s) = ''from'' \<and> (case drop 4 s of [] \<Rightarrow> True | c # _ \<Rightarrow> \<not> is_word c)"

text \<open>
  \<open>_MDX_TOKEN.finditer\<close> with the loop of \<open>_mdx_cubes\<close>: brackets are skipped whole, \<open>word\<close>
  says whether the character before the position is part of a word.
\<close>

function mdx_scan :: "bool \<Rightarrow> string \<Rightarrow> string list" where
  "mdx_scan word [] = []"
| "mdx_scan word (c # s) =
     (if c = CHR ''['' then
        (case delimited closing s of
           Some (_, r) \<Rightarrow> mdx_scan False r
         | None \<Rightarrow> mdx_scan False s)
      else if \<not> word \<and> at_from (c # s) then
        (case from_target (drop 3 s) of
           Some t \<Rightarrow> t # mdx_scan True (drop 3 s)
         | None \<Rightarrow> mdx_scan True (drop 3 s))
      else mdx_scan (is_word c) s)"
  by pat_completeness auto
termination
  by (relation "measure (\<lambda>(_, s). length s)") (auto dest: delimited_length)

definition mdx_cubes :: "string \<Rightarrow> string list" where
  "mdx_cubes mdx = mdx_scan False mdx"

definition tm1_name :: "string \<Rightarrow> string" where
  "tm1_name nm = lower (filter (\<lambda>c. c \<noteq> CHR '' '') nm)"

definition mdx_cube_problem :: "string \<Rightarrow> string \<Rightarrow> json option" where
  "mdx_cube_problem mdx cube =
     (if mdx_cubes mdx = [] then Some (JStr ''The MDX has no FROM clause.'')
      else if \<exists>c \<in> set (mdx_cubes mdx). tm1_name c \<noteq> tm1_name cube
      then Some (JStr ''The MDX reads from another cube.'') else None)"

text \<open>\<open>_mdx_run_check\<close>: an unreachable server raises, any other failure is the query's.\<close>

definition mdx_run_check :: "('s, 'p) draft_client \<Rightarrow> string \<Rightarrow> ('s, json option) call" where
  "mdx_run_check c mdx s =
     (let problem = JStr ''TM1 could not run the MDX'';
          failed = (\<lambda>s e. if e = TM1OutcomeUnknown \<or> e = TM1Authentication then (s, Inl e)
                       else (s, Inr (Some problem))) in
      case execute_mdx_cellcount c mdx s of
        (s1, Inl e) \<Rightarrow> failed s1 e
      | (s1, Inr cells) \<Rightarrow>
          if cells > VIEW_CHECK_CELLS then (s1, Inr None)
          else (case execute_mdx_table c mdx s1 of
                  (s2, Inl e) \<Rightarrow> failed s2 e
                | (s2, Inr _) \<Rightarrow> (s2, Inr None)))"

section \<open>What each kind of draft is checked for\<close>

text \<open>Where the impact of a draft comes from: the branch itself or the dependency map.\<close>

datatype impact_source = GivenImpact "json list" | GraphImpact string

record findings =
  fi_errors :: "json list"
  fi_checks :: "json list"
  fi_impact :: impact_source

definition draft_rules :: "('s, 'p) draft_client \<Rightarrow> string \<Rightarrow> json option \<Rightarrow> ('s, findings) call" where
  "draft_rules c target content =
     andThen (needs (content_get content ''rules'' \<noteq> None) Validation) (\<lambda>_.
     andThen (get_cube c target) (\<lambda>_.
       give (Inr \<lparr>fi_errors = [], fi_checks = [check_entry ''Rule syntax'' ''info''],
                  fi_impact = GraphImpact ''cube''\<rparr>)))"

text \<open>\<open>(base or {}).get("DataSourceType")\<close>.\<close>

definition datasource_of :: "json option \<Rightarrow> json option" where
  "datasource_of base = (case base of None \<Rightarrow> None | Some b \<Rightarrow> json_get b ''DataSourceType'')"

definition process_findings ::
  "'p draft_tools \<Rightarrow> string \<Rightarrow> json \<Rightarrow> json option \<Rightarrow> 'p \<Rightarrow> json list \<Rightarrow> findings" where
  "process_findings dt target content base candidate errors =
     (let static_errors = ti_analyze dt content (datasource_of base);
          concerns = review_concerns dt target candidate (datasource_of base)
      in \<lparr>fi_errors = static_errors @ errors,
          fi_checks =
            [check_entry ''Static analysis'' (fail_if (static_errors \<noteq> [])),
             check_entry ''Compiled on the server (not saved)'' (fail_if (errors \<noteq> [])),
             check_entry ''Code review'' (if concerns = 0 then ''pass'' else ''warn'')],
          fi_impact = GraphImpact ''process''\<rparr>)"

definition draft_process ::
  "('s, 'r process) draft_client \<Rightarrow> 'r process tools \<Rightarrow> 'r process draft_tools \<Rightarrow> ChangeType \<Rightarrow> string \<Rightarrow>
     json option \<Rightarrow> ('s, findings) call" where
  "draft_process c tk dt ty target content =
     (case content of
        None \<Rightarrow> give (Inl Validation)
      | Some new \<Rightarrow>
          andThen (process_exists c target) (\<lambda>exists.
          andThen (needs (\<not> (ty = CREATE_PROCESS \<and> exists)) (Conflict CONFLICT)) (\<lambda>_.
          andThen (needs (\<not> (ty = UPDATE_PROCESS \<and> \<not> exists)) TM1NotFound) (\<lambda>_.
          andThen (if ty = UPDATE_PROCESS then andThen (get_process_body c target) (\<lambda>b. give (Inr (Some b)))
                   else give (Inr None)) (\<lambda>base.
          andThen (give (build_process tk target content base)) (\<lambda>candidate.
          andThen (compile_process_dryrun c candidate) (\<lambda>errors.
            give (Inr (process_findings dt target new base candidate errors)))))))))"

definition given_parameters :: "json option \<Rightarrow> (string \<times> json) list result" where
  "given_parameters content =
     (case content_get content ''parameters'' of
        None \<Rightarrow> Inr []
      | Some v \<Rightarrow>
          if \<not> truthy v then Inr []
          else (case v of JObj kvs \<Rightarrow> Inr kvs | _ \<Rightarrow> Inl Validation))"

definition draft_run ::
  "('s, 'p) draft_client \<Rightarrow> 'p draft_tools \<Rightarrow> string \<Rightarrow> json option \<Rightarrow> ('s, findings) call" where
  "draft_run c dt target content =
     andThen (get_process c target) (\<lambda>info.
     andThen (give (given_parameters content)) (\<lambda>given.
       let problems = validate_run_parameters dt (pi_parameters info) given in
       give (Inr \<lparr>fi_errors = problems,
         fi_checks = [check_entry ''Parameters'' (fail_if (problems \<noteq> [])), check_entry ''No rollback'' ''warn''],
         fi_impact = GivenImpact (run_plan (pi_parameters info) given (parse_process_code (known_function dt) info))\<rparr>)))"

definition draft_cells :: "('s, 'p) draft_client \<Rightarrow> string \<Rightarrow> json option \<Rightarrow> ('s, findings) call" where
  "draft_cells c target content =
     andThen (give (cell_writes content)) (\<lambda>writes.
     andThen (read_cells c target (map fst writes)) (\<lambda>found.
       let errors = (case found of
                       None \<Rightarrow> [JStr ''These elements do not exist'']
                     | Some cells \<Rightarrow> all_cell_problems [] writes cells)
       in give (Inr \<lparr>fi_errors = errors,
            fi_checks = [check_entry ''Cells'' (fail_if (errors \<noteq> [])), check_entry ''Current values'' ''info''],
            fi_impact = GraphImpact ''cube''\<rparr>)))"

definition draft_view :: "('s, 'p) draft_client \<Rightarrow> string \<Rightarrow> json option \<Rightarrow> ('s, findings) call" where
  "draft_view c target content =
     andThen (give (view_content content)) (\<lambda>(view, mdx).
     andThen (get_cube c target) (\<lambda>_.
     andThen (if view_name_problems view = [] then view_exists c target view else give (Inr False)) (\<lambda>exists.
       let problems = view_name_problems view @ (if exists then [JStr ''A public view of that name exists''] else [])
       in andThen
            (if strip mdx = [] then give (Inr (Some (JStr ''The view needs MDX.'')))
             else case mdx_cube_problem mdx target of
                    Some p \<Rightarrow> give (Inr (Some p))
                  | None \<Rightarrow> mdx_run_check c mdx) (\<lambda>mdx_problem.
          give (Inr \<lparr>fi_errors = problems @ (case mdx_problem of None \<Rightarrow> [] | Some p \<Rightarrow> [p]),
            fi_checks = [check_entry ''View'' (fail_if (problems \<noteq> [])),
                         check_entry ''MDX runs'' (fail_if (mdx_problem \<noteq> None))],
            fi_impact = GivenImpact []\<rparr>)))))"

definition draft_delete :: "('s, 'p) draft_client \<Rightarrow> string \<Rightarrow> ('s, findings) call" where
  "draft_delete c target =
     andThen (process_exists c target) (\<lambda>exists.
     andThen (needs exists TM1NotFound) (\<lambda>_.
       give (Inr \<lparr>fi_errors = [], fi_checks = [], fi_impact = GraphImpact ''process''\<rparr>)))"

definition draft_findings ::
  "('s, 'r process) draft_client \<Rightarrow> 'r process tools \<Rightarrow> 'r process draft_tools \<Rightarrow> ChangeType \<Rightarrow> string \<Rightarrow>
     json option \<Rightarrow> ('s, findings) call" where
  "draft_findings c tk dt ty target content =
     (case ty of
        UPDATE_RULES \<Rightarrow> draft_rules c target content
      | CREATE_PROCESS \<Rightarrow> draft_process c tk dt ty target content
      | UPDATE_PROCESS \<Rightarrow> draft_process c tk dt ty target content
      | RUN_PROCESS \<Rightarrow> draft_run c dt target content
      | WRITE_CELLS \<Rightarrow> draft_cells c target content
      | CREATE_VIEW \<Rightarrow> draft_view c target content
      | DELETE_PROCESS \<Rightarrow> draft_delete c target)"

section \<open>The impact stored on a draft\<close>

definition severity_text :: "severity \<Rightarrow> string" where
  "severity_text s = (case s of CRITICAL \<Rightarrow> ''critical'' | HIGH \<Rightarrow> ''high'' | MEDIUM \<Rightarrow> ''medium'' | LOW \<Rightarrow> ''low'')"

definition item_json :: "item \<Rightarrow> json" where
  "item_json i =
     JObj [(''object_type'', JStr (i_object_type i)), (''name'', JStr (i_name i)),
           (''severity'', JStr (severity_text (i_severity i))), (''reason'', JStr (i_reason i)),
           (''depth'', JInt (int (i_depth i))), (''relationship_type'', JStr (i_relationship i)),
           (''via'', text_json (i_via i))]"

definition note_json :: "string \<Rightarrow> json" where
  "note_json note = JObj [(''note'', JStr note)]"

definition draft_impact ::
  "'p draft_tools \<Rightarrow> graph \<Rightarrow> uuid \<Rightarrow> uuid \<Rightarrow> string \<Rightarrow> string \<Rightarrow> ChangeType \<Rightarrow> json list result" where
  "draft_impact dt g conn org object_type nm ty =
     bind_result (analyze_impact g conn org object_type nm
                    (if ty = DELETE_PROCESS then ''delete'' else ''modify'') (ty = UPDATE_RULES)) (\<lambda>im.
       Inr (if \<not> im_in_graph im then [note_json ''not in the dependency map'']
            else map item_json (im_items im) @
                 (case graph_note dt of None \<Rightarrow> [] | Some note \<Rightarrow> [note_json note])))"

definition resolve_impact ::
  "'p draft_tools \<Rightarrow> graph \<Rightarrow> uuid \<Rightarrow> uuid \<Rightarrow> string \<Rightarrow> ChangeType \<Rightarrow> impact_source \<Rightarrow> json list result" where
  "resolve_impact dt g conn org target ty src =
     (case src of GivenImpact xs \<Rightarrow> Inr xs | GraphImpact object_type \<Rightarrow> draft_impact dt g conn org object_type target ty)"

text \<open>The two checks that close the list.\<close>

definition closing_checks :: "ChangeType \<Rightarrow> json list \<Rightarrow> json list" where
  "closing_checks ty impact =
     (if ty = CREATE_VIEW then [check_entry ''Impact'' ''info'', check_entry ''Snapshot and rollback'' ''info'']
      else if ty = RUN_PROCESS then []
      else [impact_check impact, check_entry ''Snapshot and rollback'' ''info''])"

section \<open>The table of changes\<close>

definition parse_change_type :: "string \<Rightarrow> ChangeType option" where
  "parse_change_type s = find (\<lambda>t. change_type_value t = s) VALID_CHANGE_TYPES"

text \<open>The view name of a draft, part of the key of the index.\<close>

definition view_key :: "('p, 'z) tools_scheme \<Rightarrow> json option \<Rightarrow> string" where
  "view_key tk content =
     (case content_get content ''view_name'' of
        None \<Rightarrow> [] | Some v \<Rightarrow> if truthy v then py_str tk v else [])"

definition list_by_connection :: "uuid \<Rightarrow> change list \<Rightarrow> change list" where
  "list_by_connection conn rows = rev (filter (\<lambda>x. ch_connection_id x = conn) rows)"

text \<open>Rows are kept in the order of \<open>created_at\<close>; the query lists the latest first.\<close>

definition list_open_drafts ::
  "uuid \<Rightarrow> uuid \<Rightarrow> uuid \<Rightarrow> ChangeType \<Rightarrow> string \<Rightarrow> change list \<Rightarrow> change list" where
  "list_open_drafts conn org author ty target rows =
     rev (filter (\<lambda>x. ch_connection_id x = conn \<and> ch_organization_id x = org \<and> ch_created_by x = author \<and>
                     ch_type x = ty \<and> ch_target_name x = target \<and> ch_status x = DRAFT) rows)"

definition open_drafts ::
  "('p, 'z) tools_scheme \<Rightarrow> uuid \<Rightarrow> uuid \<Rightarrow> uuid \<Rightarrow> ChangeType \<Rightarrow> string \<Rightarrow> json option \<Rightarrow> change list \<Rightarrow> change list" where
  "open_drafts tk conn org author ty target content rows =
     filter (\<lambda>x. ty \<noteq> CREATE_VIEW \<or> view_key tk (ch_new_content x) = view_key tk content)
       (list_open_drafts conn org author ty target rows)"

text \<open>\<open>uq_tm1_changes_open_draft\<close>: connection, author, target and view name of the open drafts.\<close>

definition open_key :: "('p, 'z) tools_scheme \<Rightarrow> change \<Rightarrow> uuid \<times> uuid \<times> string \<times> string" where
  "open_key tk x = (ch_connection_id x, ch_created_by x, ch_target_name x, view_key tk (ch_new_content x))"

definition insert_change :: "('p, 'z) tools_scheme \<Rightarrow> change \<Rightarrow> change list \<Rightarrow> change list result" where
  "insert_change tk ch rows =
     (if \<exists>x \<in> set rows. ch_status x = DRAFT \<and> open_key tk x = open_key tk ch then Inl IntegrityError
      else Inr (rows @ [ch]))"

definition set_superseded :: "change list \<Rightarrow> change list \<Rightarrow> change list" where
  "set_superseded drafts rows =
     map (\<lambda>x. if ch_id x \<in> ch_id ` set drafts then x\<lparr>ch_status := SUPERSEDED\<rparr> else x) rows"

definition point_to :: "uuid \<Rightarrow> change list \<Rightarrow> change list \<Rightarrow> change list" where
  "point_to i drafts rows =
     map (\<lambda>x. if ch_id x \<in> ch_id ` set drafts then x\<lparr>ch_superseded_by := Some i\<rparr> else x) rows"

text \<open>Status first, then the insert, then the pointers.\<close>

definition supersede :: "('p, 'z) tools_scheme \<Rightarrow> change list \<Rightarrow> change \<Rightarrow> change list \<Rightarrow> change list result" where
  "supersede tk drafts ch rows =
     bind_result (insert_change tk ch (set_superseded drafts rows)) (\<lambda>rows1.
       Inr (point_to (ch_id ch) drafts rows1))"

section \<open>Creating a change\<close>

record draft_request =
  dq_id :: uuid
  dq_connection :: connection
  dq_organization_id :: uuid
  dq_created_by :: uuid
  dq_type :: ChangeType
  dq_target_name :: string
  dq_new_content :: "json option"

definition draft_row ::
  "draft_request \<Rightarrow> json list \<Rightarrow> json list \<Rightarrow> json list \<Rightarrow> string option \<Rightarrow> change" where
  "draft_row q errors impact checks base =
     \<lparr>ch_id = dq_id q, ch_connection_id = cn_id (dq_connection q), ch_organization_id = dq_organization_id q,
      ch_created_by = dq_created_by q, ch_type = dq_type q, ch_target_name = dq_target_name q,
      ch_new_content = dq_new_content q, ch_previous_content = None, ch_validation_errors = errors,
      ch_impact = Some impact, ch_status = DRAFT, ch_error_message = None, ch_superseded_by = None,
      ch_executed_by = None, ch_executed_at = None, ch_rolled_back_at = None, ch_execution_result = None,
      ch_base_fingerprint = base, ch_environment = Some (environment_of (dq_connection q)),
      ch_checks = checks\<rparr>"

definition fingerprint_now ::
  "('s, 'p, 'y) client_scheme \<Rightarrow> ('p, 'z) tools_scheme \<Rightarrow> draft_request \<Rightarrow> ('s, string option) call" where
  "fingerprint_now c tk q =
     server_part (server_fingerprint (client.truncate c) tk (dq_type q) (dq_target_name q) (dq_new_content q))
       (draft_row q [] [] [] None)"

text \<open>From the client to the row: every round trip to the server, then the row to insert.\<close>

definition prepare_draft ::
  "('s, 'r process) draft_client \<Rightarrow> 'r process tools \<Rightarrow> 'r process draft_tools \<Rightarrow> graph \<Rightarrow> draft_request \<Rightarrow>
     ('s, change) call" where
  "prepare_draft c tk dt g q =
     andThen (connect c) (\<lambda>_.
     andThen (draft_findings c tk dt (dq_type q) (dq_target_name q) (dq_new_content q)) (\<lambda>f.
     andThen (give (resolve_impact dt g (cn_id (dq_connection q)) (dq_organization_id q) (dq_target_name q)
                      (dq_type q) (fi_impact f))) (\<lambda>impact.
     andThen (if fi_errors f \<noteq> [] then give (Inr None) else fingerprint_now c tk q) (\<lambda>base.
       give (Inr (draft_row q (fi_errors f) impact (fi_checks f @ closing_checks (dq_type q) impact) base))))))"

definition same_draft :: "('p, 'z) tools_scheme \<Rightarrow> draft_request \<Rightarrow> change \<Rightarrow> bool" where
  "same_draft tk q x \<longleftrightarrow>
     fingerprint tk (ch_type x) (ch_target_name x) (ch_new_content x) =
     fingerprint tk (dq_type q) (dq_target_name q) (dq_new_content q)"

definition drafts_for :: "('p, 'z) tools_scheme \<Rightarrow> draft_request \<Rightarrow> change list \<Rightarrow> change list" where
  "drafts_for tk q rows =
     open_drafts tk (cn_id (dq_connection q)) (dq_organization_id q) (dq_created_by q) (dq_type q)
       (dq_target_name q) (dq_new_content q) rows"

definition create_change ::
  "('s, 'r process) draft_client \<Rightarrow> 'r process tools \<Rightarrow> 'r process draft_tools \<Rightarrow> graph \<Rightarrow> draft_request \<Rightarrow>
     's \<times> change list \<Rightarrow> ('s \<times> change list) \<times> change result" where
  "create_change c tk dt g q st =
     (case st of (s, rows) \<Rightarrow>
        (case find (same_draft tk q) (drafts_for tk q rows) of
           Some x \<Rightarrow> (st, Inr x)
         | None \<Rightarrow>
             (case prepare_draft c tk dt g q s of
                (s', Inl e) \<Rightarrow> ((s', rows), Inl e)
              | (s', Inr ch) \<Rightarrow>
                  (case supersede tk (drafts_for tk q rows) ch rows of
                     Inl e \<Rightarrow> ((s', rows), Inl e)
                   | Inr rows' \<Rightarrow> ((s', rows'), Inr ch)))))"

text \<open>
  The route and the assistant's tool around it: the connection the author may use, its
  environment, and \<open>get_db\<close>, which keeps the table when anything raised.
\<close>

definition create_change_request ::
  "accounts \<Rightarrow> connection list \<Rightarrow> user \<Rightarrow> ('s, 'r process) draft_client \<Rightarrow> 'r process tools \<Rightarrow>
     'r process draft_tools \<Rightarrow> graph \<Rightarrow> uuid \<Rightarrow> uuid \<Rightarrow> string \<Rightarrow> string \<Rightarrow> json option \<Rightarrow>
     's \<times> change list \<Rightarrow> ('s \<times> change list) \<times> change result" where
  "create_change_request a conns u c tk dt g i conn_id ty target content st =
     (case bind_result (require_permission a u ''tm1.write'') (\<lambda>_.
           bind_result (get_connection a conns conn_id (u_organization_id u) Use (Some (u_id u))) (\<lambda>conn.
             case parse_change_type ty of None \<Rightarrow> Inl Validation | Some t \<Rightarrow> Inr (conn, t))) of
        Inl e \<Rightarrow> (st, Inl e)
      | Inr (conn, t) \<Rightarrow>
          create_change c tk dt g
            \<lparr>dq_id = i, dq_connection = conn, dq_organization_id = u_organization_id u, dq_created_by = u_id u,
             dq_type = t, dq_target_name = target, dq_new_content = content\<rparr> st)"

definition create_draft_tool ::
  "accounts \<Rightarrow> connection list \<Rightarrow> uuid \<Rightarrow> uuid \<Rightarrow> ('s, 'r process) draft_client \<Rightarrow> 'r process tools \<Rightarrow>
     'r process draft_tools \<Rightarrow> graph \<Rightarrow> uuid \<Rightarrow> uuid \<Rightarrow> ChangeType \<Rightarrow> string \<Rightarrow> json option \<Rightarrow>
     's \<times> change list \<Rightarrow> ('s \<times> change list) \<times> change result" where
  "create_draft_tool a conns org uid c tk dt g i conn_id ty target content st =
     (case bind_result (get_connection a conns conn_id org Use (Some uid)) (\<lambda>conn.
           bind_result (check_ai_may_draft conn) (\<lambda>_. Inr conn)) of
        Inl e \<Rightarrow> (st, Inl e)
      | Inr conn \<Rightarrow>
          create_change c tk dt g
            \<lparr>dq_id = i, dq_connection = conn, dq_organization_id = org, dq_created_by = uid,
             dq_type = ty, dq_target_name = target, dq_new_content = content\<rparr> st)"

section \<open>The preview\<close>

definition preview_content :: "('s, 'p) client \<Rightarrow> change \<Rightarrow> ('s, json option) act" where
  "preview_content c ch =
     (case ch_type ch of
        UPDATE_RULES \<Rightarrow>
          seq (call (get_cube_rules c (ch_target_name ch))) (\<lambda>r. ret (Some (JObj [(''rules'', text_json r)])))
      | WRITE_CELLS \<Rightarrow>
          seq (lift (cell_writes (ch_new_content ch))) (\<lambda>writes.
          seq (read_values c (ch_target_name ch) (map fst writes)) (\<lambda>values.
            ret (Some (JObj [(''cells'', JArr (map2 (\<lambda>w v.
              JObj [(''coordinates'', JArr (map JStr (fst w))), (''value'', v)]) writes values))]))))
      | CREATE_VIEW \<Rightarrow>
          seq (lift (view_content (ch_new_content ch))) (\<lambda>(view, _).
          seq (call (view_exists c (ch_target_name ch) view)) (\<lambda>exists.
            if exists
            then seq (call (get_view c (ch_target_name ch) view)) (\<lambda>v. ret (Some (JObj [(''view'', v)])))
            else ret None))
      | _ \<Rightarrow>
          seq (call (get_process_body c (ch_target_name ch))) (\<lambda>b. ret (Some (JObj [(''process'', b)]))))"

definition get_change_preview :: "('s, 'p) client \<Rightarrow> change \<Rightarrow> ('s, json option) act" where
  "get_change_preview c ch =
     seq (call (connect c)) (\<lambda>_.
       try_except (preview_content c ch) (\<lambda>e. if e = TM1NotFound then ret None else raise e))"

end
