(* ===== verification/DraftProperties.thy ===== *)
theory DraftProperties
  imports ChangeDraft GovernanceProperties
begin

text \<open>
  What drafting promises: it only reads the server, a new draft takes the place of the
  author's open ones, proposing the same again gives the same draft, and a draft of rules
  passes the drift check exactly while the rules are the ones it was made against.
\<close>

section \<open>Drafting only reads\<close>

text \<open>The calls a draft may make keep \<open>good\<close>; the ones that write are not among them.\<close>

definition keeps :: "('s \<Rightarrow> bool) \<Rightarrow> ('s, 'a) call \<Rightarrow> bool" where
  "keeps good m \<longleftrightarrow> (\<forall>s. good s \<longrightarrow> good (fst (m s)))"

definition reads_keep :: "('s, 'p) draft_client \<Rightarrow> ('s \<Rightarrow> bool) \<Rightarrow> bool" where
  "reads_keep c good \<longleftrightarrow>
     keeps good (connect c) \<and> (\<forall>x. keeps good (get_cube_rules c x)) \<and> (\<forall>x. keeps good (process_exists c x)) \<and>
     (\<forall>x. keeps good (get_process_body c x)) \<and> (\<forall>x y. keeps good (read_cells c x y)) \<and>
     (\<forall>x y. keeps good (view_exists c x y)) \<and> (\<forall>x. keeps good (get_cube c x)) \<and>
     (\<forall>x. keeps good (compile_process_dryrun c x)) \<and> (\<forall>x. keeps good (get_process c x)) \<and>
     (\<forall>x. keeps good (execute_mdx_cellcount c x)) \<and> (\<forall>x. keeps good (execute_mdx_table c x))"

lemma keeps_give [simp]: "keeps good (give r)"
  by (simp add: keeps_def give_def)

lemma keeps_needs [simp]: "keeps good (needs b e)"
  by (simp add: needs_def)

lemma keeps_andThen: "keeps good m \<Longrightarrow> (\<And>a. keeps good (f a)) \<Longrightarrow> keeps good (andThen m f)"
  by (auto simp: keeps_def andThen_def split: prod.split sum.split)

text \<open>Steps of \<open>ChangeService\<close> that only read.\<close>

definition act_keeps :: "('s \<Rightarrow> bool) \<Rightarrow> ('s, 'a) act \<Rightarrow> bool" where
  "act_keeps good m \<longleftrightarrow> (\<forall>st. good (fst st) \<longrightarrow> good (fst (fst (m st))))"

lemma act_keeps_basic [simp]:
  "act_keeps good (ret a)" "act_keeps good (raise e)" "act_keeps good (lift r)"
  by (simp_all add: act_keeps_def ret_def raise_def lift_def)

lemma act_keeps_call: "keeps good m \<Longrightarrow> act_keeps good (call m)"
  by (auto simp: act_keeps_def call_def keeps_def split: prod.split)

lemma act_keeps_seq: "act_keeps good m \<Longrightarrow> (\<And>a. act_keeps good (f a)) \<Longrightarrow> act_keeps good (seq m f)"
  by (auto simp: act_keeps_def seq_def split: prod.split sum.split) (metis fst_conv)+

lemma keeps_server_part: "act_keeps good m \<Longrightarrow> keeps good (server_part m ch)"
  by (auto simp: act_keeps_def keeps_def server_part_def split: prod.split) (metis fst_conv)

lemma client_truncate [simp]:
  "get_cube_rules (client.truncate c) = get_cube_rules c"
  "get_process_body (client.truncate c) = get_process_body c"
  "read_cells (client.truncate c) = read_cells c"
  by (simp_all add: client.truncate_def)

lemma fingerprint_now_keeps: "reads_keep c good \<Longrightarrow> keeps good (fingerprint_now c tk q)"
  unfolding fingerprint_now_def server_fingerprint_def
  by (rule keeps_server_part, cases "dq_type q")
     (auto simp: reads_keep_def read_values_def intro!: act_keeps_seq act_keeps_call split: option.split)

lemma mdx_run_check_keeps: "reads_keep c good \<Longrightarrow> keeps good (mdx_run_check c mdx)"
  by (auto simp: reads_keep_def keeps_def mdx_run_check_def Let_def split: prod.split sum.split) (metis fst_conv)+

lemma draft_findings_keeps:
  assumes "reads_keep c good"
  shows "keeps good (draft_findings c tk dt ty target content)"
proof -
  note parts = assms [unfolded reads_keep_def] mdx_run_check_keeps [OF assms]
  show ?thesis
    unfolding draft_findings_def
    by (cases ty)
       (use parts in \<open>auto simp: draft_rules_def draft_process_def draft_run_def draft_cells_def draft_view_def
          draft_delete_def Let_def intro!: keeps_andThen split: option.split prod.split\<close>)
qed

lemma prepare_draft_keeps: "reads_keep c good \<Longrightarrow> keeps good (prepare_draft c tk dt g q)"
  unfolding prepare_draft_def
  by (auto intro!: keeps_andThen draft_findings_keeps fingerprint_now_keeps) (simp add: reads_keep_def)

theorem drafting_never_writes:
  assumes "reads_keep c good" "good s"
  shows "good (fst (fst (create_change c tk dt g q (s, rows))))"
proof -
  obtain s' r where p: "prepare_draft c tk dt g q s = (s', r)" by fastforce
  with prepare_draft_keeps [OF assms(1)] assms(2) have "good s'"
    unfolding keeps_def by (metis fst_conv)
  with p assms(2) show ?thesis by (auto simp: create_change_def split: option.split sum.split)
qed

section \<open>One open draft\<close>

text \<open>What the index guarantees.\<close>

definition open_once :: "('p, 'z) tools_scheme \<Rightarrow> change list \<Rightarrow> bool" where
  "open_once tk rows \<longleftrightarrow> distinct (map (open_key tk) (filter (\<lambda>x. ch_status x = DRAFT) rows))"

lemma drafts_for_iff:
  "x \<in> set (drafts_for tk q rows) \<longleftrightarrow> x \<in> set rows \<and> x \<in> set (drafts_for tk q [x])"
  by (auto simp: drafts_for_def open_drafts_def list_open_drafts_def)

lemma drafts_for_append: "drafts_for tk q (xs @ ys) = drafts_for tk q ys @ drafts_for tk q xs"
  by (simp add: drafts_for_def open_drafts_def list_open_drafts_def)

lemma drafts_for_map_none:
  "(\<And>x. x \<in> set rows \<Longrightarrow> x \<in> set (drafts_for tk q rows) \<Longrightarrow> ch_status (f x) \<noteq> DRAFT) \<Longrightarrow>
   (\<And>x. x \<in> set rows \<Longrightarrow> x \<notin> set (drafts_for tk q rows) \<Longrightarrow> f x = x \<or> ch_status (f x) \<noteq> DRAFT) \<Longrightarrow>
   drafts_for tk q (map f rows) = []"
  by (auto simp: drafts_for_def open_drafts_def list_open_drafts_def filter_empty_conv) metis+

text \<open>The row a superseded draft becomes.\<close>

definition superseded_by :: "change \<Rightarrow> change \<Rightarrow> change" where
  "superseded_by ch x = x\<lparr>ch_status := SUPERSEDED, ch_superseded_by := Some (ch_id ch)\<rparr>"

lemma supersede_rows:
  assumes "supersede tk drafts ch rows = Inr rows'" "ch_id ch \<notin> ch_id ` set rows" "set drafts \<subseteq> set rows"
  shows "rows' = map (\<lambda>x. if ch_id x \<in> ch_id ` set drafts then superseded_by ch x else x) rows @ [ch] \<and>
    (\<forall>x \<in> set rows. ch_id x \<notin> ch_id ` set drafts \<longrightarrow> ch_status x = DRAFT \<longrightarrow> open_key tk x \<noteq> open_key tk ch)"
proof -
  have new: "ch_id ch \<notin> ch_id ` set drafts" using assms(2,3) by blast
  from assms(1) have ins: "\<not> (\<exists>x \<in> set (set_superseded drafts rows). ch_status x = DRAFT \<and> open_key tk x = open_key tk ch)"
    and rows': "rows' = point_to (ch_id ch) drafts (set_superseded drafts rows @ [ch])"
    by (auto simp: supersede_def bind_result_Inr_iff insert_change_def split: if_splits)
  have "rows' = map (\<lambda>x. if ch_id x \<in> ch_id ` set drafts then superseded_by ch x else x) rows @ [ch]"
    using new by (simp add: rows' point_to_def set_superseded_def superseded_by_def)
  moreover have "open_key tk x \<noteq> open_key tk ch"
    if "x \<in> set rows" "ch_id x \<notin> ch_id ` set drafts" "ch_status x = DRAFT" for x
    using ins that by (auto simp: set_superseded_def)
  ultimately show ?thesis by blast
qed

lemma superseded_by_simps [simp]:
  "ch_id (superseded_by ch x) = ch_id x" "ch_status (superseded_by ch x) = SUPERSEDED"
  by (simp_all add: superseded_by_def)

lemma open_once_supersede:
  assumes "open_once tk rows" "supersede tk drafts ch rows = Inr rows'" "ch_id ch \<notin> ch_id ` set rows"
    "set drafts \<subseteq> set rows" "ch_status ch = DRAFT"
  shows "open_once tk rows'"
proof -
  note r = supersede_rows [OF assms(2-4)]
  let ?f = "\<lambda>x. if ch_id x \<in> ch_id ` set drafts then superseded_by ch x else x"
  have "filter (\<lambda>x. ch_status x = DRAFT) (map ?f rows) =
      filter (\<lambda>x. ch_status x = DRAFT \<and> ch_id x \<notin> ch_id ` set drafts) rows"
    by (induction rows) auto
  moreover have "distinct (map (open_key tk) (filter (\<lambda>x. ch_status x = DRAFT \<and> ch_id x \<notin> ch_id ` set drafts) rows))"
    using distinct_map_filter [of "open_key tk" "filter (\<lambda>x. ch_status x = DRAFT) rows"
        "\<lambda>x. ch_id x \<notin> ch_id ` set drafts"] assms(1)
    by (simp add: open_once_def conj_commute)
  ultimately show ?thesis using r assms(5) by (auto simp: open_once_def)
qed

lemma prepare_draft_row:
  assumes "prepare_draft c tk dt g q s = (s', Inr ch)"
  shows "\<exists>errors impact checks base. ch = draft_row q errors impact checks base"
  using assms by (auto simp: prepare_draft_def andThen_def give_def split: prod.splits sum.splits)

lemma draft_row_simps [simp]:
  "ch_id (draft_row q er im cs b) = dq_id q" "ch_status (draft_row q er im cs b) = DRAFT"
  "ch_type (draft_row q er im cs b) = dq_type q" "ch_target_name (draft_row q er im cs b) = dq_target_name q"
  "ch_new_content (draft_row q er im cs b) = dq_new_content q"
  by (simp_all add: draft_row_def)

lemma drafts_for_draft_row [simp]:
  "drafts_for tk q [draft_row q er im cs b] = [draft_row q er im cs b]"
  by (simp add: drafts_for_def open_drafts_def list_open_drafts_def draft_row_def)

text \<open>The two ways a proposal succeeds.\<close>

lemma create_change_cases:
  assumes "create_change c tk dt g q (s, rows) = ((s', rows'), Inr ch)"
  obtains (found) "s' = s" "rows' = rows" "find (same_draft tk q) (drafts_for tk q rows) = Some ch"
  | (new) er im cs b where "ch = draft_row q er im cs b" "supersede tk (drafts_for tk q rows) ch rows = Inr rows'"
    "find (same_draft tk q) (drafts_for tk q rows) = None"
proof (cases "find (same_draft tk q) (drafts_for tk q rows)")
  case None
  obtain s1 r where p: "prepare_draft c tk dt g q s = (s1, r)" by fastforce
  with None assms obtain x where "r = Inr x" "supersede tk (drafts_for tk q rows) x rows = Inr rows'" "x = ch"
    by (auto simp: create_change_def split: sum.splits)
  with p prepare_draft_row None new show ?thesis by metis
next
  case (Some x)
  with assms found show ?thesis by (simp add: create_change_def)
qed

lemma drafting_supersedes_core:
  assumes "create_change c tk dt g q (s, rows) = ((s', rows'), Inr ch)"
    and "distinct (map ch_id rows)" "dq_id q \<notin> ch_id ` set rows"
  shows "ch \<in> set (drafts_for tk q rows') \<and> same_draft tk q ch \<and>
    (open_once tk rows \<longrightarrow> open_once tk rows') \<and> distinct (map ch_id rows') \<and>
    (if ch \<in> set rows then s' = s \<and> rows' = rows
     else drafts_for tk q rows' = [ch] \<and>
       rows' = map (\<lambda>x. if x \<in> set (drafts_for tk q rows) then superseded_by ch x else x) rows @ [ch])"
  using assms(1)
proof (cases rule: create_change_cases)
  case found
  then have "ch \<in> set (drafts_for tk q rows)" "same_draft tk q ch" by (auto simp: find_Some_iff)
  moreover from this have "ch \<in> set rows" using drafts_for_iff by blast
  ultimately show ?thesis using found assms(2) by simp
next
  case (new er im cs b)
  let ?ds = "drafts_for tk q rows"
  have sub: "set ?ds \<subseteq> set rows" using drafts_for_iff by blast
  have fresh: "ch_id ch \<notin> ch_id ` set rows" using new(1) assms(3) by simp
  note r = supersede_rows [OF new(2) fresh sub]
  have same: "ch_id x \<in> ch_id ` set ?ds \<longleftrightarrow> x \<in> set ?ds" if "x \<in> set rows" for x
    using assms(2) that sub by (auto simp: distinct_map inj_on_def)
  let ?f = "\<lambda>x. if x \<in> set ?ds then superseded_by ch x else x"
  have rows': "rows' = map ?f rows @ [ch]" using r same by simp
  have "drafts_for tk q (map ?f rows) = []"
    by (rule drafts_for_map_none) auto
  then have "drafts_for tk q rows' = [ch]" using new(1) by (simp add: rows' drafts_for_append)
  moreover have "distinct (map ch_id rows')"
  proof -
    have "map ch_id rows' = map ch_id rows @ [ch_id ch]" by (auto simp: rows')
    with assms(2) fresh show ?thesis by simp
  qed
  moreover have "ch \<notin> set rows" using fresh by blast
  ultimately show ?thesis
    using new(1) assms(2) fresh rows' open_once_supersede [OF _ new(2) fresh sub] by (simp add: same_draft_def)
qed

text \<open>
  C16. Proposing a change anew closes the author's open drafts of the same kind and target
  as superseded by the new row, which is the only open one of them, and leaves every other
  row alone.
\<close>

theorem drafting_supersedes:
  assumes "create_change c tk dt g q (s, rows) = ((s', rows'), Inr ch)"
    and "distinct (map ch_id rows)" "dq_id q \<notin> ch_id ` set rows"
  shows "ch \<in> set (drafts_for tk q rows') \<and> same_draft tk q ch \<and>
    (open_once tk rows \<longrightarrow> open_once tk rows') \<and> distinct (map ch_id rows') \<and>
    (if ch \<in> set rows then s' = s \<and> rows' = rows
     else drafts_for tk q rows' = [ch] \<and>
       rows' = map (\<lambda>x. if x \<in> set (drafts_for tk q rows) then superseded_by ch x else x) rows @ [ch])"
  by (rule drafting_supersedes_core [OF assms])

theorem proposing_again_is_free:
  assumes "create_change c tk dt g q (s, rows) = ((s', rows'), Inr ch)"
    and "distinct (map ch_id rows)" "dq_id q \<notin> ch_id ` set rows"
  shows "create_change c' tk dt' g' (q\<lparr>dq_id := i\<rparr>) (t, rows') = ((t, rows'), Inr ch)"
proof -
  have "find (same_draft tk q) (drafts_for tk q rows') = Some ch"
    using assms(1)
  proof (cases rule: create_change_cases)
    case found
    then show ?thesis by simp
  next
    case (new er im cs b)
    then have "ch \<notin> set rows" using assms(3) by force
    from drafting_supersedes_core [OF assms] this have "drafts_for tk q rows' = [ch]" "same_draft tk q ch" by auto
    then show ?thesis by simp
  qed
  moreover have "same_draft tk (q\<lparr>dq_id := i\<rparr>) = same_draft tk q"
    by (rule ext) (simp add: same_draft_def)
  moreover have "drafts_for tk (q\<lparr>dq_id := i\<rparr>) rows' = drafts_for tk q rows'"
    by (simp add: drafts_for_def)
  ultimately show ?thesis by (simp add: create_change_def)
qed

theorem draft_of_another_kind_blocks:
  assumes "x \<in> set rows" "ch_status x = DRAFT" "ch_type x \<noteq> dq_type q"
    "ch_connection_id x = cn_id (dq_connection q)" "ch_created_by x = dq_created_by q"
    "ch_target_name x = dq_target_name q" "view_key tk (ch_new_content x) = view_key tk (dq_new_content q)"
    "drafts_for tk q rows = []" "prepare_draft c tk dt g q s = (s', Inr ch)"
  shows "create_change c tk dt g q (s, rows) = ((s', rows), Inl IntegrityError)"
proof -
  from prepare_draft_row [OF assms(9)] obtain er im cs b where "ch = draft_row q er im cs b" by blast
  then have "open_key tk x = open_key tk ch" using assms(4-7) by (simp add: open_key_def draft_row_def)
  then have "supersede tk [] ch rows = Inl IntegrityError"
    using assms(1,2) by (auto simp: supersede_def insert_change_def set_superseded_def)
  with assms(8,9) show ?thesis by (simp add: create_change_def)
qed

section \<open>Drift since the draft\<close>

theorem rules_draft_is_stale_exactly_when_edited:
  assumes "prepare_draft c tk dt g q s = (s', Inr ch)" "dq_type q = UPDATE_RULES"
    and "get_cube_rules c (dq_target_name q) = (\<lambda>s. (s, Inr (rules s)))"
    and "\<forall>u v. hash tk (JStr u) = hash tk (JStr v) \<longrightarrow> u = v" "\<forall>u. hash tk (JStr u) \<noteq> []"
  shows "check_drift (client.truncate c) tk ch (t, ch) =
    ((t, ch), if rules_text (rules t) = rules_text (rules s') then Inr () else Inl (Conflict CONFLICT))"
proof -
  have fp: "fingerprint_now c tk q u = (u, Inr (Some (hash tk (JStr (rules_text (rules u))))))" for u
    using assms(2,3) by (simp add: fingerprint_now_def server_part_def server_fingerprint_def seq_def call_def ret_def)
  from assms(1,2) have "\<exists>s1. fingerprint_now c tk q s1 = (s', Inr (ch_base_fingerprint ch))"
    and ch: "ch_type ch = UPDATE_RULES" "ch_target_name ch = dq_target_name q"
    by (auto simp: prepare_draft_def andThen_def draft_findings_def draft_rules_def needs_def give_def draft_row_def
        split: prod.splits sum.splits)
  then have "ch_base_fingerprint ch = Some (hash tk (JStr (rules_text (rules s'))))" by (simp add: fp)
  then show ?thesis
    using assms(3-5) ch
    by (auto simp: check_drift_def server_fingerprint_def seq_def call_def ret_def require_def raise_def)
qed

section \<open>The cube of a view\<close>

lemma at_from_inside:
  assumes "at_from (c # pre @ CHR '' '' # z)"
  shows "3 \<le> length pre"
proof (rule ccontr)
  assume "\<not> 3 \<le> length pre"
  then have "CHR '' '' \<in> set (take 4 (c # pre @ CHR '' '' # z))"
    by (cases pre rule: list.exhaust; cases "tl pre"; cases "tl (tl pre)") auto
  then have "lower_char (CHR '' '') \<in> set ''from''"
    using assms unfolding at_from_def lower_def by (metis image_eqI set_map)
  then show False by (simp add: lower_char_def chr_code_def)
qed

lemma at_from_FROM: "at_from (''FROM ['' @ x)"
proof -
  have "lower ''FROM'' = ''from''" and "\<not> is_word (CHR '' '')" by code_simp+
  then show ?thesis by (simp add: at_from_def)
qed

lemma mdx_scan_plain:
  assumes "CHR ''['' \<notin> set pre" "n \<noteq> []" "\<And>t. z \<noteq> closing # t"
  shows "n \<in> set (mdx_scan w (pre @ '' FROM ['' @ double closing n @ closing # z))"
  using assms(1)
proof (induction pre arbitrary: w rule: length_induct)
  case (1 pre)
  let ?tail = "'' FROM ['' @ double closing n @ closing # z"
  show ?case
  proof (cases pre)
    case Nil
    have "double closing n \<noteq> []" using assms(2) by (cases n) auto
    then have "from_target ('' ['' @ double closing n @ closing # z) = Some n"
      using delimited_double [OF assms(3), of n] by (simp add: from_target_def is_space_def chr_code_def)
    moreover have "\<not> is_word (CHR '' '')" "\<not> at_from (CHR '' '' # ''FROM ['' @ double closing n @ closing # z)" for w
      by code_simp (simp add: at_from_def lower_def lower_char_def chr_code_def)
    ultimately show ?thesis
      using at_from_FROM [of "double closing n @ closing # z"] by (simp add: Nil)
  next
    case (Cons c p)
    then have c: "c \<noteq> CHR ''[''" and p: "CHR ''['' \<notin> set p" using "1.prems" by auto
    show ?thesis
    proof (cases "\<not> w \<and> at_from (c # p @ ?tail)")
      case False
      have "n \<in> set (mdx_scan (is_word c) (p @ ?tail))" using "1.IH" p Cons by simp
      with c False show ?thesis by (auto simp: Cons)
    next
      case True
      then have "3 \<le> length p" using at_from_inside [of c p "''FROM ['' @ double closing n @ closing # z"] by simp
      then have "drop 3 (p @ ?tail) = drop 3 p @ ?tail" by simp
      moreover have "CHR ''['' \<notin> set (drop 3 p)" using p in_set_dropD by metis
      ultimately have "n \<in> set (mdx_scan True (drop 3 (p @ ?tail)))"
        using "1.IH" Cons by simp
      with c True show ?thesis by (auto simp: Cons split: option.split)
    qed
  qed
qed

theorem view_reads_its_own_cube:
  assumes "CHR ''['' \<notin> set pre" "n \<noteq> []" "\<And>t. z \<noteq> closing # t"
  shows "n \<in> set (mdx_cubes (pre @ '' FROM ['' @ double closing n @ closing # z)) \<and>
    (tm1_name n \<noteq> tm1_name cube \<longrightarrow>
      mdx_cube_problem (pre @ '' FROM ['' @ double closing n @ closing # z) cube \<noteq> None)"
  using mdx_scan_plain [OF assms, of False] by (auto simp: mdx_cubes_def mdx_cube_problem_def)

section \<open>Drafts on a small server\<close>

definition draft_demo_tools :: "unit process tools" where
  "draft_demo_tools = demo_tools\<lparr>hash := (\<lambda>v. case v of JStr s \<Rightarrow> CHR ''#'' # s
     | JObj kvs \<Rightarrow> (case map_of kvs ''new_content'' of Some c \<Rightarrow> text_of (json_get c ''rules'') | None \<Rightarrow> []) | _ \<Rightarrow> [])\<rparr>"

definition draft_demo_client :: "(string \<Rightarrow> string option, unit process) draft_client" where
  "draft_demo_client = client.extend demo_client (draft_client.fields (\<lambda>_ s. (s, Inr ())) (\<lambda>_ s. (s, Inr []))
     (\<lambda>_ s. (s, Inl TM1NotFound)) (\<lambda>_ s. (s, Inr 0)) (\<lambda>_ s. (s, Inr ())))"

definition draft_demo_checks :: "unit process draft_tools" where
  "draft_demo_checks = \<lparr>accepts_float = (\<lambda>_. False), ti_analyze = (\<lambda>_ _. []), review_concerns = (\<lambda>_ _ _. 0),
     known_function = (\<lambda>_. True),
     graph_note = None\<rparr>"

definition draft_demo_request :: "string \<Rightarrow> draft_request" where
  "draft_demo_request rules = \<lparr>dq_id = ''d2'', dq_connection = demo_connection ''dev'', dq_organization_id = ''o1'',
     dq_created_by = ''ann'', dq_type = UPDATE_RULES, dq_target_name = ''Sales'',
     dq_new_content = Some (JObj [(''rules'', JStr rules)])\<rparr>"

abbreviation no_graph :: graph where "no_graph \<equiv> \<lparr>g_objects = [], g_relationships = []\<rparr>"

lemmas draft_demo =
  draft_demo_tools_def draft_demo_client_def draft_demo_checks_def draft_demo_request_def demo_client_def
  demo_tools_def demo_connection_def demo_change_def demo_server_def client.extend_def draft_client.fields_def

lemmas draft_eval =
  prepare_draft_def andThen_def give_def needs_def draft_findings_def draft_rules_def content_get_def
  resolve_impact_def draft_impact_def analyze_impact_def change_kind_of_def find_dependents_def resolve_object_def object_by_name_def
  fingerprint_now_def server_part_def server_fingerprint_def seq_def call_def ret_def client.truncate_def Let_def

lemma draft_demo_reads: "reads_keep draft_demo_client (\<lambda>s. s = demo_server)"
  by (simp add: reads_keep_def keeps_def draft_demo_client_def demo_client_def client.extend_def draft_client.fields_def)

definition draft_demo_row :: change where
  "draft_demo_row = draft_row (draft_demo_request ''new'') [] [note_json ''not in the dependency map'']
     [check_entry ''Rule syntax'' ''info'', check_entry ''Impact'' ''pass'', check_entry ''Snapshot and rollback'' ''info'']
     (Some ''#old'')"

lemma draft_demo_prepared:
  "prepare_draft draft_demo_client draft_demo_tools draft_demo_checks no_graph (draft_demo_request ''new'') demo_server =
     (demo_server, Inr draft_demo_row)"
proof -
  have old: "rules_text (Some ''old'') = ''old''" by code_simp
  show ?thesis
    by (simp add: draft_eval draft_demo draft_demo_row_def draft_row_def old closing_checks_def impact_check_def
        needs_acknowledgement_def note_json_def)
qed

abbreviation create_demo ::
  "string \<Rightarrow> change list \<Rightarrow> ((string \<Rightarrow> string option) \<times> change list) \<times> change result" where
  "create_demo rules rows \<equiv> create_change draft_demo_client draft_demo_tools draft_demo_checks no_graph
     (draft_demo_request rules) (demo_server, rows)"

lemma draft_demo_older:
  "drafts_for draft_demo_tools (draft_demo_request ''new'') [demo_change ''older'' None] = [demo_change ''older'' None]"
  "\<not> same_draft draft_demo_tools (draft_demo_request ''new'') (demo_change ''older'' None)"
  by (simp_all add: drafts_for_def open_drafts_def list_open_drafts_def draft_demo same_draft_def fingerprint_def
      text_of_def)

lemma draft_demo_created:
  "\<exists>rows. create_demo ''new'' [demo_change ''older'' None] = ((demo_server, rows), Inr draft_demo_row)"
proof -
  have "\<exists>rows. supersede draft_demo_tools [demo_change ''older'' None] draft_demo_row [demo_change ''older'' None] = Inr rows"
    by (simp add: supersede_def insert_change_def set_superseded_def demo_change_def)
  then show ?thesis by (auto simp: create_change_def draft_demo_older draft_demo_prepared)
qed

theorem drafting_never_writes_witness:
  "fst (fst (create_demo ''new'' [])) = demo_server"
  by (rule drafting_never_writes [where good = "\<lambda>s. s = demo_server", OF draft_demo_reads refl])

theorem drafting_supersedes_witness:
  "\<exists>rows. create_demo ''new'' [demo_change ''older'' None] = ((demo_server, rows), Inr draft_demo_row) \<and>
     rows = [superseded_by draft_demo_row (demo_change ''older'' None), draft_demo_row]"
proof -
  obtain rows where run: "create_demo ''new'' [demo_change ''older'' None] = ((demo_server, rows), Inr draft_demo_row)"
    using draft_demo_created by blast
  have "draft_demo_row \<noteq> demo_change ''older'' None" by (simp add: draft_demo_row_def draft_row_def draft_demo)
  with drafting_supersedes [OF run] draft_demo_older have "rows = [superseded_by draft_demo_row (demo_change ''older'' None), draft_demo_row]"
    by (simp add: demo_change_def draft_demo_request_def)
  with run show ?thesis by blast
qed

theorem proposing_again_is_free_witness:
  "\<exists>rows. create_demo ''new'' rows = ((demo_server, rows), Inr draft_demo_row)"
proof -
  obtain rows where run: "create_demo ''new'' [demo_change ''older'' None] = ((demo_server, rows), Inr draft_demo_row)"
    using draft_demo_created by blast
  from proposing_again_is_free [OF run, of draft_demo_client draft_demo_checks no_graph "''d2''" demo_server]
  have "create_demo ''new'' rows = ((demo_server, rows), Inr draft_demo_row)"
    by (simp add: demo_change_def draft_demo_request_def)
  then show ?thesis by blast
qed

theorem draft_of_another_kind_blocks_witness:
  "create_demo ''new'' [(demo_change ''older'' None)\<lparr>ch_type := WRITE_CELLS\<rparr>] =
     ((demo_server, [(demo_change ''older'' None)\<lparr>ch_type := WRITE_CELLS\<rparr>]), Inl IntegrityError)"
  by (rule draft_of_another_kind_blocks [where x = "(demo_change ''older'' None)\<lparr>ch_type := WRITE_CELLS\<rparr>",
        OF _ _ _ _ _ _ _ _ draft_demo_prepared])
     (simp_all add: draft_demo view_key_def content_get_def drafts_for_def open_drafts_def list_open_drafts_def)

theorem rules_draft_is_stale_exactly_when_edited_witness:
  "check_drift (client.truncate draft_demo_client) draft_demo_tools draft_demo_row (demo_server, draft_demo_row) =
     ((demo_server, draft_demo_row), Inr ()) \<and>
   check_drift (client.truncate draft_demo_client) draft_demo_tools draft_demo_row
     (demo_server(''Sales'' := Some ''other''), draft_demo_row) =
     ((demo_server(''Sales'' := Some ''other''), draft_demo_row), Inl (Conflict CONFLICT))"
proof -
  have ne: "rules_text (Some ''other'') \<noteq> rules_text (Some ''old'')" by code_simp
  note stale = rules_draft_is_stale_exactly_when_edited [OF draft_demo_prepared, where rules = "\<lambda>s. s ''Sales''"]
  have drift: "check_drift (client.truncate draft_demo_client) draft_demo_tools draft_demo_row (t, draft_demo_row) =
    ((t, draft_demo_row), if rules_text (t ''Sales'') = rules_text (demo_server ''Sales'') then Inr () else Inl (Conflict CONFLICT))"
    for t
    by (rule stale) (simp_all add: draft_demo)
  show ?thesis using drift [of demo_server] drift [of "demo_server(''Sales'' := Some ''other'')"] ne
    by (simp add: demo_server_def)
qed

theorem view_reads_its_own_cube_witness:
  "''Sal]es'' \<in> set (mdx_cubes (''SELECT a ON 0'' @ '' FROM ['' @ double closing ''Sal]es'' @ '']''))"
  using view_reads_its_own_cube [of "''SELECT a ON 0''" "''Sal]es''" "[]" "[]"] by simp

end
