(* ===== verification/TiProperties.thy ===== *)
theory TiProperties
  imports TiParser
begin

text \<open>
  The parser of TurboIntegrator code: masking blanks exactly the literals and comments of
  the text (\<open>places\<close>, read without the parser) and keeps every offset, the scan finds
  exactly the calls written in the rest (\<open>call_at\<close>), and an argument list of literals is
  read back as it was written.
\<close>

section \<open>Masking keeps every offset\<close>

lemma length_blank [simp]: "length (blank s) = length s"
  by (simp add: blank_def)

section \<open>Where a character stands\<close>

text \<open>
  The text of a section read once from left to right, with nothing of the parser in it: an
  apostrophe that is closed later opens a literal, the next one closes it (so a doubled one
  closes and opens again), and a number sign outside a literal starts a comment that ends
  before the line does.
\<close>

datatype place = InCode | InLiteral | InComment

fun places :: "place \<Rightarrow> string \<Rightarrow> place list" where
  "places p [] = []"
| "places InCode (c # s) =
     (if c = quote \<and> quote \<in> set s then InLiteral # places InLiteral s
      else if c = CHR ''#'' then InComment # places InComment s
      else InCode # places InCode s)"
| "places InLiteral (c # s) = InLiteral # places (if c = quote then InCode else InLiteral) s"
| "places InComment (c # s) =
     (if c = newline then InCode # places InCode s else InComment # places InComment s)"

lemma length_places [simp]: "length (places p s) = length s"
  by (induction p s rule: places.induct) auto

lemma delimited_None: "delimited q s = None \<longleftrightarrow> q \<notin> set s"
  by (induction q s rule: delimited.induct) (auto split: list.split option.split)

lemma places_literal:
  "delimited quote s = Some (n, r) \<Longrightarrow> places InLiteral s = replicate (Suc (length n)) InLiteral @ places InCode r"
proof (induction s arbitrary: n rule: length_induct)
  case (1 s)
  show ?case
  proof (cases s)
    case Nil
    with 1 show ?thesis by simp
  next
    case (Cons c t)
    show ?thesis
    proof (cases "c = quote")
      case False
      with 1(2) Cons obtain m where "delimited quote t = Some (m, r)" "n = c # m" by auto
      with 1(1) Cons False show ?thesis by simp
    next
      case True
      show ?thesis
      proof (cases t)
        case Nil
        with 1(2) Cons True show ?thesis by auto
      next
        case t: (Cons d u)
        show ?thesis
        proof (cases "d = quote \<and> quote \<in> set u")
          case False
          with 1(2) Cons True t delimited_None [of quote u] show ?thesis by (auto split: option.splits)
        next
          case doubled: True
          with delimited_None [of quote u] obtain m y where u: "delimited quote u = Some (m, y)" by auto
          with 1(2) Cons True t doubled have n: "n = quote # quote # m" "y = r" by auto
          have "places InLiteral u = replicate (Suc (length m)) InLiteral @ places InCode r"
            using 1(1) u n(2) Cons t by auto
          with Cons True t doubled n show ?thesis by simp
        qed
      qed
    qed
  qed
qed

lemma places_comment:
  "places InComment s =
     replicate (length (takeWhile (\<lambda>x. x \<noteq> newline) s)) InComment @ places InCode (dropWhile (\<lambda>x. x \<noteq> newline) s)"
  by (induction s) auto

text \<open>The mask keeps the code, and the ends of the lines, and blanks everything else.\<close>

definition masked_char :: "char \<Rightarrow> place \<Rightarrow> char" where
  "masked_char c p = (if p = InCode \<or> c = newline then c else CHR '' '')"

lemma masked_blank:
  "map2 masked_char s (replicate (length s) InLiteral) = blank s" "map2 masked_char s (replicate (length s) InComment) = blank s"
  by (induction s) (auto simp: masked_char_def blank_def)

lemma mask_places: "mask s = map2 masked_char s (places InCode s)"
proof (induction s rule: mask.induct)
  case (2 c s)
  show ?case
  proof (cases "c = quote")
    case True
    show ?thesis
    proof (cases "delimited quote s")
      case None
      with 2(1) True delimited_None [of quote s] show ?thesis by (simp add: masked_char_def)
    next
      case (Some p)
      obtain n r where p: "p = (n, r)" by (rule prod.exhaust)
      with Some have s: "s = n @ quote # r" and lit: "delimited quote s = Some (n, r)" by (auto dest: delimited_text)
      have "places InCode (c # s) = replicate (length (c # n @ [quote])) InLiteral @ places InCode r"
        using places_literal [OF lit] True s by simp
      moreover have "c # s = (c # n @ [quote]) @ r" using s by simp
      ultimately have "map2 masked_char (c # s) (places InCode (c # s)) =
          map2 masked_char (c # n @ [quote]) (replicate (length (c # n @ [quote])) InLiteral) @ map2 masked_char r (places InCode r)"
        by (simp only: zip_append length_replicate map_append)
      also have "\<dots> = blank (c # n @ [quote]) @ mask r"
        by (simp only: masked_blank 2(2) [OF True Some p [symmetric]])
      finally show ?thesis using True lit by simp
    qed
  next
    case quote: False
    show ?thesis
    proof (cases "c = CHR ''#''")
      case True
      let ?t = "takeWhile (\<lambda>x. x \<noteq> newline) s" and ?d = "dropWhile (\<lambda>x. x \<noteq> newline) s"
      have "places InCode (c # s) = replicate (length (c # ?t)) InComment @ places InCode ?d"
        using True places_comment [of s] by simp
      moreover have "c # s = (c # ?t) @ ?d" by simp
      ultimately have "map2 masked_char (c # s) (places InCode (c # s)) =
          map2 masked_char (c # ?t) (replicate (length (c # ?t)) InComment) @ map2 masked_char ?d (places InCode ?d)"
        by (metis length_replicate map_append zip_append)
      also have "\<dots> = blank (c # ?t) @ mask ?d"
        by (simp only: masked_blank 2(3) [OF quote True])
      finally show ?thesis using True by simp
    qed (use 2(4) quote in \<open>simp add: masked_char_def\<close>)
  qed
qed simp

lemma nth_mask: "j < length s \<Longrightarrow> mask s ! j = masked_char (s ! j) (places InCode s ! j)"
  by (simp add: mask_places)

lemma length_mask: "length (mask s) = length s"
  by (simp add: mask_places)

text \<open>Code resumes only after the apostrophe of a literal or at the end of a comment's line.\<close>

lemma places_resume:
  assumes "Suc j < length s" "places p s ! Suc j = InCode"
  shows "places p s ! j = InCode \<or> s ! j = quote \<or> s ! Suc j = newline"
  using assms
proof (induction p s arbitrary: j rule: places.induct)
  case (2 c s)
  then show ?case by (cases j; cases s) (auto split: if_splits)
next
  case (3 c s)
  then show ?case by (cases j; cases s) (auto split: if_splits)
next
  case (4 c s)
  then show ?case by (cases j; cases s) (auto split: if_splits)
qed simp

section \<open>Call sites\<close>

text \<open>
  A site of the scan: a name that starts a word at \<open>i\<close> and is followed, after blanks, by the
  stop character at \<open>after - 1\<close>.
\<close>

definition site_at :: "char \<Rightarrow> string \<Rightarrow> nat \<Rightarrow> string \<Rightarrow> nat \<Rightarrow> bool" where
  "site_at stop s i nm after \<longleftrightarrow>
     nm \<noteq> [] \<and> is_alpha (hd nm) \<and> list_all is_word nm \<and> take (length nm) (drop i s) = nm \<and>
     (i = 0 \<or> \<not> is_word (s ! (i - 1))) \<and> i + length nm < after \<and> after \<le> length s \<and> s ! (after - 1) = stop \<and>
     (\<forall>j. i + length nm \<le> j \<and> j < after - 1 \<longrightarrow> is_space (s ! j))"

lemma takeWhile_word: "is_alpha c \<Longrightarrow> takeWhile is_word (c # s) = c # takeWhile is_word s"
  by (simp add: is_word_def)

lemma word_scan:
  assumes "dropWhile is_space (dropWhile is_word s) = d # z"
  shows "s = takeWhile is_word s @ takeWhile is_space (dropWhile is_word s) @ d # z"
  using assms by (metis takeWhile_dropWhile_id)

lemma site_here:
  assumes s: "s = nm @ gap @ stop # z" and "nm \<noteq> []" "is_alpha (hd nm)" "list_all is_word nm" "list_all is_space gap"
    and "pre = [] \<or> \<not> is_word (last pre)"
  shows "site_at stop (pre @ s) (length pre) nm (length pre + length nm + length gap + 1)"
  unfolding site_at_def
proof (intro conjI allI impI)
  show "length pre = 0 \<or> \<not> is_word ((pre @ s) ! (length pre - 1))"
    using assms(6) by (auto simp: nth_append last_conv_nth)
  show "(pre @ s) ! (length pre + length nm + length gap + 1 - 1) = stop"
    by (simp add: s nth_append)
next
  fix j assume j: "length pre + length nm \<le> j \<and> j < length pre + length nm + length gap + 1 - 1"
  then obtain k where k: "j = length pre + (length nm + k)" "k < length gap"
    by (metis add.assoc add_diff_cancel_right' le_Suc_ex nat_add_left_cancel_less)
  have "(pre @ s) ! j = gap ! k" unfolding k(1) s nth_append_length_plus using k(2) by (simp add: nth_append)
  with k(2) assms(5) show "is_space ((pre @ s) ! j)" by (simp add: list_all_length)
qed (use assms in \<open>auto simp: nth_append\<close>)

lemma sites_sound:
  assumes "(f, p) \<in> set (sites stop pos word s)" "pos = length pre" "word = (pre \<noteq> [] \<and> is_word (last pre))"
    and "\<not> is_word stop"
  shows "\<exists>i nm. f = upper nm \<and> site_at stop (pre @ s) i nm p"
  using assms
proof (induction stop pos word s arbitrary: pre rule: sites.induct)
  case (2 stop pos word c s)
  let ?nm = "takeWhile is_word (c # s)" and ?rest = "dropWhile is_word (c # s)"
  let ?gap = "takeWhile is_space ?rest" and ?d = "dropWhile is_space ?rest"
  have len: "pos + 1 = length (pre @ [c])" using "2.prems"(2) by simp
  have last: "w = (pre @ [c] \<noteq> [] \<and> is_word (last (pre @ [c])))" if "w = is_word c" for w using that by simp
  have app: "pre @ c # s = (pre @ [c]) @ s" by simp
  show ?case
  proof (cases "\<not> word \<and> is_alpha c")
    case False
    with "2.prems"(1) have "(f, p) \<in> set (sites stop (pos + 1) (is_word c) s)" by simp
    then show ?thesis unfolding app by (rule "2.IH"(4) [OF False _ len last [OF refl] "2.prems"(4)])
  next
    case True
    then have alpha: "is_alpha c" "is_word c" by (simp_all add: is_word_def)
    note mem = "2.prems"(1) [unfolded sites.simps Let_def if_P [OF True]]
    show ?thesis
    proof (cases ?d)
      case Nil
      from mem have "(f, p) \<in> set (sites stop (pos + 1) True s)" unfolding Nil list.case .
      then show ?thesis unfolding app
        by (rule "2.IH"(1) [OF True refl refl refl refl Nil _ len last "2.prems"(4)]) (simp add: alpha)
    next
      case (Cons d z)
      note d = word_scan [OF Cons]
      show ?thesis
      proof (cases "d = stop")
        case False
        from mem have "(f, p) \<in> set (sites stop (pos + 1) True s)" unfolding Cons list.case if_not_P [OF False] .
        then show ?thesis unfolding app
          by (rule "2.IH"(3) [OF True refl refl refl refl Cons False _ len last "2.prems"(4)]) (simp add: alpha)
      next
        case stop: True
        let ?after = "pos + length ?nm + length ?gap + 1"
        from mem have "(f, p) = (upper ?nm, ?after) \<or> (f, p) \<in> set (sites stop ?after False z)"
          unfolding Cons list.case if_P [OF stop] by (simp only: set_simps insert_iff)
        then show ?thesis
        proof
          assume fp: "(f, p) = (upper ?nm, ?after)"
          have "site_at stop (pre @ c # s) (length pre) ?nm (length pre + length ?nm + length ?gap + 1)"
            using d stop alpha "2.prems"(3) True
            by (intro site_here [where z = z]) (auto simp: list_all_iff dest: set_takeWhileD)
          with fp "2.prems"(2) show ?thesis by blast
        next
          assume tail: "(f, p) \<in> set (sites stop ?after False z)"
          have eq: "pre @ c # s = (pre @ ?nm @ ?gap @ [stop]) @ z" using d stop by simp
          have "?after = length (pre @ ?nm @ ?gap @ [stop])" using "2.prems"(2) by simp
          moreover have "False = (pre @ ?nm @ ?gap @ [stop] \<noteq> [] \<and> is_word (last (pre @ ?nm @ ?gap @ [stop])))"
            using "2.prems"(4) by simp
          ultimately show ?thesis unfolding eq
            by (rule "2.IH"(2) [OF True refl refl refl refl Cons stop tail _ _ "2.prems"(4)])
        qed
      qed
    qed
  qed
qed simp

lemma space_not_word: "is_space c \<Longrightarrow> \<not> is_word c"
  by (auto simp: is_space_def is_word_def is_digit_def is_alpha_def lower_char_def chr_code_def)

text \<open>The other way: the scan passes over no site.\<close>

lemma site_text:
  assumes "site_at stop (pre @ s) (length pre) nm after" "\<not> is_word stop" "\<not> is_space stop"
  obtains gap z where "s = nm @ gap @ stop # z" "list_all is_space gap"
    "after = length pre + length nm + length gap + 1"
    "takeWhile is_word s = nm" "takeWhile is_space (dropWhile is_word s) = gap"
    "dropWhile is_space (dropWhile is_word s) = stop # z"
proof -
  let ?rest = "drop (length nm) s"
  let ?k = "after - 1 - (length pre + length nm)"
  let ?gap = "take ?k ?rest" and ?z = "drop (Suc ?k) ?rest"
  have at: "nm \<noteq> []" "list_all is_word nm" "take (length nm) s = nm" "length pre + length nm < after"
    "after \<le> length (pre @ s)" "(pre @ s) ! (after - 1) = stop"
    "\<And>j. length pre + length nm \<le> j \<Longrightarrow> j < after - 1 \<Longrightarrow> is_space ((pre @ s) ! j)"
    using assms(1) by (auto simp: site_at_def)
  have k: "?k < length ?rest" using at(4,5) by auto
  have "?rest ! ?k = (pre @ s) ! (after - 1)" using at(4,5) by (auto simp: nth_append)
  then have stop: "drop ?k ?rest = stop # ?z" using k at(6) by (simp add: Cons_nth_drop_Suc [symmetric])
  have s: "s = nm @ ?gap @ stop # ?z"
    using at(3) append_take_drop_id [of "length nm" s] append_take_drop_id [of ?k ?rest] stop by metis
  have "is_space (?gap ! j)" if "j < length ?gap" for j
  proof -
    have j: "j < ?k" "j < length ?rest" using that by auto
    then have "?gap ! j = (pre @ s) ! (length pre + length nm + j)" using k by (simp add: nth_append add.assoc)
    with at(7) [of "length pre + length nm + j"] j(1) show ?thesis by simp
  qed
  then have gap: "list_all is_space ?gap" by (simp add: list_all_length)
  have after: "after = length pre + length nm + length ?gap + 1" using at(4) k by simp
  have "takeWhile is_word (?gap @ stop # ?z) = []"
    using gap assms(2) space_not_word by (cases ?gap) auto
  then have word: "takeWhile is_word s = nm" "dropWhile is_word s = ?gap @ stop # ?z"
    using at(2) takeWhile_append2 [of nm is_word "?gap @ stop # ?z"] dropWhile_append2 [of nm is_word "?gap @ stop # ?z"]
    by (subst s; simp add: list_all_iff takeWhile_eq_Nil_iff; metis dropWhile_eq_self_iff list.sel(1) takeWhile_eq_Nil_iff)+
  have "takeWhile is_space (?gap @ stop # ?z) = ?gap" "dropWhile is_space (?gap @ stop # ?z) = stop # ?z"
    using gap assms(3) by (simp_all add: list_all_iff)
  with that [OF s gap after word(1)] word(2) show ?thesis by simp
qed

lemma site_start:
  assumes "site_at stop s i nm after"
  shows "is_alpha (s ! i)" "i < length s" "i = 0 \<or> \<not> is_word (s ! (i - 1))"
proof -
  from assms obtain c cs where nm: "nm = c # cs" by (cases nm) (auto simp: site_at_def)
  with assms show len: "i < length s" by (auto simp: site_at_def)
  from assms nm have "take (Suc (length cs)) (drop i s) = c # cs" "is_alpha c" by (auto simp: site_at_def)
  with len show "is_alpha (s ! i)" by (auto simp: Cons_nth_drop_Suc [symmetric])
  from assms show "i = 0 \<or> \<not> is_word (s ! (i - 1))" by (simp add: site_at_def)
qed

lemma run_kinds:
  assumes "list_all P xs" "list_all Q ys" "j < length (xs @ ys @ [z])"
  shows "j < length xs \<and> P ((xs @ ys @ [z]) ! j) \<or>
    length xs \<le> j \<and> (Q ((xs @ ys @ [z]) ! j) \<or> (xs @ ys @ [z]) ! j = z)"
proof (cases "j < length xs")
  case False
  then obtain k where "j = length xs + k" using le_Suc_ex not_less by blast
  with assms show ?thesis by (cases "k < length ys") (auto simp: nth_append list_all_length)
qed (use assms in \<open>simp add: nth_append list_all_length\<close>)

lemma sites_complete:
  assumes "site_at stop (pre @ s) i nm p" "length pre \<le> i"
    and "pos = length pre" "word = (pre \<noteq> [] \<and> is_word (last pre))" "\<not> is_word stop" "\<not> is_space stop"
  shows "(upper nm, p) \<in> set (sites stop pos word s)"
  using assms
proof (induction stop pos word s arbitrary: pre rule: sites.induct)
  case (1 stop pos word)
  then show ?case using site_start(2) [OF "1.prems"(1)] by simp
next
  case (2 stop pos word c s)
  let ?nm = "takeWhile is_word (c # s)" and ?rest = "dropWhile is_word (c # s)"
  let ?gap = "takeWhile is_space ?rest" and ?d = "dropWhile is_space ?rest"
  note start = site_start [OF "2.prems"(1)]
  have len: "pos + 1 = length (pre @ [c])" using "2.prems"(3) by simp
  have last: "w = (pre @ [c] \<noteq> [] \<and> is_word (last (pre @ [c])))" if "w = is_word c" for w using that by simp
  have app: "site_at stop ((pre @ [c]) @ s) i nm p" using "2.prems"(1) by simp
  show ?case
  proof (cases "i = pos")
    case True
    with start(1) "2.prems"(3) have alpha: "is_alpha c" by simp
    have "\<not> word" using start(3) True "2.prems"(3,4) by (auto simp: nth_append last_conv_nth)
    from "2.prems"(1) True "2.prems"(3) have "site_at stop (pre @ c # s) (length pre) nm p" by simp
    then obtain gap z where "p = length pre + length nm + length gap + 1" "?nm = nm" "?gap = gap" "?d = stop # z"
      by (rule site_text [OF _ "2.prems"(5,6)])
    with alpha \<open>\<not> word\<close> "2.prems"(3) show ?thesis by (simp only: sites.simps Let_def) simp
  next
    case False
    with "2.prems"(2,3) have later: "length (pre @ [c]) \<le> i" by simp
    show ?thesis
    proof (cases "\<not> word \<and> is_alpha c")
      case word: False
      from "2.IH"(4) [OF word app later len last [OF refl] "2.prems"(5,6)]
      show ?thesis unfolding sites.simps Let_def if_not_P [OF word] .
    next
      case True
      then have alpha: "is_alpha c" "is_word c" by (simp_all add: is_word_def)
      show ?thesis
      proof (cases ?d)
        case Nil
        have "(upper nm, p) \<in> set (sites stop (pos + 1) True s)"
          by (rule "2.IH"(1) [OF True refl refl refl refl Nil app later len _ "2.prems"(5,6)]) (simp add: alpha)
        then show ?thesis unfolding sites.simps Let_def if_P [OF True] Nil list.case .
      next
        case (Cons d z)
        note d = word_scan [OF Cons]
        show ?thesis
        proof (cases "d = stop")
          case stop: False
          have "(upper nm, p) \<in> set (sites stop (pos + 1) True s)"
            by (rule "2.IH"(3) [OF True refl refl refl refl Cons stop app later len _ "2.prems"(5,6)]) (simp add: alpha)
          then show ?thesis unfolding sites.simps Let_def if_P [OF True] Cons list.case if_not_P [OF stop] .
        next
          case stop: True
          let ?after = "pos + length ?nm + length ?gap + 1"
          let ?pre = "pre @ ?nm @ ?gap @ [stop]"
          have eq: "pre @ c # s = ?pre @ z" using d stop by simp
          have after: "?after = length ?pre" using "2.prems"(3) by simp
          have "length ?pre \<le> i"
          proof (rule ccontr)
            assume "\<not> length ?pre \<le> i"
            with False "2.prems"(2,3) obtain k where k: "i = length pre + Suc k" "Suc k < length (?nm @ ?gap @ [stop])"
              using less_imp_Suc_add [of "length pre" i] by auto
            have at: "(pre @ c # s) ! (length pre + j) = (?nm @ ?gap @ [stop]) ! j" if "j < length (?nm @ ?gap @ [stop])" for j
              unfolding eq using that by (simp add: nth_append)
            have kinds: "j < length ?nm \<and> is_word ((?nm @ ?gap @ [stop]) ! j) \<or>
                length ?nm \<le> j \<and> (is_space ((?nm @ ?gap @ [stop]) ! j) \<or> (?nm @ ?gap @ [stop]) ! j = stop)"
              if "j < length (?nm @ ?gap @ [stop])" for j
              using that by (intro run_kinds) (auto simp: list_all_iff simp del: takeWhile.simps dest: set_takeWhileD)
            have "\<not> is_word ((?nm @ ?gap @ [stop]) ! k)" using start(3) at [of k] k by simp
            moreover have "is_word ((?nm @ ?gap @ [stop]) ! Suc k)" "\<not> is_space ((?nm @ ?gap @ [stop]) ! Suc k)"
              using start(1) at [of "Suc k"] k space_not_word by (auto simp: is_word_def)
            ultimately show False
              using kinds [of k] kinds [of "Suc k"] k(2) "2.prems"(5) by auto
          qed
          moreover have "False = (?pre \<noteq> [] \<and> is_word (last ?pre))" using "2.prems"(5) by simp
          ultimately have "(upper nm, p) \<in> set (sites stop ?after False z)"
            using "2.prems"(1) unfolding eq
            by (intro "2.IH"(2) [OF True refl refl refl refl Cons stop _ _ after _ "2.prems"(5,6)])
          then show ?thesis
            unfolding sites.simps Let_def if_P [OF True] Cons list.case if_P [OF stop] by (simp only: set_simps insert_iff simp_thms)
        qed
      qed
    qed
  qed
qed

lemma sites_exact:
  assumes "\<not> is_word stop" "\<not> is_space stop"
  shows "(f, p) \<in> set (sites stop 0 False s) \<longleftrightarrow> (\<exists>i nm. f = upper nm \<and> site_at stop s i nm p)"
  using sites_sound [of f p stop 0 False s "[]"] sites_complete [of stop "[]" s _ _ p 0 False] assms by fastforce

text \<open>
  A call as it is written in the code: a name that starts a word at \<open>i\<close> and ends before
  \<open>i + length nm\<close>, an opening parenthesis at \<open>start - 1\<close>, all of them code, and between
  the two nothing but blanks, literals and comments.
\<close>

definition call_at :: "string \<Rightarrow> nat \<Rightarrow> string \<Rightarrow> nat \<Rightarrow> bool" where
  "call_at code i nm start \<longleftrightarrow>
     nm \<noteq> [] \<and> is_alpha (hd nm) \<and> list_all is_word nm \<and> take (length nm) (drop i code) = nm \<and>
     (i = 0 \<or> \<not> is_word (code ! (i - 1))) \<and>
     i + length nm < start \<and> start \<le> length code \<and> code ! (start - 1) = CHR ''('' \<and>
     (\<forall>j \<in> {i..<i + length nm}. places InCode code ! j = InCode) \<and>
     places InCode code ! (start - 1) = InCode \<and>
     (\<forall>j \<in> {i + length nm..<start - 1}. is_space (code ! j) \<or> places InCode code ! j \<noteq> InCode)"

lemma space_chars: "is_space (CHR '' '')" "is_space newline"
  by code_simp+

lemma take_drop_iff:
  "take (length nm) (drop i s) = nm \<longleftrightarrow> (nm = [] \<or> i + length nm \<le> length s) \<and> (\<forall>k < length nm. s ! (i + k) = nm ! k)"
proof (cases "i + length nm \<le> length s")
  case True
  then show ?thesis by (subst list_eq_iff_nth_eq) auto
next
  case False
  have "nm = []" if "take (length nm) (drop i s) = nm"
    using arg_cong [OF that, of length] False by (cases nm) auto
  then show ?thesis using False by auto
qed

lemma word_masked:
  "is_word (masked_char c p) \<longleftrightarrow> p = InCode \<and> is_word c" "is_word w \<Longrightarrow> masked_char c p = w \<longleftrightarrow> p = InCode \<and> c = w"
  "masked_char c p = CHR ''('' \<longleftrightarrow> p = InCode \<and> c = CHR ''(''" "is_space (masked_char c p) \<longleftrightarrow> p \<noteq> InCode \<or> is_space c"
  using space_not_word [OF space_chars(1)] space_not_word [OF space_chars(2)] space_chars
  by (auto simp: masked_char_def)

lemma site_call: "site_at (CHR ''('') (mask code) i nm start \<longleftrightarrow> call_at code i nm start"
proof (cases "nm \<noteq> [] \<and> is_alpha (hd nm) \<and> list_all is_word nm \<and> i + length nm < start \<and> start \<le> length code")
  case True
  then have range: "i + length nm \<le> length code" "start - 1 < length code" "i < length code" "nm \<noteq> []" by auto
  let ?p = "\<lambda>j. places InCode code ! j"
  have m: "mask code ! j = masked_char (code ! j) (?p j)" if "j < length code" for j using that by (rule nth_mask)
  have name: "take (length nm) (drop i (mask code)) = nm \<longleftrightarrow>
      take (length nm) (drop i code) = nm \<and> (\<forall>j \<in> {i..<i + length nm}. ?p j = InCode)"
  proof -
    have "(mask code ! (i + k) = nm ! k) = (?p (i + k) = InCode \<and> code ! (i + k) = nm ! k)" if "k < length nm" for k
      using m [of "i + k"] word_masked(2) [of "nm ! k"] True range that by (simp add: list_all_length)
    then have "take (length nm) (drop i (mask code)) = nm \<longleftrightarrow>
        take (length nm) (drop i code) = nm \<and> (\<forall>k < length nm. ?p (i + k) = InCode)"
      using range unfolding take_drop_iff length_mask by blast
    moreover have "(\<forall>k < length nm. ?p (i + k) = InCode) = (\<forall>j \<in> {i..<i + length nm}. ?p j = InCode)"
      by (metis add_diff_inverse_nat atLeastLessThan_iff le_add1 nat_add_left_cancel_less not_less)
    ultimately show ?thesis by simp
  qed
  have first: "is_word (mask code ! (i - 1)) \<longleftrightarrow> is_word (code ! (i - 1))"
    if "i \<noteq> 0" "?p i = InCode" "take (length nm) (drop i code) = nm"
  proof -
    have "is_word (code ! i)"
      using that(3) range True by (auto simp: take_drop_iff is_word_def hd_conv_nth)
    then have "code ! i \<noteq> newline" using space_not_word space_chars by metis
    moreover have "\<not> is_word quote" by code_simp
    ultimately show ?thesis
      using places_resume [of "i - 1" code InCode] that range m [of "i - 1"] by (auto simp: word_masked)
  qed
  have open_code: "mask code ! (start - 1) = CHR ''('' \<longleftrightarrow> ?p (start - 1) = InCode \<and> code ! (start - 1) = CHR ''(''"
    using m [OF range(2)] by (simp add: word_masked)
  have gap: "is_space (mask code ! j) \<longleftrightarrow> is_space (code ! j) \<or> ?p j \<noteq> InCode" if "j < start - 1" for j
    using m [of j] that range by (auto simp: word_masked)
  have here: "?p i = InCode" if "\<forall>j \<in> {i..<i + length nm}. ?p j = InCode" using that range(4) by simp
  have gaps: "(\<forall>j. i + length nm \<le> j \<and> j < start - 1 \<longrightarrow> is_space (mask code ! j)) =
      (\<forall>j \<in> {i + length nm..<start - 1}. is_space (code ! j) \<or> ?p j \<noteq> InCode)"
    using gap by auto
  have "site_at (CHR ''('') (mask code) i nm start \<longleftrightarrow> take (length nm) (drop i (mask code)) = nm \<and>
      (i = 0 \<or> \<not> is_word (mask code ! (i - 1))) \<and> mask code ! (start - 1) = CHR ''('' \<and>
      (\<forall>j. i + length nm \<le> j \<and> j < start - 1 \<longrightarrow> is_space (mask code ! j))"
    unfolding site_at_def length_mask using True by blast
  also have "\<dots> \<longleftrightarrow> (take (length nm) (drop i code) = nm \<and> (\<forall>j \<in> {i..<i + length nm}. ?p j = InCode)) \<and>
      (i = 0 \<or> \<not> is_word (code ! (i - 1))) \<and> (?p (start - 1) = InCode \<and> code ! (start - 1) = CHR ''('') \<and>
      (\<forall>j \<in> {i + length nm..<start - 1}. is_space (code ! j) \<or> ?p j \<noteq> InCode)"
    unfolding name open_code gaps using first here by blast
  also have "\<dots> \<longleftrightarrow> call_at code i nm start"
    unfolding call_at_def using True by blast
  finally show ?thesis .
qed (auto simp: site_at_def call_at_def length_mask)

text \<open>
  C14. The parser reports exactly the calls written in the code: a name that starts with a
  letter at the start of a word, an opening parenthesis after it, all of these characters
  code and none of them in a literal or a comment, and between the two only blanks, literals
  and comments. Where literals and comments lie is said by reading the text once from left
  to right, without the parser's mask.
\<close>

theorem call_sites_are_real:
  "(f, start) \<in> set (iter_calls code) \<longleftrightarrow> (\<exists>i nm. f = upper nm \<and> call_at code i nm start)"
proof -
  have "\<not> is_word (CHR ''('')" "\<not> is_space (CHR ''('')" by code_simp+
  from sites_exact [OF this] show ?thesis by (simp add: iter_calls_def site_call)
qed

section \<open>Literal arguments come back\<close>

definition written_literal :: "string \<Rightarrow> string" where
  "written_literal nm = quote # double quote nm @ [quote]"

fun written_args :: "string list \<Rightarrow> string" where
  "written_args [] = []"
| "written_args [n] = written_literal n"
| "written_args (n # m # ns) = written_literal n @ '', '' @ written_args (m # ns)"

lemma split_inside:
  assumes "\<And>t. z \<noteq> quote # t"
  shows "split_from d cur True (double quote n @ quote # z) = split_from d (cur @ double quote n @ [quote]) False z"
proof (induction n arbitrary: cur)
  case Nil
  from assms show ?case by (cases z) auto
qed auto

lemma split_literal:
  assumes "\<And>t. z \<noteq> quote # t"
  shows "split_from d cur False (written_literal n @ z) = split_from d (cur @ written_literal n) False z"
  using split_inside [OF assms, of d "cur @ [quote]" n] by (simp add: written_literal_def)

lemma strip_written [simp]: "strip (written_literal n) = written_literal n" "strip (CHR '' '' # written_literal n) = written_literal n"
  by (simp_all add: strip_def written_literal_def is_space_def chr_code_def)

lemma literal_written: "literal (written_literal n) = (n, True)"
  unfolding literal_def Let_def strip_written by (simp add: written_literal_def butlast_append)

lemma split_written:
  assumes "ns \<noteq> []" "cur \<in> {[], '' ''}"
  shows "map literal (split_from 0 cur False (written_args ns @ CHR '')'' # z)) = map (\<lambda>n. (n, True)) ns"
  using assms
proof (induction ns arbitrary: cur rule: written_args.induct)
  case (2 n)
  have cur: "strip (cur @ written_literal n) = written_literal n" using "2.prems"(2) by auto
  have "split_from 0 cur False (written_literal n @ CHR '')'' # z) = split_from 0 (cur @ written_literal n) False (CHR '')'' # z)"
    by (rule split_literal) simp
  with cur show ?case by (simp add: literal_written) (simp add: written_literal_def)
next
  case (3 n m ns)
  have cur: "strip (cur @ written_literal n) = written_literal n" using "3.prems"(2) by auto
  let ?z = "written_args (m # ns) @ CHR '')'' # z"
  have "split_from 0 cur False (written_literal n @ '', '' @ ?z) = split_from 0 (cur @ written_literal n) False ('', '' @ ?z)"
    by (rule split_literal) simp
  also have "\<dots> = written_literal n # split_from 0 '' '' False ?z" using cur by simp
  finally show ?case using "3.IH" [of "'' ''"] by (simp add: literal_written)
qed simp

text \<open>
  C37. A call written with any names as literals, whatever quotes, commas and parentheses
  they contain, is read back as exactly these names, wherever it stands in the code, while
  the list is shorter than the scan window.
\<close>

theorem argument_list_roundtrip:
  assumes "ns \<noteq> []" "length (written_args ns) < MAX_ARGUMENT_SPAN"
  shows "map literal (split_args (before @ written_args ns @ '')'' @ after) (length before)) = map (\<lambda>n. (n, True)) ns"
proof -
  let ?k = "MAX_ARGUMENT_SPAN - length (written_args ns) - 1"
  have "take MAX_ARGUMENT_SPAN (written_args ns @ '')'' @ after) = written_args ns @ CHR '')'' # take ?k after"
    using assms(2) by (simp add: take_Cons')
  then show ?thesis using split_written [OF assms(1), of "[]"] by (simp add: split_args_def)
qed

theorem argument_list_roundtrip_witness:
  "map literal (split_args (''X('' @ written_args [''it'' @ quote # ''s, (a)'', ''b''] @ '')'' @ '';'') (length ''X('')) =
     [(''it'' @ quote # ''s, (a)'', True), (''b'', True)]"
  using argument_list_roundtrip [of "[''it'' @ quote # ''s, (a)'', ''b'']" "''X(''" "'';''"]
  by (simp add: MAX_ARGUMENT_SPAN_def written_literal_def)

text \<open>Of three calls one stands in a comment and one in a literal.\<close>

theorem call_sites_are_real_witness:
  "iter_calls (''# Go('' @ newline # ''run (1, '' @ quote # ''Go('' @ quote # '')'') = [(''RUN'', 11)] \<and>
   (\<exists>i nm. ''RUN'' = upper nm \<and> call_at (''# Go('' @ newline # ''run (1, '' @ quote # ''Go('' @ quote # '')'') i nm 11)"
proof -
  have calls: "iter_calls (''# Go('' @ newline # ''run (1, '' @ quote # ''Go('' @ quote # '')'') = [(''RUN'', 11)]"
    by code_simp
  then have "(''RUN'', 11) \<in> set (iter_calls (''# Go('' @ newline # ''run (1, '' @ quote # ''Go('' @ quote # '')''))"
    by simp
  with calls show ?thesis unfolding call_sites_are_real by blast
qed

end
