(* ===== verification/MapExtraction.thy ===== *)
theory MapExtraction
  imports TiParser History ChangeModel
begin

text \<open>
  Reading a model into the dependency map: \<open>tm1/metadata/extractor.py\<close> with
  \<open>extract_rule_cube_references\<close> of \<open>reference_parser.py\<close>. An extraction reads one state
  of the server, a \<open>live_server\<close> whose every read answers or raises; row ids come from a
  supply. The time stamp of the rows is left out, and names are the strings the server
  gives (the type checks before a view or subset is taken are void).
\<close>

section \<open>What the server answers\<close>

record cube_info =
  ci_name :: string
  ci_dimensions :: "string list"
  ci_has_rules :: bool

record chore_info =
  hi_name :: string
  hi_process_names :: "string list"

record live_server =
  sv_cubes :: "string list result"
  sv_cube :: "string \<Rightarrow> cube_info result"
  sv_hierarchies :: "string \<Rightarrow> string list result"
  sv_cube_rules :: "string \<Rightarrow> string option result"
  sv_connect :: "unit result"
  sv_views :: "string \<Rightarrow> string list result"
  sv_subsets :: "string \<Rightarrow> string list result"
  sv_processes :: "string list result"
  sv_process :: "string \<Rightarrow> process_info result"
  sv_chores :: "string list result"
  sv_chore :: "string \<Rightarrow> chore_info result"

text \<open>A loop whose body may raise.\<close>

primrec each :: "('a \<Rightarrow> 's \<Rightarrow> 's result) \<Rightarrow> 'a list \<Rightarrow> 's \<Rightarrow> 's result" where
  "each f [] s = Inr s"
| "each f (x # xs) s = bind_result (f x s) (each f xs)"

section \<open>Cube references in a rule\<close>

text \<open>What follows \<open>DB\<close>, when it is \<open>\s*\(\s*'([^']+)'\<close>: the name and the rest.\<close>

definition db_argument :: "string \<Rightarrow> (string \<times> string) option" where
  "db_argument s =
     (case dropWhile is_space s of
        [] \<Rightarrow> None
      | p # s1 \<Rightarrow>
          if p \<noteq> CHR ''('' then None
          else (case dropWhile is_space s1 of
                  [] \<Rightarrow> None
                | a # s2 \<Rightarrow>
                    let nm = takeWhile (\<lambda>c. c \<noteq> quote) s2 in
                    if a \<noteq> quote \<or> nm = [] then None
                    else (case drop (length nm) s2 of [] \<Rightarrow> None | _ # z \<Rightarrow> Some (nm, z))))"

lemma db_argument_length: "db_argument s = Some (nm, z) \<Longrightarrow> length z < length s"
proof -
  assume a: "db_argument s = Some (nm, z)"
  from a obtain p s1 a' s2 b where s: "dropWhile is_space s = p # s1" "dropWhile is_space s1 = a' # s2"
      "drop (length nm) s2 = b # z"
    by (auto simp: db_argument_def Let_def split: list.splits if_splits)
  have "length (p # s1) \<le> length s" using length_dropWhile_le [of is_space s] s(1) by simp
  moreover have "length (a' # s2) \<le> length s1" using length_dropWhile_le [of is_space s1] s(2) by simp
  moreover have "Suc (length z) \<le> length s2"
    using arg_cong [OF s(3), where f = length] by simp
  ultimately show ?thesis by simp
qed

text \<open>\<open>_RULE_DB_PATTERN.findall\<close>: the pattern is not tied to a word boundary.\<close>

function rule_references :: "string \<Rightarrow> string list" where
  "rule_references [] = []"
| "rule_references (c # s) =
     (if lower (take 2 (c # s)) = ''db''
      then (case db_argument (drop 1 s) of
              Some (nm, z) \<Rightarrow> nm # rule_references z
            | None \<Rightarrow> rule_references s)
      else rule_references s)"
  by pat_completeness auto
termination
proof (relation "measure length")
  fix c :: char and s nm z :: string and p
  assume "db_argument (drop 1 s) = Some p" "(nm, z) = p"
  then have "length z < length (drop 1 s)" using db_argument_length by metis
  then show "(z, c # s) \<in> measure length" by simp
qed auto

text \<open>The set of names; the order in which it is iterated only orders rows.\<close>

definition extract_rule_cube_references :: "string \<Rightarrow> string list" where
  "extract_rule_cube_references t = remdups (rule_references t)"

section \<open>Writing the graph\<close>

record graph_writer =
  gw_connection :: uuid
  gw_organization :: uuid
  gw_ids :: "nat \<Rightarrow> uuid"
  gw_objects :: "tm1_object list"
  gw_edges :: "(uuid \<times> uuid \<times> string) list"

definition get_object :: "tm1_object list \<Rightarrow> string \<Rightarrow> string \<Rightarrow> tm1_object option" where
  "get_object objs ty nm = find (\<lambda>ob. o_object_type ob = ty \<and> o_name ob = nm) objs"

text \<open>An object the code knows is there; used without one it raises AttributeError.\<close>

definition known_object :: "string \<Rightarrow> string \<Rightarrow> graph_writer \<Rightarrow> tm1_object result" where
  "known_object ty nm w = (case get_object (gw_objects w) ty nm of None \<Rightarrow> Inl OtherError | Some ob \<Rightarrow> Inr ob)"

definition list_names :: "string \<Rightarrow> graph_writer \<Rightarrow> string list" where
  "list_names ty w = map o_name (filter (\<lambda>ob. o_object_type ob = ty) (gw_objects w))"

definition add_object :: "string \<Rightarrow> string \<Rightarrow> graph_writer \<Rightarrow> tm1_object \<times> graph_writer" where
  "add_object ty nm w =
     (case get_object (gw_objects w) ty nm of
        Some ob \<Rightarrow> (ob, w)
      | None \<Rightarrow>
          let ob = tm1_object.make (gw_ids w (length (gw_objects w))) (gw_organization w) (gw_connection w) ty nm
          in (ob, w\<lparr>gw_objects := gw_objects w @ [ob]\<rparr>))"

definition add_relationship :: "tm1_object \<Rightarrow> tm1_object \<Rightarrow> string \<Rightarrow> graph_writer \<Rightarrow> graph_writer" where
  "add_relationship f t ty w =
     (if (o_id f, o_id t, ty) \<in> set (gw_edges w) then w
      else w\<lparr>gw_edges := gw_edges w @ [(o_id f, o_id t, ty)]\<rparr>)"

text \<open>The two shapes of the loops: edges from an object to its parts, and from parts to it.\<close>

definition link_part :: "tm1_object \<Rightarrow> string \<Rightarrow> string \<Rightarrow> string \<Rightarrow> graph_writer \<Rightarrow> graph_writer" where
  "link_part f ty rel nm w = (case add_object ty nm w of (t, w') \<Rightarrow> add_relationship f t rel w')"

definition link_whole :: "tm1_object \<Rightarrow> string \<Rightarrow> string \<Rightarrow> string \<Rightarrow> graph_writer \<Rightarrow> graph_writer" where
  "link_whole t ty rel nm w = (case add_object ty nm w of (f, w') \<Rightarrow> add_relationship f t rel w')"

definition qualified_name :: "string \<Rightarrow> string \<Rightarrow> string" where
  "qualified_name container nm = container @ CHR '':'' # nm"

section \<open>Finding objects the way TI names them\<close>

definition by_lower :: "tm1_object list \<Rightarrow> string \<Rightarrow> string \<Rightarrow> tm1_object option" where
  "by_lower objs kind nm = find (\<lambda>ob. o_object_type ob = kind \<and> lower (o_name ob) = lower nm) (rev objs)"

definition graph_lookup :: "tm1_object list \<Rightarrow> string \<Rightarrow> string \<Rightarrow> tm1_object option" where
  "graph_lookup objs kind nm =
     (case get_object objs kind nm of Some ob \<Rightarrow> Some ob | None \<Rightarrow> by_lower objs kind nm)"

text \<open>\<open>name.partition(":")[2]\<close>.\<close>

definition after_colon :: "string \<Rightarrow> string" where
  "after_colon nm = drop 1 (dropWhile (\<lambda>c. c \<noteq> CHR '':'') nm)"

definition by_short_name :: "tm1_object list \<Rightarrow> string \<Rightarrow> string \<Rightarrow> tm1_object option" where
  "by_short_name objs kind short =
     (case filter (\<lambda>ob. o_object_type ob = kind \<and> lower (after_colon (o_name ob)) = lower short) objs of
        [ob] \<Rightarrow> Some ob | _ \<Rightarrow> None)"

definition DIMENSION_WRITE_FUNCTIONS :: "string list" where
  "DIMENSION_WRITE_FUNCTIONS =
     [''DIMENSIONCREATE'', ''DIMENSIONDESTROY'', ''DIMENSIONDELETEALLELEMENTS'', ''DIMENSIONELEMENTINSERT'',
      ''DIMENSIONELEMENTDELETE'', ''DIMENSIONELEMENTCOMPONENTADD'', ''DIMENSIONELEMENTCOMPONENTDELETE'',
      ''ATTRPUTS'', ''ATTRPUTN'', ''ATTRINSERT'', ''ATTRDELETE'']"

text \<open>The target of a literal reference and the relationship to it.\<close>

definition ref_target :: "tm1_object list \<Rightarrow> object_ref \<Rightarrow> (tm1_object \<times> string) option" where
  "ref_target objs r =
     (let edge = (\<lambda>rel. map_option (\<lambda>ob. (ob, rel))) in
      if or_kind r = ''cube'' \<and> (or_access r = ''write'' \<or> or_access r = ''read'')
      then edge (if or_access r = ''write'' then ''updates_cube'' else ''reads_cube'')
             (graph_lookup objs ''cube'' (or_name r))
      else if or_kind r = ''process'' \<and> or_access r = ''calls''
      then edge ''calls_process'' (graph_lookup objs ''process'' (or_name r))
      else if or_kind r = ''dimension''
      then edge (if or_function r \<in> set DIMENSION_WRITE_FUNCTIONS then ''updates_dimension''
                 else ''references_dimension'')
             (graph_lookup objs ''dimension'' (or_name r))
      else if or_kind r = ''view'' \<or> or_kind r = ''subset''
      then edge (''uses_'' @ or_kind r) (by_short_name objs (or_kind r) (or_name r))
      else None)"

definition source_edges :: "tm1_object list \<Rightarrow> process_info \<Rightarrow> (tm1_object \<times> string) list" where
  "source_edges objs info =
     (if pi_datasource_type info \<noteq> ''TM1CubeView'' then []
      else case graph_lookup objs ''cube'' (pi_datasource_name info) of
             None \<Rightarrow> []
           | Some c \<Rightarrow>
               (c, ''reads_cube'') #
               (if pi_datasource_view info = [] then []
                else case get_object objs ''view'' (qualified_name (o_name c) (pi_datasource_view info)) of
                       None \<Rightarrow> [] | Some v \<Rightarrow> [(v, ''reads_view'')]))"

definition unresolved_refs :: "process_record \<Rightarrow> nat" where
  "unresolved_refs pr =
     length (filter (\<lambda>r. \<not> or_literal r \<and> or_kind r \<in> {''cube'', ''dimension'', ''process''}) (pc_objects pr))"

definition process_edges ::
  "(string \<Rightarrow> bool) \<Rightarrow> process_info \<Rightarrow> tm1_object list \<Rightarrow> (tm1_object \<times> string) list \<times> nat" where
  "process_edges known info objs =
     (let pr = parse_process_code known info in
      (source_edges objs info @ List.map_filter (ref_target objs) (filter or_literal (pc_objects pr)),
       unresolved_refs pr))"

section \<open>The phases of an extraction\<close>

definition MAX_VIEWS_PER_CUBE :: nat where "MAX_VIEWS_PER_CUBE = 50"
definition MAX_SUBSETS_PER_DIMENSION :: nat where "MAX_SUBSETS_PER_DIMENSION = 50"

text \<open>Cubes and their dimensions; the cubes with rules are collected.\<close>

definition cube_step :: "live_server \<Rightarrow> string \<Rightarrow> graph_writer \<times> string list \<Rightarrow> (graph_writer \<times> string list) result" where
  "cube_step S nm st =
     bind_result (sv_cube S nm) (\<lambda>ci.
       case add_object ''cube'' (ci_name ci) (fst st) of (c, w) \<Rightarrow>
         Inr (fold (link_part c ''dimension'' ''uses_dimension'') (ci_dimensions ci) w,
              snd st @ (if ci_has_rules ci then [ci_name ci] else [])))"

definition hierarchy_step :: "live_server \<Rightarrow> string \<Rightarrow> graph_writer \<Rightarrow> graph_writer result" where
  "hierarchy_step S d w =
     bind_result (known_object ''dimension'' d w) (\<lambda>ob.
     bind_result (sv_hierarchies S d) (\<lambda>hs.
       Inr (fold (\<lambda>h. link_part ob ''hierarchy'' ''contains_hierarchy'' (qualified_name d h)) hs w)))"

definition rule_link :: "string \<Rightarrow> tm1_object \<Rightarrow> string \<Rightarrow> graph_writer \<Rightarrow> graph_writer" where
  "rule_link c ob nm w =
     (if nm = c then w
      else case get_object (gw_objects w) ''cube'' nm of
             None \<Rightarrow> w | Some t \<Rightarrow> add_relationship ob t ''references_cube'' w)"

definition rules_step :: "live_server \<Rightarrow> string \<Rightarrow> graph_writer \<Rightarrow> graph_writer result" where
  "rules_step S c w =
     bind_result (sv_cube_rules S c) (\<lambda>t.
     bind_result (known_object ''cube'' c w) (\<lambda>ob.
       Inr (fold (rule_link c ob) (extract_rule_cube_references (case t of None \<Rightarrow> [] | Some s \<Rightarrow> s)) w)))"

text \<open>A listing that fails costs that object's views or subsets only.\<close>

definition views_step :: "live_server \<Rightarrow> string \<Rightarrow> graph_writer \<Rightarrow> graph_writer result" where
  "views_step S c w =
     (case sv_views S c of
        Inl _ \<Rightarrow> Inr w
      | Inr vs \<Rightarrow>
          bind_result (known_object ''cube'' c w) (\<lambda>ob.
            Inr (fold (\<lambda>v. link_whole ob ''view'' ''view_of_cube'' (qualified_name c v)) (take MAX_VIEWS_PER_CUBE vs) w)))"

definition subsets_step :: "live_server \<Rightarrow> string \<Rightarrow> graph_writer \<Rightarrow> graph_writer result" where
  "subsets_step S d w =
     (case sv_subsets S d of
        Inl _ \<Rightarrow> Inr w
      | Inr ss \<Rightarrow>
          bind_result (known_object ''dimension'' d w) (\<lambda>ob.
            Inr (fold (\<lambda>s. link_whole ob ''subset'' ''subset_of_dimension'' (qualified_name d s))
                   (take MAX_SUBSETS_PER_DIMENSION ss) w)))"

text \<open>First every process node, then their edges against an index of all objects.\<close>

definition process_step ::
  "live_server \<Rightarrow> string \<Rightarrow> graph_writer \<times> process_info list \<Rightarrow> (graph_writer \<times> process_info list) result" where
  "process_step S nm st =
     bind_result (sv_process S nm) (\<lambda>info.
       Inr (snd (add_object ''process'' (pi_name info) (fst st)), snd st @ [info]))"

definition edges_step ::
  "(string \<Rightarrow> bool) \<Rightarrow> tm1_object list \<Rightarrow> process_info \<Rightarrow> graph_writer \<times> nat \<Rightarrow> (graph_writer \<times> nat) result" where
  "edges_step known objs info st =
     bind_result (known_object ''process'' (pi_name info) (fst st)) (\<lambda>ob.
       case process_edges known info objs of (edges, missed) \<Rightarrow>
         Inr (fold (\<lambda>(t, rel) w. if t = ob then w else add_relationship ob t rel w) edges (fst st),
              snd st + missed))"

definition chore_link :: "tm1_object \<Rightarrow> string \<Rightarrow> graph_writer \<Rightarrow> graph_writer" where
  "chore_link ob nm w =
     (case get_object (gw_objects w) ''process'' nm of
        None \<Rightarrow> w | Some p \<Rightarrow> add_relationship ob p ''runs_process'' w)"

definition chore_step :: "live_server \<Rightarrow> string \<Rightarrow> graph_writer \<Rightarrow> graph_writer result" where
  "chore_step S nm w =
     bind_result (sv_chore S nm) (\<lambda>hi.
       case add_object ''chore'' (hi_name hi) w of (ob, w') \<Rightarrow>
         Inr (fold (chore_link ob) (hi_process_names hi) w'))"

definition structure_phases :: "live_server \<Rightarrow> graph_writer \<Rightarrow> graph_writer result" where
  "structure_phases S w0 =
     bind_result (sv_cubes S) (\<lambda>cubes.
     bind_result (each (cube_step S) cubes (w0, [])) (\<lambda>(w1, ruled).
     bind_result (each (hierarchy_step S) (list_names ''dimension'' w1) w1) (\<lambda>w2.
     bind_result (each (rules_step S) ruled w2) (\<lambda>w3.
     bind_result (sv_connect S) (\<lambda>_.
     bind_result (each (views_step S) (list_names ''cube'' w3) w3) (\<lambda>w4.
       each (subsets_step S) (list_names ''dimension'' w4) w4))))))"

definition process_phases ::
  "(string \<Rightarrow> bool) \<Rightarrow> live_server \<Rightarrow> graph_writer \<Rightarrow> (graph_writer \<times> nat) result" where
  "process_phases known S w0 =
     bind_result (sv_processes S) (\<lambda>names.
     bind_result (each (process_step S) names (w0, [])) (\<lambda>(w1, infos).
     bind_result (each (edges_step known (gw_objects w1)) infos (w1, 0)) (\<lambda>(w2, unresolved).
     bind_result (sv_chores S) (\<lambda>chores.
     bind_result (each (chore_step S) chores w2) (\<lambda>w3. Inr (w3, unresolved))))))"

definition delete_by_connection :: "uuid \<Rightarrow> graph \<Rightarrow> graph" where
  "delete_by_connection conn g =
     \<lparr>g_objects = filter (\<lambda>ob. o_connection_id ob \<noteq> conn) (g_objects g),
      g_relationships = filter (\<lambda>r. rel_connection_id r \<noteq> conn) (g_relationships g)\<rparr>"

definition written_graph :: "graph_writer \<Rightarrow> graph \<Rightarrow> graph" where
  "written_graph w g =
     \<lparr>g_objects = g_objects g @ gw_objects w,
      g_relationships = g_relationships g @
        map (\<lambda>(f, t, ty). relationship.make (gw_connection w) f t ty) (gw_edges w)\<rparr>"

definition new_writer :: "uuid \<Rightarrow> uuid \<Rightarrow> (nat \<Rightarrow> uuid) \<Rightarrow> graph_writer" where
  "new_writer conn org ids =
     \<lparr>gw_connection = conn, gw_organization = org, gw_ids = ids, gw_objects = [], gw_edges = []\<rparr>"

definition extract_metadata :: "(string \<Rightarrow> bool) \<Rightarrow> live_server \<Rightarrow> (nat \<Rightarrow> uuid) \<Rightarrow> extractor" where
  "extract_metadata known S ids conn org g =
     bind_result (structure_phases S (new_writer conn org ids)) (\<lambda>w.
     bind_result (process_phases known S w) (\<lambda>(w', unresolved).
       Inr (written_graph w' (delete_by_connection conn g), unresolved)))"

section \<open>One process after a change\<close>

definition insert_edges :: "uuid \<Rightarrow> tm1_object \<Rightarrow> (tm1_object \<times> string) list \<Rightarrow> graph \<Rightarrow> graph" where
  "insert_edges conn ob edges g =
     g\<lparr>g_relationships := g_relationships g @
        map (\<lambda>(t, rel). relationship.make conn (o_id ob) t rel)
          (rev (remdups (rev (map (\<lambda>(t, rel). (o_id t, rel)) (filter (\<lambda>(t, _). t \<noteq> ob) edges)))))\<rparr>"

definition without_outgoing :: "tm1_object option \<Rightarrow> graph \<Rightarrow> graph" where
  "without_outgoing ob g =
     (case ob of None \<Rightarrow> g
      | Some x \<Rightarrow> g\<lparr>g_relationships := filter (\<lambda>r. rel_from r \<noteq> o_id x) (g_relationships g)\<rparr>)"

definition without_object :: "tm1_object option \<Rightarrow> graph \<Rightarrow> graph" where
  "without_object ob g =
     (case ob of None \<Rightarrow> g
      | Some x \<Rightarrow> \<lparr>g_objects = filter (\<lambda>y. o_id y \<noteq> o_id x) (g_objects g),
                   g_relationships = filter (\<lambda>r. rel_to r \<noteq> o_id x) (g_relationships g)\<rparr>)"

definition refresh_process ::
  "(string \<Rightarrow> bool) \<Rightarrow> live_server \<Rightarrow> uuid \<Rightarrow> uuid \<Rightarrow> uuid \<Rightarrow> string \<Rightarrow> bool \<Rightarrow> graph \<Rightarrow> (graph \<times> bool) result" where
  "refresh_process known S i conn org nm deleted g =
     (let objs = list_objects g conn None;
          existing = graph_lookup objs ''process'' nm;
          g1 = without_outgoing existing g
      in if objs = [] then Inr (g, False)
         else if deleted then Inr (without_object existing g1, True)
         else bind_result (sv_process S nm) (\<lambda>info.
           let edges = fst (process_edges known info objs) in
           case existing of
             Some ob \<Rightarrow> Inr (insert_edges conn ob edges g1, True)
           | None \<Rightarrow>
               let ob = tm1_object.make i org conn ''process'' (pi_name info)
               in Inr (insert_edges conn ob edges (g1\<lparr>g_objects := g_objects g1 @ [ob]\<rparr>), True)))"

text \<open>
  \<open>_refresh_graph\<close> of \<open>change_service.py\<close>, in a savepoint: what raises leaves the map as it
  was. A taken key of \<open>uq_tm1_objects_connection_type_name\<close> raises too.
\<close>

definition refresh_graph ::
  "(string \<Rightarrow> bool) \<Rightarrow> live_server \<Rightarrow> uuid \<Rightarrow> change \<Rightarrow> bool \<Rightarrow> graph \<Rightarrow> graph" where
  "refresh_graph known S i ch deleted g =
     (if ch_type ch \<notin> {CREATE_PROCESS, UPDATE_PROCESS, DELETE_PROCESS} then g
      else case refresh_process known S i (ch_connection_id ch) (ch_organization_id ch) (ch_target_name ch) deleted g of
             Inl _ \<Rightarrow> g
           | Inr (g', _) \<Rightarrow>
               if distinct (map (\<lambda>ob. (o_connection_id ob, o_object_type ob, o_name ob)) (g_objects g'))
               then g' else g)"

end
