(* ===== verification/MapSpec.thy ===== *)
theory MapSpec
  imports MapExtraction
begin

text \<open>
  What the dependency map should hold, read off the server by name (\<open>model_objects\<close>,
  \<open>model_edges\<close>), and the refinement of it by \<open>extract_metadata\<close>: each phase of the
  extraction is shown to make the written map grow by its part (\<open>grows\<close>), the lookups of
  the index to find what the names stand for, and the whole to end whenever the reads answer.
\<close>

section \<open>The map by name\<close>

text \<open>
  What a map of the model should hold, read off the server without rows, ids or order:
  objects by kind and name, and edges between them.
\<close>

definition answered :: "'a list result \<Rightarrow> 'a list" where
  "answered r = (case r of Inr xs \<Rightarrow> xs | Inl _ \<Rightarrow> [])"

definition server_cubes :: "live_server \<Rightarrow> cube_info set" where
  "server_cubes S = {ci. \<exists>n \<in> set (answered (sv_cubes S)). sv_cube S n = Inr ci}"

definition server_processes :: "live_server \<Rightarrow> process_info set" where
  "server_processes S = {info. \<exists>n \<in> set (answered (sv_processes S)). sv_process S n = Inr info}"

definition server_chores :: "live_server \<Rightarrow> chore_info set" where
  "server_chores S = {hi. \<exists>n \<in> set (answered (sv_chores S)). sv_chore S n = Inr hi}"

definition cube_names :: "live_server \<Rightarrow> string set" where
  "cube_names S = ci_name ` server_cubes S"

definition dimension_names :: "live_server \<Rightarrow> string set" where
  "dimension_names S = (\<Union>ci \<in> server_cubes S. set (ci_dimensions ci))"

definition hierarchies_of :: "live_server \<Rightarrow> string \<Rightarrow> string list" where
  "hierarchies_of S d = answered (sv_hierarchies S d)"

definition views_of :: "live_server \<Rightarrow> string \<Rightarrow> string list" where
  "views_of S c = take MAX_VIEWS_PER_CUBE (answered (sv_views S c))"

definition subsets_of :: "live_server \<Rightarrow> string \<Rightarrow> string list" where
  "subsets_of S d = take MAX_SUBSETS_PER_DIMENSION (answered (sv_subsets S d))"

definition references_of :: "live_server \<Rightarrow> string \<Rightarrow> string list" where
  "references_of S c = rule_references (case sv_cube_rules S c of Inr (Some t) \<Rightarrow> t | _ \<Rightarrow> [])"

definition link :: "object_key \<Rightarrow> string \<Rightarrow> object_key \<Rightarrow> edge_key" where
  "link f rel t = (fst f, snd f, rel, fst t, snd t)"

definition structure_objects :: "live_server \<Rightarrow> object_key set" where
  "structure_objects S =
     Pair ''cube'' ` cube_names S \<union> Pair ''dimension'' ` dimension_names S \<union>
     (\<Union>d \<in> dimension_names S. (\<lambda>h. (''hierarchy'', qualified_name d h)) ` set (hierarchies_of S d)) \<union>
     (\<Union>c \<in> cube_names S. (\<lambda>v. (''view'', qualified_name c v)) ` set (views_of S c)) \<union>
     (\<Union>d \<in> dimension_names S. (\<lambda>s. (''subset'', qualified_name d s)) ` set (subsets_of S d))"

definition structure_edges :: "live_server \<Rightarrow> edge_key set" where
  "structure_edges S =
     (\<Union>ci \<in> server_cubes S.
        (\<lambda>d. link (''cube'', ci_name ci) ''uses_dimension'' (''dimension'', d)) ` set (ci_dimensions ci)) \<union>
     (\<Union>d \<in> dimension_names S.
        (\<lambda>h. link (''dimension'', d) ''contains_hierarchy'' (''hierarchy'', qualified_name d h)) ` set (hierarchies_of S d)) \<union>
     (\<Union>c \<in> {c. \<exists>ci \<in> server_cubes S. ci_has_rules ci \<and> c = ci_name ci}.
        (\<lambda>r. link (''cube'', c) ''references_cube'' (''cube'', r)) `
          ({r \<in> set (references_of S c). r \<noteq> c} \<inter> cube_names S)) \<union>
     (\<Union>c \<in> cube_names S.
        (\<lambda>v. link (''view'', qualified_name c v) ''view_of_cube'' (''cube'', c)) ` set (views_of S c)) \<union>
     (\<Union>d \<in> dimension_names S.
        (\<lambda>s. link (''subset'', qualified_name d s) ''subset_of_dimension'' (''dimension'', d)) ` set (subsets_of S d))"

text \<open>TM1 names do not depend on case; a short name counts when one object has it.\<close>

definition named :: "object_key set \<Rightarrow> string \<Rightarrow> string \<Rightarrow> object_key set" where
  "named K kind nm = {k \<in> K. fst k = kind \<and> lower (snd k) = lower nm}"

definition short_named :: "object_key set \<Rightarrow> string \<Rightarrow> string \<Rightarrow> object_key set" where
  "short_named K kind nm =
     (let M = {k \<in> K. fst k = kind \<and> lower (after_colon (snd k)) = lower nm} in if card M = 1 then M else {})"

definition ref_targets :: "object_key set \<Rightarrow> object_ref \<Rightarrow> (object_key \<times> string) set" where
  "ref_targets K r =
     (if or_kind r = ''cube'' \<and> or_access r = ''write'' then (\<lambda>k. (k, ''updates_cube'')) ` named K ''cube'' (or_name r)
      else if or_kind r = ''cube'' \<and> or_access r = ''read'' then (\<lambda>k. (k, ''reads_cube'')) ` named K ''cube'' (or_name r)
      else if or_kind r = ''process'' \<and> or_access r = ''calls''
      then (\<lambda>k. (k, ''calls_process'')) ` named K ''process'' (or_name r)
      else if or_kind r = ''dimension''
      then (\<lambda>k. (k, if or_function r \<in> set DIMENSION_WRITE_FUNCTIONS then ''updates_dimension''
                    else ''references_dimension'')) ` named K ''dimension'' (or_name r)
      else if or_kind r = ''view'' then (\<lambda>k. (k, ''uses_view'')) ` short_named K ''view'' (or_name r)
      else if or_kind r = ''subset'' then (\<lambda>k. (k, ''uses_subset'')) ` short_named K ''subset'' (or_name r)
      else {})"

definition source_targets :: "object_key set \<Rightarrow> process_info \<Rightarrow> (object_key \<times> string) set" where
  "source_targets K info =
     (if pi_datasource_type info \<noteq> ''TM1CubeView'' then {}
      else (\<Union>c \<in> named K ''cube'' (pi_datasource_name info).
              {(c, ''reads_cube'')} \<union>
              (if pi_datasource_view info = [] then {}
               else (\<lambda>v. (v, ''reads_view'')) ` ({(''view'', qualified_name (snd c) (pi_datasource_view info))} \<inter> K))))"

definition process_targets :: "(string \<Rightarrow> bool) \<Rightarrow> object_key set \<Rightarrow> process_info \<Rightarrow> (object_key \<times> string) set" where
  "process_targets known K info =
     source_targets K info \<union>
     (\<Union>r \<in> {r \<in> set (pc_objects (parse_process_code known info)). or_literal r}. ref_targets K r)"

definition process_out :: "(string \<Rightarrow> bool) \<Rightarrow> object_key set \<Rightarrow> process_info \<Rightarrow> edge_key set" where
  "process_out known K info =
     (\<lambda>(t, rel). link (''process'', pi_name info) rel t) `
       {(t, rel) \<in> process_targets known K info. t \<noteq> (''process'', pi_name info)}"

definition model_objects :: "live_server \<Rightarrow> object_key set" where
  "model_objects S =
     structure_objects S \<union> Pair ''process'' ` pi_name ` server_processes S \<union> Pair ''chore'' ` hi_name ` server_chores S"

definition chore_edges :: "live_server \<Rightarrow> string set \<Rightarrow> edge_key set" where
  "chore_edges S P =
     (\<Union>hi \<in> server_chores S. (\<lambda>p. link (''chore'', hi_name hi) ''runs_process'' (''process'', p)) `
        (set (hi_process_names hi) \<inter> P))"

definition model_edges :: "(string \<Rightarrow> bool) \<Rightarrow> live_server \<Rightarrow> edge_key set" where
  "model_edges known S =
     structure_edges S \<union>
     (\<Union>info \<in> server_processes S. process_out known (model_objects S) info) \<union>
     chore_edges S (pi_name ` server_processes S)"

text \<open>What TM1 promises of its names.\<close>

definition names_unique :: "object_key set \<Rightarrow> bool" where
  "names_unique K \<longleftrightarrow>
     (\<forall>k \<in> K. \<forall>k' \<in> K. fst k = fst k' \<and> fst k \<in> {''cube'', ''dimension'', ''process''} \<and>
        lower (snd k) = lower (snd k') \<longrightarrow> k = k')"

section \<open>A writer and the map it has written\<close>

definition okey :: "tm1_object \<Rightarrow> object_key" where
  "okey ob = (o_object_type ob, o_name ob)"

definition keys_of :: "tm1_object list \<Rightarrow> object_key set" where
  "keys_of objs = okey ` set objs"

definition edge_names :: "tm1_object list \<Rightarrow> (uuid \<times> uuid \<times> string) set \<Rightarrow> edge_key set" where
  "edge_names objs es =
     {link (okey f) rel (okey t) | f rel t. f \<in> set objs \<and> t \<in> set objs \<and> (o_id f, o_id t, rel) \<in> es}"

definition writer_ok :: "graph_writer \<Rightarrow> bool" where
  "writer_ok w \<longleftrightarrow>
     inj (gw_ids w) \<and> map o_id (gw_objects w) = map (gw_ids w) [0..<length (gw_objects w)] \<and>
     distinct (map okey (gw_objects w)) \<and> distinct (gw_edges w) \<and>
     (\<forall>ob \<in> set (gw_objects w). o_connection_id ob = gw_connection w) \<and>
     (\<forall>(f, t, rel) \<in> set (gw_edges w). f \<noteq> t \<and> f \<in> o_id ` set (gw_objects w) \<and> t \<in> o_id ` set (gw_objects w))"

definition writer_keys :: "graph_writer \<Rightarrow> object_key set" where
  "writer_keys w = keys_of (gw_objects w)"

definition writer_edges :: "graph_writer \<Rightarrow> edge_key set" where
  "writer_edges w = edge_names (gw_objects w) (set (gw_edges w))"

text \<open>One step: the writer stays sound and the map gains these objects and these edges.\<close>

definition grows :: "graph_writer \<Rightarrow> graph_writer \<Rightarrow> object_key set \<Rightarrow> edge_key set \<Rightarrow> bool" where
  "grows w w' K E \<longleftrightarrow>
     writer_ok w' \<and> gw_connection w' = gw_connection w \<and> set (gw_objects w) \<subseteq> set (gw_objects w') \<and>
     writer_keys w' = writer_keys w \<union> K \<and> writer_edges w' = writer_edges w \<union> E"

lemma growsD:
  assumes "grows w w' K E"
  shows "writer_ok w'" "gw_connection w' = gw_connection w" "set (gw_objects w) \<subseteq> set (gw_objects w')"
    "writer_keys w' = writer_keys w \<union> K" "writer_edges w' = writer_edges w \<union> E"
  using assms by (auto simp: grows_def)

lemma grows_refl: "writer_ok w \<Longrightarrow> grows w w {} {}"
  by (simp add: grows_def)

lemma grows_trans: "grows w w1 K1 E1 \<Longrightarrow> grows w1 w2 K2 E2 \<Longrightarrow> grows w w2 (K1 \<union> K2) (E1 \<union> E2)"
  by (auto simp: grows_def)

lemma grows_cong: "grows w w' K E \<Longrightarrow> K = K' \<Longrightarrow> E = E' \<Longrightarrow> grows w w' K' E'"
  by simp

lemma writer_ids: "writer_ok w \<Longrightarrow> distinct (map o_id (gw_objects w))"
  by (simp add: writer_ok_def distinct_map inj_on_subset [OF _ subset_UNIV])

lemma same_id: "distinct (map o_id objs) \<Longrightarrow> f \<in> set objs \<Longrightarrow> g \<in> set objs \<Longrightarrow> o_id f = o_id g \<longleftrightarrow> f = g"
  by (metis distinct_map inj_on_eq_iff)

lemma get_object_Some:
  "get_object objs ty nm = Some ob \<Longrightarrow> ob \<in> set objs \<and> okey ob = (ty, nm)"
  by (auto simp: get_object_def okey_def dest: find_SomeD)

lemma get_object_None: "get_object objs ty nm = None \<longleftrightarrow> (ty, nm) \<notin> keys_of objs"
  by (auto simp: get_object_def okey_def keys_of_def find_None_iff_all)

lemma get_object_unique:
  "distinct (map okey objs) \<Longrightarrow> ob \<in> set objs \<Longrightarrow> okey ob = (ty, nm) \<Longrightarrow> get_object objs ty nm = Some ob"
  using find_distinct_unique [of okey objs ob "(ty, nm)"] by (simp add: get_object_def okey_def)

lemma edge_names_append:
  assumes "\<And>f t rel. (f, t, rel) \<in> es \<Longrightarrow> f \<noteq> o_id ob \<and> t \<noteq> o_id ob"
  shows "edge_names (objs @ [ob]) es = edge_names objs es"
  using assms unfolding edge_names_def by fastforce

lemma edge_names_insert:
  assumes "distinct (map o_id objs)" "f \<in> set objs" "t \<in> set objs"
  shows "edge_names objs (insert (o_id f, o_id t, rel) es) = insert (link (okey f) rel (okey t)) (edge_names objs es)"
  using assms by (auto simp: edge_names_def same_id)

lemma add_object_grows:
  assumes "writer_ok w" "add_object ty nm w = (ob, w')"
  shows "grows w w' {(ty, nm)} {} \<and> ob \<in> set (gw_objects w') \<and> okey ob = (ty, nm)"
proof (cases "get_object (gw_objects w) ty nm")
  case (Some x)
  then have "x \<in> set (gw_objects w)" "okey x = (ty, nm)" by (auto dest: get_object_Some)
  then have "(ty, nm) \<in> writer_keys w" by (metis writer_keys_def keys_of_def imageI)
  with assms Some \<open>x \<in> _\<close> \<open>okey x = _\<close> show ?thesis
    by (auto simp: add_object_def grows_def)
next
  case None
  let ?n = "length (gw_objects w)"
  let ?ob = "tm1_object.make (gw_ids w ?n) (gw_organization w) (gw_connection w) ty nm"
  from assms None have eq: "ob = ?ob" "w' = w\<lparr>gw_objects := gw_objects w @ [?ob]\<rparr>"
    by (auto simp: add_object_def Let_def)
  have key: "okey ?ob = (ty, nm)" by (simp add: okey_def tm1_object.make_def)
  from assms(1) have inj: "inj (gw_ids w)" and ids: "map o_id (gw_objects w) = map (gw_ids w) [0..<?n]"
    by (auto simp: writer_ok_def)
  have "set (map o_id (gw_objects w)) = gw_ids w ` {..<?n}" unfolding ids by auto
  then have used: "o_id ` set (gw_objects w) = gw_ids w ` {..<?n}" by simp
  have fresh: "gw_ids w ?n \<notin> o_id ` set (gw_objects w)"
    unfolding used using inj by (auto dest: injD)
  have new: "o_id ?ob = gw_ids w ?n" "o_connection_id ?ob = gw_connection w" by (simp_all add: tm1_object.make_def)
  have "writer_edges w' = writer_edges w"
    using assms(1) fresh unfolding writer_edges_def eq
    by (auto simp: writer_ok_def new intro!: edge_names_append)
  moreover have "writer_ok w'"
    using assms(1) None unfolding writer_ok_def eq
    by (auto simp: new key get_object_None keys_of_def image_iff)
  ultimately show ?thesis
    using key by (auto simp: grows_def eq writer_keys_def keys_of_def)
qed

lemma add_relationship_grows:
  assumes "writer_ok w" "f \<in> set (gw_objects w)" "t \<in> set (gw_objects w)" "f \<noteq> t"
  shows "grows w (add_relationship f t rel w) {} {link (okey f) rel (okey t)}"
proof -
  have ids: "distinct (map o_id (gw_objects w))" using assms(1) by (rule writer_ids)
  have "o_id f \<noteq> o_id t" using same_id [OF ids assms(2,3)] assms(4) by simp
  moreover have "(o_id f, o_id t, rel) \<in> set (gw_edges w) \<Longrightarrow> link (okey f) rel (okey t) \<in> writer_edges w"
    using assms(2,3) by (auto simp: writer_edges_def edge_names_def)
  ultimately show ?thesis
    using assms by (auto simp: grows_def add_relationship_def writer_ok_def writer_keys_def writer_edges_def
        edge_names_insert [OF ids] insert_absorb)
qed

section \<open>Each phase grows the map\<close>

lemma grows_fold:
  assumes "writer_ok w" "I w"
    and "\<And>x w. x \<in> set xs \<Longrightarrow> writer_ok w \<Longrightarrow> I w \<Longrightarrow> grows w (f x w) (K x) (E x) \<and> I (f x w)"
  shows "grows w (fold f xs w) (\<Union>x \<in> set xs. K x) (\<Union>x \<in> set xs. E x) \<and> I (fold f xs w)"
  using assms
proof (induction xs arbitrary: w)
  case Nil
  then show ?case by (simp add: grows_refl)
next
  case (Cons x xs)
  from Cons.prems have step: "grows w (f x w) (K x) (E x)" "I (f x w)" by simp_all
  then have "grows (f x w) (fold f xs (f x w)) (\<Union>x \<in> set xs. K x) (\<Union>x \<in> set xs. E x) \<and> I (fold f xs (f x w))"
    by (intro Cons.IH) (use Cons.prems(3) growsD(1) [OF step(1)] in auto)
  with step(1) show ?case by (simp add: grows_trans)
qed

lemma each_grows:
  assumes "each f xs s = Inr s'" "writer_ok (p s)" "I s"
    and "\<And>x s s'. x \<in> set xs \<Longrightarrow> writer_ok (p s) \<Longrightarrow> I s \<Longrightarrow> f x s = Inr s' \<Longrightarrow>
           grows (p s) (p s') (K x) (E x) \<and> I s'"
  shows "grows (p s) (p s') (\<Union>x \<in> set xs. K x) (\<Union>x \<in> set xs. E x) \<and> I s'"
  using assms
proof (induction xs arbitrary: s)
  case Nil
  then show ?case by (simp add: grows_refl)
next
  case (Cons x xs)
  from Cons.prems(1) obtain s1 where s1: "f x s = Inr s1" "each f xs s1 = Inr s'"
    by (auto simp: bind_result_Inr_iff)
  from Cons.prems(4) [OF _ Cons.prems(2,3) s1(1)] have step: "grows (p s) (p s1) (K x) (E x)" "I s1" by simp_all
  then have "grows (p s1) (p s') (\<Union>x \<in> set xs. K x) (\<Union>x \<in> set xs. E x) \<and> I s'"
    using Cons.prems(4) by (intro Cons.IH s1(2) growsD(1) [OF step(1)]) auto
  with step(1) show ?case by (simp add: grows_trans)
qed

text \<open>What the accumulator of a loop holds at the end.\<close>

lemma each_collects:
  assumes "each f xs s = Inr s'" "\<And>x s s'. f x s = Inr s' \<Longrightarrow> q s' = q s \<union> A x"
  shows "q s' = q s \<union> (\<Union>x \<in> set xs. A x)"
  using assms(1)
proof (induction xs arbitrary: s)
  case (Cons x xs)
  then obtain s1 where "f x s = Inr s1" "each f xs s1 = Inr s'" by (auto simp: bind_result_Inr_iff)
  with Cons.IH assms(2) show ?case by fastforce
qed simp

lemma link_part_grows:
  assumes "writer_ok w" "f \<in> set (gw_objects w)" "o_object_type f \<noteq> ty"
  shows "grows w (link_part f ty rel nm w) {(ty, nm)} {link (okey f) rel (ty, nm)}"
proof -
  obtain t w1 where a: "add_object ty nm w = (t, w1)" by (metis surj_pair)
  note t = add_object_grows [OF assms(1) a]
  have "grows w1 (add_relationship f t rel w1) {} {link (okey f) rel (okey t)}"
    using t assms(2,3) by (intro add_relationship_grows) (auto simp: grows_def okey_def)
  with t have "grows w (add_relationship f t rel w1) ({(ty, nm)} \<union> {}) ({} \<union> {link (okey f) rel (okey t)})"
    by (intro grows_trans) auto
  with t show ?thesis by (simp add: link_part_def a)
qed

lemma link_whole_grows:
  assumes "writer_ok w" "t \<in> set (gw_objects w)" "o_object_type t \<noteq> ty"
  shows "grows w (link_whole t ty rel nm w) {(ty, nm)} {link (ty, nm) rel (okey t)}"
proof -
  obtain f w1 where a: "add_object ty nm w = (f, w1)" by (metis surj_pair)
  note f = add_object_grows [OF assms(1) a]
  have "grows w1 (add_relationship f t rel w1) {} {link (okey f) rel (okey t)}"
    using f assms(2,3) by (intro add_relationship_grows) (auto simp: grows_def okey_def)
  with f have "grows w (add_relationship f t rel w1) ({(ty, nm)} \<union> {}) ({} \<union> {link (okey f) rel (okey t)})"
    by (intro grows_trans) auto
  with f show ?thesis by (simp add: link_whole_def a)
qed

lemma fold_link_part_grows:
  assumes "writer_ok w" "f \<in> set (gw_objects w)" "o_object_type f \<noteq> ty"
  shows "grows w (fold (\<lambda>x. link_part f ty rel (q x)) xs w) ((\<lambda>x. (ty, q x)) ` set xs)
           ((\<lambda>x. link (okey f) rel (ty, q x)) ` set xs)"
proof -
  have "grows w (fold (\<lambda>x. link_part f ty rel (q x)) xs w) (\<Union>x \<in> set xs. {(ty, q x)}) (\<Union>x \<in> set xs. {link (okey f) rel (ty, q x)}) \<and>
      f \<in> set (gw_objects (fold (\<lambda>x. link_part f ty rel (q x)) xs w))"
    using assms(1,2)
  proof (rule grows_fold)
    fix x w assume w: "writer_ok w" "f \<in> set (gw_objects w)"
    note g = link_part_grows [OF w assms(3), of rel "q x"]
    with growsD(3) [OF g] w(2)
    show "grows w (link_part f ty rel (q x) w) {(ty, q x)} {link (okey f) rel (ty, q x)} \<and> f \<in> set (gw_objects (link_part f ty rel (q x) w))" by auto
  qed
  then show ?thesis by (simp add: UNION_singleton_eq_range)
qed

lemma fold_link_whole_grows:
  assumes "writer_ok w" "t \<in> set (gw_objects w)" "o_object_type t \<noteq> ty"
  shows "grows w (fold (\<lambda>x. link_whole t ty rel (q x)) xs w) ((\<lambda>x. (ty, q x)) ` set xs)
           ((\<lambda>x. link (ty, q x) rel (okey t)) ` set xs)"
proof -
  have "grows w (fold (\<lambda>x. link_whole t ty rel (q x)) xs w) (\<Union>x \<in> set xs. {(ty, q x)}) (\<Union>x \<in> set xs. {link (ty, q x) rel (okey t)}) \<and>
      t \<in> set (gw_objects (fold (\<lambda>x. link_whole t ty rel (q x)) xs w))"
    using assms(1,2)
  proof (rule grows_fold)
    fix x w assume w: "writer_ok w" "t \<in> set (gw_objects w)"
    note g = link_whole_grows [OF w assms(3), of rel "q x"]
    with growsD(3) [OF g] w(2)
    show "grows w (link_whole t ty rel (q x) w) {(ty, q x)} {link (ty, q x) rel (okey t)} \<and> t \<in> set (gw_objects (link_whole t ty rel (q x) w))" by auto
  qed
  then show ?thesis by (simp add: UNION_singleton_eq_range)
qed

lemma known_object_Inr:
  "known_object ty nm w = Inr ob \<Longrightarrow> ob \<in> set (gw_objects w) \<and> okey ob = (ty, nm) \<and> o_object_type ob = ty"
  by (auto simp: known_object_def okey_def dest: get_object_Some split: option.splits)

text \<open>An edge to an object that may not be there.\<close>

lemma maybe_link_grows:
  assumes "writer_ok w" "ob \<in> set (gw_objects w)" "okey ob \<noteq> (ty, nm)"
  shows "grows w (case get_object (gw_objects w) ty nm of None \<Rightarrow> w | Some t \<Rightarrow> add_relationship ob t rel w) {}
           (if (ty, nm) \<in> writer_keys w then {link (okey ob) rel (ty, nm)} else {})"
proof (cases "get_object (gw_objects w) ty nm")
  case None
  then have "(ty, nm) \<notin> writer_keys w" by (simp add: get_object_None writer_keys_def)
  with None assms(1) show ?thesis by (simp add: grows_refl)
next
  case (Some t)
  note t = get_object_Some [OF Some]
  then have "(ty, nm) \<in> writer_keys w" by (metis writer_keys_def keys_of_def imageI)
  moreover have "grows w (add_relationship ob t rel w) {} {link (okey ob) rel (okey t)}"
    using assms t by (intro add_relationship_grows) auto
  ultimately show ?thesis using t Some by simp
qed

definition cube_part :: "live_server \<Rightarrow> string \<Rightarrow> (cube_info \<Rightarrow> 'a set) \<Rightarrow> 'a set" where
  "cube_part S nm F = (case sv_cube S nm of Inl _ \<Rightarrow> {} | Inr ci \<Rightarrow> F ci)"

lemma cube_step_grows:
  assumes "writer_ok (fst st)" "cube_step S nm st = Inr st'"
  shows "grows (fst st) (fst st')
     (cube_part S nm (\<lambda>ci. insert (''cube'', ci_name ci) (Pair ''dimension'' ` set (ci_dimensions ci))))
     (cube_part S nm (\<lambda>ci. (\<lambda>d. link (''cube'', ci_name ci) ''uses_dimension'' (''dimension'', d)) ` set (ci_dimensions ci)))"
proof -
  from assms(2) obtain ci where ci: "sv_cube S nm = Inr ci" by (auto simp: cube_step_def bind_result_Inr_iff)
  obtain c w where a: "add_object ''cube'' (ci_name ci) (fst st) = (c, w)" by (metis surj_pair)
  from assms(2) have st': "st' = (fold (link_part c ''dimension'' ''uses_dimension'') (ci_dimensions ci) w,
      snd st @ (if ci_has_rules ci then [ci_name ci] else []))"
    by (simp add: cube_step_def ci a)
  note c = add_object_grows [OF assms(1) a]
  have "grows w (fst st') (Pair ''dimension'' ` set (ci_dimensions ci))
      ((\<lambda>d. link (okey c) ''uses_dimension'' (''dimension'', d)) ` set (ci_dimensions ci))"
    using fold_link_part_grows [where q = "\<lambda>x. x", of w c] c by (auto simp: st' okey_def dest: growsD(1))
  from grows_trans [OF conjunct1 [OF c] this] c
  show "grows (fst st) (fst st')
     (cube_part S nm (\<lambda>ci. insert (''cube'', ci_name ci) (Pair ''dimension'' ` set (ci_dimensions ci))))
     (cube_part S nm (\<lambda>ci. (\<lambda>d. link (''cube'', ci_name ci) ''uses_dimension'' (''dimension'', d)) ` set (ci_dimensions ci)))"
    by (simp add: cube_part_def ci)
qed

lemma cube_step_collects:
  assumes "cube_step S nm st = Inr st'"
  shows "set (snd st') = set (snd st) \<union> cube_part S nm (\<lambda>ci. if ci_has_rules ci then {ci_name ci} else {})"
proof -
  from assms obtain ci where ci: "sv_cube S nm = Inr ci" by (auto simp: cube_step_def bind_result_Inr_iff)
  obtain c w where "add_object ''cube'' (ci_name ci) (fst st) = (c, w)" by (metis surj_pair)
  with assms ci show ?thesis by (auto simp: cube_step_def cube_part_def)
qed

lemma hierarchy_step_grows:
  assumes "writer_ok w" "hierarchy_step S d w = Inr w'"
  shows "grows w w' ((\<lambda>h. (''hierarchy'', qualified_name d h)) ` set (hierarchies_of S d))
    ((\<lambda>h. link (''dimension'', d) ''contains_hierarchy'' (''hierarchy'', qualified_name d h)) ` set (hierarchies_of S d))"
proof -
  from assms(2) obtain ob hs where "known_object ''dimension'' d w = Inr ob" "sv_hierarchies S d = Inr hs"
      "w' = fold (\<lambda>h. link_part ob ''hierarchy'' ''contains_hierarchy'' (qualified_name d h)) hs w"
    by (auto simp: hierarchy_step_def bind_result_Inr_iff)
  with assms(1) show ?thesis
    using fold_link_part_grows [OF assms(1), where f = ob and ty = "''hierarchy''" and xs = hs and q = "qualified_name d"]
    by (auto simp: hierarchies_of_def answered_def dest!: known_object_Inr)
qed

lemma views_step_grows:
  assumes "writer_ok w" "views_step S c w = Inr w'"
  shows "grows w w' ((\<lambda>v. (''view'', qualified_name c v)) ` set (views_of S c))
    ((\<lambda>v. link (''view'', qualified_name c v) ''view_of_cube'' (''cube'', c)) ` set (views_of S c))"
proof (cases "sv_views S c")
  case (Inl e)
  then show ?thesis using assms by (simp add: views_step_def views_of_def answered_def grows_refl)
next
  case (Inr vs)
  with assms(2) obtain ob where "known_object ''cube'' c w = Inr ob"
      "w' = fold (\<lambda>v. link_whole ob ''view'' ''view_of_cube'' (qualified_name c v)) (take MAX_VIEWS_PER_CUBE vs) w"
    by (auto simp: views_step_def bind_result_Inr_iff)
  with Inr assms(1) show ?thesis
    using fold_link_whole_grows [OF assms(1), where t = ob and ty = "''view''" and q = "qualified_name c"]
    by (auto simp: views_of_def answered_def dest!: known_object_Inr)
qed

lemma subsets_step_grows:
  assumes "writer_ok w" "subsets_step S d w = Inr w'"
  shows "grows w w' ((\<lambda>s. (''subset'', qualified_name d s)) ` set (subsets_of S d))
    ((\<lambda>s. link (''subset'', qualified_name d s) ''subset_of_dimension'' (''dimension'', d)) ` set (subsets_of S d))"
proof (cases "sv_subsets S d")
  case (Inl e)
  then show ?thesis using assms by (simp add: subsets_step_def subsets_of_def answered_def grows_refl)
next
  case (Inr ss)
  with assms(2) obtain ob where "known_object ''dimension'' d w = Inr ob"
      "w' = fold (\<lambda>s. link_whole ob ''subset'' ''subset_of_dimension'' (qualified_name d s)) (take MAX_SUBSETS_PER_DIMENSION ss) w"
    by (auto simp: subsets_step_def bind_result_Inr_iff)
  with Inr assms(1) show ?thesis
    using fold_link_whole_grows [OF assms(1), where t = ob and ty = "''subset''" and q = "qualified_name d"]
    by (auto simp: subsets_of_def answered_def dest!: known_object_Inr)
qed

text \<open>Edges to objects among those of a fixed map.\<close>

lemma fold_maybe_link_grows:
  assumes "writer_ok w" "ob \<in> set (gw_objects w)"
    and "\<And>x. x \<in> set xs \<Longrightarrow> \<not> skip x \<Longrightarrow> okey ob \<noteq> (ty, x)"
    and f: "\<And>x w. f x w = (if skip x then w else case get_object (gw_objects w) ty x of
              None \<Rightarrow> w | Some t \<Rightarrow> add_relationship ob t rel w)"
  shows "grows w (fold f xs w) {}
           ((\<lambda>x. link (okey ob) rel (ty, x)) ` {x \<in> set xs. \<not> skip x \<and> (ty, x) \<in> writer_keys w})"
proof -
  let ?E = "\<lambda>x. if \<not> skip x \<and> (ty, x) \<in> writer_keys w then {link (okey ob) rel (ty, x)} else {}"
  have "grows w (fold f xs w) (\<Union>x \<in> set xs. {}) (\<Union>x \<in> set xs. ?E x) \<and>
      (ob \<in> set (gw_objects (fold f xs w)) \<and> writer_keys (fold f xs w) = writer_keys w)"
  proof (rule grows_fold [where I = "\<lambda>w'. ob \<in> set (gw_objects w') \<and> writer_keys w' = writer_keys w"])
    fix x w' assume x: "x \<in> set xs" "writer_ok w'" and w': "ob \<in> set (gw_objects w') \<and> writer_keys w' = writer_keys w"
    have "grows w' (f x w') {} (?E x)"
    proof (cases "skip x")
      case True
      with x show ?thesis by (simp add: f grows_refl)
    next
      case False
      with maybe_link_grows [of w' ob ty x rel] x w' assms(3) [OF x(1)] show ?thesis by (simp add: f)
    qed
    with w' show "grows w' (f x w') {} (?E x) \<and> (ob \<in> set (gw_objects (f x w')) \<and> writer_keys (f x w') = writer_keys w)"
      by (auto dest: growsD(3,4))
  qed (use assms in auto)
  then show ?thesis by (auto elim!: grows_cong)
qed

lemma rules_step_grows:
  assumes "writer_ok w" "rules_step S c w = Inr w'"
  shows "grows w w' {}
    ((\<lambda>r. link (''cube'', c) ''references_cube'' (''cube'', r)) `
       ({r \<in> set (references_of S c). r \<noteq> c} \<inter> {r. (''cube'', r) \<in> writer_keys w}))"
proof -
  from assms(2) obtain t ob where t: "sv_cube_rules S c = Inr t" and ob: "known_object ''cube'' c w = Inr ob"
    and w': "w' = fold (rule_link c ob) (extract_rule_cube_references (case t of None \<Rightarrow> [] | Some s \<Rightarrow> s)) w"
    by (auto simp: rules_step_def bind_result_Inr_iff)
  have refs: "set (extract_rule_cube_references (case t of None \<Rightarrow> [] | Some s \<Rightarrow> s)) = set (references_of S c)"
    by (simp add: extract_rule_cube_references_def references_of_def t split: option.split)
  have "grows w w' {} ((\<lambda>x. link (okey ob) ''references_cube'' (''cube'', x)) `
      {x \<in> set (extract_rule_cube_references (case t of None \<Rightarrow> [] | Some s \<Rightarrow> s)).
        \<not> x = c \<and> (''cube'', x) \<in> writer_keys w})"
    unfolding w' using assms(1) known_object_Inr [OF ob]
    by (intro fold_maybe_link_grows) (auto simp: rule_link_def)
  then show ?thesis
    using known_object_Inr [OF ob] by (auto simp: refs elim!: grows_cong)
qed

definition process_part :: "live_server \<Rightarrow> string \<Rightarrow> process_info set" where
  "process_part S nm = (case sv_process S nm of Inl _ \<Rightarrow> {} | Inr info \<Rightarrow> {info})"

lemma process_step_grows:
  assumes "writer_ok (fst st)" "process_step S nm st = Inr st'"
  shows "grows (fst st) (fst st') (Pair ''process'' ` pi_name ` process_part S nm) {}"
proof -
  from assms(2) obtain info where i: "sv_process S nm = Inr info"
    and st': "st' = (snd (add_object ''process'' (pi_name info) (fst st)), snd st @ [info])"
    by (auto simp: process_step_def bind_result_Inr_iff)
  obtain ob w where a: "add_object ''process'' (pi_name info) (fst st) = (ob, w)" by (metis surj_pair)
  from add_object_grows [OF assms(1) a]
  show "grows (fst st) (fst st') (Pair ''process'' ` pi_name ` process_part S nm) {}"
    by (simp add: st' a process_part_def i)
qed

lemma process_step_collects:
  "process_step S nm st = Inr st' \<Longrightarrow> set (snd st') = set (snd st) \<union> process_part S nm"
  by (auto simp: process_step_def bind_result_Inr_iff process_part_def)

definition chore_part :: "live_server \<Rightarrow> string \<Rightarrow> chore_info set" where
  "chore_part S nm = (case sv_chore S nm of Inl _ \<Rightarrow> {} | Inr hi \<Rightarrow> {hi})"

lemma chore_step_grows:
  assumes "writer_ok w" "chore_step S nm w = Inr w'"
  shows "grows w w' (Pair ''chore'' ` hi_name ` chore_part S nm)
    (\<Union>hi \<in> chore_part S nm. (\<lambda>p. link (''chore'', hi_name hi) ''runs_process'' (''process'', p)) `
       (set (hi_process_names hi) \<inter> {p. (''process'', p) \<in> writer_keys w}))"
proof -
  from assms(2) obtain hi where hi: "sv_chore S nm = Inr hi" by (auto simp: chore_step_def bind_result_Inr_iff)
  obtain ob w1 where a: "add_object ''chore'' (hi_name hi) w = (ob, w1)" by (metis surj_pair)
  note ob = add_object_grows [OF assms(1) a]
  from assms(2) have w': "w' = fold (chore_link ob) (hi_process_names hi) w1" by (simp add: chore_step_def hi a)
  have "grows w1 w' {} ((\<lambda>x. link (okey ob) ''runs_process'' (''process'', x)) `
      {x \<in> set (hi_process_names hi). \<not> False \<and> (''process'', x) \<in> writer_keys w1})"
    unfolding w' using ob growsD(1) [OF conjunct1 [OF ob]]
    by (intro fold_maybe_link_grows) (auto simp: chore_link_def)
  from grows_trans [OF conjunct1 [OF ob] this] show ?thesis
    using ob growsD(4) [OF conjunct1 [OF ob]] by (auto simp: chore_part_def hi elim!: grows_cong)
qed

section \<open>Lookups, by name\<close>

definition index_ok :: "tm1_object list \<Rightarrow> bool" where
  "index_ok objs \<longleftrightarrow> distinct (map okey objs) \<and> names_unique (keys_of objs)"

lemma keys_ofI: "ob \<in> set objs \<Longrightarrow> okey ob \<in> keys_of objs"
  by (simp add: keys_of_def)

lemma graph_lookup_in: "graph_lookup objs kind nm = Some ob \<Longrightarrow> ob \<in> set objs \<and> okey ob \<in> named (keys_of objs) kind nm"
  by (auto simp: graph_lookup_def by_lower_def named_def okey_def keys_of_def
      dest!: find_SomeD get_object_Some split: option.splits)

lemma graph_lookup_None: "graph_lookup objs kind nm = None \<Longrightarrow> named (keys_of objs) kind nm = {}"
  by (auto simp: graph_lookup_def by_lower_def named_def okey_def keys_of_def find_None_iff_all split: option.splits)

lemma graph_lookup_named:
  assumes "index_ok objs" "kind \<in> {''cube'', ''dimension'', ''process''}"
  shows "(\<lambda>ob. okey ob) ` set_option (graph_lookup objs kind nm) = named (keys_of objs) kind nm"
proof (cases "graph_lookup objs kind nm")
  case (Some ob)
  note ob = graph_lookup_in [OF Some]
  have "k = okey ob" if "k \<in> named (keys_of objs) kind nm" for k
    using that ob assms by (auto simp: named_def index_ok_def names_unique_def)
  with Some ob show ?thesis by auto
qed (simp add: graph_lookup_None)

lemma by_short_name_in:
  "by_short_name objs kind nm = Some ob \<Longrightarrow> ob \<in> set objs"
proof -
  assume "by_short_name objs kind nm = Some ob"
  then have "[ob] = filter (\<lambda>ob. o_object_type ob = kind \<and> lower (after_colon (o_name ob)) = lower nm) objs"
    by (auto simp: by_short_name_def split: list.splits)
  from arg_cong [OF this, of set] show ?thesis by auto
qed

lemma by_short_name_named:
  assumes "index_ok objs"
  shows "okey ` set_option (by_short_name objs kind nm) = short_named (keys_of objs) kind nm"
proof -
  define m :: "tm1_object \<Rightarrow> bool" where "m = (\<lambda>ob. o_object_type ob = kind \<and> lower (after_colon (o_name ob)) = lower nm)"
  define M where "M = {k \<in> keys_of objs. fst k = kind \<and> lower (after_colon (snd k)) = lower nm}"
  have M: "M = okey ` set (filter m objs)" by (auto simp: keys_of_def okey_def m_def M_def)
  have "distinct (map okey (filter m objs))" using assms by (simp add: index_ok_def distinct_map_filter)
  from distinct_card [OF this] have card: "card M = length (filter m objs)" by (simp add: M)
  have "by_short_name objs kind nm = (case filter m objs of [ob] \<Rightarrow> Some ob | _ \<Rightarrow> None)"
    "short_named (keys_of objs) kind nm = (if card M = 1 then M else {})"
    by (simp_all add: by_short_name_def short_named_def m_def M_def)
  then show ?thesis unfolding card unfolding M by (cases "filter m objs") (auto split: list.splits)
qed

lemma ref_target_in: "ref_target objs r = Some (ob, rel) \<Longrightarrow> ob \<in> set objs"
  by (auto simp: ref_target_def Let_def dest: graph_lookup_in by_short_name_in split: if_splits)

lemma image_set_option_map:
  "g ` set_option (map_option (\<lambda>ob. (ob, rel)) x) = (\<lambda>ob. g (ob, rel)) ` set_option x"
  by (auto simp: option.set_map)

lemma ref_target_named:
  assumes "index_ok objs"
  shows "(\<lambda>(ob, rel). (okey ob, rel)) ` set_option (ref_target objs r) = ref_targets (keys_of objs) r"
proof -
  have L: "(\<lambda>x. (okey x, rel)) ` set_option (graph_lookup objs kind nm) = (\<lambda>k. (k, rel)) ` named (keys_of objs) kind nm"
    if "kind \<in> {''cube'', ''dimension'', ''process''}" for kind nm rel
    using arg_cong [OF graph_lookup_named [OF assms that, of nm], of "image (\<lambda>k. (k, rel))"] by (simp add: image_image)
  have N: "(\<lambda>x. (okey x, rel)) ` set_option (by_short_name objs kind nm) = (\<lambda>k. (k, rel)) ` short_named (keys_of objs) kind nm"
    for kind nm rel
    using arg_cong [OF by_short_name_named [OF assms, of kind nm], of "image (\<lambda>k. (k, rel))"] by (simp add: image_image)
  show ?thesis
    by (auto simp: ref_target_def ref_targets_def Let_def image_set_option_map L N simp del: option.set_map)
qed

lemma source_edges_in: "(ob, rel) \<in> set (source_edges objs info) \<Longrightarrow> ob \<in> set objs"
  by (auto simp: source_edges_def dest: graph_lookup_in [OF sym] get_object_Some [OF sym] split: if_splits option.splits)

lemma process_edges_in: "(ob, rel) \<in> set (fst (process_edges known info objs)) \<Longrightarrow> ob \<in> set objs"
  by (auto simp: process_edges_def Let_def List.map_filter_def dest: source_edges_in ref_target_in)

lemma source_edges_named:
  assumes "index_ok objs"
  shows "(\<lambda>(ob, rel). (okey ob, rel)) ` set (source_edges objs info) = source_targets (keys_of objs) info"
proof (cases "graph_lookup objs ''cube'' (pi_datasource_name info)")
  case None
  then show ?thesis by (auto simp: source_edges_def source_targets_def dest: graph_lookup_None)
next
  case (Some c)
  with graph_lookup_named [OF assms, of "''cube''" "pi_datasource_name info"]
  have c: "named (keys_of objs) ''cube'' (pi_datasource_name info) = {okey c}" by auto
  have name: "snd (okey c) = o_name c" by (simp add: okey_def)
  show ?thesis
  proof (cases "get_object objs ''view'' (qualified_name (o_name c) (pi_datasource_view info))")
    case None
    then have "(''view'', qualified_name (o_name c) (pi_datasource_view info)) \<notin> keys_of objs"
      by (simp add: get_object_None)
    with None show ?thesis by (simp add: source_edges_def source_targets_def Some c name)
  next
    case (Some v)
    note v = get_object_Some [OF Some]
    then have "(''view'', qualified_name (o_name c) (pi_datasource_view info)) \<in> keys_of objs"
      by (metis keys_ofI)
    with Some v \<open>graph_lookup objs _ _ = Some c\<close> show ?thesis
      by (simp add: source_edges_def source_targets_def c name insert_commute)
  qed
qed

lemma image_map_filter: "g ` set (List.map_filter f xs) = (\<Union>x \<in> set xs. g ` set_option (f x))"
  by (induction xs) (auto simp: List.map_filter_simps split: option.splits)

lemma process_edges_named:
  assumes "index_ok objs"
  shows "(\<lambda>(ob, rel). (okey ob, rel)) ` set (fst (process_edges known info objs)) =
    process_targets known (keys_of objs) info"
  by (simp add: process_edges_def Let_def process_targets_def image_Un source_edges_named [OF assms]
      image_map_filter ref_target_named [OF assms])

lemma set_map_filter: "set (List.map_filter f xs) = {y. \<exists>x \<in> set xs. f x = Some y}"
  by (induction xs) (auto simp: List.map_filter_simps split: option.splits)

text \<open>The edges of one process, drawn from an index of the map.\<close>

lemma out_edges_named:
  assumes "index_ok objs" "ob \<in> set objs" "okey ob = (''process'', pi_name info)"
  shows "(\<lambda>(t, rel). link (okey ob) rel (okey t)) ` {(t, rel) \<in> set (fst (process_edges known info objs)). t \<noteq> ob} =
    process_out known (keys_of objs) info"
proof -
  let ?E = "set (fst (process_edges known info objs))"
  have inj: "t = ob \<longleftrightarrow> okey t = okey ob" if "(t, rel) \<in> ?E" for t rel
    using assms(1,2) process_edges_in [OF that] by (auto simp: index_ok_def distinct_map dest: inj_onD)
  have "process_out known (keys_of objs) info =
      (\<lambda>(t, rel). link (okey ob) rel t) ` {(t, rel) \<in> (\<lambda>(ob, rel). (okey ob, rel)) ` ?E. t \<noteq> okey ob}"
    by (simp add: process_out_def process_edges_named [OF assms(1)] assms(3))
  also have "{(t, rel) \<in> (\<lambda>(ob, rel). (okey ob, rel)) ` ?E. t \<noteq> okey ob} =
      (\<lambda>(t, rel). (okey t, rel)) ` {(t, rel) \<in> ?E. t \<noteq> ob}"
    using inj by (force simp: image_iff)
  also have "(\<lambda>(t, rel). link (okey ob) rel t) ` (\<lambda>(t, rel). (okey t, rel)) ` {(t, rel) \<in> ?E. t \<noteq> ob} =
      (\<lambda>(t, rel). link (okey ob) rel (okey t)) ` {(t, rel) \<in> ?E. t \<noteq> ob}"
    by (simp add: image_image case_prod_beta)
  finally show ?thesis ..
qed

lemma edges_step_grows:
  assumes "writer_ok (fst st)" "edges_step known objs info st = Inr st'"
    and objs: "index_ok objs" "set objs = set (gw_objects (fst st))"
  shows "grows (fst st) (fst st') {} (process_out known (keys_of objs) info)"
proof -
  from assms(2) obtain ob where ob: "known_object ''process'' (pi_name info) (fst st) = Inr ob"
    by (auto simp: edges_step_def bind_result_Inr_iff)
  let ?es = "fst (process_edges known info objs)"
  let ?f = "\<lambda>(t, rel) w. if t = ob then w else add_relationship ob t rel w"
  from assms(2) have st': "fst st' = fold ?f ?es (fst st)"
    by (auto simp: edges_step_def ob case_prod_beta)
  let ?E = "\<lambda>(t, rel). if t = ob then {} else {link (okey ob) rel (okey t)}"
  have "grows (fst st) (fold ?f ?es (fst st)) (\<Union>x \<in> set ?es. {}) (\<Union>x \<in> set ?es. ?E x) \<and>
      set objs \<subseteq> set (gw_objects (fold ?f ?es (fst st)))"
  proof (rule grows_fold [where I = "\<lambda>w. set objs \<subseteq> set (gw_objects w)"])
    fix x w assume x: "x \<in> set ?es" "writer_ok w" and w: "set objs \<subseteq> set (gw_objects w)"
    obtain t rel where [simp]: "x = (t, rel)" by (rule prod.exhaust)
    have "t \<in> set objs" using x(1) process_edges_in by auto
    moreover have "ob \<in> set objs" using known_object_Inr [OF ob] objs(2) by simp
    ultimately have g: "grows w (?f x w) {} (?E x)"
      using x(2) w by (auto intro: grows_refl add_relationship_grows)
    from g subset_trans [OF w growsD(3) [OF g]]
    show "grows w (?f x w) {} (?E x) \<and> set objs \<subseteq> set (gw_objects (?f x w))" ..
  qed (use assms in auto)
  then have "grows (fst st) (fst st') {} ((\<lambda>(t, rel). link (okey ob) rel (okey t)) ` {(t, rel) \<in> set ?es. t \<noteq> ob})"
    unfolding st' by (elim conjE grows_cong) (auto split: if_splits)
  then show ?thesis
    using out_edges_named [of objs ob info known] known_object_Inr [OF ob] objs by simp
qed

section \<open>An extraction reads the model\<close>

lemma new_writer_ok: "inj ids \<Longrightarrow> writer_ok (new_writer conn org ids)"
  by (simp add: writer_ok_def new_writer_def)

lemma new_writer_empty [simp]: "writer_keys (new_writer conn org ids) = {}" "writer_edges (new_writer conn org ids) = {}"
  by (simp_all add: new_writer_def writer_keys_def keys_of_def writer_edges_def edge_names_def)

lemma set_list_names: "set (list_names ty w) = {nm. (ty, nm) \<in> writer_keys w}"
  by (force simp: list_names_def writer_keys_def keys_of_def okey_def)

lemma UN_cube_part:
  "sv_cubes S = Inr cubes \<Longrightarrow> (\<Union>n \<in> set cubes. cube_part S n F) = (\<Union>ci \<in> server_cubes S. F ci)"
  by (auto simp: server_cubes_def answered_def cube_part_def split: sum.splits) force

lemma structure_cubes_grow:
  assumes "inj ids" "sv_cubes S = Inr cubes" "each (cube_step S) cubes (new_writer conn org ids, []) = Inr (w1, ruled)"
  shows "grows (new_writer conn org ids) w1 (Pair ''cube'' ` cube_names S \<union> Pair ''dimension'' ` dimension_names S)
      (\<Union>ci \<in> server_cubes S.
         (\<lambda>d. link (''cube'', ci_name ci) ''uses_dimension'' (''dimension'', d)) ` set (ci_dimensions ci))"
    "set ruled = {c. \<exists>ci \<in> server_cubes S. ci_has_rules ci \<and> c = ci_name ci}"
proof -
  let ?w0 = "new_writer conn org ids"
  let ?K1 = "\<lambda>ci. insert (''cube'', ci_name ci) (Pair ''dimension'' ` set (ci_dimensions ci))"
  let ?E1 = "\<lambda>ci. (\<lambda>d. link (''cube'', ci_name ci) ''uses_dimension'' (''dimension'', d)) ` set (ci_dimensions ci)"
  have "grows ?w0 w1 (\<Union>n \<in> set cubes. cube_part S n ?K1) (\<Union>n \<in> set cubes. cube_part S n ?E1)"
    using each_grows [OF assms(3), where p = fst and I = "\<lambda>_. True" and K = "\<lambda>n. cube_part S n ?K1"
        and E = "\<lambda>n. cube_part S n ?E1"] new_writer_ok [OF assms(1)] cube_step_grows(1) by simp
  then show "grows ?w0 w1 (Pair ''cube'' ` cube_names S \<union> Pair ''dimension'' ` dimension_names S)
      (\<Union>ci \<in> server_cubes S. ?E1 ci)"
    unfolding UN_cube_part [OF assms(2)] by (elim grows_cong) (auto simp: cube_names_def dimension_names_def)
  show "set ruled = {c. \<exists>ci \<in> server_cubes S. ci_has_rules ci \<and> c = ci_name ci}"
    using each_collects [OF assms(3), of "\<lambda>st. set (snd st)", OF cube_step_collects]
    by (auto simp: UN_cube_part [OF assms(2)] split: if_splits)
qed

lemma structure_phases_grows:
  assumes "inj ids" "structure_phases S (new_writer conn org ids) = Inr w"
  shows "grows (new_writer conn org ids) w (structure_objects S) (structure_edges S)"
proof -
  let ?w0 = "new_writer conn org ids"
  from assms(2) obtain cubes w1 ruled w2 w3 w4 where
    cubes: "sv_cubes S = Inr cubes" and s1: "each (cube_step S) cubes (?w0, []) = Inr (w1, ruled)"
    and s2: "each (hierarchy_step S) (list_names ''dimension'' w1) w1 = Inr w2"
    and s3: "each (rules_step S) ruled w2 = Inr w3"
    and s4: "each (views_step S) (list_names ''cube'' w3) w3 = Inr w4"
    and s5: "each (subsets_step S) (list_names ''dimension'' w4) w4 = Inr w"
    by (auto simp: structure_phases_def bind_result_Inr_iff)
  note g1 = structure_cubes_grow(1) [OF assms(1) cubes s1] and ruled = structure_cubes_grow(2) [OF assms(1) cubes s1]
  note ok1 = growsD(1) [OF g1]
  have keys1: "writer_keys w1 = Pair ''cube'' ` cube_names S \<union> Pair ''dimension'' ` dimension_names S"
    using growsD(4) [OF g1] by simp
  then have dims: "set (list_names ''dimension'' w1) = dimension_names S" by (auto simp: set_list_names)
  have g2: "grows w1 w2
      (\<Union>d \<in> dimension_names S. (\<lambda>h. (''hierarchy'', qualified_name d h)) ` set (hierarchies_of S d))
      (\<Union>d \<in> dimension_names S.
         (\<lambda>h. link (''dimension'', d) ''contains_hierarchy'' (''hierarchy'', qualified_name d h)) ` set (hierarchies_of S d))"
    using each_grows [OF s2, where p = "\<lambda>w. w" and I = "\<lambda>_. True", OF ok1 TrueI conjI [OF hierarchy_step_grows TrueI]]
    by (simp add: dims)
  note ok2 = growsD(1) [OF g2]
  have cubes2: "{r. (''cube'', r) \<in> writer_keys w2} = cube_names S"
    using growsD(4) [OF g2] by (auto simp: keys1)
  let ?E3 = "\<lambda>c. (\<lambda>r. link (''cube'', c) ''references_cube'' (''cube'', r)) `
      ({r \<in> set (references_of S c). r \<noteq> c} \<inter> cube_names S)"
  have "grows w2 w3 (\<Union>c \<in> set ruled. {}) (\<Union>c \<in> set ruled. ?E3 c) \<and>
      {r. (''cube'', r) \<in> writer_keys w3} = cube_names S"
  proof (rule each_grows [OF s3, where p = "\<lambda>w. w" and I = "\<lambda>w. {r. (''cube'', r) \<in> writer_keys w} = cube_names S"])
    fix c w w' assume "writer_ok w" "rules_step S c w = Inr w'" and c: "{r. (''cube'', r) \<in> writer_keys w} = cube_names S"
    from rules_step_grows [OF this(1,2)] show "grows w w' {} (?E3 c) \<and> {r. (''cube'', r) \<in> writer_keys w'} = cube_names S"
      unfolding c using c by (auto dest: growsD(4))
  qed (use ok2 cubes2 in auto)
  then have g3: "grows w2 w3 {} (\<Union>c \<in> set ruled. ?E3 c)" and cubes3: "{r. (''cube'', r) \<in> writer_keys w3} = cube_names S"
    by simp_all
  note ok3 = growsD(1) [OF g3]
  have g4: "grows w3 w4
      (\<Union>c \<in> cube_names S. (\<lambda>v. (''view'', qualified_name c v)) ` set (views_of S c))
      (\<Union>c \<in> cube_names S. (\<lambda>v. link (''view'', qualified_name c v) ''view_of_cube'' (''cube'', c)) ` set (views_of S c))"
    using each_grows [OF s4, where p = "\<lambda>w. w" and I = "\<lambda>_. True", OF ok3 TrueI conjI [OF views_step_grows TrueI]]
    by (simp add: set_list_names cubes3)
  note ok4 = growsD(1) [OF g4]
  have dims4: "set (list_names ''dimension'' w4) = dimension_names S"
    using growsD(4) [OF g2] growsD(4) [OF g3] growsD(4) [OF g4] by (auto simp: set_list_names keys1)
  have g5: "grows w4 w
      (\<Union>d \<in> dimension_names S. (\<lambda>s. (''subset'', qualified_name d s)) ` set (subsets_of S d))
      (\<Union>d \<in> dimension_names S.
         (\<lambda>s. link (''subset'', qualified_name d s) ''subset_of_dimension'' (''dimension'', d)) ` set (subsets_of S d))"
    using each_grows [OF s5, where p = "\<lambda>w. w" and I = "\<lambda>_. True", OF ok4 TrueI conjI [OF subsets_step_grows TrueI]]
    by (simp add: dims4)
  from grows_trans [OF grows_trans [OF grows_trans [OF grows_trans [OF g1 g2] g3] g4] g5]
  show ?thesis by (simp add: structure_objects_def structure_edges_def ruled)
qed

lemma structure_kinds:
  "(''process'', nm) \<notin> structure_objects S" "(''chore'', nm) \<notin> structure_objects S"
  by (auto simp: structure_objects_def)

text \<open>Chores are never named in TurboIntegrator code.\<close>

lemma named_chores: "kind \<noteq> ''chore'' \<Longrightarrow> named (K \<union> Pair ''chore'' ` X) kind nm = named K kind nm"
  by (auto simp: named_def)

lemma short_named_chores: "kind \<noteq> ''chore'' \<Longrightarrow> short_named (K \<union> Pair ''chore'' ` X) kind nm = short_named K kind nm"
proof -
  assume "kind \<noteq> ''chore''"
  then have "{k \<in> K \<union> Pair ''chore'' ` X. fst k = kind \<and> lower (after_colon (snd k)) = lower nm} =
      {k \<in> K. fst k = kind \<and> lower (after_colon (snd k)) = lower nm}" by auto
  then show ?thesis by (simp add: short_named_def Let_def)
qed

lemma process_out_chores: "process_out known (K \<union> Pair ''chore'' ` X) info = process_out known K info"
proof -
  have "ref_targets (K \<union> Pair ''chore'' ` X) r = ref_targets K r" for r
    by (simp add: ref_targets_def named_chores short_named_chores)
  moreover have "source_targets (K \<union> Pair ''chore'' ` X) info = source_targets K info"
  proof -
    have "{(''view'', q)} \<inter> (K \<union> Pair ''chore'' ` X) = {(''view'', q)} \<inter> K" for q by auto
    then show ?thesis by (simp add: source_targets_def named_chores cong: if_cong)
  qed
  ultimately show ?thesis by (simp add: process_out_def process_targets_def)
qed

lemma add_relationship_objects [simp]: "gw_objects (add_relationship f t rel w) = gw_objects w"
  by (simp add: add_relationship_def)

lemma fold_edges_objects:
  "gw_objects (fold (\<lambda>(t, rel) w. if t = ob then w else add_relationship ob t rel w) es w) = gw_objects w"
  by (induction es arbitrary: w) (simp_all add: case_prod_beta)

lemma edges_step_objects: "edges_step known objs info st = Inr st' \<Longrightarrow> gw_objects (fst st') = gw_objects (fst st)"
  by (cases "process_edges known info objs") (auto simp: edges_step_def bind_result_Inr_iff fold_edges_objects)

lemma names_unique_mono: "A \<subseteq> B \<Longrightarrow> names_unique B \<Longrightarrow> names_unique A"
  unfolding names_unique_def by blast

lemma process_phases_grows:
  assumes w: "writer_ok w" "writer_keys w = structure_objects S"
    and "process_phases known S w = Inr (w', u)" and unique: "names_unique (model_objects S)"
  shows "grows w w'
    (Pair ''process'' ` pi_name ` server_processes S \<union> Pair ''chore'' ` hi_name ` server_chores S)
    ((\<Union>info \<in> server_processes S. process_out known (model_objects S) info) \<union>
     chore_edges S (pi_name ` server_processes S))"
proof -
  from assms(3) obtain names w1 infos w2 chores where
    names: "sv_processes S = Inr names" and s1: "each (process_step S) names (w, []) = Inr (w1, infos)"
    and s2: "each (edges_step known (gw_objects w1)) infos (w1, 0) = Inr (w2, u)"
    and chores: "sv_chores S = Inr chores" and s3: "each (chore_step S) chores w2 = Inr w'"
    by (auto simp: process_phases_def bind_result_Inr_iff)
  have procs: "(\<Union>nm \<in> set names. process_part S nm) = server_processes S"
    by (auto simp: server_processes_def answered_def names process_part_def split: sum.splits)
  have hs: "(\<Union>nm \<in> set chores. chore_part S nm) = server_chores S"
    by (auto simp: server_chores_def answered_def chores chore_part_def split: sum.splits)
  have "grows w w1 (\<Union>nm \<in> set names. Pair ''process'' ` pi_name ` process_part S nm) (\<Union>nm \<in> set names. {})"
    using each_grows [OF s1, where p = fst and I = "\<lambda>_. True" and K = "\<lambda>nm. Pair ''process'' ` pi_name ` process_part S nm"
        and E = "\<lambda>_. {}"] w(1) process_step_grows by simp
  then have g1: "grows w w1 (Pair ''process'' ` pi_name ` server_processes S) {}"
    by (elim grows_cong) (auto simp flip: procs)
  have infos: "set infos = server_processes S"
    using each_collects [OF s1, of "\<lambda>st. set (snd st)", OF process_step_collects] by (simp add: procs)
  have keys1: "keys_of (gw_objects w1) = structure_objects S \<union> Pair ''process'' ` pi_name ` server_processes S"
    using growsD(4) [OF g1] w(2) by (simp add: writer_keys_def)
  have index: "index_ok (gw_objects w1)"
    using growsD(1) [OF g1] names_unique_mono [OF _ unique, of "keys_of (gw_objects w1)"]
    by (simp add: index_ok_def writer_ok_def) (simp add: keys1 model_objects_def)
  have out: "process_out known (keys_of (gw_objects w1)) info = process_out known (model_objects S) info" for info
    by (simp add: keys1 model_objects_def process_out_chores)
  have "grows w1 w2 (\<Union>info \<in> set infos. {}) (\<Union>info \<in> set infos. process_out known (model_objects S) info) \<and>
      set (gw_objects w2) = set (gw_objects w1)"
  proof -
    have "grows (fst (w1, 0::nat)) (fst (w2, u)) (\<Union>info \<in> set infos. {})
        (\<Union>info \<in> set infos. process_out known (model_objects S) info) \<and> gw_objects (fst (w2, u)) = gw_objects w1"
    proof (rule each_grows [OF s2])
      fix info st st' assume "writer_ok (fst st)" "gw_objects (fst st) = gw_objects w1"
        "edges_step known (gw_objects w1) info st = Inr st'"
      then show "grows (fst st) (fst st') {} (process_out known (model_objects S) info) \<and> gw_objects (fst st') = gw_objects w1"
        using edges_step_grows [OF _ _ index, of st known info st'] edges_step_objects [of known "gw_objects w1" info st st']
        by (simp add: out)
    qed (use growsD(1) [OF g1] in auto)
    then show ?thesis by simp
  qed
  then have g2: "grows w1 w2 {} (\<Union>info \<in> server_processes S. process_out known (model_objects S) info)"
    by (simp add: infos)
  let ?P = "pi_name ` server_processes S"
  have procs2: "{p. (''process'', p) \<in> writer_keys w2} = ?P"
    using growsD(4) [OF g2] by (auto simp: writer_keys_def keys1 structure_kinds)
  let ?K3 = "\<lambda>nm. Pair ''chore'' ` hi_name ` chore_part S nm"
  let ?E3 = "\<lambda>nm. \<Union>hi \<in> chore_part S nm. (\<lambda>p. link (''chore'', hi_name hi) ''runs_process'' (''process'', p)) `
       (set (hi_process_names hi) \<inter> ?P)"
  have "grows w2 w' (\<Union>nm \<in> set chores. ?K3 nm) (\<Union>nm \<in> set chores. ?E3 nm) \<and> {p. (''process'', p) \<in> writer_keys w'} = ?P"
  proof (rule each_grows [OF s3, where p = "\<lambda>w. w" and I = "\<lambda>w. {p. (''process'', p) \<in> writer_keys w} = ?P"])
    fix nm v v' assume "writer_ok v" "chore_step S nm v = Inr v'" and v: "{p. (''process'', p) \<in> writer_keys v} = ?P"
    note g = chore_step_grows [OF this(1,2), unfolded v]
    moreover have "{p. (''process'', p) \<in> writer_keys v'} = {p. (''process'', p) \<in> writer_keys v}"
      unfolding growsD(4) [OF g] by auto
    ultimately show "grows v v' (?K3 nm) (?E3 nm) \<and> {p. (''process'', p) \<in> writer_keys v'} = ?P" using v by simp
  qed (use growsD(1) [OF g2] procs2 in auto)
  then have g3: "grows w2 w' (Pair ''chore'' ` hi_name ` server_chores S) (chore_edges S ?P)"
    unfolding chore_edges_def by (elim conjE grows_cong) (auto simp flip: hs)
  from grows_trans [OF grows_trans [OF g1 g2] g3] show ?thesis by simp
qed

section \<open>The tables\<close>

text \<open>The rows of one connection: unique ids and names, edges between different rows of it.\<close>

definition rows_ok :: "uuid \<Rightarrow> graph \<Rightarrow> bool" where
  "rows_ok conn g \<longleftrightarrow>
     (let objs = list_objects g conn None; ids = o_id ` set objs in
      distinct (map o_id objs) \<and> distinct (map okey objs) \<and> distinct (list_relationships g conn) \<and>
      (\<forall>r \<in> set (list_relationships g conn). rel_from r \<noteq> rel_to r \<and> rel_from r \<in> ids \<and> rel_to r \<in> ids))"

definition edge_rows :: "graph \<Rightarrow> uuid \<Rightarrow> (uuid \<times> uuid \<times> string) set" where
  "edge_rows g conn = (\<lambda>r. (rel_from r, rel_to r, rel_type r)) ` set (list_relationships g conn)"

lemma names_by_id_iff:
  assumes "distinct (map o_id (list_objects g conn None))"
  shows "names_by_id g conn i = Some k \<longleftrightarrow> (\<exists>ob \<in> set (list_objects g conn None). o_id ob = i \<and> okey ob = k)"
proof -
  let ?objs = "rev (list_objects g conn None)"
  have "distinct (map o_id ?objs)" using assms by (simp add: rev_map flip: rev_map)
  then have "ob \<in> set ?objs \<Longrightarrow> o_id ob = i \<Longrightarrow> find (\<lambda>y. o_id y = i) ?objs = Some ob" for ob
    by (rule find_distinct_unique)
  moreover have "find (\<lambda>y. o_id y = i) ?objs = Some ob \<Longrightarrow> ob \<in> set (list_objects g conn None) \<and> o_id ob = i" for ob
    by (auto dest: find_SomeD)
  ultimately show ?thesis unfolding names_by_id_def okey_def map_option_eq_Some set_rev by blast
qed

lemma graph_keys_rows:
  assumes "distinct (map o_id (list_objects g conn None))"
  shows "graph_keys g conn = (keys_of (list_objects g conn None), edge_names (list_objects g conn None) (edge_rows g conn))"
proof -
  have "edge_key g conn r = Some e \<longleftrightarrow>
      (\<exists>f \<in> set (list_objects g conn None). \<exists>t \<in> set (list_objects g conn None).
         o_id f = rel_from r \<and> o_id t = rel_to r \<and> e = link (okey f) (rel_type r) (okey t))" for r e
  proof -
    have "edge_key g conn r = Some e \<longleftrightarrow>
        (\<exists>k k'. names_by_id g conn (rel_from r) = Some k \<and> names_by_id g conn (rel_to r) = Some k' \<and>
           e = link k (rel_type r) k')"
      by (auto simp: edge_key_def link_def split: option.splits prod.splits)
    then show ?thesis unfolding names_by_id_iff [OF assms] by blast
  qed
  then have "set (List.map_filter (edge_key g conn) (list_relationships g conn)) =
      edge_names (list_objects g conn None) (edge_rows g conn)"
    unfolding edge_names_def edge_rows_def set_map_filter by (auto simp: image_iff)
  moreover have "set (map (\<lambda>ob. (o_object_type ob, o_name ob)) (list_objects g conn None)) = keys_of (list_objects g conn None)"
    by (auto simp: keys_of_def okey_def)
  ultimately show ?thesis by (simp add: graph_keys_def)
qed

lemma written_rows:
  assumes "writer_ok w" "gw_connection w = conn"
  shows "list_objects (written_graph w (delete_by_connection conn g)) conn None = gw_objects w"
    "list_relationships (written_graph w (delete_by_connection conn g)) conn =
       map (\<lambda>(f, t, ty). relationship.make conn f t ty) (gw_edges w)"
  using assms
  by (auto simp: list_objects_def list_relationships_def written_graph_def delete_by_connection_def writer_ok_def
      filter_map o_def case_prod_beta relationship.make_def)

theorem extraction_core:
  assumes "extract_metadata known S ids conn org g = Inr (g', u)" "inj ids" "names_unique (model_objects S)"
  shows "graph_keys g' conn = (model_objects S, model_edges known S)" "rows_ok conn g'"
    "conn' \<noteq> conn \<Longrightarrow> list_objects g' conn' None = list_objects g conn' None \<and>
       list_relationships g' conn' = list_relationships g conn'"
proof -
  let ?w0 = "new_writer conn org ids"
  from assms(1) obtain w w' where s: "structure_phases S ?w0 = Inr w" "process_phases known S w = Inr (w', u)"
    and g': "g' = written_graph w' (delete_by_connection conn g)"
    by (auto simp: extract_metadata_def bind_result_Inr_iff)
  note g1 = structure_phases_grows [OF assms(2) s(1)]
  from process_phases_grows [OF growsD(1) [OF g1] _ s(2) assms(3)] growsD(4) [OF g1]
  have g: "grows ?w0 w' (model_objects S) (model_edges known S)"
    using g1 by (auto simp: model_objects_def model_edges_def Un_assoc elim: grows_cong [OF grows_trans])
  have ok: "writer_ok w'" and conn: "gw_connection w' = conn"
    using growsD [OF g] by (simp_all add: new_writer_def)
  note rows = written_rows [OF ok conn, of g]
  have es: "edge_rows g' conn = set (gw_edges w')"
    by (force simp: edge_rows_def g' rows relationship.make_def image_iff)
  show "graph_keys g' conn = (model_objects S, model_edges known S)"
    using growsD(4,5) [OF g] graph_keys_rows [of g' conn] writer_ids [OF ok]
    by (simp add: es) (simp add: g' rows writer_keys_def writer_edges_def)
  show "rows_ok conn g'"
  proof -
    have "distinct (map (\<lambda>(f, t, ty). relationship.make conn f t ty) (gw_edges w'))"
      using ok by (auto simp: writer_ok_def distinct_map inj_on_def relationship.make_def)
    moreover have "rel_from r \<noteq> rel_to r \<and> rel_from r \<in> o_id ` set (gw_objects w') \<and> rel_to r \<in> o_id ` set (gw_objects w')"
      if "r \<in> (\<lambda>(f, t, ty). relationship.make conn f t ty) ` set (gw_edges w')" for r
      using that ok by (auto simp: writer_ok_def relationship.make_def)
    ultimately show ?thesis
      using ok writer_ids [OF ok] by (simp add: rows_ok_def g' rows Let_def) (simp add: writer_ok_def)
  qed
  show "list_objects g' conn' None = list_objects g conn' None \<and> list_relationships g' conn' = list_relationships g conn'"
    if "conn' \<noteq> conn"
  proof -
    have "filter (\<lambda>r. rel_connection_id r = conn') (map (\<lambda>(f, t, ty). relationship.make conn f t ty) es) = []" for es
      using that by (auto simp: filter_empty_conv relationship.make_def)
    moreover have "filter (\<lambda>ob. o_connection_id ob = conn') (gw_objects w') = []"
      using that ok conn by (auto simp: filter_empty_conv writer_ok_def)
    ultimately show ?thesis
      using that by (auto simp: g' conn written_graph_def delete_by_connection_def list_objects_def list_relationships_def
          intro!: filter_cong)
  qed
qed

section \<open>An extraction comes to its end\<close>

text \<open>Every read it needs answers; the listings of views and subsets may fail.\<close>

definition reads_answer :: "live_server \<Rightarrow> bool" where
  "reads_answer S \<longleftrightarrow>
     (\<exists>cubes. sv_cubes S = Inr cubes \<and> (\<forall>n \<in> set cubes. \<exists>ci. sv_cube S n = Inr ci)) \<and>
     (\<forall>d \<in> dimension_names S. \<exists>hs. sv_hierarchies S d = Inr hs) \<and>
     (\<forall>ci \<in> server_cubes S. ci_has_rules ci \<longrightarrow> (\<exists>t. sv_cube_rules S (ci_name ci) = Inr t)) \<and>
     sv_connect S = Inr () \<and>
     (\<exists>names. sv_processes S = Inr names \<and> (\<forall>n \<in> set names. \<exists>info. sv_process S n = Inr info)) \<and>
     (\<exists>chores. sv_chores S = Inr chores \<and> (\<forall>n \<in> set chores. \<exists>hi. sv_chore S n = Inr hi))"

lemma each_succeeds:
  assumes "I s" "\<And>x s. x \<in> set xs \<Longrightarrow> I s \<Longrightarrow> \<exists>s'. f x s = Inr s' \<and> I s'"
  shows "\<exists>s'. each f xs s = Inr s' \<and> I s'"
  using assms
proof (induction xs arbitrary: s)
  case (Cons x xs)
  from Cons.prems obtain s1 where "f x s = Inr s1" "I s1" by (metis list.set_intros(1))
  with Cons.IH [of s1] Cons.prems(2) show ?case by auto
qed simp

text \<open>The shape of most steps: one known object, and nothing that raises after it.\<close>

lemma each_known_succeeds:
  assumes "writer_ok w0" "Pair ty ` set xs \<subseteq> writer_keys w0"
    and "\<And>x w. x \<in> set xs \<Longrightarrow> (ty, x) \<in> writer_keys w \<Longrightarrow> \<exists>w'. f x w = Inr w'"
    and "\<And>x w w'. writer_ok w \<Longrightarrow> f x w = Inr w' \<Longrightarrow> \<exists>K E. grows w w' K E"
  shows "\<exists>w'. each f xs w0 = Inr w' \<and> writer_ok w' \<and> writer_keys w0 \<subseteq> writer_keys w'"
proof -
  let ?I = "\<lambda>w. writer_ok w \<and> writer_keys w0 \<subseteq> writer_keys w"
  have "\<exists>w'. f x w = Inr w' \<and> ?I w'" if "x \<in> set xs" "?I w" for x w
  proof -
    have "(ty, x) \<in> writer_keys w" using that assms(2) by auto
    from assms(3) [OF that(1) this] obtain w' where w': "f x w = Inr w'" by blast
    with assms(4) [OF _ w'] that(2) obtain K E where "grows w w' K E" by blast
    with w' that(2) show ?thesis using growsD(1,4) [of w w' K E] by auto
  qed
  then show ?thesis using assms(1) by (intro each_succeeds [where I = ?I]) auto
qed

lemma known_object_there: "(ty, nm) \<in> writer_keys w \<Longrightarrow> \<exists>ob. known_object ty nm w = Inr ob"
  using get_object_None [of "gw_objects w" ty nm] by (auto simp: known_object_def writer_keys_def split: option.split)

lemma structure_phases_succeed:
  assumes "inj ids" "reads_answer S"
  shows "\<exists>w. structure_phases S (new_writer conn org ids) = Inr w"
proof -
  let ?w0 = "new_writer conn org ids"
  from assms(2) obtain cubes where cubes: "sv_cubes S = Inr cubes" "\<And>n. n \<in> set cubes \<Longrightarrow> \<exists>ci. sv_cube S n = Inr ci"
    by (auto simp: reads_answer_def)
  have "\<exists>st'. cube_step S n st = Inr st' \<and> writer_ok (fst st')" if "n \<in> set cubes" "writer_ok (fst st)" for n st
  proof -
    from cubes(2) [OF that(1)] obtain st' where "cube_step S n st = Inr st'"
      by (auto simp: cube_step_def case_prod_beta)
    with cube_step_grows [OF that(2) this] show ?thesis by (auto dest: growsD(1))
  qed
  then have "\<exists>st'. each (cube_step S) cubes (?w0, []) = Inr st' \<and> writer_ok (fst st')"
    using new_writer_ok [OF assms(1)] by (intro each_succeeds [where I = "\<lambda>st. writer_ok (fst st)"]) auto
  then obtain w1 ruled where s1: "each (cube_step S) cubes (?w0, []) = Inr (w1, ruled)" by auto
  note g1 = structure_cubes_grow [OF assms(1) cubes(1) s1]
  have keys1: "writer_keys w1 = Pair ''cube'' ` cube_names S \<union> Pair ''dimension'' ` dimension_names S"
    using growsD(4) [OF g1(1)] by simp
  have dims: "\<exists>hs. sv_hierarchies S d = Inr hs" if "d \<in> set (list_names ''dimension'' w1)" for d
    using that assms(2) by (auto simp: set_list_names keys1 reads_answer_def)
  have "\<exists>w2. each (hierarchy_step S) (list_names ''dimension'' w1) w1 = Inr w2 \<and> writer_ok w2 \<and>
      writer_keys w1 \<subseteq> writer_keys w2"
    using dims hierarchy_step_grows
    by (intro each_known_succeeds growsD(1) [OF g1(1)])
       (fastforce simp: set_list_names hierarchy_step_def dest: known_object_there)+
  then obtain w2 where w2: "each (hierarchy_step S) (list_names ''dimension'' w1) w1 = Inr w2" "writer_ok w2"
      "writer_keys w1 \<subseteq> writer_keys w2" by blast
  have rules: "\<exists>t. sv_cube_rules S c = Inr t" if "c \<in> set ruled" for c
    using that assms(2) by (auto simp: g1(2) reads_answer_def)
  have "Pair ''cube'' ` set ruled \<subseteq> writer_keys w2" using w2(3) by (auto simp: keys1 g1(2) cube_names_def)
  then have "\<exists>w3. each (rules_step S) ruled w2 = Inr w3 \<and> writer_ok w3 \<and> writer_keys w2 \<subseteq> writer_keys w3"
    using rules rules_step_grows
    by (intro each_known_succeeds w2(2)) (fastforce simp: rules_step_def dest: known_object_there)+
  then obtain w3 where w3: "each (rules_step S) ruled w2 = Inr w3" "writer_ok w3" by blast
  have "\<exists>w4. each (views_step S) (list_names ''cube'' w3) w3 = Inr w4 \<and> writer_ok w4 \<and> writer_keys w3 \<subseteq> writer_keys w4"
    using views_step_grows
    by (intro each_known_succeeds w3(2))
       (fastforce simp: set_list_names views_step_def dest: known_object_there split: sum.split)+
  then obtain w4 where w4: "each (views_step S) (list_names ''cube'' w3) w3 = Inr w4" "writer_ok w4" by blast
  have "\<exists>w5. each (subsets_step S) (list_names ''dimension'' w4) w4 = Inr w5 \<and> writer_ok w5 \<and>
      writer_keys w4 \<subseteq> writer_keys w5"
    using subsets_step_grows
    by (intro each_known_succeeds w4(2))
       (fastforce simp: set_list_names subsets_step_def dest: known_object_there split: sum.split)+
  with assms(2) show ?thesis
    by (auto simp: structure_phases_def cubes(1) s1 w2(1) w3(1) w4(1) reads_answer_def)
qed

lemma process_phases_succeed:
  assumes "writer_ok w" "reads_answer S"
  shows "\<exists>w' u. process_phases known S w = Inr (w', u)"
proof -
  from assms(2) obtain names chores where names: "sv_processes S = Inr names" "\<And>n. n \<in> set names \<Longrightarrow> \<exists>i. sv_process S n = Inr i"
    and chores: "sv_chores S = Inr chores" "\<And>n. n \<in> set chores \<Longrightarrow> \<exists>hi. sv_chore S n = Inr hi"
    by (auto simp: reads_answer_def)
  let ?I = "\<lambda>st. writer_ok (fst st) \<and> Pair ''process'' ` pi_name ` set (snd st) \<subseteq> writer_keys (fst st)"
  have "\<exists>st'. process_step S n st = Inr st' \<and> ?I st'" if "n \<in> set names" "?I st" for n st
  proof -
    from names(2) [OF that(1)] obtain st' where st': "process_step S n st = Inr st'" by (auto simp: process_step_def)
    note g = process_step_grows [OF _ st'] and c = process_step_collects [OF st']
    from that(2) g have "grows (fst st) (fst st') (Pair ''process'' ` pi_name ` process_part S n) {}" by blast
    from growsD(1,4) [OF this] that(2) c st' show ?thesis by auto
  qed
  then have "\<exists>st'. each (process_step S) names (w, []) = Inr st' \<and> ?I st'"
    using assms(1) by (intro each_succeeds [where I = ?I]) auto
  then obtain w1 infos where s1: "each (process_step S) names (w, []) = Inr (w1, infos)"
    and w1: "writer_ok w1" "Pair ''process'' ` pi_name ` set infos \<subseteq> writer_keys w1"
    by auto
  let ?J = "\<lambda>st. gw_objects (fst st) = gw_objects w1"
  have "\<exists>st'. each (edges_step known (gw_objects w1)) infos (w1, 0) = Inr st' \<and> ?J st'"
  proof (rule each_succeeds [where I = ?J])
    fix info and st :: "graph_writer \<times> nat" assume info: "info \<in> set infos" and st: "?J st"
    then have "(''process'', pi_name info) \<in> writer_keys (fst st)" using w1(2) by (auto simp: writer_keys_def)
    from known_object_there [OF this] obtain st' where st': "edges_step known (gw_objects w1) info st = Inr st'"
      by (auto simp: edges_step_def case_prod_beta)
    with st edges_step_objects [OF st'] show "\<exists>st'. edges_step known (gw_objects w1) info st = Inr st' \<and> ?J st'" by auto
  qed simp
  then obtain w2 u where s2: "each (edges_step known (gw_objects w1)) infos (w1, 0) = Inr (w2, u)" by auto
  have "\<exists>w'. each (chore_step S) chores w2 = Inr w' \<and> True"
  proof (rule each_succeeds)
    fix n v assume "n \<in> set chores"
    from chores(2) [OF this] show "\<exists>v'. chore_step S n v = Inr v' \<and> True"
      by (auto simp: chore_step_def case_prod_beta)
  qed simp
  then show ?thesis by (auto simp: process_phases_def names(1) s1 s2 chores(1))
qed

text \<open>The map read from a server that answers is the model.\<close>

theorem extraction_reads_the_model_core:
  assumes "reads_answer S" "names_unique (model_objects S)" "inj ids"
  shows "\<exists>g' u. extract_metadata known S ids conn org g = Inr (g', u) \<and> rows_ok conn g' \<and>
    graph_keys g' conn = (model_objects S, model_edges known S)"
proof -
  from structure_phases_succeed [OF assms(3,1)] obtain w where s: "structure_phases S (new_writer conn org ids) = Inr w" by blast
  note g = structure_phases_grows [OF assms(3) s]
  obtain w' u where "process_phases known S w = Inr (w', u)"
    using process_phases_succeed [OF growsD(1) [OF g] assms(1)] by blast
  with s obtain g' u where ex: "extract_metadata known S ids conn org g = Inr (g', u)"
    by (simp add: extract_metadata_def)
  from extraction_core(1,2) [OF ex assms(3,2)] ex show ?thesis by blast
qed

section \<open>A small server\<close>

definition live_process :: "string \<Rightarrow> string \<Rightarrow> process_info" where
  "live_process nm prolog =
     \<lparr>pi_name = nm, pi_datasource_type = ''None'', pi_datasource_name = [], pi_datasource_view = [],
      pi_prolog = prolog, pi_metadata = [], pi_data = [], pi_epilog = [], pi_parameters = [], pi_variables = []\<rparr>"

definition demo_live :: live_server where
  "demo_live =
     \<lparr>sv_cubes = Inr [''Sales''], sv_cube = (\<lambda>_. Inr \<lparr>ci_name = ''Sales'', ci_dimensions = [''Region''], ci_has_rules = False\<rparr>),
      sv_hierarchies = (\<lambda>_. Inr [''Region'']), sv_cube_rules = (\<lambda>_. Inr None), sv_connect = Inr (),
      sv_views = (\<lambda>_. Inr [''Default'']), sv_subsets = (\<lambda>_. Inl OtherError),
      sv_processes = Inr [''load'', ''nightly''],
      sv_process = (\<lambda>n. Inr (if n = ''load'' then live_process ''load'' []
                       else live_process n (''ExecuteProcess('' @ quote # ''LOAD'' @ quote # '');''))),
      sv_chores = Inr [], sv_chore = (\<lambda>_. Inl TM1NotFound)\<rparr>"

lemma demo_cubes: "server_cubes demo_live = {\<lparr>ci_name = ''Sales'', ci_dimensions = [''Region''], ci_has_rules = False\<rparr>}"
  by (simp add: server_cubes_def demo_live_def answered_def)

lemma demo_processes:
  "server_processes demo_live =
     {live_process ''load'' [], live_process ''nightly'' (''ExecuteProcess('' @ quote # ''LOAD'' @ quote # '');'')}"
  by (auto simp: server_processes_def demo_live_def answered_def)

lemma demo_names: "cube_names demo_live = {''Sales''}" "dimension_names demo_live = {''Region''}"
    "pi_name ` server_processes demo_live = {''load'', ''nightly''}" "server_chores demo_live = {}"
  by (simp_all add: cube_names_def dimension_names_def demo_cubes demo_processes live_process_def)
    (simp add: server_chores_def demo_live_def answered_def)

lemma demo_objects:
  "model_objects demo_live =
     {(''cube'', ''Sales''), (''dimension'', ''Region''), (''hierarchy'', ''Region:Region''), (''view'', ''Sales:Default''),
      (''process'', ''load''), (''process'', ''nightly'')}"
proof -
  have "hierarchies_of demo_live ''Region'' = [''Region'']" "views_of demo_live ''Sales'' = [''Default'']"
      "subsets_of demo_live ''Region'' = []"
    by (simp_all add: hierarchies_of_def views_of_def subsets_of_def demo_live_def answered_def MAX_VIEWS_PER_CUBE_def)
  then show ?thesis
    by (auto simp: model_objects_def structure_objects_def demo_names qualified_name_def)
qed

lemma live_answers: "reads_answer demo_live"
proof -
  have "\<exists>cubes. sv_cubes demo_live = Inr cubes \<and> (\<forall>n \<in> set cubes. \<exists>ci. sv_cube demo_live n = Inr ci)"
    "\<exists>names. sv_processes demo_live = Inr names \<and> (\<forall>n \<in> set names. \<exists>info. sv_process demo_live n = Inr info)"
    "\<exists>chores. sv_chores demo_live = Inr chores \<and> (\<forall>n \<in> set chores. \<exists>hi. sv_chore demo_live n = Inr hi)"
    "\<And>d. \<exists>hs. sv_hierarchies demo_live d = Inr hs" "sv_connect demo_live = Inr ()" "\<And>c. \<exists>t. sv_cube_rules demo_live c = Inr t"
    by (simp_all add: demo_live_def)
  then show ?thesis by (simp add: reads_answer_def)
qed

lemma demo_unique: "names_unique (model_objects demo_live)"
proof -
  have "lower ''load'' \<noteq> lower ''nightly''" by (simp add: lower_def)
  then show ?thesis by (simp add: names_unique_def demo_objects)
qed

lemma inj_nat_str: "inj nat_str"
  by (simp add: inj_def nat_str_inj)

section \<open>Property\<close>

text \<open>
  C13. An extraction of a server whose reads answer comes to its end, and the map it writes
  refines the model by name: exactly the objects and the edges the server's state calls for,
  under unique ids, whatever views or subsets could not be listed.
\<close>

theorem extraction_reads_the_model:
  assumes "reads_answer S" "names_unique (model_objects S)" "inj ids"
  shows "\<exists>g' u. extract_metadata known S ids conn org g = Inr (g', u) \<and> rows_ok conn g' \<and>
    graph_keys g' conn = (model_objects S, model_edges known S)"
  using assms by (rule extraction_reads_the_model_core)

theorem extraction_reads_the_model_witness:
  "\<exists>g' u. extract_metadata (\<lambda>_. True) demo_live nat_str ''c'' ''o'' \<lparr>g_objects = [], g_relationships = []\<rparr> = Inr (g', u) \<and>
     rows_ok ''c'' g' \<and> graph_keys g' ''c'' = (model_objects demo_live, model_edges (\<lambda>_. True) demo_live)"
  by (rule extraction_reads_the_model [OF live_answers demo_unique inj_nat_str])

end
