(* ===== verification/MapProperties.thy ===== *)
theory MapProperties
  imports MapSpec
begin

text \<open>
  The map after a change: refreshing one process (\<open>refresh_process\<close>) against extracting the
  changed server anew, for a process that was saved, removed or added, and what a deletion
  that is rolled back leaves behind.
\<close>

section \<open>A map in step with the server\<close>

definition in_step :: "(string \<Rightarrow> bool) \<Rightarrow> live_server \<Rightarrow> uuid \<Rightarrow> graph \<Rightarrow> bool" where
  "in_step known S conn g \<longleftrightarrow> rows_ok conn g \<and> graph_keys g conn = (model_objects S, model_edges known S)"

definition edge_source :: "edge_key \<Rightarrow> object_key" where
  "edge_source e = (case e of (ft, fn, rel, tt, tn) \<Rightarrow> (ft, fn))"

definition edge_target :: "edge_key \<Rightarrow> object_key" where
  "edge_target e = (case e of (ft, fn, rel, tt, tn) \<Rightarrow> (tt, tn))"

lemma link_ends [simp]: "edge_source (link f rel t) = f" "edge_target (link f rel t) = t"
  by (simp_all add: link_def edge_source_def edge_target_def)

lemma edge_names_Un: "edge_names objs (A \<union> B) = edge_names objs A \<union> edge_names objs B"
  by (auto simp: edge_names_def)

lemma edge_names_without_source:
  assumes "distinct (map o_id objs)" "distinct (map okey objs)" "ob \<in> set objs"
  shows "edge_names objs {e \<in> es. fst e \<noteq> o_id ob} = {e \<in> edge_names objs es. edge_source e \<noteq> okey ob}"
  using assms same_id [OF assms(1) _ assms(3)]
  unfolding edge_names_def by (auto simp: distinct_map dest: inj_onD)

lemma edge_names_without_object:
  assumes "distinct (map o_id objs)" "distinct (map okey objs)" "ob \<in> set objs"
  shows "edge_names (filter (\<lambda>y. o_id y \<noteq> o_id ob) objs) es =
    {e \<in> edge_names objs es. edge_source e \<noteq> okey ob \<and> edge_target e \<noteq> okey ob}"
  using assms same_id [OF assms(1) _ assms(3)]
  unfolding edge_names_def by (auto simp: distinct_map dest: inj_onD) metis+

lemma in_step_rows:
  assumes "in_step known S conn g"
  shows "distinct (map o_id (list_objects g conn None))" "distinct (map okey (list_objects g conn None))"
    "keys_of (list_objects g conn None) = model_objects S"
    "edge_names (list_objects g conn None) (edge_rows g conn) = model_edges known S"
  using assms graph_keys_rows [of g conn] by (auto simp: in_step_def rows_ok_def Let_def)

lemma in_stepI:
  assumes "rows_ok conn g" "keys_of (list_objects g conn None) = model_objects S"
    "edge_names (list_objects g conn None) (edge_rows g conn) = model_edges known S"
  shows "in_step known S conn g"
  using assms graph_keys_rows [of g conn] by (auto simp: in_step_def rows_ok_def Let_def)

text \<open>What every process answers to, and the names on the server.\<close>

definition server_names_ok :: "live_server \<Rightarrow> bool" where
  "server_names_ok S \<longleftrightarrow>
     names_unique (model_objects S) \<and>
     (\<forall>n \<in> set (answered (sv_processes S)). \<forall>info. sv_process S n = Inr info \<longrightarrow> pi_name info = n)"

lemma structure_same [simp]:
  "structure_objects (sv_process_update f S) = structure_objects S" "structure_edges (sv_process_update f S) = structure_edges S"
  "structure_objects (sv_processes_update h S) = structure_objects S" "structure_edges (sv_processes_update h S) = structure_edges S"
  by (simp_all add: structure_objects_def structure_edges_def cube_names_def dimension_names_def server_cubes_def
      hierarchies_of_def views_of_def subsets_of_def references_of_def)

lemma chores_same [simp]:
  "server_chores (sv_process_update f S) = server_chores S" "server_chores (sv_processes_update h S) = server_chores S"
  by (simp_all add: server_chores_def)

lemma structure_edge_kinds:
  "e \<in> structure_edges S \<Longrightarrow> fst (edge_source e) \<noteq> ''process'' \<and> fst (edge_target e) \<noteq> ''process''"
  by (auto simp: structure_edges_def)

lemma process_out_source: "e \<in> process_out known K info \<Longrightarrow> edge_source e = (''process'', pi_name info)"
  by (auto simp: process_out_def)

section \<open>Refreshing the process that changed\<close>

lemma insert_edges_rows:
  shows "list_objects (insert_edges conn ob edges g) c None = list_objects g c None"
    "edge_rows (insert_edges conn ob edges g) conn =
       edge_rows g conn \<union> (\<lambda>(t, rel). (o_id ob, o_id t, rel)) ` {(t, rel) \<in> set edges. t \<noteq> ob}"
  by (auto simp: insert_edges_def list_objects_def edge_rows_def list_relationships_def relationship.make_def image_iff
      image_Un)

lemma out_edge_names:
  assumes "distinct (map o_id objs)" "ob \<in> set objs" "\<And>t rel. (t, rel) \<in> E \<Longrightarrow> t \<in> set objs"
  shows "edge_names objs ((\<lambda>(t, rel). (o_id ob, o_id t, rel)) ` E) = (\<lambda>(t, rel). link (okey ob) rel (okey t)) ` E"
proof (intro set_eqI iffI)
  fix e assume "e \<in> edge_names objs ((\<lambda>(t, rel). (o_id ob, o_id t, rel)) ` E)"
  then obtain f t rel t' where e: "e = link (okey f) rel (okey t)" and in_objs: "f \<in> set objs" "t \<in> set objs"
    and ids: "o_id f = o_id ob" "o_id t = o_id t'" "(t', rel) \<in> E"
    by (auto simp: edge_names_def)
  from ids in_objs assms(2,3) have "f = ob" "t = t'" using same_id [OF assms(1)] by blast+
  with e ids(3) show "e \<in> (\<lambda>(t, rel). link (okey ob) rel (okey t)) ` E" by force
next
  fix e assume "e \<in> (\<lambda>(t, rel). link (okey ob) rel (okey t)) ` E"
  then obtain t rel where "e = link (okey ob) rel (okey t)" "(t, rel) \<in> E" by auto
  with assms(2,3) show "e \<in> edge_names objs ((\<lambda>(t, rel). (o_id ob, o_id t, rel)) ` E)"
    by (force simp: edge_names_def)
qed

text \<open>Which targets a process has when one process leaves the map.\<close>

lemma ref_targets_minus:
  "ref_targets (K - {(''process'', p)}) r = {(t, rel) \<in> ref_targets K r. t \<noteq> (''process'', p)}"
proof -
  have n: "named (K - {(''process'', p)}) kind nm = {k \<in> named K kind nm. k \<noteq> (''process'', p)}" for kind nm
    by (auto simp: named_def)
  have s: "short_named (K - {(''process'', p)}) kind nm = {k \<in> short_named K kind nm. k \<noteq> (''process'', p)}"
    if "kind \<noteq> ''process''" for kind nm
  proof -
    have "{k \<in> K - {(''process'', p)}. fst k = kind \<and> lower (after_colon (snd k)) = lower nm} =
        {k \<in> K. fst k = kind \<and> lower (after_colon (snd k)) = lower nm}" using that by auto
    with that show ?thesis by (auto simp: short_named_def Let_def split: if_splits)
  qed
  have "{(t, rel) \<in> (\<lambda>k. (k, c)) ` A. t \<noteq> x} = (\<lambda>k. (k, c)) ` {k \<in> A. k \<noteq> x}" for c :: string and x and A :: "object_key set"
    by auto
  then show ?thesis by (simp add: ref_targets_def n s)
qed

lemma process_out_minus:
  "process_out known (K - {(''process'', p)}) info = {e \<in> process_out known K info. edge_target e \<noteq> (''process'', p)}"
proof -
  have "source_targets (K - {(''process'', p)}) info = {(t, rel) \<in> source_targets K info. t \<noteq> (''process'', p)}"
  proof -
    have n: "named (K - {(''process'', p)}) ''cube'' nm = named K ''cube'' nm" for nm by (auto simp: named_def)
    have v: "{(''view'', q)} \<inter> (K - {(''process'', p)}) = {(''view'', q)} \<inter> K" for q by auto
    have "t \<noteq> (''process'', p)" if "(t, rel) \<in> source_targets K info" for t rel
      using that by (auto simp: source_targets_def named_def split: if_splits)
    then have "{(t, rel) \<in> source_targets K info. t \<noteq> (''process'', p)} = source_targets K info" by blast
    moreover have "source_targets (K - {(''process'', p)}) info = source_targets K info"
      by (simp add: source_targets_def n v cong: if_cong)
    ultimately show ?thesis by simp
  qed
  then have "process_targets known (K - {(''process'', p)}) info =
      {(t, rel) \<in> process_targets known K info. t \<noteq> (''process'', p)}"
    unfolding process_targets_def ref_targets_minus by blast
  then show ?thesis unfolding process_out_def by (auto simp del: prod.collapse)
qed

text \<open>The server after one process was saved, removed or added.\<close>

definition with_process :: "process_info \<Rightarrow> live_server \<Rightarrow> live_server" where
  "with_process info S = S\<lparr>sv_process := (sv_process S)(pi_name info := Inr info)\<rparr>"

definition dropped :: "string \<Rightarrow> live_server \<Rightarrow> live_server" where
  "dropped p S = S\<lparr>sv_processes := Inr (filter (\<lambda>n. n \<noteq> p) (answered (sv_processes S)))\<rparr>"

lemma server_processes_with:
  assumes "server_names_ok S" "pi_name info \<in> set (answered (sv_processes S))"
  shows "server_processes (with_process info S) =
    insert info {x \<in> server_processes S. pi_name x \<noteq> pi_name info}"
proof (intro set_eqI iffI)
  have nm: "pi_name x = n" if "n \<in> set (answered (sv_processes S))" "sv_process S n = Inr x" for n x
    using assms(1) that by (simp add: server_names_ok_def)
  fix x assume "x \<in> server_processes (with_process info S)"
  then obtain n where n: "n \<in> set (answered (sv_processes S))" "((sv_process S)(pi_name info := Inr info)) n = Inr x"
    by (auto simp: server_processes_def with_process_def)
  show "x \<in> insert info {x \<in> server_processes S. pi_name x \<noteq> pi_name info}"
  proof (cases "n = pi_name info")
    case False
    with n have "sv_process S n = Inr x" by simp
    with n(1) False nm show ?thesis by (auto simp: server_processes_def)
  qed (use n in simp)
next
  have nm: "pi_name x = n" if "n \<in> set (answered (sv_processes S))" "sv_process S n = Inr x" for n x
    using assms(1) that by (simp add: server_names_ok_def)
  fix x assume "x \<in> insert info {x \<in> server_processes S. pi_name x \<noteq> pi_name info}"
  then consider "x = info" | n where "n \<in> set (answered (sv_processes S))" "sv_process S n = Inr x" "pi_name x \<noteq> pi_name info"
    by (auto simp: server_processes_def)
  then show "x \<in> server_processes (with_process info S)"
  proof cases
    case 2
    with nm have "((sv_process S)(pi_name info := Inr info)) n = Inr x" by auto
    with 2(1) show ?thesis unfolding server_processes_def with_process_def by (auto simp del: fun_upd_apply)
  qed (use assms(2) in \<open>auto simp: server_processes_def with_process_def\<close>)
qed

lemma server_processes_dropped:
  assumes "server_names_ok S"
  shows "server_processes (dropped p S) = {x \<in> server_processes S. pi_name x \<noteq> p}"
proof -
  have nm: "pi_name x = n" if "n \<in> set (answered (sv_processes S))" "sv_process S n = Inr x" for n x
    using assms(1) that by (simp add: server_names_ok_def)
  have "set (answered (sv_processes (dropped p S))) = set (answered (sv_processes S)) - {p}"
    "sv_process (dropped p S) = sv_process S" by (auto simp: dropped_def answered_def)
  with nm show ?thesis unfolding server_processes_def by (auto dest: nm)
qed

lemma model_objects_with:
  assumes "server_names_ok S" "pi_name info \<in> pi_name ` server_processes S"
    "pi_name info \<in> set (answered (sv_processes S))"
  shows "model_objects (with_process info S) = model_objects S"
proof -
  have "pi_name ` server_processes (with_process info S) = pi_name ` server_processes S"
    using assms by (auto simp: server_processes_with [OF assms(1,3)])
  then show ?thesis unfolding model_objects_def by (simp add: with_process_def)
qed

lemma model_objects_dropped:
  assumes "server_names_ok S"
  shows "model_objects (dropped p S) = model_objects S - {(''process'', p)}"
proof -
  have "pi_name ` server_processes (dropped p S) = pi_name ` server_processes S - {p}"
    by (auto simp: server_processes_dropped [OF assms])
  then show ?thesis unfolding model_objects_def by (auto simp: dropped_def structure_kinds)
qed

lemma chore_edges_source: "e \<in> chore_edges S P \<Longrightarrow> edge_source e \<noteq> (''process'', p)"
  by (auto simp: chore_edges_def)

lemma chore_edges_minus: "chore_edges S (P - {p}) = {e \<in> chore_edges S P. edge_target e \<noteq> (''process'', p)}"
  by (auto simp: chore_edges_def)

lemma chore_edges_same: "server_chores S' = server_chores S \<Longrightarrow> chore_edges S' = chore_edges S"
  by (simp add: chore_edges_def fun_eq_iff)

lemma model_edges_with:
  assumes "server_names_ok S" "pi_name info \<in> pi_name ` server_processes S"
    "pi_name info \<in> set (answered (sv_processes S))"
  shows "model_edges known (with_process info S) =
    {e \<in> model_edges known S. edge_source e \<noteq> (''process'', pi_name info)} \<union> process_out known (model_objects S) info"
proof -
  let ?p = "pi_name info" and ?K = "model_objects S" and ?S = "with_process info S"
  have same: "structure_edges ?S = structure_edges S" "chore_edges ?S = chore_edges S"
    by (simp_all add: with_process_def chore_edges_same [of "sv_process_update _ _" S])
  have names: "pi_name ` server_processes ?S = pi_name ` server_processes S"
    using assms by (auto simp: server_processes_with [OF assms(1,3)])
  have "model_edges known ?S = structure_edges S \<union> (\<Union>x \<in> server_processes ?S. process_out known ?K x) \<union>
      chore_edges S (pi_name ` server_processes S)"
    by (simp add: model_edges_def model_objects_with [OF assms] names same)
  also have "(\<Union>x \<in> server_processes ?S. process_out known ?K x) =
      {e \<in> (\<Union>x \<in> server_processes S. process_out known ?K x). edge_source e \<noteq> (''process'', ?p)} \<union> process_out known ?K info"
  proof -
    have src: "edge_source e = (''process'', ?p) \<longleftrightarrow> pi_name x = ?p" if "e \<in> process_out known ?K x" for e x
      using process_out_source [OF that] by simp
    then show ?thesis unfolding server_processes_with [OF assms(1,3)] by blast
  qed
  finally have edges: "model_edges known ?S = structure_edges S \<union>
      ({e \<in> (\<Union>x \<in> server_processes S. process_out known ?K x). edge_source e \<noteq> (''process'', ?p)} \<union> process_out known ?K info) \<union>
      chore_edges S (pi_name ` server_processes S)" .
  have "e \<in> structure_edges S \<union> chore_edges S P \<Longrightarrow> edge_source e \<noteq> (''process'', ?p)" for e P
    using structure_edge_kinds [of e S] chore_edges_source [of e S P ?p] by auto
  then show ?thesis unfolding edges unfolding model_edges_def by blast
qed

lemma model_edges_dropped:
  assumes "server_names_ok S"
  shows "model_edges known (dropped p S) =
    {e \<in> model_edges known S. edge_source e \<noteq> (''process'', p) \<and> edge_target e \<noteq> (''process'', p)}"
proof -
  let ?K = "model_objects S" and ?S = "dropped p S"
  have same: "structure_edges ?S = structure_edges S" "chore_edges ?S = chore_edges S"
    by (simp_all add: dropped_def chore_edges_same [of "sv_processes_update _ _" S])
  have names: "pi_name ` server_processes ?S = pi_name ` server_processes S - {p}"
    by (auto simp: server_processes_dropped [OF assms])
  have "model_edges known ?S = structure_edges S \<union>
      (\<Union>x \<in> server_processes ?S. {e \<in> process_out known ?K x. edge_target e \<noteq> (''process'', p)}) \<union>
      {e \<in> chore_edges S (pi_name ` server_processes S). edge_target e \<noteq> (''process'', p)}"
    by (simp add: model_edges_def model_objects_dropped [OF assms] names same process_out_minus chore_edges_minus)
  also have "(\<Union>x \<in> server_processes ?S. {e \<in> process_out known ?K x. edge_target e \<noteq> (''process'', p)}) =
      {e \<in> (\<Union>x \<in> server_processes S. process_out known ?K x).
         edge_source e \<noteq> (''process'', p) \<and> edge_target e \<noteq> (''process'', p)}"
  proof -
    have src: "edge_source e = (''process'', p) \<longleftrightarrow> pi_name x = p" if "e \<in> process_out known ?K x" for e x
      using process_out_source [OF that] by simp
    then show ?thesis unfolding server_processes_dropped [OF assms] by blast
  qed
  finally have edges: "model_edges known ?S = structure_edges S \<union>
      {e \<in> (\<Union>x \<in> server_processes S. process_out known ?K x).
         edge_source e \<noteq> (''process'', p) \<and> edge_target e \<noteq> (''process'', p)} \<union>
      {e \<in> chore_edges S (pi_name ` server_processes S). edge_target e \<noteq> (''process'', p)}" .
  have "e \<in> structure_edges S \<Longrightarrow> edge_source e \<noteq> (''process'', p) \<and> edge_target e \<noteq> (''process'', p)"
    "e \<in> chore_edges S P \<Longrightarrow> edge_source e \<noteq> (''process'', p)" for e P
    using structure_edge_kinds [of e S] chore_edges_source [of e S P p] by auto
  then show ?thesis unfolding edges unfolding model_edges_def by blast
qed

lemma process_row:
  assumes "in_step known S conn g" "p \<in> pi_name ` server_processes S"
  obtains ob where "ob \<in> set (list_objects g conn None)" "okey ob = (''process'', p)"
    "graph_lookup (list_objects g conn None) ''process'' p = Some ob"
proof -
  note rows = in_step_rows [OF assms(1)]
  have "(''process'', p) \<in> keys_of (list_objects g conn None)" using assms(2) by (auto simp: rows model_objects_def)
  then obtain ob where ob: "ob \<in> set (list_objects g conn None)" "okey ob = (''process'', p)"
    by (auto simp: keys_of_def)
  with get_object_unique [OF rows(2) ob] that show ?thesis by (simp add: graph_lookup_def)
qed

lemma in_step_index: "in_step known S conn g \<Longrightarrow> server_names_ok S \<Longrightarrow> index_ok (list_objects g conn None)"
  using in_step_rows [of known S conn g] by (simp add: index_ok_def server_names_ok_def)

text \<open>Edges of one process replaced by those of its code.\<close>

lemma insert_edges_ok:
  assumes "rows_ok conn g" "ob \<in> set (list_objects g conn None)"
    and "\<And>t rel. (t, rel) \<in> set edges \<Longrightarrow> t \<in> set (list_objects g conn None)"
    and "\<And>r. r \<in> set (list_relationships g conn) \<Longrightarrow> rel_from r \<noteq> o_id ob"
  shows "rows_ok conn (insert_edges conn ob edges g)"
proof -
  let ?pairs = "rev (remdups (rev (map (\<lambda>(t, rel). (o_id t, rel)) (filter (\<lambda>(t, _). t \<noteq> ob) edges))))"
  have rels: "list_relationships (insert_edges conn ob edges g) conn =
      list_relationships g conn @ map (\<lambda>(t, rel). relationship.make conn (o_id ob) t rel) ?pairs"
    by (auto simp: insert_edges_def list_relationships_def relationship.make_def case_prod_beta filter_map o_def)
  have "distinct ?pairs" by simp
  then have "distinct (map (\<lambda>(t, rel). relationship.make conn (o_id ob) t rel) ?pairs)"
    unfolding distinct_map by (auto simp: inj_on_def relationship.make_def)
  moreover have "rel_from r \<noteq> rel_to r \<and> rel_from r = o_id ob \<and> rel_to r \<in> o_id ` set (list_objects g conn None)"
    if "r \<in> (\<lambda>(t, rel). relationship.make conn (o_id ob) t rel) ` set ?pairs" for r
  proof -
    from that obtain t rel where r: "r = relationship.make conn (o_id ob) (o_id t) rel" "(t, rel) \<in> set edges" "t \<noteq> ob"
      by auto
    have "o_id t \<noteq> o_id ob"
      using assms(1,2) assms(3) [OF r(2)] r(3) by (auto simp: rows_ok_def Let_def distinct_map dest: inj_onD)
    with r assms(3) show ?thesis by (auto simp: relationship.make_def)
  qed
  moreover have "set (list_relationships g conn) \<inter> (\<lambda>(t, rel). relationship.make conn (o_id ob) t rel) ` set ?pairs = {}"
    using assms(4) by (fastforce simp: relationship.make_def)
  moreover have "o_id ob \<in> o_id ` set (list_objects g conn None)" using assms(2) by simp
  ultimately show ?thesis
    using assms(1) unfolding rows_ok_def Let_def rels insert_edges_rows(1) distinct_append set_append set_map
    by (intro conjI ballI; (elim conjE)?; (elim UnE)?) simp_all
qed

lemma without_outgoing_rows:
  "list_objects (without_outgoing (Some ob) g) c None = list_objects g c None"
  "list_relationships (without_outgoing (Some ob) g) c = filter (\<lambda>r. rel_from r \<noteq> o_id ob) (list_relationships g c)"
  "edge_rows (without_outgoing (Some ob) g) c = {e \<in> edge_rows g c. fst e \<noteq> o_id ob}"
  by (auto simp: without_outgoing_def list_objects_def list_relationships_def edge_rows_def conj_commute)

theorem refresh_update_core:
  assumes "in_step known S conn g" "server_names_ok S"
    and p: "pi_name info \<in> pi_name ` server_processes S" "pi_name info \<in> set (answered (sv_processes S))"
  shows "\<exists>g'. refresh_process known (with_process info S) i conn org (pi_name info) False g = Inr (g', True) \<and>
    in_step known (with_process info S) conn g'"
proof -
  let ?objs = "list_objects g conn None" and ?S = "with_process info S"
  note rows = in_step_rows [OF assms(1)]
  note index = in_step_index [OF assms(1,2)]
  obtain ob where ob: "ob \<in> set ?objs" "okey ob = (''process'', pi_name info)"
    and existing: "graph_lookup ?objs ''process'' (pi_name info) = Some ob"
    by (rule process_row [OF assms(1) p(1)])
  let ?edges = "fst (process_edges known info ?objs)" and ?g1 = "without_outgoing (Some ob) g"
  let ?g' = "insert_edges conn ob ?edges ?g1"
  have "refresh_process known ?S i conn org (pi_name info) False g = Inr (?g', True)"
    using ob(1) by (auto simp: refresh_process_def Let_def existing with_process_def)
  moreover have "in_step known ?S conn ?g'"
  proof (rule in_stepI)
    have ok1: "rows_ok conn ?g1" using assms(1) by (auto simp: in_step_def rows_ok_def Let_def without_outgoing_rows)
    show "rows_ok conn ?g'"
      using ob(1) process_edges_in by (intro insert_edges_ok ok1) (auto simp: without_outgoing_rows)
    show "keys_of (list_objects ?g' conn None) = model_objects ?S"
      by (simp add: insert_edges_rows without_outgoing_rows rows model_objects_with [OF assms(2) p])
    have "edge_names ?objs ((\<lambda>(t, rel). (o_id ob, o_id t, rel)) ` {(t, rel) \<in> set ?edges. t \<noteq> ob}) =
        (\<lambda>(t, rel). link (okey ob) rel (okey t)) ` {(t, rel) \<in> set ?edges. t \<noteq> ob}"
      using process_edges_in by (intro out_edge_names rows(1) ob(1)) auto
    also have "\<dots> = process_out known (model_objects S) info"
      unfolding out_edges_named [OF index ob] rows(3) ..
    finally have out: "edge_names ?objs ((\<lambda>(t, rel). (o_id ob, o_id t, rel)) ` {(t, rel) \<in> set ?edges. t \<noteq> ob}) =
        process_out known (model_objects S) info" .
    show "edge_names (list_objects ?g' conn None) (edge_rows ?g' conn) = model_edges known ?S"
      unfolding insert_edges_rows without_outgoing_rows edge_names_Un out edge_names_without_source [OF rows(1,2) ob(1)]
        rows(4) ob(2) model_edges_with [OF assms(2) p] ..
  qed
  ultimately show ?thesis by blast
qed

lemma edge_names_cong:
  assumes "\<And>f t rel. f \<in> o_id ` set objs \<Longrightarrow> t \<in> o_id ` set objs \<Longrightarrow> (f, t, rel) \<in> A \<longleftrightarrow> (f, t, rel) \<in> B"
  shows "edge_names objs A = edge_names objs B"
  using assms unfolding edge_names_def by blast

lemma without_object_rows:
  assumes "distinct (map o_id (list_objects g conn None))" "ob \<in> set (list_objects g conn None)"
  shows "list_objects (without_object (Some ob) g) conn None =
      filter (\<lambda>y. o_id y \<noteq> o_id ob) (list_objects g conn None)"
    "list_relationships (without_object (Some ob) g) conn = filter (\<lambda>r. rel_to r \<noteq> o_id ob) (list_relationships g conn)"
  by (auto simp: without_object_def list_objects_def list_relationships_def conj_commute)

lemma refresh_delete_rows:
  assumes "in_step known S conn g" "server_names_ok S" "p \<in> pi_name ` server_processes S"
  shows "\<exists>g'. refresh_process known S' i conn org p True g = Inr (g', True) \<and> in_step known (dropped p S) conn g' \<and>
    (\<exists>P. g_objects g' = filter P (g_objects g))"
proof -
  let ?objs = "list_objects g conn None" and ?S = "dropped p S"
  note rows = in_step_rows [OF assms(1)]
  obtain ob where ob: "ob \<in> set ?objs" "okey ob = (''process'', p)"
    and existing: "graph_lookup ?objs ''process'' p = Some ob"
    by (rule process_row [OF assms(1,3)])
  let ?g1 = "without_outgoing (Some ob) g"
  let ?g' = "without_object (Some ob) ?g1"
  let ?objs' = "filter (\<lambda>y. o_id y \<noteq> o_id ob) ?objs"
  have "refresh_process known S' i conn org p True g = Inr (?g', True)"
    using ob(1) by (auto simp: refresh_process_def Let_def existing)
  moreover have "in_step known ?S conn ?g'"
  proof (rule in_stepI)
    have rows1: "list_objects ?g1 conn None = ?objs" by (simp add: without_outgoing_rows)
    have objs': "list_objects ?g' conn None = ?objs'"
      using without_object_rows(1) [of ?g1 conn ob] rows(1) ob(1) by (simp add: rows1)
    have rels': "list_relationships ?g' conn =
        filter (\<lambda>r. rel_to r \<noteq> o_id ob \<and> rel_from r \<noteq> o_id ob) (list_relationships g conn)"
      using without_object_rows(2) [of ?g1 conn ob] rows(1) ob(1) by (simp add: rows1 without_outgoing_rows conj_commute)
    have ids: "o_id ` set ?objs' = o_id ` set ?objs - {o_id ob}" by auto
    show "rows_ok conn ?g'"
      using assms(1) unfolding in_step_def rows_ok_def Let_def objs' rels' ids
      by (simp add: distinct_map_filter)
    have "keys_of ?objs' = keys_of ?objs - {okey ob}"
      using rows(1,2) ob(1) by (auto simp: keys_of_def distinct_map dest: inj_onD)
    then show "keys_of (list_objects ?g' conn None) = model_objects ?S"
      by (simp add: objs' rows(3) ob(2) model_objects_dropped [OF assms(2)])
    have "edge_names ?objs' (edge_rows ?g' conn) = edge_names ?objs' (edge_rows g conn)"
      by (rule edge_names_cong) (auto simp: edge_rows_def rels' image_iff)
    then show "edge_names (list_objects ?g' conn None) (edge_rows ?g' conn) = model_edges known ?S"
      unfolding objs' by (simp add: edge_names_without_object [OF rows(1,2) ob(1)] rows(4) ob(2) model_edges_dropped [OF assms(2)])
  qed
  moreover have "g_objects ?g' = filter (\<lambda>y. o_id y \<noteq> o_id ob) (g_objects g)"
    by (simp add: without_object_def without_outgoing_def)
  ultimately show ?thesis by blast
qed

text \<open>A process the map does not know: its own edges are drawn, those into it are not.\<close>

theorem refresh_create_core:
  assumes "in_step known (dropped p S) conn g" "server_names_ok S" "p \<in> set (answered (sv_processes S))"
    and info: "sv_process S p = Inr info" and fresh: "i \<notin> o_id ` set (list_objects g conn None)"
    and some: "list_objects g conn None \<noteq> []"
  shows "\<exists>g'. refresh_process known S i conn org p False g = Inr (g', True) \<and> rows_ok conn g' \<and>
    graph_keys g' conn = (model_objects S, {e \<in> model_edges known S. edge_target e \<noteq> (''process'', p)}) \<and>
    g_objects g' = g_objects g @ [tm1_object.make i org conn ''process'' p]"
proof -
  let ?objs = "list_objects g conn None" and ?ob = "tm1_object.make i org conn ''process'' p"
  let ?K = "model_objects S"
  from assms(2,3) info have name: "pi_name info = p" by (simp add: server_names_ok_def)
  then have p: "info \<in> server_processes S" "(''process'', p) \<in> ?K"
    using assms(3) info by (auto simp: server_processes_def model_objects_def)
  note rows = in_step_rows [OF assms(1)]
  have K: "keys_of ?objs = ?K - {(''process'', p)}" by (simp add: rows(3) model_objects_dropped [OF assms(2)])
  have unique: "names_unique ?K" using assms(2) by (simp add: server_names_ok_def)
  then have index: "index_ok ?objs" using names_unique_mono [of "keys_of ?objs" ?K] rows(2) by (auto simp: index_ok_def K)
  have "named (keys_of ?objs) ''process'' p = {}"
    using unique p(2) unfolding K named_def names_unique_def by fastforce
  then have none: "graph_lookup ?objs ''process'' p = None"
    using graph_lookup_named [OF index, of "''process''" p] by auto
  have key: "okey ?ob = (''process'', p)" "o_id ?ob = i" by (simp_all add: okey_def tm1_object.make_def)
  let ?edges = "fst (process_edges known info ?objs)" and ?g1 = "g\<lparr>g_objects := g_objects g @ [?ob]\<rparr>"
  let ?g' = "insert_edges conn ?ob ?edges ?g1"
  have res: "refresh_process known S i conn org p False g = Inr (?g', True)"
    using some by (auto simp: refresh_process_def Let_def none info name without_outgoing_def)
  have objs1: "list_objects ?g1 conn None = ?objs @ [?ob]" "list_relationships ?g1 conn = list_relationships g conn"
    by (simp_all add: list_objects_def list_relationships_def tm1_object.make_def)
  have new: "?ob \<notin> set ?objs" using fresh by (auto simp: key(2) dest: imageI [of _ _ o_id])
  have ids: "distinct (map o_id (?objs @ [?ob]))" using rows(1) fresh by (auto simp: key(2))
  have ok1: "rows_ok conn ?g1"
    using assms(1) fresh K key by (auto simp: in_step_def rows_ok_def Let_def objs1 keys_of_def)
  have ends: "rel_from r \<noteq> i" "rel_to r \<noteq> i" if "r \<in> set (list_relationships g conn)" for r
    using assms(1) fresh that by (auto simp: in_step_def rows_ok_def Let_def)
  have ok: "rows_ok conn ?g'"
    using process_edges_in [of _ _ known info ?objs] ends by (intro insert_edges_ok ok1) (auto simp: objs1 key(2))
  have "{(t, rel) \<in> set ?edges. t \<noteq> ?ob} = set ?edges" using process_edges_in new by auto
  then have "edge_rows ?g' conn = edge_rows g conn \<union> (\<lambda>(t, rel). (o_id ?ob, o_id t, rel)) ` set ?edges"
    using insert_edges_rows(2) [of conn ?ob ?edges ?g1] by (simp add: edge_rows_def objs1)
  moreover have "edge_names (?objs @ [?ob]) (edge_rows g conn) = model_edges known (dropped p S)"
  proof -
    have "edge_names (?objs @ [?ob]) (edge_rows g conn) = edge_names ?objs (edge_rows g conn)"
      using ends by (intro edge_names_append) (auto simp: key(2) edge_rows_def)
    then show ?thesis by (simp only: rows(4))
  qed
  moreover have "edge_names (?objs @ [?ob]) ((\<lambda>(t, rel). (o_id ?ob, o_id t, rel)) ` set ?edges) =
      (\<lambda>(t, rel). link (okey ?ob) rel (okey t)) ` set ?edges"
    using process_edges_in by (intro out_edge_names ids) auto
  moreover have "(\<lambda>(t, rel). link (okey ?ob) rel (okey t)) ` set ?edges =
      {e \<in> process_out known ?K info. edge_target e \<noteq> (''process'', p)}"
  proof -
    let ?T = "process_targets known (keys_of ?objs) info"
    have T: "?T = (\<lambda>(t, rel). (okey t, rel)) ` set ?edges"
      by (rule process_edges_named [OF index, symmetric])
    have "t \<noteq> (''process'', p)" if "(t, rel) \<in> ?T" for t rel
    proof -
      from that obtain ob where "(ob, rel) \<in> set ?edges" "t = okey ob" unfolding T by auto
      then have "t \<in> keys_of ?objs" using process_edges_in keys_ofI by blast
      then show ?thesis by (simp add: K)
    qed
    then have "{(t, rel) \<in> ?T. t \<noteq> (''process'', p)} = ?T" by blast
    then have "process_out known (keys_of ?objs) info = (\<lambda>(t, rel). link (okey ?ob) rel t) ` ?T"
      by (simp add: process_out_def key(1) name)
    also have "\<dots> = (\<lambda>(t, rel). link (okey ?ob) rel (okey t)) ` set ?edges"
      by (simp add: T image_image case_prod_beta)
    finally have "process_out known (keys_of ?objs) info = (\<lambda>(t, rel). link (okey ?ob) rel (okey t)) ` set ?edges" .
    then show ?thesis unfolding K process_out_minus by simp
  qed
  ultimately have "edge_names (?objs @ [?ob]) (edge_rows ?g' conn) =
      model_edges known (dropped p S) \<union> {e \<in> process_out known ?K info. edge_target e \<noteq> (''process'', p)}"
    by (simp add: edge_names_Un)
  also have "\<dots> = {e \<in> model_edges known S. edge_target e \<noteq> (''process'', p)}"
  proof -
    have "process_out known ?K info \<subseteq> model_edges known S" using p(1) by (auto simp: model_edges_def)
    moreover have "e \<in> process_out known ?K info" if "e \<in> model_edges known S" "edge_source e = (''process'', p)" for e
    proof -
      have "e \<notin> structure_edges S" "e \<notin> chore_edges S P" for P
        using that(2) structure_edge_kinds [of e S] chore_edges_source [of e S P p] by auto
      with that(1) obtain x where x: "x \<in> server_processes S" "e \<in> process_out known ?K x" by (auto simp: model_edges_def)
      then have "pi_name x = p" using process_out_source [of e known ?K x] that(2) by simp
      then have "x = info" using x(1) assms(2) info by (auto simp: server_processes_def server_names_ok_def)
      with x(2) show ?thesis by simp
    qed
    ultimately show ?thesis unfolding model_edges_dropped [OF assms(2)] by blast
  qed
  finally have "edge_names (?objs @ [?ob]) (edge_rows ?g' conn) = {e \<in> model_edges known S. edge_target e \<noteq> (''process'', p)}" .
  moreover have "keys_of (?objs @ [?ob]) = ?K" using p(2) K by (auto simp: keys_of_def key(1))
  moreover have "list_objects ?g' conn None = ?objs @ [?ob]" by (simp add: insert_edges_rows objs1)
  ultimately have "graph_keys ?g' conn = (?K, {e \<in> model_edges known S. edge_target e \<noteq> (''process'', p)})"
    using graph_keys_rows [of ?g' conn] ids by simp
  with res ok show ?thesis by (auto simp: insert_edges_def)
qed

section \<open>Properties\<close>

lemma server_names_ok_dropped: "server_names_ok S \<Longrightarrow> names_unique (model_objects (dropped p S))"
  using names_unique_mono [of "model_objects (dropped p S)" "model_objects S"]
  by (auto simp: model_objects_dropped server_names_ok_def)

lemma listed_process:
  "p \<in> set (answered (sv_processes S)) \<Longrightarrow> sv_process S p = Inr old \<Longrightarrow> server_names_ok S \<Longrightarrow>
     p \<in> pi_name ` server_processes S \<and> pi_name old = p"
  by (force simp: server_processes_def server_names_ok_def)

text \<open>
  The server after a process was saved: changed in place, or listed for the first time
  (where in the list is of no account: an extraction's keys do not depend on it).
\<close>

definition process_created :: "process_info \<Rightarrow> live_server \<Rightarrow> live_server" where
  "process_created info S = S\<lparr>sv_processes := Inr (pi_name info # answered (sv_processes S)),
     sv_process := (sv_process S)(pi_name info := Inr info)\<rparr>"

definition process_saved :: "process_info \<Rightarrow> live_server \<Rightarrow> live_server" where
  "process_saved info S =
     (if pi_name info \<in> set (answered (sv_processes S)) then with_process info S else process_created info S)"

lemma in_step_undone:
  assumes "in_step known S conn g" "pi_name info \<notin> set (answered (sv_processes S))"
  shows "in_step known (dropped (pi_name info) (process_created info S)) conn g"
proof -
  let ?S = "dropped (pi_name info) (process_created info S)"
  have listed: "filter (\<lambda>n. n \<noteq> pi_name info) (answered (sv_processes S)) = answered (sv_processes S)"
    using assms(2) by (auto simp: filter_id_conv)
  have fields: "answered (sv_processes ?S) = answered (sv_processes S)"
    "sv_process ?S = (sv_process S)(pi_name info := Inr info)"
    using listed by (simp_all add: dropped_def process_created_def answered_def)
  have processes: "server_processes ?S = server_processes S"
    unfolding server_processes_def fields using assms(2) by (intro Collect_cong bex_cong refl) auto
  have same: "structure_objects ?S = structure_objects S" "structure_edges ?S = structure_edges S"
    "server_chores ?S = server_chores S"
    by (simp_all add: dropped_def process_created_def)
  have objects: "model_objects ?S = model_objects S"
    unfolding model_objects_def processes same by simp
  have "model_edges known ?S = model_edges known S"
    unfolding model_edges_def processes same objects chore_edges_same [OF same(3)] by simp
  with assms(1) objects show ?thesis by (simp add: in_step_def)
qed

text \<open>The one read of a refresh, the process itself, decides which of the three cases it is.\<close>

lemma refresh_created:
  assumes "in_step known S conn g" "server_names_ok (process_created info S)"
    and new: "pi_name info \<notin> set (answered (sv_processes S))"
    and "i \<notin> o_id ` set (list_objects g conn None)" "model_objects S \<noteq> {}"
  shows "\<exists>g'. refresh_process known (process_created info S) i conn org (pi_name info) False g = Inr (g', True) \<and>
    rows_ok conn g' \<and>
    graph_keys g' conn = (model_objects (process_created info S),
      {e \<in> model_edges known (process_created info S). edge_target e \<noteq> (''process'', pi_name info)})"
proof -
  have "pi_name info \<in> set (answered (sv_processes (process_created info S)))"
    "sv_process (process_created info S) (pi_name info) = Inr info"
    by (simp_all add: process_created_def answered_def)
  moreover have "list_objects g conn None \<noteq> []"
    using in_step_rows(3) [OF assms(1)] assms(5) by (auto simp: keys_of_def)
  ultimately show ?thesis
    using refresh_create_core [OF in_step_undone [OF assms(1) new] assms(2) _ _ assms(4)] by blast
qed

text \<open>
  C12. After an applied change saved or removed a process the server already had, refreshing
  that one process leaves the map of a connection that was in step with the server exactly
  as a full extraction of the changed server would write it. After a change that created the
  process the refreshed map is the extraction's but for the edges that other processes and
  chores have into it, which are missing.
\<close>

theorem refresh_agrees_with_extraction:
  assumes "in_step known S conn g" "server_names_ok S" "server_names_ok S'"
    and S': "S' = (if deleted then dropped (pi_name info) S else process_saved info S)"
    and listed: "pi_name info \<in> set (answered (sv_processes S)) \<Longrightarrow> \<exists>old. sv_process S (pi_name info) = Inr old"
    and unlisted: "pi_name info \<notin> set (answered (sv_processes S)) \<Longrightarrow>
      \<not> deleted \<and> i \<notin> o_id ` set (list_objects g conn None) \<and> model_objects S \<noteq> {}"
    and "extract_metadata known S' ids conn org' g0 = Inr (full, u)" "inj ids"
  shows "\<exists>g'. refresh_process known S' i conn org (pi_name info) deleted g = Inr (g', True) \<and>
    rows_ok conn g' \<and>
    (if pi_name info \<in> set (answered (sv_processes S)) then graph_keys g' conn = graph_keys full conn
     else graph_keys g' conn =
       (fst (graph_keys full conn),
        {e \<in> snd (graph_keys full conn). edge_target e \<noteq> (''process'', pi_name info)}))"
proof -
  have "names_unique (model_objects S')" using assms(3) by (simp add: server_names_ok_def)
  note full = extraction_core(1) [OF assms(7,8) this]
  show ?thesis
  proof (cases "pi_name info \<in> set (answered (sv_processes S))")
    case True
    obtain old where "sv_process S (pi_name info) = Inr old" using listed [OF True] by blast
    note p = conjunct1 [OF listed_process [OF True this assms(2)]]
    have "S' = (if deleted then dropped (pi_name info) S else with_process info S)"
      using True by (simp add: S' process_saved_def)
    then obtain g' where "refresh_process known S' i conn org (pi_name info) deleted g = Inr (g', True)"
      "in_step known S' conn g'"
      using refresh_delete_rows [OF assms(1,2) p, of S' i org] refresh_update_core [OF assms(1,2) p True, of i org]
      by (cases deleted) auto
    with True full show ?thesis by (auto simp: in_step_def)
  next
    case False
    with unlisted [OF False] have S'': "S' = process_created info S" and nd: "\<not> deleted" by (simp_all add: S' process_saved_def)
    from refresh_created [OF assms(1) assms(3) [unfolded S''] False, of i org] unlisted [OF False] False full
    show ?thesis by (auto simp: S'' nd)
  qed
qed

theorem rolled_back_deletion_forgets_callers:
  assumes "in_step known S conn g" "server_names_ok S"
    and p: "p \<in> set (answered (sv_processes S))" "sv_process S p = Inr info" and "cube_names S \<noteq> {}"
    and ch: "ch_type ch = DELETE_PROCESS" "ch_connection_id ch = conn" "ch_target_name ch = p"
    and i: "i \<notin> o_id ` set (g_objects g)"
    and unique: "distinct (map (\<lambda>ob. (o_connection_id ob, o_object_type ob, o_name ob)) (g_objects g))"
    and g1: "g1 = refresh_graph known (dropped p S) j ch True g"
    and g2: "g2 = refresh_graph known S i ch False g1"
  shows "in_step known (dropped p S) conn g1 \<and>
    graph_keys g2 conn = (model_objects S, {e \<in> model_edges known S. edge_target e \<noteq> (''process'', p)})"
proof -
  let ?key = "\<lambda>ob. (o_connection_id ob, o_object_type ob, o_name ob)"
  obtain P where r1: "refresh_process known (dropped p S) j conn (ch_organization_id ch) p True g = Inr (g1, True)"
    and step1: "in_step known (dropped p S) conn g1" and objs1: "g_objects g1 = filter P (g_objects g)"
    using refresh_delete_rows [OF assms(1,2) conjunct1 [OF listed_process [OF p assms(2)]], of "dropped p S" j "ch_organization_id ch"]
      unique
    by (auto simp: g1 refresh_graph_def ch distinct_map_filter)
  have keys1: "keys_of (list_objects g1 conn None) = model_objects S - {(''process'', p)}"
    using in_step_rows(3) [OF step1] model_objects_dropped [OF assms(2)] by simp
  have some: "list_objects g1 conn None \<noteq> []"
    using keys1 assms(5) by (auto simp: model_objects_def structure_objects_def keys_of_def)
  have fresh: "i \<notin> o_id ` set (list_objects g1 conn None)" using i by (auto simp: list_objects_def objs1)
  from refresh_create_core [OF step1 assms(2) p fresh some, of "ch_organization_id ch"] obtain g'
    where r2: "refresh_process known S i conn (ch_organization_id ch) p False g1 = Inr (g', True)"
      and keys: "graph_keys g' conn = (model_objects S, {e \<in> model_edges known S. edge_target e \<noteq> (''process'', p)})"
      and objs: "g_objects g' = g_objects g1 @ [tm1_object.make i (ch_organization_id ch) conn ''process'' p]"
    by auto
  have "(conn, ''process'', p) \<notin> ?key ` set (g_objects g1)"
    using keys1 by (auto simp: keys_of_def okey_def list_objects_def)
  then have "distinct (map ?key (g_objects g'))"
    using unique by (auto simp: objs objs1 distinct_map_filter tm1_object.make_def)
  with r2 keys have "g2 = g'" by (simp add: g2 refresh_graph_def ch)
  with step1 keys show ?thesis by simp
qed

section \<open>The small server\<close>

lemma demo_server_ok: "server_names_ok demo_live"
  using demo_unique by (auto simp: server_names_ok_def demo_live_def live_process_def answered_def)

definition demo_map :: graph where
  "demo_map = (case extract_metadata (\<lambda>_. True) demo_live nat_str ''c'' ''o'' \<lparr>g_objects = [], g_relationships = []\<rparr> of
     Inr (g, _) \<Rightarrow> g | Inl _ \<Rightarrow> \<lparr>g_objects = [], g_relationships = []\<rparr>)"

lemma demo_map_in_step: "in_step (\<lambda>_. True) demo_live ''c'' demo_map"
proof -
  from extraction_reads_the_model_core [OF live_answers demo_unique inj_nat_str, of "\<lambda>_. True" "''c''" "''o''"]
  obtain g u where "extract_metadata (\<lambda>_. True) demo_live nat_str ''c'' ''o'' \<lparr>g_objects = [], g_relationships = []\<rparr> = Inr (g, u)"
    "rows_ok ''c'' g" "graph_keys g ''c'' = (model_objects demo_live, model_edges (\<lambda>_. True) demo_live)" by blast
  then show ?thesis by (simp add: demo_map_def in_step_def)
qed

lemma demo_dropped_answers:
  assumes "S = dropped ''load'' demo_live \<or> S = with_process (live_process ''load'' code) demo_live"
  shows "reads_answer S"
proof -
  have "\<exists>cubes. sv_cubes S = Inr cubes \<and> (\<forall>n \<in> set cubes. \<exists>ci. sv_cube S n = Inr ci)"
    "\<exists>names. sv_processes S = Inr names \<and> (\<forall>n \<in> set names. \<exists>info. sv_process S n = Inr info)"
    "\<exists>chores. sv_chores S = Inr chores \<and> (\<forall>n \<in> set chores. \<exists>hi. sv_chore S n = Inr hi)"
    "\<And>d. \<exists>hs. sv_hierarchies S d = Inr hs" "sv_connect S = Inr ()" "\<And>c. \<exists>t. sv_cube_rules S c = Inr t"
    using assms by (auto simp: demo_live_def dropped_def with_process_def answered_def)
  then show ?thesis by (simp add: reads_answer_def)
qed

lemma pc_objects_finalise: "pc_objects (finalise known pr) = pc_objects pr"
  by (simp add: finalise_def Let_def)

lemma collect_empty: "collect sec [] pr = pr"
  by (simp add: collect_def)

lemma live_call: "link (''process'', ''nightly'') ''calls_process'' (''process'', ''load'') \<in> model_edges (\<lambda>_. True) demo_live"
proof -
  let ?code = "''ExecuteProcess('' @ quote # ''LOAD'' @ quote # '');''"
  let ?r = "\<lparr>or_name = ''LOAD'', or_kind = ''process'', or_access = ''calls'', or_section = ''prolog'', or_literal = True,
    or_function = ''EXECUTEPROCESS''\<rparr>"
  let ?info = "live_process ''nightly'' ?code"
  have "pc_objects (collect ''prolog'' ?code (empty_record nm ty ds secs)) = [?r]" for nm ty ds secs
    unfolding empty_record_def by code_simp
  then have objs: "pc_objects (parse_process_code (\<lambda>_. True) ?info) = [?r]"
    by (simp add: parse_process_code_def Let_def pc_objects_finalise sections_of_def live_process_def collect_empty)
  have "(''process'', ''load'') \<in> named (model_objects demo_live) ''process'' ''LOAD''"
  proof -
    have "lower ''LOAD'' = ''load''" "lower ''load'' = ''load''" by code_simp+
    then show ?thesis by (simp add: named_def demo_objects)
  qed
  then have "((''process'', ''load''), ''calls_process'') \<in> process_targets (\<lambda>_. True) (model_objects demo_live) ?info"
    unfolding process_targets_def objs by (simp add: ref_targets_def)
  then have "link (''process'', ''nightly'') ''calls_process'' (''process'', ''load'') \<in>
      process_out (\<lambda>_. True) (model_objects demo_live) ?info"
    by (force simp: process_out_def live_process_def)
  then show ?thesis by (auto simp: model_edges_def demo_processes)
qed

definition demo_saved :: process_info where
  "demo_saved = live_process ''load'' (''ExecuteProcess('' @ quote # ''nightly'' @ quote # '');'')"

lemma demo_saved: "pi_name demo_saved = ''load''" "sv_process demo_live ''load'' = Inr (live_process ''load'' [])"
    "''load'' \<in> set (answered (sv_processes demo_live))"
  by (simp_all add: demo_saved_def live_process_def demo_live_def answered_def)

lemma demo_saved_eq: "process_saved demo_saved demo_live = with_process demo_saved demo_live"
  using demo_saved by (simp add: process_saved_def)

text \<open>The other case: \<open>load\<close> is made when \<open>nightly\<close> calls it already.\<close>

lemma demo_created: "process_saved (live_process ''load'' []) (dropped ''load'' demo_live) = demo_live"
  by (auto simp: process_saved_def process_created_def dropped_def demo_live_def answered_def live_process_def fun_eq_iff)

theorem refresh_agrees_with_extraction_witness:
  "(\<exists>full u g'. extract_metadata (\<lambda>_. True) (with_process demo_saved demo_live) nat_str ''c'' ''o'' demo_map = Inr (full, u) \<and>
     refresh_process (\<lambda>_. True) (with_process demo_saved demo_live) ''x'' ''c'' ''o'' ''load'' False demo_map = Inr (g', True) \<and>
     graph_keys g' ''c'' = graph_keys full ''c'') \<and>
   (\<exists>i g full u g'. in_step (\<lambda>_. True) (dropped ''load'' demo_live) ''c'' g \<and>
     extract_metadata (\<lambda>_. True) demo_live nat_str ''c'' ''o'' g = Inr (full, u) \<and>
     refresh_process (\<lambda>_. True) demo_live i ''c'' ''o'' ''load'' False g = Inr (g', True) \<and>
     fst (graph_keys g' ''c'') = fst (graph_keys full ''c'') \<and>
     link (''process'', ''nightly'') ''calls_process'' (''process'', ''load'') \<in> snd (graph_keys full ''c'') \<and>
     link (''process'', ''nightly'') ''calls_process'' (''process'', ''load'') \<notin> snd (graph_keys g' ''c''))"
proof
  let ?S = "process_saved demo_saved demo_live"
  have p: "''load'' \<in> pi_name ` server_processes demo_live" by (simp add: demo_names)
  have unique: "names_unique (model_objects ?S)"
    using demo_unique demo_server_ok p by (simp add: demo_saved_eq model_objects_with demo_saved)
  moreover have "reads_answer ?S"
    unfolding demo_saved_eq unfolding demo_saved_def by (rule demo_dropped_answers [OF disjI2 [OF refl]])
  ultimately obtain full u where full: "extract_metadata (\<lambda>_. True) ?S nat_str ''c'' ''o'' demo_map = Inr (full, u)"
    using extraction_reads_the_model_core [OF _ _ inj_nat_str, of ?S "\<lambda>_. True"] by blast
  have ok: "server_names_ok ?S"
    using unique demo_server_ok by (auto simp: server_names_ok_def demo_saved_eq with_process_def)
  have S: "?S = (if False then dropped (pi_name demo_saved) demo_live else ?S)" by simp
  have q: "pi_name demo_saved \<in> set (answered (sv_processes demo_live))"
    "sv_process demo_live (pi_name demo_saved) = Inr (live_process ''load'' [])" by (simp_all add: demo_saved)
  from refresh_agrees_with_extraction [OF demo_map_in_step demo_server_ok ok S _ _ full inj_nat_str, of "''x''" "''o''"] full q
  show "\<exists>full u g'. extract_metadata (\<lambda>_. True) (with_process demo_saved demo_live) nat_str ''c'' ''o'' demo_map = Inr (full, u) \<and>
     refresh_process (\<lambda>_. True) (with_process demo_saved demo_live) ''x'' ''c'' ''o'' ''load'' False demo_map = Inr (g', True) \<and>
     graph_keys g' ''c'' = graph_keys full ''c''"
    by (auto simp: demo_saved demo_saved_eq)
next
  let ?S = "dropped ''load'' demo_live" and ?info = "live_process ''load'' []"
  let ?call = "link (''process'', ''nightly'') ''calls_process'' (''process'', ''load'')"
  have p: "''load'' \<in> pi_name ` server_processes demo_live" by (simp add: demo_names)
  have nm: "pi_name ?info = ''load''" by (simp add: live_process_def)
  obtain g where g: "in_step (\<lambda>_. True) ?S ''c'' g"
    using refresh_delete_rows [OF demo_map_in_step demo_server_ok p] by blast
  obtain i where i: "i \<notin> o_id ` set (list_objects g ''c'' None)"
    using ex_new_if_finite [OF infinite_UNIV_listI, of "o_id ` set (list_objects g ''c'' None)"] by auto
  have listed: "set (answered (sv_processes ?S)) = {''nightly''}"
    by (auto simp: dropped_def demo_live_def answered_def)
  have ok: "server_names_ok ?S"
    using server_names_ok_dropped [OF demo_server_ok, of "''load''"] demo_server_ok listed
    by (auto simp: server_names_ok_def dropped_def demo_live_def answered_def)
  have some: "model_objects ?S \<noteq> {}"
    by (simp add: model_objects_dropped [OF demo_server_ok] demo_objects)
  from extraction_reads_the_model_core [OF live_answers demo_unique inj_nat_str, of "\<lambda>_. True" "''c''" "''o''" g]
  obtain full u where full: "extract_metadata (\<lambda>_. True) demo_live nat_str ''c'' ''o'' g = Inr (full, u)"
    "graph_keys full ''c'' = (model_objects demo_live, model_edges (\<lambda>_. True) demo_live)" by blast
  have S': "demo_live = (if False then dropped (pi_name ?info) ?S else process_saved ?info ?S)"
    by (simp add: demo_created)
  have "\<exists>g'. refresh_process (\<lambda>_. True) demo_live i ''c'' ''o'' ''load'' False g = Inr (g', True) \<and>
      graph_keys g' ''c'' = (fst (graph_keys full ''c''),
        {e \<in> snd (graph_keys full ''c''). edge_target e \<noteq> (''process'', ''load'')})"
    using refresh_agrees_with_extraction [OF g ok demo_server_ok S' _ _ full(1) inj_nat_str, of i "''o''"] i some
    by (simp add: nm listed) blast
  then obtain g' where "refresh_process (\<lambda>_. True) demo_live i ''c'' ''o'' ''load'' False g = Inr (g', True)"
    "graph_keys g' ''c'' = (fst (graph_keys full ''c''),
        {e \<in> snd (graph_keys full ''c''). edge_target e \<noteq> (''process'', ''load'')})" by blast
  with g full live_call show "\<exists>i g full u g'. in_step (\<lambda>_. True) (dropped ''load'' demo_live) ''c'' g \<and>
     extract_metadata (\<lambda>_. True) demo_live nat_str ''c'' ''o'' g = Inr (full, u) \<and>
     refresh_process (\<lambda>_. True) demo_live i ''c'' ''o'' ''load'' False g = Inr (g', True) \<and>
     fst (graph_keys g' ''c'') = fst (graph_keys full ''c'') \<and> ?call \<in> snd (graph_keys full ''c'') \<and>
     ?call \<notin> snd (graph_keys g' ''c'')" by (intro exI [of _ i] exI [of _ g] exI [of _ full] exI [of _ u] exI [of _ g']) simp
qed

definition demo_deletion :: change where
  "demo_deletion =
     \<lparr>ch_id = ''d'', ch_connection_id = ''c'', ch_organization_id = ''o'', ch_created_by = ''ann'', ch_type = DELETE_PROCESS,
      ch_target_name = ''load'', ch_new_content = None, ch_previous_content = None, ch_validation_errors = [],
      ch_impact = None, ch_status = EXECUTED, ch_error_message = None, ch_superseded_by = None, ch_executed_by = None,
      ch_executed_at = None, ch_rolled_back_at = None, ch_execution_result = None, ch_base_fingerprint = None,
      ch_environment = None, ch_checks = []\<rparr>"

lemma demo_map_rows:
  "distinct (map (\<lambda>ob. (o_connection_id ob, o_object_type ob, o_name ob)) (g_objects demo_map))"
proof -
  from extraction_reads_the_model_core [OF live_answers demo_unique inj_nat_str, of "\<lambda>_. True" "''c''" "''o''"]
  obtain g u where "extract_metadata (\<lambda>_. True) demo_live nat_str ''c'' ''o'' \<lparr>g_objects = [], g_relationships = []\<rparr> = Inr (g, u)"
    by blast
  then have ex: "extract_metadata (\<lambda>_. True) demo_live nat_str ''c'' ''o'' \<lparr>g_objects = [], g_relationships = []\<rparr> = Inr (demo_map, u)"
    by (simp add: demo_map_def)
  have "list_objects demo_map c None = []" if "c \<noteq> ''c''" for c
    using extraction_core(3) [OF ex inj_nat_str demo_unique that] by (simp add: list_objects_def)
  then have "\<forall>ob \<in> set (g_objects demo_map). o_connection_id ob = ''c''"
    by (fastforce simp: list_objects_def filter_empty_conv)
  then have "list_objects demo_map ''c'' None = g_objects demo_map"
    by (simp add: list_objects_def)
  with in_step_rows(2) [OF demo_map_in_step] have "distinct (map okey (g_objects demo_map))" by simp
  then show ?thesis by (auto simp: distinct_map okey_def inj_on_def)
qed

theorem rolled_back_deletion_forgets_callers_witness:
  "\<exists>i g1 g2. g1 = refresh_graph (\<lambda>_. True) (dropped ''load'' demo_live) ''y'' demo_deletion True demo_map \<and>
     g2 = refresh_graph (\<lambda>_. True) demo_live i demo_deletion False g1 \<and>
     link (''process'', ''nightly'') ''calls_process'' (''process'', ''load'') \<in> snd (graph_keys demo_map ''c'') \<and>
     link (''process'', ''nightly'') ''calls_process'' (''process'', ''load'') \<notin> snd (graph_keys g2 ''c'')"
proof -
  obtain i where i: "i \<notin> o_id ` set (g_objects demo_map)"
    using ex_new_if_finite [OF infinite_UNIV_listI, of "o_id ` set (g_objects demo_map)"] by auto
  let ?g1 = "refresh_graph (\<lambda>_. True) (dropped ''load'' demo_live) ''y'' demo_deletion True demo_map"
  let ?g2 = "refresh_graph (\<lambda>_. True) demo_live i demo_deletion False ?g1"
  have ch: "ch_type demo_deletion = DELETE_PROCESS" "ch_connection_id demo_deletion = ''c''" "ch_target_name demo_deletion = ''load''"
    by (simp_all add: demo_deletion_def)
  have cubes: "cube_names demo_live \<noteq> {}" by (simp add: demo_names)
  from rolled_back_deletion_forgets_callers [OF demo_map_in_step demo_server_ok demo_saved(3,2) cubes ch i demo_map_rows refl refl]
  have "graph_keys ?g2 ''c'' =
      (model_objects demo_live, {e \<in> model_edges (\<lambda>_. True) demo_live. edge_target e \<noteq> (''process'', ''load'')})" by blast
  moreover have "snd (graph_keys demo_map ''c'') = model_edges (\<lambda>_. True) demo_live"
    using demo_map_in_step by (simp add: in_step_def)
  ultimately have "link (''process'', ''nightly'') ''calls_process'' (''process'', ''load'') \<in> snd (graph_keys demo_map ''c'')"
    "link (''process'', ''nightly'') ''calls_process'' (''process'', ''load'') \<notin> snd (graph_keys ?g2 ''c'')"
    using live_call by simp_all
  then show ?thesis by blast
qed

end
