(* ===== verification/CubeRules.thy ===== *)
theory CubeRules
  imports TiParser "HOL-Library.Product_Lexorder"
begin

text \<open>
  Cube rules: the parser of \<open>tm1/rules/parser.py\<close> (comments, statements with their line
  numbers, areas, qualifiers, feeders) and the analysis of \<open>tm1/rules/analysis.py\<close> (the seven
  checks, \<open>analyze_rules\<close>, \<open>trace_cell\<close>). The regular expressions are written as the scans
  Python's engine makes; the messages of findings are left out, a finding keeps its severity, code,
  line and statement. Text is ASCII.
\<close>

section \<open>Comments and statements\<close>

definition is_quote :: "char \<Rightarrow> bool" where
  "is_quote c \<longleftrightarrow> c = quote \<or> c = CHR 0x22"

text \<open>A line up to its comment; the first argument is the quote of the literal being read.\<close>

fun cut_comment :: "char option \<Rightarrow> string \<Rightarrow> string" where
  "cut_comment q [] = []"
| "cut_comment (Some q) (c # s) = c # cut_comment (if c = q then None else Some q) s"
| "cut_comment None (c # s) =
     (if is_quote c then c # cut_comment (Some c) s
      else if c = CHR ''#'' then []
      else c # cut_comment None s)"

definition strip_comments :: "string \<Rightarrow> string" where
  "strip_comments s = join_lines (map (cut_comment None) (lines_from [] s))"

text \<open>
  The loop of \<open>_split_statements\<close>: the current line, the line the statement starts at, the
  buffer, and the quote of the literal being read.
\<close>

fun statements_from :: "nat \<Rightarrow> nat \<Rightarrow> string \<Rightarrow> char option \<Rightarrow> string \<Rightarrow> (nat \<times> string) list" where
  "statements_from line start buf q [] = (if strip buf = [] then [] else [(start, strip buf)])"
| "statements_from line start buf q (c # s) =
     (let line' = if c = newline then line + 1 else line;
          start' = if c = newline \<and> strip buf = [] then line' else start
      in case q of
           Some d \<Rightarrow> statements_from line' start' (buf @ [c]) (if c = d then None else Some d) s
         | None \<Rightarrow>
             if is_quote c then statements_from line' start' (buf @ [c]) (Some c) s
             else if c = CHR '';'' then
               (if strip buf = [] then [] else [(start', strip buf)]) @ statements_from line' line' [] None s
             else statements_from line' start' (buf @ [c]) None s)"

definition split_statements :: "string \<Rightarrow> (nat \<times> string) list" where
  "split_statements s = statements_from 1 1 [] None s"

section \<open>Areas and qualifiers\<close>

text \<open>\<open>_AREA.match\<close>: the leading bracket groups with the space after each, and what follows.\<close>

function bracket_groups :: "string \<Rightarrow> string \<times> string" where
  "bracket_groups [] = ([], [])"
| "bracket_groups (c # s) =
     (if c = CHR ''['' \<and> CHR '']'' \<in> set s then
        (let inner = takeWhile (\<lambda>x. x \<noteq> CHR '']'') s;
             after = tl (dropWhile (\<lambda>x. x \<noteq> CHR '']'') s);
             more = bracket_groups (dropWhile is_space after)
         in (c # inner @ [CHR '']''] @ takeWhile is_space after @ fst more, snd more))
      else ([], c # s))"
  by pat_completeness auto
termination
proof (relation "measure length")
  fix c :: char and s :: string and inner after :: string
  assume "after = tl (dropWhile (\<lambda>x. x \<noteq> CHR '']'') s)"
  then have "length (dropWhile is_space after) \<le> length s"
    by (metis diff_le_self le_trans length_dropWhile_le length_tl)
  then show "(dropWhile is_space after, c # s) \<in> measure length" by simp
qed simp

definition match_area :: "string \<Rightarrow> (string \<times> string) option" where
  "match_area s =
     (let g = bracket_groups (dropWhile is_space s) in if fst g = [] then None else Some g)"

text \<open>\<open>_QUOTED.findall\<close>: what stands between quotes of one kind.\<close>

function quoted_parts :: "string \<Rightarrow> string list" where
  "quoted_parts [] = []"
| "quoted_parts (c # s) =
     (if is_quote c \<and> c \<in> set s
      then takeWhile (\<lambda>x. x \<noteq> c) s # quoted_parts (tl (dropWhile (\<lambda>x. x \<noteq> c) s))
      else quoted_parts s)"
  by pat_completeness auto
termination
proof (relation "measure length")
  fix c :: char and s :: string
  show "(tl (dropWhile (\<lambda>x. x \<noteq> c) s), c # s) \<in> measure length"
    using length_dropWhile_le [of "\<lambda>x. x \<noteq> c" s] by simp
qed simp_all

definition elements_of :: "string \<Rightarrow> string list" where
  "elements_of area = filter (\<lambda>v. v \<noteq> []) (map strip (quoted_parts area))"

text \<open>\<open>_QUALIFIER.match\<close>: the letter, and what follows the colon.\<close>

definition match_qualifier :: "string \<Rightarrow> (char \<times> string) option" where
  "match_qualifier s =
     (case dropWhile is_space s of
        [] \<Rightarrow> None
      | c # t \<Rightarrow>
          if upper_char c \<in> {CHR ''N'', CHR ''S'', CHR ''C''} then
            (case dropWhile is_space t of
               d # r \<Rightarrow> if d = CHR '':'' then Some (c, r) else None
             | [] \<Rightarrow> None)
          else None)"

text \<open>\<open>remainder.split('=>', 1)[1]\<close>, where the remainder has the arrow.\<close>

fun after_arrow :: "string \<Rightarrow> string option" where
  "after_arrow (c # d # s) = (if c = CHR ''='' \<and> d = CHR ''>'' then Some s else after_arrow (d # s))"
| "after_arrow _ = None"

section \<open>Parsing\<close>

record rule_statement =
  rs_line_number :: nat
  rs_text :: string
  rs_elements :: "string list"
  rs_qualifier :: "char option"
  rs_expression :: string
  rs_is_feeder :: bool
  rs_target_elements :: "string list"
  rs_resolvable :: bool

record parsed_rules =
  pr_directives :: "string list"
  pr_calculations :: "rule_statement list"
  pr_feeders :: "rule_statement list"
  pr_has_feeders_section :: bool
  pr_misplaced :: "rule_statement list"

definition empty_rules :: parsed_rules where
  "empty_rules = \<lparr>pr_directives = [], pr_calculations = [], pr_feeders = [], pr_has_feeders_section = False,
     pr_misplaced = []\<rparr>"

definition DIRECTIVES :: "string list" where
  "DIRECTIVES = [''SKIPCHECK'', ''FEEDSTRINGS'', ''UNDEFVALS'']"

definition FEEDERS_MARKER :: string where "FEEDERS_MARKER = ''FEEDERS''"

definition skipcheck :: "parsed_rules \<Rightarrow> bool" where
  "skipcheck p \<longleftrightarrow> ''SKIPCHECK'' \<in> set (pr_directives p)"

definition feedstrings :: "parsed_rules \<Rightarrow> bool" where
  "feedstrings p \<longleftrightarrow> ''FEEDSTRINGS'' \<in> set (pr_directives p)"

definition parse_target :: "string \<Rightarrow> string list \<times> bool" where
  "parse_target fragment =
     (case match_area fragment of None \<Rightarrow> ([], False) | Some (area, _) \<Rightarrow> (elements_of area, True))"

text \<open>A statement that is neither a directive nor the marker, and whether it is a feeder.\<close>

definition read_statement :: "nat \<Rightarrow> string \<Rightarrow> rule_statement" where
  "read_statement line raw =
     (let m = match_area raw;
          area = (case m of None \<Rightarrow> [] | Some (a, _) \<Rightarrow> a);
          remainder = (case m of None \<Rightarrow> raw | Some (_, r) \<Rightarrow> r);
          st = \<lparr>rs_line_number = line, rs_text = unwords (words_from [] raw), rs_elements = elements_of area,
                rs_qualifier = None, rs_expression = [], rs_is_feeder = False, rs_target_elements = [],
                rs_resolvable = (m \<noteq> None)\<rparr>
      in case after_arrow remainder of
           Some target \<Rightarrow>
             (let t = parse_target target
              in st\<lparr>rs_is_feeder := True, rs_target_elements := fst t, rs_resolvable := m \<noteq> None \<and> snd t\<rparr>)
         | None \<Rightarrow>
             (let e = dropWhile is_space remainder;
                  e' = (if e \<noteq> [] \<and> hd e = CHR ''='' then tl e else e)
              in case match_qualifier e' of
                   Some (q, r) \<Rightarrow> st\<lparr>rs_qualifier := Some (upper_char q), rs_expression := strip r\<rparr>
                 | None \<Rightarrow> st\<lparr>rs_expression := strip e'\<rparr>))"

fun add_statement :: "parsed_rules \<times> bool \<Rightarrow> nat \<times> string \<Rightarrow> parsed_rules \<times> bool" where
  "add_statement (p, in_feeders) (line, raw) =
     (let up = upper (strip raw) in
      if up \<in> set DIRECTIVES then (p\<lparr>pr_directives := List.insert up (pr_directives p)\<rparr>, in_feeders)
      else if up = FEEDERS_MARKER then (p\<lparr>pr_has_feeders_section := True\<rparr>, True)
      else
        (let st = read_statement line raw in
         if rs_is_feeder st then (p\<lparr>pr_feeders := pr_feeders p @ [st]\<rparr>, in_feeders)
         else if in_feeders then (p\<lparr>pr_misplaced := pr_misplaced p @ [st]\<rparr>, in_feeders)
         else (p\<lparr>pr_calculations := pr_calculations p @ [st]\<rparr>, in_feeders)))"

definition parse_rules :: "string option \<Rightarrow> parsed_rules" where
  "parse_rules text_opt =
     (case text_opt of
        None \<Rightarrow> empty_rules
      | Some s \<Rightarrow>
          if strip s = [] then empty_rules
          else fst (foldl add_statement (empty_rules, False) (split_statements (strip_comments s))))"

section \<open>The checks\<close>

record rule_finding =
  rf_severity :: string
  rf_code :: string
  rf_line_number :: "nat option"
  rf_statement :: "string option"

definition plain_finding :: "string \<Rightarrow> string \<Rightarrow> rule_finding" where
  "plain_finding sev code = \<lparr>rf_severity = sev, rf_code = code, rf_line_number = None, rf_statement = None\<rparr>"

definition finding_at :: "string \<Rightarrow> string \<Rightarrow> rule_statement \<Rightarrow> rule_finding" where
  "finding_at sev code st =
     \<lparr>rf_severity = sev, rf_code = code, rf_line_number = Some (rs_line_number st), rf_statement = Some (rs_text st)\<rparr>"

definition fed_elements :: "parsed_rules \<Rightarrow> string set" where
  "fed_elements p = (\<Union>f \<in> set (pr_feeders p). set (rs_target_elements f))"

definition has_unresolvable_feeder :: "parsed_rules \<Rightarrow> bool" where
  "has_unresolvable_feeder p \<longleftrightarrow> (\<exists>f \<in> set (pr_feeders p). \<not> rs_resolvable f)"

definition is_calculation :: "rule_statement \<Rightarrow> bool" where
  "is_calculation st \<longleftrightarrow> rs_expression st \<noteq> []"

definition check_skipcheck_without_feeders :: "parsed_rules \<Rightarrow> rule_finding list" where
  "check_skipcheck_without_feeders p =
     (if \<not> skipcheck p \<or> pr_has_feeders_section p then []
      else if \<not> list_ex is_calculation (pr_calculations p) then []
      else [plain_finding ''critical'' ''skipcheck_without_feeders''])"

definition check_feeders_without_skipcheck :: "parsed_rules \<Rightarrow> rule_finding list" where
  "check_feeders_without_skipcheck p =
     (if skipcheck p \<or> \<not> pr_has_feeders_section p then []
      else if pr_feeders p = [] then []
      else [plain_finding ''warning'' ''feeders_without_skipcheck''])"

text \<open>The statements of the loop of \<open>_check_unfed_calculations\<close> that are reported.\<close>

definition is_unfed :: "parsed_rules \<Rightarrow> rule_statement \<Rightarrow> bool" where
  "is_unfed p st \<longleftrightarrow>
     is_calculation st \<and> rs_elements st \<noteq> [] \<and>
     \<not> (rs_qualifier st = Some (CHR ''S'') \<and> \<not> feedstrings p) \<and>
     \<not> list_ex (\<lambda>e. e \<in> fed_elements p) (rs_elements st)"

definition check_unfed_calculations :: "parsed_rules \<Rightarrow> rule_finding list" where
  "check_unfed_calculations p =
     (if \<not> skipcheck p \<or> \<not> pr_has_feeders_section p then []
      else map (finding_at (if has_unresolvable_feeder p then ''warning'' else ''critical'') ''unfed_calculation'')
             (filter (is_unfed p) (pr_calculations p)))"

definition check_misplaced_calculations :: "parsed_rules \<Rightarrow> rule_finding list" where
  "check_misplaced_calculations p = map (finding_at ''critical'' ''calculation_below_feeders'') (pr_misplaced p)"

definition check_string_rules_without_feedstrings :: "parsed_rules \<Rightarrow> rule_finding list" where
  "check_string_rules_without_feedstrings p =
     (if feedstrings p \<or> \<not> skipcheck p then []
      else case filter (\<lambda>st. rs_qualifier st = Some (CHR ''S'') \<and> is_calculation st) (pr_calculations p) of
             [] \<Rightarrow> []
           | st # _ \<Rightarrow> [finding_at ''info'' ''string_rules_without_feedstrings'' st])"

text \<open>The loop of \<open>_check_shadowed_areas\<close>; \<open>seen\<close> holds the keys met so far.\<close>

definition area_key :: "rule_statement \<Rightarrow> string list \<times> char option" where
  "area_key st = (sort (rs_elements st), rs_qualifier st)"

fun shadowed_from :: "(string list \<times> char option) list \<Rightarrow> rule_statement list \<Rightarrow> rule_statement list" where
  "shadowed_from seen [] = []"
| "shadowed_from seen (st # sts) =
     (if \<not> is_calculation st \<or> rs_elements st = [] then shadowed_from seen sts
      else if area_key st \<in> set seen then st # shadowed_from seen sts
      else shadowed_from (area_key st # seen) sts)"

definition check_shadowed_areas :: "parsed_rules \<Rightarrow> rule_finding list" where
  "check_shadowed_areas p = map (finding_at ''warning'' ''shadowed_area'') (shadowed_from [] (pr_calculations p))"

definition check_feeders_to_uncalculated :: "parsed_rules \<Rightarrow> rule_finding list" where
  "check_feeders_to_uncalculated p =
     (let calculated = concat (map rs_elements (filter is_calculation (pr_calculations p)))
      in map (finding_at ''info'' ''feeder_to_uncalculated_area'')
           (filter (\<lambda>f. rs_resolvable f \<and> rs_target_elements f \<noteq> [] \<and>
                        \<not> list_ex (\<lambda>e. e \<in> set calculated) (rs_target_elements f))
              (pr_feeders p)))"

definition CHECKS :: "(parsed_rules \<Rightarrow> rule_finding list) list" where
  "CHECKS =
     [check_skipcheck_without_feeders, check_feeders_without_skipcheck, check_unfed_calculations,
      check_misplaced_calculations, check_string_rules_without_feedstrings, check_shadowed_areas,
      check_feeders_to_uncalculated]"

definition severity_order :: "string \<Rightarrow> nat" where
  "severity_order sev =
     (if sev = ''critical'' then 0 else if sev = ''warning'' then 1 else if sev = ''info'' then 2 else 9)"

definition finding_key :: "rule_finding \<Rightarrow> nat \<times> nat" where
  "finding_key f = (severity_order (rf_severity f), (case rf_line_number f of None \<Rightarrow> 0 | Some n \<Rightarrow> n))"

record rules_report =
  rr_skipcheck :: bool
  rr_feedstrings :: bool
  rr_has_feeders_section :: bool
  rr_calculation_count :: nat
  rr_feeder_count :: nat
  rr_analysis_is_partial :: bool
  rr_critical :: nat
  rr_warning :: nat
  rr_info :: nat
  rr_findings :: "rule_finding list"

definition count_severity :: "string \<Rightarrow> rule_finding list \<Rightarrow> nat" where
  "count_severity sev fs = length (filter (\<lambda>f. rf_severity f = sev) fs)"

definition analyze_rules :: "string option \<Rightarrow> rules_report" where
  "analyze_rules text_opt =
     (let p = parse_rules text_opt;
          fs = sort_key finding_key (concat (map (\<lambda>check. check p) CHECKS))
      in \<lparr>rr_skipcheck = skipcheck p, rr_feedstrings = feedstrings p,
          rr_has_feeders_section = pr_has_feeders_section p,
          rr_calculation_count = length (filter is_calculation (pr_calculations p)),
          rr_feeder_count = length (pr_feeders p), rr_analysis_is_partial = has_unresolvable_feeder p,
          rr_critical = count_severity ''critical'' fs, rr_warning = count_severity ''warning'' fs,
          rr_info = count_severity ''info'' fs, rr_findings = fs\<rparr>)"

section \<open>Tracing a cell\<close>

record cell_trace =
  ct_applied :: rule_statement
  ct_also_matched :: "rule_statement list"
  ct_skipcheck :: bool
  ct_is_fed :: bool
  ct_warning :: bool

definition applies_to :: "string list \<Rightarrow> rule_statement \<Rightarrow> bool" where
  "applies_to elements st \<longleftrightarrow>
     (let wanted = map (\<lambda>e. lower (strip e)) (filter (\<lambda>e. strip e \<noteq> []) elements) in
      is_calculation st \<and> rs_elements st \<noteq> [] \<and> list_all (\<lambda>e. lower e \<in> set wanted) (rs_elements st))"

definition trace_cell :: "string option \<Rightarrow> string list \<Rightarrow> cell_trace option" where
  "trace_cell text_opt elements =
     (let p = parse_rules text_opt in
      case filter (applies_to elements) (pr_calculations p) of
        [] \<Rightarrow> None
      | winner # others \<Rightarrow>
          (let fed = list_ex (\<lambda>e. e \<in> fed_elements p) (rs_elements winner) in
           Some \<lparr>ct_applied = winner, ct_also_matched = others, ct_skipcheck = skipcheck p, ct_is_fed = fed,
                 ct_warning = (skipcheck p \<and> \<not> fed)\<rparr>))"

end
