(* ===== verification/RulesProperties.thy ===== *)
theory RulesProperties
  imports CubeRules
begin

text \<open>
  What the rules parser and the rules analysis promise: statements written one to a line come
  back with their line numbers, whatever their literals and comments hold; a statement reported
  as shadowed never calculates a cell; a cell \<open>trace_cell\<close> warns about is a finding of
  \<open>analyze_rules\<close>; and where names that differ in case are told apart although TM1 and
  \<open>trace_cell\<close> take them for one.
\<close>

section \<open>Shadowed statements\<close>

lemma shadowed_from_append:
  "\<exists>seen'. shadowed_from seen (xs @ ys) = shadowed_from seen xs @ shadowed_from seen' ys \<and>
     set seen' = set seen \<union> area_key ` {st \<in> set xs. is_calculation st \<and> rs_elements st \<noteq> []}"
proof (induction xs arbitrary: seen)
  case (Cons st xs)
  let ?k = "\<lambda>xs. area_key ` {st \<in> set xs. is_calculation st \<and> rs_elements st \<noteq> []}"
  show ?case
  proof (cases "is_calculation st \<and> rs_elements st \<noteq> []")
    case False
    then have "?k (st # xs) = ?k xs" by auto
    with False Cons [of seen] show ?thesis by auto
  next
    case True
    then have k: "?k (st # xs) = insert (area_key st) (?k xs)" by auto
    show ?thesis
    proof (cases "area_key st \<in> set seen")
      case seen: True
      then have "set seen \<union> ?k (st # xs) = set seen \<union> ?k xs" by (auto simp: k)
      with True seen Cons [of seen] show ?thesis by auto
    next
      case False
      with True Cons [of "area_key st # seen"] show ?thesis by (auto simp: k)
    qed
  qed
qed (auto intro: exI [of _ seen for seen])

lemma applies_to_key:
  assumes "area_key st = area_key st'" "is_calculation st'" "applies_to els st"
  shows "applies_to els st'"
proof -
  from assms(1) have "set (rs_elements st) = set (rs_elements st')"
    by (metis area_key_def prod.inject set_sort)
  with assms(2,3) show ?thesis
    by (auto simp: applies_to_def Let_def list_all_iff)
qed

lemma filter_first:
  "filter P xs = y # ys \<Longrightarrow> \<exists>pre post. xs = pre @ y # post \<and> (\<forall>x \<in> set pre. \<not> P x) \<and> P y"
  by (metis (no_types, lifting) filter_eq_Cons_iff)

lemma trace_cell_SomeD:
  assumes "trace_cell t els = Some r"
  shows "\<exists>pre post. pr_calculations (parse_rules t) = pre @ ct_applied r # post \<and>
           (\<forall>st \<in> set pre. \<not> applies_to els st) \<and> applies_to els (ct_applied r)"
proof -
  from assms obtain others where "filter (applies_to els) (pr_calculations (parse_rules t)) = ct_applied r # others"
    by (auto simp: trace_cell_def Let_def split: list.splits)
  from filter_first [OF this] show ?thesis by blast
qed

lemma shadowed_never_applied_core:
  assumes "trace_cell t els = Some r"
  shows "\<exists>pre post. pr_calculations (parse_rules t) = pre @ ct_applied r # post \<and>
           (\<forall>st \<in> set pre. \<not> applies_to els st) \<and>
           shadowed_from [] (pre @ [ct_applied r]) = shadowed_from [] pre"
proof -
  let ?w = "ct_applied r"
  from trace_cell_SomeD [OF assms] obtain pre post where
    split: "pr_calculations (parse_rules t) = pre @ ?w # post" "\<forall>st \<in> set pre. \<not> applies_to els st"
    and w: "applies_to els ?w" by blast
  obtain seen where app: "shadowed_from [] (pre @ [?w]) = shadowed_from [] pre @ shadowed_from seen [?w]"
    and seen: "set seen = area_key ` {st \<in> set pre. is_calculation st \<and> rs_elements st \<noteq> []}"
    using shadowed_from_append [of "[]" pre "[?w]"] by auto
  have "area_key ?w \<notin> set seen"
    using applies_to_key [OF _ _ w] split(2) by (auto simp: seen)
  then have "shadowed_from seen [?w] = []" by simp
  with app split show ?thesis by auto
qed

section \<open>Unfed cells\<close>

lemma rr_findings_analyze_rules:
  "set (rr_findings (analyze_rules t)) = (\<Union>check \<in> set CHECKS. set (check (parse_rules t)))"
  by (simp add: analyze_rules_def Let_def)

lemma warned_cell_core:
  assumes "trace_cell t els = Some r" "ct_warning r"
  shows "\<exists>f \<in> set (rr_findings (analyze_rules t)).
           f = plain_finding ''critical'' ''skipcheck_without_feeders'' \<or>
           f = finding_at (if rr_analysis_is_partial (analyze_rules t) then ''warning'' else ''critical'')
                 ''unfed_calculation'' (ct_applied r) \<or>
           rs_qualifier (ct_applied r) = Some (CHR ''S'') \<and> rf_code f = ''string_rules_without_feedstrings''"
proof -
  let ?p = "parse_rules t" and ?w = "ct_applied r"
  from assms have skip: "skipcheck ?p" and unfed: "\<not> list_ex (\<lambda>e. e \<in> fed_elements ?p) (rs_elements ?w)"
    by (auto simp: trace_cell_def Let_def split: list.splits)
  from trace_cell_SomeD [OF assms(1)]
  have w: "?w \<in> set (pr_calculations ?p)" "is_calculation ?w" "rs_elements ?w \<noteq> []"
    by (auto simp: applies_to_def Let_def)
  have partial: "rr_analysis_is_partial (analyze_rules t) = has_unresolvable_feeder ?p"
    by (simp add: analyze_rules_def Let_def)
  consider "\<not> pr_has_feeders_section ?p"
    | "pr_has_feeders_section ?p" "is_unfed ?p ?w"
    | "rs_qualifier ?w = Some (CHR ''S'')" "\<not> feedstrings ?p"
    using w unfed by (auto simp: is_unfed_def)
  then show ?thesis
  proof cases
    case 1
    with skip w have "plain_finding ''critical'' ''skipcheck_without_feeders'' \<in> set (check_skipcheck_without_feeders ?p)"
      by (auto simp: check_skipcheck_without_feeders_def list_ex_iff)
    then show ?thesis by (auto simp: rr_findings_analyze_rules CHECKS_def)
  next
    case 2
    with skip w have "finding_at (if has_unresolvable_feeder ?p then ''warning'' else ''critical'')
        ''unfed_calculation'' ?w \<in> set (check_unfed_calculations ?p)"
      by (auto simp: check_unfed_calculations_def)
    then show ?thesis by (auto simp: rr_findings_analyze_rules CHECKS_def partial)
  next
    case 3
    with w have "?w \<in> set (filter (\<lambda>st. rs_qualifier st = Some (CHR ''S'') \<and> is_calculation st) (pr_calculations ?p))"
      by simp
    then obtain st others where
      "filter (\<lambda>st. rs_qualifier st = Some (CHR ''S'') \<and> is_calculation st) (pr_calculations ?p) = st # others"
      by (cases "filter (\<lambda>st. rs_qualifier st = Some (CHR ''S'') \<and> is_calculation st) (pr_calculations ?p)") auto
    with skip 3 have "finding_at ''info'' ''string_rules_without_feedstrings'' st
        \<in> set (check_string_rules_without_feedstrings ?p)"
      by (simp add: check_string_rules_without_feedstrings_def)
    then have "finding_at ''info'' ''string_rules_without_feedstrings'' st \<in> set (rr_findings (analyze_rules t))"
      by (simp add: rr_findings_analyze_rules CHECKS_def)
    moreover have "rf_code (finding_at ''info'' ''string_rules_without_feedstrings'' st) = ''string_rules_without_feedstrings''"
      by (simp add: finding_at_def)
    ultimately show ?thesis using 3 by blast
  qed
qed

definition demo_rules :: string where
  "demo_rules =
     ''SKIPCHECK;'' @ [newline] @
     ''['' @ [quote] @ ''Margin'' @ [quote] @ '']=N:1;'' @ [newline] @
     ''['' @ [quote] @ ''Margin'' @ [quote] @ '']=N:2; # again'' @ [newline] @
     ''FEEDERS;'' @ [newline] @
     ''['' @ [quote] @ ''Sales'' @ [quote] @ '']=>['' @ [quote] @ ''margin'' @ [quote] @ ''];''"

section \<open>Statements are read back\<close>

text \<open>
  The scan of one statement: no line end in it, no comment or semicolon outside a literal, and
  every literal closed. The value is the state the scan ends in, None where it is left.
\<close>

fun scan_ok :: "char option \<Rightarrow> string \<Rightarrow> bool" where
  "scan_ok q [] = (q = None)"
| "scan_ok (Some q) (c # s) = (\<not> line_end c \<and> scan_ok (if c = q then None else Some q) s)"
| "scan_ok None (c # s) =
     (\<not> line_end c \<and>
      (if is_quote c then scan_ok (Some c) s else c \<noteq> CHR '';'' \<and> c \<noteq> CHR ''#'' \<and> scan_ok None s))"

definition plain_statement :: "string \<Rightarrow> bool" where
  "plain_statement s \<longleftrightarrow> scan_ok None s \<and> s \<noteq> [] \<and> strip s = s"

definition one_line :: "string \<Rightarrow> bool" where
  "one_line s \<longleftrightarrow> list_all (\<lambda>c. \<not> line_end c) s"

text \<open>A statement on a line of its own, with a comment.\<close>

definition written :: "string \<times> string \<Rightarrow> string" where
  "written sc = fst sc @ '';'' @ ''#'' @ snd sc @ [newline]"

lemma line_end_newline [simp]: "line_end newline"
  by (simp add: line_end_def chr_code_def)

lemma code13: "chr_code newline \<noteq> 13"
  by (simp add: chr_code_def)

lemma not_line_end: "\<not> line_end c \<Longrightarrow> c \<noteq> newline \<and> chr_code c \<noteq> 13"
  by (auto simp: line_end_def chr_code_def)

lemma lines_from_line:
  assumes "list_all (\<lambda>c. \<not> line_end c) l"
  shows "lines_from cur (l @ newline # s) = (cur @ l) # lines_from [] s"
  using assms by (induction l arbitrary: cur) (auto simp: code13 dest: not_line_end)

lemma scan_ok_one_line: "scan_ok q s \<Longrightarrow> list_all (\<lambda>c. \<not> line_end c) s"
  by (induction q s rule: scan_ok.induct) (auto split: if_splits)

lemma cut_comment_statement:
  assumes "scan_ok q s"
  shows "cut_comment q (s @ '';#'' @ c) = s @ '';''"
  using assms by (induction q s rule: scan_ok.induct) (auto simp: is_quote_def split: if_splits)

lemma lines_of_written:
  assumes "\<forall>(s, c) \<in> set xs. plain_statement s \<and> one_line c"
  shows "map (cut_comment None) (lines_from [] (concat (map written xs))) = map (\<lambda>(s, c). s @ '';'') xs"
  using assms
proof (induction xs)
  case (Cons x xs)
  obtain s c where x: "x = (s, c)" by (rule prod.exhaust)
  with Cons.prems have s: "scan_ok None s" and ok: "list_all (\<lambda>c. \<not> line_end c) (s @ '';#'' @ c)"
    by (auto simp: plain_statement_def one_line_def line_end_def chr_code_def dest: scan_ok_one_line)
  have "lines_from [] (concat (map written (x # xs))) = (s @ '';#'' @ c) # lines_from [] (concat (map written xs))"
    using lines_from_line [OF ok, of "[]"] by (simp add: written_def x)
  with Cons cut_comment_statement [OF s, of c] show ?case by (simp add: x)
qed simp

lemma statements_from_scan:
  assumes "scan_ok q s"
  shows "statements_from line start buf q (s @ '';'' @ z) = statements_from line start (buf @ s) None ('';'' @ z)"
  using assms
proof (induction q s arbitrary: buf rule: scan_ok.induct)
  case (2 q c s)
  then have "c \<noteq> newline" by (auto dest: not_line_end)
  with 2 show ?case by (auto split: if_splits)
next
  case (3 c s)
  then have "c \<noteq> newline" by (auto dest: not_line_end)
  with 3 show ?case by (auto split: if_splits)
qed simp

lemma strip_newline: "strip (newline # s) = strip s"
  by (simp add: strip_def is_space_def chr_code_def)

lemma statements_of_lines:
  assumes "\<forall>s \<in> set ss. plain_statement s"
  shows "statements_from line line [] None (join_lines (map (\<lambda>s. s @ '';'') ss)) = enumerate line ss"
    and "statements_from line line [] None (newline # join_lines (map (\<lambda>s. s @ '';'') ss)) = enumerate (Suc line) ss"
  using assms
proof (induction ss arbitrary: line)
  case Nil
  { case 1 show ?case by simp }
  { case 2 show ?case by (simp add: strip_newline is_quote_def) }
next
  case (Cons s ss)
  have semi: "\<And>line buf z. statements_from line line buf None (CHR '';'' # z) =
      (if strip buf = [] then [] else [(line, strip buf)]) @ statements_from line line [] None z"
    by (simp add: is_quote_def)
  have tail: "join_lines (map (\<lambda>s. s @ '';'') (s # ss)) =
      s @ '';'' @ (if ss = [] then [] else newline # join_lines (map (\<lambda>s. s @ '';'') ss))"
    by (cases ss) auto
  have rest: "\<And>line. \<forall>s \<in> set ss. plain_statement s \<Longrightarrow>
      statements_from line line [] None (if ss = [] then [] else newline # join_lines (map (\<lambda>s. s @ '';'') ss)) =
      enumerate (Suc line) ss"
    using Cons.IH(2) by simp
  { case 1
    then have s: "scan_ok None s" "strip s = s" "s \<noteq> []" and ss: "\<forall>s \<in> set ss. plain_statement s"
      by (auto simp: plain_statement_def)
    show ?case
      unfolding tail statements_from_scan [OF s(1)]
      using s(2,3) rest [OF ss] by (simp add: is_quote_def) }
  { case 2
    then have s: "scan_ok None s" "strip s = s" "s \<noteq> []" and ss: "\<forall>s \<in> set ss. plain_statement s"
      by (auto simp: plain_statement_def)
    have "statements_from line line [] None (newline # s @ '';'' @ z) =
        statements_from (Suc line) (Suc line) [newline] None (s @ '';'' @ z)" for z
      by (simp add: is_quote_def)
    then show ?case
      unfolding tail statements_from_scan [OF s(1)]
      using s(2,3) rest [OF ss] by (simp add: is_quote_def strip_newline statements_from_scan [OF s(1), simplified]) }
qed

lemma written_statements_core:
  assumes "\<forall>(s, c) \<in> set xs. plain_statement s \<and> one_line c"
  shows "split_statements (strip_comments (concat (map written xs))) = enumerate 1 (map fst xs)"
proof -
  have "map (\<lambda>(s, c). s @ '';'') xs = map (\<lambda>s. s @ '';'') (map fst xs)" by auto
  then have "strip_comments (concat (map written xs)) = join_lines (map (\<lambda>s. s @ '';'') (map fst xs))"
    using lines_of_written [OF assms] by (simp only: strip_comments_def)
  moreover have "\<forall>s \<in> set (map fst xs). plain_statement s" using assms by auto
  ultimately show ?thesis
    using statements_of_lines(1) [of "map fst xs" 1] by (simp only: split_statements_def)
qed
section \<open>Properties\<close>

text \<open>
  C38. Statements written one per line, each ended by a semicolon and followed by any
  comment, are read back by the rules parser as exactly these statements with their line
  numbers, whatever semicolons and hash signs their literals contain.
\<close>

theorem written_statements_are_read_back:
  assumes "\<forall>(s, c) \<in> set xs. plain_statement s \<and> one_line c"
  shows "split_statements (strip_comments (concat (map written xs))) = enumerate 1 (map fst xs)"
  using assms by (rule written_statements_core)

definition demo_lines :: "(string \<times> string) list" where
  "demo_lines =
     [(''SKIPCHECK'', '' keep; this''),
      (''['' @ [quote] @ ''a;#b'' @ [quote] @ ''] = N: 1'', [CHR ''x'', quote])]"

theorem written_statements_are_read_back_witness:
  "split_statements (strip_comments (concat (map written demo_lines))) = enumerate 1 (map fst demo_lines)"
proof -
  have "list_all (\<lambda>(s, c). plain_statement s \<and> one_line c) demo_lines" by code_simp
  then have "\<forall>(s, c) \<in> set demo_lines. plain_statement s \<and> one_line c" by (simp add: list_all_iff)
  then show ?thesis by (rule written_statements_are_read_back)
qed

theorem shadowed_never_applied:
  assumes "trace_cell t els = Some r"
  shows "\<exists>pre post. pr_calculations (parse_rules t) = pre @ ct_applied r # post \<and>
           (\<forall>st \<in> set pre. \<not> applies_to els st) \<and>
           shadowed_from [] (pre @ [ct_applied r]) = shadowed_from [] pre"
  using assms by (rule shadowed_never_applied_core)

lemma traced_demo: "trace_cell (Some demo_rules) [''margin'', ''Jan''] \<noteq> None"
  by code_simp

theorem shadowed_never_applied_witness:
  "\<exists>r pre post. trace_cell (Some demo_rules) [''margin'', ''Jan''] = Some r \<and>
     pr_calculations (parse_rules (Some demo_rules)) = pre @ ct_applied r # post \<and>
     shadowed_from [] (pre @ [ct_applied r]) = shadowed_from [] pre"
proof -
  obtain r where r: "trace_cell (Some demo_rules) [''margin'', ''Jan''] = Some r"
    using traced_demo by auto
  from shadowed_never_applied [OF r] r show ?thesis by blast
qed

text \<open>
  C28. Whenever tracing a cell warns that its consolidations may read zero, the analysis of
  the same rules reports it: no feeders under SKIPCHECK, the unfed calculation that applies
  to the cell, or string rules without FEEDSTRINGS.
\<close>

theorem warned_cell_is_reported:
  assumes "trace_cell t els = Some r" "ct_warning r"
  shows "\<exists>f \<in> set (rr_findings (analyze_rules t)).
           f = plain_finding ''critical'' ''skipcheck_without_feeders'' \<or>
           f = finding_at (if rr_analysis_is_partial (analyze_rules t) then ''warning'' else ''critical'')
                 ''unfed_calculation'' (ct_applied r) \<or>
           rs_qualifier (ct_applied r) = Some (CHR ''S'') \<and> rf_code f = ''string_rules_without_feedstrings''"
  using assms by (rule warned_cell_core)

lemma warned_demo: "map_option ct_warning (trace_cell (Some demo_rules) [''margin'', ''Jan'']) = Some True"
  by code_simp

theorem warned_cell_is_reported_witness:
  "\<exists>r. trace_cell (Some demo_rules) [''margin'', ''Jan''] = Some r \<and> ct_warning r \<and>
     rr_findings (analyze_rules (Some demo_rules)) \<noteq> []"
proof -
  obtain r where r: "trace_cell (Some demo_rules) [''margin'', ''Jan''] = Some r" "ct_warning r"
    using warned_demo by auto
  from warned_cell_is_reported [OF r] have "rr_findings (analyze_rules (Some demo_rules)) \<noteq> []" by auto
  with r show ?thesis by blast
qed

text \<open>
  \<open>trace_cell\<close> finds the rule of a cell whatever the case of its names, as TM1 does; whether an
  area is fed compares names exactly, so a feeder that writes \<open>margin\<close> does not count for
  \<open>Margin\<close> and the calculation is reported as critical.
\<close>

theorem feeder_in_other_case_is_critical:
  "map (\<lambda>f. (rf_severity f, rf_code f, rf_line_number f)) (rr_findings (analyze_rules (Some demo_rules))) =
     [(''critical'', ''unfed_calculation'', Some 2), (''critical'', ''unfed_calculation'', Some 3),
      (''warning'', ''shadowed_area'', Some 3), (''info'', ''feeder_to_uncalculated_area'', Some 5)] \<and>
   map_option ct_is_fed (trace_cell (Some demo_rules) [''margin'', ''Jan'']) = Some False"
  by code_simp

end
