(* ===== verification/Connections.thy ===== *)
theory Connections
  imports Governance Resilience ReportWorkers
begin

text \<open>
  Connections to TM1 servers and the gateways they may go through: \<open>tm1/addressing.py\<close>,
  \<open>tm1/service.py\<close> (create, update, delete, list, diagnose), \<open>tm1/gateway/service.py\<close>,
  \<open>tm1/client/connection_manager.py\<close>, and the requests of \<open>api/v1/tm1.py\<close> and
  \<open>api/v1/gateway.py\<close> on them. The IP tables of Python's \<open>ipaddress\<close>, the resolver, the
  cipher of stored passwords, the digest of keys and \<open>uuid.UUID\<close> are fields of \<open>surrounds\<close>.
  Message texts, audit rows and log lines are left out.
\<close>

section \<open>Addresses\<close>

definition SAAS_HOST_SUFFIX :: string where
  "SAAS_HOST_SUFFIX = ''.planninganalytics.saas.ibm.com''"

record parsed_address =
  pa_host :: string
  pa_tenant :: "string option"
  pa_database :: "string option"

text \<open>\<open>value.split('://', 1)[1]\<close> where the marker is there.\<close>

fun after_scheme :: "string \<Rightarrow> string option" where
  "after_scheme (a # b # c # s) =
     (if a = CHR '':'' \<and> b = CHR ''/'' \<and> c = CHR ''/'' then Some s else after_scheme (b # c # s))"
| "after_scheme _ = None"

definition parse_address :: "string \<Rightarrow> parsed_address" where
  "parse_address raw =
     (let value0 = strip raw;
          value = (case after_scheme value0 of Some v \<Rightarrow> v | None \<Rightarrow> value0);
          host = takeWhile (\<lambda>c. c \<noteq> CHR ''/'') value;
          path = tl (dropWhile (\<lambda>c. c \<noteq> CHR ''/'') value);
          segments = filter (\<lambda>p. p \<noteq> []) (split_on (CHR ''/'') path)
      in if length segments \<ge> 5 \<and> segments ! 0 = ''api'' \<and> segments ! 2 = ''v0'' \<and> segments ! 3 = ''tm1''
         then \<lparr>pa_host = host, pa_tenant = Some (segments ! 1), pa_database = Some (segments ! 4)\<rparr>
         else if length segments \<ge> 3 \<and> segments ! 0 = ''tm1'' \<and> segments ! 1 = ''api''
         then \<lparr>pa_host = host, pa_tenant = None, pa_database = Some (segments ! 2)\<rparr>
         else \<lparr>pa_host = host, pa_tenant = None, pa_database = None\<rparr>)"

definition has_suffix :: "string \<Rightarrow> string \<Rightarrow> bool" where
  "has_suffix suffix s \<longleftrightarrow> length suffix \<le> length s \<and> drop (length s - length suffix) s = suffix"

definition is_saas_host :: "string \<Rightarrow> bool" where
  "is_saas_host address \<longleftrightarrow> has_suffix SAAS_HOST_SUFFIX (lower (pa_host (parse_address address)))"

text \<open>
  \<open>ip_address\<close>: what \<open>ipaddress.ip_address\<close> says of a text, None where it raises ValueError,
  else whether the address is global and whether it is multicast. \<open>resolve\<close> is
  \<open>getaddrinfo\<close>, None where it raises OSError.
\<close>

record surrounds =
  ip_address :: "string \<Rightarrow> (bool \<times> bool) option"
  resolve :: "string \<Rightarrow> string list option"
  encrypt_password :: "string \<Rightarrow> string"
  decrypt_password :: "string \<Rightarrow> string result"
  key_digest :: "string \<Rightarrow> string"
  uuid_hex :: "uuid \<Rightarrow> string"
  read_uuid :: "string \<Rightarrow> uuid option"
  TM1_ALLOW_PRIVATE_ADDRESSES :: bool

definition strip_brackets :: "string \<Rightarrow> string" where
  "strip_brackets s =
     (let b = (\<lambda>c. c = CHR ''['' \<or> c = CHR '']'') in rev (dropWhile b (rev (dropWhile b s))))"

definition is_private_address :: "'e surrounds_scheme \<Rightarrow> string \<Rightarrow> bool" where
  "is_private_address sr host =
     (let value = lower (strip_brackets (strip host)) in
      value = ''localhost'' \<or>
      (case ip_address sr value of None \<Rightarrow> False | Some (global, multicast) \<Rightarrow> \<not> global \<or> multicast))"

section \<open>Rows and state\<close>

record tm1_connection = connection +
  tm_name :: string
  tm_address :: string
  tm_port :: int
  tm_ssl :: bool
  tm_username :: string
  tm_encrypted_password :: string
  tm_is_active :: bool
  tm_authentication_type :: string
  tm_tenant :: "string option"
  tm_database :: "string option"
  tm_gateway_id :: "uuid option"
  tm_verify_ssl :: bool
  tm_suspended_at :: "time option"

record tm1_gateway =
  gw_id :: uuid
  gw_organization_id :: uuid
  gw_name :: string
  gw_key_hash :: string
  gw_key_version :: nat
  gw_created_by :: "uuid option"
  gw_last_seen_at :: "time option"
  gw_version :: "string option"
  gw_hostname :: "string option"

text \<open>The two tables, the clients the connection manager keeps, and the circuit breakers.\<close>

record 'c tm1_state =
  ts_connections :: "tm1_connection list"
  ts_gateways :: "tm1_gateway list"
  ts_clients :: "uuid \<Rightarrow> 'c option"
  ts_breakers :: breakers

definition invalidate :: "uuid \<Rightarrow> 'c tm1_state \<Rightarrow> 'c tm1_state" where
  "invalidate i st =
     st\<lparr>ts_clients := (ts_clients st)(i := None), ts_breakers := remove_circuit_breaker i (ts_breakers st)\<rparr>"

section \<open>Gateways\<close>

definition KEY_PREFIX :: string where "KEY_PREFIX = ''pagw_''"

definition ONLINE_WITHIN :: time where "ONLINE_WITHIN = seconds 120"

definition SEEN_EVERY :: time where "SEEN_EVERY = seconds 20"

definition new_key :: "'e surrounds_scheme \<Rightarrow> uuid \<Rightarrow> nat \<Rightarrow> string \<Rightarrow> string" where
  "new_key sr i version random = KEY_PREFIX @ uuid_hex sr i @ ''.'' @ nat_str version @ ''.'' @ random"

definition is_online :: "time \<Rightarrow> tm1_gateway \<Rightarrow> bool" where
  "is_online now g =
     (case gw_last_seen_at g of None \<Rightarrow> False | Some t \<Rightarrow> now - t \<le> ONLINE_WITHIN)"

definition gateway_by_id :: "'c tm1_state \<Rightarrow> uuid \<Rightarrow> tm1_gateway option" where
  "gateway_by_id st i = find (\<lambda>g. gw_id g = i) (ts_gateways st)"

definition write_gateway :: "tm1_gateway \<Rightarrow> 'c tm1_state \<Rightarrow> 'c tm1_state" where
  "write_gateway g st = st\<lparr>ts_gateways := upd_by gw_id (gw_id g) g (ts_gateways st)\<rparr>"

definition create_gateway ::
  "'e surrounds_scheme \<Rightarrow> uuid \<Rightarrow> string \<Rightarrow> uuid \<Rightarrow> uuid \<Rightarrow> string \<Rightarrow> 'c tm1_state \<Rightarrow>
     ('c tm1_state \<times> string) result" where
  "create_gateway sr new_id random org created_by nm st =
     (let key = new_key sr new_id 1 random;
          g = \<lparr>gw_id = new_id, gw_organization_id = org, gw_name = strip nm, gw_key_hash = key_digest sr key,
               gw_key_version = 1, gw_created_by = Some created_by, gw_last_seen_at = None, gw_version = None,
               gw_hostname = None\<rparr>
      in if gateway_by_id st new_id \<noteq> None then Inl IntegrityError
         else Inr (st\<lparr>ts_gateways := ts_gateways st @ [g]\<rparr>, key))"

definition list_gateways :: "'c tm1_state \<Rightarrow> uuid \<Rightarrow> tm1_gateway list" where
  "list_gateways st org = filter (\<lambda>g. gw_organization_id g = org) (ts_gateways st)"

definition get_gateway :: "'c tm1_state \<Rightarrow> uuid \<Rightarrow> uuid \<Rightarrow> tm1_gateway result" where
  "get_gateway st i org =
     (case gateway_by_id st i of
        None \<Rightarrow> Inl NotFound
      | Some g \<Rightarrow> if gw_organization_id g \<noteq> org then Inl NotFound else Inr g)"

definition rotate_key ::
  "'e surrounds_scheme \<Rightarrow> string \<Rightarrow> uuid \<Rightarrow> uuid \<Rightarrow> 'c tm1_state \<Rightarrow> ('c tm1_state \<times> string) result" where
  "rotate_key sr random i org st =
     bind_result (get_gateway st i org) (\<lambda>g.
     let key = new_key sr (gw_id g) (gw_key_version g + 1) random in
     Inr (write_gateway (g\<lparr>gw_key_version := gw_key_version g + 1, gw_key_hash := key_digest sr key\<rparr>) st, key))"

definition delete_gateway :: "uuid \<Rightarrow> uuid \<Rightarrow> 'c tm1_state \<Rightarrow> 'c tm1_state result" where
  "delete_gateway i org st =
     bind_result (get_gateway st i org) (\<lambda>g.
     let in_use = length (filter (\<lambda>c. tm_gateway_id c = Some (gw_id g)) (ts_connections st)) in
     bind_result (ensure (in_use = 0) Validation) (\<lambda>_.
     Inr (st\<lparr>ts_gateways := filter (\<lambda>h. gw_id h \<noteq> gw_id g) (ts_gateways st)\<rparr>)))"

text \<open>\<open>key[len(KEY_PREFIX):].split('.', 2)\<close>, where it has three parts.\<close>

definition key_parts :: "string \<Rightarrow> (string \<times> string) option" where
  "key_parts tl_text =
     (let dot = (\<lambda>c. c \<noteq> CHR ''.'') in
      case dropWhile dot tl_text of
        [] \<Rightarrow> None
      | _ # others \<Rightarrow>
          if dropWhile dot others = [] then None else Some (takeWhile dot tl_text, takeWhile dot others))"

definition authenticate_gateway :: "'e surrounds_scheme \<Rightarrow> string \<Rightarrow> 'c tm1_state \<Rightarrow> tm1_gateway result" where
  "authenticate_gateway sr key st =
     (if take (length KEY_PREFIX) key \<noteq> KEY_PREFIX then Inl Authentication
      else
        (case key_parts (drop (length KEY_PREFIX) key) of
           None \<Rightarrow> Inl Authentication
         | Some (raw_id, raw_version) \<Rightarrow>
             (case (read_uuid sr raw_id, parse_int raw_version) of
                (Some i, Some version) \<Rightarrow>
                  (case gateway_by_id st i of
                     None \<Rightarrow> Inl Authentication
                   | Some g \<Rightarrow>
                       if int (gw_key_version g) \<noteq> version \<or> \<not> verify_secret (key_digest sr) key (Some (gw_key_hash g))
                       then Inl Authentication else Inr g)
              | _ \<Rightarrow> Inl Authentication)))"

definition or_none :: "nat \<Rightarrow> string option \<Rightarrow> string option" where
  "or_none n s = (case s of None \<Rightarrow> None | Some t \<Rightarrow> if take n t = [] then None else Some (take n t))"

definition mark_seen :: "time \<Rightarrow> string option \<Rightarrow> string option \<Rightarrow> tm1_gateway \<Rightarrow> 'c tm1_state \<Rightarrow> 'c tm1_state" where
  "mark_seen now version hostname g st =
     (if (case gw_last_seen_at g of None \<Rightarrow> False | Some t \<Rightarrow> now - t < SEEN_EVERY) then st
      else write_gateway (g\<lparr>gw_last_seen_at := Some now, gw_version := or_none 40 version,
                            gw_hostname := or_none 255 hostname\<rparr>) st)"

section \<open>The connection service\<close>

text \<open>\<open>x or y\<close> on optional texts.\<close>

definition or_text :: "string option \<Rightarrow> string option \<Rightarrow> string option" where
  "or_text x y = (case x of None \<Rightarrow> y | Some s \<Rightarrow> if s = [] then y else x)"

definition nonempty :: "string option \<Rightarrow> bool" where
  "nonempty x = (case x of None \<Rightarrow> False | Some s \<Rightarrow> s \<noteq> [])"

definition check_pa_cloud :: "string \<Rightarrow> string option \<Rightarrow> string \<Rightarrow> unit result" where
  "check_pa_cloud auth_type database username =
     (if auth_type \<noteq> ''pa_cloud'' then Inr ()
      else bind_result (ensure (strip (case database of None \<Rightarrow> [] | Some d \<Rightarrow> d) \<noteq> []) Validation) (\<lambda>_.
           ensure (strip username \<noteq> [] \<and> username \<noteq> ''apikey'') Validation))"

definition check_address_policy :: "'e surrounds_scheme \<Rightarrow> string \<Rightarrow> unit result" where
  "check_address_policy sr address =
     ensure (TM1_ALLOW_PRIVATE_ADDRESSES sr \<or> \<not> is_private_address sr address) Validation"

definition check_gateway :: "'c tm1_state \<Rightarrow> uuid \<Rightarrow> uuid \<Rightarrow> string \<Rightarrow> unit result" where
  "check_gateway st gateway_id org auth_type =
     bind_result (ensure (auth_type = ''native'') Validation) (\<lambda>_.
     bind_result (get_gateway st gateway_id org) (\<lambda>_. Inr ()))"

record connection_create =
  cc_name :: string
  cc_address :: string
  cc_port :: int
  cc_ssl :: bool
  cc_username :: string
  cc_password :: string
  cc_authentication_type :: string
  cc_tenant :: "string option"
  cc_database :: "string option"
  cc_gateway_id :: "uuid option"
  cc_environment :: string
  cc_visibility :: string
  cc_verify_ssl :: bool

definition create_connection ::
  "'e surrounds_scheme \<Rightarrow> uuid \<Rightarrow> uuid \<Rightarrow> uuid \<Rightarrow> connection_create \<Rightarrow> 'c tm1_state \<Rightarrow>
     ('c tm1_state \<times> tm1_connection) result" where
  "create_connection sr new_id org created_by f st =
     (let parsed = parse_address (cc_address f);
          address = pa_host parsed;
          tenant = or_text (cc_tenant f) (pa_tenant parsed);
          database = or_text (cc_database f) (pa_database parsed);
          auth_type = cc_authentication_type f in
      bind_result (ensure (address \<noteq> []) Validation) (\<lambda>_.
      bind_result (case cc_gateway_id f of
                     Some g \<Rightarrow> check_gateway st g org auth_type
                   | None \<Rightarrow> check_address_policy sr address) (\<lambda>_.
      bind_result (ensure (\<not> (is_saas_host address \<and> auth_type \<noteq> ''v12_saas'')) Validation) (\<lambda>_.
      bind_result (ensure (\<not> (auth_type = ''v12_saas'' \<and> \<not> (nonempty tenant \<and> nonempty database))) Validation) (\<lambda>_.
      bind_result (check_pa_cloud auth_type database (cc_username f)) (\<lambda>_.
      let c = \<lparr>cn_id = new_id, cn_organization_id = org, cn_environment = Some (cc_environment f),
               cn_visibility = cc_visibility f, cn_created_by = Some created_by,
               tm_name = cc_name f, tm_address = address, tm_port = cc_port f, tm_ssl = cc_ssl f,
               tm_username = cc_username f, tm_encrypted_password = encrypt_password sr (cc_password f),
               tm_is_active = True, tm_authentication_type = auth_type, tm_tenant = tenant,
               tm_database = database, tm_gateway_id = cc_gateway_id f, tm_verify_ssl = cc_verify_ssl f,
               tm_suspended_at = None\<rparr> in
      if list_ex (\<lambda>d. cn_id d = new_id) (ts_connections st) then Inl IntegrityError
      else Inr (st\<lparr>ts_connections := ts_connections st @ [c]\<rparr>, c)))))))"

definition delete_connection ::
  "accounts \<Rightarrow> uuid \<Rightarrow> uuid \<Rightarrow> uuid option \<Rightarrow> 'c tm1_state \<Rightarrow> 'c tm1_state result" where
  "delete_connection a i org who st =
     bind_result (get_connection a (ts_connections st) i org Manage who) (\<lambda>c.
     let st1 = invalidate (cn_id c) st in
     Inr (st1\<lparr>ts_connections := filter (\<lambda>d. cn_id d \<noteq> cn_id c) (ts_connections st1)\<rparr>))"

fun accessible :: "accounts \<Rightarrow> purpose \<Rightarrow> uuid option \<Rightarrow> tm1_connection list \<Rightarrow> tm1_connection list result" where
  "accessible a purpose who [] = Inr []"
| "accessible a purpose who (c # cs) =
     bind_result (may_access a c purpose who) (\<lambda>b.
     bind_result (accessible a purpose who cs) (\<lambda>others. Inr (if b then c # others else others)))"

definition list_connections ::
  "accounts \<Rightarrow> uuid \<Rightarrow> purpose \<Rightarrow> uuid option \<Rightarrow> 'c tm1_state \<Rightarrow> tm1_connection list result" where
  "list_connections a org purpose who st =
     accessible a purpose who
       (sort_key tm_name (filter (\<lambda>c. cn_organization_id c = org) (ts_connections st)))"

text \<open>
  The fields of an update: None where the request does not name the field, \<open>Some None\<close> where
  it is null. Only for the gateway does the service tell the two apart.
\<close>

type_synonym 'a field = "'a option option"

definition given :: "'a field \<Rightarrow> 'a option" where
  "given f = (case f of None \<Rightarrow> None | Some v \<Rightarrow> v)"

record connection_update =
  cf_name :: "string field"
  cf_address :: "string field"
  cf_port :: "int field"
  cf_ssl :: "bool field"
  cf_username :: "string field"
  cf_password :: "string field"
  cf_authentication_type :: "string field"
  cf_tenant :: "string field"
  cf_database :: "string field"
  cf_gateway_id :: "uuid field"
  cf_environment :: "string field"
  cf_visibility :: "string field"
  cf_verify_ssl :: "bool field"

definition keep_text :: "string option \<Rightarrow> string option \<Rightarrow> string option" where
  "keep_text x old = (case x of None \<Rightarrow> old | Some v \<Rightarrow> Some v)"

definition updated :: "'e surrounds_scheme \<Rightarrow> connection_update \<Rightarrow> string option \<Rightarrow> string option \<Rightarrow>
    string option \<Rightarrow> tm1_connection \<Rightarrow> tm1_connection" where
  "updated sr f address tenant database c =
     c\<lparr>tm_name := new_value (given (cf_name f)) (tm_name c),
       tm_address := new_value address (tm_address c),
       tm_port := new_value (given (cf_port f)) (tm_port c),
       tm_ssl := new_value (given (cf_ssl f)) (tm_ssl c),
       tm_username := new_value (given (cf_username f)) (tm_username c),
       tm_encrypted_password :=
         (if nonempty (given (cf_password f)) then encrypt_password sr (the (given (cf_password f)))
          else tm_encrypted_password c),
       tm_authentication_type := new_value (given (cf_authentication_type f)) (tm_authentication_type c),
       tm_tenant := keep_text tenant (tm_tenant c),
       tm_database := keep_text database (tm_database c),
       cn_environment := keep_text (given (cf_environment f)) (cn_environment c),
       cn_visibility := new_value (given (cf_visibility f)) (cn_visibility c),
       tm_verify_ssl := new_value (given (cf_verify_ssl f)) (tm_verify_ssl c)\<rparr>"

definition update_connection ::
  "'e surrounds_scheme \<Rightarrow> accounts \<Rightarrow> uuid \<Rightarrow> uuid \<Rightarrow> uuid option \<Rightarrow> connection_update \<Rightarrow> 'c tm1_state \<Rightarrow>
     ('c tm1_state \<times> tm1_connection) result" where
  "update_connection sr a i org who f st =
     bind_result (get_connection a (ts_connections st) i org Manage who) (\<lambda>c.
     let next_gateway = (case cf_gateway_id f of None \<Rightarrow> tm_gateway_id c | Some g \<Rightarrow> g);
         parsed = map_option parse_address (given (cf_address f));
         address = map_option pa_host parsed;
         tenant = (case parsed of None \<Rightarrow> given (cf_tenant f)
                   | Some p \<Rightarrow> or_text (given (cf_tenant f)) (pa_tenant p));
         database = (case parsed of None \<Rightarrow> given (cf_database f)
                     | Some p \<Rightarrow> or_text (given (cf_database f)) (pa_database p)) in
     bind_result (case address of
                    None \<Rightarrow> Inr ()
                  | Some h \<Rightarrow>
                      bind_result (ensure (h \<noteq> []) Validation) (\<lambda>_.
                      if next_gateway = None then check_address_policy sr h else Inr ())) (\<lambda>_.
     let next_address = new_value address (tm_address c);
         next_auth_type = (if nonempty (given (cf_authentication_type f))
                           then the (given (cf_authentication_type f)) else tm_authentication_type c) in
     bind_result (if (address \<noteq> None \<or> given (cf_authentication_type f) \<noteq> None \<or> cf_gateway_id f \<noteq> None) \<and>
                     (next_gateway = None \<or> next_auth_type \<noteq> ''native'')
                  then check_address_policy sr next_address else Inr ()) (\<lambda>_.
     let next_tenant = keep_text tenant (tm_tenant c);
         next_database = keep_text database (tm_database c) in
     bind_result (ensure (\<not> (is_saas_host next_address \<and> next_auth_type \<noteq> ''v12_saas'')) Validation) (\<lambda>_.
     bind_result (ensure (\<not> (next_auth_type = ''v12_saas'' \<and> \<not> (nonempty next_tenant \<and> nonempty next_database)))
                    Validation) (\<lambda>_.
     bind_result (check_pa_cloud next_auth_type next_database (new_value (given (cf_username f)) (tm_username c))) (\<lambda>_.
     let c1 = updated sr f address tenant database c in
     bind_result (case cf_gateway_id f of
                    None \<Rightarrow> Inr c1
                  | Some None \<Rightarrow>
                      bind_result (check_address_policy sr (tm_address c1)) (\<lambda>_. Inr (c1\<lparr>tm_gateway_id := None\<rparr>))
                  | Some (Some g) \<Rightarrow>
                      bind_result (check_gateway st g org (tm_authentication_type c1)) (\<lambda>_.
                      Inr (c1\<lparr>tm_gateway_id := Some g\<rparr>))) (\<lambda>c2.
     let st1 = invalidate (cn_id c) st in
     Inr (st1\<lparr>ts_connections := upd_by cn_id (cn_id c) c2 (ts_connections st1)\<rparr>, c2))))))))"

section \<open>The connection manager\<close>

datatype tm1_kwargs =
    BaseUrl string string string "string option" bool
  | AddressPort string int bool string string "bool option" "uuid option"

text \<open>
  The parts of \<open>build_tm1_kwargs\<close> that say where a session goes: base URL, user, password,
  namespace and asynchronous mode; or address, port, SSL, user, password, verification, gateway.
\<close>

definition kwarg_text :: "string option \<Rightarrow> string" where
  "kwarg_text x = (case x of None \<Rightarrow> ''None'' | Some s \<Rightarrow> s)"

definition build_tm1_kwargs :: "tm1_connection \<Rightarrow> string \<Rightarrow> tm1_kwargs" where
  "build_tm1_kwargs c password =
     (if tm_authentication_type c = ''v12_saas'' then
        BaseUrl (''https://'' @ pa_host (parse_address (tm_address c)) @ ''/api/'' @ kwarg_text (tm_tenant c) @
                 ''/v0/tm1/'' @ kwarg_text (tm_database c) @ ''/'') ''apikey'' password None False
      else if tm_authentication_type c = ''pa_cloud'' then
        BaseUrl (''https://'' @ pa_host (parse_address (tm_address c)) @ ''/tm1/api/'' @ kwarg_text (tm_database c) @ ''/'')
          (tm_username c) password (Some ''LDAP'') True
      else
        AddressPort (tm_address c) (tm_port c) (tm_ssl c) (tm_username c) password
          (if tm_ssl c then Some (tm_verify_ssl c) else None) (tm_gateway_id c))"

definition refuse_private_destination :: "'e surrounds_scheme \<Rightarrow> tm1_connection \<Rightarrow> unit result" where
  "refuse_private_destination sr c =
     (if TM1_ALLOW_PRIVATE_ADDRESSES sr then Inr ()
      else if tm_gateway_id c \<noteq> None \<and> tm_authentication_type c = ''native'' then Inr ()
      else
        (let host = pa_host (parse_address (tm_address c)) in
         bind_result (ensure (\<not> is_private_address sr host) TM1Connection) (\<lambda>_.
         case resolve sr host of
           None \<Rightarrow> Inr ()
         | Some infos \<Rightarrow> ensure (\<not> list_ex (is_private_address sr) infos) TM1Connection)))"

text \<open>
  \<open>opened\<close> is \<open>call_with_resilience(connection.id, TM1Service, ...)\<close>: what opening a session
  with these arguments does to the outside world and the breakers.
\<close>

type_synonym ('w, 'c) opener = "uuid \<Rightarrow> tm1_kwargs \<Rightarrow> breakers \<Rightarrow> 'w \<Rightarrow> breakers \<times> 'w \<times> 'c result"

definition get_client ::
  "'e surrounds_scheme \<Rightarrow> ('w, 'c) opener \<Rightarrow> tm1_connection \<Rightarrow> 'c tm1_state \<times> 'w \<Rightarrow>
     ('c tm1_state \<times> 'w) \<times> 'c result" where
  "get_client sr opened c = (\<lambda>(st, w).
     if tm_suspended_at c \<noteq> None then ((invalidate (cn_id c) st, w), Inl TM1ConnectionSuspended)
     else
       (case ts_clients st (cn_id c) of
          Some client \<Rightarrow> ((st, w), Inr client)
        | None \<Rightarrow>
            (case bind_result (refuse_private_destination sr c) (\<lambda>_. decrypt_password sr (tm_encrypted_password c)) of
               Inl e \<Rightarrow> ((st, w), Inl e)
             | Inr password \<Rightarrow>
                 (let (bs, w', r) = opened (cn_id c) (build_tm1_kwargs c password) (ts_breakers st) w in
                  case r of
                    Inl e \<Rightarrow> ((st\<lparr>ts_breakers := bs\<rparr>, w'), Inl e)
                  | Inr client \<Rightarrow>
                      ((st\<lparr>ts_breakers := bs, ts_clients := (ts_clients st)(cn_id c \<mapsto> client)\<rparr>, w'), Inr client)))))"

datatype problem = CREDENTIALS_REJECTED | NOT_FOUND | UNREACHABLE

definition problem_of :: "exn \<Rightarrow> problem option" where
  "problem_of e =
     (case e of
        TM1Authentication \<Rightarrow> Some CREDENTIALS_REJECTED
      | TM1NotFound \<Rightarrow> Some NOT_FOUND
      | TM1Connection \<Rightarrow> Some UNREACHABLE
      | TM1OutcomeUnknown \<Rightarrow> Some UNREACHABLE
      | _ \<Rightarrow> None)"

text \<open>\<open>ping\<close> is the guarded call of \<open>get_server_name\<close> on a client.\<close>

definition diagnose_connection ::
  "'e surrounds_scheme \<Rightarrow> accounts \<Rightarrow> ('w, 'c) opener \<Rightarrow>
   (uuid \<Rightarrow> 'c \<Rightarrow> breakers \<Rightarrow> 'w \<Rightarrow> breakers \<times> 'w \<times> unit result) \<Rightarrow> uuid \<Rightarrow> uuid \<Rightarrow> uuid option \<Rightarrow>
   'c tm1_state \<times> 'w \<Rightarrow> ('c tm1_state \<times> 'w) \<times> problem option result" where
  "diagnose_connection sr a opened ping i org who = (\<lambda>(st, w).
     case get_connection a (ts_connections st) i org Use who of
       Inl e \<Rightarrow> ((st, w), Inl e)
     | Inr c \<Rightarrow>
         (let (stw1, r1) = get_client sr opened c (st, w);
              (stw2, r2) = (case r1 of
                              Inl e \<Rightarrow> (stw1, Inl e)
                            | Inr client \<Rightarrow>
                                (let (bs, w', r) = ping (cn_id c) client (ts_breakers (fst stw1)) (snd stw1)
                                 in (((fst stw1)\<lparr>ts_breakers := bs\<rparr>, w'), r)))
          in case r2 of
               Inr _ \<Rightarrow> (stw2, Inr None)
             | Inl e \<Rightarrow>
                 (case problem_of e of
                    None \<Rightarrow> (stw2, Inl e)
                  | Some p \<Rightarrow> ((invalidate (cn_id c) (fst stw2), snd stw2), Inr (Some p)))))"

section \<open>Requests\<close>

definition AUTHENTICATION_TYPES :: "string list" where
  "AUTHENTICATION_TYPES = [''native'', ''v12_saas'', ''pa_cloud'']"

definition VISIBILITIES :: "string list" where "VISIBILITIES = [''private'', ''organization'']"

text \<open>What the request models accept; FastAPI answers 422 otherwise.\<close>

definition create_accepted :: "connection_create \<Rightarrow> bool" where
  "create_accepted f \<longleftrightarrow>
     1 \<le> length (cc_name f) \<and> length (cc_name f) \<le> 100 \<and>
     cc_authentication_type f \<in> set AUTHENTICATION_TYPES \<and>
     cc_environment f \<in> set ENVIRONMENTS \<and> cc_visibility f \<in> set VISIBILITIES"

definition in_opt :: "'a option \<Rightarrow> 'a list \<Rightarrow> bool" where
  "in_opt x xs = (case x of None \<Rightarrow> True | Some v \<Rightarrow> v \<in> set xs)"

definition update_accepted :: "connection_update \<Rightarrow> bool" where
  "update_accepted f \<longleftrightarrow>
     (case given (cf_name f) of None \<Rightarrow> True | Some n \<Rightarrow> 1 \<le> length n \<and> length n \<le> 100) \<and>
     in_opt (given (cf_authentication_type f)) AUTHENTICATION_TYPES \<and>
     in_opt (given (cf_environment f)) ENVIRONMENTS \<and> in_opt (given (cf_visibility f)) VISIBILITIES"

abbreviation MANAGE_CONNECTIONS :: "string list" where
  "MANAGE_CONNECTIONS \<equiv> [''tm1.write'', ''tm1.connections.own'']"

definition check_owns :: "accounts \<Rightarrow> user \<Rightarrow> tm1_connection \<Rightarrow> unit result" where
  "check_owns a u c =
     (if cn_created_by c = Some (u_id u) then Inr ()
      else bind_result (user_has_permission a (u_id u) ''tm1.write'') (\<lambda>b. ensure b PermissionDenied))"

definition check_own_scope ::
  "accounts \<Rightarrow> user \<Rightarrow> string option \<Rightarrow> string option \<Rightarrow> uuid option \<Rightarrow> unit result" where
  "check_own_scope a u environment visibility gateway_id =
     bind_result (user_has_permission a (u_id u) ''tm1.write'') (\<lambda>b.
     if b then Inr ()
     else
       bind_result (ensure (environment \<in> {None, Some ''dev''}) PermissionDenied) (\<lambda>_.
       bind_result (ensure (visibility \<in> {None, Some ''private''}) PermissionDenied) (\<lambda>_.
       ensure (gateway_id = None) PermissionDenied)))"

definition create_connection_request ::
  "'e surrounds_scheme \<Rightarrow> accounts \<Rightarrow> user \<Rightarrow> uuid \<Rightarrow> connection_create \<Rightarrow> 'c tm1_state \<Rightarrow>
     ('c tm1_state \<times> tm1_connection) result" where
  "create_connection_request sr a u new_id f st =
     bind_result (ensure (create_accepted f) Validation) (\<lambda>_.
     bind_result (require_any_permission a u MANAGE_CONNECTIONS) (\<lambda>_.
     bind_result (check_own_scope a u (Some (cc_environment f)) (Some (cc_visibility f)) (cc_gateway_id f)) (\<lambda>_.
     create_connection sr new_id (u_organization_id u) (u_id u) f st)))"

text \<open>The endpoint fields of the request that differ from the row, or less certificate checking.\<close>

definition differs :: "'a field \<Rightarrow> 'a option \<Rightarrow> bool" where
  "differs f old = (case f of None \<Rightarrow> False | Some v \<Rightarrow> v \<noteq> old)"

definition moved :: "connection_update \<Rightarrow> tm1_connection \<Rightarrow> bool" where
  "moved f c \<longleftrightarrow>
     differs (map_option (map_option (\<lambda>s. if s = [] then s else pa_host (parse_address s))) (cf_address f))
       (Some (tm_address c)) \<or>
     differs (cf_port f) (Some (tm_port c)) \<or> differs (cf_ssl f) (Some (tm_ssl c)) \<or>
     differs (cf_authentication_type f) (Some (tm_authentication_type c)) \<or>
     differs (cf_tenant f) (tm_tenant c) \<or> differs (cf_database f) (tm_database c) \<or>
     differs (cf_gateway_id f) (tm_gateway_id c) \<or>
     (given (cf_verify_ssl f) = Some False \<and> tm_verify_ssl c)"

definition update_connection_guards ::
  "accounts \<Rightarrow> user \<Rightarrow> uuid \<Rightarrow> connection_update \<Rightarrow> 'c tm1_state \<Rightarrow> unit result" where
  "update_connection_guards a u i f st =
     bind_result (ensure (update_accepted f) Validation) (\<lambda>_.
     bind_result (require_any_permission a u MANAGE_CONNECTIONS) (\<lambda>_.
     bind_result (get_connection a (ts_connections st) i (u_organization_id u) Manage (Some (u_id u))) (\<lambda>c.
     bind_result (check_owns a u c) (\<lambda>_.
     bind_result (check_own_scope a u (Some (environment_of c)) (Some (cn_visibility c)) (tm_gateway_id c)) (\<lambda>_.
     bind_result (check_own_scope a u (given (cf_environment f)) (given (cf_visibility f))
                    (given (cf_gateway_id f))) (\<lambda>_.
     let changes_visibility =
       given (cf_visibility f) \<noteq> None \<and> given (cf_visibility f) \<noteq> Some (cn_visibility c) \<and>
       cn_created_by c \<noteq> Some (u_id u) in
     bind_result (if changes_visibility
                  then bind_result (user_has_permission a (u_id u) ''tm1.connections.manage_all'') (\<lambda>b.
                         ensure b PermissionDenied)
                  else Inr ()) (\<lambda>_.
     bind_result (ensure (\<not> (changes_visibility \<and> cn_visibility c = ''private'')) PermissionDenied) (\<lambda>_.
     bind_result (case given (cf_environment f) of
                    None \<Rightarrow> Inr ()
                  | Some e \<Rightarrow> check_environment_change a (u_id u) (environment_of c) e) (\<lambda>_.
     bind_result (ensure (\<not> (moved f c \<and> \<not> nonempty (given (cf_password f)))) Validation) (\<lambda>_.
     let environment = environment_of c in
     if environment \<noteq> ''dev'' \<and> (moved f c \<or> nonempty (given (cf_password f)) \<or> cf_username f \<noteq> None)
     then bind_result (deploy_permission environment) (\<lambda>permission.
          bind_result (user_has_permission a (u_id u) permission) (\<lambda>b. ensure b PermissionDenied))
     else Inr ()))))))))))"

definition update_connection_request ::
  "'e surrounds_scheme \<Rightarrow> accounts \<Rightarrow> user \<Rightarrow> uuid \<Rightarrow> connection_update \<Rightarrow> 'c tm1_state \<Rightarrow>
     ('c tm1_state \<times> tm1_connection) result" where
  "update_connection_request sr a u i f st =
     bind_result (update_connection_guards a u i f st) (\<lambda>_.
     update_connection sr a i (u_organization_id u) (Some (u_id u)) f st)"

definition delete_connection_request ::
  "accounts \<Rightarrow> user \<Rightarrow> uuid \<Rightarrow> 'c tm1_state \<Rightarrow> 'c tm1_state result" where
  "delete_connection_request a u i st =
     bind_result (require_any_permission a u MANAGE_CONNECTIONS) (\<lambda>_.
     bind_result (get_connection a (ts_connections st) i (u_organization_id u) Manage (Some (u_id u))) (\<lambda>c.
     bind_result (check_owns a u c) (\<lambda>_.
     bind_result (check_own_scope a u (Some (environment_of c)) (Some (cn_visibility c)) (tm_gateway_id c)) (\<lambda>_.
     delete_connection a i (u_organization_id u) (Some (u_id u)) st))))"

definition create_gateway_request ::
  "'e surrounds_scheme \<Rightarrow> accounts \<Rightarrow> user \<Rightarrow> uuid \<Rightarrow> string \<Rightarrow> string \<Rightarrow> 'c tm1_state \<Rightarrow>
     ('c tm1_state \<times> string) result" where
  "create_gateway_request sr a u new_id random nm st =
     bind_result (ensure (1 \<le> length nm \<and> length nm \<le> 100) Validation) (\<lambda>_.
     bind_result (require_permission a u ''tm1.write'') (\<lambda>_.
     create_gateway sr new_id random (u_organization_id u) (u_id u) nm st))"

definition rotate_gateway_key_request ::
  "'e surrounds_scheme \<Rightarrow> accounts \<Rightarrow> user \<Rightarrow> uuid \<Rightarrow> string \<Rightarrow> 'c tm1_state \<Rightarrow> ('c tm1_state \<times> string) result" where
  "rotate_gateway_key_request sr a u i random st =
     bind_result (require_permission a u ''tm1.write'') (\<lambda>_.
     rotate_key sr random i (u_organization_id u) st)"

definition delete_gateway_request ::
  "accounts \<Rightarrow> user \<Rightarrow> uuid \<Rightarrow> 'c tm1_state \<Rightarrow> 'c tm1_state result" where
  "delete_gateway_request a u i st =
     bind_result (require_permission a u ''tm1.write'') (\<lambda>_.
     delete_gateway i (u_organization_id u) st)"

end
