(* ===== verification/ConnectionProperties.thy ===== *)
theory ConnectionProperties
  imports Connections GovernanceProperties
begin

text \<open>
  What the requests on connections and gateways keep: every stored connection is one the
  address policy, its type and its organization allow; credentials stay where they were stored
  for unless the password is typed again; a person without \<open>tm1.write\<close> manages only private,
  direct DEV connections of their own; a rotated gateway key replaces the old one. Two ways round
  these rules are shown as theorems: an address with a port, and a pasted address that names
  another tenant.
\<close>

section \<open>Connections stay well formed\<close>

definition connection_ok :: "'e surrounds_scheme \<Rightarrow> tm1_gateway list \<Rightarrow> tm1_connection \<Rightarrow> bool" where
  "connection_ok sr gws c \<longleftrightarrow>
     tm_address c \<noteq> [] \<and>
     (TM1_ALLOW_PRIVATE_ADDRESSES sr \<or> \<not> is_private_address sr (tm_address c) \<or>
      tm_gateway_id c \<noteq> None \<and> tm_authentication_type c = ''native'') \<and>
     (is_saas_host (tm_address c) \<longrightarrow> tm_authentication_type c = ''v12_saas'') \<and>
     (tm_authentication_type c = ''v12_saas'' \<longrightarrow> nonempty (tm_tenant c) \<and> nonempty (tm_database c)) \<and>
     check_pa_cloud (tm_authentication_type c) (tm_database c) (tm_username c) = Inr () \<and>
     tm_authentication_type c \<in> set AUTHENTICATION_TYPES \<and>
     (\<forall>g. tm_gateway_id c = Some g \<longrightarrow>
        (\<exists>r \<in> set gws. gw_id r = g \<and> gw_organization_id r = cn_organization_id c))"

definition connections_ok :: "'e surrounds_scheme \<Rightarrow> 'c tm1_state \<Rightarrow> bool" where
  "connections_ok sr st \<longleftrightarrow>
     distinct (map cn_id (ts_connections st)) \<and> distinct (map gw_id (ts_gateways st)) \<and>
     (\<forall>c \<in> set (ts_connections st). connection_ok sr (ts_gateways st) c)"

datatype connection_request =
    CreateConnection user uuid connection_create
  | UpdateConnection user uuid connection_update
  | DeleteConnection user uuid
  | CreateGateway user uuid string string
  | RotateGatewayKey user uuid string
  | DeleteGateway user uuid
  | PollGateway string time "string option" "string option"

text \<open>One request on the state its transaction finds; a request that raises leaves it.\<close>

definition settled :: "'c tm1_state \<Rightarrow> ('c tm1_state \<times> 'a) result \<Rightarrow> 'c tm1_state" where
  "settled st r = (case r of Inl _ \<Rightarrow> st | Inr (st', _) \<Rightarrow> st')"

definition settled_unit :: "'c tm1_state \<Rightarrow> 'c tm1_state result \<Rightarrow> 'c tm1_state" where
  "settled_unit st r = (case r of Inl _ \<Rightarrow> st | Inr st' \<Rightarrow> st')"

fun serve :: "'e surrounds_scheme \<Rightarrow> accounts \<times> connection_request \<Rightarrow> 'c tm1_state \<Rightarrow> 'c tm1_state" where
  "serve sr (a, CreateConnection u i f) st = settled st (create_connection_request sr a u i f st)"
| "serve sr (a, UpdateConnection u i f) st = settled st (update_connection_request sr a u i f st)"
| "serve sr (a, DeleteConnection u i) st = settled_unit st (delete_connection_request a u i st)"
| "serve sr (a, CreateGateway u i random nm) st = settled st (create_gateway_request sr a u i random nm st)"
| "serve sr (a, RotateGatewayKey u i random) st = settled st (rotate_gateway_key_request sr a u i random st)"
| "serve sr (a, DeleteGateway u i) st = settled_unit st (delete_gateway_request a u i st)"
| "serve sr (a, PollGateway key now version host) st =
     (case authenticate_gateway sr key st of Inl _ \<Rightarrow> st | Inr g \<Rightarrow> mark_seen now version host g st)"

lemma bind_unit_Inr [simp]: "bind_result (r :: unit result) (\<lambda>_. k) = Inr x \<longleftrightarrow> r = Inr () \<and> k = Inr x"
  by (cases r) auto

lemma get_connection_InrD:
  "get_connection a conns i org purpose who = Inr c \<Longrightarrow>
     c \<in> set conns \<and> cn_id c = i \<and> cn_organization_id c = org \<and> may_access a c purpose who = Inr True"
  by (auto simp: get_connection_def bind_result_Inr_iff split: option.splits if_splits dest!: find_SomeD)

lemma get_gateway_InrD:
  "get_gateway st i org = Inr g \<Longrightarrow> g \<in> set (ts_gateways st) \<and> gw_id g = i \<and> gw_organization_id g = org"
  by (auto simp: get_gateway_def gateway_by_id_def split: option.splits if_splits dest!: find_SomeD)

lemma check_gateway_InrD:
  "check_gateway st g org t = Inr () \<Longrightarrow>
     t = ''native'' \<and> (\<exists>r \<in> set (ts_gateways st). gw_id r = g \<and> gw_organization_id r = org)"
  by (auto simp: check_gateway_def bind_result_Inr_iff dest: get_gateway_InrD)

lemma gateway_by_id_None: "gateway_by_id st i = None \<longleftrightarrow> i \<notin> gw_id ` set (ts_gateways st)"
  by (auto simp: gateway_by_id_def find_None_iff_all)

lemma connection_ok_mono:
  "connection_ok sr gws c \<Longrightarrow>
   (\<And>r. r \<in> set gws \<Longrightarrow> \<exists>r' \<in> set gws'. gw_id r' = gw_id r \<and> gw_organization_id r' = gw_organization_id r) \<Longrightarrow>
   connection_ok sr gws' c"
  unfolding connection_ok_def by metis

lemma write_gateway_ok:
  assumes ok: "connections_ok sr st" and g: "g \<in> set (ts_gateways st)"
    and keep: "gw_id g' = gw_id g" "gw_organization_id g' = gw_organization_id g"
  shows "connections_ok sr (write_gateway g' st)"
proof -
  have "connection_ok sr (upd_by gw_id (gw_id g') g' (ts_gateways st)) c" if "c \<in> set (ts_connections st)" for c
  proof (rule connection_ok_mono)
    show "connection_ok sr (ts_gateways st) c" using ok that by (simp add: connections_ok_def)
    fix r assume r: "r \<in> set (ts_gateways st)"
    show "\<exists>r' \<in> set (upd_by gw_id (gw_id g') g' (ts_gateways st)).
        gw_id r' = gw_id r \<and> gw_organization_id r' = gw_organization_id r"
    proof (cases "gw_id r = gw_id g")
      case True
      have "distinct (map gw_id (ts_gateways st))" using ok by (simp add: connections_ok_def)
      then have "r = g" using True r g by (metis distinct_map inj_onD)
      with g keep show ?thesis by (intro bexI [of _ g']) (auto simp: in_set_upd_by)
    next
      case False
      with r keep show ?thesis by (auto simp: in_set_upd_by)
    qed
  qed
  with ok keep show ?thesis by (simp add: connections_ok_def write_gateway_def)
qed

lemma create_connection_ok:
  assumes ok: "connections_ok sr st" and t: "cc_authentication_type f \<in> set AUTHENTICATION_TYPES"
    and run: "create_connection sr i org by_user f st = Inr (st', c)"
  shows "connections_ok sr st'"
proof -
  have c: "connection_ok sr (ts_gateways st) c" and i: "i \<notin> cn_id ` set (ts_connections st)" "cn_id c = i"
    and st': "st' = st\<lparr>ts_connections := ts_connections st @ [c]\<rparr>"
    using run t
    by (auto simp: create_connection_def Let_def list_ex_iff connection_ok_def check_address_policy_def
        split: if_splits option.splits dest: check_gateway_InrD)
  with ok show ?thesis by (auto simp: connections_ok_def)
qed

lemma updated_fields [simp]:
  "cn_id (updated sr f address tenant database c) = cn_id c"
  "cn_organization_id (updated sr f address tenant database c) = cn_organization_id c"
  "cn_created_by (updated sr f address tenant database c) = cn_created_by c"
  "tm_gateway_id (updated sr f address tenant database c) = tm_gateway_id c"
  "tm_address (updated sr f address tenant database c) = new_value address (tm_address c)"
  "tm_port (updated sr f address tenant database c) = new_value (given (cf_port f)) (tm_port c)"
  "tm_ssl (updated sr f address tenant database c) = new_value (given (cf_ssl f)) (tm_ssl c)"
  "tm_username (updated sr f address tenant database c) = new_value (given (cf_username f)) (tm_username c)"
  "tm_authentication_type (updated sr f address tenant database c) =
     new_value (given (cf_authentication_type f)) (tm_authentication_type c)"
  "tm_tenant (updated sr f address tenant database c) = keep_text tenant (tm_tenant c)"
  "tm_database (updated sr f address tenant database c) = keep_text database (tm_database c)"
  "tm_verify_ssl (updated sr f address tenant database c) = new_value (given (cf_verify_ssl f)) (tm_verify_ssl c)"
  "cn_environment (updated sr f address tenant database c) = keep_text (given (cf_environment f)) (cn_environment c)"
  "cn_visibility (updated sr f address tenant database c) = new_value (given (cf_visibility f)) (cn_visibility c)"
  by (simp_all add: updated_def)

text \<open>What an update writes, and what it has checked when it succeeds.\<close>

definition upd_address :: "connection_update \<Rightarrow> string option" where
  "upd_address f = map_option (\<lambda>s. pa_host (parse_address s)) (given (cf_address f))"

definition upd_tenant :: "connection_update \<Rightarrow> string option" where
  "upd_tenant f = (case given (cf_address f) of None \<Rightarrow> given (cf_tenant f)
     | Some s \<Rightarrow> or_text (given (cf_tenant f)) (pa_tenant (parse_address s)))"

definition upd_database :: "connection_update \<Rightarrow> string option" where
  "upd_database f = (case given (cf_address f) of None \<Rightarrow> given (cf_database f)
     | Some s \<Rightarrow> or_text (given (cf_database f)) (pa_database (parse_address s)))"

definition upd_gateway :: "connection_update \<Rightarrow> tm1_connection \<Rightarrow> uuid option" where
  "upd_gateway f c = (case cf_gateway_id f of None \<Rightarrow> tm_gateway_id c | Some g \<Rightarrow> g)"

definition upd_type :: "connection_update \<Rightarrow> tm1_connection \<Rightarrow> string" where
  "upd_type f c = new_value (given (cf_authentication_type f)) (tm_authentication_type c)"

definition update_checks :: "'e surrounds_scheme \<Rightarrow> connection_update \<Rightarrow> uuid \<Rightarrow> 'c tm1_state \<Rightarrow> tm1_connection \<Rightarrow> bool" where
  "update_checks sr f org st c \<longleftrightarrow>
     upd_address f \<noteq> Some [] \<and>
     ((upd_address f \<noteq> None \<or> given (cf_authentication_type f) \<noteq> None \<or> cf_gateway_id f \<noteq> None) \<and>
      (upd_gateway f c = None \<or> upd_type f c \<noteq> ''native'') \<longrightarrow>
        check_address_policy sr (new_value (upd_address f) (tm_address c)) = Inr ()) \<and>
     (is_saas_host (new_value (upd_address f) (tm_address c)) \<longrightarrow> upd_type f c = ''v12_saas'') \<and>
     (upd_type f c = ''v12_saas'' \<longrightarrow>
        nonempty (keep_text (upd_tenant f) (tm_tenant c)) \<and> nonempty (keep_text (upd_database f) (tm_database c))) \<and>
     check_pa_cloud (upd_type f c) (keep_text (upd_database f) (tm_database c))
       (new_value (given (cf_username f)) (tm_username c)) = Inr () \<and>
     (\<forall>g. cf_gateway_id f = Some (Some g) \<longrightarrow> check_gateway st g org (upd_type f c) = Inr ())"

lemma next_type:
  assumes "in_opt (given f) AUTHENTICATION_TYPES"
  shows "(if nonempty (given f) then the (given f) else old) = new_value (given f) old"
  using assms by (cases "given f") (auto simp: in_opt_def new_value_def nonempty_def AUTHENTICATION_TYPES_def)

lemma update_connection_InrD:
  assumes run: "update_connection sr a i org who f st = Inr (st', c')"
    and t: "in_opt (given (cf_authentication_type f)) AUTHENTICATION_TYPES"
    and c: "get_connection a (ts_connections st) i org Manage who = Inr c"
  shows "update_checks sr f org st c"
    and "c' = (updated sr f (upd_address f) (upd_tenant f) (upd_database f) c)\<lparr>tm_gateway_id := upd_gateway f c\<rparr>"
    and "st' = (invalidate (cn_id c) st)\<lparr>ts_connections := upd_by cn_id (cn_id c) c' (ts_connections st)\<rparr>"
proof -
  have inv: "ts_connections (invalidate j st) = ts_connections st" for j
    by (simp add: invalidate_def)
  have t': "(if nonempty (given (cf_authentication_type f)) then the (given (cf_authentication_type f))
      else tm_authentication_type c) = upd_type f c"
    unfolding upd_type_def by (rule next_type [OF t])
  have a: "map_option pa_host (map_option parse_address (given (cf_address f))) = upd_address f"
    by (simp add: upd_address_def option.map_comp o_def)
  have tn: "(case map_option parse_address (given (cf_address f)) of None \<Rightarrow> given (cf_tenant f)
      | Some p \<Rightarrow> or_text (given (cf_tenant f)) (pa_tenant p)) = upd_tenant f"
    by (simp add: upd_tenant_def split: option.splits)
  have db: "(case map_option parse_address (given (cf_address f)) of None \<Rightarrow> given (cf_database f)
      | Some p \<Rightarrow> or_text (given (cf_database f)) (pa_database p)) = upd_database f"
    by (simp add: upd_database_def split: option.splits)
  have g: "(case cf_gateway_id f of None \<Rightarrow> tm_gateway_id c | Some g \<Rightarrow> g) = upd_gateway f c"
    by (simp add: upd_gateway_def)
  have ct: "tm_authentication_type (updated sr f ad tn db c) = upd_type f c" for ad tn db
    by (simp add: upd_type_def)
  note r = run [unfolded update_connection_def c bind_result_simps Let_def a tn db g t' ct]
  have w: "tm_gateway_id (updated sr f ad tn db c) = tm_gateway_id c" for ad tn db by simp
  show "update_checks sr f org st c"
    using r unfolding update_checks_def
    by (auto simp: bind_result_Inr_iff split: option.splits if_splits)
  show c': "c' = (updated sr f (upd_address f) (upd_tenant f) (upd_database f) c)\<lparr>tm_gateway_id := upd_gateway f c\<rparr>"
    using r by (auto simp: bind_result_Inr_iff upd_gateway_def updated_def split: option.splits)
  show "st' = (invalidate (cn_id c) st)\<lparr>ts_connections := upd_by cn_id (cn_id c) c' (ts_connections st)\<rparr>"
    using r by (auto simp: bind_result_Inr_iff inv)
qed
lemma update_connection_ok:
  assumes ok: "connections_ok sr st" and t: "in_opt (given (cf_authentication_type f)) AUTHENTICATION_TYPES"
    and run: "update_connection sr a i org who f st = Inr (st', c')"
  shows "connections_ok sr st'"
proof -
  from run obtain c where c: "get_connection a (ts_connections st) i org Manage who = Inr c"
    by (auto simp: update_connection_def bind_result_Inr_iff)
  note new = update_connection_InrD [OF run t c]
  have mem: "c \<in> set (ts_connections st)" "cn_organization_id c = org"
    using get_connection_InrD [OF c] by auto
  have old: "connection_ok sr (ts_gateways st) c" using ok mem by (simp add: connections_ok_def)
  have ty: "upd_type f c \<in> set AUTHENTICATION_TYPES"
    using t old by (auto simp: upd_type_def in_opt_def new_value_def connection_ok_def split: option.splits)
  have addr: "new_value (upd_address f) (tm_address c) \<noteq> []"
    using new(1) old by (auto simp: update_checks_def new_value_def connection_ok_def split: option.splits)
  have gw: "\<exists>r \<in> set (ts_gateways st). gw_id r = k \<and> gw_organization_id r = org" if "upd_gateway f c = Some k" for k
    using that new(1) old mem
    by (auto simp: upd_gateway_def update_checks_def connection_ok_def split: option.splits dest: check_gateway_InrD)
  have policy: "TM1_ALLOW_PRIVATE_ADDRESSES sr \<or> \<not> is_private_address sr (new_value (upd_address f) (tm_address c)) \<or>
      upd_gateway f c \<noteq> None \<and> upd_type f c = ''native''"
  proof (cases "upd_address f = None \<and> given (cf_authentication_type f) = None \<and> cf_gateway_id f = None")
    case True
    with old show ?thesis by (auto simp: upd_gateway_def upd_type_def connection_ok_def new_value_def)
  next
    case False
    with new(1) show ?thesis by (auto simp: update_checks_def check_address_policy_def)
  qed
  have "connection_ok sr (ts_gateways st) c'"
    using addr policy new(1) ty gw mem(2)
    by (simp add: connection_ok_def new(2) update_checks_def flip: upd_type_def)
  moreover have "cn_id c' = cn_id c" by (simp add: new(2))
  ultimately show ?thesis
    using ok by (auto simp: connections_ok_def new(3) invalidate_def in_set_upd_by)
qed

lemma connection_ok_append: "connection_ok sr gws c \<Longrightarrow> connection_ok sr (gws @ [g]) c"
  by (auto simp: connection_ok_def)

lemma serve_ok:
  assumes "connections_ok sr st"
  shows "connections_ok sr (serve sr (a, rq) st)"
proof (cases rq)
  case (CreateConnection u i f)
  with assms show ?thesis
    by (auto simp: settled_def create_connection_request_def create_accepted_def split: sum.splits
        intro: create_connection_ok)
next
  case (UpdateConnection u i f)
  with assms show ?thesis
    by (auto simp: settled_def update_connection_request_def update_connection_guards_def update_accepted_def
        split: sum.splits intro: update_connection_ok)
next
  case (DeleteConnection u i)
  with assms show ?thesis
    by (auto simp: settled_unit_def delete_connection_request_def delete_connection_def bind_result_Inr_iff
        invalidate_def connections_ok_def Let_def distinct_map_filter split: sum.splits)
next
  case (CreateGateway u i random nm)
  with assms show ?thesis
    by (auto simp: settled_def create_gateway_request_def create_gateway_def connections_ok_def Let_def
        gateway_by_id_None split: sum.splits if_splits intro: connection_ok_append)
next
  case (RotateGatewayKey u i random)
  with assms show ?thesis
    by (auto simp: settled_def rotate_gateway_key_request_def rotate_key_def bind_result_Inr_iff Let_def
        split: sum.splits intro!: write_gateway_ok dest!: get_gateway_InrD)
next
  case (DeleteGateway u i)
  have "connection_ok sr (filter (\<lambda>h. gw_id h \<noteq> gw_id g) (ts_gateways st)) c"
    if "c \<in> set (ts_connections st)" "filter (\<lambda>c. tm_gateway_id c = Some (gw_id g)) (ts_connections st) = []" for g c
  proof -
    have "connection_ok sr (ts_gateways st) c" using assms that(1) by (simp add: connections_ok_def)
    moreover have "tm_gateway_id c \<noteq> Some (gw_id g)" using that by (auto simp: filter_empty_conv)
    ultimately show ?thesis by (auto simp: connection_ok_def)
  qed
  with assms DeleteGateway show ?thesis
    by (auto simp: settled_unit_def delete_gateway_request_def delete_gateway_def bind_result_Inr_iff Let_def
        connections_ok_def distinct_map_filter split: sum.splits)
next
  case (PollGateway key now version host)
  have "connections_ok sr (mark_seen now version host g st)" if "authenticate_gateway sr key st = Inr g" for g
  proof -
    have "g \<in> set (ts_gateways st)"
      using that by (auto simp: authenticate_gateway_def gateway_by_id_def split: if_splits option.splits prod.splits
          dest!: find_SomeD)
    with assms show ?thesis by (auto simp: mark_seen_def intro: write_gateway_ok)
  qed
  with assms PollGateway show ?thesis by (auto split: sum.splits)
qed

lemma connections_ok_core:
  assumes "connections_ok sr st"
  shows "connections_ok sr (foldl (\<lambda>st rq. serve sr rq st) st rqs)"
  using assms by (induction rqs arbitrary: st) (auto intro: serve_ok)

section \<open>Where stored credentials go\<close>

text \<open>Server and protocol of a connection, and the credentials sent there.\<close>

definition endpoint :: "tm1_connection \<Rightarrow>
    string \<times> int \<times> bool \<times> string \<times> string option \<times> string option \<times> uuid option" where
  "endpoint c = (tm_address c, tm_port c, tm_ssl c, tm_authentication_type c, tm_tenant c, tm_database c, tm_gateway_id c)"

lemma not_differs: "\<not> differs f (Some x) \<Longrightarrow> new_value (given f) x = x"
  by (auto simp: differs_def given_def new_value_def split: option.splits)

lemma not_differs_text: "\<not> differs f x \<Longrightarrow> keep_text (given f) x = x"
  by (auto simp: differs_def given_def keep_text_def split: option.splits)

lemma or_text_None [simp]: "or_text x None = (if nonempty x then x else None)"
  by (auto simp: or_text_def nonempty_def split: option.splits)

lemma keep_or_text: "keep_text x old = old \<Longrightarrow> keep_text (if nonempty x then x else None) old = old"
  by (auto simp: keep_text_def)

lemma update_request_InrD:
  assumes "update_connection_request sr a u i f st = Inr (st', c')"
  shows "\<exists>c. get_connection a (ts_connections st) i (u_organization_id u) Manage (Some (u_id u)) = Inr c \<and>
           update_accepted f \<and> check_owns a u c = Inr () \<and>
           check_own_scope a u (Some (environment_of c)) (Some (cn_visibility c)) (tm_gateway_id c) = Inr () \<and>
           check_own_scope a u (given (cf_environment f)) (given (cf_visibility f)) (given (cf_gateway_id f)) = Inr () \<and>
           (moved f c \<longrightarrow> nonempty (given (cf_password f))) \<and>
           update_connection sr a i (u_organization_id u) (Some (u_id u)) f st = Inr (st', c')"
  using assms
  by (auto simp: update_connection_request_def update_connection_guards_def bind_result_Inr_iff Let_def)

lemma empty_address: "pa_host (parse_address []) = []"
  by (simp add: parse_address_def)

lemma credentials_stay_core:
  assumes run: "update_connection_request sr a u i f st = Inr (st', c')"
    and no_password: "\<not> nonempty (given (cf_password f))"
    and plain: "\<And>s. given (cf_address f) = Some s \<Longrightarrow>
                  pa_tenant (parse_address s) = None \<and> pa_database (parse_address s) = None"
  shows "\<exists>c \<in> set (ts_connections st). cn_id c = i \<and> endpoint c' = endpoint c \<and>
           tm_encrypted_password c' = tm_encrypted_password c \<and> (tm_verify_ssl c \<longrightarrow> tm_verify_ssl c')"
proof -
  from update_request_InrD [OF run] no_password obtain c where
    c: "get_connection a (ts_connections st) i (u_organization_id u) Manage (Some (u_id u)) = Inr c" and
    still: "\<not> moved f c" and
    upd: "update_connection sr a i (u_organization_id u) (Some (u_id u)) f st = Inr (st', c')" by auto
  have t: "in_opt (given (cf_authentication_type f)) AUTHENTICATION_TYPES"
    using update_request_InrD [OF run] by (auto simp: update_accepted_def)
  note new = update_connection_InrD [OF upd t c]
  from still have d: "\<not> differs (cf_tenant f) (tm_tenant c)" "\<not> differs (cf_database f) (tm_database c)"
    "\<not> differs (cf_gateway_id f) (tm_gateway_id c)" "\<not> differs (cf_port f) (Some (tm_port c))"
    "\<not> differs (cf_ssl f) (Some (tm_ssl c))" "\<not> differs (cf_authentication_type f) (Some (tm_authentication_type c))"
    "\<not> (given (cf_verify_ssl f) = Some False \<and> tm_verify_ssl c)"
    and da: "\<not> differs (map_option (map_option (\<lambda>s. if s = [] then s else pa_host (parse_address s))) (cf_address f))
       (Some (tm_address c))"
    by (simp_all add: moved_def)
  have addr: "new_value (upd_address f) (tm_address c) = tm_address c"
  proof (cases "given (cf_address f)")
    case None
    then show ?thesis by (simp add: upd_address_def new_value_def)
  next
    case (Some s)
    then have f: "cf_address f = Some (Some s)" by (auto simp: given_def split: option.splits)
    have "s \<noteq> []" using new(1) Some by (auto simp: update_checks_def upd_address_def empty_address)
    with da show ?thesis by (simp add: f differs_def upd_address_def given_def new_value_def)
  qed
  have ten: "keep_text (upd_tenant f) (tm_tenant c) = tm_tenant c"
    using plain keep_or_text [OF not_differs_text [OF d(1)]] not_differs_text [OF d(1)]
    by (auto simp: upd_tenant_def split: option.splits)
  have db: "keep_text (upd_database f) (tm_database c) = tm_database c"
    using plain keep_or_text [OF not_differs_text [OF d(2)]] not_differs_text [OF d(2)]
    by (auto simp: upd_database_def split: option.splits)
  have gw: "upd_gateway f c = tm_gateway_id c"
    using d(3) by (auto simp: differs_def upd_gateway_def split: option.splits)
  have ver: "tm_verify_ssl c \<longrightarrow> new_value (given (cf_verify_ssl f)) (tm_verify_ssl c)"
    using d(7) by (auto simp: new_value_def split: option.splits)
  have "endpoint c' = endpoint c"
    by (simp add: endpoint_def new(2) addr ten db gw not_differs [OF d(4)] not_differs [OF d(5)] not_differs [OF d(6)])
  moreover have "tm_encrypted_password c' = tm_encrypted_password c"
    using no_password by (simp add: new(2) updated_def)
  moreover have "tm_verify_ssl c \<longrightarrow> tm_verify_ssl c'" using ver by (simp add: new(2))
  ultimately show ?thesis using get_connection_InrD [OF c] by blast
qed
section \<open>People who manage only their own connections\<close>

fun requester :: "connection_request \<Rightarrow> user option" where
  "requester (CreateConnection u _ _) = Some u"
| "requester (UpdateConnection u _ _) = Some u"
| "requester (DeleteConnection u _) = Some u"
| "requester (CreateGateway u _ _ _) = Some u"
| "requester (RotateGatewayKey u _ _) = Some u"
| "requester (DeleteGateway u _) = Some u"
| "requester (PollGateway _ _ _ _) = None"

text \<open>What a person without \<open>tm1.write\<close> may manage: added by them, DEV, private, direct.\<close>

definition own_scope :: "user \<Rightarrow> tm1_connection \<Rightarrow> bool" where
  "own_scope u c \<longleftrightarrow>
     cn_created_by c = Some (u_id u) \<and> environment_of c = ''dev'' \<and> cn_visibility c = ''private'' \<and>
     tm_gateway_id c = None"

lemma check_own_scope_InrD:
  "check_own_scope a u e v g = Inr () \<Longrightarrow> user_has_permission a (u_id u) ''tm1.write'' = Inr False \<Longrightarrow>
     e \<in> {None, Some ''dev''} \<and> v \<in> {None, Some ''private''} \<and> g = None"
  by (simp add: check_own_scope_def)

lemma check_owns_InrD:
  "check_owns a u c = Inr () \<Longrightarrow> user_has_permission a (u_id u) ''tm1.write'' = Inr False \<Longrightarrow>
     cn_created_by c = Some (u_id u)"
  by (simp add: check_owns_def split: if_splits)

lemma not_permitted: "user_has_permission a (u_id u) code = Inr False \<Longrightarrow> require_permission a u code \<noteq> Inr ()"
  by (simp add: require_permission_def)

lemma own_update:
  assumes run: "update_connection_request sr a u i f st = Inr (st', c')"
    and no_write: "user_has_permission a (u_id u) ''tm1.write'' = Inr False"
  shows "\<exists>c. get_connection a (ts_connections st) i (u_organization_id u) Manage (Some (u_id u)) = Inr c \<and>
           own_scope u c \<and> own_scope u c' \<and> cn_id c = i \<and>
           ts_connections st' = upd_by cn_id i c' (ts_connections st)"
proof -
  from update_request_InrD [OF run] obtain c where
    c: "get_connection a (ts_connections st) i (u_organization_id u) Manage (Some (u_id u)) = Inr c" and
    ok: "update_accepted f" "check_owns a u c = Inr ()"
      "check_own_scope a u (Some (environment_of c)) (Some (cn_visibility c)) (tm_gateway_id c) = Inr ()"
      "check_own_scope a u (given (cf_environment f)) (given (cf_visibility f)) (given (cf_gateway_id f)) = Inr ()" and
    upd: "update_connection sr a i (u_organization_id u) (Some (u_id u)) f st = Inr (st', c')" by blast
  have t: "in_opt (given (cf_authentication_type f)) AUTHENTICATION_TYPES"
    using ok(1) by (simp add: update_accepted_def)
  note new = update_connection_InrD [OF upd t c]
  have id: "cn_id c = i" using get_connection_InrD [OF c] by blast
  have old: "own_scope u c"
    using check_own_scope_InrD [OF ok(3) no_write] check_owns_InrD [OF ok(2) no_write] by (simp add: own_scope_def)
  note asked = check_own_scope_InrD [OF ok(4) no_write]
  have gw: "upd_gateway f c = None"
    using asked old by (auto simp: upd_gateway_def own_scope_def given_def split: option.splits)
  have env: "environment_of c' = ''dev''"
    using asked old
    by (auto simp: own_scope_def environment_of_def or_dev_def new(2) keep_text_def split: option.splits if_splits)
  have vis: "cn_visibility c' = ''private''"
    using asked old by (auto simp: own_scope_def new(2) new_value_def split: option.splits)
  have "cn_created_by c' = cn_created_by c" "tm_gateway_id c' = None" by (simp_all add: new(2) gw)
  with old env vis have "own_scope u c'" by (simp add: own_scope_def)
  with c old id new(3) show ?thesis by (auto simp: invalidate_def)
qed

lemma own_scope_core:
  assumes ok: "distinct (map cn_id (ts_connections st))"
    and u: "requester rq = Some u" and no_write: "user_has_permission a (u_id u) ''tm1.write'' = Inr False"
  shows "(\<forall>c \<in> set (ts_connections st) - set (ts_connections (serve sr (a, rq) st)). own_scope u c) \<and>
         (\<forall>c \<in> set (ts_connections (serve sr (a, rq) st)) - set (ts_connections st). own_scope u c) \<and>
         ts_gateways (serve sr (a, rq) st) = ts_gateways st"
proof (cases rq)
  case (CreateConnection v i f)
  with u have v: "v = u" by simp
  show ?thesis
  proof (cases "create_connection_request sr a u i f st")
    case (Inr r)
    obtain st' c where r: "r = (st', c)" by (rule prod.exhaust)
    have scope: "check_own_scope a u (Some (cc_environment f)) (Some (cc_visibility f)) (cc_gateway_id f) = Inr ()"
      and run: "create_connection sr i (u_organization_id u) (u_id u) f st = Inr (st', c)"
      using Inr by (auto simp: create_connection_request_def r)
    have c: "cn_created_by c = Some (u_id u)" "cn_environment c = Some (cc_environment f)"
      "cn_visibility c = cc_visibility f" "tm_gateway_id c = cc_gateway_id f"
      and st': "st' = st\<lparr>ts_connections := ts_connections st @ [c]\<rparr>"
      using run by (auto simp: create_connection_def Let_def split: if_splits)
    have "own_scope u c"
      using check_own_scope_InrD [OF scope no_write] c by (simp add: own_scope_def environment_of_def or_dev_def)
    with Inr CreateConnection v show ?thesis by (auto simp: settled_def r st')
  qed (simp add: CreateConnection v settled_def)
next
  case (UpdateConnection v i f)
  with u have v: "v = u" by simp
  show ?thesis
  proof (cases "update_connection_request sr a u i f st")
    case (Inr r)
    obtain st' c' where r: "r = (st', c')" by (rule prod.exhaust)
    from own_update [OF Inr [unfolded r] no_write] obtain c where
      c: "get_connection a (ts_connections st) i (u_organization_id u) Manage (Some (u_id u)) = Inr c"
      "own_scope u c" "own_scope u c'" "cn_id c = i" and st': "ts_connections st' = upd_by cn_id i c' (ts_connections st)"
      by blast
    have mem: "c \<in> set (ts_connections st)" using get_connection_InrD [OF c(1)] by blast
    have only: "d = c" if "d \<in> set (ts_connections st)" "cn_id d = i" for d
      using ok that mem c(4) by (metis distinct_map inj_onD)
    have gws: "ts_gateways st' = ts_gateways st"
      using Inr by (auto simp: r update_connection_request_def update_connection_def bind_result_Inr_iff Let_def
          invalidate_def)
    have conns: "serve sr (a, rq) st = st'" by (simp add: UpdateConnection v Inr r settled_def)
    have "own_scope u d" if "d \<in> set (ts_connections st)" "d \<notin> set (ts_connections st')" for d
      using that only [of d] c(2) by (auto simp: st' in_set_upd_by)
    moreover have "own_scope u d" if "d \<in> set (ts_connections st')" "d \<notin> set (ts_connections st)" for d
      using that c(3) by (auto simp: st' in_set_upd_by)
    ultimately show ?thesis using gws by (auto simp: conns)
  qed (simp add: UpdateConnection v settled_def)
next
  case (DeleteConnection v i)
  with u have v: "v = u" by simp
  show ?thesis
  proof (cases "delete_connection_request a u i st")
    case (Inr st')
    then obtain c where
      c: "get_connection a (ts_connections st) i (u_organization_id u) Manage (Some (u_id u)) = Inr c" and
      own: "check_owns a u c = Inr ()"
        "check_own_scope a u (Some (environment_of c)) (Some (cn_visibility c)) (tm_gateway_id c) = Inr ()" and
      st': "ts_connections st' = filter (\<lambda>d. cn_id d \<noteq> cn_id c) (ts_connections st)" "ts_gateways st' = ts_gateways st"
      by (auto simp: delete_connection_request_def delete_connection_def bind_result_Inr_iff invalidate_def Let_def)
    have mem: "c \<in> set (ts_connections st)" using get_connection_InrD [OF c] by blast
    have only: "d = c" if "d \<in> set (ts_connections st)" "cn_id d = cn_id c" for d
      using ok that mem by (metis distinct_map inj_onD)
    have "own_scope u c"
      using check_own_scope_InrD [OF own(2) no_write] check_owns_InrD [OF own(1) no_write] by (simp add: own_scope_def)
    with DeleteConnection v Inr st' only show ?thesis by (auto simp: settled_unit_def)
  qed (simp add: DeleteConnection v settled_unit_def)
next
  case (CreateGateway v i random nm)
  with u no_write show ?thesis
    by (auto simp: settled_def create_gateway_request_def not_permitted split: sum.splits)
next
  case (RotateGatewayKey v i random)
  with u no_write show ?thesis
    by (auto simp: settled_def rotate_gateway_key_request_def not_permitted split: sum.splits)
next
  case (DeleteGateway v i)
  with u no_write show ?thesis
    by (auto simp: settled_unit_def delete_gateway_request_def not_permitted split: sum.splits)
qed (use u in simp)

section \<open>Gateway keys\<close>

lemma chr_code_digit: "d < 10 \<Longrightarrow> chr_code (digit_char d) = 48 + d"
  by (simp add: chr_code_def digit_char_def)

lemma parse_digits_map:
  "\<forall>d \<in> set ds. d < 10 \<Longrightarrow> parse_digits (map digit_char ds) acc = Some (digits_value ds acc)"
  by (induction ds arbitrary: acc) (auto simp: is_digit_def chr_code_digit)

lemma digits_of_Nil [simp]: "digits_of n \<noteq> []"
  by (simp add: digits_of.simps [of n])

lemma digit_not_space: "d < 10 \<Longrightarrow> \<not> is_space (digit_char d)"
  by (auto simp: is_space_def chr_code_digit)

lemma strip_no_space:
  assumes "\<forall>c \<in> set s. \<not> is_space c"
  shows "strip s = s"
proof -
  have keep: "dropWhile is_space t = t" if "\<forall>c \<in> set t. \<not> is_space c" for t
    using that by (cases t) auto
  show ?thesis using keep [OF assms] keep [of "rev s"] assms by (simp add: strip_def)
qed

lemma parse_int_nat_str [simp]: "parse_int (nat_str n) = Some (int n)"
proof -
  have "strip (nat_str n) = nat_str n"
    using digits_of_small [of n] by (intro strip_no_space) (auto simp: nat_str_def dest: digit_not_space)
  moreover obtain d ds where ds: "digits_of n = d # ds" by (cases "digits_of n") auto
  moreover have d: "d < 10" using digits_of_small [of n] ds by auto
  moreover have "parse_digits (digit_char d # map digit_char ds) 0 = Some n"
    using parse_digits_map [of "digits_of n" 0] digits_of_small [of n] digits_value_digits_of [of n]
    by (simp add: ds del: parse_digits.simps)
  moreover have "digit_char d \<noteq> CHR ''-''" "digit_char d \<noteq> CHR ''+''"
    using chr_code_digit [OF d] by (auto simp: chr_code_def)
  ultimately show ?thesis
    by (simp add: parse_int_def nat_str_def parse_nat_def is_digit_def chr_code_digit del: parse_digits.simps)
qed

lemma takeWhile_upto: "\<forall>x \<in> set s. x \<noteq> c \<Longrightarrow> takeWhile (\<lambda>x. x \<noteq> c) (s @ c # t) = s"
  by (induction s) auto

lemma dropWhile_upto: "\<forall>x \<in> set s. x \<noteq> c \<Longrightarrow> dropWhile (\<lambda>x. x \<noteq> c) (s @ c # t) = c # t"
  by (induction s) auto

lemma nat_str_no_dot: "\<forall>x \<in> set (nat_str n). x \<noteq> CHR ''.''"
proof -
  have "digit_char d \<noteq> CHR ''.''" if "d < 10" for d
    using chr_code_digit [OF that] by (auto simp: chr_code_def)
  then show ?thesis using digits_of_small [of n] by (auto simp: nat_str_def)
qed

lemma key_parts_new_key:
  assumes "\<forall>x \<in> set (uuid_hex sr i). x \<noteq> CHR ''.''"
  shows "key_parts (drop (length KEY_PREFIX) (new_key sr i n random)) = Some (uuid_hex sr i, nat_str n)"
  using assms nat_str_no_dot [of n]
  by (simp add: key_parts_def new_key_def takeWhile_upto dropWhile_upto)

lemma authenticate_new_key:
  assumes hex: "\<forall>x \<in> set (uuid_hex sr i). x \<noteq> CHR ''.''" "read_uuid sr (uuid_hex sr i) = Some i"
    and digest: "\<And>k. key_digest sr k \<noteq> []"
    and g: "gateway_by_id st i = Some g" "gw_key_version g = n" "gw_key_hash g = key_digest sr (new_key sr i n random)"
  shows "authenticate_gateway sr (new_key sr i n random) st = Inr g"
  using key_parts_new_key [OF hex(1), of n random] hex(2) g digest
  by (simp add: authenticate_gateway_def new_key_def verify_secret_def)

lemma authenticate_version:
  assumes "authenticate_gateway sr key st = Inr g"
  shows "\<exists>r v. key_parts (drop (length KEY_PREFIX) key) = Some (r, v) \<and> read_uuid sr r = Some (gw_id g) \<and>
           parse_int v = Some (int (gw_key_version g)) \<and> gateway_by_id st (gw_id g) = Some g"
proof -
  from assms obtain r v where kp: "key_parts (drop (length KEY_PREFIX) key) = Some (r, v)"
    by (auto simp: authenticate_gateway_def split: if_splits option.splits)
  with assms show ?thesis
    by (auto simp: authenticate_gateway_def gateway_by_id_def split: if_splits option.splits dest: find_SomeD)
qed

lemma gateway_by_id_write:
  assumes "gateway_by_id st i = Some g" "gw_id g' = i"
  shows "gateway_by_id (write_gateway g' st) i = Some g'"
  using assms by (simp add: gateway_by_id_def write_gateway_def find_upd_by_same)

lemma rotation_core:
  assumes hex: "\<forall>x \<in> set (uuid_hex sr i). x \<noteq> CHR ''.''" "read_uuid sr (uuid_hex sr i) = Some i"
    and digest: "\<And>k. key_digest sr k \<noteq> []"
    and run: "rotate_key sr random i org st = Inr (st', key)"
  shows "(\<exists>g. authenticate_gateway sr key st' = Inr g \<and> gw_id g = i \<and> gw_organization_id g = org) \<and>
         (\<forall>old g. authenticate_gateway sr old st = Inr g \<and> gw_id g = i \<longrightarrow>
            authenticate_gateway sr old st' = Inl Authentication)"
proof -
  from run obtain g where g: "get_gateway st i org = Inr g" and
    key: "key = new_key sr (gw_id g) (gw_key_version g + 1) random" and
    st': "st' = write_gateway (g\<lparr>gw_key_version := gw_key_version g + 1, gw_key_hash := key_digest sr key\<rparr>) st"
    by (auto simp: rotate_key_def bind_result_Inr_iff Let_def)
  have by_id: "gateway_by_id st i = Some g"
    using g by (auto simp: get_gateway_def split: option.splits if_splits)
  have id: "gw_id g = i" "gw_organization_id g = org" using get_gateway_InrD [OF g] by auto
  let ?g = "g\<lparr>gw_key_version := gw_key_version g + 1, gw_key_hash := key_digest sr key\<rparr>"
  have by_id': "gateway_by_id st' i = Some ?g"
    unfolding st' by (rule gateway_by_id_write [OF by_id]) (simp add: id)
  have "authenticate_gateway sr (new_key sr i (gw_key_version g + 1) random) st' = Inr ?g"
    by (rule authenticate_new_key) (use hex digest by_id' in \<open>simp_all add: key id\<close>)
  then have "authenticate_gateway sr key st' = Inr ?g" by (simp add: key id)
  moreover have "authenticate_gateway sr old st' = Inl Authentication"
    if "authenticate_gateway sr old st = Inr h" "gw_id h = i" for old h
  proof -
    from authenticate_version [OF that(1)] that(2) by_id obtain r v where
      "key_parts (drop (length KEY_PREFIX) old) = Some (r, v)" "read_uuid sr r = Some i"
      "parse_int v = Some (int (gw_key_version g))" by auto
    then show ?thesis by (simp add: authenticate_gateway_def by_id')
  qed
  ultimately show ?thesis using id by auto
qed
section \<open>Where the address policy ends\<close>

lemma address_with_port_core:
  assumes host: "ip_address sr ''127.0.0.1:8010'' = None" "resolve sr ''127.0.0.1:8010'' = None"
    and f: "cc_address f = ''127.0.0.1:8010''" "cc_authentication_type f = ''v12_saas''" "cc_gateway_id f = None"
      "cc_tenant f = Some t" "t \<noteq> []" "cc_database f = Some d" "d \<noteq> []"
    and fresh: "i \<notin> cn_id ` set (ts_connections st)"
  shows "\<exists>st' c. create_connection sr i org who f st = Inr (st', c) \<and>
           refuse_private_destination sr c = Inr () \<and>
           build_tm1_kwargs c pw =
             BaseUrl (''https://127.0.0.1:8010/api/'' @ t @ ''/v0/tm1/'' @ d @ ''/'') ''apikey'' pw None False"
proof -
  have parse: "parse_address ''127.0.0.1:8010'' = \<lparr>pa_host = ''127.0.0.1:8010'', pa_tenant = None, pa_database = None\<rparr>"
    by code_simp
  have saas: "\<not> is_saas_host ''127.0.0.1:8010''" by code_simp
  have "lower (strip_brackets (strip ''127.0.0.1:8010'')) = ''127.0.0.1:8010''" by code_simp
  then have public: "\<not> is_private_address sr ''127.0.0.1:8010''"
    by (simp add: is_private_address_def host)
  from fresh have "\<not> list_ex (\<lambda>c. cn_id c = i) (ts_connections st)"
    by (auto simp: list_ex_iff)
  with f show ?thesis
    by (simp add: create_connection_def parse saas public check_address_policy_def or_text_def nonempty_def
        check_pa_cloud_def refuse_private_destination_def host build_tm1_kwargs_def kwarg_text_def Let_def)
qed
section \<open>Properties\<close>

lemma not_isl_ex: "\<not> isl x \<Longrightarrow> \<exists>r. x = Inr r"
  by (cases x) auto

theorem stored_connections_ok:
  assumes "connections_ok sr st"
  shows "connections_ok sr (foldl (\<lambda>st rq. serve sr rq st) st rqs)"
  using assms by (rule connections_ok_core)

definition demo_surrounds :: surrounds where
  "demo_surrounds =
     \<lparr>ip_address = (\<lambda>v. if v = ''10.0.0.1'' then Some (False, False) else None), resolve = (\<lambda>_. None),
      encrypt_password = rev, decrypt_password = (\<lambda>s. Inr (rev s)), key_digest = (\<lambda>k. ''h'' @ k),
      uuid_hex = (\<lambda>i. i), read_uuid = Some, TM1_ALLOW_PRIVATE_ADDRESSES = False\<rparr>"

definition saas_connection :: tm1_connection where
  "saas_connection =
     \<lparr>cn_id = ''k1'', cn_organization_id = ''o1'', cn_environment = Some ''prod'', cn_visibility = ''organization'',
      cn_created_by = Some ''ann'', tm_name = ''Plan'', tm_address = ''pa.example.com'', tm_port = 443, tm_ssl = True,
      tm_username = ''apikey'', tm_encrypted_password = ''yek'', tm_is_active = True,
      tm_authentication_type = ''v12_saas'', tm_tenant = Some ''t1'', tm_database = Some ''Plan'',
      tm_gateway_id = None, tm_verify_ssl = True, tm_suspended_at = None\<rparr>"

definition own_connection :: tm1_connection where
  "own_connection = saas_connection\<lparr>cn_id := ''k2'', cn_environment := Some ''dev'', cn_visibility := ''private'',
     cn_created_by := Some ''bob''\<rparr>"

definition demo_gateway :: tm1_gateway where
  "demo_gateway =
     \<lparr>gw_id = ''g1'', gw_organization_id = ''o1'', gw_name = ''HQ'', gw_key_hash = ''hpagw_g1.1.x'', gw_key_version = 1,
      gw_created_by = None, gw_last_seen_at = None, gw_version = None, gw_hostname = None\<rparr>"

definition demo_state :: "unit tm1_state" where
  "demo_state = \<lparr>ts_connections = [saas_connection, own_connection], ts_gateways = [demo_gateway],
     ts_clients = (\<lambda>_. None), ts_breakers = (\<lambda>_. None)\<rparr>"

text \<open>Ann may write; Bob manages only what he added.\<close>

definition conn_accounts :: accounts where
  "conn_accounts = demo_accounts\<lparr>
     users := [staff ''ann'', staff ''bob''],
     permissions := [\<lparr>pm_id = ''d1'', pm_code = ''tm1.write''\<rparr>, \<lparr>pm_id = ''d2'', pm_code = ''tm1.connections.own''\<rparr>],
     user_roles := [(''ann'', ''Admin''), (''bob'', ''Analyst'')],
     role_permissions := [(''Admin'', ''d1''), (''Analyst'', ''d2'')]\<rparr>"

definition no_fields :: connection_update where
  "no_fields = \<lparr>cf_name = None, cf_address = None, cf_port = None, cf_ssl = None, cf_username = None,
     cf_password = None, cf_authentication_type = None, cf_tenant = None, cf_database = None,
     cf_gateway_id = None, cf_environment = None, cf_visibility = None, cf_verify_ssl = None\<rparr>"

definition rename_it :: connection_update where
  "rename_it = no_fields\<lparr>cf_name := Some (Some ''Planning''), cf_address := Some (Some ''https://pa.example.com/'')\<rparr>"

lemma demo_state_ok: "connections_ok demo_surrounds demo_state"
proof -
  have "\<not> is_saas_host ''pa.example.com''" "\<not> is_private_address demo_surrounds ''pa.example.com''"
    by code_simp+
  then show ?thesis
    by (simp add: connections_ok_def connection_ok_def demo_state_def saas_connection_def own_connection_def
        demo_gateway_def check_pa_cloud_def nonempty_def AUTHENTICATION_TYPES_def)
qed

theorem stored_connections_ok_witness:
  "connections_ok demo_surrounds
     (foldl (\<lambda>st rq. serve demo_surrounds rq st) demo_state
        [(conn_accounts, UpdateConnection (staff ''ann'') ''k1'' rename_it),
         (conn_accounts, DeleteGateway (staff ''ann'') ''g1'')])"
  by (rule stored_connections_ok [OF demo_state_ok])

text \<open>
  C25. An update without a password leaves the stored credentials with the server, tenant,
  database, gateway and certificate checking they were saved for, when the address names no
  tenant or database.
\<close>

theorem stored_credentials_stay_at_their_endpoint:
  assumes "update_connection_request sr a u i f st = Inr (st', c')"
    and "\<not> nonempty (given (cf_password f))"
    and "\<And>s. given (cf_address f) = Some s \<Longrightarrow>
           pa_tenant (parse_address s) = None \<and> pa_database (parse_address s) = None"
  shows "\<exists>c \<in> set (ts_connections st). cn_id c = i \<and> endpoint c' = endpoint c \<and>
           tm_encrypted_password c' = tm_encrypted_password c \<and> (tm_verify_ssl c \<longrightarrow> tm_verify_ssl c')"
  using assms by (rule credentials_stay_core)

lemma renamed: "\<not> isl (update_connection_request demo_surrounds conn_accounts (staff ''ann'') ''k1'' rename_it demo_state)"
  by code_simp

lemma plain_address: "pa_tenant (parse_address ''https://pa.example.com/'') = None \<and>
    pa_database (parse_address ''https://pa.example.com/'') = None"
  by code_simp

theorem stored_credentials_stay_at_their_endpoint_witness:
  "\<exists>st' c'. update_connection_request demo_surrounds conn_accounts (staff ''ann'') ''k1'' rename_it demo_state =
     Inr (st', c') \<and> (\<exists>c. endpoint c' = endpoint c \<and> cn_id c = ''k1'')"
proof -
  from renamed obtain r where
    r: "update_connection_request demo_surrounds conn_accounts (staff ''ann'') ''k1'' rename_it demo_state = Inr r"
    using not_isl_ex by blast
  obtain st' c' where r': "r = (st', c')" by (rule prod.exhaust)
  have "\<exists>c \<in> set (ts_connections demo_state). cn_id c = ''k1'' \<and> endpoint c' = endpoint c \<and>
      tm_encrypted_password c' = tm_encrypted_password c \<and> (tm_verify_ssl c \<longrightarrow> tm_verify_ssl c')"
    by (rule stored_credentials_stay_at_their_endpoint [OF r [unfolded r']])
       (use plain_address in \<open>simp_all add: rename_it_def no_fields_def given_def nonempty_def\<close>)
  with r r' show ?thesis by blast
qed

text \<open>
  The hypothesis on the address is needed: a pasted address that names another tenant or
  database on the same host moves the stored API key there without the password being typed
  again, on a production connection by a person without its deploy right.
\<close>

definition paste_it :: connection_update where
  "paste_it = no_fields\<lparr>cf_address := Some (Some ''https://pa.example.com/api/t2/v0/tm1/Other/'')\<rparr>"

theorem pasted_address_moves_credentials:
  "(case update_connection_request demo_surrounds conn_accounts (staff ''ann'') ''k1'' paste_it demo_state of
      Inl _ \<Rightarrow> False
    | Inr (_, c) \<Rightarrow>
        tm_tenant c = Some ''t2'' \<and> tm_database c = Some ''Other'' \<and>
        tm_encrypted_password c = tm_encrypted_password saas_connection \<and> environment_of c = ''prod'') \<and>
   user_has_permission conn_accounts ''ann'' ''tm1.deploy.prod'' = Inr False"
  by code_simp

theorem address_with_port_escapes_the_policy:
  assumes "ip_address sr ''127.0.0.1:8010'' = None" "resolve sr ''127.0.0.1:8010'' = None"
    and "cc_address f = ''127.0.0.1:8010''" "cc_authentication_type f = ''v12_saas''" "cc_gateway_id f = None"
      "cc_tenant f = Some t" "t \<noteq> []" "cc_database f = Some d" "d \<noteq> []"
    and "i \<notin> cn_id ` set (ts_connections st)"
  shows "\<exists>st' c. create_connection sr i org who f st = Inr (st', c) \<and>
           refuse_private_destination sr c = Inr () \<and>
           build_tm1_kwargs c pw =
             BaseUrl (''https://127.0.0.1:8010/api/'' @ t @ ''/v0/tm1/'' @ d @ ''/'') ''apikey'' pw None False"
  using assms by (rule address_with_port_core)

definition loopback :: connection_create where
  "loopback = \<lparr>cc_name = ''L'', cc_address = ''127.0.0.1:8010'', cc_port = 443, cc_ssl = True, cc_username = ''u'',
     cc_password = ''p'', cc_authentication_type = ''v12_saas'', cc_tenant = Some ''t'', cc_database = Some ''d'',
     cc_gateway_id = None, cc_environment = ''dev'', cc_visibility = ''private'', cc_verify_ssl = True\<rparr>"

theorem address_with_port_escapes_the_policy_witness:
  "\<exists>st' c. create_connection demo_surrounds ''k3'' ''o1'' ''bob'' loopback demo_state = Inr (st', c) \<and>
     refuse_private_destination demo_surrounds c = Inr ()"
proof -
  have "\<exists>st' c. create_connection demo_surrounds ''k3'' ''o1'' ''bob'' loopback demo_state = Inr (st', c) \<and>
      refuse_private_destination demo_surrounds c = Inr () \<and>
      build_tm1_kwargs c [] = BaseUrl (''https://127.0.0.1:8010/api/'' @ ''t'' @ ''/v0/tm1/'' @ ''d'' @ ''/'') ''apikey'' [] None False"
    by (rule address_with_port_escapes_the_policy)
       (simp_all add: demo_surrounds_def loopback_def demo_state_def saas_connection_def own_connection_def)
  then show ?thesis by blast
qed

text \<open>
  C26. A request by a person who may not write to TM1 only adds, changes or removes private
  DEV connections of their own without a gateway, and leaves the gateways alone.
\<close>

theorem own_connections_only:
  assumes "distinct (map cn_id (ts_connections st))"
    and "requester rq = Some u" "user_has_permission a (u_id u) ''tm1.write'' = Inr False"
  shows "(\<forall>c \<in> set (ts_connections st) - set (ts_connections (serve sr (a, rq) st)). own_scope u c) \<and>
         (\<forall>c \<in> set (ts_connections (serve sr (a, rq) st)) - set (ts_connections st). own_scope u c) \<and>
         ts_gateways (serve sr (a, rq) st) = ts_gateways st"
  using assms by (rule own_scope_core)

lemma bob_may_not_write: "user_has_permission conn_accounts ''bob'' ''tm1.write'' = Inr False"
  by code_simp

lemma bob_removes_his_own:
  "own_connection \<in> set (ts_connections demo_state) -
       set (ts_connections (serve demo_surrounds (conn_accounts, DeleteConnection (staff ''bob'') ''k2'') demo_state))"
  by code_simp

theorem own_connections_only_witness:
  "own_connection \<in> set (ts_connections demo_state) -
       set (ts_connections (serve demo_surrounds (conn_accounts, DeleteConnection (staff ''bob'') ''k2'') demo_state)) \<and>
   own_scope (staff ''bob'') own_connection"
proof -
  have "distinct (map cn_id (ts_connections demo_state))"
    by (simp add: demo_state_def saas_connection_def own_connection_def)
  moreover have "u_id (staff ''bob'') = ''bob''" by (simp add: staff_def demo_user_def)
  ultimately show ?thesis
    using own_connections_only [of demo_state "DeleteConnection (staff ''bob'') ''k2''" "staff ''bob''" conn_accounts
        demo_surrounds] bob_may_not_write bob_removes_his_own by simp
qed

theorem rotated_key_replaces_the_old:
  assumes "\<forall>x \<in> set (uuid_hex sr i). x \<noteq> CHR ''.''" "read_uuid sr (uuid_hex sr i) = Some i"
    and "\<And>k. key_digest sr k \<noteq> []"
    and "rotate_key sr random i org st = Inr (st', key)"
  shows "(\<exists>g. authenticate_gateway sr key st' = Inr g \<and> gw_id g = i \<and> gw_organization_id g = org) \<and>
         (\<forall>old g. authenticate_gateway sr old st = Inr g \<and> gw_id g = i \<longrightarrow>
            authenticate_gateway sr old st' = Inl Authentication)"
  using assms by (rule rotation_core)

lemma demo_rotated: "\<not> isl (rotate_key demo_surrounds ''y'' ''g1'' ''o1'' demo_state)"
  by code_simp

lemma demo_key: "\<not> isl (authenticate_gateway demo_surrounds ''pagw_g1.1.x'' demo_state)"
  by code_simp

theorem rotated_key_replaces_the_old_witness:
  "\<exists>st' key. rotate_key demo_surrounds ''y'' ''g1'' ''o1'' demo_state = Inr (st', key) \<and>
     \<not> isl (authenticate_gateway demo_surrounds ''pagw_g1.1.x'' demo_state) \<and>
     authenticate_gateway demo_surrounds ''pagw_g1.1.x'' st' = Inl Authentication"
proof -
  obtain r where r: "rotate_key demo_surrounds ''y'' ''g1'' ''o1'' demo_state = Inr r"
    using not_isl_ex [OF demo_rotated] by blast
  obtain st' key where r': "r = (st', key)" by (rule prod.exhaust)
  obtain g where g: "authenticate_gateway demo_surrounds ''pagw_g1.1.x'' demo_state = Inr g"
    using not_isl_ex [OF demo_key] by blast
  then have "gateway_by_id demo_state (gw_id g) = Some g" using authenticate_version by blast
  then have "gw_id g = ''g1''" by (auto simp: gateway_by_id_def demo_state_def demo_gateway_def split: if_splits)
  moreover have "(\<exists>g. authenticate_gateway demo_surrounds key st' = Inr g \<and> gw_id g = ''g1'' \<and> gw_organization_id g = ''o1'') \<and>
      (\<forall>old g. authenticate_gateway demo_surrounds old demo_state = Inr g \<and> gw_id g = ''g1'' \<longrightarrow>
         authenticate_gateway demo_surrounds old st' = Inl Authentication)"
    by (rule rotated_key_replaces_the_old [OF _ _ _ r [unfolded r']]) (simp_all add: demo_surrounds_def)
  ultimately show ?thesis using r r' g demo_key by blast
qed

end
