(* ===== verification/GatewayRelay.thy ===== *)
theory GatewayRelay
  imports Prelude "HOL-Library.AList" "HOL-Library.Multiset" "HOL-Library.Word"
begin

text \<open>
  TM1 requests through a gateway: the broker, the relay and the transport of
  \<open>tm1/gateway/relay.py\<close>, and the forwarding of the gateway program \<open>gateway/pa_gateway.py\<close>.
  Base64 over zlib, \<open>json.dumps\<close> and \<open>urlsplit\<close> are fields of \<open>wire\<close>; what other threads and
  machines do while a call waits is an argument, one function on the state for each time the
  call is woken. Lists in Redis hold the messages themselves, with the time they expire. Texts of
  the gateway's errors are shortened.
\<close>

section \<open>Messages\<close>

type_synonym bytes = "8 word list"

definition MESSAGE_TTL_SECONDS :: int where "MESSAGE_TTL_SECONDS = 180"

abbreviation message_ttl :: time where "message_ttl \<equiv> seconds MESSAGE_TTL_SECONDS"

definition MAX_REQUEST_BYTES :: nat where "MAX_REQUEST_BYTES = 900000"

definition PART_BYTES :: nat where "PART_BYTES = 512 * 1024"

definition DEFAULT_TIMEOUT_SECONDS :: int where "DEFAULT_TIMEOUT_SECONDS = 60"

record relay_message =
  rm_id :: string
  rm_method :: string
  rm_url :: string
  rm_headers :: "(string \<times> string) list"
  rm_body :: "string option"
  rm_timeout :: time

record answer_part =
  pt_id :: string
  pt_index :: nat
  pt_parts :: nat
  pt_data :: string
  pt_status :: "int option"
  pt_reason :: "string option"
  pt_headers :: "(string \<times> string) list option"
  pt_cookies :: "(string \<times> string) list option"
  pt_error :: "string option"

record http_answer =
  ha_status :: int
  ha_reason :: string
  ha_headers :: "(string \<times> string) list"
  ha_cookies :: "(string \<times> string) list"
  ha_body :: bytes

text \<open>
  \<open>pack\<close> and \<open>unpack\<close> are \<open>encode\<close> and \<open>decode\<close>, None where zlib or base64 raises;
  \<open>wire_size\<close> is \<open>len(json.dumps(message))\<close>; \<open>url_target\<close> is the host and port of a URL.
\<close>

record wire =
  pack :: "bytes \<Rightarrow> string"
  unpack :: "string \<Rightarrow> bytes option"
  wire_size :: "relay_message \<Rightarrow> nat"
  url_target :: "string \<Rightarrow> string"

section \<open>The in-process broker\<close>

definition complete :: "answer_part list \<Rightarrow> bool" where
  "complete parts \<longleftrightarrow> parts \<noteq> [] \<and> pt_parts (hd parts) \<le> length parts"

record memory_broker =
  mb_requests :: "string \<Rightarrow> relay_message list"
  mb_answers :: "string \<Rightarrow> answer_part list"

definition memory_push_request :: "string \<Rightarrow> relay_message \<Rightarrow> memory_broker \<Rightarrow> memory_broker" where
  "memory_push_request g m b = b\<lparr>mb_requests := (mb_requests b)(g := mb_requests b g @ [m])\<rparr>"

definition memory_take_request :: "string \<Rightarrow> memory_broker \<Rightarrow> memory_broker \<times> relay_message option" where
  "memory_take_request g b =
     (case mb_requests b g of
        [] \<Rightarrow> (b, None)
      | m # ms \<Rightarrow> (b\<lparr>mb_requests := (mb_requests b)(g := ms)\<rparr>, Some m))"

definition memory_push_part :: "string \<Rightarrow> answer_part \<Rightarrow> memory_broker \<Rightarrow> memory_broker" where
  "memory_push_part i p b = b\<lparr>mb_answers := (mb_answers b)(i := mb_answers b i @ [p])\<rparr>"

definition memory_forget_answer :: "string \<Rightarrow> memory_broker \<Rightarrow> memory_broker" where
  "memory_forget_answer i b = b\<lparr>mb_answers := (mb_answers b)(i := [])\<rparr>"

definition memory_take_answer :: "string \<Rightarrow> memory_broker \<Rightarrow> memory_broker \<times> answer_part list option" where
  "memory_take_answer i b =
     (if complete (mb_answers b i) then (memory_forget_answer i b, Some (mb_answers b i)) else (b, None))"

text \<open>
  The loop of a blocking call: check, and wait while the deadline lies ahead. Each wait is the
  clock read before it and what others do until the call is woken; after the last one the clock
  has passed the deadline.
\<close>

fun await :: "('s \<Rightarrow> 's \<times> 'a option) \<Rightarrow> time \<Rightarrow> (time \<times> ('s \<Rightarrow> 's)) list \<Rightarrow> 's \<Rightarrow> 's \<times> 'a option" where
  "await check deadline [] s = check s"
| "await check deadline ((now, others) # es) s =
     (case check s of
        (s', Some x) \<Rightarrow> (s', Some x)
      | (s', None) \<Rightarrow> if deadline - now \<le> 0 then (s', None) else await check deadline es (others s'))"

definition memory_pop_request ::
  "string \<Rightarrow> time \<Rightarrow> (time \<times> (memory_broker \<Rightarrow> memory_broker)) list \<Rightarrow> memory_broker \<Rightarrow>
     memory_broker \<times> relay_message option" where
  "memory_pop_request g deadline es b = await (memory_take_request g) deadline es b"

definition memory_pop_answer ::
  "string \<Rightarrow> time \<Rightarrow> (time \<times> (memory_broker \<Rightarrow> memory_broker)) list \<Rightarrow> memory_broker \<Rightarrow>
     memory_broker \<times> answer_part list option" where
  "memory_pop_answer i deadline es b =
     (case await (memory_take_answer i) deadline es b of
        (b', Some parts) \<Rightarrow> (b', Some parts)
      | (b', None) \<Rightarrow> (memory_forget_answer i b', None))"

section \<open>The Redis broker\<close>

record upstash_broker =
  us_requests :: "string \<Rightarrow> relay_message list \<times> time"
  us_answers :: "string \<Rightarrow> answer_part list \<times> time"

text \<open>A list with an expiry, as commands at a time see it; the pipeline RPUSH, EXPIRE.\<close>

definition live_list :: "time \<Rightarrow> 'a list \<times> time \<Rightarrow> 'a list" where
  "live_list now l = (if now < snd l then fst l else [])"

definition rpush_expire :: "time \<Rightarrow> 'a \<Rightarrow> 'a list \<times> time \<Rightarrow> 'a list \<times> time" where
  "rpush_expire now x l = (live_list now l @ [x], now + message_ttl)"

definition upstash_push_request :: "time \<Rightarrow> string \<Rightarrow> relay_message \<Rightarrow> upstash_broker \<Rightarrow> upstash_broker" where
  "upstash_push_request now g m b =
     b\<lparr>us_requests := (us_requests b)(g := rpush_expire now m (us_requests b g))\<rparr>"

definition upstash_take_request :: "time \<Rightarrow> string \<Rightarrow> upstash_broker \<Rightarrow> upstash_broker \<times> relay_message option" where
  "upstash_take_request now g b =
     (case live_list now (us_requests b g) of
        [] \<Rightarrow> (b, None)
      | m # ms \<Rightarrow> (b\<lparr>us_requests := (us_requests b)(g := (ms, snd (us_requests b g)))\<rparr>, Some m))"

definition upstash_push_part :: "time \<Rightarrow> string \<Rightarrow> answer_part \<Rightarrow> upstash_broker \<Rightarrow> upstash_broker" where
  "upstash_push_part now i p b = b\<lparr>us_answers := (us_answers b)(i := rpush_expire now p (us_answers b i))\<rparr>"

text \<open>LRANGE, and DEL once the parts are complete.\<close>

definition upstash_take_answer :: "time \<Rightarrow> string \<Rightarrow> upstash_broker \<Rightarrow> upstash_broker \<times> answer_part list option" where
  "upstash_take_answer now i b =
     (let parts = live_list now (us_answers b i) in
      if complete parts then (b\<lparr>us_answers := (us_answers b)(i := ([], 0))\<rparr>, Some parts) else (b, None))"

text \<open>
  \<open>_wait_for\<close>: for every line of the stream, whether it is a data line, the clock after it, and
  what others did before it came; after the last line, or a read timeout, a final check at
  \<open>ended\<close>.
\<close>

fun wait_for ::
  "(time \<Rightarrow> 's \<Rightarrow> 's \<times> 'a option) \<Rightarrow> time \<Rightarrow> time \<Rightarrow> (bool \<times> time \<times> ('s \<Rightarrow> 's)) list \<Rightarrow> 's \<Rightarrow> 's \<times> 'a option" where
  "wait_for check ended deadline [] s = check ended s"
| "wait_for check ended deadline ((data, now, others) # es) s =
     (if \<not> data then wait_for check ended deadline es (others s)
      else case check now (others s) of
             (s', Some x) \<Rightarrow> (s', Some x)
           | (s', None) \<Rightarrow> if now \<ge> deadline then (s', None) else wait_for check ended deadline es s')"

definition upstash_pop_request ::
  "time \<Rightarrow> time \<Rightarrow> string \<Rightarrow> time \<Rightarrow> (bool \<times> time \<times> (upstash_broker \<Rightarrow> upstash_broker)) list \<Rightarrow> upstash_broker \<Rightarrow>
     upstash_broker \<times> relay_message option" where
  "upstash_pop_request started ended g deadline es b =
     (case upstash_take_request started g b of
        (b', Some m) \<Rightarrow> (b', Some m)
      | (b', None) \<Rightarrow> wait_for (\<lambda>now. upstash_take_request now g) ended deadline es b')"

definition upstash_pop_answer ::
  "time \<Rightarrow> string \<Rightarrow> time \<Rightarrow> (bool \<times> time \<times> (upstash_broker \<Rightarrow> upstash_broker)) list \<Rightarrow> upstash_broker \<Rightarrow>
     upstash_broker \<times> answer_part list option" where
  "upstash_pop_answer ended i deadline es b = wait_for (\<lambda>now. upstash_take_answer now i) ended deadline es b"

section \<open>The relay\<close>

datatype relay_error = TooLarge | NoAnswer | Reported string | Unreadable

definition relay_message_for ::
  "wire \<Rightarrow> string \<Rightarrow> string \<Rightarrow> string \<Rightarrow> (string \<times> string) list \<Rightarrow> bytes option \<Rightarrow> time \<Rightarrow> relay_message" where
  "relay_message_for w i method url headers body timeout =
     \<lparr>rm_id = i, rm_method = method, rm_url = url, rm_headers = headers,
      rm_body = (case body of None \<Rightarrow> None | Some b \<Rightarrow> if b = [] then None else Some (pack w b)),
      rm_timeout = timeout\<rparr>"

text \<open>What \<open>relay\<close> makes of the parts.\<close>

definition read_answer :: "wire \<Rightarrow> answer_part list \<Rightarrow> relay_error + http_answer" where
  "read_answer w parts0 =
     (let parts = sort_key pt_index parts0; meta = hd parts;
          data = concat (map pt_data parts) in
      case pt_error meta of
        Some (c # e) \<Rightarrow> Inl (Reported (c # e))
      | _ \<Rightarrow>
          (case (if data = [] then Some [] else unpack w data, pt_status meta) of
             (Some body, Some status) \<Rightarrow>
               Inr \<lparr>ha_status = status, ha_reason = (case pt_reason meta of None \<Rightarrow> [] | Some r \<Rightarrow> r),
                    ha_headers = (case pt_headers meta of None \<Rightarrow> [] | Some h \<Rightarrow> h),
                    ha_cookies = (case pt_cookies meta of None \<Rightarrow> [] | Some c \<Rightarrow> c), ha_body = body\<rparr>
           | _ \<Rightarrow> Inl Unreadable))"

text \<open>\<open>push\<close> and \<open>pop\<close> are the broker's \<open>push_request\<close> and \<open>pop_answer\<close>.\<close>

definition relay ::
  "wire \<Rightarrow> (string \<Rightarrow> relay_message \<Rightarrow> 's \<Rightarrow> 's) \<Rightarrow> (string \<Rightarrow> 's \<Rightarrow> 's \<times> answer_part list option) \<Rightarrow>
     string \<Rightarrow> relay_message \<Rightarrow> 's \<Rightarrow> 's \<times> (relay_error + http_answer)" where
  "relay w push pop g m s =
     (if wire_size w m > MAX_REQUEST_BYTES then (s, Inl TooLarge)
      else
        (case pop (rm_id m) (push g m s) of
           (s', None) \<Rightarrow> (s', Inl NoAnswer)
         | (s', Some parts) \<Rightarrow> (s', read_answer w parts)))"

text \<open>What a gateway answers: why TM1 could not be asked, or status, reason, headers, cookies.\<close>

datatype gateway_answer =
    Refused string
  | Answered int string "(string \<times> string) list" "(string \<times> string) list"

fun chunks :: "nat \<Rightarrow> 'a list \<Rightarrow> 'a list list" where
  "chunks n [] = []"
| "chunks n (x # xs) = (if n = 0 then [] else take n (x # xs) # chunks n (drop (n - 1) xs))"

definition plain_part :: "string \<Rightarrow> nat \<Rightarrow> nat \<Rightarrow> string \<Rightarrow> answer_part" where
  "plain_part i index parts data =
     \<lparr>pt_id = i, pt_index = index, pt_parts = parts, pt_data = data, pt_status = None, pt_reason = None,
      pt_headers = None, pt_cookies = None, pt_error = None\<rparr>"

fun with_answer :: "gateway_answer \<Rightarrow> answer_part \<Rightarrow> answer_part" where
  "with_answer (Refused e) p = p\<lparr>pt_error := Some e\<rparr>"
| "with_answer (Answered status reason headers cookies) p =
     p\<lparr>pt_status := Some status, pt_reason := Some reason, pt_headers := Some headers, pt_cookies := Some cookies\<rparr>"

definition split_answer :: "wire \<Rightarrow> string \<Rightarrow> gateway_answer \<Rightarrow> bytes \<Rightarrow> answer_part list" where
  "split_answer w i ans body =
     (let cs = chunks (PART_BYTES * 4 div 3) (pack w body);
          pieces = (if cs = [] then [[]] else cs)
      in map (\<lambda>(index, piece).
                let p = plain_part i index (length pieces) piece
                in if index = 0 then with_answer ans p else p)
           (enumerate 0 pieces))"

section \<open>The transport\<close>

definition cookie_text :: "(string \<times> string) list \<Rightarrow> string" where
  "cookie_text cookies =
     (let texts = map (\<lambda>(k, v). k @ ''='' @ v) cookies
      in concat (map (\<lambda>(i, t). if i = (0::nat) then t else ''; '' @ t) (enumerate 0 texts)))"

definition cookie_headers :: "(string \<times> string) list \<Rightarrow> (string \<times> string) list \<Rightarrow> (string \<times> string) list" where
  "cookie_headers cookies headers =
     (if cookies = [] then headers
      else AList.update ''Cookie''
             (case map_of headers ''Cookie'' of
                Some (c # s) \<Rightarrow> (c # s) @ ''; '' @ cookie_text cookies
              | _ \<Rightarrow> cookie_text cookies) headers)"

text \<open>
  \<open>GatewayAdapter.send\<close>; \<open>relayed\<close> is \<open>relay\<close> for the adapter's gateway, with the request's
  method, URL and body.
\<close>

definition send_wait :: "time option list \<Rightarrow> time" where
  "send_wait timeouts =
     (case filter (\<lambda>t. t \<noteq> 0) (concat (map (\<lambda>t. case t of None \<Rightarrow> [] | Some x \<Rightarrow> [x]) timeouts)) of
        [] \<Rightarrow> seconds DEFAULT_TIMEOUT_SECONDS
      | _ \<Rightarrow> Max (set (concat (map (\<lambda>t. case t of None \<Rightarrow> [] | Some x \<Rightarrow> [x]) timeouts))))"

definition send ::
  "((string \<times> string) list \<Rightarrow> 's \<Rightarrow> 's \<times> (relay_error + http_answer)) \<Rightarrow> (string \<times> string) list \<Rightarrow>
     (string \<times> string) list \<times> 's \<Rightarrow> ((string \<times> string) list \<times> 's) \<times> (relay_error + http_answer)" where
  "send relayed headers st =
     (case relayed (cookie_headers (fst st) headers) (snd st) of
        (s', Inl e) \<Rightarrow> ((fst st, s'), Inl e)
      | (s', Inr a) \<Rightarrow>
          ((fold (\<lambda>(k, v). AList.update k v) (ha_cookies a) (fst st), s'), Inr a))"

section \<open>The gateway program\<close>

text \<open>
  \<open>tm1\<close> is \<open>requests.Session.request\<close>: method, URL, headers, body; it answers or raises with a
  text. The answer's headers and cookies are as the library gives them.
\<close>

type_synonym 'w tm1_server =
  "string \<Rightarrow> string \<Rightarrow> (string \<times> string) list \<Rightarrow> bytes option \<Rightarrow> 'w \<Rightarrow> 'w \<times> (string + http_answer)"

definition DROP_HEADERS :: "string list" where
  "DROP_HEADERS =
     [''connection'', ''keep-alive'', ''transfer-encoding'', ''content-encoding'', ''content-length'',
      ''set-cookie'', ''proxy-authenticate'', ''upgrade'']"

text \<open>The outer None: \<open>decode\<close> of the request's body raised.\<close>

definition forward ::
  "wire \<Rightarrow> string set \<Rightarrow> 'w tm1_server \<Rightarrow> relay_message \<Rightarrow> 'w \<Rightarrow> 'w \<times> (gateway_answer \<times> bytes) option" where
  "forward w allow tm1 m s =
     (let target = url_target w (rm_url m) in
      if target \<notin> allow then (s, Some (Refused (target @ '' is not on this gateway's allow-list''), []))
      else
        (let headers = filter (\<lambda>(k, v). lower k \<notin> {''host'', ''content-length''}) (rm_headers m);
             body = (case rm_body m of
                       None \<Rightarrow> Some None
                     | Some t \<Rightarrow> if t = [] then Some None else map_option Some (unpack w t))
         in case body of
              None \<Rightarrow> (s, None)
            | Some b \<Rightarrow>
                (case tm1 (rm_method m) (rm_url m) headers b s of
                   (s', Inl e) \<Rightarrow> (s', Some (Refused (take 1900 (''Could not reach TM1 at '' @ target @ '': '' @ e)), []))
                 | (s', Inr a) \<Rightarrow>
                     (s', Some (Answered (ha_status a) (ha_reason a)
                              (filter (\<lambda>(k, v). lower k \<notin> set DROP_HEADERS) (ha_headers a)) (ha_cookies a),
                            ha_body a)))))"

text \<open>One round of \<open>worker\<close> whose calls to the backend succeed: poll, forward, post every part.\<close>

definition worker_round ::
  "wire \<Rightarrow> string set \<Rightarrow> 'w tm1_server \<Rightarrow> ('s \<Rightarrow> 's \<times> relay_message option) \<Rightarrow>
     (string \<Rightarrow> answer_part \<Rightarrow> 's \<Rightarrow> 's) \<Rightarrow> 's \<times> 'w \<Rightarrow> 's \<times> 'w" where
  "worker_round w allow tm1 poll post = (\<lambda>(s, tm).
     case poll s of
       (s1, None) \<Rightarrow> (s1, tm)
     | (s1, Some m) \<Rightarrow>
         (case forward w allow tm1 m tm of
            (tm', None) \<Rightarrow> (s1, tm')
          | (tm', Some (ans, body)) \<Rightarrow>
              (fold (\<lambda>p. post (pt_id p) p) (split_answer w (rm_id m) ans body) s1, tm')))"

end
