(* ===== verification/GatewayProperties.thy ===== *)
theory GatewayProperties
  imports GatewayRelay
begin

text \<open>
  What the relay promises: the interface both brokers provide as a locale, with the laws of its
  queues; requests are handed out once, in order, and only to their gateway; an answer cut into
  parts is put together again whatever the order the parts arrive in; and what the backend gets
  through a gateway is what TM1 answered.
\<close>

section \<open>The brokers' interface\<close>

text \<open>
  \<open>waiting\<close> are the requests a gateway would still be given at a time, \<open>posted\<close> the parts a
  call would find.
\<close>

locale relay_broker =
  fixes push_request :: "time \<Rightarrow> string \<Rightarrow> relay_message \<Rightarrow> 's \<Rightarrow> 's"
    and take_request :: "time \<Rightarrow> string \<Rightarrow> 's \<Rightarrow> 's \<times> relay_message option"
    and push_part :: "time \<Rightarrow> string \<Rightarrow> answer_part \<Rightarrow> 's \<Rightarrow> 's"
    and take_answer :: "time \<Rightarrow> string \<Rightarrow> 's \<Rightarrow> 's \<times> answer_part list option"
    and waiting :: "time \<Rightarrow> string \<Rightarrow> 's \<Rightarrow> relay_message list"
    and posted :: "time \<Rightarrow> string \<Rightarrow> 's \<Rightarrow> answer_part list"
  assumes waiting_push: "now \<le> t \<Longrightarrow> t < now + message_ttl \<Longrightarrow>
      waiting t g (push_request now h m s) = (if g = h then waiting now g s @ [m] else waiting t g s)"
    and waiting_push_part [simp]: "waiting t g (push_part now i p s) = waiting t g s"
    and waiting_take: "now \<le> t \<Longrightarrow>
      waiting t g (fst (take_request now h s)) = (if g = h then tl (waiting t g s) else waiting t g s)"
    and taken: "snd (take_request now g s) = (case waiting now g s of [] \<Rightarrow> None | m # _ \<Rightarrow> Some m)"
    and waiting_take_answer [simp]: "waiting t g (fst (take_answer now i s)) = waiting t g s"
    and posted_push [simp]: "posted t i (push_request now h m s) = posted t i s"
    and posted_take [simp]: "posted t i (fst (take_request now h s)) = posted t i s"
    and posted_push_part: "now \<le> t \<Longrightarrow> t < now + message_ttl \<Longrightarrow>
      posted t i (push_part now j p s) = (if i = j then posted now i s @ [p] else posted t i s)"
    and posted_take_answer: "i \<noteq> j \<Longrightarrow> posted t i (fst (take_answer now j s)) = posted t i s"
    and answered: "snd (take_answer now i s) = (if complete (posted now i s) then Some (posted now i s) else None)"
    and waiting_persists: "t \<le> t' \<Longrightarrow> waiting t' g s = waiting t g s \<or> waiting t' g s = []"
    and posted_persists: "t \<le> t' \<Longrightarrow> posted t' i s = posted t i s \<or> posted t' i s = []"

text \<open>What reaches a broker, each at its time.\<close>

datatype broker_step =
    PushRequest time string relay_message
  | TakeRequest time string
  | PushPart time string answer_part
  | TakeAnswer time string

fun step_time :: "broker_step \<Rightarrow> time" where
  "step_time (PushRequest t _ _) = t"
| "step_time (TakeRequest t _) = t"
| "step_time (PushPart t _ _) = t"
| "step_time (TakeAnswer t _) = t"

fun pushed_to :: "string \<Rightarrow> broker_step \<Rightarrow> relay_message list" where
  "pushed_to g (PushRequest _ h m) = (if g = h then [m] else [])"
| "pushed_to g _ = []"

fun parts_for :: "string \<Rightarrow> broker_step \<Rightarrow> answer_part list" where
  "parts_for i (PushPart _ j p) = (if i = j then [p] else [])"
| "parts_for i _ = []"

fun takes_answer :: "string \<Rightarrow> broker_step \<Rightarrow> bool" where
  "takes_answer i (TakeAnswer _ j) = (i = j)"
| "takes_answer i _ = False"

text \<open>Steps in the order of their times, from \<open>t0\<close> on, all before \<open>t1\<close>.\<close>

definition in_time :: "time \<Rightarrow> time \<Rightarrow> broker_step list \<Rightarrow> bool" where
  "in_time t0 t1 steps \<longleftrightarrow> sorted (t0 # map step_time steps @ [t1])"

lemma in_time_Cons [simp]:
  "in_time t0 t1 (x # xs) \<longleftrightarrow> t0 \<le> step_time x \<and> in_time (step_time x) t1 xs"
  by (auto simp: in_time_def)

lemma in_time_le: "in_time t0 t1 xs \<Longrightarrow> t0 \<le> t1"
  by (simp add: in_time_def)

context relay_broker begin

fun run_step :: "broker_step \<Rightarrow> 's \<Rightarrow> 's" where
  "run_step (PushRequest t g m) s = push_request t g m s"
| "run_step (TakeRequest t g) s = fst (take_request t g s)"
| "run_step (PushPart t i p) s = push_part t i p s"
| "run_step (TakeAnswer t i) s = fst (take_answer t i s)"

fun run :: "broker_step list \<Rightarrow> 's \<Rightarrow> 's" where
  "run [] s = s"
| "run (x # xs) s = run xs (run_step x s)"

text \<open>The requests handed to a gateway.\<close>

fun handed :: "string \<Rightarrow> broker_step list \<Rightarrow> 's \<Rightarrow> relay_message list" where
  "handed g [] s = []"
| "handed g (x # xs) s =
     (case x of
        TakeRequest t h \<Rightarrow>
          (if g = h then (case snd (take_request t h s) of None \<Rightarrow> [] | Some m \<Rightarrow> [m]) else [])
      | _ \<Rightarrow> []) @ handed g xs (run_step x s)"

lemma waiting_step:
  assumes "step_time x \<le> t" "t < step_time x + message_ttl" "waiting t g s = waiting (step_time x) g s"
  shows "waiting t g (run_step x s) =
           (case x of TakeRequest _ h \<Rightarrow> if g = h then tl (waiting t g s) else waiting t g s
            | _ \<Rightarrow> waiting t g s @ pushed_to g x)"
proof (cases x)
  case (PushRequest now h m)
  with assms show ?thesis by (cases "g = h") (simp_all add: waiting_push)
next
  case (TakeRequest now h)
  with assms show ?thesis by (simp add: waiting_take)
qed simp_all

text \<open>
  Until a list expires, what was waiting and what is pushed is handed out in that order; the
  rest is still waiting.
\<close>

lemma handed_in_order:
  assumes "in_time t0 t1 steps" "t1 < t0 + message_ttl"
    and "\<And>t. t0 \<le> t \<Longrightarrow> t \<le> t1 \<Longrightarrow> waiting t g s = waiting t0 g s"
  shows "handed g steps s @ waiting t1 g (run steps s) = waiting t0 g s @ concat (map (pushed_to g) steps)"
  using assms
proof (induction steps arbitrary: t0 s)
  case Nil
  then show ?case using Nil(3) [OF in_time_le [OF Nil(1)] order_refl] by simp
next
  case (Cons x xs)
  let ?t = "step_time x" and ?s = "run_step x s"
  have le: "t0 \<le> ?t" "in_time ?t t1 xs" "?t \<le> t1" "t1 < ?t + message_ttl"
    using Cons.prems(1,2) in_time_le [of ?t t1 xs] by auto
  have here: "waiting t g s = waiting ?t g s" if "?t \<le> t" "t \<le> t1" for t
    using Cons.prems(3) [of t] Cons.prems(3) [of ?t] that le by auto
  have s: "waiting t g ?s = (case x of TakeRequest _ h \<Rightarrow> if g = h then tl (waiting ?t g s) else waiting ?t g s
      | _ \<Rightarrow> waiting ?t g s @ pushed_to g x)" if "?t \<le> t" "t \<le> t1" for t
    using waiting_step [of x t g s] here [OF that] that le by (auto split: broker_step.splits)
  have "handed g xs ?s @ waiting t1 g (run xs ?s) = waiting ?t g ?s @ concat (map (pushed_to g) xs)"
    by (rule Cons.IH [OF le(2) le(4)]) (simp add: s le)
  moreover have "waiting ?t g s = waiting t0 g s" using Cons.prems(3) [of ?t] le by simp
  ultimately show ?case
    using s [of ?t] le
    by (auto simp: taken split: broker_step.splits list.splits)
qed

lemma posted_step:
  assumes "step_time x \<le> t" "t < step_time x + message_ttl" "posted t i s = posted (step_time x) i s"
    "\<not> takes_answer i x"
  shows "posted t i (run_step x s) = posted t i s @ parts_for i x"
proof (cases x)
  case (PushPart now j p)
  with assms show ?thesis by (cases "i = j") (simp_all add: posted_push_part)
next
  case (TakeAnswer now j)
  with assms show ?thesis by (simp add: posted_take_answer)
qed simp_all

text \<open>The parts of a call pile up in the order they are posted, whatever else goes on.\<close>

lemma posted_in_order:
  assumes "in_time t0 t1 steps" "t1 < t0 + message_ttl" "\<not> list_ex (takes_answer i) steps"
    and "\<And>t. t0 \<le> t \<Longrightarrow> t \<le> t1 \<Longrightarrow> posted t i s = posted t0 i s"
  shows "posted t1 i (run steps s) = posted t0 i s @ concat (map (parts_for i) steps)"
  using assms
proof (induction steps arbitrary: t0 s)
  case Nil
  then show ?case using Nil(4) [OF in_time_le [OF Nil(1)] order_refl] by simp
next
  case (Cons x xs)
  let ?t = "step_time x" and ?s = "run_step x s"
  have le: "t0 \<le> ?t" "in_time ?t t1 xs" "?t \<le> t1" "t1 < ?t + message_ttl"
    using Cons.prems(1,2) in_time_le [of ?t t1 xs] by auto
  have here: "posted t i s = posted ?t i s" if "?t \<le> t" "t \<le> t1" for t
    using Cons.prems(4) [of t] Cons.prems(4) [of ?t] that le by auto
  have s: "posted t i ?s = posted ?t i s @ parts_for i x" if "?t \<le> t" "t \<le> t1" for t
    using posted_step [of x t i s] here [OF that] that le Cons.prems(3) by auto
  have "posted t1 i (run xs ?s) = posted ?t i ?s @ concat (map (parts_for i) xs)"
    by (rule Cons.IH [OF le(2) le(4)]) (use Cons.prems(3) s le in auto)
  moreover have "posted ?t i s = posted t0 i s" using Cons.prems(4) [of ?t] le by simp
  ultimately show ?case using s [of ?t] le by simp
qed

lemma answer_taken:
  assumes "in_time t0 t1 steps" "t1 < t0 + message_ttl" "\<not> list_ex (takes_answer i) steps"
    and "posted t0 i s = []" "complete (concat (map (parts_for i) steps))"
  shows "snd (take_answer t1 i (run steps s)) = Some (concat (map (parts_for i) steps))"
proof -
  have "posted t i s = posted t0 i s" if "t0 \<le> t" for t
    using posted_persists [OF that, of i s] assms(4) by auto
  then have "posted t1 i (run steps s) = concat (map (parts_for i) steps)"
    using posted_in_order [OF assms(1-3)] assms(4) by simp
  with assms(5) show ?thesis by (simp add: answered)
qed

end

section \<open>Both brokers provide it\<close>

interpretation memory_relay: relay_broker "\<lambda>_. memory_push_request" "\<lambda>_. memory_take_request" "\<lambda>_. memory_push_part"
    "\<lambda>_. memory_take_answer" "\<lambda>_ g b. mb_requests b g" "\<lambda>_ i b. mb_answers b i"
  by unfold_locales
    (auto simp: memory_push_request_def memory_take_request_def memory_push_part_def memory_take_answer_def
      memory_forget_answer_def split: list.splits)

interpretation upstash_relay: relay_broker upstash_push_request upstash_take_request upstash_push_part upstash_take_answer
    "\<lambda>t g b. live_list t (us_requests b g)" "\<lambda>t i b. live_list t (us_answers b i)"
  by unfold_locales
    (auto simp: upstash_push_request_def upstash_take_request_def upstash_push_part_def upstash_take_answer_def
      rpush_expire_def live_list_def Let_def split: list.splits)

section \<open>Cutting and putting together\<close>

lemma concat_chunks: "0 < n \<Longrightarrow> concat (chunks n xs) = xs"
proof (induction n xs rule: chunks.induct)
  case (2 n x xs)
  moreover from 2(2) have "take n (x # xs) @ drop (n - 1) xs = x # xs" by (cases n) auto
  ultimately show ?case by simp
qed simp

text \<open>What the backend should make of a gateway's answer.\<close>

fun expected :: "gateway_answer \<Rightarrow> bytes \<Rightarrow> relay_error + http_answer" where
  "expected (Refused e) body = Inl (Reported e)"
| "expected (Answered status reason headers cookies) body =
     Inr \<lparr>ha_status = status, ha_reason = reason, ha_headers = headers, ha_cookies = cookies, ha_body = body\<rparr>"

definition pieces_of :: "wire \<Rightarrow> bytes \<Rightarrow> string list" where
  "pieces_of w body = (let cs = chunks (PART_BYTES * 4 div 3) (pack w body) in if cs = [] then [[]] else cs)"

lemma pieces_not_Nil [simp]: "pieces_of w body \<noteq> []"
  by (simp add: pieces_of_def Let_def)

lemma concat_pieces: "concat (pieces_of w body) = pack w body"
  using concat_chunks [of "PART_BYTES * 4 div 3" "pack w body"]
  by (auto simp: pieces_of_def Let_def PART_BYTES_def)

lemma with_answer_simps [simp]:
  "pt_id (with_answer ans p) = pt_id p" "pt_index (with_answer ans p) = pt_index p"
  "pt_parts (with_answer ans p) = pt_parts p" "pt_data (with_answer ans p) = pt_data p"
  by (cases ans; simp)+

lemma plain_part_simps [simp]:
  "pt_id (plain_part i k n d) = i" "pt_index (plain_part i k n d) = k"
  "pt_parts (plain_part i k n d) = n" "pt_data (plain_part i k n d) = d"
  by (simp_all add: plain_part_def)

definition nth_part :: "wire \<Rightarrow> string \<Rightarrow> gateway_answer \<Rightarrow> bytes \<Rightarrow> nat \<Rightarrow> answer_part" where
  "nth_part w i ans body k =
     (let p = plain_part i k (length (pieces_of w body)) (pieces_of w body ! k) in if k = 0 then with_answer ans p else p)"

lemma nth_part_simps [simp]:
  "pt_id (nth_part w i ans body k) = i" "pt_index (nth_part w i ans body k) = k"
  "pt_parts (nth_part w i ans body k) = length (pieces_of w body)"
  "pt_data (nth_part w i ans body k) = pieces_of w body ! k"
  by (simp_all add: nth_part_def Let_def)

lemma split_answer_nth: "split_answer w i ans body = map (nth_part w i ans body) [0..<length (pieces_of w body)]"
proof -
  have "split_answer w i ans body =
      map (\<lambda>(index, piece).
          let p = plain_part i index (length (pieces_of w body)) piece in if index = 0 then with_answer ans p else p)
        (enumerate 0 (pieces_of w body))"
    by (simp only: split_answer_def pieces_of_def Let_def)
  also have "\<dots> = map (nth_part w i ans body) [0..<length (pieces_of w body)]"
    by (rule nth_equalityI) (simp_all add: nth_enumerate_eq nth_part_def Let_def)
  finally show ?thesis .
qed

lemma length_split_answer [simp]: "length (split_answer w i ans body) = length (pieces_of w body)"
  by (simp add: split_answer_nth)

lemma split_answer_id: "p \<in> set (split_answer w i ans body) \<Longrightarrow> pt_id p = i \<and> pt_parts p = length (pieces_of w body)"
  by (auto simp: split_answer_nth)

lemma complete_split:
  assumes "mset ps = mset (split_answer w i ans body)"
  shows "complete ps"
proof -
  have len: "length ps = length (pieces_of w body)" using mset_eq_length [OF assms] by simp
  then have "ps \<noteq> []" by auto
  then have "hd ps \<in> set ps" by (rule hd_in_set)
  then have "hd ps \<in> set (split_answer w i ans body)" unfolding mset_eq_setD [OF assms] .
  then have "pt_parts (hd ps) = length (pieces_of w body)" using split_answer_id by blast
  with len \<open>ps \<noteq> []\<close> show ?thesis by (simp add: complete_def)
qed

lemma sorted_split:
  assumes "mset ps = mset (split_answer w i ans body)"
  shows "sort_key pt_index ps = split_answer w i ans body"
proof (rule sort_key_inj_key_eq [OF assms])
  have "inj_on pt_index (set (split_answer w i ans body))"
    by (auto simp: split_answer_nth inj_on_def)
  then show "inj_on pt_index (set ps)" unfolding mset_eq_setD [OF assms] .
  show "sorted (map pt_index (split_answer w i ans body))"
    by (simp add: split_answer_nth o_def)
qed

lemma split_answer_data: "concat (map pt_data (split_answer w i ans body)) = pack w body"
proof -
  have "map pt_data (split_answer w i ans body) = pieces_of w body"
    by (simp add: split_answer_nth o_def map_nth)
  then show ?thesis by (simp add: concat_pieces)
qed

lemma hd_split: "hd (split_answer w i ans body) = with_answer ans (plain_part i 0 (length (pieces_of w body)) (pieces_of w body ! 0))"
  by (simp add: split_answer_nth hd_map nth_part_def)

lemma read_split:
  assumes "mset ps = mset (split_answer w i ans body)"
    and "unpack w (pack w body) = Some body" "pack w body \<noteq> []" "ans \<noteq> Refused []"
  shows "read_answer w ps = expected ans body"
proof (cases ans)
  case (Refused e)
  with assms(4) obtain c r where "e = c # r" by (cases e) auto
  then show ?thesis
    by (simp add: read_answer_def sorted_split [OF assms(1)] hd_split Refused Let_def)
next
  case (Answered status reason headers cookies)
  then show ?thesis
    using assms(2,3)
    by (simp add: read_answer_def sorted_split [OF assms(1)] hd_split split_answer_data Let_def plain_part_def)
qed

section \<open>One request through the in-process broker\<close>

lemma post_all:
  assumes "\<forall>p \<in> set ps. pt_id p = i"
  shows "mb_answers (fold (\<lambda>p. memory_push_part (pt_id p) p) ps b) i = mb_answers b i @ ps"
    and "mb_requests (fold (\<lambda>p. memory_push_part (pt_id p) p) ps b) = mb_requests b"
  using assms by (induction ps arbitrary: b) (auto simp: memory_push_part_def)

text \<open>The broker and the TM1 server as one state: the calls of the backend leave TM1 alone.\<close>

definition on_broker :: "('b \<Rightarrow> 'b \<times> 'a) \<Rightarrow> 'b \<times> 'w \<Rightarrow> ('b \<times> 'w) \<times> 'a" where
  "on_broker f = (\<lambda>(b, tm). case f b of (b', x) \<Rightarrow> ((b', tm), x))"

definition relay_once ::
  "wire \<Rightarrow> string set \<Rightarrow> 'w tm1_server \<Rightarrow> string \<Rightarrow> time \<Rightarrow> time \<Rightarrow> relay_message \<Rightarrow> memory_broker \<times> 'w \<Rightarrow>
     (memory_broker \<times> 'w) \<times> (relay_error + http_answer)" where
  "relay_once w allow tm1 g now deadline m =
     relay w (\<lambda>g m (b, tm). (memory_push_request g m b, tm))
       (\<lambda>i. await (on_broker (memory_take_answer i)) deadline
              [(now, worker_round w allow tm1 (memory_take_request g) memory_push_part)]) g m"

lemma relay_once_core:
  assumes laws: "\<And>b. unpack w (pack w b) = Some b" "\<And>b. pack w b \<noteq> []"
    and idle: "mb_requests b g = []" "mb_answers b i = []" and now: "now < deadline"
    and m: "m = relay_message_for w i method url headers body timeout"
    and small: "wire_size w m \<le> MAX_REQUEST_BYTES"
    and allowed: "url_target w url \<in> allow"
    and served: "tm1 method url (filter (\<lambda>(k, v). lower k \<notin> {''host'', ''content-length''}) headers)
                   (if body = Some [] then None else body) tm = (tm', Inr a)"
  shows "\<exists>b'. relay_once w allow tm1 g now deadline m (b, tm) =
           ((b', tm'), Inr (a\<lparr>ha_headers := filter (\<lambda>(k, v). lower k \<notin> set DROP_HEADERS) (ha_headers a)\<rparr>)) \<and>
         mb_requests b' g = [] \<and> mb_answers b' i = []"
proof -
  let ?h = "filter (\<lambda>(k, v). lower k \<notin> set DROP_HEADERS) (ha_headers a)"
  let ?ans = "Answered (ha_status a) (ha_reason a) ?h (ha_cookies a)"
  let ?ps = "split_answer w i ?ans (ha_body a)"
  have mi: "rm_id m = i" "rm_method m = method" "rm_url m = url" "rm_headers m = headers"
    by (simp_all add: m relay_message_for_def)
  have body: "(case rm_body m of None \<Rightarrow> Some None
      | Some t \<Rightarrow> if t = [] then Some None else map_option Some (unpack w t)) = Some (if body = Some [] then None else body)"
    using laws by (auto simp: m relay_message_for_def split: option.splits)
  have fwd: "forward w allow tm1 m tm = (tm', Some (?ans, ha_body a))"
    using allowed served by (simp add: forward_def mi body)
  define b1 where "b1 = memory_push_request g m b"
  define b2 where "b2 = b1\<lparr>mb_requests := (mb_requests b1)(g := [])\<rparr>"
  define b3 where "b3 = fold (\<lambda>p. memory_push_part (pt_id p) p) ?ps b2"
  have b1: "mb_requests b1 g = [m]" "mb_answers b1 i = []"
    using idle by (simp_all add: b1_def memory_push_request_def)
  have b3: "mb_answers b3 i = ?ps" "mb_requests b3 g = []"
    using post_all [of ?ps i b2] b1 split_answer_id by (auto simp: b3_def b2_def)
  have round: "worker_round w allow tm1 (memory_take_request g) memory_push_part (b1, tm) = (b3, tm')"
    by (simp add: worker_round_def memory_take_request_def b1 fwd mi b2_def b3_def)
  have none: "on_broker (memory_take_answer i) (b1, tm) = ((b1, tm), None)"
    by (simp add: on_broker_def memory_take_answer_def b1 complete_def)
  have some: "on_broker (memory_take_answer i) (b3, tm') = ((memory_forget_answer i b3, tm'), Some ?ps)"
    using complete_split [OF refl, of w i ?ans "ha_body a"]
    by (simp add: on_broker_def memory_take_answer_def b3)
  have read: "read_answer w ?ps = expected ?ans (ha_body a)"
    by (rule read_split) (simp_all add: laws)
  have "relay_once w allow tm1 g now deadline m (b, tm) = ((memory_forget_answer i b3, tm'), expected ?ans (ha_body a))"
    using small now by (simp add: relay_once_def relay_def mi none round some read flip: b1_def)
  then show ?thesis by (simp add: memory_forget_answer_def b3)
qed

section \<open>Properties\<close>

text \<open>
  C31. An answer cut into parts and posted in any order, between any other traffic of the
  broker, is read back by the relay as the status, headers, cookies and body the gateway was
  given, or as its error, with either broker.
\<close>

theorem relayed_answer_arrives:
  assumes "unpack w (pack w body) = Some body" "pack w body \<noteq> []" "ans \<noteq> Refused []"
    and "in_time t0 t1 steps" "t1 < t0 + message_ttl" "\<not> list_ex (takes_answer i) steps"
    and "mset (concat (map (parts_for i) steps)) = mset (split_answer w i ans body)"
    and "mb_answers mb i = []" "live_list t0 (us_answers ub i) = []"
  shows "(\<exists>ps. snd (memory_take_answer i (memory_relay.run steps mb)) = Some ps \<and> read_answer w ps = expected ans body) \<and>
         (\<exists>ps. snd (upstash_take_answer t1 i (upstash_relay.run steps ub)) = Some ps \<and> read_answer w ps = expected ans body)"
proof -
  have "complete (concat (map (parts_for i) steps))" by (rule complete_split [OF assms(7)])
  then show ?thesis
    using memory_relay.answer_taken [OF assms(4-6), of mb] upstash_relay.answer_taken [OF assms(4-6), of ub] assms(8,9)
      read_split [OF assms(7) assms(1-3)] by simp
qed

text \<open>A wire whose packing is a marker before the bytes.\<close>

definition demo_wire :: wire where
  "demo_wire =
     \<lparr>pack = (\<lambda>b. CHR ''z'' # map (\<lambda>x. char_of (unat x)) b),
      unpack = (\<lambda>t. case t of [] \<Rightarrow> None | _ # s \<Rightarrow> Some (map (\<lambda>c. word_of_nat (of_char c)) s)),
      wire_size = (\<lambda>_. 100), url_target = (\<lambda>u. u)\<rparr>"

lemma byte_char: "word_of_nat (unat x mod 256) = (x :: 8 word)"
proof -
  have "unat x < 256" using unsigned_less [of x, where 'a = nat] by simp
  then show ?thesis by simp
qed

lemma demo_wire_laws: "unpack demo_wire (pack demo_wire b) = Some b" "pack demo_wire b \<noteq> []"
  by (simp_all add: demo_wire_def byte_char o_def)

definition demo_request :: relay_message where
  "demo_request = relay_message_for demo_wire ''r1'' ''GET'' ''tm1:8010'' [(''Host'', ''tm1''), (''Accept'', ''*'')] None (seconds 60)"

definition demo_steps :: "broker_step list" where
  "demo_steps =
     [PushRequest 0 ''g1'' demo_request, TakeRequest 1 ''g1'',
      PushPart 2 ''r2'' (plain_part ''r2'' 0 2 ''x''),
      PushPart 3 ''r1'' (hd (split_answer demo_wire ''r1'' (Answered 200 ''OK'' [] []) [7, 8]))]"

definition no_messages :: memory_broker where
  "no_messages = \<lparr>mb_requests = (\<lambda>_. []), mb_answers = (\<lambda>_. [])\<rparr>"

definition no_lists :: upstash_broker where
  "no_lists = \<lparr>us_requests = (\<lambda>_. ([], 0)), us_answers = (\<lambda>_. ([], 0))\<rparr>"

lemma demo_split: "length (split_answer demo_wire ''r1'' (Answered 200 ''OK'' [] []) [7, 8]) = 1"
  by (simp add: pieces_of_def PART_BYTES_def demo_wire_def)

lemma demo_parts:
  "mset (concat (map (parts_for ''r1'') demo_steps)) = mset (split_answer demo_wire ''r1'' (Answered 200 ''OK'' [] []) [7, 8])"
  using demo_split
  by (cases "split_answer demo_wire ''r1'' (Answered 200 ''OK'' [] []) [7, 8]") (auto simp: demo_steps_def)

lemma demo_times: "in_time 0 4 demo_steps" "(4 :: time) < 0 + message_ttl" "\<not> list_ex (takes_answer ''r1'') demo_steps"
  by (simp_all add: in_time_def demo_steps_def seconds_def MESSAGE_TTL_SECONDS_def)

theorem relayed_answer_arrives_witness:
  "(\<exists>ps. snd (memory_take_answer ''r1'' (memory_relay.run demo_steps no_messages)) = Some ps \<and>
      read_answer demo_wire ps = expected (Answered 200 ''OK'' [] []) [7, 8]) \<and>
   (\<exists>ps. snd (upstash_take_answer 4 ''r1'' (upstash_relay.run demo_steps no_lists)) = Some ps \<and>
      read_answer demo_wire ps = expected (Answered 200 ''OK'' [] []) [7, 8])"
  by (rule relayed_answer_arrives [OF demo_wire_laws _ demo_times demo_parts])
     (simp_all add: no_messages_def no_lists_def live_list_def)

theorem requests_handed_out_once:
  assumes "in_time t0 t1 steps" "t1 < t0 + message_ttl"
    and "mb_requests mb g = []" "live_list t0 (us_requests ub g) = []"
  shows "memory_relay.handed g steps mb @ mb_requests (memory_relay.run steps mb) g = concat (map (pushed_to g) steps) \<and>
         upstash_relay.handed g steps ub @ live_list t1 (us_requests (upstash_relay.run steps ub) g) =
           concat (map (pushed_to g) steps)"
proof -
  have "live_list t (us_requests ub g) = live_list t0 (us_requests ub g)" if "t0 \<le> t" for t
    using assms(4) that by (auto simp: live_list_def split: if_splits)
  then show ?thesis
    using memory_relay.handed_in_order [OF assms(1,2), where g = g and s = mb]
      upstash_relay.handed_in_order [OF assms(1,2), where g = g and s = ub] assms(3,4)
    by simp
qed

theorem requests_handed_out_once_witness:
  "memory_relay.handed ''g1'' demo_steps no_messages @ mb_requests (memory_relay.run demo_steps no_messages) ''g1'' = [demo_request] \<and>
   upstash_relay.handed ''g1'' demo_steps no_lists @ live_list 4 (us_requests (upstash_relay.run demo_steps no_lists) ''g1'') = [demo_request]"
  using requests_handed_out_once [OF demo_times(1,2), where mb = no_messages and g = "''g1''" and ub = no_lists]
  by (simp add: no_messages_def no_lists_def live_list_def) (simp add: demo_steps_def)

text \<open>
  C27. Asking TM1 through the relay, the broker and one round of the gateway program is
  asking TM1 directly: the server sees the method, the URL, the headers without host and
  length and the body, the answer comes back without the hop headers, and the broker is left
  empty.
\<close>

theorem relayed_request_is_the_request:
  assumes "\<And>b. unpack w (pack w b) = Some b" "\<And>b. pack w b \<noteq> []"
    and "mb_requests b g = []" "mb_answers b i = []" "now < deadline"
    and "m = relay_message_for w i method url headers body timeout"
    and "wire_size w m \<le> MAX_REQUEST_BYTES" "url_target w url \<in> allow"
    and "tm1 method url (filter (\<lambda>(k, v). lower k \<notin> {''host'', ''content-length''}) headers)
           (if body = Some [] then None else body) tm = (tm', Inr a)"
  shows "\<exists>b'. relay_once w allow tm1 g now deadline m (b, tm) =
           ((b', tm'), Inr (a\<lparr>ha_headers := filter (\<lambda>(k, v). lower k \<notin> set DROP_HEADERS) (ha_headers a)\<rparr>)) \<and>
         mb_requests b' g = [] \<and> mb_answers b' i = []"
  using assms by (rule relay_once_core)

text \<open>A TM1 server that counts its requests.\<close>

definition demo_tm1 :: "nat tm1_server" where
  "demo_tm1 method url headers body n =
     (n + 1, Inr \<lparr>ha_status = 200, ha_reason = ''OK'', ha_headers = [(''Connection'', ''close'')], ha_cookies = [],
                  ha_body = [7, 8]\<rparr>)"

theorem relayed_request_is_the_request_witness:
  "\<exists>b' a. relay_once demo_wire {''tm1:8010''} demo_tm1 ''g1'' 0 1 demo_request (no_messages, 0) = ((b', 1), Inr a) \<and>
     ha_body a = [7, 8]"
proof -
  let ?a = "\<lparr>ha_status = 200, ha_reason = ''OK'', ha_headers = [(''Connection'', ''close'')], ha_cookies = [],
      ha_body = [7, 8]\<rparr>"
  have "\<exists>b'. relay_once demo_wire {''tm1:8010''} demo_tm1 ''g1'' 0 1 demo_request (no_messages, 0) =
      ((b', 1), Inr (?a\<lparr>ha_headers := filter (\<lambda>(k, v). lower k \<notin> set DROP_HEADERS) (ha_headers ?a)\<rparr>)) \<and>
      mb_requests b' ''g1'' = [] \<and> mb_answers b' ''r1'' = []"
    by (rule relayed_request_is_the_request [OF demo_wire_laws _ _ _ demo_request_def])
       (simp_all add: no_messages_def demo_wire_def MAX_REQUEST_BYTES_def demo_tm1_def)
  then show ?thesis by fastforce
qed

end
