(* ===== verification/TiChecks.thy ===== *)
theory TiChecks
  imports TiParser "HOL-Library.Product_Lexorder"
begin

text \<open>
  Checking TurboIntegrator code: the static analysis of drafts (\<open>tm1/deployment/ti_analysis.py\<close>),
  the validation against the function reference (\<open>tm1/functions/__init__.py\<close>) and the review of a
  process (\<open>tm1/ti/review.py\<close>). The scraped reference is an argument, the functions the code adds
  to it are written out. Findings keep their place, severity and category; evidence, reasons and
  recommendations are texts and left out. Names in JSON are texts.
\<close>

section \<open>Names in a statement\<close>

definition starts_name :: "char \<Rightarrow> bool" where
  "starts_name c \<longleftrightarrow> is_alpha c \<or> c = CHR ''_''"

text \<open>\<open>_IDENTIFIER.findall\<close>: every name, with what follows it.\<close>

function name_tokens :: "string \<Rightarrow> (string \<times> string) list" where
  "name_tokens [] = []"
| "name_tokens (c # s) =
     (if starts_name c
      then (takeWhile is_word (c # s), dropWhile is_word (c # s)) # name_tokens (dropWhile is_word s)
      else name_tokens s)"
  by pat_completeness auto
termination
  by (relation "measure length") (auto simp: length_dropWhile_le le_imp_less_Suc)

definition identifiers :: "string \<Rightarrow> string list" where
  "identifiers st = map fst (name_tokens st)"

text \<open>\<open>_CALL.findall\<close>, lower case.\<close>

definition called_names :: "string \<Rightarrow> string list" where
  "called_names st =
     map (\<lambda>(n, _). lower n)
       (filter (\<lambda>(_, r). case dropWhile is_space r of [] \<Rightarrow> False | d # _ \<Rightarrow> d = CHR ''('') (name_tokens st))"

text \<open>\<open>_ASSIGNMENT.match\<close>: the name before a single equals sign.\<close>

definition assigned_name :: "string \<Rightarrow> string option" where
  "assigned_name st =
     (case dropWhile is_space st of
        [] \<Rightarrow> None
      | c # s \<Rightarrow>
          if \<not> starts_name c then None
          else
            (case dropWhile is_space (dropWhile is_word (c # s)) of
               [] \<Rightarrow> None
             | d # r \<Rightarrow>
                 if d = CHR ''='' \<and> (r = [] \<or> hd r \<noteq> CHR ''='') then Some (takeWhile is_word (c # s)) else None))"

text \<open>\<open>_SOURCE_COLUMN.match\<close> on a lower-case name.\<close>

definition source_column :: "string \<Rightarrow> bool" where
  "source_column n =
     (case n of
        c # d # s \<Rightarrow> c = CHR ''v'' \<and> is_digit d \<and> d \<noteq> CHR ''0'' \<and> list_all is_digit s
      | _ \<Rightarrow> False)"

section \<open>The static analysis\<close>

definition RESERVED_NAMES :: "string list" where
  "RESERVED_NAMES = map lower
     [''If'', ''Else'', ''ElseIf'', ''EndIf'', ''While'', ''End'', ''Break'', ''Continue'', ''Return'', ''Then'', ''Do'',
      ''ItemSkip'', ''ItemReject'', ''ProcessBreak'', ''ProcessQuit'', ''ProcessError'', ''ProcessExitNormal'',
      ''ProcessExitByChoreQuit'', ''NValue'', ''SValue'', ''Value_Is_String'', ''DatasourceType'',
      ''DatasourceNameForServer'', ''DatasourceNameForClient'', ''DatasourceUsername'', ''DatasourcePassword'',
      ''DatasourceQuery'', ''DatasourceCubeview'', ''DatasourceDimensionSubset'', ''DatasourceASCIIDelimiter'',
      ''DatasourceASCIIQuoteCharacter'', ''DatasourceASCIIDecimalSeparator'', ''DatasourceASCIIThousandSeparator'',
      ''DatasourceASCIIHeaderRecords'', ''DatasourceODBOCatalog'', ''DatasourceODBOConnectionString'',
      ''DatasourceODBOCubeName'', ''DatasourceODBOHierarchyName'', ''DatasourceODBOLocation'',
      ''DatasourceODBOProvider'', ''DatasourceODBOSAPClientID'', ''DatasourceODBOSAPClientLanguage'',
      ''OnMinorErrorDoItemSkip'', ''MinorErrorLogMax'', ''Numeric'', ''String'']"

text \<open>\<open>_strip_noise\<close> on one line: inside a literal, or not.\<close>

fun strip_literals :: "bool \<Rightarrow> string \<Rightarrow> string" where
  "strip_literals in_string [] = []"
| "strip_literals False (c # s) =
     (if c = quote then CHR '' '' # strip_literals True s
      else if c = CHR ''#'' then []
      else c # strip_literals False s)"
| "strip_literals True (c # s) =
     (if c = quote then
        (case s of
           d # s' \<Rightarrow> if d = quote then strip_literals True s' else strip_literals False s
         | [] \<Rightarrow> [])
      else strip_literals True s)"

record ti_draft =
  td_tabs :: "(string \<times> string) list"
  td_parameters :: "json list"
  td_variables :: "json list"
  td_datasource_type :: "string option"

definition tab_statements :: "string \<Rightarrow> string list" where
  "tab_statements code =
     concat (map (\<lambda>raw. filter (\<lambda>part. strip part \<noteq> []) (split_on (CHR '';'') (strip_literals False raw)))
               (lines_from [] code))"

definition draft_statements :: "ti_draft \<Rightarrow> (string \<times> string) list" where
  "draft_statements d =
     concat (map (\<lambda>tab. case map_of (td_tabs d) tab of
                          None \<Rightarrow> []
                        | Some code \<Rightarrow> map (Pair tab) (tab_statements code)) SECTIONS)"

definition item_name :: "json \<Rightarrow> string list" where
  "item_name item = (case json_get item ''name'' of Some (JStr n) \<Rightarrow> if n = [] then [] else [n] | _ \<Rightarrow> [])"

definition names_from :: "json list \<Rightarrow> string list" where
  "names_from items = concat (map item_name items)"

datatype lint_error =
    SourceColumns string "string list"
  | UndefinedNames string "string list"
  | DeclaredCase string "string list"
  | AssignedCase "string list"

text \<open>The bare names of a statement that nothing defines.\<close>

definition undefined_in :: "string list \<Rightarrow> string \<Rightarrow> string list" where
  "undefined_in known st =
     filter (\<lambda>t. lower t \<notin> set (called_names st) \<and> lower t \<notin> set known \<and> lower t \<notin> set RESERVED_NAMES)
       (identifiers st)"

text \<open>\<open>setdefault(lowered, token)\<close>: the first spelling of each name.\<close>

fun first_spellings :: "string list \<Rightarrow> string list \<Rightarrow> string list" where
  "first_spellings seen [] = []"
| "first_spellings seen (t # ts) =
     (if lower t \<in> set seen then first_spellings seen ts else t # first_spellings (lower t # seen) ts)"

definition undefined_errors :: "(string \<times> string) list \<Rightarrow> string list \<Rightarrow> bool \<Rightarrow> lint_error list" where
  "undefined_errors sts known has_variables =
     concat (map (\<lambda>tab.
       let found = first_spellings [] (concat (map (\<lambda>(t, st). if t = tab then undefined_in known st else []) sts)) in
       if found = [] then []
       else if list_ex (\<lambda>t. source_column (lower t)) found \<and> \<not> has_variables then [SourceColumns tab (sort found)]
       else [UndefinedNames tab (sort found)]) SECTIONS)"

definition spellings_of :: "string list \<Rightarrow> string \<Rightarrow> string list" where
  "spellings_of names lowered = sort (remdups (filter (\<lambda>t. lower t = lowered) names))"

definition case_errors :: "string list \<Rightarrow> string list \<Rightarrow> string list \<Rightarrow> lint_error list" where
  "case_errors names declared assigned =
     concat (map (\<lambda>lowered.
       let spellings = spellings_of names lowered in
       if length spellings < 2 \<or> lowered \<in> set RESERVED_NAMES then []
       else
         (case find (\<lambda>n. lower n = lowered) (rev declared) of
            Some canonical \<Rightarrow> [DeclaredCase canonical spellings]
          | None \<Rightarrow> if list_ex (\<lambda>t. t \<in> set assigned) spellings then [AssignedCase spellings] else []))
       (sort (remdups (map lower names))))"

definition known_names :: "ti_draft \<Rightarrow> string list" where
  "known_names d =
     map lower (names_from (td_parameters d) @ names_from (td_variables d)) @
     concat (map (\<lambda>(_, st). case assigned_name st of None \<Rightarrow> [] | Some n \<Rightarrow> [lower n]) (draft_statements d))"

definition or_else :: "string option \<Rightarrow> string \<Rightarrow> string" where
  "or_else x y = (case x of None \<Rightarrow> y | Some s \<Rightarrow> if s = [] then y else s)"

definition enumerable :: "ti_draft \<Rightarrow> string option \<Rightarrow> bool" where
  "enumerable d datasource_type \<longleftrightarrow>
     lower (or_else (td_datasource_type d) (or_else datasource_type ''None'')) \<in> {''none'', ''ascii''}"

definition analyze_draft :: "ti_draft \<Rightarrow> string option \<Rightarrow> lint_error list" where
  "analyze_draft d datasource_type =
     (let sts = draft_statements d;
          declared = remdups (names_from (td_parameters d) @ names_from (td_variables d));
          assigned = concat (map (\<lambda>(_, st). case assigned_name st of None \<Rightarrow> [] | Some n \<Rightarrow> [n]) sts);
          names = declared @ concat (map (\<lambda>(_, st). identifiers st) sts)
      in (if enumerable d datasource_type then undefined_errors sts (known_names d) (td_variables d \<noteq> []) else []) @
         case_errors names declared assigned)"

section \<open>The function reference\<close>

record tm1_function =
  fn_name :: string
  fn_contexts :: "string list"
  fn_versions :: "string list"

definition VALID_CONTEXTS :: "string list" where "VALID_CONTEXTS = [''TI'', ''Rules'', ''Excel'']"

definition VALID_VERSIONS :: "string list" where "VALID_VERSIONS = [''v11'', ''v12'']"

definition LANGUAGE_KEYWORDS :: "string list" where
  "LANGUAGE_KEYWORDS =
     [''IF'', ''ELSEIF'', ''ELSE'', ''ENDIF'', ''WHILE'', ''END'', ''BREAK'', ''CONTINUE'', ''RETURN'']"

definition MISSING_FUNCTIONS :: "tm1_function list" where
  "MISSING_FUNCTIONS =
     [\<lparr>fn_name = ''ReturnViewHandle'', fn_contexts = [''TurboIntegrator''], fn_versions = [''v11'', ''v12'']\<rparr>]"

text \<open>\<open>_library()\<close> on the scraped functions; a later entry replaces an earlier one.\<close>

definition function_library :: "tm1_function list \<Rightarrow> string \<Rightarrow> tm1_function option" where
  "function_library scraped key =
     map_of (rev (map (\<lambda>f. (upper (fn_name f), f)) (scraped @ MISSING_FUNCTIONS))) key"

definition lookup_function :: "tm1_function list \<Rightarrow> string \<Rightarrow> tm1_function option" where
  "lookup_function scraped nm = (if nm = [] then None else function_library scraped (upper (strip nm)))"

text \<open>
  \<open>_CALL_PATTERN.finditer\<close> and \<open>_STATEMENT_PATTERN.finditer\<close>: names as written, before \<open>stop\<close>,
  with the offset they start at.
\<close>

function sites_at :: "char \<Rightarrow> nat \<Rightarrow> bool \<Rightarrow> string \<Rightarrow> (string \<times> nat) list" where
  "sites_at stop pos word [] = []"
| "sites_at stop pos word (c # s) =
     (if \<not> word \<and> is_alpha c then
        (let name = takeWhile is_word (c # s); rest = dropWhile is_word (c # s);
             gap = takeWhile is_space rest; after = pos + length name + length gap + 1
         in case dropWhile is_space rest of
              d # z \<Rightarrow>
                if d = stop then (name, pos) # sites_at stop after False z
                else sites_at stop (pos + 1) True s
            | [] \<Rightarrow> sites_at stop (pos + 1) True s)
      else sites_at stop (pos + 1) (is_word c) s)"
  by pat_completeness auto
termination
proof (relation "measure (\<lambda>(_, _, _, s). length s)")
  fix stop :: char and pos :: nat and word :: bool and c :: char and s name rest gap :: string and after d z
  assume "rest = dropWhile is_word (c # s)" "dropWhile is_space rest = d # z"
  then have "length (d # z) \<le> length (c # s)"
    using length_dropWhile_le [of is_space rest] length_dropWhile_le [of is_word "c # s"] by auto
  then show "((stop, after, False, z), (stop, pos, word, c # s)) \<in> measure (\<lambda>(_, _, _, s). length s)" by simp
qed auto

definition line_at :: "string \<Rightarrow> nat \<Rightarrow> nat" where
  "line_at cleaned pos = length (filter (\<lambda>c. c = newline) (take pos cleaned)) + 1"

definition at_statement_start :: "string \<Rightarrow> nat \<Rightarrow> bool" where
  "at_statement_start cleaned pos =
     (case dropWhile (\<lambda>c. c = CHR '' '' \<or> c = CHR 0x09) (rev (take pos cleaned)) of
        [] \<Rightarrow> True
      | c # _ \<Rightarrow> c = CHR '';'' \<or> c = newline)"

definition find_calls :: "tm1_function list \<Rightarrow> string \<Rightarrow> (string \<times> nat) list" where
  "find_calls scraped code =
     (let cleaned = mask code in
      map (\<lambda>(n, p). (n, line_at cleaned p)) (sites_at (CHR ''('') 0 False cleaned) @
      map (\<lambda>(n, p). (n, line_at cleaned p))
        (filter (\<lambda>(n, p). upper n \<notin> set LANGUAGE_KEYWORDS \<and> function_library scraped (upper n) \<noteq> None \<and>
                          at_statement_start cleaned p)
           (sites_at (CHR '';'') 0 False cleaned)))"

datatype issue_kind = UnknownFunction | WrongContext | WrongVersion

record function_issue =
  fi_function :: string
  fi_line :: nat
  fi_kind :: issue_kind

text \<open>One call: the issues it adds, unless the same is known for the function already.\<close>

definition call_issues ::
  "tm1_function list \<Rightarrow> string \<Rightarrow> string option \<Rightarrow> bool \<Rightarrow> string \<times> nat \<Rightarrow> (string \<times> function_issue) list" where
  "call_issues scraped context version report_unknown nl =
     (let (n, line) = nl in
      case lookup_function scraped n of
        None \<Rightarrow>
          if report_unknown \<and> upper n \<notin> set LANGUAGE_KEYWORDS
          then [(upper n, \<lparr>fi_function = n, fi_line = line, fi_kind = UnknownFunction\<rparr>)] else []
      | Some f \<Rightarrow>
          (if context \<notin> set (fn_contexts f)
           then [(upper (fn_name f), \<lparr>fi_function = fn_name f, fi_line = line, fi_kind = WrongContext\<rparr>)] else []) @
          (case version of
             None \<Rightarrow> []
           | Some v \<Rightarrow>
               if v \<notin> set (fn_versions f)
               then [(upper (fn_name f), \<lparr>fi_function = fn_name f, fi_line = line, fi_kind = WrongVersion\<rparr>)] else []))"

fun unseen :: "(string \<times> issue_kind) list \<Rightarrow> (string \<times> function_issue) list \<Rightarrow> function_issue list" where
  "unseen seen [] = []"
| "unseen seen ((k, i) # is) =
     (if (k, fi_kind i) \<in> set seen then unseen seen is else i # unseen ((k, fi_kind i) # seen) is)"

definition validate_code ::
  "tm1_function list \<Rightarrow> string \<Rightarrow> string option \<Rightarrow> bool \<Rightarrow> string \<Rightarrow> function_issue list result" where
  "validate_code scraped context version report_unknown code =
     (if context \<notin> set VALID_CONTEXTS then Inl ValueError
      else if (case version of None \<Rightarrow> False | Some v \<Rightarrow> v \<notin> set VALID_VERSIONS) then Inl ValueError
      else Inr (unseen [] (concat (map (call_issues scraped context version report_unknown) (find_calls scraped code)))))"

fun validate_sections ::
  "tm1_function list \<Rightarrow> string option \<Rightarrow> bool \<Rightarrow> (string \<times> string) list \<Rightarrow> (string \<times> function_issue) list result" where
  "validate_sections scraped version report_unknown [] = Inr []"
| "validate_sections scraped version report_unknown ((section, code) # secs) =
     bind_result (if code = [] then Inr [] else validate_code scraped ''TI'' version report_unknown code) (\<lambda>issues.
     bind_result (validate_sections scraped version report_unknown secs) (\<lambda>others.
     Inr (map (Pair section) issues @ others)))"

section \<open>The review\<close>

definition DANGEROUS_FUNCTIONS :: "(string \<times> string) list" where
  "DANGEROUS_FUNCTIONS =
     [(''CUBECLEARDATA'', ''warning''), (''CUBEDESTROY'', ''warning''), (''DIMENSIONDESTROY'', ''warning''),
      (''HIERARCHYDESTROY'', ''warning''), (''DIMENSIONDELETEALLELEMENTS'', ''warning''),
      (''HIERARCHYDELETEALLELEMENTS'', ''warning''), (''DIMENSIONELEMENTDELETE'', ''info''),
      (''HIERARCHYELEMENTDELETE'', ''info''), (''DELETEALLPERSISTENTFEEDERS'', ''warning''), (''CUBEUNLOAD'', ''info''),
      (''SAVEDATAALL'', ''warning''), (''SERVERSHUTDOWN'', ''error''), (''SECURITYREFRESH'', ''info''),
      (''DELETECLIENT'', ''warning''), (''DELETEGROUP'', ''warning''), (''EXECUTECOMMAND'', ''warning''),
      (''ASCIIDELETE'', ''info''), (''CUBEDATARESERVATIONRELEASEALL'', ''info'')]"

definition MAX_STATEMENTS :: nat where "MAX_STATEMENTS = 400"

definition MAX_NESTING :: nat where "MAX_NESTING = 5"

definition MAX_EXECUTE_PROCESS :: nat where "MAX_EXECUTE_PROCESS = 10"

text \<open>\<open>_IF_OPEN.match\<close> and \<open>_BLOCK_CLOSE.match\<close>: a keyword at the start of the line, then \<open>stop\<close>.\<close>

definition opens_with :: "string list \<Rightarrow> char \<Rightarrow> string \<Rightarrow> bool" where
  "opens_with words stop line =
     (let s = dropWhile is_space line in
      list_ex (\<lambda>w. upper (take (length w) s) = w \<and>
                   (case dropWhile is_space (drop (length w) s) of [] \<Rightarrow> False | d # _ \<Rightarrow> d = stop)) words)"

fun nesting :: "nat \<Rightarrow> nat \<Rightarrow> string list \<Rightarrow> nat \<times> nat" where
  "nesting depth deepest [] = (depth, deepest)"
| "nesting depth deepest (line # ls) =
     (if opens_with [''IF'', ''WHILE''] (CHR ''('') line then nesting (depth + 1) (max deepest (depth + 1)) ls
      else if opens_with [''ENDIF'', ''END''] (CHR '';'') line then nesting (depth - 1) deepest ls
      else nesting depth deepest ls)"

record process_metrics =
  pm_lines :: nat
  pm_statements :: nat
  pm_loops :: nat
  pm_max_nesting :: nat
  pm_processes_called :: nat

definition complexity :: "process_record \<Rightarrow> process_metrics" where
  "complexity pr =
     (let codes = map (\<lambda>s. mask (or_else (map_of (pc_sections pr) s) [])) SECTIONS in
      \<lparr>pm_lines = sum_list (map (\<lambda>s. case map_of (pc_line_counts pr) s of None \<Rightarrow> 0 | Some n \<Rightarrow> n) SECTIONS),
       pm_statements = sum_list (map (\<lambda>code. length (filter (\<lambda>c. c = CHR '';'') code)) codes),
       pm_loops = sum_list (map (\<lambda>code. length (filter (\<lambda>(n, _). n = ''WHILE'') (sites (CHR ''('') 0 False code))) codes),
       pm_max_nesting = snd (nesting 0 0 (concat (map (lines_from []) codes))),
       pm_processes_called = card (processes_called pr)\<rparr>)"

record review_finding =
  rv_severity :: string
  rv_category :: string
  rv_section :: "string option"
  rv_line :: "nat option"

definition review_item :: "string \<Rightarrow> string \<Rightarrow> review_finding" where
  "review_item severity category = \<lparr>rv_severity = severity, rv_category = category, rv_section = None, rv_line = None\<rparr>"

definition line_uses :: "string \<Rightarrow> string \<Rightarrow> bool" where
  "line_uses f line =
     list_ex (\<lambda>(n, _). n = upper f) (sites (CHR ''('') 0 False (mask line) @ sites (CHR '';'') 0 False (mask line))"

definition first_line :: "process_record \<Rightarrow> string \<Rightarrow> string option \<times> nat option" where
  "first_line pr f =
     (case concat (map (\<lambda>s. map (\<lambda>(n, _). (s, n))
             (filter (\<lambda>(_, line). line_uses f line)
                (enumerate 1 (lines_from [] (or_else (map_of (pc_sections pr) s) []))))) SECTIONS) of
        [] \<Rightarrow> (None, None)
      | (s, n) # _ \<Rightarrow> (Some s, Some n))"

definition commented_code :: "string \<Rightarrow> bool" where
  "commented_code line =
     (let rstrip = (\<lambda>s. rev (dropWhile is_space (rev s))) in
      case dropWhile is_space line of
        [] \<Rightarrow> False
      | h # s \<Rightarrow>
          h = CHR ''#'' \<and>
          (case dropWhile is_space s of
             [] \<Rightarrow> False
           | c # t \<Rightarrow>
               is_alpha c \<and>
               (case dropWhile is_space (dropWhile is_word t) of
                  [] \<Rightarrow> False
                | p # r \<Rightarrow>
                    p = CHR ''('' \<and> rstrip r \<noteq> [] \<and> last (rstrip r) = CHR '';'' \<and>
                    rstrip (butlast (rstrip r)) \<noteq> [] \<and> last (rstrip (butlast (rstrip r))) = CHR '')'')))"

definition text_field :: "json \<Rightarrow> string \<Rightarrow> string" where
  "text_field item k = (case json_get item k of Some (JStr s) \<Rightarrow> s | _ \<Rightarrow> [])"

definition review_order :: "review_finding \<Rightarrow> nat \<times> string" where
  "review_order f =
     ((if rv_severity f = ''error'' then 0 else if rv_severity f = ''warning'' then 1
       else if rv_severity f = ''info'' then 2 else 3), rv_category f)"

definition when_found :: "bool \<Rightarrow> review_finding \<Rightarrow> review_finding list" where
  "when_found b f = (if b then [f] else [])"

definition review ::
  "tm1_function list \<Rightarrow> string option \<Rightarrow> process_record \<Rightarrow> json list \<Rightarrow> json list \<Rightarrow>
     (review_finding list \<times> process_metrics) result" where
  "review scraped version pr parameters variables =
     (let secs = map (\<lambda>s. (s, or_else (map_of (pc_sections pr) s) [])) SECTIONS;
          lint = analyze_draft \<lparr>td_tabs = secs, td_parameters = parameters, td_variables = variables,
                               td_datasource_type = None\<rparr> (Some (pc_datasource_type pr));
          metrics = complexity pr;
          names = filter (\<lambda>n. n \<noteq> []) (map (\<lambda>p. text_field p ''name'') parameters) in
      bind_result (validate_sections scraped version False secs) (\<lambda>issues.
      let findings =
        map (\<lambda>_. review_item ''error'' ''syntax'') lint @
        map (\<lambda>(s, i). (review_item ''error'' ''compatibility'')\<lparr>rv_section := Some s, rv_line := Some (fi_line i)\<rparr>) issues @
        concat (map (\<lambda>f. case map_of DANGEROUS_FUNCTIONS (upper f) of
                           None \<Rightarrow> []
                         | Some severity \<Rightarrow>
                             [(review_item severity ''danger'')\<lparr>rv_section := fst (first_line pr f), rv_line := snd (first_line pr f)\<rparr>])
                  (sort (map fst (pc_functions_used pr)))) @
        when_found (pm_statements metrics > MAX_STATEMENTS) (review_item ''info'' ''complexity'') @
        when_found (pm_max_nesting metrics > MAX_NESTING) (review_item ''info'' ''complexity'') @
        when_found (pm_processes_called metrics > MAX_EXECUTE_PROCESS) (review_item ''info'' ''complexity'') @
        when_found (cubes_written pr \<noteq> {} \<and> \<not> pc_uses_error_handling pr) (review_item ''warning'' ''maintainability'') @
        when_found (pc_temporary_objects pr \<noteq> [] \<and> \<not> pc_has_cleanup pr \<and> \<not> pc_uses_temporary_objects pr)
          (review_item ''info'' ''maintainability'') @
        when_found (10 \<le> length (filter commented_code (concat (map (\<lambda>(_, code). lines_from [] code) secs))))
          (review_item ''info'' ''maintainability'') @
        when_found ((case map_of (pc_line_counts pr) ''prolog'' of None \<Rightarrow> 0 | Some n \<Rightarrow> n) > 3 \<and> pc_header_comment pr = [])
          (review_item ''info'' ''documentation'') @
        when_found (list_ex (\<lambda>p. text_field p ''name'' \<noteq> [] \<and> strip (text_field p ''prompt'') = []) parameters)
          (review_item ''info'' ''documentation'') @
        when_found (1 < length (remdups (map (takeWhile (\<lambda>c. 97 \<le> chr_code c \<and> chr_code c \<le> 122)) names)) \<and>
              3 \<le> length parameters) (review_item ''info'' ''naming'')
      in Inr (sort_key review_order findings, metrics)))"

end
