(* ===== verification/TiCheckProperties.thy ===== *)
theory TiCheckProperties
  imports TiChecks
begin

text \<open>
  What the checks of TurboIntegrator code promise: the static analysis reports exactly the names a tab
  reads and nothing defines, the validation reports each wrong function once per kind, and two places
  where valid code is reported.
\<close>

section \<open>First spellings and unseen issues\<close>

lemma first_spellings_lower:
  "lower ` set (first_spellings seen ts) = lower ` set ts - set seen"
  by (induction seen ts rule: first_spellings.induct) auto

lemma first_spellings_once: "distinct (map lower (first_spellings seen ts))"
proof (induction seen ts rule: first_spellings.induct)
  case (2 seen t ts)
  moreover have "lower t \<notin> lower ` set (first_spellings (lower t # seen) ts)"
    by (simp add: first_spellings_lower)
  ultimately show ?case by auto
qed simp

lemma first_spellings_subset: "set (first_spellings seen ts) \<subseteq> set ts"
  by (induction seen ts rule: first_spellings.induct) auto

lemma unseen_kinds:
  assumes "\<forall>(k, i) \<in> set is. k = upper (fi_function i)"
  shows "(\<lambda>i. (upper (fi_function i), fi_kind i)) ` set (unseen seen is) =
    (\<lambda>(k, i). (k, fi_kind i)) ` set is - set seen"
  using assms by (induction seen "is" rule: unseen.induct) auto

lemma unseen_once:
  assumes "\<forall>(k, i) \<in> set is. k = upper (fi_function i)"
  shows "distinct (map (\<lambda>i. (upper (fi_function i), fi_kind i)) (unseen seen is))"
  using assms
proof (induction seen "is" rule: unseen.induct)
  case (2 seen k i "is")
  then have "(k, fi_kind i) \<notin> (\<lambda>i. (upper (fi_function i), fi_kind i)) ` set (unseen ((k, fi_kind i) # seen) is)"
    by (subst unseen_kinds) auto
  with 2 show ?case by auto
qed simp

lemma unseen_subset: "set (unseen seen is) \<subseteq> snd ` set is"
  by (induction seen "is" rule: unseen.induct) auto

section \<open>Names nothing defines\<close>

text \<open>
  What the analysis is to report: a bare name of a tab that its statement does not call, that is no
  reserved name and that the process neither declares nor assigns anywhere.
\<close>

definition reads_name :: "ti_draft \<Rightarrow> string \<Rightarrow> string \<Rightarrow> bool" where
  "reads_name d tab n \<longleftrightarrow>
     (\<exists>(t, st) \<in> set (draft_statements d). t = tab \<and> n \<notin> set (called_names st) \<and> n \<in> lower ` set (identifiers st))"

definition defines_name :: "ti_draft \<Rightarrow> string \<Rightarrow> bool" where
  "defines_name d n \<longleftrightarrow>
     n \<in> lower ` set (names_from (td_parameters d) @ names_from (td_variables d)) \<or>
     (\<exists>(_, st) \<in> set (draft_statements d). map_option lower (assigned_name st) = Some n)"

fun names_reported :: "string \<Rightarrow> lint_error \<Rightarrow> string list" where
  "names_reported tab (SourceColumns t ns) = (if t = tab then ns else [])"
| "names_reported tab (UndefinedNames t ns) = (if t = tab then ns else [])"
| "names_reported tab _ = []"

definition undefined_reported :: "lint_error list \<Rightarrow> string \<Rightarrow> string list" where
  "undefined_reported es tab = concat (map (names_reported tab) es)"

lemma known_names_iff: "n \<in> set (known_names d) \<longleftrightarrow> defines_name d n"
  by (force simp: known_names_def defines_name_def split: option.splits)

lemma undefined_in_iff:
  "n \<in> lower ` set (undefined_in known st) \<longleftrightarrow>
     n \<in> lower ` set (identifiers st) \<and> n \<notin> set (called_names st) \<and> n \<notin> set known \<and> n \<notin> set RESERVED_NAMES"
  by (auto simp: undefined_in_def)

definition tab_undefined :: "(string \<times> string) list \<Rightarrow> string list \<Rightarrow> string \<Rightarrow> string list" where
  "tab_undefined sts known tab =
     first_spellings [] (concat (map (\<lambda>(t, st). if t = tab then undefined_in known st else []) sts))"

lemma case_errors_report_none: "undefined_reported (case_errors names declared assigned) tab = []"
  by (auto simp: undefined_reported_def case_errors_def Let_def split: option.splits if_splits)

lemma concat_map_concat: "concat (map f (concat (map g xs))) = concat (map (\<lambda>x. concat (map f (g x))) xs)"
  by (induction xs) auto

lemma concat_of_one:
  "distinct xs \<Longrightarrow> concat (map (\<lambda>x. if x = y then zs else []) xs) = (if y \<in> set xs then zs else [])"
  by (induction xs) auto

lemma reported_of_tab:
  "concat (map (names_reported tab)
     (if fs = [] then [] else if b then [SourceColumns tab' (sort fs)] else [UndefinedNames tab' (sort fs)])) =
   (if tab' = tab then sort fs else [])"
  by simp

lemma undefined_errors_reported:
  "undefined_reported (undefined_errors sts known has_variables) tab =
     (if tab \<in> set SECTIONS then sort (tab_undefined sts known tab) else [])"
proof -
  have d: "distinct SECTIONS" by (simp add: SECTIONS_def)
  have e: "(if t = tab then sort (tab_undefined sts known t) else []) =
      (if t = tab then sort (tab_undefined sts known tab) else [])" for t
    by simp
  show ?thesis
    unfolding undefined_errors_def undefined_reported_def tab_undefined_def [symmetric] Let_def
      concat_map_concat reported_of_tab e concat_of_one [OF d] ..
qed

lemma analyze_reported:
  assumes "enumerable d dt"
  shows "undefined_reported (analyze_draft d dt) tab =
    (if tab \<in> set SECTIONS then sort (tab_undefined (draft_statements d) (known_names d) tab) else [])"
proof -
  have app: "undefined_reported (xs @ ys) tab = undefined_reported xs tab @ undefined_reported ys tab" for xs ys
    by (simp add: undefined_reported_def)
  show ?thesis
    using assms by (simp add: analyze_draft_def Let_def app undefined_errors_reported case_errors_report_none)
qed

lemma tab_undefined_iff:
  "n \<in> lower ` set (tab_undefined (draft_statements d) (known_names d) tab) \<longleftrightarrow>
     reads_name d tab n \<and> \<not> defines_name d n \<and> n \<notin> set RESERVED_NAMES"
proof -
  have one: "n \<in> lower ` set (if t = tab then undefined_in known st else []) \<longleftrightarrow>
      t = tab \<and> n \<in> lower ` set (undefined_in known st)" for t st known
    by (cases "t = tab") simp_all
  have "n \<in> lower ` set (tab_undefined (draft_statements d) (known_names d) tab) \<longleftrightarrow>
    (\<exists>p \<in> set (draft_statements d).
       n \<in> lower ` set (case p of (t, st) \<Rightarrow> if t = tab then undefined_in (known_names d) st else []))"
    unfolding tab_undefined_def first_spellings_lower set_concat set_map image_UN by simp
  also have "\<dots> \<longleftrightarrow>
    (\<exists>(t, st) \<in> set (draft_statements d). t = tab \<and> n \<in> lower ` set (undefined_in (known_names d) st))"
    unfolding case_prod_unfold one ..
  finally have "n \<in> lower ` set (tab_undefined (draft_statements d) (known_names d) tab) \<longleftrightarrow>
    (\<exists>(t, st) \<in> set (draft_statements d). t = tab \<and> n \<in> lower ` set (undefined_in (known_names d) st))" .
  then show ?thesis
    unfolding undefined_in_iff reads_name_def known_names_iff by blast
qed

text \<open>
  C29. Where the data source can be enumerated, the static analysis reports for a tab
  exactly the names it reads bare that are no call of their statement, no reserved name, not
  declared and not assigned anywhere in the process, each once, in order.
\<close>

theorem undefined_names_exact:
  assumes "enumerable d dt" and "tab \<in> set SECTIONS"
  shows "(\<forall>n. n \<in> lower ` set (undefined_reported (analyze_draft d dt) tab) \<longleftrightarrow>
             reads_name d tab n \<and> \<not> defines_name d n \<and> n \<notin> set RESERVED_NAMES) \<and>
         distinct (map lower (undefined_reported (analyze_draft d dt) tab)) \<and>
         sorted (undefined_reported (analyze_draft d dt) tab)"
proof -
  let ?u = "tab_undefined (draft_statements d) (known_names d) tab"
  have u: "undefined_reported (analyze_draft d dt) tab = sort ?u"
    using analyze_reported [OF assms(1)] assms(2) by simp
  have "distinct (map lower ?u)" by (simp add: tab_undefined_def first_spellings_once)
  then show ?thesis
    unfolding u using tab_undefined_iff [of _ d tab] by (simp add: distinct_map)
qed

definition demo_draft :: ti_draft where
  "demo_draft = \<lparr>td_tabs = [(''prolog'', ''sX = pCubeName;'')], td_parameters = [], td_variables = [],
                 td_datasource_type = None\<rparr>"

theorem undefined_names_exact_witness:
  "''pcubename'' \<in> lower ` set (undefined_reported (analyze_draft demo_draft None) ''prolog'')"
proof (rule iffD2 [OF spec [OF conjunct1 [OF undefined_names_exact]]])
  show "enumerable demo_draft None" "''prolog'' \<in> set SECTIONS" by code_simp+
  have "reads_name demo_draft ''prolog'' ''pcubename'' \<and> \<not> defines_name demo_draft ''pcubename''"
    by code_simp
  moreover have "''pcubename'' \<notin> set RESERVED_NAMES"
    by (simp add: RESERVED_NAMES_def lower_def lower_char_def)
  ultimately show "reads_name demo_draft ''prolog'' ''pcubename'' \<and> \<not> defines_name demo_draft ''pcubename'' \<and>
      ''pcubename'' \<notin> set RESERVED_NAMES"
    by blast
qed

section \<open>Issues of the function reference\<close>

text \<open>What is wrong with a call of a name: the function it is filed under and the kinds of its issues.\<close>

definition issue_of_call ::
  "tm1_function list \<Rightarrow> string \<Rightarrow> string option \<Rightarrow> bool \<Rightarrow> string \<Rightarrow> string \<Rightarrow> issue_kind \<Rightarrow> bool" where
  "issue_of_call scraped context version report_unknown n k kind \<longleftrightarrow>
     (case lookup_function scraped n of
        None \<Rightarrow> kind = UnknownFunction \<and> report_unknown \<and> upper n \<notin> set LANGUAGE_KEYWORDS \<and> k = upper n
      | Some f \<Rightarrow>
          k = upper (fn_name f) \<and>
          (kind = WrongContext \<and> context \<notin> set (fn_contexts f) \<or>
           kind = WrongVersion \<and> (\<exists>v. version = Some v \<and> v \<notin> set (fn_versions f))))"

lemma call_issues_iff:
  "(k, kind) \<in> (\<lambda>(k, i). (k, fi_kind i)) ` set (call_issues scraped context version ru (n, line)) \<longleftrightarrow>
     issue_of_call scraped context version ru n k kind"
  by (auto simp: call_issues_def issue_of_call_def image_iff split: option.splits)

lemma call_issues_filed:
  "\<forall>(k, i) \<in> set (call_issues scraped context version ru nl). k = upper (fi_function i) \<and> fi_line i = snd nl"
  by (cases nl) (auto simp: call_issues_def split: option.splits if_splits)

theorem functions_validated_exactly:
  assumes "context \<in> set VALID_CONTEXTS" and "\<forall>v. version = Some v \<longrightarrow> v \<in> set VALID_VERSIONS"
  shows "\<exists>issues. validate_code scraped context version ru code = Inr issues \<and>
           (\<forall>k kind. (k, kind) \<in> (\<lambda>i. (upper (fi_function i), fi_kind i)) ` set issues \<longleftrightarrow>
              (\<exists>(n, line) \<in> set (find_calls scraped code). issue_of_call scraped context version ru n k kind)) \<and>
           distinct (map (\<lambda>i. (upper (fi_function i), fi_kind i)) issues) \<and>
           (\<forall>i \<in> set issues. fi_line i \<in> snd ` set (find_calls scraped code))"
proof -
  let ?all = "concat (map (call_issues scraped context version ru) (find_calls scraped code))"
  have ok: "validate_code scraped context version ru code = Inr (unseen [] ?all)"
    using assms by (cases version) (auto simp: validate_code_def)
  have filed: "\<forall>(k, i) \<in> set ?all. k = upper (fi_function i)"
    using call_issues_filed by fastforce
  have "(k, kind) \<in> (\<lambda>i. (upper (fi_function i), fi_kind i)) ` set (unseen [] ?all) \<longleftrightarrow>
      (\<exists>(n, line) \<in> set (find_calls scraped code). issue_of_call scraped context version ru n k kind)" for k kind
  proof -
    have "(k, kind) \<in> (\<lambda>(k, i). (k, fi_kind i)) ` set (call_issues scraped context version ru nl) \<longleftrightarrow>
        (case nl of (n, line) \<Rightarrow> issue_of_call scraped context version ru n k kind)" for nl
      using call_issues_iff by (cases nl) simp
    then show ?thesis
      unfolding unseen_kinds [OF filed] set_concat set_map image_UN by simp
  qed
  moreover have "distinct (map (\<lambda>i. (upper (fi_function i), fi_kind i)) (unseen [] ?all))"
    by (rule unseen_once [OF filed])
  moreover have "\<forall>i \<in> set (unseen [] ?all). fi_line i \<in> snd ` set (find_calls scraped code)"
  proof
    fix i assume "i \<in> set (unseen [] ?all)"
    then obtain nl k where "nl \<in> set (find_calls scraped code)" "(k, i) \<in> set (call_issues scraped context version ru nl)"
      using subsetD [OF unseen_subset] by fastforce
    then show "fi_line i \<in> snd ` set (find_calls scraped code)"
      using call_issues_filed [of scraped "context" version ru nl] by auto
  qed
  ultimately show ?thesis using ok by blast
qed

definition saves_everything :: "tm1_function list" where
  "saves_everything = [\<lparr>fn_name = ''SaveDataAll'', fn_contexts = [''TI''], fn_versions = [''v11'']\<rparr>]"

theorem functions_validated_exactly_witness:
  "\<exists>issues. validate_code saves_everything ''TI'' (Some ''v12'') True ''SaveDataAll;'' = Inr issues \<and>
     (''SAVEDATAALL'', WrongVersion) \<in> (\<lambda>i. (upper (fi_function i), fi_kind i)) ` set issues"
proof -
  have "\<exists>(n, line) \<in> set (find_calls saves_everything ''SaveDataAll;'').
      issue_of_call saves_everything ''TI'' (Some ''v12'') True n ''SAVEDATAALL'' WrongVersion"
  proof (rule bexI)
    show "(''SaveDataAll'', 1) \<in> set (find_calls saves_everything ''SaveDataAll;'')" by code_simp
    have "lookup_function saves_everything ''SaveDataAll'' = Some (hd saves_everything)" by code_simp
    moreover have u: "upper ''SaveDataAll'' = ''SAVEDATAALL''" by code_simp
    ultimately show "case (''SaveDataAll'', 1 :: nat) of (n, line) \<Rightarrow>
        issue_of_call saves_everything ''TI'' (Some ''v12'') True n ''SAVEDATAALL'' WrongVersion"
      using u by (simp add: issue_of_call_def saves_everything_def)
  qed
  moreover have "''TI'' \<in> set VALID_CONTEXTS" "\<forall>v. Some ''v12'' = Some v \<longrightarrow> v \<in> set VALID_VERSIONS"
    by (simp_all add: VALID_CONTEXTS_def VALID_VERSIONS_def)
  ultimately show ?thesis
    using functions_validated_exactly [of "''TI''" "Some ''v12''" saves_everything True "''SaveDataAll;''"] by blast
qed

section \<open>Where the checks mislead\<close>

text \<open>
  The reference is extended so that valid code is not reported, with a context no caller asks for:
  TurboIntegrator code is validated as \<open>TI\<close>, the added function is filed under \<open>TurboIntegrator\<close>.
\<close>

lemma drill_function_reported_in_ti_code:
  "lookup_function scraped ''ReturnViewHandle'' = Some (hd MISSING_FUNCTIONS) \<and>
   issue_of_call scraped ''TI'' version ru ''ReturnViewHandle'' ''RETURNVIEWHANDLE'' WrongContext"
proof -
  have u: "upper (strip ''ReturnViewHandle'') = ''RETURNVIEWHANDLE''" "upper ''ReturnViewHandle'' = ''RETURNVIEWHANDLE''"
    by code_simp+
  have l: "lookup_function scraped ''ReturnViewHandle'' = Some (hd MISSING_FUNCTIONS)"
    by (simp add: lookup_function_def function_library_def u MISSING_FUNCTIONS_def)
  then show ?thesis by (simp add: issue_of_call_def MISSING_FUNCTIONS_def u)
qed

text \<open>A block written on one line opens and is never seen to close, so flat code looks deeply nested.\<close>

lemma one_line_ifs_counted_as_nesting:
  "nesting depth deepest (replicate n ''IF( a = 1 ); b = 1; ENDIF;'') = (depth + n, if n = 0 then deepest else max deepest (depth + n))"
proof (induction n arbitrary: depth deepest)
  case (Suc n)
  have "opens_with [''IF'', ''WHILE''] (CHR ''('') ''IF( a = 1 ); b = 1; ENDIF;''" by code_simp
  then show ?case using Suc by auto
qed simp

end
