(* ===== verification/HealthScore.thy ===== *)
theory HealthScore
  imports CubeRules TiChecks Monitoring Connections
begin

text \<open>
  The health of a model: the audits of every cube's rules and every process
  (\<open>ai/tools/tm1/health.py\<close>), the performance report over the run history
  (\<open>tm1/health/performance.py\<close>) and the score (\<open>tm1/health/score.py\<close>). Reasons, summaries and other
  texts are left out; an evidence line is the object it names and its number. The server's answers
  are functions, floats are exact rationals; a connection belongs to one organization, so rows are
  looked up by connection.
\<close>

section \<open>Rules and processes\<close>

definition MAX_CUBES :: nat where "MAX_CUBES = 40"

definition MAX_PROCESSES :: nat where "MAX_PROCESSES = 60"

definition MAX_FINDINGS_PER_OBJECT :: nat where "MAX_FINDINGS_PER_OBJECT = 10"

record model_server =
  ms_cubes_with_rules :: "string list result"
  ms_cube_rules :: "string \<Rightarrow> string option result"
  ms_processes :: "string list result"
  ms_process :: "string \<Rightarrow> process_info result"

record cube_audit =
  ca_cube :: string
  ca_critical :: nat
  ca_warning :: nat
  ca_error :: "exn option"
  ca_findings :: "rule_finding list"

record process_audit =
  px_process :: string
  px_errors :: nat
  px_finding_count :: nat
  px_error :: "exn option"
  px_complexity :: "process_metrics option"
  px_findings :: "review_finding list"

record 'a audit =
  au_analysed :: nat
  au_truncated :: bool
  au_items :: "'a list"

definition audit_cube :: "model_server \<Rightarrow> string \<Rightarrow> cube_audit option" where
  "audit_cube ms cube =
     (case ms_cube_rules ms cube of
        Inl e \<Rightarrow> Some \<lparr>ca_cube = cube, ca_critical = 0, ca_warning = 0, ca_error = Some e, ca_findings = []\<rparr>
      | Inr rules \<Rightarrow>
          if rules = None \<or> rules = Some [] then None
          else
            (let report = analyze_rules rules in
             if rr_findings report = [] then None
             else Some \<lparr>ca_cube = cube, ca_critical = rr_critical report, ca_warning = rr_warning report,
                        ca_error = None, ca_findings = take MAX_FINDINGS_PER_OBJECT (rr_findings report)\<rparr>))"

definition cube_order :: "cube_audit \<Rightarrow> int \<times> int \<times> string" where
  "cube_order c = (- int (ca_critical c), - int (ca_warning c), ca_cube c)"

definition audit_rules :: "model_server \<Rightarrow> cube_audit audit result" where
  "audit_rules ms =
     bind_result (ms_cubes_with_rules ms) (\<lambda>all.
     let names = take MAX_CUBES all in
     Inr \<lparr>au_analysed = length names, au_truncated = MAX_CUBES < length all,
          au_items = sort_key cube_order (List.map_filter (audit_cube ms) names)\<rparr>)"

definition audit_process ::
  "tm1_function list \<Rightarrow> (string \<Rightarrow> bool) \<Rightarrow> string option \<Rightarrow> model_server \<Rightarrow> string \<Rightarrow> process_audit option result" where
  "audit_process scraped known version ms name =
     (case ms_process ms name of
        Inl e \<Rightarrow>
          Inr (Some \<lparr>px_process = name, px_errors = 1, px_finding_count = 1, px_error = Some e, px_complexity = None,
                     px_findings = [review_item ''error'' ''access'']\<rparr>)
      | Inr info \<Rightarrow>
          bind_result (review scraped version (parse_process_code known info) (pi_parameters info) (pi_variables info))
            (\<lambda>(findings, metrics).
             Inr (if findings = [] then None
                  else Some \<lparr>px_process = name, px_errors = length (filter (\<lambda>f. rv_severity f = ''error'') findings),
                             px_finding_count = length findings, px_error = None, px_complexity = Some metrics,
                             px_findings = take MAX_FINDINGS_PER_OBJECT findings\<rparr>)))"

text \<open>\<open>asyncio.gather\<close>: every result in order, or the first exception.\<close>

fun gather :: "('a \<Rightarrow> 'b option result) \<Rightarrow> 'a list \<Rightarrow> 'b list result" where
  "gather f [] = Inr []"
| "gather f (x # xs) =
     bind_result (f x) (\<lambda>r. bind_result (gather f xs) (\<lambda>rs. Inr (case r of None \<Rightarrow> rs | Some y \<Rightarrow> y # rs)))"

definition process_order :: "process_audit \<Rightarrow> int \<times> int \<times> string" where
  "process_order p = (- int (px_errors p), - int (px_finding_count p), px_process p)"

definition audit_processes ::
  "tm1_function list \<Rightarrow> (string \<Rightarrow> bool) \<Rightarrow> string option \<Rightarrow> model_server \<Rightarrow> process_audit audit result" where
  "audit_processes scraped known version ms =
     bind_result (ms_processes ms) (\<lambda>all.
     let names = take MAX_PROCESSES all in
     bind_result (gather (audit_process scraped known version ms) names) (\<lambda>results.
     Inr \<lparr>au_analysed = length names, au_truncated = MAX_PROCESSES < length all,
          au_items = sort_key process_order results\<rparr>))"

definition empty_process_report :: "process_audit audit" where
  "empty_process_report = \<lparr>au_analysed = 0, au_truncated = False, au_items = []\<rparr>"

datatype verdict = CriticalRules nat | ProcessErrors nat | WorthReviewing nat nat | NoFindings

definition verdict_of :: "nat \<Rightarrow> nat \<Rightarrow> nat \<Rightarrow> nat \<Rightarrow> verdict" where
  "verdict_of critical warnings process_errors process_issues =
     (if critical \<noteq> 0 then CriticalRules critical
      else if process_errors \<noteq> 0 then ProcessErrors process_errors
      else if warnings \<noteq> 0 \<or> process_issues \<noteq> 0 then WorthReviewing warnings process_issues
      else NoFindings)"

record health_check =
  hc_verdict :: verdict
  hc_critical :: nat
  hc_warnings :: nat
  hc_process_issues :: nat
  hc_process_errors :: nat
  hc_target_version :: "string option"
  hc_cubes :: "cube_audit audit"
  hc_processes :: "process_audit audit"

text \<open>\<open>RunModelHealthCheckTool.execute\<close> after its connection was opened.\<close>

definition run_model_health_check ::
  "tm1_function list \<Rightarrow> (string \<Rightarrow> bool) \<Rightarrow> bool \<Rightarrow> string option \<Rightarrow> model_server \<Rightarrow> health_check result" where
  "run_model_health_check scraped known include_processes target_version ms =
     (let version = (if target_version \<in> {Some ''v11'', Some ''v12''} then target_version else None) in
      bind_result (audit_rules ms) (\<lambda>cubes.
      bind_result (if include_processes then audit_processes scraped known version ms
                   else Inr empty_process_report) (\<lambda>processes.
      let critical = sum_list (map ca_critical (au_items cubes));
          warnings = sum_list (map ca_warning (au_items cubes));
          issues = sum_list (map px_finding_count (au_items processes));
          errors = sum_list (map px_errors (au_items processes)) in
      Inr \<lparr>hc_verdict = verdict_of critical warnings errors issues, hc_critical = critical,
           hc_warnings = warnings, hc_process_issues = issues, hc_process_errors = errors,
           hc_target_version = version, hc_cubes = cubes, hc_processes = processes\<rparr>)))"

section \<open>The performance report\<close>

definition WINDOW_DAYS :: int where "WINDOW_DAYS = 30"

definition REGRESSION_FACTOR :: rat where "REGRESSION_FACTOR = 2"

definition MIN_EXTRA_SECONDS :: rat where "MIN_EXTRA_SECONDS = 30"

text \<open>\<open>statistics.median\<close> of a non-empty list.\<close>

definition median :: "rat list \<Rightarrow> rat" where
  "median xs =
     (let s = sort xs; n = length s in
      if odd n then s ! (n div 2) else (s ! (n div 2 - 1) + s ! (n div 2)) / 2)"

definition round_to_tenth :: "rat \<Rightarrow> rat" where
  "round_to_tenth x = of_int (round_half_even (x * 10)) / 10"

record regression =
  re_process :: string
  re_usual_seconds :: rat
  re_latest_seconds :: rat
  re_latest_at :: time
  re_increase_percent :: int
  re_based_on_runs :: nat

record typical_time =
  ty_process :: string
  ty_median_seconds :: rat
  ty_runs :: nat

record failed_process =
  fp_process :: string
  fp_failed_runs :: nat
  fp_last_failed_at :: time
  fp_outcome :: string

record performance_report =
  pf_runs_known :: nat
  pf_processes_seen :: nat
  pf_regressions :: "regression list"
  pf_slowest :: "typical_time list"
  pf_failures :: "failed_process list"

definition runs_in_window :: "time \<Rightarrow> uuid \<Rightarrow> process_run list \<Rightarrow> process_run list" where
  "runs_in_window now conn runs =
     sort_key pr_finished_at
       (filter (\<lambda>r. pr_connection_id r = conn \<and> now - seconds (WINDOW_DAYS * 86400) \<le> pr_finished_at r) runs)"

text \<open>The timed runs of a process with their times, oldest first.\<close>

definition timed_runs :: "process_run list \<Rightarrow> (process_run \<times> rat) list" where
  "timed_runs runs = List.map_filter (\<lambda>r. map_option (Pair r) (pr_elapsed_seconds r)) runs"

definition regression_of :: "string \<Rightarrow> process_run list \<Rightarrow> regression list" where
  "regression_of name runs =
     (let timed = timed_runs runs in
      if MIN_PREVIOUS_RUNS < length timed then
        (let (latest, t) = last timed; m = median (map snd (butlast timed)) in
         if 0 < m \<and> REGRESSION_FACTOR * m < t \<and> MIN_EXTRA_SECONDS \<le> t - m
         then [\<lparr>re_process = name, re_usual_seconds = round_to_tenth m, re_latest_seconds = round_to_tenth t,
                re_latest_at = pr_finished_at latest,
                re_increase_percent = round_half_even ((t - m) / m * 100),
                re_based_on_runs = length timed - 1\<rparr>]
         else [])
      else [])"

definition typical_of :: "string \<Rightarrow> process_run list \<Rightarrow> typical_time list" where
  "typical_of name runs =
     (let timed = timed_runs runs in
      if timed = [] then []
      else [\<lparr>ty_process = name, ty_median_seconds = round_to_tenth (median (map snd timed)),
             ty_runs = length timed\<rparr>])"

definition failures_of :: "time \<Rightarrow> string \<Rightarrow> process_run list \<Rightarrow> failed_process list" where
  "failures_of now name runs =
     (let failed = filter (\<lambda>r. now - seconds (7 * 86400) \<le> pr_finished_at r \<and>
                              pr_outcome r \<in> {''aborted'', ''completed_with_errors''}) runs in
      if failed = [] then []
      else [\<lparr>fp_process = name, fp_failed_runs = length failed, fp_last_failed_at = pr_finished_at (last failed),
             fp_outcome = pr_outcome (last failed)\<rparr>])"

definition performance_report_of :: "time \<Rightarrow> uuid \<Rightarrow> process_run list \<Rightarrow> performance_report" where
  "performance_report_of now conn runs =
     (let rows = runs_in_window now conn runs;
          names = rev (remdups (rev (map pr_process_name rows)));
          of_process = (\<lambda>name. filter (\<lambda>r. pr_process_name r = name) rows) in
      \<lparr>pf_runs_known = length rows, pf_processes_seen = length names,
       pf_regressions = sort_key (\<lambda>r. - re_increase_percent r)
         (concat (map (\<lambda>name. regression_of name (of_process name)) names)),
       pf_slowest = take 10 (sort_key (\<lambda>t. - ty_median_seconds t)
         (concat (map (\<lambda>name. typical_of name (of_process name)) names))),
       pf_failures = sort_key (\<lambda>f. - int (fp_failed_runs f))
         (concat (map (\<lambda>name. failures_of now name (of_process name)) names))\<rparr>)"

section \<open>The score\<close>

text \<open>\<open>CATEGORIES\<close>: the key, the points per item and the cap.\<close>

definition CATEGORIES :: "(string \<times> rat \<times> rat) list" where
  "CATEGORIES =
     [(''critical_rule_findings'', 10, 40), (''process_errors'', 5, 25), (''rule_warnings'', 2, 15),
      (''regressions'', 3, 15), (''failed_processes'', 2, 10), (''process_issues'', 1 / 2, 10),
      (''unused_objects'', 1 / 2, 5)]"

definition MAX_EVIDENCE :: nat where "MAX_EVIDENCE = 15"

definition MAX_STORED_FINDINGS :: nat where "MAX_STORED_FINDINGS = 25"

fun grade_from :: "(int \<times> string) list \<Rightarrow> int \<Rightarrow> string" where
  "grade_from [] score = ''F''"
| "grade_from ((threshold, letter) # gs) score = (if threshold \<le> score then letter else grade_from gs score)"

definition grade :: "int \<Rightarrow> string" where
  "grade score = grade_from [(90, ''A''), (75, ''B''), (60, ''C''), (40, ''D'')] score"

type_synonym evidence = "string \<times> string \<times> int"

record deduction =
  de_category :: string
  de_count :: nat
  de_points :: rat
  de_points_each :: rat
  de_cap :: rat
  de_evidence :: "evidence list"

definition count_in :: "(string \<times> nat) list \<Rightarrow> string \<Rightarrow> nat" where
  "count_in counts key = (case map_of counts key of None \<Rightarrow> 0 | Some n \<Rightarrow> n)"

definition points_for :: "nat \<Rightarrow> rat \<Rightarrow> rat \<Rightarrow> rat" where
  "points_for count each cap = min (of_nat count * each) cap"

definition compute_score ::
  "(string \<times> nat) list \<Rightarrow> (string \<times> evidence list) list \<Rightarrow> int \<times> deduction list" where
  "compute_score counts evidence =
     (let total = sum_list (map (\<lambda>(key, each, cap). points_for (count_in counts key) each cap) CATEGORIES) in
      (max 0 (round_half_even (100 - total)),
       map (\<lambda>(key, each, cap).
              \<lparr>de_category = key, de_count = count_in counts key,
               de_points = round_to_tenth (points_for (count_in counts key) each cap),
               de_points_each = each, de_cap = cap,
               de_evidence = take MAX_EVIDENCE (case map_of evidence key of None \<Rightarrow> [] | Some es \<Rightarrow> es)\<rparr>) CATEGORIES))"

section \<open>A scan\<close>

record health_scan =
  sc_id :: uuid
  sc_connection_id :: uuid
  sc_organization_id :: uuid
  sc_trigger :: string
  sc_scanned_at :: time
  sc_score :: int
  sc_grade :: string
  sc_deductions :: "deduction list"
  sc_counts :: "(string \<times> nat) list"
  sc_cubes_analysed :: nat
  sc_processes_analysed :: nat
  sc_runs_known :: nat
  sc_no_map :: bool
  sc_truncated :: bool
  sc_rules :: "cube_audit list"
  sc_processes :: "process_audit list"

definition issues_of :: "process_audit \<Rightarrow> nat" where
  "issues_of p = px_finding_count p - px_errors p"

definition scan_counts ::
  "cube_audit list \<Rightarrow> process_audit list \<Rightarrow> (string \<times> string) list \<Rightarrow> performance_report \<Rightarrow> (string \<times> nat) list" where
  "scan_counts cubes processes unused perf =
     [(''critical_rule_findings'', sum_list (map ca_critical cubes)),
      (''rule_warnings'', sum_list (map ca_warning cubes)),
      (''process_errors'', sum_list (map px_errors processes)),
      (''process_issues'', sum_list (map issues_of processes)),
      (''unused_objects'', length unused),
      (''failed_processes'', length (pf_failures perf)),
      (''regressions'', length (pf_regressions perf))]"

definition scan_evidence ::
  "cube_audit list \<Rightarrow> process_audit list \<Rightarrow> (string \<times> string) list \<Rightarrow> performance_report \<Rightarrow>
     (string \<times> evidence list) list" where
  "scan_evidence cubes processes unused perf =
     [(''critical_rule_findings'',
       map (\<lambda>c. (''cube'', ca_cube c, int (ca_critical c))) (filter (\<lambda>c. ca_critical c \<noteq> 0) cubes)),
      (''rule_warnings'',
       map (\<lambda>c. (''cube'', ca_cube c, int (ca_warning c))) (filter (\<lambda>c. ca_warning c \<noteq> 0) cubes)),
      (''process_errors'',
       map (\<lambda>p. (''process'', px_process p, int (px_errors p))) (filter (\<lambda>p. px_errors p \<noteq> 0) processes)),
      (''process_issues'',
       map (\<lambda>p. (''process'', px_process p, int (issues_of p))) (filter (\<lambda>p. 0 < issues_of p) processes)),
      (''unused_objects'', map (\<lambda>(ty, name). (ty, name, 1)) unused),
      (''failed_processes'', map (\<lambda>f. (''process'', fp_process f, int (fp_failed_runs f))) (pf_failures perf)),
      (''regressions'', map (\<lambda>r. (''process'', re_process r, re_increase_percent r)) (pf_regressions perf))]"

record health_db =
  hd_monitor :: monitor_db
  hd_graph :: graph
  hd_scans :: "health_scan list"

text \<open>\<open>tm1_integration_service.connect\<close>: the connection within the organization, and its client.\<close>

definition client_for ::
  "'e surrounds_scheme \<Rightarrow> accounts \<Rightarrow> ('w, 'c) opener \<Rightarrow> uuid \<Rightarrow> uuid \<Rightarrow> uuid option \<Rightarrow>
     'c tm1_state \<times> 'w \<Rightarrow> ('c tm1_state \<times> 'w) \<times> (tm1_connection \<times> 'c) result" where
  "client_for sr a opened i org who = (\<lambda>(st, w).
     case get_connection a (ts_connections st) i org Use who of
       Inl e \<Rightarrow> ((st, w), Inl e)
     | Inr c \<Rightarrow> (case get_client sr opened c (st, w) of (stw, r) \<Rightarrow> (stw, map_sum id (Pair c) r)))"

text \<open>
  What is scored, and the scan made of it; \<open>surroundings\<close> are the function reference, the
  functions the parser knows, and what a client's guarded read calls answer.
\<close>

record ('c, 'w) surroundings =
  sd_functions :: "tm1_function list"
  sd_known :: "string \<Rightarrow> bool"
  sd_reads :: "'c \<Rightarrow> 'w \<Rightarrow> model_server"
  sd_logs :: "'c \<Rightarrow> 'w \<Rightarrow> server"

definition scan_of ::
  "uuid \<Rightarrow> uuid \<Rightarrow> uuid \<Rightarrow> string \<Rightarrow> time \<Rightarrow> graph \<Rightarrow> performance_report \<Rightarrow> cube_audit audit \<Rightarrow>
     process_audit audit \<Rightarrow> health_scan" where
  "scan_of new_id conn org trigger now g perf cubes processes =
     (let no_map = (list_objects g conn None = []);
          unused = (if no_map then [] else find_unused_objects g conn org None);
          counts = scan_counts (au_items cubes) (au_items processes) unused perf;
          (score, deductions) = compute_score counts (scan_evidence (au_items cubes) (au_items processes) unused perf) in
      \<lparr>sc_id = new_id, sc_connection_id = conn, sc_organization_id = org, sc_trigger = trigger, sc_scanned_at = now,
       sc_score = score, sc_grade = grade score, sc_deductions = deductions, sc_counts = counts,
       sc_cubes_analysed = au_analysed cubes, sc_processes_analysed = au_analysed processes,
       sc_runs_known = pf_runs_known perf, sc_no_map = no_map,
       sc_truncated = (au_truncated cubes \<or> au_truncated processes),
       sc_rules = take MAX_STORED_FINDINGS (au_items cubes),
       sc_processes = take MAX_STORED_FINDINGS (au_items processes)\<rparr>)"

definition run_health_scan ::
  "('c, 'w) surroundings \<Rightarrow> 'e surrounds_scheme \<Rightarrow> accounts \<Rightarrow> ('w, 'c) opener \<Rightarrow> uuid option \<Rightarrow> uuid \<Rightarrow> time \<Rightarrow>
     string \<Rightarrow> uuid \<Rightarrow> uuid \<Rightarrow> ('c tm1_state \<times> 'w) \<times> health_db \<Rightarrow>
     (('c tm1_state \<times> 'w) \<times> health_db) \<times> (health_scan \<times> performance_report) result" where
  "run_health_scan sd sr a opened who new_id now trigger i org = (\<lambda>(stw, d).
     case client_for sr a opened i org who stw of
       (stw', Inl e) \<Rightarrow> ((stw', d), Inl e)
     | (stw', Inr (c, client)) \<Rightarrow>
         (case collect_runs (sd_logs sd client (snd stw')) (cn_id c) (hd_monitor d) of
            Inl e \<Rightarrow> ((stw', d), Inl e)
          | Inr mo \<Rightarrow>
              (let d1 = d\<lparr>hd_monitor := mo\<rparr>;
                   perf = performance_report_of now (cn_id c) (mo_runs mo);
                   ms = sd_reads sd client (snd stw') in
               case bind_result (audit_rules ms) (\<lambda>cubes.
                    bind_result (audit_processes (sd_functions sd) (sd_known sd) None ms) (\<lambda>processes.
                    Inr (scan_of new_id (cn_id c) org trigger now (hd_graph d1) perf cubes processes))) of
                 Inl e \<Rightarrow> ((stw', d1), Inl e)
               | Inr scan \<Rightarrow> ((stw', d1\<lparr>hd_scans := hd_scans d1 @ [scan]\<rparr>), Inr (scan, perf)))))"

definition recent_scans :: "nat \<Rightarrow> uuid \<Rightarrow> uuid \<Rightarrow> health_db \<Rightarrow> health_scan list" where
  "recent_scans n conn org d =
     take n (sort_key (\<lambda>s. - sc_scanned_at s)
       (filter (\<lambda>s. sc_connection_id s = conn \<and> sc_organization_id s = org) (hd_scans d)))"

section \<open>The scheduled pass\<close>

definition SCAN_START_BUDGET_SECONDS :: int where "SCAN_START_BUDGET_SECONDS = 150"

definition SCAN_MIN_AGE_HOURS :: int where "SCAN_MIN_AGE_HOURS = 20"

definition last_scanned :: "uuid \<Rightarrow> health_scan list \<Rightarrow> time option" where
  "last_scanned conn scans =
     (case map sc_scanned_at (filter (\<lambda>s. sc_connection_id s = conn) scans) of
        [] \<Rightarrow> None
      | t # ts \<Rightarrow> Some (fold max ts t))"

definition due_scans :: "'c tm1_state \<Rightarrow> health_scan list \<Rightarrow> (tm1_connection \<times> time) list" where
  "due_scans st scans =
     sort_key snd (List.map_filter (\<lambda>c. map_option (Pair c) (last_scanned (cn_id c) scans))
       (filter tm_is_active (ts_connections st)))"

record scan_pass =
  sp_scanned :: nat
  sp_failed :: nat
  sp_deferred :: nat

text \<open>
  \<open>elapsed\<close> is \<open>time.monotonic() - started\<close> where the loop reads it for a connection, \<open>scan\<close> one
  scan in a transaction of its own, with the time it starts at.
\<close>

fun scan_each ::
  "(uuid \<Rightarrow> time) \<Rightarrow> time \<Rightarrow> (uuid \<Rightarrow> uuid \<Rightarrow> 's \<Rightarrow> 's \<times> 'a result) \<Rightarrow> (tm1_connection \<times> time) list \<Rightarrow>
     's \<times> scan_pass \<Rightarrow> 's \<times> scan_pass" where
  "scan_each elapsed cutoff scan [] sp = sp"
| "scan_each elapsed cutoff scan ((c, scanned_at) # due) (s, p) =
     (if cutoff < scanned_at then scan_each elapsed cutoff scan due (s, p)
      else if seconds SCAN_START_BUDGET_SECONDS < elapsed (cn_id c)
      then scan_each elapsed cutoff scan due (s, p\<lparr>sp_deferred := sp_deferred p + 1\<rparr>)
      else
        (case scan (cn_id c) (cn_organization_id c) s of
           (s', Inr _) \<Rightarrow> scan_each elapsed cutoff scan due (s', p\<lparr>sp_scanned := sp_scanned p + 1\<rparr>)
         | (s', Inl _) \<Rightarrow> scan_each elapsed cutoff scan due (s', p\<lparr>sp_failed := sp_failed p + 1\<rparr>)))"

text \<open>A scan in its own session: what it wrote is dropped when it raises.\<close>

definition scan_in_session ::
  "('c, 'w) surroundings \<Rightarrow> 'e surrounds_scheme \<Rightarrow> accounts \<Rightarrow> ('w, 'c) opener \<Rightarrow> (uuid \<Rightarrow> uuid) \<Rightarrow> (uuid \<Rightarrow> time) \<Rightarrow>
     uuid \<Rightarrow> uuid \<Rightarrow> ('c tm1_state \<times> 'w) \<times> health_db \<Rightarrow>
     (('c tm1_state \<times> 'w) \<times> health_db) \<times> (health_scan \<times> performance_report) result" where
  "scan_in_session sd sr a opened new_id clock i org s =
     (case run_health_scan sd sr a opened None (new_id i) (clock i) ''schedule'' i org s of
        ((stw, d'), Inr x) \<Rightarrow> ((stw, d'), Inr x)
      | ((stw, d'), Inl e) \<Rightarrow> ((stw, snd s), Inl e))"

definition scan_due_connections ::
  "('c, 'w) surroundings \<Rightarrow> 'e surrounds_scheme \<Rightarrow> accounts \<Rightarrow> ('w, 'c) opener \<Rightarrow> (uuid \<Rightarrow> uuid) \<Rightarrow> (uuid \<Rightarrow> time) \<Rightarrow>
     (uuid \<Rightarrow> time) \<Rightarrow> time \<Rightarrow> ('c tm1_state \<times> 'w) \<times> health_db \<Rightarrow>
     (('c tm1_state \<times> 'w) \<times> health_db) \<times> scan_pass" where
  "scan_due_connections sd sr a opened new_id clock elapsed now s =
     scan_each elapsed (now - seconds (SCAN_MIN_AGE_HOURS * 3600)) (scan_in_session sd sr a opened new_id clock)
       (due_scans (fst (fst s)) (hd_scans (snd s))) (s, \<lparr>sp_scanned = 0, sp_failed = 0, sp_deferred = 0\<rparr>)"

end
