(* ===== verification/HealthProperties.thy ===== *)
theory HealthProperties
  imports HealthScore ConnectionProperties "HOL-Library.Sublist"
begin

text \<open>
  What the health of a model promises: the score lies between 0 and 100, falls only when something
  is found, and every point taken off names what cost it (\<open>culprit\<close>); one outlier among the earlier runs
  neither hides nor fakes a regression, unless the others took no time at all; the scheduled pass scans only connections that were scanned before
  and are due, each once. Rules that cannot be read go unnoticed.
\<close>

section \<open>The median and one outlier\<close>

lemma length_filter_sort: "length (filter P (sort xs)) = length (filter P xs)"
  by (simp add: filter_sort)

lemma few_outside:
  assumes "\<And>j. j < length xs \<Longrightarrow> j \<noteq> i \<Longrightarrow> \<not> P (xs ! j)"
  shows "length (filter P xs) \<le> 1"
proof -
  have "{j. j < length xs \<and> P (xs ! j)} \<subseteq> {i}" using assms by auto
  then have "card {j. j < length xs \<and> P (xs ! j)} \<le> card {i}" by (rule card_mono [rotated]) simp
  then show ?thesis by (simp add: length_filter_conv_card)
qed

lemma two_inside:
  assumes "a < b" "b < length s" "P (s ! a)" "P (s ! b)"
  shows "2 \<le> length (filter P s)"
proof -
  have "{a, b} \<subseteq> {j. j < length s \<and> P (s ! j)}" using assms by auto
  then have "card {a, b} \<le> card {j. j < length s \<and> P (s ! j)}" by (rule card_mono [rotated]) simp
  then show ?thesis using assms(1) by (simp add: length_filter_conv_card)
qed

lemma middle_within:
  assumes "3 \<le> length xs" "\<And>j. j < length xs \<Longrightarrow> j \<noteq> i \<Longrightarrow> lo \<le> xs ! j \<and> xs ! j \<le> hi"
    and "1 \<le> k" "k \<le> length xs - 2"
  shows "lo \<le> sort xs ! k \<and> sort xs ! k \<le> hi"
proof -
  let ?s = "sort xs"
  have len: "length ?s = length xs" by simp
  have le: "?s ! a \<le> ?s ! b" if "a \<le> b" "b < length xs" for a b
    using that by (simp add: sorted_nth_mono)
  have "\<not> ?s ! 1 < lo"
  proof
    assume l: "?s ! 1 < lo"
    then have "?s ! 0 < lo" using le [of 0 1] assms(1) by simp
    then have "2 \<le> length (filter (\<lambda>x. x < lo) ?s)"
      using two_inside [of 0 1 ?s "\<lambda>x. x < lo"] l assms(1) by simp
    moreover have "length (filter (\<lambda>x. x < lo) xs) \<le> 1"
      by (rule few_outside [of _ i]) (use assms(2) in \<open>simp add: not_less\<close>)
    ultimately show False by (simp add: length_filter_sort)
  qed
  moreover have "\<not> hi < ?s ! (length xs - 2)"
  proof
    assume h: "hi < ?s ! (length xs - 2)"
    also have "\<dots> \<le> ?s ! (length xs - 1)" using le [of "length xs - 2" "length xs - 1"] assms(1) by linarith
    finally have "hi < ?s ! (length xs - 1)" .
    then have "2 \<le> length (filter (\<lambda>x. hi < x) ?s)"
      using two_inside [of "length xs - 2" "length xs - 1" ?s "\<lambda>x. hi < x"] h assms(1) by simp
    moreover have "length (filter (\<lambda>x. hi < x) xs) \<le> 1"
      by (rule few_outside [of _ i]) (use assms(2) in \<open>simp add: not_less\<close>)
    ultimately show False by (simp add: length_filter_sort)
  qed
  moreover have "?s ! 1 \<le> ?s ! k" "?s ! k \<le> ?s ! (length xs - 2)"
    using le [of 1 k] le [of k "length xs - 2"] assms(1,3,4) by simp_all
  ultimately show ?thesis by (auto simp: not_less intro: order.trans)
qed

lemma median_within:
  assumes "3 \<le> length xs" "\<And>j. j < length xs \<Longrightarrow> j \<noteq> i \<Longrightarrow> lo \<le> xs ! j \<and> xs ! j \<le> hi"
  shows "lo \<le> median xs \<and> median xs \<le> hi"
proof -
  have m: "lo \<le> sort xs ! k \<and> sort xs ! k \<le> hi" if "1 \<le> k" "k \<le> length xs - 2" for k
    using assms that by (rule middle_within)
  show ?thesis
  proof (cases "odd (length xs)")
    case True
    have "1 \<le> length xs div 2" "length xs div 2 \<le> length xs - 2" using assms(1) by simp_all
    then show ?thesis unfolding median_def Let_def length_sort using True m by simp
  next
    case False
    then have "4 \<le> length xs" using assms(1) by (cases "length xs = 3") auto
    then have "lo \<le> sort xs ! (length xs div 2 - 1) \<and> sort xs ! (length xs div 2 - 1) \<le> hi"
      "lo \<le> sort xs ! (length xs div 2) \<and> sort xs ! (length xs div 2) \<le> hi"
      by (simp_all add: m)
    then show ?thesis unfolding median_def Let_def length_sort using False by simp
  qed
qed

text \<open>
  C40. With at least three earlier timed runs, one of them of any length whatever, a newest
  run of at most twice the fastest of the others is never reported as a regression, and one
  more than twice and at least thirty seconds slower than the slowest of them always is,
  provided each of the others took some time. When the others took none, no newest run is
  ever reported, however slow.
\<close>

theorem one_outlier_decides_nothing:
  assumes "timed_runs runs = earlier @ [(latest, t)]" "3 \<le> length earlier" "i < length earlier"
    and "\<forall>j < length earlier. j \<noteq> i \<longrightarrow> lo \<le> snd (earlier ! j) \<and> snd (earlier ! j) \<le> hi"
  shows "(t \<le> 2 * lo \<longrightarrow> regression_of name runs = []) \<and>
         (0 < lo \<and> 2 * hi < t \<and> 30 \<le> t - hi \<longrightarrow> (\<exists>r. regression_of name runs = [r] \<and> re_process r = name)) \<and>
         (lo = 0 \<and> hi = 0 \<longrightarrow> regression_of name runs = [])"
proof -
  have "lo \<le> median (map snd earlier) \<and> median (map snd earlier) \<le> hi"
    by (rule median_within [of _ i]) (use assms in auto)
  then show ?thesis
    using assms(1,2)
    by (auto simp: regression_of_def Let_def MIN_PREVIOUS_RUNS_def REGRESSION_FACTOR_def MIN_EXTRA_SECONDS_def)
qed

section \<open>The score\<close>

lemma round_half_even_mono: "x \<le> y \<Longrightarrow> round_half_even x \<le> round_half_even y"
proof -
  assume le: "x \<le> y"
  show ?thesis
  proof (cases "floor x = floor y")
    case True
    with le show ?thesis by (auto simp: round_half_even_def Let_def)
  next
    case False
    with le have "floor x < floor y" using floor_mono [OF le] by simp
    moreover have "round_half_even x \<le> floor x + 1" by (simp add: round_half_even_def Let_def)
    moreover have "floor y \<le> round_half_even y" by (simp add: round_half_even_def Let_def)
    ultimately show ?thesis by simp
  qed
qed

lemma round_half_even_of_int [simp]: "round_half_even (of_int k) = k"
  by (simp add: round_half_even_def)

lemma points_bounds: "0 \<le> each \<Longrightarrow> 0 \<le> cap \<Longrightarrow> 0 \<le> points_for n each cap \<and> points_for n each cap \<le> cap"
  by (simp add: points_for_def)

lemma points_mono: "0 \<le> each \<Longrightarrow> m \<le> n \<Longrightarrow> points_for m each cap \<le> points_for n each cap"
  by (simp add: points_for_def min_le_iff_disj) (meson linorder_le_cases mult_right_mono of_nat_mono order.trans)

definition points_total :: "(string \<times> nat) list \<Rightarrow> rat" where
  "points_total counts = sum_list (map (\<lambda>(key, each, cap). points_for (count_in counts key) each cap) CATEGORIES)"

lemma compute_score_fst: "fst (compute_score counts evidence) = max 0 (round_half_even (100 - points_total counts))"
  by (simp add: compute_score_def Let_def points_total_def)

lemma categories_positive: "(key, each, cap) \<in> set CATEGORIES \<Longrightarrow> 0 < each \<and> 0 < cap"
  by (auto simp: CATEGORIES_def)

lemma points_total_nonneg: "0 \<le> points_total counts"
proof -
  have "0 \<le> (case c of (key, each, cap) \<Rightarrow> points_for (count_in counts key) each cap)" if "c \<in> set CATEGORIES" for c
    using categories_positive [of "fst c" "fst (snd c)" "snd (snd c)"] that by (cases c rule: prod_cases3) (auto simp: points_for_def)
  then show ?thesis unfolding points_total_def by (intro sum_list_nonneg) auto
qed

lemma points_total_mono:
  assumes "\<forall>key. count_in c key \<le> count_in c' key"
  shows "points_total c \<le> points_total c'"
  unfolding points_total_def
proof (rule sum_list_mono)
  fix x assume "x \<in> set CATEGORIES"
  then show "(case x of (key, each, cap) \<Rightarrow> points_for (count_in c key) each cap)
      \<le> (case x of (key, each, cap) \<Rightarrow> points_for (count_in c' key) each cap)"
    using categories_positive assms
    by (cases x rule: prod_cases3) (auto intro!: points_mono simp: less_imp_le)
qed

lemma round_to_tenth_exact: "x * 10 = of_int k \<Longrightarrow> round_to_tenth x = x"
  by (simp add: round_to_tenth_def field_simps)

lemma tenths:
  assumes "(key, each, cap) \<in> set CATEGORIES"
  shows "round_to_tenth (points_for n each cap) = points_for n each cap"
proof -
  have "each * 10 = 5 \<or> (\<exists>m. each * 10 = of_nat (5 * m))" using assms by (auto simp: CATEGORIES_def intro: exI [of _ 1])
  then obtain m where m: "each * 10 = of_nat m" by (metis of_nat_numeral)
  obtain j where j: "cap * 10 = of_nat j"
  proof -
    have "cap \<in> \<nat>" using assms by (auto simp: CATEGORIES_def)
    then show ?thesis using that by (metis Nats_cases of_nat_mult of_nat_numeral)
  qed
  have "\<exists>k. points_for n each cap * 10 = of_int k"
  proof (cases "of_nat n * each \<le> cap")
    case True
    then have "points_for n each cap * 10 = of_nat n * (each * 10)" by (simp add: points_for_def)
    then have "points_for n each cap * 10 = of_int (int (n * m))" by (simp add: m)
    then show ?thesis ..
  next
    case False
    then have "points_for n each cap * 10 = of_int (int j)" by (simp add: points_for_def j)
    then show ?thesis ..
  qed
  then show ?thesis using round_to_tenth_exact by blast
qed

theorem score_bounded_and_monotone:
  shows "0 \<le> fst (compute_score c e) \<and> fst (compute_score c e) \<le> 100 \<and>
         ((\<forall>key. count_in c key \<le> count_in c' key) \<longrightarrow>
            fst (compute_score c' e') \<le> fst (compute_score c e))"
proof -
  have "round_half_even (100 - points_total c) \<le> round_half_even (of_int 100)"
    by (rule round_half_even_mono) (simp add: points_total_nonneg)
  moreover have "round_half_even (100 - points_total c') \<le> round_half_even (100 - points_total c)"
    if "\<forall>key. count_in c key \<le> count_in c' key"
    by (rule round_half_even_mono) (simp add: points_total_mono [OF that])
  ultimately show ?thesis
    unfolding compute_score_fst by (auto simp del: of_int_numeral)
qed

lemma scan_counts_in:
  "count_in (scan_counts cubes processes unused perf) ''critical_rule_findings'' = sum_list (map ca_critical cubes)"
  "count_in (scan_counts cubes processes unused perf) ''process_errors'' = sum_list (map px_errors processes)"
  "count_in (scan_counts cubes processes unused perf) ''rule_warnings'' = sum_list (map ca_warning cubes)"
  "count_in (scan_counts cubes processes unused perf) ''regressions'' = length (pf_regressions perf)"
  "count_in (scan_counts cubes processes unused perf) ''failed_processes'' = length (pf_failures perf)"
  "count_in (scan_counts cubes processes unused perf) ''process_issues'' = sum_list (map issues_of processes)"
  "count_in (scan_counts cubes processes unused perf) ''unused_objects'' = length unused"
  by (simp_all add: scan_counts_def count_in_def)

text \<open>
  What a category counts, in terms of the audits: the entry a deduction may list for it is a
  cube, process or object of the scan with the number of findings it really has there.
\<close>

definition culprit ::
  "cube_audit list \<Rightarrow> process_audit list \<Rightarrow> (string \<times> string) list \<Rightarrow> performance_report \<Rightarrow> string \<Rightarrow> evidence \<Rightarrow> bool" where
  "culprit cubes processes unused perf category = (\<lambda>(kind, name, n).
     category = ''critical_rule_findings'' \<and> kind = ''cube'' \<and> 0 < n \<and>
       (\<exists>c \<in> set cubes. ca_cube c = name \<and> int (ca_critical c) = n) \<or>
     category = ''rule_warnings'' \<and> kind = ''cube'' \<and> 0 < n \<and>
       (\<exists>c \<in> set cubes. ca_cube c = name \<and> int (ca_warning c) = n) \<or>
     category = ''process_errors'' \<and> kind = ''process'' \<and> 0 < n \<and>
       (\<exists>p \<in> set processes. px_process p = name \<and> int (px_errors p) = n) \<or>
     category = ''process_issues'' \<and> kind = ''process'' \<and> 0 < n \<and>
       (\<exists>p \<in> set processes. px_process p = name \<and> int (px_finding_count p - px_errors p) = n) \<or>
     category = ''unused_objects'' \<and> (kind, name) \<in> set unused \<and> n = 1 \<or>
     category = ''failed_processes'' \<and> kind = ''process'' \<and>
       (\<exists>f \<in> set (pf_failures perf). fp_process f = name \<and> int (fp_failed_runs f) = n) \<or>
     category = ''regressions'' \<and> kind = ''process'' \<and>
       (\<exists>r \<in> set (pf_regressions perf). re_process r = name \<and> re_increase_percent r = n))"

text \<open>Two categories count processes, the others what their entries have.\<close>

definition accounted :: "string \<Rightarrow> evidence list \<Rightarrow> nat" where
  "accounted category es =
     (if category \<in> {''failed_processes'', ''regressions''} then length es
      else nat (sum_list (map (\<lambda>(kind, name, n). n) es)))"

lemma sum_list_positive: "sum_list (map (\<lambda>x. int (f x)) (filter (\<lambda>x. 0 < f x) xs)) = int (sum_list (map f xs))"
  by (induction xs) auto

lemma sum_list_issues:
  "sum_list (map (\<lambda>p. int (px_finding_count p - px_errors p)) (filter (\<lambda>p. px_errors p < px_finding_count p) ps)) =
     int (sum_list (map issues_of ps))"
  by (induction ps) (auto simp: issues_of_def)

lemma ones_image: "(\<lambda>x. (fst x, snd x, 1 :: int)) ` A = {(a, b, n). (a, b) \<in> A \<and> n = 1}"
  by force

lemma evidence_of_category:
  assumes "category \<in> fst ` set CATEGORIES"
  obtains es where "map_of (scan_evidence cubes processes unused perf) category = Some es"
    "set es = {e. culprit cubes processes unused perf category e}"
    "accounted category es = count_in (scan_counts cubes processes unused perf) category"
proof -
  have "\<exists>es. map_of (scan_evidence cubes processes unused perf) category = Some es \<and>
      set es = {e. culprit cubes processes unused perf category e} \<and>
      accounted category es = count_in (scan_counts cubes processes unused perf) category"
    using assms unfolding CATEGORIES_def
    by (simp, elim disjE)
       (auto simp: scan_counts_in scan_evidence_def culprit_def accounted_def issues_of_def [abs_def] sum_list_positive
          sum_list_issues [simplified issues_of_def [abs_def]] ones_image comp_def case_prod_beta sum_list_triv)
  with that show thesis by blast
qed

lemma accounted_nil [simp]: "accounted category [] = 0"
  by (simp add: accounted_def)

text \<open>
  C39. A scan's deductions are the seven categories with their counts in the audits, points
  per item and caps (10 up to 40 for a critical rule finding, 5 up to 25 for a process
  error, and so on); each takes its count times the points per item up to the cap, and the
  score is 100 minus the points, rounded and never negative, graded at 90, 75, 60 and 40. A
  deduction that takes points lists evidence, each entry of it names a cube, process or
  object the category counts with the number it has there, and a list of fewer than fifteen
  names them all and adds up to the count.
\<close>

theorem every_point_is_explained:
  assumes "s = scan_of new_id conn org trigger now g perf cubes processes"
    and "unused = (if list_objects g conn None = [] then [] else find_unused_objects g conn org None)"
  shows "map (\<lambda>d. (de_category d, de_count d, de_points_each d, de_cap d)) (sc_deductions s) =
      [(''critical_rule_findings'', sum_list (map ca_critical (au_items cubes)), 10, 40),
       (''process_errors'', sum_list (map px_errors (au_items processes)), 5, 25),
       (''rule_warnings'', sum_list (map ca_warning (au_items cubes)), 2, 15),
       (''regressions'', length (pf_regressions perf), 3, 15),
       (''failed_processes'', length (pf_failures perf), 2, 10),
       (''process_issues'', sum_list (map (\<lambda>p. px_finding_count p - px_errors p) (au_items processes)), 1 / 2, 10),
       (''unused_objects'', length unused, 1 / 2, 5)] \<and>
    (\<forall>d \<in> set (sc_deductions s).
       de_points d = min (of_nat (de_count d) * de_points_each d) (de_cap d) \<and>
       (0 < de_points d \<longrightarrow> de_evidence d \<noteq> []) \<and>
       (\<forall>e \<in> set (de_evidence d). culprit (au_items cubes) (au_items processes) unused perf (de_category d) e) \<and>
       (length (de_evidence d) < 15 \<longrightarrow>
          (\<forall>e. culprit (au_items cubes) (au_items processes) unused perf (de_category d) e \<longrightarrow> e \<in> set (de_evidence d)) \<and>
          accounted (de_category d) (de_evidence d) = de_count d)) \<and>
    sc_score s = max 0 (round_half_even (100 - sum_list (map de_points (sc_deductions s)))) \<and>
    sc_grade s = (if 90 \<le> sc_score s then ''A'' else if 75 \<le> sc_score s then ''B''
                  else if 60 \<le> sc_score s then ''C'' else if 40 \<le> sc_score s then ''D'' else ''F'')"
proof -
  let ?e = "scan_evidence (au_items cubes) (au_items processes) unused perf"
  let ?c = "scan_counts (au_items cubes) (au_items processes) unused perf"
  let ?d = "\<lambda>(key, each, cap).
      \<lparr>de_category = key, de_count = count_in ?c key,
       de_points = round_to_tenth (points_for (count_in ?c key) each cap), de_points_each = each, de_cap = cap,
       de_evidence = take MAX_EVIDENCE (case map_of ?e key of None \<Rightarrow> [] | Some es \<Rightarrow> es)\<rparr>"
  obtain score ds where cs: "compute_score ?c ?e = (score, ds)" by fastforce
  have s: "(sc_score s, sc_deductions s) = compute_score ?c ?e" "sc_grade s = grade (sc_score s)"
    unfolding assms(1) scan_of_def Let_def assms(2) [symmetric] cs by simp_all
  have d: "sc_deductions s = map ?d CATEGORIES"
    using s(1) by (simp add: compute_score_def Let_def)
  have table: "map (\<lambda>d. (de_category d, de_count d, de_points_each d, de_cap d)) (sc_deductions s) =
      [(''critical_rule_findings'', sum_list (map ca_critical (au_items cubes)), 10, 40),
       (''process_errors'', sum_list (map px_errors (au_items processes)), 5, 25),
       (''rule_warnings'', sum_list (map ca_warning (au_items cubes)), 2, 15),
       (''regressions'', length (pf_regressions perf), 3, 15),
       (''failed_processes'', length (pf_failures perf), 2, 10),
       (''process_issues'', sum_list (map (\<lambda>p. px_finding_count p - px_errors p) (au_items processes)), 1 / 2, 10),
       (''unused_objects'', length unused, 1 / 2, 5)]"
    unfolding d CATEGORIES_def by (simp add: scan_counts_in issues_of_def [abs_def])
  have "map de_points (sc_deductions s) = map (\<lambda>(key, each, cap). points_for (count_in ?c key) each cap) CATEGORIES"
    unfolding d by (auto simp: tenths)
  then have score: "sc_score s = max 0 (round_half_even (100 - sum_list (map de_points (sc_deductions s))))"
    using s(1) compute_score_fst [of ?c ?e] by (metis fst_conv points_total_def)
  have "de_points x = min (of_nat (de_count x) * de_points_each x) (de_cap x) \<and>
      (0 < de_points x \<longrightarrow> de_evidence x \<noteq> []) \<and>
      (\<forall>e \<in> set (de_evidence x). culprit (au_items cubes) (au_items processes) unused perf (de_category x) e) \<and>
      (length (de_evidence x) < 15 \<longrightarrow>
         (\<forall>e. culprit (au_items cubes) (au_items processes) unused perf (de_category x) e \<longrightarrow> e \<in> set (de_evidence x)) \<and>
         accounted (de_category x) (de_evidence x) = de_count x)" if x: "x \<in> set (sc_deductions s)" for x
  proof -
    obtain key each cap where c: "(key, each, cap) \<in> set CATEGORIES" "x = ?d (key, each, cap)"
      using x unfolding d by auto
    then have "key \<in> fst ` set CATEGORIES" by force
    then obtain es where es: "map_of ?e key = Some es"
      "set es = {e. culprit (au_items cubes) (au_items processes) unused perf key e}"
      "accounted key es = count_in ?c key"
      by (rule evidence_of_category)
    have x': "de_category x = key" "de_count x = count_in ?c key" "de_evidence x = take 15 es"
      "de_points x = points_for (count_in ?c key) each cap" "de_points_each x = each" "de_cap x = cap"
      using c(2) es(1) tenths [OF c(1)] by (simp_all add: MAX_EVIDENCE_def)
    have "take 15 es = es" if "length (take 15 es) < 15" using that by simp
    moreover have "es \<noteq> []" if "0 < points_for (count_in ?c key) each cap"
      using that es(3) by (auto simp: points_for_def)
    ultimately show ?thesis
      unfolding x' using es(2,3) by (auto simp: points_for_def dest: in_set_takeD)
  qed
  moreover have "sc_grade s = (if 90 \<le> sc_score s then ''A'' else if 75 \<le> sc_score s then ''B''
      else if 60 \<le> sc_score s then ''C'' else if 40 \<le> sc_score s then ''D'' else ''F'')"
    using s(2) by (simp add: grade_def)
  ultimately show ?thesis using table score by blast
qed

section \<open>The scheduled pass\<close>

text \<open>What a pass does to the scans, whatever one scan does to the rest of the state.\<close>

lemma scan_each_scans:
  fixes scans :: "'s \<Rightarrow> health_scan list"
  assumes "\<And>i org s s' r. scan i org s = (s', r) \<Longrightarrow>
      (case r of Inl _ \<Rightarrow> scans s' = scans s
       | Inr _ \<Rightarrow> \<exists>x. scans s' = scans s @ [x] \<and> sc_connection_id x = i \<and> sc_trigger x = ''schedule'')"
    and "scan_each elapsed cutoff scan due (s, p) = (s', p')"
  shows "\<exists>new. scans s' = scans s @ new \<and> (\<forall>x \<in> set new. sc_trigger x = ''schedule'') \<and>
           subseq (map sc_connection_id new) (map (\<lambda>(c, t). cn_id c) (filter (\<lambda>(c, t). t \<le> cutoff) due)) \<and>
           sp_scanned p' = sp_scanned p + length new \<and>
           sp_scanned p' + sp_failed p' + sp_deferred p' =
             sp_scanned p + sp_failed p + sp_deferred p + length (filter (\<lambda>(c, t). t \<le> cutoff) due)"
  using assms(2)
proof (induction due arbitrary: s p)
  case Nil
  then show ?case by (intro exI [of _ "[]"]) auto
next
  case (Cons d due)
  obtain c t where d: "d = (c, t)" by (cases d)
  show ?case
  proof (cases "cutoff < t")
    case True
    then show ?thesis using Cons.IH [of s p] Cons.prems d by auto
  next
    case fresh: False
    show ?thesis
    proof (cases "seconds SCAN_START_BUDGET_SECONDS < elapsed (cn_id c)")
      case True
      then show ?thesis
        using Cons.IH [of s "p\<lparr>sp_deferred := sp_deferred p + 1\<rparr>"] Cons.prems d fresh by fastforce
    next
      case False
      obtain s1 r where s1: "scan (cn_id c) (cn_organization_id c) s = (s1, r)" by fastforce
      show ?thesis
      proof (cases r)
        case (Inl e)
        then show ?thesis
          using Cons.IH [of s1 "p\<lparr>sp_failed := sp_failed p + 1\<rparr>"] Cons.prems d fresh False s1
            assms(1) [OF s1] by fastforce
      next
        case (Inr y)
        then obtain x where x: "scans s1 = scans s @ [x]" "sc_connection_id x = cn_id c" "sc_trigger x = ''schedule''"
          using assms(1) [OF s1] by auto
        have "scan_each elapsed cutoff scan due (s1, p\<lparr>sp_scanned := sp_scanned p + 1\<rparr>) = (s', p')"
          using Cons.prems d fresh False s1 Inr by simp
        from Cons.IH [OF this] obtain new where new: "scans s' = scans s1 @ new"
          "\<forall>x \<in> set new. sc_trigger x = ''schedule''"
          "subseq (map sc_connection_id new) (map (\<lambda>(c, t). cn_id c) (filter (\<lambda>(c, t). t \<le> cutoff) due))"
          "sp_scanned p' = sp_scanned p + 1 + length new"
          "sp_scanned p' + sp_failed p' + sp_deferred p' =
             sp_scanned p + 1 + sp_failed p + sp_deferred p + length (filter (\<lambda>(c, t). t \<le> cutoff) due)"
          by auto
        then show ?thesis using x fresh d by (intro exI [of _ "x # new"]) auto
      qed
    qed
  qed
qed

lemma scan_of_ids [simp]:
  "sc_connection_id (scan_of new_id conn org trigger now g perf cubes processes) = conn"
  "sc_trigger (scan_of new_id conn org trigger now g perf cubes processes) = trigger"
  by (simp_all add: scan_of_def Let_def split_def)

lemma run_health_scan_scans:
  assumes "run_health_scan sd sr a opened who new_id now trigger i org s = (s', r)"
  shows "case r of Inl _ \<Rightarrow> True
         | Inr (x, _) \<Rightarrow> hd_scans (snd s') = hd_scans (snd s) @ [x] \<and> sc_connection_id x = i \<and> sc_trigger x = trigger"
proof (cases r)
  case (Inr y)
  obtain stw d where s: "s = (stw, d)" by (cases s)
  obtain stw1 r1 where c1: "client_for sr a opened i org who stw = (stw1, r1)" by fastforce
  then obtain c client where c: "r1 = Inr (c, client)"
    using assms Inr by (cases r1) (auto simp: run_health_scan_def s)
  have "cn_id c = i"
    using c1 c get_connection_InrD [of a "ts_connections (fst stw)" i org Use who]
    by (cases stw; cases "get_connection a (ts_connections (fst stw)) i org Use who")
       (auto simp: client_for_def map_sum_def split: sum.splits prod.splits)
  then show ?thesis
    using assms Inr c1 c
    by (auto simp: run_health_scan_def s scan_of_ids Let_def bind_result_Inr_iff split: sum.splits prod.splits)
qed simp

lemma scan_in_session_scans:
  assumes "scan_in_session sd sr a opened new_id clock i org s = (s', r)"
  shows "case r of Inl _ \<Rightarrow> hd_scans (snd s') = hd_scans (snd s)
         | Inr _ \<Rightarrow> \<exists>x. hd_scans (snd s') = hd_scans (snd s) @ [x] \<and> sc_connection_id x = i \<and>
                        sc_trigger x = ''schedule''"
proof -
  obtain stw d' r0 where run: "run_health_scan sd sr a opened None (new_id i) (clock i) ''schedule'' i org s = ((stw, d'), r0)"
    by (metis surj_pair)
  show ?thesis
    using assms run_health_scan_scans [OF run]
    by (auto simp: scan_in_session_def run split: sum.splits)
qed

lemma last_scanned_SomeD:
  assumes "last_scanned i scans = Some t"
  shows "\<exists>y \<in> set scans. sc_connection_id y = i"
    and "\<forall>y \<in> set scans. sc_connection_id y = i \<longrightarrow> sc_scanned_at y \<le> t"
proof -
  obtain u us where "map sc_scanned_at (filter (\<lambda>s. sc_connection_id s = i) scans) = u # us" "t = fold max us u"
    using assms by (auto simp: last_scanned_def split: list.splits)
  then have "set (u # us) = sc_scanned_at ` {s \<in> set scans. sc_connection_id s = i}" "t = fold max us u"
    by (metis set_filter set_map)+
  then show "\<exists>y \<in> set scans. sc_connection_id y = i"
    and "\<forall>y \<in> set scans. sc_connection_id y = i \<longrightarrow> sc_scanned_at y \<le> t"
    using Max_ge [of "set (u # us)"] by (auto simp: Max.set_eq_fold [symmetric])
qed

lemma due_scans_ids:
  assumes "distinct (map cn_id (ts_connections st))"
  shows "distinct (map (\<lambda>(c, t). cn_id c) (due_scans st scans))"
proof -
  have due: "distinct (map (\<lambda>(c, t). cn_id c) (List.map_filter (\<lambda>c. map_option (Pair c) (f c)) cs))"
    if "distinct (map cn_id cs)" for f :: "tm1_connection \<Rightarrow> time option" and cs
  proof -
    have "map (\<lambda>(c, t). cn_id c) (List.map_filter (\<lambda>c. map_option (Pair c) (f c)) cs) =
        map cn_id (filter (\<lambda>c. f c \<noteq> None) cs)"
      by (induction cs) (auto simp: List.map_filter_simps split: option.splits)
    then show ?thesis using that by (simp add: distinct_map_filter)
  qed
  have "distinct (map cn_id (filter tm_is_active (ts_connections st)))"
    using assms by (simp add: distinct_map_filter)
  then have "distinct (map (\<lambda>(c, t). cn_id c)
      (List.map_filter (\<lambda>c. map_option (Pair c) (last_scanned (cn_id c) scans)) (filter tm_is_active (ts_connections st))))"
    by (rule due)
  then show ?thesis unfolding due_scans_def
    unfolding distinct_map by simp
qed

text \<open>
  C30. The scheduled pass stores exactly as many new scans as it reports, at most one per
  connection, each of an active connection that was scanned before and whose every earlier
  scan is at least twenty hours old; earlier scans stay.
\<close>

theorem scheduled_scans_are_due:
  assumes "distinct (map cn_id (ts_connections (fst (fst s))))"
    and "scan_due_connections sd sr a opened new_id clock elapsed now s = (s', p)"
  shows "\<exists>new. hd_scans (snd s') = hd_scans (snd s) @ new \<and> sp_scanned p = length new \<and>
           distinct (map sc_connection_id new) \<and>
           (\<forall>x \<in> set new.
              sc_trigger x = ''schedule'' \<and>
              (\<exists>c \<in> set (ts_connections (fst (fst s))). cn_id c = sc_connection_id x \<and> tm_is_active c) \<and>
              (\<exists>y \<in> set (hd_scans (snd s)). sc_connection_id y = sc_connection_id x) \<and>
              (\<forall>y \<in> set (hd_scans (snd s)). sc_connection_id y = sc_connection_id x \<longrightarrow>
                 sc_scanned_at y + seconds (20 * 3600) \<le> now))"
proof -
  let ?cut = "now - seconds (20 * 3600)" and ?due = "due_scans (fst (fst s)) (hd_scans (snd s))"
  have run: "scan_each elapsed ?cut (scan_in_session sd sr a opened new_id clock) ?due
      (s, \<lparr>sp_scanned = 0, sp_failed = 0, sp_deferred = 0\<rparr>) = (s', p)"
    using assms(2) by (simp add: scan_due_connections_def SCAN_MIN_AGE_HOURS_def)
  have step: "case r of Inl _ \<Rightarrow> hd_scans (snd s') = hd_scans (snd s)
         | Inr _ \<Rightarrow> \<exists>x. hd_scans (snd s') = hd_scans (snd s) @ [x] \<and> sc_connection_id x = i \<and>
                        sc_trigger x = ''schedule''"
    if "scan_in_session sd sr a opened new_id clock i org s = (s', r)" for i org s s' r
    using that by (rule scan_in_session_scans)
  have "\<exists>new. hd_scans (snd s') = hd_scans (snd s) @ new \<and> (\<forall>x \<in> set new. sc_trigger x = ''schedule'') \<and>
      subseq (map sc_connection_id new) (map (\<lambda>(c, t). cn_id c) (filter (\<lambda>(c, t). t \<le> ?cut) ?due)) \<and>
      sp_scanned p = sp_scanned \<lparr>sp_scanned = 0, sp_failed = 0, sp_deferred = 0\<rparr> + length new \<and>
      sp_scanned p + sp_failed p + sp_deferred p =
        sp_scanned \<lparr>sp_scanned = 0, sp_failed = 0, sp_deferred = 0\<rparr> +
        sp_failed \<lparr>sp_scanned = 0, sp_failed = 0, sp_deferred = 0\<rparr> +
        sp_deferred \<lparr>sp_scanned = 0, sp_failed = 0, sp_deferred = 0\<rparr> +
        length (filter (\<lambda>(c, t). t \<le> ?cut) ?due)"
    using run by (rule scan_each_scans [where scans = "\<lambda>s. hd_scans (snd s)", rotated]) (erule step)
  then obtain new where new: "hd_scans (snd s') = hd_scans (snd s) @ new" "\<forall>x \<in> set new. sc_trigger x = ''schedule''"
      "subseq (map sc_connection_id new) (map (\<lambda>(c, t). cn_id c) (filter (\<lambda>(c, t). t \<le> ?cut) ?due))"
      "sp_scanned p = length new"
    by auto
  have "distinct (map (\<lambda>(c, t). cn_id c) (filter (\<lambda>(c, t). t \<le> ?cut) ?due))"
    by (rule distinct_map_filter [OF due_scans_ids [OF assms(1)]])
  then have "distinct (map sc_connection_id new)" using new(3) by (auto simp: subseq_conv_nths)
  moreover have "(\<exists>c \<in> set (ts_connections (fst (fst s))). cn_id c = i \<and> tm_is_active c) \<and>
      (\<exists>y \<in> set (hd_scans (snd s)). sc_connection_id y = i) \<and>
      (\<forall>y \<in> set (hd_scans (snd s)). sc_connection_id y = i \<longrightarrow> sc_scanned_at y + seconds (20 * 3600) \<le> now)"
    if "i \<in> set (map sc_connection_id new)" for i
  proof -
    have "set (map sc_connection_id new) \<subseteq> set (map (\<lambda>(c, t). cn_id c) (filter (\<lambda>(c, t). t \<le> ?cut) ?due))"
      using new(3) unfolding subseq_conv_nths by (metis set_nths_subset)
    with that have "i \<in> set (map (\<lambda>(c, t). cn_id c) (filter (\<lambda>(c, t). t \<le> ?cut) ?due))" by blast
    then obtain c t where c: "(c, t) \<in> set ?due" "t \<le> ?cut" "cn_id c = i" by auto
    then have "c \<in> set (ts_connections (fst (fst s)))" "tm_is_active c"
      "last_scanned i (hd_scans (snd s)) = Some t"
      by (auto simp: due_scans_def List.map_filter_def)
    then show ?thesis using c last_scanned_SomeD [of i "hd_scans (snd s)" t] by fastforce
  qed
  ultimately show ?thesis using new(1,2,4) by (intro exI [of _ new]) auto
qed

section \<open>Unreadable rules\<close>

text \<open>
  A process that cannot be read counts as an error; a cube whose rules cannot be read counts
  nothing. With every cube unreadable the check says there are no findings.
\<close>

lemma unreadable_rules_go_unnoticed:
  assumes "ms_cubes_with_rules ms = Inr names" and "\<And>c. \<exists>e. ms_cube_rules ms c = Inl e"
  shows "\<exists>h. run_model_health_check scraped known False version ms = Inr h \<and> hc_verdict h = NoFindings \<and>
           au_analysed (hc_cubes h) = min MAX_CUBES (length names)"
proof -
  have none: "ca_critical c = 0 \<and> ca_warning c = 0" if "audit_cube ms cube = Some c" for cube c
    using assms(2) [of cube] that by (auto simp: audit_cube_def)
  then have "\<forall>c \<in> set (List.map_filter (audit_cube ms) (take MAX_CUBES names)). ca_critical c = 0 \<and> ca_warning c = 0"
    by (force simp: List.map_filter_def)
  then show ?thesis
    by (simp add: run_model_health_check_def audit_rules_def assms(1) Let_def verdict_of_def empty_process_report_def
        min.commute)
qed

section \<open>Witnesses\<close>

definition demo_run :: "time \<Rightarrow> rat \<Rightarrow> process_run" where
  "demo_run u t = \<lparr>pr_connection_id = ''k1'', pr_process_name = ''Load'', pr_finished_at = u,
     pr_elapsed_seconds = Some t, pr_outcome = ''succeeded'', pr_source = ''message_log''\<rparr>"

lemma demo_timed:
  "timed_runs (map (\<lambda>(u, t). demo_run u t) xs @ [demo_run u t]) =
     map (\<lambda>(u, t). (demo_run u t, t)) xs @ [(demo_run u t, t)]"
  by (induction xs) (auto simp: timed_runs_def demo_run_def List.map_filter_simps)

theorem one_outlier_decides_nothing_witness:
  "regression_of ''Load'' (map (\<lambda>(u, t). demo_run u t) [(1, 10), (2, 500), (3, 12)] @ [demo_run 4 20]) = [] \<and>
   regression_of ''Load'' (map (\<lambda>(u, t). demo_run u t) [(1, 10), (2, 500), (3, 12)] @ [demo_run 4 100]) \<noteq> [] \<and>
   regression_of ''Load'' (map (\<lambda>(u, t). demo_run u t) [(1, 0), (2, 500), (3, 0)] @ [demo_run 4 1000]) = []"
proof -
  let ?e = "map (\<lambda>(u, t). (demo_run u t, t)) [(1, 10), (2, 500), (3, 12)]"
  let ?z = "map (\<lambda>(u, t). (demo_run u t, t)) [(1, 0), (2, 500), (3, 0)]"
  have within: "\<forall>j < length ?e. j \<noteq> 1 \<longrightarrow> 10 \<le> snd (?e ! j) \<and> snd (?e ! j) \<le> 12"
    "\<forall>j < length ?z. j \<noteq> 1 \<longrightarrow> 0 \<le> snd (?z ! j) \<and> snd (?z ! j) \<le> 0"
    by (auto simp: less_Suc_eq numeral_3_eq_3)
  have len: "3 \<le> length ?e" "1 < length ?e" "3 \<le> length ?z" "1 < length ?z" by simp_all
  note fast = one_outlier_decides_nothing [OF demo_timed [where u = 4 and t = 20] len(1,2) within(1)]
  note slow = one_outlier_decides_nothing [OF demo_timed [where u = 4 and t = 100] len(1,2) within(1)]
  note zero = one_outlier_decides_nothing [OF demo_timed [where u = 4 and t = 1000] len(3,4) within(2)]
  show ?thesis using fast [of "''Load''"] slow [of "''Load''"] zero [of "''Load''"] by auto
qed

theorem score_bounded_and_monotone_witness:
  "fst (compute_score [(''process_errors'', 3)] []) \<le> fst (compute_score [(''process_errors'', 1)] []) \<and>
   fst (compute_score [(''process_errors'', 1)] []) \<le> 100"
  using score_bounded_and_monotone [of "[(''process_errors'', 1)]" "[]" "[(''process_errors'', 3)]" "[]"]
  by (simp add: count_in_def)

definition no_runs :: performance_report where
  "no_runs = \<lparr>pf_runs_known = 0, pf_processes_seen = 0, pf_regressions = [], pf_slowest = [], pf_failures = []\<rparr>"

definition one_bad_process :: "process_audit audit" where
  "one_bad_process = \<lparr>au_analysed = 2, au_truncated = False,
     au_items = [\<lparr>px_process = ''Load'', px_errors = 3, px_finding_count = 4, px_error = None,
                   px_complexity = None, px_findings = []\<rparr>,
                 \<lparr>px_process = ''Tidy'', px_errors = 0, px_finding_count = 1, px_error = None,
                   px_complexity = None, px_findings = []\<rparr>]\<rparr>"

abbreviation bad_scan :: health_scan where
  "bad_scan \<equiv> scan_of ''s1'' ''k1'' ''o1'' ''manual'' 0 \<lparr>g_objects = [], g_relationships = []\<rparr> no_runs
       \<lparr>au_analysed = 0, au_truncated = False, au_items = []\<rparr> one_bad_process"

lemma bad_scan_evidence:
  "map (\<lambda>d. (de_category d, de_points d, de_evidence d)) (filter (\<lambda>d. 0 < de_points d) (sc_deductions bad_scan)) =
     [(''process_errors'', 15, [(''process'', ''Load'', 3)]),
      (''process_issues'', 1, [(''process'', ''Load'', 1), (''process'', ''Tidy'', 1)])]"
  by code_simp

theorem every_point_is_explained_witness:
  "sc_score bad_scan = 84 \<and> sc_grade bad_scan = ''B'' \<and>
   (\<exists>d \<in> set (sc_deductions bad_scan). de_category d = ''process_errors'' \<and> de_points d = 15 \<and>
      set (de_evidence d) = {(''process'', ''Load'', 3)} \<and>
      \<not> culprit [] (au_items one_bad_process) [] no_runs ''process_errors'' (''process'', ''Tidy'', 0))"
proof -
  note explained = every_point_is_explained [where s = bad_scan, OF refl refl]
  have score: "sc_score bad_scan = 84" by code_simp
  obtain d where d: "d \<in> set (sc_deductions bad_scan)" "de_category d = ''process_errors''" "de_points d = 15"
    "de_evidence d = [(''process'', ''Load'', 3)]"
  proof -
    have "(''process_errors'', 15, [(''process'', ''Load'', 3)]) \<in>
        set (map (\<lambda>d. (de_category d, de_points d, de_evidence d)) (filter (\<lambda>d. 0 < de_points d) (sc_deductions bad_scan)))"
      unfolding bad_scan_evidence by simp
    with that show thesis by auto
  qed
  have only: "culprit [] (au_items one_bad_process) [] no_runs ''process_errors'' e \<Longrightarrow> e = (''process'', ''Load'', 3)" for e
    using bspec [OF explained [THEN conjunct2, THEN conjunct1] d(1)] by (cases e) (simp add: d(2,4) list_objects_def)
  have "sc_grade bad_scan = ''B''"
    using explained [THEN conjunct2, THEN conjunct2, THEN conjunct2] by (simp add: score)
  with score d only [of "(''process'', ''Tidy'', 0)"] show ?thesis by auto
qed

definition old_scan :: health_scan where
  "old_scan = (scan_of ''s1'' ''k1'' ''o1'' ''manual'' 0 \<lparr>g_objects = [], g_relationships = []\<rparr> no_runs
     \<lparr>au_analysed = 0, au_truncated = False, au_items = []\<rparr> one_bad_process)"

definition empty_server :: model_server where
  "empty_server = \<lparr>ms_cubes_with_rules = Inr [], ms_cube_rules = (\<lambda>_. Inr None), ms_processes = Inr [],
     ms_process = (\<lambda>_. Inl NotFound)\<rparr>"

definition demo_surroundings :: "(unit, unit) surroundings" where
  "demo_surroundings = \<lparr>sd_functions = [], sd_known = (\<lambda>_. True), sd_reads = (\<lambda>_ _. empty_server),
     sd_logs = (\<lambda>_ _. \<lparr>sv_log_runs = Inr [], sv_elements = (\<lambda>_. Inr 0), sv_users = Inr []\<rparr>)\<rparr>"

definition scanned_before :: "(unit tm1_state \<times> unit) \<times> health_db" where
  "scanned_before = ((demo_state, ()),
     \<lparr>hd_monitor = \<lparr>mo_rules = [], mo_alerts = [], mo_runs = [], mo_changes = [], mo_extractions = []\<rparr>,
      hd_graph = \<lparr>g_objects = [], g_relationships = []\<rparr>, hd_scans = [old_scan]\<rparr>)"

theorem scheduled_scans_are_due_witness:
  "\<exists>s' p new. scan_due_connections demo_surroundings demo_surrounds conn_accounts (\<lambda>_ _ bs w. (bs, w, Inr ()))
       (\<lambda>i. i @ ''s'') (\<lambda>_. seconds 100000) (\<lambda>_. 0) (seconds 100000) scanned_before = (s', p) \<and>
     hd_scans (snd s') = old_scan # new \<and> sp_scanned p = length new \<and> distinct (map sc_connection_id new)"
proof -
  obtain s' p where run: "scan_due_connections demo_surroundings demo_surrounds conn_accounts (\<lambda>_ _ bs w. (bs, w, Inr ()))
       (\<lambda>i. i @ ''s'') (\<lambda>_. seconds 100000) (\<lambda>_. 0) (seconds 100000) scanned_before = (s', p)"
    by fastforce
  have "distinct (map cn_id (ts_connections (fst (fst scanned_before))))"
    using demo_state_ok by (simp add: scanned_before_def connections_ok_def)
  from scheduled_scans_are_due [OF this run] run show ?thesis
    by (auto simp: scanned_before_def)
qed

end
