(* ===== verification/Spec2Isabelle.thy ===== *)
theory Spec2Isabelle
  imports ReportProperties WorkerProperties RateLimit Resilience Impact ChangeProperties
    SessionProperties GovernanceProperties ChatProperties MonitorProperties DraftProperties TiProperties MapProperties
    RulesProperties ConnectionProperties GatewayProperties TiCheckProperties HealthProperties
begin

text \<open>
  PAcopilot, an assistant for IBM Planning Analytics (TM1): the part of its Python
  backend, \<open>src/backend/src\<close>, that keeps state and decides. File names below are
  relative to that directory.

  \<^bold>\<open>The program.\<close> A FastAPI application over PostgreSQL. A request runs inside
  \<open>get_db\<close>: what it wrote is committed when the handler returns and rolled back when it
  raises. Organizations own users, roles, TM1 connections and everything else. The parts
  that are modelled, and how they call each other:

  \<^item> \<^bold>\<open>Report automation\<close> (\<open>reports\<close>, \<open>api/v1/worker.py\<close>, \<open>api/v1/reports.py\<close>): report
    executions are queued, claimed by Windows workers under leases, finished, retried and
    reaped.
  \<^item> \<^bold>\<open>Model changes\<close> (\<open>tm1/deployment/change_service.py\<close>): drafts of rules, processes and
    subsets are executed on the TM1 server, verified, restored or rolled back.
  \<^item> \<^bold>\<open>Governance\<close> (\<open>tm1/governance.py\<close>): which person may execute which change on which
    environment; it asks the accounts for permissions and the changes for their authors.
  \<^item> \<^bold>\<open>Accounts and sessions\<close> (\<open>services\<close>, \<open>repositories\<close>): users, roles, permissions,
    sign-in, tokens and their revocation.
  \<^item> \<^bold>\<open>The dependency map\<close> (\<open>tm1/metadata\<close>, \<open>tm1/impact\<close>, \<open>tm1/ti/parser.py\<close>): objects and
    relationships of a connection as an extraction reads them from the server, what depends on what, how severely a change affects it, and the history of
    extractions.
  \<^item> \<^bold>\<open>The assistant\<close> (\<open>ai\<close>): a chat turn picks a model, reserves quota, asks the provider in
    rounds, runs the tools it asks for, and accounts for the tokens; the same turn exists as a
    stream.
  \<^item> \<^bold>\<open>Monitoring\<close> (\<open>services/monitoring_rules_service.py\<close>): rules checked on a schedule
    against the server, the run history, the extractions and the changes; alerts and emails.
  \<^item> \<^bold>\<open>Connections and gateways\<close> (\<open>tm1/service.py\<close>, \<open>tm1/client\<close>, \<open>tm1/gateway\<close>): who may
    store which TM1 server with which credentials, and the relay through which a gateway inside
    a customer's network asks TM1.
  \<^item> \<^bold>\<open>Code checks\<close> (\<open>tm1/rules\<close>, \<open>tm1/ti\<close>, \<open>tm1/functions\<close>): what rules and processes do wrong.
  \<^item> \<^bold>\<open>Rate limiting and resilience\<close> (\<open>core/rate_limit.py\<close>, \<open>tm1/resilience.py\<close>): sliding
    windows for requests, circuit breakers and retries for TM1 calls.

  \<^bold>\<open>How the code appears.\<close> A table row is a record with the columns the code reads, a table
  a list of rows with the queries of its repository as functions; a unique constraint makes
  the insert fail. \<open>raise\<close> is \<open>Inl\<close> of an \<open>exn\<close> (\<open>Prelude\<close>), a return \<open>Inr\<close>. Time is an
  integer of microseconds, UUIDs and texts are strings, floats and decimals exact rationals
  or reals. Random identifiers, clocks, hashes, the JWT and TM1py libraries, the model
  provider, Redis and SMTP are parameters: functions given to the definitions, with what the
  code relies on as hypotheses of the theorems. Log lines and texts for people are left out.

  \<^bold>\<open>Theories.\<close>

  \<^item> \<open>Prelude\<close>: identifiers, time, exceptions, JSON, Python's string functions, list lemmas.
  \<^item> \<open>ReportEnums\<close> (\<open>reports/enums.py\<close>, \<open>errors.py\<close>, \<open>state_machine.py\<close>; locales
    \<open>string_enum\<close> and \<open>status_machine\<close>), \<open>ReportTables\<close> (models and repositories; locale
    \<open>keyed_table\<close>), \<open>ReportWorkers\<close> (\<open>worker_service.py\<close>, \<open>worker_credentials.py\<close>),
    \<open>ReportExecutions\<close> (\<open>execution_service.py\<close>), \<open>ReportLifecycle\<close> (what its operations do to
    the rows), \<open>ReportApi\<close> (the requests as transactions and the step relation
    \<open>report_step\<close>), \<open>ReportDemo\<close> (concrete rows), \<open>ReportProperties\<close> and
    \<open>WorkerProperties\<close>.
  \<^item> \<open>ChangeModel\<close> (a draft's data and the TM1 client), \<open>ChangeService\<close>, \<open>ChangeProperties\<close>.
  \<^item> \<open>Accounts\<close> (tables and queries), \<open>AccessControl\<close> (role, permission and user services with
    their requests), \<open>AccessProperties\<close>; \<open>Sessions\<close> (\<open>auth_service.py\<close>, \<open>jwt_service.py\<close>,
    \<open>token_revocation_service.py\<close>), \<open>SessionProperties\<close>; \<open>Governance\<close>,
    \<open>GovernanceProperties\<close>.
  \<^item> \<open>ChangeDraft\<close> (\<open>create_change\<close> with the checks of every kind of draft, the open-draft index,
    the preview), \<open>DraftProperties\<close>.
  \<^item> \<open>DependencyGraph\<close> (\<open>dependency_analyzer.py\<close> and its tables), \<open>Impact\<close>
    (\<open>impact/analyzer.py\<close>), \<open>History\<close> (\<open>metadata/history.py\<close>).
  \<^item> \<open>TiParser\<close> (\<open>ti/parser.py\<close>), \<open>TiProperties\<close>; \<open>MapExtraction\<close> (\<open>metadata/extractor.py\<close>,
    \<open>reference_parser.py\<close>), \<open>MapSpec\<close> (the map by name as a specification, and its refinement by
    the extraction), \<open>MapProperties\<close> (refreshing one process).
  \<^item> \<open>AiRouting\<close> (\<open>ai/schemas.py\<close>, \<open>routing.py\<close>, \<open>pricing.py\<close>, \<open>billing/plans.py\<close>),
    \<open>Orchestrator\<close>, \<open>ChatTurn\<close> and \<open>StreamTurn\<close> (\<open>ai/orchestrator.py\<close>: quota and tools, the
    plain turn, the streamed turn), \<open>ChatProperties\<close>.
  \<^item> \<open>Monitoring\<close>, \<open>MonitorProperties\<close>.
  \<^item> \<open>RateLimit\<close> (locale \<open>window_store\<close> for the two stores of the window) and \<open>Resilience\<close>.
  \<^item> \<open>CubeRules\<close> (\<open>rules/parser.py\<close>, \<open>rules/analysis.py\<close>), \<open>RulesProperties\<close>; \<open>TiChecks\<close>
    (\<open>deployment/ti_analysis.py\<close>, \<open>functions/__init__.py\<close>, \<open>ti/review.py\<close>), \<open>TiCheckProperties\<close>.
  \<^item> \<open>Connections\<close> (\<open>tm1/addressing.py\<close>, \<open>tm1/service.py\<close>, \<open>client/connection_manager.py\<close>,
    \<open>gateway/service.py\<close> and their requests), \<open>ConnectionProperties\<close>; \<open>GatewayRelay\<close>
    (\<open>gateway/relay.py\<close> and the gateway program \<open>src/gateway/pa_gateway.py\<close>),
    \<open>GatewayProperties\<close> (locale \<open>relay_broker\<close> for its two brokers).
  \<^item> \<open>HealthScore\<close> (\<open>ai/tools/tm1/health.py\<close>, \<open>tm1/health\<close>), \<open>HealthProperties\<close>.

  \<^bold>\<open>What is shown.\<close> Over all request sequences: executions are claimed once, keep their key
  and only move forward; changes are applied once and well-formed; Super Admins are made by
  Super Admins only; spent or ended sessions stay so; revoked worker tokens stay refused; a
  monitoring occurrence alerts once and scheduled passes wait for a rule's interval.
  Per operation: the two-person rule, refused changes touch nothing, rollback restores, the
  windows never admit more than their limit, the breaker refines its specification, the graph
  search is exact, the stream equals the plain turn, turns stay within their tools and bounds;
  an extraction writes the map the server's state calls for, and a refresh what an extraction
  would (for a created process, but for what calls it); the parser reports exactly the calls
  in the code and reads literals back; rules are
  read back as written and the analysis agrees with the trace of a cell; the static analysis
  reports exactly the undefined names; stored credentials stay where they were saved for, and a
  request through the gateway is the request itself; every point of a health score is explained
  and scheduled scans are due.
  Some theorems show where the code does not do what its texts say.

  \<^bold>\<open>Bounds and fuel.\<close> The reaper handles at most 50 rows of a kind in one pass (its query
  limit), which the theorems about it assume. The tool loops recurse on the remaining rounds, at
  most 15. The search for a user name is a \<open>partial_function\<close>, shown to end. The graph
  search terminates by the objects not yet visited. All other loops are structural.

  \<^bold>\<open>Not modelled.\<close> Storage of report files, \<open>.pro\<close> exports of processes, TM1py, the gateway
  program's set-up, the knowledge base and embeddings, prompt texts and most of the assistant's
  tools, the command center, incidents and work items, the frontend and the worker agent: they
  are adapters around services outside the repository or texts, or are left for later.
  Concurrency inside PostgreSQL is modelled only where the code relies on it
  (\<open>insert_or_recover\<close>, conflicts of unique keys).
\<close>

end
